(* ===== verification/Go_Prelude.thy ===== *)
theory Go_Prelude
  imports Main "HOL-Library.Word"
begin

text \<open>
  Shared vocabulary of the development: the machine integers of Go, the outcomes of a Go call
  (a value, an error value, a run-time panic, or no return at all), the state-passing combinators
  the components are written with, the fixed-width big- and little-endian codecs of the package
  \<^verbatim>\<open>encoding/binary\<close>, and the part of \<^verbatim>\<open>bytes.Buffer\<close> the driver uses.
\<close>

unbundle bit_operations_syntax

named_theorems go_monad \<open>unfolding of the state-passing combinators\<close>
named_theorems codec \<open>fixed-width integer codecs\<close>

section \<open>Integers\<close>

type_synonym byte = "8 word"
type_synonym u16 = "16 word"
type_synonym u32 = "32 word"
type_synonym u64 = "64 word"

text \<open>A byte slice that may be nil.\<close>

type_synonym nslice = "byte list option"

text \<open>A nil slice reads as an empty one.\<close>

definition slice_bytes :: "nslice \<Rightarrow> byte list" where
  "slice_bytes x = (case x of None \<Rightarrow> [] | Some bs \<Rightarrow> bs)"

text \<open>\<open>int64(x)\<close> of a mathematical integer: reduction into the signed 64-bit range.\<close>

definition to_i64 :: "int \<Rightarrow> int" where
  "to_i64 x = sint (word_of_int x :: u64)"

lemma to_i64_id: "- (2 ^ 63) \<le> x \<Longrightarrow> x < 2 ^ 63 \<Longrightarrow> to_i64 x = x"
  by (simp add: to_i64_def signed_of_int signed_take_bit_int_eq_self)

lemma to_i64_abs: "0 \<le> x \<Longrightarrow> x < 2 ^ 63 \<Longrightarrow> to_i64 x = x \<and> to_i64 (- x) = - x"
  using to_i64_id [of x] to_i64_id [of "- x"] by simp

section \<open>Outcomes of a call\<close>

text \<open>
  One datatype names every error value the modelled code returns. Errors whose text carries
  numbers keep those numbers.
\<close>

datatype go_error =
    EOF
  | ShortRead nat int                 \<comment> \<open>read fewer bytes than requested\<close>
  | InvalidSize int                   \<comment> \<open>GetInt64: size outside 0..8\<close>
  | InvalidUnread                     \<comment> \<open>bytes.Buffer.UnreadByte without a preceding read\<close>
  | ClosedConnection
  | ErrConnReset
  | ErrBadConn
  | AbnormalPacket byte
  | InvalidPacket byte
  | UnsupportedPacket byte
  | NotDataPacket
  | NetError nat                      \<comment> \<open>an error of the operating system's network stack\<close>
  | NegoError nat                     \<comment> \<open>an error of the negotiated crypto layer\<close>
  | InvalidNumber
  | Overflow
  | ShortBuffer nat nat               \<comment> \<open>a buffer shorter than the format needs\<close>
  | UnsupportedType                   \<comment> \<open>a Go type the conversion does not handle\<close>
  | NotAPointer
  | NegoTypeMismatch int int          \<comment> \<open>advanced negotiation: type received, type expected\<close>
  | NegoInvalidHeader                 \<comment> \<open>advanced negotiation: length does not fit the type\<close>
  | NegoSupervisor                    \<comment> \<open>advanced negotiation: bad array preamble\<close>
  | NoServers                         \<comment> \<open>no available servers to connect to\<close>
  | NoAddress                         \<comment> \<open>no address passed in connection string\<close>
  | UnknownProtocol "byte list"
  | ConnectionRefused                 \<comment> \<open>connection refused due to unknown reason\<close>
  | Refused int                       \<comment> \<open>a refuse packet, with the Oracle error code\<close>
  | ServerOnly                        \<comment> \<open>row ids are returned from the server only\<close>
  | AbnormalDate                      \<comment> \<open>abnormal data representation for date/time\<close>
  | ShortInterval                     \<comment> \<open>interval data length is too short\<close>
  | UnsupportedInterval u16           \<comment> \<open>a type id that is not an interval\<close>
  | ParseError "byte list"            \<comment> \<open>strconv.ParseInt and ParseUint: syntax or range\<close>
  | OracleErr int "byte list" int     \<comment> \<open>an error of the server: code, message, position\<close>
  | TTCCode byte                      \<comment> \<open>TTC error: unexpected message code while reading a response\<close>
  | MessageCodeError byte byte        \<comment> \<open>message code received and expected\<close>
  | UnsupportedServer byte            \<comment> \<open>unsupported protocol server version\<close>
  | UnsupportedCharset int            \<comment> \<open>a charset the driver has no converter for\<close>
  | ShortCaps                         \<comment> \<open>server compile time caps length less than 8\<close>
  | EmptyLocator                      \<comment> \<open>call lob operation on an empty locator\<close>
  | TTCError                          \<comment> \<open>opening a temporary LOB twice\<close>
  | InvalidPath "byte list"           \<comment> \<open>a file path that is not dirname/filename\<close>
  | NotInitialized                    \<comment> \<open>BFile is not initialized\<close>
  | BadTimeZone                       \<comment> \<open>incorrect format for DBTimeZone\<close>
  | ClosedObject                      \<comment> \<open>invalid operation on closed object\<close>
  | VectorType                        \<comment> \<open>unexpected data for vector type\<close>
  | VectorVersion int                 \<comment> \<open>vector version not supported\<close>
  | VectorFormat int                  \<comment> \<open>unsupported format for vector type\<close>
  | NoCoder int                       \<comment> \<open>no parameter coder registered for an Oracle type\<close>
  | NoNamedCoder "byte list"          \<comment> \<open>no parameter coder registered for a type name\<close>
  | RowIDType u16                     \<comment> \<open>ROWID decoder called with unsupported data type\<close>
  | ReturningRows                     \<comment> \<open>more than one row affected with return clause\<close>
  | NotRefCursor                      \<comment> \<open>RefCursor parameter should contain pointer to RefCursor struct\<close>
  | BulkArray                         \<comment> \<open>error in encoding bulk exec array parameter\<close>
  | NoResultSet                       \<comment> \<open>query returned no result set\<close>
  | UndefinedParameter "byte list"    \<comment> \<open>parameter is not defined in parameter list\<close>
  | ScanCount                         \<comment> \<open>mismatching between Scan function input count and column count\<close>

datatype 'a res = Ok 'a | Err go_error | Panic

text \<open>Sequencing of pure calls.\<close>

definition rbind :: "'a res \<Rightarrow> ('a \<Rightarrow> 'b res) \<Rightarrow> 'b res" where
  "rbind m f = (case m of Ok a \<Rightarrow> f a | Err e \<Rightarrow> Err e | Panic \<Rightarrow> Panic)"

lemma rbind_simps [simp]: "rbind (Ok a) f = f a" "rbind (Err e) f = Err e" "rbind Panic f = Panic"
  by (simp_all add: rbind_def)

lemma rbind_assoc: "rbind (rbind m f) g = rbind m (\<lambda>a. rbind (f a) g)"
  by (cases m) simp_all

lemma rbind_Ok_iff: "rbind m f = Ok b \<longleftrightarrow> (\<exists>a. m = Ok a \<and> f a = Ok b)"
  by (cases m) simp_all

lemma rbind_OkE:
  assumes "rbind m f = Ok b"
  obtains a where "m = Ok a" and "f a = Ok b"
  using assms by (auto simp: rbind_Ok_iff)

text \<open>
  A Go method with receiver state \<open>'s\<close>: \<open>None\<close> means that the call does not return.
\<close>

type_synonym ('s, 'a) gom = "'s \<Rightarrow> ('a res \<times> 's) option"

definition gret :: "'a \<Rightarrow> ('s, 'a) gom" where
  [go_monad]: "gret a = (\<lambda>s. Some (Ok a, s))"

definition gerr :: "go_error \<Rightarrow> ('s, 'a) gom" where
  [go_monad]: "gerr e = (\<lambda>s. Some (Err e, s))"

definition gpanic :: "('s, 'a) gom" where
  [go_monad]: "gpanic = (\<lambda>s. Some (Panic, s))"

definition gbind :: "('s, 'a) gom \<Rightarrow> ('a \<Rightarrow> ('s, 'b) gom) \<Rightarrow> ('s, 'b) gom" where
  "gbind m f = (\<lambda>s. Option.bind (m s) (\<lambda>(r, s').
     case r of Ok a \<Rightarrow> f a s' | Err e \<Rightarrow> Some (Err e, s') | Panic \<Rightarrow> Some (Panic, s')))"

text \<open>\<open>_, _ = f()\<close>: the error is discarded by the caller; a panic still propagates.\<close>

definition gignore :: "('s, 'a) gom \<Rightarrow> ('s, 'a option) gom" where
  "gignore m = (\<lambda>s. Option.bind (m s) (\<lambda>(r, s').
     case r of Ok a \<Rightarrow> Some (Ok (Some a), s') | Err e \<Rightarrow> Some (Ok None, s') | Panic \<Rightarrow> Some (Panic, s')))"

definition gget :: "('s \<Rightarrow> 'a) \<Rightarrow> ('s, 'a) gom" where
  [go_monad]: "gget f = (\<lambda>s. Some (Ok (f s), s))"

definition gupd :: "('s \<Rightarrow> 's) \<Rightarrow> ('s, unit) gom" where
  [go_monad]: "gupd f = (\<lambda>s. Some (Ok (), f s))"

definition gseq :: "('s, 'a) gom \<Rightarrow> ('s, 'b) gom \<Rightarrow> ('s, 'b) gom" where
  [go_monad]: "gseq m n = gbind m (\<lambda>_. n)"

text \<open>\<open>x, err = f()\<close> with the error looked at later: the value is zero when \<open>f\<close> fails.\<close>

definition gtry :: "'a \<Rightarrow> ('s, 'a) gom \<Rightarrow> ('s, 'a \<times> go_error option) gom" where
  "gtry zero m = (\<lambda>s. Option.bind (m s) (\<lambda>(r, s').
     case r of Ok a \<Rightarrow> Some (Ok (a, None), s') | Err e \<Rightarrow> Some (Ok (zero, Some e), s') | Panic \<Rightarrow> Some (Panic, s')))"

text \<open>\<open>x.f, err = g(); if err != nil { return err }\<close>: the field is assigned in either case.\<close>

definition gassign :: "'a \<Rightarrow> ('s, 'a) gom \<Rightarrow> ('a \<Rightarrow> 's \<Rightarrow> 's) \<Rightarrow> ('s, unit) gom" where
  "gassign zero m upd = (\<lambda>s. Option.bind (m s) (\<lambda>(r, s').
     case r of Ok a \<Rightarrow> Some (Ok (), upd a s') | Err e \<Rightarrow> Some (Err e, upd zero s') | Panic \<Rightarrow> Some (Panic, s')))"

text \<open>A counted loop whose body does not use the counter.\<close>

primrec grepeat :: "nat \<Rightarrow> ('s, 'a) gom \<Rightarrow> ('s, unit) gom" where
  "grepeat 0 m = gret ()"
| "grepeat (Suc n) m = gseq m (grepeat n m)"

definition gwhen :: "bool \<Rightarrow> ('s, unit) gom \<Rightarrow> ('s, unit) gom" where
  "gwhen b m = (if b then m else gret ())"

lemma gbind_simps [simp]:
  "m s = Some (Ok a, s') \<Longrightarrow> gbind m f s = f a s'"
  "m s = Some (Err e, s') \<Longrightarrow> gbind m f s = Some (Err e, s')"
  "m s = Some (Panic, s') \<Longrightarrow> gbind m f s = Some (Panic, s')"
  "m s = None \<Longrightarrow> gbind m f s = None"
  by (simp_all add: gbind_def)

lemma gignore_simps [simp]:
  "m s = Some (Ok a, s') \<Longrightarrow> gignore m s = Some (Ok (Some a), s')"
  "m s = Some (Err e, s') \<Longrightarrow> gignore m s = Some (Ok None, s')"
  "m s = Some (Panic, s') \<Longrightarrow> gignore m s = Some (Panic, s')"
  by (simp_all add: gignore_def)

lemma gtry_simps [simp]:
  "m s = Some (Ok a, s') \<Longrightarrow> gtry z m s = Some (Ok (a, None), s')"
  "m s = Some (Err e, s') \<Longrightarrow> gtry z m s = Some (Ok (z, Some e), s')"
  "m s = Some (Panic, s') \<Longrightarrow> gtry z m s = Some (Panic, s')"
  by (simp_all add: gtry_def)

lemma gassign_simps [simp]:
  "m s = Some (Ok a, s') \<Longrightarrow> gassign z m upd s = Some (Ok (), upd a s')"
  "m s = Some (Err e, s') \<Longrightarrow> gassign z m upd s = Some (Err e, upd z s')"
  "m s = Some (Panic, s') \<Longrightarrow> gassign z m upd s = Some (Panic, s')"
  by (simp_all add: gassign_def)

lemma gbind_ret [simp]: "gbind (gret a) f = f a"
  by (simp add: gbind_def gret_def)

lemma gbind_assoc: "gbind (gbind m f) g = gbind m (\<lambda>a. gbind (f a) g)"
  by (auto simp: gbind_def fun_eq_iff split: option.splits res.splits prod.splits
      intro!: Option.bind_cong)

lemma gbind_mono [partial_function_mono]:
  assumes "\<And>s. mono_option (\<lambda>f. m f s)" and "\<And>a s. mono_option (\<lambda>f. g f a s)"
  shows "mono_option (\<lambda>f. gbind (m f) (g f) s)"
  unfolding gbind_def
proof (rule bind_mono)
  show "mono_option (\<lambda>f. m f s)" by (rule assms)
  show "mono_option (\<lambda>f. case y of (r, s') \<Rightarrow>
      (case r of Ok a \<Rightarrow> g f a s' | Err e \<Rightarrow> Some (Err e, s') | Panic \<Rightarrow> Some (Panic, s')))" for y
    by (cases "fst y"; cases y) (auto intro: assms option.const_mono)
qed

lemma gseq_mono [partial_function_mono]:
  assumes "\<And>s. mono_option (\<lambda>f. m f s)" and "\<And>s. mono_option (\<lambda>f. g f s)"
  shows "mono_option (\<lambda>f. gseq (m f) (g f) s)"
  unfolding gseq_def by (rule gbind_mono assms)+


lemma gif_mono [partial_function_mono]:
  assumes "mono_option (\<lambda>f. m f s)" and "mono_option (\<lambda>f. g f s)"
  shows "mono_option (\<lambda>f. (if b then m f else g f) s)"
  using assms by (cases b) auto

section \<open>Fixed-width codecs of encoding/binary\<close>

primrec be_enc :: "nat \<Rightarrow> nat \<Rightarrow> byte list" where
  "be_enc 0 n = []"
| "be_enc (Suc k) n = be_enc k (n div 256) @ [of_nat (n mod 256)]"

definition be_dec :: "byte list \<Rightarrow> nat" where
  "be_dec bs = foldl (\<lambda>a b. 256 * a + unat b) 0 bs"

definition le_enc :: "nat \<Rightarrow> nat \<Rightarrow> byte list" where
  "le_enc k n = rev (be_enc k n)"

definition le_dec :: "byte list \<Rightarrow> nat" where
  "le_dec bs = be_dec (rev bs)"

lemma length_be_enc [simp]: "length (be_enc k n) = k"
  by (induction k arbitrary: n) auto

lemma be_enc_0: "be_enc k 0 = replicate k 0"
  by (induction k) (auto simp: replicate_append_same)

lemma length_le_enc [simp]: "length (le_enc k n) = k"
  by (simp add: le_enc_def)

lemma be_dec_Nil [simp]: "be_dec [] = 0"
  by (simp add: be_dec_def)

lemma be_dec_snoc [simp]: "be_dec (bs @ [b]) = 256 * be_dec bs + unat b"
  by (simp add: be_dec_def)

lemma be_dec_append: "be_dec (xs @ ys) = be_dec xs * 256 ^ length ys + be_dec ys"
proof (induction ys rule: rev_induct)
  case (snoc y ys)
  have "be_dec (xs @ ys @ [y]) = 256 * be_dec (xs @ ys) + unat y"
    using be_dec_snoc [of "xs @ ys" y] by simp
  with snoc show ?case by (simp add: algebra_simps)
qed simp

lemma be_dec_Cons: "be_dec (b # bs) = unat b * 256 ^ length bs + be_dec bs"
  using be_dec_append [of "[b]" bs] be_dec_snoc [of "[]" b] by simp

lemma unat_byte_less [simp]: "unat (b :: byte) < 256"
  using unsigned_less [of b] by simp

lemma unat_of_nat_small: "n < 2 ^ LENGTH('a) \<Longrightarrow> unat (of_nat n :: 'a :: len word) = n"
  by (simp add: unsigned_of_nat take_bit_nat_eq_self)

lemma unat_less_pow: "unat (w :: 'a :: len word) < 2 ^ LENGTH('a)"
  by (rule unsigned_less)

lemma of_nat_mod_u16 [simp]: "(of_nat (n mod 65536) :: u16) = of_nat n"
  by (rule word_unat_eq_iff [THEN iffD2]) (simp add: unsigned_of_nat take_bit_eq_mod)

lemma of_nat_mod_u32 [simp]: "(of_nat (n mod 4294967296) :: u32) = of_nat n"
  by (rule word_unat_eq_iff [THEN iffD2]) (simp add: unsigned_of_nat take_bit_eq_mod)

lemma unat_of_nat_byte: "n < 256 \<Longrightarrow> unat (of_nat n :: byte) = n"
  by (simp add: unsigned_of_nat take_bit_nat_eq_self)

lemma uint_of_nat_byte: "n < 256 \<Longrightarrow> uint (of_nat n :: byte) = int n"
  by (simp add: unsigned_of_nat take_bit_nat_eq_self)

lemma unat_ucast_byte64: "unat (ucast (b :: byte) :: u64) = unat b"
  using less_trans [OF unat_byte_less, of "2 ^ 64" b]
  by (simp add: unsigned_ucast_eq take_bit_nat_eq_self)

lemma be_dec_less: "be_dec bs < 256 ^ length bs"
proof (induction bs rule: rev_induct)
  case (snoc b bs)
  have "unat b < 256" by simp
  with snoc have "256 * be_dec bs + unat b < 256 * (be_dec bs + 1)" by simp
  also have "\<dots> \<le> 256 * 256 ^ length bs"
    using snoc by (intro mult_le_mono) auto
  finally show ?case by simp
qed simp

lemma low_byte_bits:
  assumes "0 \<le> k" and "k < 128"
  defines "w \<equiv> word_of_int k :: byte"
  shows "w AND 0x80 = 0" and "w AND 0x7F = w" and "uint w = k"
proof -
  show u: "uint w = k" using assms by (simp add: unsigned_of_int take_bit_int_eq_self)
  then have "take_bit 7 w = w" using assms(1,2)
    by (intro word_uint_eq_iff [THEN iffD2]) (simp add: unsigned_take_bit_eq take_bit_int_eq_self)
  moreover have "(0x7F :: byte) = mask 7" by (simp add: mask_eq_exp_minus_1)
  ultimately show a: "w AND 0x7F = w" by (simp add: take_bit_eq_mask)
  have "w AND 0x80 = (w AND 0x7F) AND 0x80" by (simp add: a)
  also have "\<dots> = w AND (0x7F AND 0x80)" by (simp only: and.assoc)
  finally show "w AND 0x80 = 0" by simp
qed

lemma be_dec_enc [codec]: "be_dec (be_enc k n) = n mod 256 ^ k"
proof (induction k arbitrary: n)
  case (Suc k)
  have "n mod 256 ^ Suc k = 256 * (n div 256 mod 256 ^ k) + n mod 256"
    by (simp add: mod_mult2_eq)
  then show ?case by (simp add: Suc unat_of_nat_byte)
qed simp

lemma le_dec_enc [codec]: "le_dec (le_enc k n) = n mod 256 ^ k"
  by (simp add: le_dec_def le_enc_def be_dec_enc)

text \<open>Unrolling at a numeral width, for evaluation.\<close>

lemma be_enc_numeral:
  "be_enc (numeral k) n = be_enc (pred_numeral k) (n div 256) @ [of_nat (n mod 256)]"
  by (simp only: numeral_eq_Suc [of k] be_enc.simps)

lemma be_enc_dec: "be_enc (length bs) (be_dec bs) = bs"
proof (induction bs rule: rev_induct)
  case (snoc b bs)
  have "(256 * be_dec bs + unat b) div 256 = be_dec bs" by simp
  moreover have "(256 * be_dec bs + unat b) mod 256 = unat b" by simp
  ultimately show ?case by (simp add: snoc)
qed simp

text \<open>\<open>bytes.TrimLeft(b, "\x00")\<close> does not change the number a big-endian string denotes.\<close>

lemma be_dec_trim: "be_dec (dropWhile (\<lambda>b. b = 0) bs) = be_dec bs"
  by (induction bs) (auto simp: be_dec_Cons)

lemma length_trim_le:
  assumes "be_dec bs < 256 ^ k"
  shows "length (dropWhile (\<lambda>b. b = 0) bs) \<le> k"
proof (cases "dropWhile (\<lambda>b. b = 0) bs")
  case (Cons b cs)
  then have "b \<noteq> 0"
    using hd_dropWhile [of "\<lambda>b. b = 0" bs] by auto
  then have "0 < unat b" by (simp add: unat_gt_0)
  then have "256 ^ length cs \<le> be_dec (b # cs)" by (simp add: be_dec_Cons trans_le_add1)
  also have "\<dots> < 256 ^ k" using assms be_dec_trim [of bs] Cons by simp
  finally show ?thesis using Cons by (simp add: power_strict_increasing_iff)
next
  case Nil
  show ?thesis unfolding Nil by simp
qed

section \<open>Slices\<close>

text \<open>Two ways of cutting the same list.\<close>

lemma append_eq_shorter:
  assumes "xs @ ys = bs @ rest" and "length bs \<le> length xs"
  shows "take (length bs) xs = bs" and "drop (length bs) xs @ ys = rest"
  using arg_cong [OF assms(1), of "take (length bs)"] arg_cong [OF assms(1), of "drop (length bs)"] assms(2)
  by simp_all

lemma append_eq_longer:
  assumes "xs @ ys = bs @ rest" and "length xs \<le> length bs"
  obtains bs' where "bs = xs @ bs'" and "ys = bs' @ rest"
  using append_eq_shorter [OF assms(1) [symmetric] assms(2)] append_take_drop_id [of "length xs" bs] by metis

text \<open>\<open>copy(dst, src)\<close>, and \<open>copy(buf[off:], bs)\<close> with the slice expression's bounds check.\<close>

definition go_copy :: "'a list \<Rightarrow> 'a list \<Rightarrow> 'a list" where
  "go_copy dst src = take (length dst) src @ drop (length src) dst"

lemma length_go_copy [simp]: "length (go_copy dst src) = length dst"
  by (simp add: go_copy_def)

lemma go_copy_full [simp]: "length src = length dst \<Longrightarrow> go_copy dst src = src"
  by (simp add: go_copy_def)

text \<open>\<open>xs[i:j]\<close> on a slice used only up to its length.\<close>

definition slice :: "nat \<Rightarrow> nat \<Rightarrow> 'a list \<Rightarrow> 'a list" where
  "slice i j xs = take (j - i) (drop i xs)"

text \<open>\<open>xs[i:]\<close> and \<open>xs[i:j]\<close> with their bounds checks, and the reads and writes of a fixed-width
  integer at an offset; out of range they panic.\<close>

definition slice_from :: "nat \<Rightarrow> 'a list \<Rightarrow> 'a list res" where
  "slice_from i xs = (if i \<le> length xs then Ok (drop i xs) else Panic)"

definition slice_at :: "nat \<Rightarrow> nat \<Rightarrow> 'a list \<Rightarrow> 'a list res" where
  "slice_at i j xs = (if i \<le> j \<and> j \<le> length xs then Ok (slice i j xs) else Panic)"

definition be_at :: "nat \<Rightarrow> nat \<Rightarrow> byte list \<Rightarrow> nat res" where
  "be_at k i xs = (if i + k \<le> length xs then Ok (be_dec (slice i (i + k) xs)) else Panic)"

definition put_at :: "nat \<Rightarrow> 'a list \<Rightarrow> 'a list \<Rightarrow> 'a list res" where
  "put_at i bs xs = (if i + length bs \<le> length xs
     then Ok (take i xs @ bs @ drop (i + length bs) xs) else Panic)"

lemma length_put_at: "put_at i bs xs = Ok ys \<Longrightarrow> length ys = length xs"
  by (auto simp: put_at_def split: if_splits)

section \<open>bytes.Buffer\<close>

text \<open>
  The unread bytes and, after a successful read, the last byte read, which \<open>UnreadByte\<close> puts
  back. A write, or a read of nothing, makes a following \<open>UnreadByte\<close> an error.
\<close>

record go_buffer =
  unread :: "byte list"
  lastRead :: "byte option"

definition new_buffer :: "byte list \<Rightarrow> go_buffer" where
  "new_buffer bs = \<lparr>unread = bs, lastRead = None\<rparr>"

text \<open>\<open>Read(p)\<close> with \<open>len(p) = n\<close>: the bytes copied into \<open>p\<close>, and \<open>io.EOF\<close> on an empty
  buffer (unless \<open>p\<close> is empty too).\<close>

definition buf_read :: "nat \<Rightarrow> go_buffer \<Rightarrow> (byte list \<times> bool) \<times> go_buffer" where
  "buf_read n b = (if unread b = [] then (([], n \<noteq> 0), new_buffer [])
     else let out = take n (unread b)
          in ((out, False), \<lparr>unread = drop n (unread b),
                lastRead = (if out = [] then None else Some (last out))\<rparr>))"

definition buf_write :: "byte list \<Rightarrow> go_buffer \<Rightarrow> go_buffer" where
  "buf_write bs b = \<lparr>unread = unread b @ bs, lastRead = None\<rparr>"

definition buf_unread :: "go_buffer \<Rightarrow> go_error option \<times> go_buffer" where
  "buf_unread b = (case lastRead b of None \<Rightarrow> (Some InvalidUnread, b)
     | Some c \<Rightarrow> (None, \<lparr>unread = c # unread b, lastRead = None\<rparr>))"

text \<open>\<open>ReadString(0)\<close>: everything up to and including the first zero byte; without one, the
  whole rest together with \<open>io.EOF\<close>.\<close>

definition buf_read_string0 :: "go_buffer \<Rightarrow> (byte list \<times> bool) \<times> go_buffer" where
  "buf_read_string0 b =
     (let pre = takeWhile (\<lambda>c. c \<noteq> 0) (unread b); found = length pre < length (unread b);
          out = (if found then pre @ [0] else pre)
      in ((out, \<not> found), \<lparr>unread = drop (length out) (unread b),
            lastRead = (if out = [] then lastRead b else Some (last out))\<rparr>))"

lemma unread_new_buffer [simp]: "unread (new_buffer bs) = bs"
  by (simp add: new_buffer_def)

lemma unread_buf_write [simp]: "unread (buf_write bs b) = unread b @ bs"
  by (simp add: buf_write_def)

lemma buf_read_parts:
  "fst (fst (buf_read n b)) = take n (unread b)"
  "snd (fst (buf_read n b)) = (unread b = [] \<and> n \<noteq> 0)"
  "unread (snd (buf_read n b)) = drop n (unread b)"
  by (auto simp: buf_read_def Let_def)

lemma buf_unread_after_read:
  assumes "buf_read 1 b = (([c], False), b')"
  shows "fst (buf_unread b') = None \<and> unread (snd (buf_unread b')) = unread b"
  using assms by (cases "unread b") (auto simp: buf_read_def buf_unread_def Let_def)

end
