(* ===== verification/Basic_Session.thy ===== *)
theory Basic_Session
  imports Go_Prelude
begin

text \<open>
  The TTC marshalling layer, \<^verbatim>\<open>v3/network/basic_session.go\<close>, and its in-memory provider,
  \<^verbatim>\<open>v3/network/memory_session.go\<close>. The \<open>Get\<close> operations take the terminal reader they call
  through the Go interface \<^verbatim>\<open>TerminalReader\<close> as their first argument; the locale
  \<open>terminal_reader\<close> states what that interface promises, and the lemmas on the wire formats are
  proved once inside it.
\<close>

section \<open>State\<close>

record session_props =
  UseBigClrChunks :: bool
  UseBigScn :: bool
  ClrChunkSize :: int
  ServerFlags :: byte

record basic_session =
  inBuffer :: go_buffer
  outBuffer :: "byte list"
  props :: session_props
  TTCVersion :: byte
  ttcIndex :: byte

type_synonym 'z terminal = "int \<Rightarrow> ('z basic_session_scheme, byte list) gom"

definition nlen :: "nslice \<Rightarrow> nat" where
  "nlen x = (case x of None \<Rightarrow> 0 | Some bs \<Rightarrow> length bs)"

definition ntake :: "nat \<Rightarrow> nslice \<Rightarrow> nslice" where
  "ntake n x = map_option (take n) x"

section \<open>Reading\<close>

definition GetByte :: "'z terminal \<Rightarrow> ('z basic_session_scheme, byte) gom" where
  "GetByte rd = gbind (rd 1) (\<lambda>rb. case rb of [] \<Rightarrow> gpanic | b # _ \<Rightarrow> gret b)"

definition GetBytes :: "'z terminal \<Rightarrow> int \<Rightarrow> ('z basic_session_scheme, byte list) gom" where
  "GetBytes rd n = rd n"

text \<open>
  The size to read, the sign flag and the byte order: from the arguments, or, when the integer is
  compressed, from its leading byte.
\<close>

definition int_header ::
    "'z terminal \<Rightarrow> int \<Rightarrow> bool \<Rightarrow> bool \<Rightarrow> ('z basic_session_scheme, int \<times> bool \<times> bool) gom" where
  "int_header rd sz compress bigEndian =
     (if compress
      then gbind (GetByte rd) (\<lambda>rb.
             gret (if rb AND 0x80 \<noteq> 0 then (uint (rb AND 0x7F), True, True) else (uint rb, False, True)))
      else gret (sz, False, bigEndian))"

definition int64_of_bytes :: "nat \<Rightarrow> bool \<Rightarrow> byte list \<Rightarrow> int" where
  "int64_of_bytes sz bigEndian rb =
     (let part = go_copy (replicate sz 0) rb;
          u = (if bigEndian then be_dec (replicate (8 - sz) 0 @ part)
               else le_dec (part @ replicate (8 - sz) 0))
      in sint (of_nat u :: u64))"

definition GetInt64 ::
    "'z terminal \<Rightarrow> int \<Rightarrow> bool \<Rightarrow> bool \<Rightarrow> ('z basic_session_scheme, int) gom" where
  "GetInt64 rd sz compress bigEndian =
     gbind (int_header rd sz compress bigEndian) (\<lambda>(sz, negFlag, bigEndian).
       if sz = 0 then gret 0
       else if sz < 0 \<or> sz > 8 then gerr (InvalidSize sz)
       else gbind (GetBytes rd sz) (\<lambda>rb.
         let ret = int64_of_bytes (nat sz) bigEndian rb
         in gret (if negFlag then to_i64 (ret * -1) else ret)))"

definition GetInt ::
    "'z terminal \<Rightarrow> int \<Rightarrow> bool \<Rightarrow> bool \<Rightarrow> ('z basic_session_scheme, int) gom" where
  "GetInt rd sz compress bigEndian = gbind (GetInt64 rd sz compress bigEndian) gret"

text \<open>The loop over the chunks of a long CLR value; it ends after a chunk of size 0.\<close>

definition clr_chunk_size :: "'z terminal \<Rightarrow> ('z basic_session_scheme, int) gom" where
  "clr_chunk_size rd = gbind (gget (\<lambda>s. UseBigClrChunks (props s))) (\<lambda>big.
     if big then GetInt rd 4 True True else gbind (GetByte rd) (\<lambda>nb. gret (uint nb)))"

partial_function (option) clr_chunks ::
    "'z terminal \<Rightarrow> byte list \<Rightarrow> ('z basic_session_scheme, byte list) gom" where
  "clr_chunks rd tempBuffer s =
     gbind (clr_chunk_size rd) (\<lambda>chunkSize.
       gbind (GetBytes rd chunkSize) (\<lambda>chunk.
         if chunkSize > 0 then clr_chunks rd (tempBuffer @ chunk) else gret (tempBuffer @ chunk))) s"

text \<open>The bytes of a \<^verbatim>\<open>bytes.Buffer\<close> that nothing was written to are a nil slice.\<close>

definition buffer_bytes :: "byte list \<Rightarrow> nslice" where
  "buffer_bytes bs = (if bs = [] then None else Some bs)"

definition GetClr :: "'z terminal \<Rightarrow> ('z basic_session_scheme, nslice) gom" where
  "GetClr rd = gbind (GetByte rd) (\<lambda>nb.
     if nb = 0 \<or> nb = 0xFF \<or> nb = 0xFD then gret None
     else if nb = 0xFE then gbind (clr_chunks rd []) (\<lambda>bs. gret (buffer_bytes bs))
     else gbind (GetBytes rd (uint nb)) (\<lambda>chunk. gret (buffer_bytes chunk)))"

definition GetDlc :: "'z terminal \<Rightarrow> ('z basic_session_scheme, nslice) gom" where
  "GetDlc rd = gbind (GetInt rd 4 True True) (\<lambda>length.
     if length > 0 then gbind (GetClr rd) (\<lambda>output.
       gret (if int (nlen output) > length then ntake (nat length) output else output))
     else gret None)"

definition GetFixedClr :: "'z terminal \<Rightarrow> ('z basic_session_scheme, nslice) gom" where
  "GetFixedClr rd = gbind (GetByte rd) (\<lambda>nb.
     if nb = 0 \<or> nb = 0xFD \<or> nb = 0xFF then gret None
     else gbind (if nb = 0xFE then GetInt rd 4 False True else gret (uint nb)) (\<lambda>sz.
       gbind (GetBytes rd sz) (\<lambda>bs. gret (Some bs))))"

text \<open>
  \<open>string(ret[:length]), err\<close>: Go allows the slice expression up to the capacity of \<open>ret\<close>, so
  \<open>spare\<close> is the part of the backing array beyond its length; a nil slice has no capacity.
\<close>

definition GetString ::
    "'z terminal \<Rightarrow> byte list \<Rightarrow> int \<Rightarrow> ('z basic_session_scheme, byte list) gom" where
  "GetString rd spare len = (\<lambda>s. Option.bind (GetClr rd s) (\<lambda>(r, s').
     case r of
       Panic \<Rightarrow> Some (Panic, s')
     | Err e \<Rightarrow> Some (if len = 0 then Err e else Panic, s')
     | Ok ret \<Rightarrow> (let arr = (case ret of None \<Rightarrow> [] | Some bs \<Rightarrow> bs @ spare)
                 in Some (if 0 \<le> len \<and> len \<le> int (length arr)
                          then Ok (take (nat len) arr) else Panic, s'))))"

definition GetNullTermString :: "('z basic_session_scheme, byte list \<times> go_error option) gom" where
  "GetNullTermString = (\<lambda>s. case buf_read_string0 (inBuffer s) of ((out, eof), b) \<Rightarrow>
     Some (Ok (out, if eof then Some EOF else None), s\<lparr>inBuffer := b\<rparr>))"

definition GetKeyVal ::
    "'z terminal \<Rightarrow> ('z basic_session_scheme, nslice \<times> nslice \<times> int) gom" where
  "GetKeyVal rd = gbind (GetDlc rd) (\<lambda>key. gbind (GetDlc rd) (\<lambda>val.
     gbind (GetInt rd 4 True True) (\<lambda>num. gret (key, val, num))))"

definition Peek :: "'z terminal \<Rightarrow> ('z basic_session_scheme, byte) gom" where
  "Peek rd = gbind (GetByte rd) (\<lambda>ret s. case buf_unread (inBuffer s) of
     (None, b) \<Rightarrow> Some (Ok ret, s\<lparr>inBuffer := b\<rparr>)
   | (Some e, b) \<Rightarrow> Some (Err e, s\<lparr>inBuffer := b\<rparr>))"

section \<open>Writing\<close>

text \<open>The dynamic types the \<open>interface{}\<close> argument of \<open>PutInt\<close> and \<open>PutUint\<close> is switched on.\<close>

datatype go_number =
    Int64 u64 | Int32 u32 | Int16 u16 | Int8 byte
  | Uint64 u64 | Uint32 u32 | Uint16 u16 | Uint8 byte | UintN u64 | IntN u64
  | NotInteger

fun int64_of_number :: "go_number \<Rightarrow> u64 option" where
  "int64_of_number (Int64 w) = Some w"
| "int64_of_number (Int32 w) = Some (scast w)"
| "int64_of_number (Int16 w) = Some (scast w)"
| "int64_of_number (Int8 w) = Some (scast w)"
| "int64_of_number (Uint64 w) = Some w"
| "int64_of_number (Uint32 w) = Some (ucast w)"
| "int64_of_number (Uint16 w) = Some (ucast w)"
| "int64_of_number (Uint8 w) = Some (ucast w)"
| "int64_of_number (UintN w) = Some w"
| "int64_of_number (IntN w) = Some w"
| "int64_of_number NotInteger = None"

definition emit :: "byte list \<Rightarrow> ('z basic_session_scheme, unit) gom" where
  "emit bs = gupd (\<lambda>s. s\<lparr>outBuffer := outBuffer s @ bs\<rparr>)"

definition trim_left :: "byte list \<Rightarrow> byte list" where
  "trim_left bs = dropWhile (\<lambda>b. b = 0) bs"

text \<open>The fixed-width branch: widths other than 2, 4 and 8 leave the scratch slice zero.\<close>

definition fixed_int :: "byte \<Rightarrow> bool \<Rightarrow> u64 \<Rightarrow> byte list" where
  "fixed_int sz bigEndian num =
     (if sz = 2 \<or> sz = 4 \<or> sz = 8
      then (if bigEndian then be_enc (unat sz) (unat num) else le_enc (unat sz) (unat num))
      else replicate (unat sz) 0)"

definition PutInt ::
    "go_number \<Rightarrow> byte \<Rightarrow> bool \<Rightarrow> bool \<Rightarrow> ('z basic_session_scheme, unit) gom" where
  "PutInt number sz bigEndian compress = (case int64_of_number number of
     None \<Rightarrow> gpanic
   | Some num \<Rightarrow>
       if compress then
         (let temp = trim_left (be_enc 8 (unat num));
              sz = (if sz > of_nat (length temp) then of_nat (length temp) else sz)
          in if sz = 0 then emit [0] else gseq (emit [sz]) (emit (take (unat sz) temp)))
       else if sz = 1 then emit [ucast num]
       else emit (fixed_int sz bigEndian num))"

text \<open>\<open>PutUint\<close> converts the same dynamic types to the same 64-bit pattern; unlike \<open>PutInt\<close> it
  never compresses a one-byte field, and it writes all of \<open>temp\<close> after the size byte.\<close>

definition PutUint ::
    "go_number \<Rightarrow> byte \<Rightarrow> bool \<Rightarrow> bool \<Rightarrow> ('z basic_session_scheme, unit) gom" where
  "PutUint number sz bigEndian compress = (case int64_of_number number of
     None \<Rightarrow> gpanic
   | Some num \<Rightarrow>
       if sz = 1 then emit [ucast num]
       else if compress then
         (let temp = trim_left (be_enc 8 (unat num));
              sz = (if sz > of_nat (length temp) then of_nat (length temp) else sz)
          in if sz = 0 then emit [0] else gseq (emit [sz]) (emit temp))
       else emit (fixed_int sz bigEndian num))"

definition PutBytes :: "byte list \<Rightarrow> ('z basic_session_scheme, unit) gom" where
  "PutBytes data = emit data"

definition go_len :: "byte list \<Rightarrow> go_number" where
  "go_len data = IntN (of_nat (length data))"

definition put_chunk :: "byte list \<Rightarrow> ('z basic_session_scheme, unit) gom" where
  "put_chunk temp = gseq
     (gbind (gget (\<lambda>s. UseBigClrChunks (props s))) (\<lambda>big.
        if big then PutInt (go_len temp) 4 True True else emit [of_nat (length temp)]))
     (emit temp)"

text \<open>The loop of \<open>PutClr\<close>. With a chunk size of 0 it does not end; with a negative one the slice
  expression \<open>data[start:end]\<close> panics.\<close>

partial_function (option) put_chunks ::
    "byte list \<Rightarrow> int \<Rightarrow> ('z basic_session_scheme, unit) gom" where
  "put_chunks data start s =
     (if start < int (length data) then
        (let stop = (if start + ClrChunkSize (props s) > int (length data)
                    then int (length data) else start + ClrChunkSize (props s))
         in if stop < start then gpanic s
            else gseq (put_chunk (slice (nat start) (nat stop) data))
                      (put_chunks data (start + ClrChunkSize (props s))) s)
      else gret () s)"

definition PutClr :: "byte list \<Rightarrow> ('z basic_session_scheme, unit) gom" where
  "PutClr data =
     (if length data > 0xFC then gseq (emit [0xFE]) (gseq (put_chunks data 0) (emit [0]))
      else if length data = 0 then emit [0]
      else gseq (emit [of_nat (length data)]) (emit data))"

definition PutCHR :: "byte list \<Rightarrow> ('z basic_session_scheme, unit) gom" where
  "PutCHR data = gbind (gget (\<lambda>s. ServerFlags (props s))) (\<lambda>fl.
     if fl AND 2 \<noteq> 0 then PutClr data else emit data)"

definition PutFixedClr :: "byte list \<Rightarrow> ('z basic_session_scheme, unit) gom" where
  "PutFixedClr data = gseq
     (if length data > 0xFC then gseq (PutBytes [0xFE]) (PutUint (go_len data) 4 True False)
      else PutBytes [of_nat (length data)])
     (PutBytes data)"

definition PutDlc :: "byte list \<Rightarrow> ('z basic_session_scheme, unit) gom" where
  "PutDlc data = gseq (if length data > 0 then PutUint (go_len data) 4 True True else gret ())
                      (PutClr data)"

definition PutString :: "byte list \<Rightarrow> ('z basic_session_scheme, unit) gom" where
  "PutString data = PutClr data"

definition PutKeyVal :: "byte list \<Rightarrow> byte list \<Rightarrow> byte \<Rightarrow> ('z basic_session_scheme, unit) gom" where
  "PutKeyVal key val num = gseq (PutDlc key) (gseq (PutDlc val) (PutInt (Uint8 num) 4 True True))"

definition PutKeyValString ::
    "byte list \<Rightarrow> byte list \<Rightarrow> byte \<Rightarrow> ('z basic_session_scheme, unit) gom" where
  "PutKeyValString key val num = PutKeyVal key val num"

definition GetWriteBuffer :: "'z basic_session_scheme \<Rightarrow> byte list" where
  "GetWriteBuffer s = outBuffer s"

definition PutTTCFunc :: "byte \<Rightarrow> byte \<Rightarrow> ('z basic_session_scheme, unit) gom" where
  "PutTTCFunc ttcCode funcCode =
     gseq (gupd (\<lambda>s. if ttcIndex s = 0 \<or> ttcIndex s = 255 then s\<lparr>ttcIndex := 1\<rparr> else s))
    (gseq (gbind (gget (\<lambda>s. (TTCVersion s, ttcIndex s))) (\<lambda>(ver, ix).
             if ver \<ge> 18 then PutBytes [ttcCode, funcCode, ix, 0]
             else PutBytes [ttcCode, funcCode, ix]))
          (gupd (\<lambda>s. s\<lparr>ttcIndex := ttcIndex s + 1\<rparr>)))"

section \<open>The in-memory session\<close>

definition NewMemorySession :: "byte list \<Rightarrow> byte list \<Rightarrow> session_props \<Rightarrow> basic_session" where
  "NewMemorySession inputBuffer outputBuffer sessionProp =
     \<lparr>inBuffer = new_buffer inputBuffer, outBuffer = outputBuffer, props = sessionProp,
      TTCVersion = 0, ttcIndex = 0\<rparr>"

text \<open>\<open>MemorySession.read\<close>; \<open>make([]byte, length)\<close> panics on a negative length.\<close>

definition mem_read :: "'z terminal" where
  "mem_read len = (\<lambda>s. if len < 0 then Some (Panic, s)
     else case buf_read (nat len) (inBuffer s) of ((output, eof), b) \<Rightarrow>
       Some (if eof then Err EOF
             else if int (length output) \<noteq> len then Err (ShortRead (length output) len)
             else Ok output, s\<lparr>inBuffer := b\<rparr>))"

definition mem_ResetBuffer :: "basic_session \<Rightarrow> basic_session" where
  "mem_ResetBuffer s = s\<lparr>inBuffer := new_buffer [], outBuffer := []\<rparr>"

definition mem_GetProperties :: "basic_session \<Rightarrow> session_props" where
  "mem_GetProperties s = props s"

end
