(* ===== verification/TTC_Wire.thy ===== *)
theory TTC_Wire
  imports Basic_Session
begin

text \<open>
  The wire formats of the TTC layer as pure functions, and the two halves of its correctness:
  every \<open>Put\<close> operation of \<open>Basic_Session\<close> appends exactly the wire format of its argument
  (\<open>emits\<close>), and every \<open>Get\<close> operation reads that format back through any terminal reader,
  leaving what follows it in the stream untouched (\<open>parses\<close>, inside the locale
  \<open>terminal_reader\<close>). The in-memory session is the first interpretation of the locale.
\<close>

section \<open>Abstract wire formats\<close>

definition wire_int :: "nat \<Rightarrow> byte list" where
  "wire_int n = (let t = trim_left (be_enc 8 n) in of_nat (length t) # t)"

fun chunks :: "nat \<Rightarrow> 'a list \<Rightarrow> 'a list list" where
  "chunks n xs = (if n = 0 \<or> xs = [] then [] else take n xs # chunks n (drop n xs))"

declare chunks.simps [simp del]

definition wire_chunk :: "session_props \<Rightarrow> byte list \<Rightarrow> byte list" where
  "wire_chunk p c =
     (if UseBigClrChunks p then wire_int (length c) else [of_nat (length c)]) @ c"

definition wire_clr :: "session_props \<Rightarrow> byte list \<Rightarrow> byte list" where
  "wire_clr p data =
     (if data = [] then [0]
      else if length data \<le> 0xFC then of_nat (length data) # data
      else 0xFE # concat (map (wire_chunk p) (chunks (nat (ClrChunkSize p)) data)) @ [0])"

definition wire_dlc :: "session_props \<Rightarrow> byte list \<Rightarrow> byte list" where
  "wire_dlc p data = (if data = [] then [0] else wire_int (length data) @ wire_clr p data)"

definition wire_fixed_clr :: "byte list \<Rightarrow> byte list" where
  "wire_fixed_clr data =
     (if length data > 0xFC then 0xFE # be_enc 4 (length data) else [of_nat (length data)]) @ data"

text \<open>The chunk sizes for which the chunk header can hold the size of a chunk.\<close>

definition clr_ok :: "session_props \<Rightarrow> bool" where
  "clr_ok p \<longleftrightarrow> 0 < ClrChunkSize p
     \<and> ClrChunkSize p \<le> (if UseBigClrChunks p then 2 ^ 32 - 1 else 255)"

text \<open>The nil or non-nil slice a reader returns for \<open>data\<close>.\<close>

definition nslice_of :: "byte list \<Rightarrow> nslice" where
  "nslice_of data = (if data = [] then None else Some data)"

lemma chunks_Nil [simp]: "chunks n [] = []"
  by (simp add: chunks.simps)

lemma concat_chunks: "0 < n \<Longrightarrow> concat (chunks n xs) = xs"
proof (induction n xs rule: chunks.induct)
  case (1 n xs)
  then show ?case by (cases "xs = []") (auto simp: chunks.simps [of n xs])
qed

lemma chunks_sizes: "c \<in> set (chunks n xs) \<Longrightarrow> 0 < length c \<and> length c \<le> n"
proof (induction n xs rule: chunks.induct)
  case (1 n xs)
  then show ?case by (cases "n = 0 \<or> xs = []") (auto simp: chunks.simps [of n xs])
qed

lemma trim_left_facts:
  assumes "n < 2 ^ 64"
  shows "be_dec (trim_left (be_enc 8 n)) = n" and "length (trim_left (be_enc 8 n)) \<le> 8"
    and "n < 256 ^ k \<Longrightarrow> length (trim_left (be_enc 8 n)) \<le> k"
proof -
  show d: "be_dec (trim_left (be_enc 8 n)) = n"
    using assms by (simp add: trim_left_def be_dec_trim be_dec_enc)
  show "length (trim_left (be_enc 8 n)) \<le> 8"
    using length_dropWhile_le [of _ "be_enc 8 n"] by (simp add: trim_left_def)
  show "length (trim_left (be_enc 8 n)) \<le> k" if "n < 256 ^ k"
    using length_trim_le [of "be_enc 8 n" k] assms that by (simp add: trim_left_def be_dec_enc)
qed

section \<open>What a write emits\<close>

definition emits :: "session_props \<Rightarrow> ('z basic_session_scheme, unit) gom \<Rightarrow> byte list \<Rightarrow> bool" where
  "emits p m bs \<longleftrightarrow>
     (\<forall>s. props s = p \<longrightarrow> m s = Some (Ok (), s\<lparr>outBuffer := outBuffer s @ bs\<rparr>))"

named_theorems emits_intros \<open>what each write operation emits\<close>

lemma emits_emit [emits_intros]: "emits p (emit bs) bs"
  by (simp add: emits_def emit_def gupd_def)

lemma emits_ret [emits_intros]: "emits p (gret ()) []"
  by (simp add: emits_def gret_def)

lemma emits_seq [emits_intros]: "emits p m bs \<Longrightarrow> emits p n cs \<Longrightarrow> emits p (gseq m n) (bs @ cs)"
  by (simp add: emits_def gseq_def)

lemma emits_get: "emits p (f (g p)) bs \<Longrightarrow> emits p (gbind (gget (\<lambda>s. g (props s))) f) bs"
  by (simp add: emits_def gget_def)

lemma of_nat_byte_less:
  assumes "m < 256" "n < 256"
  shows "(of_nat m :: byte) < of_nat n \<longleftrightarrow> m < n" and "unat (of_nat m :: byte) = m"
    and "(of_nat m :: byte) = 0 \<longleftrightarrow> m = 0"
  using assms
  by (auto simp: word_less_nat_alt unsigned_of_nat take_bit_eq_mod word_unat_eq_iff)

lemma emits_PutInt:
  assumes "int64_of_number num = Some w" and "unat w < 256 ^ unat sz" and "sz \<noteq> 0"
  shows "emits p (PutInt num sz be True) (wire_int (unat w))"
proof -
  let ?t = "trim_left (be_enc 8 (unat w))"
  have w: "unat w < 2 ^ 64" using unsigned_less [of w] by simp
  have len: "length ?t \<le> unat sz" "length ?t \<le> 8"
    using trim_left_facts [OF w] assms(2) by auto
  have eff: "(if of_nat (length ?t) < sz then of_nat (length ?t) else sz) = of_nat (length ?t)"
    using len by (auto simp: word_less_nat_alt unsigned_of_nat take_bit_eq_mod word_unat_eq_iff)
  have "unat (of_nat (length ?t) :: byte) = length ?t" and "of_nat (length ?t) = (0 :: byte) \<longleftrightarrow> ?t = []"
    using len of_nat_byte_less [of "length ?t" 0] by auto
  then show ?thesis
    using assms(1) eff
    by (auto simp: PutInt_def wire_int_def Let_def emits_def emit_def gseq_def gupd_def)
qed

lemma emits_PutUint:
  assumes "int64_of_number num = Some w" and "unat w < 256 ^ unat sz" and "sz \<noteq> 0" "sz \<noteq> 1"
  shows "emits p (PutUint num sz be True) (wire_int (unat w))"
proof -
  let ?t = "trim_left (be_enc 8 (unat w))"
  have w: "unat w < 2 ^ 64" using unsigned_less [of w] by simp
  have len: "length ?t \<le> unat sz" "length ?t \<le> 8"
    using trim_left_facts [OF w] assms(2) by auto
  have eff: "(if of_nat (length ?t) < sz then of_nat (length ?t) else sz) = of_nat (length ?t)"
    using len by (auto simp: word_less_nat_alt unsigned_of_nat take_bit_eq_mod word_unat_eq_iff)
  have "of_nat (length ?t) = (0 :: byte) \<longleftrightarrow> ?t = []"
    using len of_nat_byte_less [of "length ?t" 0] by auto
  then show ?thesis
    using assms(1,4) eff
    by (auto simp: PutUint_def wire_int_def Let_def emits_def emit_def gseq_def gupd_def)
qed

lemma go_len_bits: "length c < 2 ^ 64 \<Longrightarrow> int64_of_number (go_len c) = Some (of_nat (length c))
    \<and> unat (of_nat (length c) :: u64) = length c"
  by (simp add: go_len_def unsigned_of_nat take_bit_eq_mod)

lemma emits_put_chunk:
  assumes "clr_ok p" and "length c \<le> nat (ClrChunkSize p)"
  shows "emits p (put_chunk c) (wire_chunk p c)"
proof (cases "UseBigClrChunks p")
  case True
  with assms have "length c < 2 ^ 32" by (auto simp: clr_ok_def)
  then have "emits p (PutInt (go_len c) 4 True True) (wire_int (length c))"
    using emits_PutInt [of "go_len c" "of_nat (length c)" 4 p True] go_len_bits [of c] by simp
  with True show ?thesis
    unfolding put_chunk_def wire_chunk_def by (intro emits_intros emits_get) simp
next
  case False
  then show ?thesis
    unfolding put_chunk_def wire_chunk_def by (intro emits_intros emits_get) (simp add: emits_intros)
qed

lemma emits_put_chunks:
  assumes "clr_ok p"
  shows "0 \<le> start \<Longrightarrow> emits p (put_chunks data start :: ('z basic_session_scheme, unit) gom)
     (concat (map (wire_chunk p) (chunks (nat (ClrChunkSize p)) (drop (nat start) data))))"
proof (induction "nat (int (length data) - start)" arbitrary: start rule: less_induct)
  case less
  let ?C = "ClrChunkSize p" and ?rest = "drop (nat start) data"
  let ?put = "put_chunks data :: int \<Rightarrow> ('z basic_session_scheme, unit) gom"
  have C: "0 < ?C" using assms by (simp add: clr_ok_def)
  show ?case
  proof (cases "start < int (length data)")
    case False
    with less.prems show ?thesis
      unfolding emits_def by (subst put_chunks.simps) (simp add: gret_def)
  next
    case True
    define stop where "stop = (if start + ?C > int (length data) then int (length data) else start + ?C)"
    have sl: "slice (nat start) (nat stop) data = take (nat ?C) ?rest"
      using less.prems C True by (auto simp: slice_def stop_def nat_diff_distrib' nat_add_distrib)
    have ne: "?rest \<noteq> []" and dr: "drop (nat ?C) ?rest = drop (nat (start + ?C)) data"
      using True less.prems C by (auto simp: nat_add_distrib add.commute)
    have IH: "emits p (?put (start + ?C))
        (concat (map (wire_chunk p) (chunks (nat ?C) (drop (nat (start + ?C)) data))))"
      using less.hyps [of "start + ?C"] less.prems True C by simp
    have one: "emits p (put_chunk (take (nat ?C) ?rest) :: ('z basic_session_scheme, unit) gom)
        (wire_chunk p (take (nat ?C) ?rest))"
      using assms by (rule emits_put_chunk) simp
    have "?put start s = gseq (put_chunk (take (nat ?C) ?rest)) (?put (start + ?C)) s" if "props s = p" for s
      using True that C less.prems sl
      by (subst put_chunks.simps) (auto simp: stop_def Let_def split: if_splits)
    then show ?thesis
      using emits_seq [OF one IH] ne C dr
      by (simp add: emits_def chunks.simps [of "nat ?C" ?rest])
  qed
qed

lemma emits_PutClr [emits_intros]:
  assumes "clr_ok p"
  shows "emits p (PutClr data) (wire_clr p data)"
proof -
  have "emits p (gseq (emit [0xFE]) (gseq (put_chunks data 0) (emit [0])))
     ([0xFE] @ concat (map (wire_chunk p) (chunks (nat (ClrChunkSize p)) data)) @ [0])"
    using emits_put_chunks [OF assms, of 0 data] by (intro emits_intros) simp_all
  moreover have "emits p (gseq (emit [of_nat (length data)]) (emit data)) ([of_nat (length data)] @ data)"
    by (intro emits_intros)
  ultimately show ?thesis
    by (auto simp: PutClr_def wire_clr_def emits_emit)
qed

lemma emits_PutDlc [emits_intros]:
  assumes "clr_ok p" and "length data < 2 ^ 32"
  shows "emits p (PutDlc data :: ('z basic_session_scheme, unit) gom) (wire_dlc p data)"
proof (cases "data = []")
  case True
  then show ?thesis
    using emits_seq [OF emits_ret emits_PutClr [OF assms(1)], of data]
    by (simp add: PutDlc_def wire_dlc_def wire_clr_def)
next
  case False
  have "emits p (PutUint (go_len data) 4 True True :: ('z basic_session_scheme, unit) gom)
      (wire_int (length data))"
    using emits_PutUint [of "go_len data" "of_nat (length data)" 4 p True] go_len_bits [of data] assms(2)
    by simp
  then show ?thesis
    using False emits_seq [OF _ emits_PutClr [OF assms(1)]]
    by (auto simp: PutDlc_def wire_dlc_def)
qed

lemma emits_PutFixedClr [emits_intros]:
  assumes "length data < 2 ^ 64"
  shows "emits p (PutFixedClr data :: ('z basic_session_scheme, unit) gom) (wire_fixed_clr data)"
proof -
  have "emits p (PutUint (go_len data) 4 True False :: ('z basic_session_scheme, unit) gom)
      (be_enc 4 (length data))"
    using go_len_bits [OF assms] emits_emit by (simp add: PutUint_def fixed_int_def)
  then have "emits p (gseq (PutBytes [0xFE]) (PutUint (go_len data) 4 True False)
      :: ('z basic_session_scheme, unit) gom) ([0xFE] @ be_enc 4 (length data))"
    unfolding PutBytes_def by (intro emits_intros)
  then show ?thesis
    unfolding PutFixedClr_def wire_fixed_clr_def PutBytes_def
    by (intro emits_seq emits_emit) (simp add: emits_emit)
qed

lemma emits_PutKeyVal [emits_intros]:
  assumes "clr_ok p" and "length key < 2 ^ 32" and "length val < 2 ^ 32"
  shows "emits p (PutKeyVal key val num :: ('z basic_session_scheme, unit) gom)
     (wire_dlc p key @ wire_dlc p val @ wire_int (unat num))"
proof -
  note unat_ucast_byte64 [of num]
  moreover have "unat num < 256 ^ 4" by (rule less_trans [OF unat_byte_less]) simp
  ultimately have "emits p (PutInt (Uint8 num) 4 True True :: ('z basic_session_scheme, unit) gom)
      (wire_int (unat num))"
    using emits_PutInt [of "Uint8 num" "ucast num" 4 p True] by simp
  then show ?thesis
    unfolding PutKeyVal_def by (intro emits_seq emits_PutDlc assms)
qed

section \<open>What a terminal reader promises, and what the readers make of it\<close>

text \<open>
  \<open>parses\<close>: from any state that satisfies the invariant and has \<open>bs\<close> next in its stream, the
  operation returns \<open>a\<close>, consumes exactly \<open>bs\<close> and keeps the invariant and the session properties.
\<close>

definition parses ::
    "('z basic_session_scheme \<Rightarrow> bool) \<Rightarrow> ('z basic_session_scheme \<Rightarrow> byte list) \<Rightarrow> session_props
     \<Rightarrow> ('z basic_session_scheme, 'a) gom \<Rightarrow> byte list \<Rightarrow> 'a \<Rightarrow> bool" where
  "parses ok pending p m bs a \<longleftrightarrow>
     (\<forall>s rest. ok s \<and> props s = p \<and> pending s = bs @ rest \<longrightarrow>
        (\<exists>s'. m s = Some (Ok a, s') \<and> ok s' \<and> props s' = p \<and> pending s' = rest))"

lemma parses_ret: "parses ok pending p (gret a) [] a"
  by (simp add: parses_def gret_def)

lemma parses_bind:
  assumes "parses ok pending p m bs a" and "parses ok pending p (f a) cs b"
  shows "parses ok pending p (gbind m f) (bs @ cs) b"
  unfolding parses_def
proof (intro allI impI, elim conjE)
  fix s rest
  assume s: "ok s" "props s = p" "pending s = (bs @ cs) @ rest"
  then obtain s1 where s1: "m s = Some (Ok a, s1)" "ok s1" "props s1 = p" "pending s1 = cs @ rest"
    using assms(1) unfolding parses_def by (metis append_assoc)
  then obtain s2 where "f a s1 = Some (Ok b, s2)" "ok s2" "props s2 = p" "pending s2 = rest"
    using assms(2) unfolding parses_def by metis
  with s1 show "\<exists>s'. gbind m f s = Some (Ok b, s') \<and> ok s' \<and> props s' = p \<and> pending s' = rest"
    by auto
qed

lemma parses_bind_ret:
  "parses ok pending p m bs a \<Longrightarrow> parses ok pending p (gbind m (\<lambda>x. gret (f x))) bs (f a)"
  using parses_bind [of ok pending p m bs a "\<lambda>x. gret (f x)" "[]" "f a"] by (simp add: parses_ret)

text \<open>The same rules in the form backward proofs apply: the stretch of input is an equation.\<close>

lemma parses_bindI:
  "parses ok pending p m bs a \<Longrightarrow> parses ok pending p (f a) cs b \<Longrightarrow> xs = bs @ cs \<Longrightarrow>
   parses ok pending p (gbind m f) xs b"
  using parses_bind by metis

lemma parses_retI: "a = b \<Longrightarrow> parses ok pending p (gret a) [] b"
  by (simp add: parses_ret)

lemma parses_get:
  "parses ok pending p (f (g p)) bs a \<Longrightarrow> parses ok pending p (gbind (gget (\<lambda>s. g (props s))) f) bs a"
  by (auto simp: parses_def gget_def)

lemma size_byte:
  assumes "n \<le> 8"
  shows "(of_nat n :: byte) AND 0x80 = 0" and "uint (of_nat n :: byte) = int n"
proof -
  have "n = 0 \<or> n = 1 \<or> n = 2 \<or> n = 3 \<or> n = 4 \<or> n = 5 \<or> n = 6 \<or> n = 7 \<or> n = 8"
    using assms by linarith
  then show "(of_nat n :: byte) AND 0x80 = 0" by (elim disjE) simp_all
  show "uint (of_nat n :: byte) = int n" using assms by (simp add: uint_of_nat_byte)
qed

lemma be_dec_zeros: "be_dec (replicate k 0 @ bs) = be_dec bs"
  by (induction k) (auto simp: be_dec_Cons)

lemma int64_of_bytes_be:
  "length bs = n \<Longrightarrow> int64_of_bytes n True bs = sint (of_nat (be_dec bs) :: u64)"
  by (simp add: int64_of_bytes_def Let_def be_dec_zeros)

lemma wire_int_0 [simp]: "wire_int 0 = [0]"
  by (simp add: wire_int_def trim_left_def be_enc_0)

locale terminal_reader =
  fixes rd :: "'z terminal"
    and ok :: "'z basic_session_scheme \<Rightarrow> bool"
    and pending :: "'z basic_session_scheme \<Rightarrow> byte list"
  assumes rd_reads: "ok s \<Longrightarrow> pending s = bs @ rest \<Longrightarrow>
    \<exists>s'. rd (int (length bs)) s = Some (Ok bs, s') \<and> ok s' \<and> props s' = props s \<and> pending s' = rest"
begin

lemma parses_GetBytes: "n = int (length bs) \<Longrightarrow> parses ok pending p (GetBytes rd n) bs bs"
  using rd_reads by (fastforce simp: parses_def GetBytes_def)

lemma parses_GetByte: "parses ok pending p (GetByte rd) [b] b"
proof -
  have "parses ok pending p (GetBytes rd 1) [b] [b]" by (rule parses_GetBytes) simp
  from parses_bind [OF this, of "case_list gpanic (\<lambda>b _. gret b)"]
  show ?thesis by (simp add: GetByte_def GetBytes_def parses_ret)
qed

text \<open>Any big-endian string of at most eight bytes behind its length.\<close>

lemma parses_GetInt64_sized:
  assumes "length bs \<le> 8"
  shows "parses ok pending p (GetInt64 rd k True be) (of_nat (length bs) # bs) (sint (of_nat (be_dec bs) :: u64))"
proof -
  have hd: "parses ok pending p (int_header rd k True be) [of_nat (length bs)] (int (length bs), False, True)"
    unfolding int_header_def if_True
    by (rule parses_bindI [OF parses_GetByte parses_retI]) (simp_all add: size_byte [OF assms])
  show ?thesis
  proof (cases "bs = []")
    case True
    then show ?thesis
      unfolding GetInt64_def
      by (intro parses_bindI [OF hd, where cs = "[]"]) (simp_all add: parses_ret)
  next
    case False
    have "parses ok pending p (gbind (GetBytes rd (int (length bs)))
        (\<lambda>rb. gret (int64_of_bytes (length bs) True rb))) bs (sint (of_nat (be_dec bs) :: u64))"
      by (rule parses_bindI [OF parses_GetBytes parses_retI]) (simp_all add: int64_of_bytes_be)
    with False assms show ?thesis
      unfolding GetInt64_def by (intro parses_bindI [OF hd]) (simp_all add: Let_def)
  qed
qed

lemma parses_GetInt64_compressed:
  "n < 2 ^ 64 \<Longrightarrow> parses ok pending p (GetInt64 rd k True be) (wire_int n) (sint (of_nat n :: u64))"
  using parses_GetInt64_sized [of "trim_left (be_enc 8 n)"] trim_left_facts(1,2) [of n]
  by (simp add: wire_int_def Let_def)

lemma parses_GetInt_compressed:
  assumes "n < 2 ^ 63"
  shows "parses ok pending p (GetInt rd k True be) (wire_int n) (int n)"
proof -
  have "sint (of_nat n :: u64) = int n"
    using to_i64_id [of "int n"] assms by (simp add: to_i64_def)
  with assms show ?thesis
    unfolding GetInt_def
    by (intro parses_bindI [OF parses_GetInt64_compressed parses_retI]) simp_all
qed

lemma parses_chunk:
  assumes "length c \<le> (if UseBigClrChunks p then 2 ^ 32 - 1 else 255)"
  shows "parses ok pending p (clr_chunk_size rd) (if UseBigClrChunks p then wire_int (length c)
     else [of_nat (length c)]) (int (length c))"
proof (cases "UseBigClrChunks p")
  case True
  with assms have "length c < 2 ^ 63" by simp
  then show ?thesis
    using True unfolding clr_chunk_size_def
    by (intro parses_get) (simp add: parses_GetInt_compressed)
next
  case False
  with assms have "uint (of_nat (length c) :: byte) = int (length c)"
    by (intro uint_of_nat_byte) simp
  then have "parses ok pending p (gbind (GetByte rd) (\<lambda>nb. gret (uint nb))) [of_nat (length c)]
      (int (length c))"
    by (intro parses_bindI [OF parses_GetByte parses_retI]) simp_all
  with False show ?thesis
    unfolding clr_chunk_size_def by (intro parses_get) simp
qed

lemma clr_chunks_unfold:
  "clr_chunks rd acc = gbind (clr_chunk_size rd) (\<lambda>n. gbind (GetBytes rd n) (\<lambda>chunk.
      if n > 0 then clr_chunks rd (acc @ chunk) else gret (acc @ chunk)))"
  by (rule ext) (rule clr_chunks.simps)

lemma parses_clr_chunks:
  assumes "\<forall>c \<in> set cs. 0 < length c \<and> length c \<le> (if UseBigClrChunks p then 2 ^ 32 - 1 else 255)"
  shows "parses ok pending p (clr_chunks rd acc) (concat (map (wire_chunk p) cs) @ [0]) (acc @ concat cs)"
  using assms
proof (induction cs arbitrary: acc)
  case Nil
  have "parses ok pending p (clr_chunk_size rd) [0] 0"
    using parses_chunk [of "[]" p] by (cases "UseBigClrChunks p") simp_all
  then show ?case
    unfolding clr_chunks_unfold [of acc]
    by (rule parses_bindI)
      (auto intro: parses_bindI [OF parses_GetBytes [of 0 "[]"] parses_retI])
next
  case (Cons c cs)
  have "parses ok pending p (clr_chunks rd (acc @ c)) (concat (map (wire_chunk p) cs) @ [0])
      (acc @ concat (c # cs))"
    using Cons.IH [of "acc @ c"] Cons.prems by simp
  then have "parses ok pending p (gbind (GetBytes rd (int (length c))) (\<lambda>chunk.
      if int (length c) > 0 then clr_chunks rd (acc @ chunk) else gret (acc @ chunk)))
      (c @ concat (map (wire_chunk p) cs) @ [0]) (acc @ concat (c # cs))"
    using Cons.prems by (intro parses_bindI [OF parses_GetBytes [of _ c]]) simp_all
  with Cons.prems show ?case
    unfolding clr_chunks_unfold [of acc]
    by (intro parses_bindI [OF parses_chunk [of c]]) (simp_all add: wire_chunk_def [of p c])
qed

lemma parses_GetClr:
  assumes "clr_ok p"
  shows "parses ok pending p (GetClr rd) (wire_clr p data) (nslice_of data)"
proof -
  let ?n = "of_nat (length data) :: byte"
  let ?f = "\<lambda>nb. if nb = 0 \<or> nb = 0xFF \<or> nb = 0xFD then gret None
     else if nb = 0xFE then gbind (clr_chunks rd []) (\<lambda>bs. gret (buffer_bytes bs))
     else gbind (GetBytes rd (uint nb)) (\<lambda>chunk. gret (buffer_bytes chunk))"
  have step: "parses ok pending p (GetClr rd) (b # bs) a" if "parses ok pending p (?f b) bs a" for b bs a
    unfolding GetClr_def by (rule parses_bindI [OF parses_GetByte]) (use that in simp_all)
  consider "data = []" | "data \<noteq> []" "length data \<le> 0xFC" | "length data > 0xFC" by linarith
  then show ?thesis
  proof cases
    case 1
    then show ?thesis by (simp add: wire_clr_def nslice_of_def step parses_ret)
  next
    case 2
    then have len: "uint ?n = int (length data)" "unat ?n = length data"
      by (simp_all add: uint_of_nat_byte unat_of_nat_byte)
    then have "?n \<noteq> 0" "?n \<noteq> 0xFF" "?n \<noteq> 0xFD" "?n \<noteq> 0xFE"
      using 2 by (auto simp: word_unat_eq_iff)
    with 2 len show ?thesis
      by (auto simp: wire_clr_def nslice_of_def buffer_bytes_def
          intro!: step parses_bindI [OF parses_GetBytes parses_retI])
  next
    case 3
    let ?C = "nat (ClrChunkSize p)"
    have C: "0 < ?C" "?C \<le> (if UseBigClrChunks p then 2 ^ 32 - 1 else 255)"
      using assms by (auto simp: clr_ok_def split: if_splits)
    have sz: "\<forall>c \<in> set (chunks ?C data). 0 < length c
        \<and> length c \<le> (if UseBigClrChunks p then 2 ^ 32 - 1 else 255)"
      using chunks_sizes [of _ ?C data] C by (fastforce intro: le_trans)
    have "parses ok pending p (clr_chunks rd [])
        (concat (map (wire_chunk p) (chunks ?C data)) @ [0]) data"
      using parses_clr_chunks [OF sz, of "[]"] by (simp add: concat_chunks [OF C(1)])
    with 3 show ?thesis
      by (auto simp: wire_clr_def nslice_of_def buffer_bytes_def intro!: step parses_bindI [OF _ parses_retI])
  qed
qed

lemma parses_GetDlc:
  assumes "clr_ok p" and "length data < 2 ^ 32"
  shows "parses ok pending p (GetDlc rd) (wire_dlc p data) (nslice_of data)"
proof -
  have n: "parses ok pending p (GetInt rd 4 True True) (wire_int (length data)) (int (length data))"
    using assms(2) by (intro parses_GetInt_compressed) simp
  have "parses ok pending p (gbind (GetClr rd) (\<lambda>out. gret (if int (nlen out) > int (length data)
      then ntake (nat (int (length data))) out else out))) (wire_clr p data) (nslice_of data)"
    by (rule parses_bindI [OF parses_GetClr [OF assms(1)] parses_retI])
      (auto simp: nslice_of_def nlen_def)
  then show ?thesis
    unfolding GetDlc_def
    by (intro parses_bindI [OF n, where cs = "if data = [] then [] else wire_clr p data"])
      (auto simp: wire_dlc_def nslice_of_def parses_ret)
qed

lemma parses_GetFixedClr:
  assumes "length data < 2 ^ 32"
  shows "parses ok pending p (GetFixedClr rd) (wire_fixed_clr data) (nslice_of data)"
proof -
  let ?n = "of_nat (length data) :: byte"
  let ?f = "\<lambda>nb. if nb = 0 \<or> nb = 0xFD \<or> nb = 0xFF then gret None
     else gbind (if nb = 0xFE then GetInt rd 4 False True else gret (uint nb)) (\<lambda>sz.
       gbind (GetBytes rd sz) (\<lambda>bs. gret (Some bs)))"
  have step: "parses ok pending p (GetFixedClr rd) (b # bs) a" if "parses ok pending p (?f b) bs a" for b bs a
    unfolding GetFixedClr_def by (rule parses_bindI [OF parses_GetByte]) (use that in simp_all)
  have body: "parses ok pending p (gbind (GetBytes rd (int (length data))) (\<lambda>bs. gret (Some bs))) data (Some data)"
    by (rule parses_bind_ret [OF parses_GetBytes]) simp
  consider "data = []" | "data \<noteq> []" "length data \<le> 0xFC" | "length data > 0xFC" by linarith
  then show ?thesis
  proof cases
    case 1
    then show ?thesis by (simp add: wire_fixed_clr_def nslice_of_def step parses_ret)
  next
    case 2
    then have len: "uint ?n = int (length data)" "unat ?n = length data"
      by (simp_all add: uint_of_nat_byte unat_of_nat_byte)
    then have "?n \<noteq> 0" "?n \<noteq> 0xFF" "?n \<noteq> 0xFD" "?n \<noteq> 0xFE"
      using 2 by (auto simp: word_unat_eq_iff)
    with 2 len body show ?thesis by (simp add: wire_fixed_clr_def nslice_of_def step)
  next
    case 3
    have "int64_of_bytes 4 True (be_enc 4 (length data)) = int (length data)"
      using assms to_i64_id [of "int (length data)"]
      by (simp add: int64_of_bytes_be be_dec_enc to_i64_def)
    then have "parses ok pending p (GetInt rd 4 False True) (be_enc 4 (length data)) (int (length data))"
      unfolding GetInt_def GetInt64_def int_header_def
      by (simp add: gbind_assoc)
        (intro parses_bindI [OF parses_GetBytes parses_retI], simp_all)
    then have "parses ok pending p (gbind (GetInt rd 4 False True) (\<lambda>sz. gbind (GetBytes rd sz)
        (\<lambda>bs. gret (Some bs)))) (be_enc 4 (length data) @ data) (Some data)"
      by (rule parses_bindI) (use body in simp_all)
    with 3 show ?thesis
      by (auto simp: wire_fixed_clr_def nslice_of_def intro!: step)
  qed
qed

lemma parses_GetKeyVal:
  assumes "clr_ok p" and "length key < 2 ^ 32" and "length val < 2 ^ 32" and "num < 2 ^ 63"
  shows "parses ok pending p (GetKeyVal rd) (wire_dlc p key @ wire_dlc p val @ wire_int num)
     (nslice_of key, nslice_of val, int num)"
  unfolding GetKeyVal_def
  by (rule parses_bind [OF parses_GetDlc [OF assms(1,2)]],
      rule parses_bind [OF parses_GetDlc [OF assms(1,3)]],
      rule parses_bind_ret [OF parses_GetInt_compressed [OF assms(4)]])

end

section \<open>The in-memory session is a terminal reader\<close>

interpretation mem: terminal_reader mem_read "\<lambda>_. True" "\<lambda>s. unread (inBuffer s)"
proof
  fix s :: "'a basic_session_scheme" and bs rest
  assume "unread (inBuffer s) = bs @ rest"
  then show "\<exists>s'. mem_read (int (length bs)) s = Some (Ok bs, s') \<and> True
      \<and> props s' = props s \<and> unread (inBuffer s') = rest"
    by (auto simp: mem_read_def buf_read_def Let_def split: prod.split)
qed

lemma mem_parses_NewMemorySession:
  assumes "parses (\<lambda>_. True) (\<lambda>s. unread (inBuffer s)) p m bs a"
  shows "\<exists>s'. m (NewMemorySession (bs @ rest) out p) = Some (Ok a, s') \<and> props s' = p
     \<and> unread (inBuffer s') = rest"
proof -
  let ?s = "NewMemorySession (bs @ rest) out p"
  have "props ?s = p" "unread (inBuffer ?s) = bs @ rest"
    by (simp_all add: NewMemorySession_def)
  with assms show ?thesis unfolding parses_def by blast
qed

end
