(* ===== verification/TTC_Props.thy ===== *)
theory TTC_Props
  imports TTC_Wire
begin

text \<open>
  The properties of the TTC layer: round trips of every variable- and fixed-width format through
  the in-memory session, what the compressed integers do outside the width of their field, the
  errors and the panic of the readers on malformed input, termination of the CLR loops, and the
  sequence numbers of the TTC function header.
\<close>

section \<open>Round trips\<close>

lemma mem_roundtrip:
  assumes "emits p m bs" and "parses (\<lambda>_. True) (\<lambda>s. unread (inBuffer s)) p g bs a"
  shows "props s = p \<Longrightarrow> \<exists>bs. m s = Some (Ok (), s\<lparr>outBuffer := outBuffer s @ bs\<rparr>) \<and>
     (\<exists>s'. g (NewMemorySession (bs @ rest) out p) = Some (Ok a, s') \<and> unread (inBuffer s') = rest)"
  using assms(1) mem_parses_NewMemorySession [OF assms(2)] unfolding emits_def by blast

text \<open>
  C15. A CLR value written by \<open>PutClr\<close> is read back by \<open>GetClr\<close>, whatever its length and whatever
  follows it in the stream, for every chunk size the chunk header can hold; an empty value comes
  back as the nil slice.
\<close>

theorem clr_roundtrip:
  assumes "clr_ok p" and "props s = p"
  shows "\<exists>bs. PutClr data s = Some (Ok (), s\<lparr>outBuffer := outBuffer s @ bs\<rparr>) \<and>
     (\<exists>s'. GetClr mem_read (NewMemorySession (bs @ rest) out p) = Some (Ok (nslice_of data), s')
        \<and> unread (inBuffer s') = rest)"
  by (rule mem_roundtrip [OF emits_PutClr [OF assms(1)] mem.parses_GetClr [OF assms(1)] assms(2)])

definition default_props :: session_props where
  "default_props = \<lparr>UseBigClrChunks = False, UseBigScn = False, ClrChunkSize = 0x40, ServerFlags = 0\<rparr>"

theorem clr_roundtrip_witness:
  "\<exists>bs. PutClr (replicate 300 7) (NewMemorySession [] [] default_props)
      = Some (Ok (), NewMemorySession [] bs default_props) \<and>
     (\<exists>s'. GetClr mem_read (NewMemorySession (bs @ [9]) [] default_props)
        = Some (Ok (Some (replicate 300 7)), s') \<and> unread (inBuffer s') = [9])"
  using clr_roundtrip [of default_props "NewMemorySession [] [] default_props" "replicate 300 7" "[9]" "[]"]
  by (simp add: NewMemorySession_def clr_ok_def default_props_def nslice_of_def)

text \<open>
  A key/value pair written by \<open>PutKeyVal\<close> is read back by \<open>GetKeyVal\<close>, flag included, for keys and
  values whose length fits the four-byte length field.
\<close>

theorem keyval_roundtrip:
  assumes "clr_ok p" and "length key < 2 ^ 32" and "length val < 2 ^ 32" and "props s = p"
  shows "\<exists>bs. PutKeyVal key val num s = Some (Ok (), s\<lparr>outBuffer := outBuffer s @ bs\<rparr>) \<and>
     (\<exists>s'. GetKeyVal mem_read (NewMemorySession (bs @ rest) out p)
          = Some (Ok (nslice_of key, nslice_of val, uint num), s')
        \<and> unread (inBuffer s') = rest)"
proof -
  have "unat num < 2 ^ 63" by (rule less_trans [OF unat_byte_less]) simp
  from mem_roundtrip [OF emits_PutKeyVal mem.parses_GetKeyVal, OF assms(1-3) assms(1-3) this assms(4)]
  show ?thesis by simp
qed

theorem keyval_roundtrip_witness:
  "\<exists>bs. PutKeyVal [65, 66] [] 1 (NewMemorySession [] [] default_props)
      = Some (Ok (), NewMemorySession [] bs default_props) \<and>
     (\<exists>s'. GetKeyVal mem_read (NewMemorySession (bs @ [9]) [] default_props)
        = Some (Ok (Some [65, 66], None, 1), s') \<and> unread (inBuffer s') = [9])"
  using keyval_roundtrip [of default_props "[65, 66]" "[]" "NewMemorySession [] [] default_props" 1 "[9]" "[]"]
  by (simp add: NewMemorySession_def clr_ok_def default_props_def nslice_of_def)

text \<open>
  C27. A compressed integer written by \<open>PutInt\<close> is read back by \<open>GetInt64\<close> as the signed 64-bit value of
  the same bits, for every integer type and every value that fits the field.
\<close>

theorem compressed_int_roundtrip:
  assumes "int64_of_number num = Some w" and "unat w < 256 ^ unat sz" and "sz \<noteq> 0"
  shows "\<exists>bs. PutInt num sz be True s = Some (Ok (), s\<lparr>outBuffer := outBuffer s @ bs\<rparr>) \<and>
     (\<exists>s'. GetInt64 mem_read k True be' (NewMemorySession (bs @ rest) out (props s))
          = Some (Ok (sint w), s') \<and> unread (inBuffer s') = rest)"
proof -
  have "unat w < 2 ^ 64" using unsigned_less [of w] by simp
  from mem_roundtrip [OF emits_PutInt [OF assms] mem.parses_GetInt64_compressed [OF this] refl]
  show ?thesis by simp
qed

theorem compressed_int_roundtrip_witness:
  "\<exists>bs. PutInt (Int64 (-3)) 8 True True (NewMemorySession [] [] default_props)
      = Some (Ok (), NewMemorySession [] bs default_props) \<and>
     (\<exists>s'. GetInt64 mem_read 8 True True (NewMemorySession (bs @ [9]) [] default_props)
        = Some (Ok (-3), s') \<and> unread (inBuffer s') = [9])"
  using compressed_int_roundtrip
    [of "Int64 (-3)" "-3" 8 True "NewMemorySession [] [] default_props" 8 True "[9]" "[]"]
    unsigned_less [of "-3 :: u64"]
  by (simp add: NewMemorySession_def)

lemma int64_of_bytes_le:
  assumes "length bs = n" "n \<le> 8"
  shows "int64_of_bytes n False bs = sint (of_nat (le_dec bs) :: u64)"
  using assms by (simp add: int64_of_bytes_def Let_def le_dec_def be_dec_zeros)

text \<open>
  A fixed-width integer of 2, 4 or 8 bytes written by \<open>PutInt\<close> is read back by \<open>GetInt64\<close> with the
  same byte order: the low bytes of the value, zero-extended (so that only an 8-byte field keeps
  the sign).
\<close>

theorem fixed_int_roundtrip:
  assumes "int64_of_number num = Some w" and "sz \<in> {2, 4, 8}"
  shows "\<exists>bs. PutInt num sz be False s = Some (Ok (), s\<lparr>outBuffer := outBuffer s @ bs\<rparr>) \<and>
     (\<exists>s'. GetInt64 mem_read (uint sz) False be (NewMemorySession (bs @ rest) out (props s))
          = Some (Ok (sint (of_nat (unat w mod 256 ^ unat sz) :: u64)), s') \<and> unread (inBuffer s') = rest)"
proof -
  let ?bs = "fixed_int sz be w"
  have sz: "sz \<noteq> 0" "sz \<noteq> 1" "unat sz \<le> 8" "0 < uint sz" "uint sz \<le> 8" "nat (uint sz) = unat sz"
    using assms(2) by auto
  have len: "length ?bs = unat sz" using assms(2) by (auto simp: fixed_int_def)
  have val: "int64_of_bytes (unat sz) be ?bs = sint (of_nat (unat w mod 256 ^ unat sz) :: u64)"
    using assms(2) sz(3) len
    by (cases be) (auto simp: int64_of_bytes_be int64_of_bytes_le fixed_int_def codec)
  have "emits (props s) (PutInt num sz be False) ?bs"
    using assms(1) sz by (simp add: PutInt_def emits_emit)
  moreover have "parses (\<lambda>_. True) (\<lambda>s. unread (inBuffer s)) (props s)
      (GetInt64 mem_read (uint sz) False be) ?bs (sint (of_nat (unat w mod 256 ^ unat sz) :: u64))"
    unfolding GetInt64_def int_header_def using sz len val
    by (auto intro!: parses_bindI [OF mem.parses_GetBytes parses_retI])
  ultimately show ?thesis by (rule mem_roundtrip [OF _ _ refl])
qed

theorem fixed_int_roundtrip_witness:
  "\<exists>bs. PutInt (Uint16 513) 2 False False (NewMemorySession [] [] default_props)
      = Some (Ok (), NewMemorySession [] bs default_props) \<and>
     (\<exists>s'. GetInt64 mem_read 2 False False (NewMemorySession (bs @ [9]) [] default_props)
        = Some (Ok 513, s') \<and> unread (inBuffer s') = [9])"
  using fixed_int_roundtrip [of "Uint16 513" 513 2 False "NewMemorySession [] [] default_props" "[9]" "[]"]
  by (simp add: NewMemorySession_def)

section \<open>Compressed integers that do not fit their field\<close>

lemma length_trim_gt:
  assumes "256 ^ k \<le> n" and "n < 2 ^ 64"
  shows "k < length (trim_left (be_enc 8 n))"
proof (rule ccontr)
  assume "\<not> ?thesis"
  then have "(256 :: nat) ^ length (trim_left (be_enc 8 n)) \<le> 256 ^ k" by simp
  moreover have "n < 256 ^ length (trim_left (be_enc 8 n))"
    using be_dec_less [of "trim_left (be_enc 8 n)"] trim_left_facts(1) [OF assms(2)] by simp
  ultimately show False using assms(1) by linarith
qed

lemma be_dec_take:
  assumes "k \<le> length bs"
  shows "be_dec (take k bs) = be_dec bs div 256 ^ (length bs - k)"
proof -
  have "be_dec bs = be_dec (take k bs) * 256 ^ (length bs - k) + be_dec (drop k bs)"
    using be_dec_append [of "take k bs" "drop k bs"] by simp
  moreover have "be_dec (drop k bs) < 256 ^ (length bs - k)"
    using be_dec_less [of "drop k bs"] by simp
  ultimately show ?thesis by simp
qed

text \<open>
  When the value needs more bytes than the field has, \<open>PutInt\<close> keeps the most significant bytes
  instead of the least significant ones: the reader gets the value divided by a power of 256.
\<close>

theorem compressed_int_truncates_high:
  assumes "int64_of_number num = Some w" and "256 ^ unat sz \<le> unat w" and "sz \<noteq> 0"
  shows "\<exists>bs. PutInt num sz be True s = Some (Ok (), s\<lparr>outBuffer := outBuffer s @ bs\<rparr>) \<and>
     (\<exists>s'. GetInt64 mem_read k True be' (NewMemorySession (bs @ rest) out (props s))
          = Some (Ok (int (unat w div 256 ^ (length (trim_left (be_enc 8 (unat w))) - unat sz))), s')
        \<and> unread (inBuffer s') = rest)"
proof -
  let ?t = "trim_left (be_enc 8 (unat w))" and ?n = "unat sz"
  have w: "unat w < 2 ^ 64" using unsigned_less [of w] by simp
  note gt = length_trim_gt [OF assms(2) w] and t = trim_left_facts(1,2) [OF w]
  define v where "v = be_dec (take ?n ?t)"
  have n: "0 < ?n" "?n \<le> 7" using gt t(2) assms(3) by (auto simp: unat_gt_0)
  have v: "v = unat w div 256 ^ (length ?t - ?n)" "v < 256 ^ 7"
    using be_dec_take [of ?n ?t] t(1) gt be_dec_less [of "take ?n ?t"]
      power_increasing [of ?n 7 "256 :: nat"] n by (auto simp: v_def)
  have sv: "sint (of_nat v :: u64) = int v"
    using to_i64_id [of "int v"] v(2) by (simp add: to_i64_def)
  have lt: "\<not> sz > of_nat (length ?t)"
    using gt t(2) by (simp add: word_less_nat_alt unat_of_nat_byte)
  have "emits (props s) (PutInt num sz be True) (sz # take ?n ?t)"
    using assms lt by (auto simp: PutInt_def Let_def emits_def emit_def gseq_def gupd_def)
  moreover have "parses (\<lambda>_. True) (\<lambda>s. unread (inBuffer s)) (props s)
      (GetInt64 mem_read k True be') (sz # take ?n ?t) (int v)"
    using mem.parses_GetInt64_sized [of "take ?n ?t"] gt n sv by (simp add: v_def)
  ultimately show ?thesis
    unfolding v(1) by (rule mem_roundtrip [OF _ _ refl])
qed

theorem compressed_int_truncates_high_witness:
  "\<exists>bs. PutInt (IntN (2 ^ 32)) 4 True True (NewMemorySession [] [] default_props)
      = Some (Ok (), NewMemorySession [] bs default_props) \<and>
     (\<exists>s'. GetInt64 mem_read 4 True True (NewMemorySession (bs @ [9]) [] default_props)
        = Some (Ok (2 ^ 24), s') \<and> unread (inBuffer s') = [9])"
proof -
  have t: "trim_left (be_enc 8 (2 ^ 32)) = [1, 0, 0, 0, 0]"
    by (simp add: trim_left_def be_enc_numeral)
  show ?thesis
    using compressed_int_truncates_high
      [of "IntN (2 ^ 32)" "2 ^ 32" 4 True "NewMemorySession [] [] default_props" 4 True "[9]" "[]"] t
    by (simp add: NewMemorySession_def)
qed

section \<open>Termination and malformed input\<close>

definition returns_within :: "('z basic_session_scheme, 'a) gom \<Rightarrow> bool" where
  "returns_within m \<longleftrightarrow> (\<forall>s. \<exists>r s'. m s = Some (r, s')
     \<and> length (unread (inBuffer s')) \<le> length (unread (inBuffer s)))"

lemma returns_within_ret [simp]: "returns_within (gret a)" "returns_within (gerr e)" "returns_within gpanic"
  "returns_within (gget f)"
  by (auto simp: returns_within_def gret_def gerr_def gpanic_def gget_def)

lemma returns_within_bind:
  assumes "returns_within m" and "\<And>a. returns_within (f a)"
  shows "returns_within (gbind m f)"
  unfolding returns_within_def
proof
  fix s
  obtain r s1 where 1: "m s = Some (r, s1)" "length (unread (inBuffer s1)) \<le> length (unread (inBuffer s))"
    using assms(1) unfolding returns_within_def by blast
  show "\<exists>r s'. gbind m f s = Some (r, s') \<and> length (unread (inBuffer s')) \<le> length (unread (inBuffer s))"
  proof (cases r)
    case (Ok a)
    obtain r2 s2 where "f a s1 = Some (r2, s2)" "length (unread (inBuffer s2)) \<le> length (unread (inBuffer s1))"
      using assms(2) [of a] unfolding returns_within_def by blast
    with 1 Ok show ?thesis by (auto intro: le_trans)
  qed (use 1 in auto)
qed

lemma mem_read_within:
  "\<exists>r s'. mem_read n s = Some (r, s') \<and> length (unread (inBuffer s')) \<le> length (unread (inBuffer s))
     \<and> (r = Ok bs \<and> 0 < n \<longrightarrow> length (unread (inBuffer s')) < length (unread (inBuffer s)))"
proof -
  obtain out eof b where b: "buf_read (nat n) (inBuffer s) = ((out, eof), b)"
    by (metis prod.exhaust_sel)
  with buf_read_parts [of "nat n" "inBuffer s"]
  have "out = take (nat n) (unread (inBuffer s))" "eof = (unread (inBuffer s) = [] \<and> nat n \<noteq> 0)"
    "unread b = drop (nat n) (unread (inBuffer s))"
    by auto
  with b show ?thesis
    by (cases "unread (inBuffer s) = []") (auto simp: mem_read_def)
qed

lemma returns_within_readers:
  "returns_within (GetBytes mem_read n)" "returns_within (GetByte mem_read)"
  "returns_within (GetInt mem_read k c be)" "returns_within (clr_chunk_size mem_read)"
proof -
  show rd: "returns_within (GetBytes mem_read n)" for n
    using mem_read_within unfolding returns_within_def GetBytes_def by blast
  show gb: "returns_within (GetByte mem_read)"
    using rd unfolding GetByte_def GetBytes_def by (auto intro!: returns_within_bind split: list.split)
  have hd: "returns_within (int_header mem_read k c be)" for k c be
    using gb unfolding int_header_def by (auto intro!: returns_within_bind)
  show gi: "returns_within (GetInt mem_read k c be)" for k c be
    unfolding GetInt_def GetInt64_def Let_def
    by (auto intro!: returns_within_bind hd rd split: prod.split)
  show "returns_within (clr_chunk_size mem_read)"
    unfolding clr_chunk_size_def by (auto intro!: returns_within_bind gi gb)
qed

lemma clr_chunks_returns: "clr_chunks mem_read acc s \<noteq> None"
proof (induction "length (unread (inBuffer s))" arbitrary: acc s rule: less_induct)
  case less
  obtain r s1 where 1: "clr_chunk_size mem_read s = Some (r, s1)"
      "length (unread (inBuffer s1)) \<le> length (unread (inBuffer s))"
    using returns_within_readers(4) unfolding returns_within_def by blast
  show ?case
  proof (cases r)
    case (Ok n)
    obtain r2 s2 where 2: "mem_read n s1 = Some (r2, s2)"
      using mem_read_within [of n s1] by blast
    show ?thesis
    proof (cases r2)
      case chunk: (Ok c)
      show ?thesis
      proof (cases "0 < n")
        case True
        have "length (unread (inBuffer s2)) < length (unread (inBuffer s1))"
          using mem_read_within [of n s1 c] 2 chunk True by auto
        then have "clr_chunks mem_read (acc @ c) s2 \<noteq> None"
          using less 1 by auto
        with 1 Ok 2 chunk True show ?thesis
          by (subst clr_chunks.simps) (simp add: GetBytes_def)
      next
        case False
        with 1 Ok 2 chunk show ?thesis
          by (subst clr_chunks.simps) (simp add: GetBytes_def gret_def)
      qed
    qed (use 1 Ok 2 in \<open>subst clr_chunks.simps, simp add: GetBytes_def\<close>)+
  qed (use 1 in \<open>subst clr_chunks.simps, simp\<close>)+
qed

text \<open>
  C32. The chunk loop of \<open>GetClr\<close> ends on every input: reading a CLR value from an in-memory session
  always returns, with a value, an error or a panic, whatever the bytes are.
\<close>

theorem GetClr_returns: "GetClr mem_read s \<noteq> None"
proof -
  obtain r s1 where 1: "GetByte mem_read s = Some (r, s1)"
    using returns_within_readers(2) unfolding returns_within_def by blast
  show ?thesis
  proof (cases r)
    case (Ok nb)
    obtain r2 s2 where "mem_read (uint nb) s1 = Some (r2, s2)"
      using mem_read_within [of "uint nb" s1] by blast
    moreover obtain r3 s3 where "clr_chunks mem_read [] s1 = Some (r3, s3)"
      using clr_chunks_returns [of "[]" s1] by (cases "clr_chunks mem_read [] s1") auto
    ultimately show ?thesis
      using 1 Ok by (cases r2; cases r3) (auto simp: GetClr_def GetBytes_def gret_def)
  qed (use 1 in \<open>simp_all add: GetClr_def\<close>)
qed

text \<open>
  A compressed integer whose leading byte announces more than eight bytes is rejected after that
  byte, and nothing more is consumed.
\<close>

theorem GetInt64_rejects_size:
  assumes "8 < unat (b AND 0x7F)"
  shows "\<exists>s'. GetInt64 mem_read k True be (NewMemorySession (b # rest) out p)
     = Some (Err (InvalidSize (if b AND 0x80 \<noteq> 0 then uint (b AND 0x7F) else uint b)), s')
     \<and> unread (inBuffer s') = rest"
proof -
  let ?s = "NewMemorySession (b # rest) out p"
  define sz where "sz = (if b AND 0x80 \<noteq> 0 then uint (b AND 0x7F) else uint b)"
  have "unat (b AND 0x7F) \<le> unat b" using word_and_le2 [of b] by (simp add: word_le_nat_alt)
  then have sz: "8 < sz"
    using assms of_nat_unat [of b, where ?'a = int] of_nat_unat [of "b AND 0x7F", where ?'a = int]
    unfolding sz_def by (auto simp del: of_nat_unat)
  have "parses (\<lambda>_. True) (\<lambda>s. unread (inBuffer s)) p (int_header mem_read k True be) [b]
      (sz, b AND 0x80 \<noteq> 0, True)"
    unfolding int_header_def if_True sz_def
    by (rule parses_bindI [OF mem.parses_GetByte parses_retI]) auto
  from mem_parses_NewMemorySession [OF this, of rest out]
  obtain s' where "int_header mem_read k True be ?s = Some (Ok (sz, b AND 0x80 \<noteq> 0, True), s')"
      "unread (inBuffer s') = rest"
    by auto
  with sz show ?thesis by (auto simp: GetInt64_def gerr_def sz_def)
qed

theorem GetInt64_rejects_size_witness:
  "\<exists>s'. GetInt64 mem_read 4 True True (NewMemorySession [0x89, 1, 2] [] default_props)
     = Some (Err (InvalidSize 9), s') \<and> unread (inBuffer s') = [1, 2]"
  using GetInt64_rejects_size [of "0x89" 4 True "[1, 2]" "[]" default_props] by simp

text \<open>
  With big chunks, a chunk length with the sign bit set makes \<open>GetClr\<close> panic: the negative length
  reaches \<open>make\<close> unchecked.
\<close>

theorem GetClr_negative_chunk_panics:
  assumes "UseBigClrChunks p" and "b \<noteq> 0"
  shows "\<exists>s'. GetClr mem_read (NewMemorySession (0xFE # 0x81 # b # rest) out p) = Some (Panic, s')"
proof -
  let ?ok = "\<lambda>_. True" and ?pend = "\<lambda>s. unread (inBuffer s)"
  have hd: "parses ?ok ?pend p (int_header mem_read 4 True True) [0x81] (1, True, True)"
    unfolding int_header_def if_True
    by (rule parses_bindI [OF mem.parses_GetByte parses_retI]) simp_all
  have "uint b < 256" "0 \<le> uint b" using uint_bounded [of b] by simp_all
  then have "to_i64 (uint b) = uint b \<and> to_i64 (- uint b) = - uint b"
    by (intro to_i64_abs) simp_all
  moreover have "int64_of_bytes 1 True [b] = to_i64 (uint b)"
    by (simp add: int64_of_bytes_be be_dec_Cons to_i64_def)
  ultimately have neg: "to_i64 (int64_of_bytes 1 True [b] * - 1) = - uint b"
    by simp
  have body: "parses ?ok ?pend p (gbind (GetBytes mem_read 1) (\<lambda>rb.
      gret (to_i64 (int64_of_bytes 1 True rb * - 1)))) [b] (- uint b)"
    by (rule parses_bindI [OF mem.parses_GetBytes parses_retI]) (use neg in simp_all)
  have "parses ?ok ?pend p (GetInt64 mem_read 4 True True) [0x81, b] (- uint b)"
    unfolding GetInt64_def by (rule parses_bindI [OF hd]) (use body in \<open>simp_all add: Let_def\<close>)
  then have "parses ?ok ?pend p (GetInt mem_read 4 True True) [0x81, b] (- uint b)"
    unfolding GetInt_def by (rule parses_bindI [OF _ parses_retI]) simp_all
  then have size: "parses ?ok ?pend p (clr_chunk_size mem_read) [0x81, b] (- uint b)"
    unfolding clr_chunk_size_def using assms(1) by (intro parses_get) simp
  let ?s0 = "NewMemorySession (0xFE # 0x81 # b # rest) out p"
  obtain s1 where s1: "GetByte mem_read ?s0 = Some (Ok 0xFE, s1)" "props s1 = p"
      "unread (inBuffer s1) = [0x81, b] @ rest"
    using mem_parses_NewMemorySession [OF mem.parses_GetByte [of p "0xFE"], of "[0x81, b] @ rest" out]
    by auto
  then obtain s2 where s2: "clr_chunk_size mem_read s1 = Some (Ok (- uint b), s2)"
    using size unfolding parses_def by blast
  have "- uint b < 0" using assms(2) uint_nonnegative [of b] by (auto simp: less_le uint_0_iff)
  then have "mem_read (- uint b) s2 = Some (Panic, s2)" by (simp add: mem_read_def)
  with s2 have "clr_chunks mem_read [] s1 = Some (Panic, s2)"
    by (subst clr_chunks.simps) (simp add: GetBytes_def)
  with s1 show ?thesis by (simp add: GetClr_def)
qed

theorem GetClr_negative_chunk_panics_witness:
  "\<exists>s'. GetClr mem_read (NewMemorySession [0xFE, 0x81, 5, 1, 2, 3, 4, 5] []
       (default_props\<lparr>UseBigClrChunks := True\<rparr>)) = Some (Panic, s')"
  using GetClr_negative_chunk_panics [of "default_props\<lparr>UseBigClrChunks := True\<rparr>" 5 "[1, 2, 3, 4, 5]" "[]"]
  by simp

section \<open>The TTC function header\<close>

text \<open>The sequence numbers \<open>PutTTCFunc\<close> writes when it is called \<open>n\<close> times in a row.\<close>

primrec ttc_calls :: "nat \<Rightarrow> byte \<Rightarrow> byte \<Rightarrow> ('z basic_session_scheme, unit) gom" where
  "ttc_calls 0 c f = gret ()"
| "ttc_calls (Suc n) c f = gseq (ttc_calls n c f) (PutTTCFunc c f)"

definition ttc_header :: "byte \<Rightarrow> byte \<Rightarrow> byte \<Rightarrow> nat \<Rightarrow> byte list" where
  "ttc_header ver c f n = [c, f, of_nat (n mod 254 + 1)] @ (if ver \<ge> 18 then [0] else [])"

lemma PutTTCFunc_step:
  assumes "ttcIndex s = (if n = 0 then 0 else of_nat ((n - 1) mod 254 + 2))"
  shows "PutTTCFunc c f s = Some (Ok (), s\<lparr>outBuffer := outBuffer s @ ttc_header (TTCVersion s) c f n,
     ttcIndex := of_nat (n mod 254 + 2)\<rparr>)"
proof -
  have "(if ttcIndex s = 0 \<or> ttcIndex s = 255 then 1 else ttcIndex s) = of_nat (n mod 254 + 1)"
  proof (cases "n = 0")
    case False
    define k where "k = (n - 1) mod 254"
    have k: "k < 254" "n mod 254 = (if k = 253 then 0 else k + 1)"
      using False mod_Suc [of "n - 1" 254] by (auto simp: k_def)
    then have "unat (of_nat (k + 2) :: byte) = k + 2" by (intro unat_of_nat_byte) simp
    then have "(of_nat (k + 2) :: byte) \<noteq> 0" "(of_nat (k + 2) :: byte) = 255 \<longleftrightarrow> k = 253"
      by (auto simp: word_unat_eq_iff simp del: of_nat_add)
    with False assms k show ?thesis by (auto simp: k_def)
  qed (use assms in simp)
  then show ?thesis
    by (auto simp: PutTTCFunc_def PutBytes_def emit_def ttc_header_def go_monad split: if_splits)
qed

text \<open>
  C30. The sequence number in the header of the \<open>n\<close>-th TTC function of a session is \<open>n mod 254 + 1\<close>:
  it runs through 1 to 254 and is never 0 nor 255; from version 18 on a token byte follows it.
\<close>

theorem ttc_sequence_numbers:
  assumes "ttcIndex s = 0"
  shows "ttc_calls n c f s = Some (Ok (), s\<lparr>outBuffer := outBuffer s
      @ concat (map (ttc_header (TTCVersion s) c f) [0..<n]),
     ttcIndex := (if n = 0 then 0 else of_nat ((n - 1) mod 254 + 2))\<rparr>)"
proof (induction n)
  case 0
  have "s\<lparr>outBuffer := outBuffer s, ttcIndex := 0\<rparr> = s" using assms by simp
  then show ?case by (simp add: gret_def)
next
  case (Suc n)
  then show ?case by (simp add: gseq_def PutTTCFunc_step)
qed

theorem ttc_sequence_numbers_witness:
  "ttc_calls 2 3 94 (NewMemorySession [] [] default_props)
     = Some (Ok (), (NewMemorySession [] [3, 94, 1, 3, 94, 2] default_props)\<lparr>ttcIndex := 3\<rparr>)"
  using ttc_sequence_numbers [of "NewMemorySession [] [] default_props" 2 3 94]
  by (simp add: NewMemorySession_def ttc_header_def upt_rec)

end
