(* ===== verification/TNS_Packets.thy ===== *)
theory TNS_Packets
  imports Go_Prelude
begin

text \<open>
  The TNS packets of \<^verbatim>\<open>v3/network\<close>: the common eight-byte header (\<^verbatim>\<open>packets.go\<close>), the packets
  the client builds (\<^verbatim>\<open>connect_packet.go\<close>, \<^verbatim>\<open>data_packet.go\<close>, \<^verbatim>\<open>marker_packet.go\<close>) and the ones
  it parses (\<^verbatim>\<open>accept_packet.go\<close>, \<^verbatim>\<open>redirect_packet.go\<close>, \<^verbatim>\<open>refuse_packet.go\<close>), with the session
  context they share (\<^verbatim>\<open>session_ctx.go\<close>). The negotiated crypto layer is the Go interface
  \<^verbatim>\<open>AdvancedNegotiator\<close>: a state of type \<open>'n\<close> in the context and a table of its methods as an
  argument.
\<close>

section \<open>Session context\<close>

text \<open>The fields of \<^verbatim>\<open>ConnectionConfig\<close> the network layer reads.\<close>

record conn_config =
  SessionDataUnitSize :: u32
  TransportDataUnitSize :: u32
  EnableOOB :: bool
  SSL :: bool
  ConnectionData :: "byte list"

record 'n session_context =
  SID :: "byte list"
  connConfig :: conn_config
  Version :: u16
  LoVersion :: u16
  Options :: u16
  NegotiatedOptions :: u16
  NegotiatedOptions2 :: u32
  OurOne :: u16
  hisOne :: u16
  ReconAddr :: "byte list"
  handshakeComplete :: bool
  ACFL0 :: byte
  ACFL1 :: byte
  SessionDataUnit :: u32
  TransportDataUnit :: u32
  UsingAsyncReceivers :: bool
  IsNTConnected :: bool
  OnBreakReset :: bool
  GotReset :: bool
  nego :: "'n option"
  isRedirect :: bool
  FastAuthEnabled :: bool
  EODDAFlagEnabled :: bool
  UUID :: "byte list"

definition zero_context :: "conn_config \<Rightarrow> 'n session_context" where
  "zero_context config =
     \<lparr>SID = [], connConfig = config, Version = 0, LoVersion = 0, Options = 0, NegotiatedOptions = 0,
      NegotiatedOptions2 = 0, OurOne = 0, hisOne = 0, ReconAddr = [], handshakeComplete = False,
      ACFL0 = 0, ACFL1 = 0, SessionDataUnit = 0, TransportDataUnit = 0, UsingAsyncReceivers = False,
      IsNTConnected = False, OnBreakReset = False, GotReset = False, nego = None, isRedirect = False,
      FastAuthEnabled = False, EODDAFlagEnabled = False, UUID = []\<rparr>"

definition NewSessionContext :: "conn_config \<Rightarrow> 'n session_context" where
  "NewSessionContext config = (zero_context config)
     \<lparr>SessionDataUnit := SessionDataUnitSize config,
      TransportDataUnit := TransportDataUnitSize config,
      Version := 319, LoVersion := 300,
      Options := (if EnableOOB config then (1 OR 2048) OR 1024 else 1 OR 2048),
      OurOne := 1\<rparr>"

definition SetAdvancedNegotiator :: "'n \<Rightarrow> 'n session_context \<Rightarrow> 'n session_context" where
  "SetAdvancedNegotiator n ctx = ctx\<lparr>nego := Some n\<rparr>"

text \<open>
  The methods of the interface \<^verbatim>\<open>AdvancedNegotiator\<close>; \<open>WriteAliases\<close> tells whether the slice that
  \<open>WriteDataBuffer\<close> returns is its argument itself rather than a slice of its own.
\<close>

record 'n nego_ops =
  WriteDataBuffer :: "'n \<Rightarrow> byte list \<Rightarrow> byte list res \<times> 'n"
  ReadDataBuffer :: "'n \<Rightarrow> byte list \<Rightarrow> byte list res \<times> 'n"
  WriteAliases :: "'n \<Rightarrow> bool"
  NegoReset :: "'n \<Rightarrow> unit res \<times> 'n"

section \<open>The common header\<close>

definition CONNECT :: byte where "CONNECT = 1"
definition ACCEPT :: byte where "ACCEPT = 2"
definition REFUSE :: byte where "REFUSE = 4"
definition REDIRECT :: byte where "REDIRECT = 5"
definition DATA :: byte where "DATA = 6"
definition RESEND :: byte where "RESEND = 11"
definition MARKER :: byte where "MARKER = 12"

lemmas packet_types = CONNECT_def ACCEPT_def REFUSE_def REDIRECT_def DATA_def RESEND_def MARKER_def

record packet =
  dataOffset :: u16
  pck_length :: u32
  packetType :: byte
  flag :: byte

text \<open>From version 315 on, and only once the handshake is complete, lengths take four bytes.\<close>

definition wide_length :: "'n session_context \<Rightarrow> bool" where
  "wide_length ctx \<longleftrightarrow> handshakeComplete ctx \<and> Version ctx \<ge> 315"

definition Packet_bytes :: "'n session_context \<Rightarrow> packet \<Rightarrow> byte list res" where
  "Packet_bytes ctx pck =
     (let output = replicate 8 0;
          output = (if dataOffset pck > 8 then output @ replicate (unat (dataOffset pck - 8)) 0 else output)
      in rbind (if wide_length ctx then put_at 0 (be_enc 4 (unat (pck_length pck))) output
                else put_at 0 (be_enc 2 (unat (ucast (pck_length pck) :: u16))) output) (\<lambda>output.
         rbind (put_at 4 [packetType pck] output) (\<lambda>output.
         put_at 5 [flag pck] output)))"

section \<open>Data packets\<close>

definition data_header :: "'n session_context \<Rightarrow> packet \<Rightarrow> u16 \<Rightarrow> byte list res" where
  "data_header ctx pck dataFlag =
     rbind (Packet_bytes ctx pck) (\<lambda>output. put_at 8 (be_enc 2 (unat dataFlag)) output)"

definition DataPacket_bytes :: "'n session_context \<Rightarrow> packet \<Rightarrow> u16 \<Rightarrow> byte list \<Rightarrow> byte list res" where
  "DataPacket_bytes ctx pck dataFlag buffer =
     rbind (data_header ctx pck dataFlag) (\<lambda>output.
       Ok (if length buffer > 0 then output @ buffer else output))"

text \<open>The payload goes through the negotiated layer first; its error ends the call.\<close>

definition newDataPacket ::
    "'n nego_ops \<Rightarrow> byte list \<Rightarrow> u16 \<Rightarrow> 'n session_context
     \<Rightarrow> (packet \<times> u16 \<times> byte list) res \<times> 'n session_context" where
  "newDataPacket ops initialData dataFlag ctx =
     (let mk = (\<lambda>d. (\<lparr>dataOffset = 0xA, pck_length = of_nat (length d) + 0xA, packetType = DATA, flag = 0\<rparr>,
                     dataFlag, d))
      in case nego ctx of None \<Rightarrow> (Ok (mk initialData), ctx)
         | Some n \<Rightarrow> (case WriteDataBuffer ops n initialData of (r, n') \<Rightarrow>
             (rbind r (\<lambda>d. Ok (mk d)), ctx\<lparr>nego := Some n'\<rparr>)))"

definition read_length :: "'n session_context \<Rightarrow> byte list \<Rightarrow> u32 res" where
  "read_length ctx packetData =
     rbind (if wide_length ctx then be_at 4 0 packetData else be_at 2 0 packetData) (\<lambda>n. Ok (of_nat n))"

definition newDataPacketFromData ::
    "'n nego_ops \<Rightarrow> byte list \<Rightarrow> 'n session_context
     \<Rightarrow> (packet \<times> u16 \<times> byte list) res \<times> 'n session_context" where
  "newDataPacketFromData ops packetData ctx =
     (if length packetData < 0xA \<or> packetData ! 4 \<noteq> DATA then (Err NotDataPacket, ctx)
      else let dataFlag = of_nat (be_dec (slice 8 10 packetData)) :: u16;
               buffer = drop 10 packetData;
               len = read_length ctx packetData;
               mk = (\<lambda>l d. (\<lparr>dataOffset = 0xA, pck_length = l, packetType = packetData ! 4,
                            flag = packetData ! 5\<rparr>, dataFlag, d))
           in case nego ctx of
                Some n \<Rightarrow> (if length buffer > 1
                  then (case ReadDataBuffer ops n buffer of (r, n') \<Rightarrow>
                    (rbind len (\<lambda>l. rbind r (\<lambda>d. Ok (mk l d))), ctx\<lparr>nego := Some n'\<rparr>))
                  else (rbind len (\<lambda>l. Ok (mk l buffer)), ctx))
              | None \<Rightarrow> (rbind len (\<lambda>l. Ok (mk l buffer)), ctx))"

section \<open>Marker packets\<close>

definition marker_type_reset :: byte where "marker_type_reset = 2"
definition marker_type_interrupt :: byte where "marker_type_interrupt = 3"

definition newMarkerPacket :: "byte \<Rightarrow> packet \<times> byte" where
  "newMarkerPacket markerType =
     (\<lparr>dataOffset = 0, pck_length = 0xB, packetType = MARKER, flag = 0x20\<rparr>, markerType)"

definition MarkerPacket_bytes :: "'n session_context \<Rightarrow> byte \<Rightarrow> byte list" where
  "MarkerPacket_bytes ctx markerType =
     (if wide_length ctx then [0, 0, 0, 0xB, 0xC, 0, 0, 0, 1, 0, markerType]
      else [0, 0xB, 0, 0, 0xC, 0, 0, 0, 1, 0, markerType])"

definition newMarkerPacketFromData ::
    "byte list \<Rightarrow> 'n session_context \<Rightarrow> (packet \<times> byte) option res" where
  "newMarkerPacketFromData packetData ctx =
     (if length packetData \<noteq> 0xB then Ok None
      else rbind (read_length ctx packetData) (\<lambda>l.
        if packetData ! 4 \<noteq> MARKER then Ok None
        else Ok (Some (\<lparr>dataOffset = 0, pck_length = l, packetType = packetData ! 4,
                        flag = packetData ! 5\<rparr>, packetData ! 10))))"

section \<open>Connect packets\<close>

definition newConnectPacket ::
    "'n session_context \<Rightarrow> (packet \<times> byte list) \<times> 'n session_context" where
  "newConnectPacket ctx =
     (let connectData = ConnectionData (connConfig ctx);
          len = (of_nat (length connectData) :: u32);
          len = (if len > 230 then 0 else len) + 74;
          ctx = ctx\<lparr>hisOne := 1, ACFL0 := 1, ACFL1 := 1\<rparr>
      in ((\<lparr>dataOffset = 74, pck_length = len, packetType = CONNECT,
            flag = (if isRedirect ctx then 4 else 0)\<rparr>, connectData), ctx))"

definition clamp16 :: "u32 \<Rightarrow> u16" where
  "clamp16 x = (if x > 0xFFFF then 0xFFFF else ucast x)"

definition ConnectPacket_bytes :: "'n session_context \<Rightarrow> packet \<Rightarrow> byte list \<Rightarrow> byte list res" where
  "ConnectPacket_bytes ctx pck buffer =
     rbind (Packet_bytes ctx pck) (\<lambda>out.
     rbind (put_at 8 (be_enc 2 (unat (Version ctx))) out) (\<lambda>out.
     rbind (put_at 10 (be_enc 2 (unat (LoVersion ctx))) out) (\<lambda>out.
     rbind (put_at 12 (be_enc 2 (unat (Options ctx))) out) (\<lambda>out.
     rbind (put_at 14 (be_enc 2 (unat (clamp16 (SessionDataUnit ctx)))) out) (\<lambda>out.
     rbind (put_at 58 (be_enc 4 (unat (SessionDataUnit ctx))) out) (\<lambda>out.
     rbind (put_at 16 (be_enc 2 (unat (clamp16 (TransportDataUnit ctx)))) out) (\<lambda>out.
     rbind (put_at 62 (be_enc 4 (unat (TransportDataUnit ctx))) out) (\<lambda>out.
     rbind (put_at 66 (be_enc 4 0) out) (\<lambda>out.
     rbind (put_at 70 (be_enc 4 0) out) (\<lambda>out.
     rbind (put_at 18 [79] out) (\<lambda>out.
     rbind (put_at 19 [152] out) (\<lambda>out.
     rbind (put_at 22 (be_enc 2 (unat (OurOne ctx))) out) (\<lambda>out.
     rbind (put_at 24 (be_enc 2 (length buffer)) out) (\<lambda>out.
     rbind (put_at 26 (be_enc 2 (unat (dataOffset pck))) out) (\<lambda>out.
     rbind (put_at 32 [ACFL0 ctx] out) (\<lambda>out.
     rbind (put_at 33 [ACFL1 ctx] out) (\<lambda>out.
     Ok (if length buffer \<le> 230 then out @ buffer else out))))))))))))))))))"

section \<open>Accept packets\<close>

definition u16_at :: "nat \<Rightarrow> byte list \<Rightarrow> u16 res" where
  "u16_at i xs = rbind (be_at 2 i xs) (\<lambda>n. Ok (of_nat n))"

definition u32_at :: "nat \<Rightarrow> byte list \<Rightarrow> u32 res" where
  "u32_at i xs = rbind (be_at 4 i xs) (\<lambda>n. Ok (of_nat n))"

text \<open>The reconnect address; \<open>start + len\<close> is a 16-bit sum.\<close>

definition recon_addr :: "byte list \<Rightarrow> byte list res" where
  "recon_addr packetData =
     rbind (u16_at 28 packetData) (\<lambda>start. rbind (u16_at 30 packetData) (\<lambda>len.
       if start \<noteq> 0 \<and> len \<noteq> 0 \<and> (of_nat (length packetData) :: u16) > start + len
       then slice_at (unat start) (unat (start + len)) packetData
       else Ok []))"

definition accept_context :: "byte list \<Rightarrow> conn_config \<Rightarrow> 'n session_context res" where
  "accept_context d config =
     rbind (recon_addr d) (\<lambda>recon.
     rbind (if length d \<ge> 45 then u32_at 41 d else Ok 0) (\<lambda>neg2.
     rbind (u16_at 8 d) (\<lambda>ver. rbind (u16_at 10 d) (\<lambda>opts. rbind (u16_at 16 d) (\<lambda>one.
     rbind (u16_at 12 d) (\<lambda>sdu. rbind (u16_at 14 d) (\<lambda>tdu.
       Ok ((zero_context config)\<lparr>Version := ver, NegotiatedOptions := opts, hisOne := one,
            ReconAddr := recon, ACFL0 := d ! 22, ACFL1 := d ! 23, NegotiatedOptions2 := neg2,
            SessionDataUnit := ucast sdu, TransportDataUnit := ucast tdu,
            FastAuthEnabled := (neg2 AND 0x10000000 \<noteq> 0),
            EODDAFlagEnabled := (neg2 AND 0x2000000 \<noteq> 0)\<rparr>))))))))"

text \<open>The UUID slice may run past the length of \<open>d\<close> into \<open>spare\<close>, the unused capacity behind it.\<close>

definition accept_uuid :: "byte list \<Rightarrow> byte list \<Rightarrow> u32 \<Rightarrow> 'n session_context \<Rightarrow> 'n session_context res" where
  "accept_uuid spare d len ctx =
     (if Version ctx \<ge> 319 \<and> len \<ge> 61
      then rbind (slice_at 45 61 (d @ spare)) (\<lambda>u. Ok (ctx\<lparr>UUID := u\<rparr>)) else Ok ctx)"

definition accept_units :: "byte list \<Rightarrow> 'n session_context \<Rightarrow> 'n session_context res" where
  "accept_units d ctx =
     (if Version ctx \<ge> 315
      then rbind (u32_at 32 d) (\<lambda>sdu. rbind (u32_at 36 d) (\<lambda>tdu.
             Ok (ctx\<lparr>SessionDataUnit := sdu, TransportDataUnit := tdu\<rparr>)))
      else Ok ctx)"

definition accept_sid :: "byte list \<Rightarrow> u32 \<Rightarrow> 'n session_context \<Rightarrow> (u32 \<times> 'n session_context) res" where
  "accept_sid d len ctx =
     (if d ! 5 AND 1 \<noteq> 0
      then rbind (slice_from (unat (len - 16)) d) (\<lambda>sid. Ok (len - 16, ctx\<lparr>SID := sid\<rparr>))
      else Ok (len, ctx))"

definition accept_clamp :: "'n session_context \<Rightarrow> 'n session_context" where
  "accept_clamp ctx = (if TransportDataUnit ctx < SessionDataUnit ctx
     then ctx\<lparr>SessionDataUnit := TransportDataUnit ctx\<rparr> else ctx)"

definition newAcceptPacketFromData ::
    "byte list \<Rightarrow> byte list \<Rightarrow> conn_config \<Rightarrow> (packet \<times> byte list \<times> 'n session_context) option res" where
  "newAcceptPacketFromData spare d config =
     (if length d < 32 then Ok None
      else
        rbind (accept_context d config) (\<lambda>ctx.
        rbind (u16_at 20 d) (\<lambda>off. rbind (u16_at 0 d) (\<lambda>len0.
        rbind (slice_from (unat off) d) (\<lambda>buffer.
        rbind (accept_uuid spare d (ucast len0) ctx) (\<lambda>ctx.
        rbind (accept_units d ctx) (\<lambda>ctx.
        rbind (accept_sid d (ucast len0) ctx) (\<lambda>(len, ctx).
        rbind (u16_at 18 d) (\<lambda>n.
          if n \<noteq> of_nat (length buffer) then Ok None
          else Ok (Some (\<lparr>dataOffset = off, pck_length = len, packetType = d ! 4, flag = d ! 5\<rparr>,
                         buffer, accept_clamp ctx)))))))))))"

definition AcceptPacket_bytes :: "'n session_context \<Rightarrow> packet \<Rightarrow> byte list \<Rightarrow> byte list res" where
  "AcceptPacket_bytes ctx pck buffer =
     rbind (Packet_bytes ctx pck) (\<lambda>out.
     rbind (put_at 8 (be_enc 2 (unat (Version ctx))) out) (\<lambda>out.
     rbind (put_at 10 (be_enc 2 (unat (Options ctx))) out) (\<lambda>out.
     rbind (if Version ctx < 315
            then rbind (put_at 12 (be_enc 2 (unat (SessionDataUnit ctx))) out) (\<lambda>out.
                   put_at 14 (be_enc 2 (unat (TransportDataUnit ctx))) out)
            else rbind (put_at 32 (be_enc 4 (unat (SessionDataUnit ctx))) out) (\<lambda>out.
                   put_at 36 (be_enc 4 (unat (TransportDataUnit ctx))) out)) (\<lambda>out.
     rbind (put_at 16 (be_enc 2 (unat (hisOne ctx))) out) (\<lambda>out.
     rbind (put_at 18 (be_enc 2 (length buffer)) out) (\<lambda>out.
     rbind (put_at 20 (be_enc 2 (unat (dataOffset pck))) out) (\<lambda>out.
     rbind (put_at 22 [ACFL0 ctx] out) (\<lambda>out.
     rbind (put_at 23 [ACFL1 ctx] out) (\<lambda>out. Ok (out @ buffer))))))))))"

section \<open>Redirect and refuse packets\<close>

definition newRedirectPacketFromData :: "byte list \<Rightarrow> packet option res" where
  "newRedirectPacketFromData d =
     (if length d < 10 then Ok None
      else rbind (u16_at 0 d) (\<lambda>len.
        Ok (Some \<lparr>dataOffset = 10, pck_length = ucast len, packetType = d ! 4, flag = d ! 5\<rparr>)))"

record refuse_packet = packet +
  SystemReason :: byte
  UserReason :: byte
  message :: "byte list"

definition newRefusePacketFromData :: "byte list \<Rightarrow> refuse_packet option res" where
  "newRefusePacketFromData d =
     (if length d < 12 then Ok None
      else rbind (u16_at 10 d) (\<lambda>dataLen.
        rbind (if (of_nat (length d) :: u16) \<ge> 12 + dataLen
               then slice_at 12 (unat (12 + dataLen)) d else Ok []) (\<lambda>msg.
        rbind (u16_at 0 d) (\<lambda>len.
        Ok (Some \<lparr>dataOffset = 12, pck_length = ucast len, packetType = d ! 4, flag = 0,
              SystemReason = d ! 9, UserReason = d ! 8, message = msg\<rparr>)))))"

text \<open>The serialized forms, used only to send such a packet again.\<close>

definition RedirectPacket_bytes ::
    "'n session_context \<Rightarrow> packet \<Rightarrow> byte list \<Rightarrow> byte list \<Rightarrow> byte list res" where
  "RedirectPacket_bytes ctx pck redirectAddr reconnectData =
     rbind (Packet_bytes ctx pck) (\<lambda>out.
       let data = redirectAddr @ [0] @ reconnectData
       in rbind (put_at 8 (be_enc 2 (length data)) out) (\<lambda>out. Ok (out @ data)))"

definition RefusePacket_bytes :: "'n session_context \<Rightarrow> refuse_packet \<Rightarrow> byte list res" where
  "RefusePacket_bytes ctx pck =
     rbind (Packet_bytes ctx \<lparr>dataOffset = dataOffset pck, pck_length = pck_length pck,
                              packetType = packetType pck, flag = flag pck\<rparr>) (\<lambda>out.
     rbind (put_at 8 [SystemReason pck] out) (\<lambda>out.
     rbind (put_at 9 [UserReason pck] out) (\<lambda>out.
     rbind (put_at 10 (be_enc 2 (length (message pck))) out) (\<lambda>out.
     Ok (out @ message pck)))))"

end
