(* ===== verification/TNS_Packet_Props.thy ===== *)
theory TNS_Packet_Props
  imports TNS_Packets
begin

text \<open>
  Properties of the packet codecs: the layout of the common header, round trips of data and marker
  packets, the announced length of a connect packet, and what the parsers of the server's answers do
  with well-formed and with malformed input.
\<close>

section \<open>The common header\<close>

definition fits_length :: "'n session_context \<Rightarrow> nat \<Rightarrow> bool" where
  "fits_length ctx n \<longleftrightarrow> n < (if wide_length ctx then 2 ^ 32 else 2 ^ 16)"

definition header8 :: "'n session_context \<Rightarrow> nat \<Rightarrow> byte \<Rightarrow> byte \<Rightarrow> byte list" where
  "header8 ctx len ty fl =
     (if wide_length ctx then be_enc 4 len else be_enc 2 len @ [0, 0]) @ [ty, fl, 0, 0]"

lemma length_header8 [simp]: "length (header8 ctx len ty fl) = 8"
  by (simp add: header8_def)

lemma header8_fields [simp]:
  "header8 ctx len ty fl ! 4 = ty" "header8 ctx len ty fl ! 5 = fl"
  by (auto simp: header8_def nth_append)

lemma Packet_bytes_eq:
  assumes "fits_length ctx (unat (pck_length p))"
  shows "Packet_bytes ctx p = Ok (header8 ctx (unat (pck_length p)) (packetType p) (flag p)
     @ replicate (unat (dataOffset p) - 8) 0)"
proof -
  have u: "unat (dataOffset p - 8) = unat (dataOffset p) - 8" if "dataOffset p > 8"
    using that by (simp add: unat_sub_if' word_less_nat_alt)
  have small: "unat (ucast (pck_length p) :: u16) = unat (pck_length p)" if "\<not> wide_length ctx"
    using assms that by (simp add: fits_length_def unsigned_ucast_eq take_bit_nat_eq_self)
  have z: "replicate 8 (0 :: byte) = [0, 0, 0, 0, 0, 0, 0, 0]" by (simp add: numeral_eq_Suc)
  define out where "out = replicate (unat (dataOffset p) - 8) (0 :: byte)"
  have out: "(if dataOffset p > 8 then replicate 8 0 @ replicate (unat (dataOffset p - 8)) 0
      else replicate 8 0) = [0, 0, 0, 0, 0, 0, 0, 0 :: byte] @ out"
    using u by (auto simp: out_def z word_less_nat_alt)
  obtain a b c d where w: "be_enc 4 (unat (pck_length p)) = [a, b, c, d]"
    by (simp add: be_enc_numeral)
  obtain e f where n: "be_enc 2 (unat (pck_length p)) = [e, f]"
    by (simp add: be_enc_numeral)
  show ?thesis
    unfolding Packet_bytes_def Let_def out
    using small w n by (simp add: put_at_def header8_def out_def)
qed

section \<open>Data packets\<close>

text \<open>The bytes of a data packet on the wire.\<close>

definition data_frame :: "'n session_context \<Rightarrow> u16 \<Rightarrow> byte list \<Rightarrow> byte list" where
  "data_frame ctx fl d = header8 ctx (length d + 10) DATA 0 @ be_enc 2 (unat fl) @ d"

lemma length_data_frame [simp]: "length (data_frame ctx fl d) = length d + 10"
  by (simp add: data_frame_def)

lemma fits_length_u32: "fits_length ctx n \<Longrightarrow> n < 2 ^ 32"
  by (auto simp: fits_length_def split: if_splits)

lemma unat_length_plus_10:
  assumes "length d + 10 < 2 ^ 32"
  shows "unat (of_nat (length d) + 10 :: u32) = length d + 10"
proof -
  have "(of_nat (length d) + 10 :: u32) = of_nat (length d + 10)" by simp
  with assms show ?thesis by (simp only:) (rule unat_of_nat_small, simp)
qed

lemma DataPacket_bytes_frame:
  assumes "fits_length ctx (length d + 10)"
  shows "DataPacket_bytes ctx
      \<lparr>dataOffset = 0xA, pck_length = of_nat (length d) + 0xA, packetType = DATA, flag = 0\<rparr> fl d
    = Ok (data_frame ctx fl d)"
proof -
  note u = unat_length_plus_10 [OF fits_length_u32 [OF assms]]
  let ?p = "\<lparr>dataOffset = 0xA, pck_length = of_nat (length d) + 0xA, packetType = DATA, flag = 0\<rparr>"
  have b: "Packet_bytes ctx ?p = Ok (header8 ctx (length d + 10) DATA 0 @ replicate 2 0)"
    using Packet_bytes_eq [of ctx ?p] assms u by simp
  show ?thesis
    unfolding DataPacket_bytes_def data_header_def b by (simp add: put_at_def data_frame_def)
qed

lemma read_length_header:
  assumes "fits_length ctx n"
  shows "read_length ctx (header8 ctx n ty fl @ rest) = Ok (of_nat n)"
  using assms
  by (auto simp: read_length_def header8_def fits_length_def be_at_def slice_def be_dec_enc)

lemma newDataPacketFromData_frame:
  assumes "fits_length ctx (length d + 10)" "nego ctx = None"
  shows "newDataPacketFromData ops (data_frame ctx fl d) ctx =
    (Ok (\<lparr>dataOffset = 0xA, pck_length = of_nat (length d) + 0xA, packetType = DATA, flag = 0\<rparr>, fl, d), ctx)"
proof -
  have "be_dec (slice 8 10 (data_frame ctx fl d)) = unat fl"
    using unat_less_pow [of fl] by (simp add: data_frame_def slice_def be_dec_enc)
  moreover have "read_length ctx (data_frame ctx fl d) = Ok (of_nat (length d) + 10)"
    unfolding data_frame_def using read_length_header [OF assms(1)] by (simp add: add.commute)
  moreover have "data_frame ctx fl d ! 4 = DATA" "data_frame ctx fl d ! 5 = 0"
    by (simp_all add: data_frame_def nth_append)
  moreover have "drop 10 (data_frame ctx fl d) = d" by (simp add: data_frame_def)
  ultimately show ?thesis
    using assms(2) by (simp add: newDataPacketFromData_def Let_def)
qed

text \<open>
  C28. Data packets round trip: without a negotiated crypto layer, the bytes of the packet that
  \<^verbatim>\<open>newDataPacket\<close> builds for a payload whose length fits the length field are as many as the packet
  announces, and \<^verbatim>\<open>newDataPacketFromData\<close> gets back the same packet, flag and payload.
\<close>

theorem data_packet_roundtrip:
  assumes "nego ctx = None" and "fits_length ctx (length d + 10)"
  shows "\<exists>p bs. newDataPacket ops d fl ctx = (Ok (p, fl, d), ctx)
    \<and> DataPacket_bytes ctx p fl d = Ok bs
    \<and> length bs = unat (pck_length p)
    \<and> newDataPacketFromData ops bs ctx = (Ok (p, fl, d), ctx)"
proof -
  let ?p = "\<lparr>dataOffset = 0xA, pck_length = of_nat (length d) + 0xA, packetType = DATA, flag = 0\<rparr>"
  have "newDataPacket ops d fl ctx = (Ok (?p, fl, d), ctx)"
    using assms(1) by (simp add: newDataPacket_def)
  moreover have "unat (pck_length ?p) = length d + 10"
    using unat_length_plus_10 [OF fits_length_u32 [OF assms(2)]] by simp
  ultimately show ?thesis
    using DataPacket_bytes_frame [OF assms(2)] newDataPacketFromData_frame [OF assms(2,1)] by auto
qed

definition sample_config :: conn_config where
  "sample_config = \<lparr>SessionDataUnitSize = 2097152, TransportDataUnitSize = 2097152, EnableOOB = False,
     SSL = False, ConnectionData = [0x28, 0x29]\<rparr>"

text \<open>A negotiator that changes nothing.\<close>

definition plain_ops :: "unit nego_ops" where
  "plain_ops = \<lparr>WriteDataBuffer = (\<lambda>n d. (Ok d, n)), ReadDataBuffer = (\<lambda>n d. (Ok d, n)),
     WriteAliases = (\<lambda>_. True), NegoReset = (\<lambda>n. (Ok (), n))\<rparr>"

theorem data_packet_roundtrip_witness:
  "\<exists>p bs. newDataPacket plain_ops [1, 2, 3] 0x40 (NewSessionContext sample_config)
      = (Ok (p, 0x40, [1, 2, 3]), NewSessionContext sample_config)
    \<and> DataPacket_bytes (NewSessionContext sample_config :: unit session_context) p 0x40 [1, 2, 3] = Ok bs
    \<and> length bs = unat (pck_length p)
    \<and> newDataPacketFromData plain_ops bs (NewSessionContext sample_config)
      = (Ok (p, 0x40, [1, 2, 3]), NewSessionContext sample_config)"
  by (rule data_packet_roundtrip)
     (simp_all add: NewSessionContext_def zero_context_def fits_length_def wide_length_def)

section \<open>Marker packets\<close>

text \<open>
  Marker packets round trip: the eleven bytes of a marker are parsed back as a marker packet of
  that type and length, with both widths of the length field.
\<close>

theorem marker_packet_roundtrip:
  "newMarkerPacketFromData (MarkerPacket_bytes ctx m) ctx =
     Ok (Some ((fst (newMarkerPacket m))\<lparr>flag := 0\<rparr>, m))"
  by (simp add: newMarkerPacketFromData_def MarkerPacket_bytes_def newMarkerPacket_def read_length_def
      be_at_def slice_def be_dec_def MARKER_def)

section \<open>Refuse packets\<close>

lemma u16_at_bound:
  assumes "i + 2 \<le> length d"
  shows "u16_at i d = Ok (of_nat (be_dec (slice i (i + 2) d)))"
    and "be_dec (slice i (i + 2) d) < 65536"
  using assms be_dec_less [of "slice i (i + 2) d"] by (auto simp: u16_at_def be_at_def slice_def)

text \<open>
  Refuse packets: of 12 up to 65535 bytes, the message is the announced number of bytes after the
  header if the packet holds that many, and empty otherwise; an announced length of 65524 or more makes
  the 16-bit sum \<^verbatim>\<open>12 + dataLen\<close> wrap around and the slice expression panics.
\<close>

theorem refuse_packet_parse:
  assumes "12 \<le> length d" and "length d < 65536" and "n = be_dec (slice 10 12 d)"
  shows "if n < 65524
    then \<exists>p. newRefusePacketFromData d = Ok (Some p) \<and> SystemReason p = d ! 9 \<and> UserReason p = d ! 8
      \<and> message p = (if 12 + n \<le> length d then slice 12 (12 + n) d else [])
    else newRefusePacketFromData d = Panic"
proof -
  have n: "u16_at 10 d = Ok (of_nat n)" "n < 65536"
    using u16_at_bound [of 10 d] assms by simp_all
  have l: "unat (of_nat (length d) :: u16) = length d"
    using assms(2) by (simp add: unat_of_nat_small)
  obtain len where len: "u16_at 0 d = Ok len"
    using u16_at_bound(1) [of 0 d] assms by simp
  show ?thesis
  proof (cases "n < 65524")
    case True
    then have s: "unat (12 + of_nat n :: u16) = 12 + n"
      using unat_of_nat_small [of "12 + n", where 'a = 16] by simp
    show ?thesis
      using True assms(1,2) n(1) len
      by (auto simp: newRefusePacketFromData_def word_le_nat_alt l s slice_at_def)
  next
    case False
    define w where "w = (12 + of_nat n :: u16)"
    have "(12 + of_nat n :: u16) = of_nat (n - 65524)"
    proof -
      have "(of_nat (n - 65524) :: u16) = of_nat (n - 65524) + 65536" by simp
      also have "\<dots> = of_nat (n - 65524 + 65536)" by (simp only: of_nat_add of_nat_numeral)
      also have "n - 65524 + 65536 = 12 + n" using False by simp
      finally show ?thesis by simp
    qed
    then have s: "unat w = n - 65524"
      using n(2) by (simp add: unat_of_nat_small w_def)
    then have "unat w < 12" "unat w \<le> length d" using n(2) assms(1) by simp_all
    then show ?thesis
      using False n(1) assms(1)
      by (simp add: newRefusePacketFromData_def word_le_nat_alt l slice_at_def flip: w_def)
  qed
qed

theorem refuse_packet_parse_witness:
  "newRefusePacketFromData [0, 12, 0, 0, 4, 0, 0, 0, 1, 2, 0xFF, 0xF4] = Panic
   \<and> (\<exists>p. newRefusePacketFromData [0, 14, 0, 0, 4, 0, 0, 0, 1, 2, 0, 2, 0x41, 0x42] = Ok (Some p)
      \<and> message p = [0x41, 0x42])"
proof
  have "(65524 :: nat) = be_dec (slice 10 12 [0, 12, 0, 0, 4, 0, 0, 0, 1, 2, 0xFF, 0xF4])"
    by (simp add: slice_def be_dec_def)
  from refuse_packet_parse [OF _ _ this]
  show "newRefusePacketFromData [0, 12, 0, 0, 4, 0, 0, 0, 1, 2, 0xFF, 0xF4] = Panic" by simp
next
  have "(2 :: nat) = be_dec (slice 10 12 [0, 14, 0, 0, 4, 0, 0, 0, 1, 2, 0, 2, 0x41, 0x42])"
    by (simp add: slice_def be_dec_def)
  from refuse_packet_parse [OF _ _ this]
  show "\<exists>p. newRefusePacketFromData [0, 14, 0, 0, 4, 0, 0, 0, 1, 2, 0, 2, 0x41, 0x42] = Ok (Some p)
      \<and> message p = [0x41, 0x42]"
    by (auto simp: slice_def)
qed

section \<open>Connect packets\<close>

definition connect_frame :: "'n session_context \<Rightarrow> nat \<Rightarrow> byte \<Rightarrow> byte list \<Rightarrow> byte list" where
  "connect_frame ctx len fl data =
     header8 ctx len CONNECT fl
     @ be_enc 2 (unat (Version ctx)) @ be_enc 2 (unat (LoVersion ctx)) @ be_enc 2 (unat (Options ctx))
     @ be_enc 2 (unat (clamp16 (SessionDataUnit ctx))) @ be_enc 2 (unat (clamp16 (TransportDataUnit ctx)))
     @ [79, 152] @ replicate 2 0 @ be_enc 2 (unat (OurOne ctx)) @ be_enc 2 (length data) @ be_enc 2 74
     @ replicate 4 0 @ [ACFL0 ctx, ACFL1 ctx] @ replicate 24 0
     @ be_enc 4 (unat (SessionDataUnit ctx)) @ be_enc 4 (unat (TransportDataUnit ctx))
     @ replicate 4 0 @ replicate 4 0 @ (if length data \<le> 230 then data else [])"

lemma put_at_skip:
  "length xs \<le> i \<Longrightarrow> put_at i bs (xs @ ys) = rbind (put_at (i - length xs) bs ys) (\<lambda>zs. Ok (xs @ zs))"
  by (auto simp: put_at_def)

lemma put_at_Cons:
  "0 < i \<Longrightarrow> put_at i bs (x # ys) = rbind (put_at (i - 1) bs ys) (\<lambda>zs. Ok (x # zs))"
  using put_at_skip [of "[x]" i bs ys] by simp

lemma put_at_zeros:
  "i + length bs \<le> k \<Longrightarrow>
   put_at i bs (replicate k z) = Ok (replicate i z @ bs @ replicate (k - i - length bs) z)"
  by (simp add: put_at_def)

lemma put_at_zeros_append:
  "i + length bs \<le> k \<Longrightarrow>
   put_at i bs (replicate k z @ ys) = Ok (replicate i z @ bs @ replicate (k - i - length bs) z @ ys)"
  by (simp add: put_at_def)

lemma ConnectPacket_bytes_frame:
  assumes "fits_length ctx (unat (pck_length p))" "dataOffset p = 74" "packetType p = CONNECT"
  shows "ConnectPacket_bytes ctx p data = Ok (connect_frame ctx (unat (pck_length p)) (flag p) data)"
  unfolding ConnectPacket_bytes_def Packet_bytes_eq [OF assms(1)]
  by (simp add: assms(2,3) put_at_skip put_at_Cons put_at_zeros put_at_zeros_append rbind_assoc
      connect_frame_def be_enc_0)

lemma u16_at_enc: "length xs = i \<Longrightarrow> u16_at i (xs @ be_enc 2 n @ ys) = Ok (of_nat n)"
  by (auto simp: u16_at_def be_at_def slice_def be_dec_enc)

lemma u32_at_enc: "length xs = i \<Longrightarrow> u32_at i (xs @ be_enc 4 n @ ys) = Ok (of_nat n)"
  by (auto simp: u32_at_def be_at_def slice_def be_dec_enc)

lemma connect_frame_fields:
  fixes ctx :: "'n session_context" and len :: nat and fl :: byte and data :: "byte list"
  defines "out \<equiv> connect_frame ctx len fl data"
  shows "u16_at 8 out = Ok (Version ctx)" "u16_at 24 out = Ok (of_nat (length data))"
    "u16_at 26 out = Ok 74"
    "u32_at 58 out = Ok (SessionDataUnit ctx)" "u32_at 62 out = Ok (TransportDataUnit ctx)"
    "drop 74 out = (if length data \<le> 230 then data else [])"
    "length out = 74 + (if length data \<le> 230 then length data else 0)"
  unfolding out_def connect_frame_def
  by (simp_all add: u16_at_def u32_at_def be_at_def slice_def be_dec_enc)

text \<open>
  Connect packets: whatever the connect descriptor (of less than \<open>2 ^ 32\<close> bytes), the first packet
  of a session is serialized without a panic to exactly as many bytes as its header announces, 74 and
  the descriptor if that has at most 230 bytes, 74 otherwise; it carries the version, the unclamped data
  unit sizes and the offset and length of the descriptor at their fixed offsets.
\<close>

theorem connect_packet_layout:
  assumes "\<not> handshakeComplete ctx" and "length (ConnectionData (connConfig ctx)) < 2 ^ 32"
  shows "case newConnectPacket ctx of ((p, data), ctx') \<Rightarrow>
    \<exists>out. ConnectPacket_bytes ctx' p data = Ok out
      \<and> length out = 74 + (if length data \<le> 230 then length data else 0)
      \<and> read_length ctx' out = Ok (of_nat (length out))
      \<and> pck_length p = of_nat (length out)
      \<and> u16_at 8 out = Ok (Version ctx) \<and> u16_at 26 out = Ok 74
      \<and> u16_at 24 out = Ok (of_nat (length (ConnectionData (connConfig ctx))))
      \<and> u32_at 58 out = Ok (SessionDataUnit ctx) \<and> u32_at 62 out = Ok (TransportDataUnit ctx)
      \<and> drop 74 out = (if length data \<le> 230 then ConnectionData (connConfig ctx) else [])"
proof -
  obtain p data ctx' where n: "newConnectPacket ctx = ((p, data), ctx')"
    by (metis prod_cases3 surj_pair)
  have data: "data = ConnectionData (connConfig ctx)" and c: "ctx' = ctx\<lparr>hisOne := 1, ACFL0 := 1, ACFL1 := 1\<rparr>"
    and p: "dataOffset p = 74" "packetType p = CONNECT"
    using n by (auto simp: newConnectPacket_def Let_def)
  have ld: "unat (of_nat (length data) :: u32) = length data"
    using assms(2) data by (simp add: unat_of_nat_small)
  have w: "\<not> wide_length ctx'" using assms(1) c by (simp add: wide_length_def)
  define len where "len = 74 + (if length data \<le> 230 then length data else 0)"
  have pl: "pck_length p = of_nat len"
    using n ld by (auto simp: newConnectPacket_def Let_def len_def word_less_nat_alt data)
  have len: "len < 65536" by (simp add: len_def)
  then have ul: "unat (pck_length p) = len" by (simp add: pl unat_of_nat_small)
  then have fits: "fits_length ctx' (unat (pck_length p))"
    using w len by (simp add: fits_length_def)
  have b: "ConnectPacket_bytes ctx' p data = Ok (connect_frame ctx' len (flag p) data)"
    using ConnectPacket_bytes_frame [OF fits p] ul by simp
  have rl: "read_length ctx' (connect_frame ctx' len (flag p) data) = Ok (of_nat len)"
    unfolding connect_frame_def using read_length_header fits ul by metis
  show ?thesis
    unfolding n prod.case
  proof (rule exI [of _ "connect_frame ctx' len (flag p) data"], intro conjI)
    show "length (connect_frame ctx' len (flag p) data)
        = 74 + (if length data \<le> 230 then length data else 0)"
      by (rule connect_frame_fields)
    then show "read_length ctx' (connect_frame ctx' len (flag p) data)
        = Ok (of_nat (length (connect_frame ctx' len (flag p) data)))"
      "pck_length p = of_nat (length (connect_frame ctx' len (flag p) data))"
      using rl pl by (simp_all only: len_def)
  qed (use b in \<open>simp_all add: connect_frame_fields c data\<close>)
qed

theorem connect_packet_layout_witness:
  "case newConnectPacket (NewSessionContext sample_config :: unit session_context) of ((p, data), ctx') \<Rightarrow>
    \<exists>out. ConnectPacket_bytes ctx' p data = Ok out \<and> length out = 76 \<and> drop 74 out = [0x28, 0x29]"
proof -
  let ?c = "NewSessionContext sample_config :: unit session_context"
  have "ConnectionData (connConfig ?c) = [0x28, 0x29]" "\<not> handshakeComplete ?c"
    "snd (fst (newConnectPacket ?c)) = [0x28, 0x29]"
    by (simp_all add: NewSessionContext_def zero_context_def sample_config_def newConnectPacket_def Let_def)
  then show ?thesis
    using connect_packet_layout [of ?c] by (auto split: prod.splits)
qed

section \<open>Accept packets\<close>

lemma fast_auth_bits: "(w :: u32) AND 0x10000000 \<noteq> 0 \<longleftrightarrow> bit w 28" "w AND 0x2000000 \<noteq> 0 \<longleftrightarrow> bit w 25"
  using bit_iff_and_push_bit_not_eq_0 [of w 28] bit_iff_and_push_bit_not_eq_0 [of w 25] by simp_all

lemma low_bit: "(b :: byte) AND 1 \<noteq> 0 \<longleftrightarrow> bit b 0"
  using bit_iff_and_push_bit_not_eq_0 [of b 0] by simp

lemma unat_ucast_u32: "unat (ucast (w :: u16) :: u32) = unat w"
proof -
  have "unat w < 2 ^ 16" using unsigned_less [of w] by simp
  then show ?thesis by (simp add: unsigned_ucast_eq take_bit_nat_eq_self)
qed

text \<open>The fields that are set first and kept by the later steps, and those that are still zero then.\<close>

definition ctx_basics :: "'n session_context \<Rightarrow>
    (u16 \<times> u16 \<times> u16 \<times> u16 \<times> u16 \<times> u16 \<times> byte list \<times> byte \<times> byte \<times> u32) \<times> bool \<times> bool \<times> bool \<times> bool \<times> bool \<times> bool \<times> bool \<times> bool \<times> conn_config \<times> 'n option" where
  "ctx_basics ctx = ((Version ctx, LoVersion ctx, Options ctx, NegotiatedOptions ctx, OurOne ctx, hisOne ctx, ReconAddr ctx, ACFL0 ctx, ACFL1 ctx,
       NegotiatedOptions2 ctx), FastAuthEnabled ctx, EODDAFlagEnabled ctx, UsingAsyncReceivers ctx, IsNTConnected ctx, OnBreakReset ctx, GotReset ctx,
     handshakeComplete ctx, isRedirect ctx, connConfig ctx, nego ctx)"

definition accept_basics :: "byte list \<Rightarrow> conn_config \<Rightarrow> 'n session_context \<Rightarrow> bool" where
  "accept_basics d config ctx \<longleftrightarrow> u16_at 8 d = Ok (Version ctx) \<and> u16_at 10 d = Ok (NegotiatedOptions ctx) \<and> u16_at 16 d = Ok (hisOne ctx)
     \<and> ACFL0 ctx = d ! 22 \<and> ACFL1 ctx = d ! 23
     \<and> (if length d \<ge> 45 then u32_at 41 d = Ok (NegotiatedOptions2 ctx) else NegotiatedOptions2 ctx = 0)
     \<and> FastAuthEnabled ctx = bit (NegotiatedOptions2 ctx) 28 \<and> EODDAFlagEnabled ctx = bit (NegotiatedOptions2 ctx) 25
     \<and> (\<exists>start len. u16_at 28 d = Ok start \<and> u16_at 30 d = Ok len
          \<and> ReconAddr ctx = (if start \<noteq> 0 \<and> len \<noteq> 0 \<and> start + len < of_nat (length d) then slice (unat start) (unat (start + len)) d else []))
     \<and> (LoVersion ctx, Options ctx, OurOne ctx) = (0, 0, 0)
     \<and> \<not> (UsingAsyncReceivers ctx \<or> IsNTConnected ctx \<or> OnBreakReset ctx \<or> GotReset ctx \<or> handshakeComplete ctx \<or> isRedirect ctx)
     \<and> connConfig ctx = config \<and> nego ctx = None"

lemma accept_basics_cong: "ctx_basics c' = ctx_basics c \<Longrightarrow> accept_basics d config c' = accept_basics d config c"
  by (simp add: ctx_basics_def accept_basics_def)

lemma recon_addr_Ok:
  assumes "recon_addr d = Ok recon"
  shows "\<exists>start len. u16_at 28 d = Ok start \<and> u16_at 30 d = Ok len
     \<and> recon = (if start \<noteq> 0 \<and> len \<noteq> 0 \<and> start + len < of_nat (length d) then slice (unat start) (unat (start + len)) d else [])"
  using assms unfolding recon_addr_def by (elim rbind_OkE) (auto simp: slice_at_def split: if_splits)

lemma accept_context_Ok:
  assumes "accept_context d config = Ok ctx"
  shows "accept_basics d config ctx" "SID ctx = []" "UUID ctx = []" "u16_at 12 d = Ok (ucast (SessionDataUnit ctx))" "u16_at 14 d = Ok (ucast (TransportDataUnit ctx))"
    "SessionDataUnit ctx < 2 ^ 16" "TransportDataUnit ctx < 2 ^ 16"
proof -
  have u: "ucast (ucast (w :: u16) :: u32) = w" for w by (rule bit_word_eqI) (auto simp: bit_simps)
  have u2: "ucast (w :: u16) < (65536 :: u32)" for w using unsigned_less [of w] by (simp add: word_less_nat_alt unat_ucast_u32)
  obtain recon neg2 ver opts one sdu tdu where f: "recon_addr d = Ok recon" "(if length d \<ge> 45 then u32_at 41 d else Ok 0) = Ok neg2"
      "u16_at 8 d = Ok ver" "u16_at 10 d = Ok opts" "u16_at 16 d = Ok one" "u16_at 12 d = Ok sdu" "u16_at 14 d = Ok tdu"
      and c: "ctx = (zero_context config)\<lparr>Version := ver, NegotiatedOptions := opts, hisOne := one,
            ReconAddr := recon, ACFL0 := d ! 22, ACFL1 := d ! 23, NegotiatedOptions2 := neg2,
            SessionDataUnit := ucast sdu, TransportDataUnit := ucast tdu,
            FastAuthEnabled := (neg2 AND 0x10000000 \<noteq> 0), EODDAFlagEnabled := (neg2 AND 0x2000000 \<noteq> 0)\<rparr>"
    using assms unfolding accept_context_def by (elim rbind_OkE) (simp only: res.inject)
  have "if length d \<ge> 45 then u32_at 41 d = Ok neg2 else neg2 = 0" using f(2) by (simp split: if_splits)
  with f(3-5) recon_addr_Ok [OF f(1)] show "accept_basics d config ctx"
    by (simp add: c accept_basics_def zero_context_def fast_auth_bits)
  show "SID ctx = []" "UUID ctx = []" "u16_at 12 d = Ok (ucast (SessionDataUnit ctx))"
      "u16_at 14 d = Ok (ucast (TransportDataUnit ctx))" "SessionDataUnit ctx < 2 ^ 16" "TransportDataUnit ctx < 2 ^ 16"
    using f(6,7) by (simp_all add: c zero_context_def u u2)
qed

lemma accept_uuid_Ok:
  "accept_uuid spare d len c = Ok c' \<Longrightarrow> ctx_basics c' = ctx_basics c \<and> SID c' = SID c
     \<and> (SessionDataUnit c', TransportDataUnit c') = (SessionDataUnit c, TransportDataUnit c)
     \<and> UUID c' = (if Version c \<ge> 319 \<and> len \<ge> 61 then slice 45 61 (d @ spare) else UUID c)"
  by (auto simp: accept_uuid_def ctx_basics_def rbind_Ok_iff slice_at_def split: if_splits)

lemma accept_units_Ok:
  "accept_units d c = Ok c' \<Longrightarrow> ctx_basics c' = ctx_basics c \<and> SID c' = SID c \<and> UUID c' = UUID c
     \<and> (if Version c \<ge> 315 then u32_at 32 d = Ok (SessionDataUnit c') \<and> u32_at 36 d = Ok (TransportDataUnit c')
        else (SessionDataUnit c', TransportDataUnit c') = (SessionDataUnit c, TransportDataUnit c))"
  by (auto simp: accept_units_def ctx_basics_def rbind_Ok_iff split: if_splits)

lemma accept_sid_Ok:
  "accept_sid d len c = Ok (len', c') \<Longrightarrow> ctx_basics c' = ctx_basics c \<and> UUID c' = UUID c
     \<and> (SessionDataUnit c', TransportDataUnit c') = (SessionDataUnit c, TransportDataUnit c)
     \<and> (len', SID c') = (if bit (d ! 5) 0 then (len - 16, drop (unat (len - 16)) d) else (len, SID c))"
  by (auto simp: accept_sid_def ctx_basics_def rbind_Ok_iff slice_from_def low_bit split: if_splits)

lemma accept_clamp_props:
  "ctx_basics (accept_clamp c) = ctx_basics c" "TransportDataUnit (accept_clamp c) = TransportDataUnit c" "UUID (accept_clamp c) = UUID c"
  "SID (accept_clamp c) = SID c" "SessionDataUnit (accept_clamp c) = min (SessionDataUnit c) (TransportDataUnit c)"
  by (auto simp: accept_clamp_def ctx_basics_def min_def)

text \<open>
  C31. Every field of an accepted accept packet comes from its place in the packet: version, options, flags, byte order mark and reconnect
  address; the data units, of 32 bits from version 315 on and of 16 bits before, the session data unit cut to the transport data unit; from
  version 319 on the UUID, if the packet is long enough; the SID behind the announced length when the flag says so; the data behind the
  announced offset, which has the announced length. The other fields are zero, and the handshake is not complete.
\<close>

theorem accept_packet_sound:
  assumes "newAcceptPacketFromData spare d config = Ok (Some (p, buffer, ctx))"
  shows "32 \<le> length d \<and> accept_basics d config ctx
    \<and> (\<exists>sdu. (if Version ctx \<ge> 315 then u32_at 32 d = Ok sdu \<and> u32_at 36 d = Ok (TransportDataUnit ctx)
              else u16_at 12 d = Ok (ucast sdu) \<and> sdu < 2 ^ 16 \<and> u16_at 14 d = Ok (ucast (TransportDataUnit ctx)) \<and> TransportDataUnit ctx < 2 ^ 16)
          \<and> SessionDataUnit ctx = min sdu (TransportDataUnit ctx))
    \<and> (\<exists>len. u16_at 0 d = Ok len
          \<and> (pck_length p, SID ctx) = (if bit (d ! 5) 0 then (ucast len - 16, drop (unat (ucast len - 16 :: u32)) d) else (ucast len, []))
          \<and> UUID ctx = (if Version ctx \<ge> 319 \<and> 61 \<le> unat len then slice 45 61 (d @ spare) else []))
    \<and> packetType p = d ! 4 \<and> flag p = d ! 5 \<and> u16_at 20 d = Ok (dataOffset p)
    \<and> buffer = drop (unat (dataOffset p)) d \<and> u16_at 18 d = Ok (of_nat (length buffer))"
proof -
  have l: "\<not> length d < 32" using assms by (auto simp: newAcceptPacketFromData_def)
  show ?thesis
    using assms unfolding newAcceptPacketFromData_def if_not_P [OF l]
  proof (elim rbind_OkE, goal_cases)
    case (1 c0 off len0 b c1 c2 x)
    obtain len c3 where x: "x = (len, c3)" by (cases x)
    have r: "u16_at 18 d = Ok (of_nat (length b))" "b = buffer" "ctx = accept_clamp c3" "p = \<lparr>dataOffset = off, pck_length = len, packetType = d ! 4, flag = d ! 5\<rparr>"
      using 1 by (auto simp: x rbind_Ok_iff split: if_splits)
    have b: "b = drop (unat off) d" using 1 by (auto simp: slice_from_def split: if_splits)
    have len0: "(61 :: u32) \<le> ucast len0 \<longleftrightarrow> 61 \<le> unat len0" by (simp add: word_le_nat_alt unat_ucast_u32)
    have ok: "accept_context d config = Ok c0" "accept_uuid spare d (ucast len0) c0 = Ok c1" "accept_units d c1 = Ok c2"
        "accept_sid d (ucast len0) c2 = Ok (len, c3)" "u16_at 0 d = Ok len0"
      using 1 by (simp_all add: x)
    note steps = accept_context_Ok [OF ok(1)] accept_uuid_Ok [OF ok(2)] accept_units_Ok [OF ok(3)] accept_sid_Ok [OF ok(4)]
    have basics: "ctx_basics ctx = ctx_basics c0" "ctx_basics c1 = ctx_basics c0" using steps by (simp_all add: r accept_clamp_props)
    then have v: "Version (accept_clamp c3) = Version c0" "Version c1 = Version c0" by (simp_all add: ctx_basics_def r)
    have f1: "accept_basics d config ctx" using steps(1) accept_basics_cong [OF basics(1)] by simp
    have f2: "\<exists>sdu. (if Version ctx \<ge> 315 then u32_at 32 d = Ok sdu \<and> u32_at 36 d = Ok (TransportDataUnit ctx)
              else u16_at 12 d = Ok (ucast sdu) \<and> sdu < 2 ^ 16 \<and> u16_at 14 d = Ok (ucast (TransportDataUnit ctx)) \<and> TransportDataUnit ctx < 2 ^ 16)
          \<and> SessionDataUnit ctx = min sdu (TransportDataUnit ctx)"
      using steps by (intro exI [of _ "SessionDataUnit c3"], cases "Version c0 \<ge> 315") (simp_all add: r accept_clamp_props v)
    have f3: "u16_at 0 d = Ok len0
          \<and> (pck_length p, SID ctx) = (if bit (d ! 5) 0 then (ucast len0 - 16, drop (unat (ucast len0 - 16 :: u32)) d) else (ucast len0, []))
          \<and> UUID ctx = (if Version ctx \<ge> 319 \<and> 61 \<le> unat len0 then slice 45 61 (d @ spare) else [])"
      using steps ok(5) by (simp add: r accept_clamp_props v len0)
    have f4: "packetType p = d ! 4" "flag p = d ! 5" "u16_at 20 d = Ok (dataOffset p)" "buffer = drop (unat (dataOffset p)) d"
        "u16_at 18 d = Ok (of_nat (length buffer))" "32 \<le> length d"
      using 1(2) l r b by simp_all
    show ?case using f1 f2 f3 f4 by blast
  qed
qed

definition sample_accept :: "byte list" where
  "sample_accept = [0, 41, 0, 0, 2, 0, 0, 0, 0x01, 0x3B, 0, 1, 0x20, 0, 0x7F, 0xFF, 1, 0, 0, 0, 0, 41,
     1, 1, 0, 0, 0, 0, 0, 0, 0, 0, 0, 0x20, 0, 0, 0, 0x10, 0, 0, 0]"

theorem accept_packet_sound_witness:
  "\<exists>p ctx. newAcceptPacketFromData [] sample_accept sample_config =
      Ok (Some (p, [], ctx :: unit session_context))
    \<and> SessionDataUnit ctx \<le> TransportDataUnit ctx \<and> Version ctx = 315"
proof -
  obtain p ctx where
    e: "newAcceptPacketFromData [] sample_accept sample_config = Ok (Some (p, [], ctx :: unit session_context))"
    by (simp add: newAcceptPacketFromData_def sample_accept_def accept_context_def recon_addr_def u16_at_def
        u32_at_def be_at_def slice_def be_dec_def slice_from_def accept_uuid_def accept_units_def
        accept_sid_def zero_context_def)
  have "u16_at 8 sample_accept = Ok 315"
    by (simp add: sample_accept_def u16_at_def be_at_def slice_def be_dec_def)
  with accept_packet_sound [OF e] e show ?thesis by (auto simp: accept_basics_def)
qed

text \<open>
  An accept packet of 32 to 39 bytes that claims version 315 or later makes the parser panic: only
  the length 32 is checked before the 32-bit fields at offsets 32 and 36 are read.
\<close>

theorem accept_packet_short_panics:
  assumes "32 \<le> length d" and "length d < 40" and "u16_at 8 d = Ok v" and "v \<ge> 315"
    and "slice 28 32 d = [0, 0, 0, 0]" and "slice 20 22 d = [0, 32]" and "u16_at 0 d = Ok n" and "n < 61"
  shows "(newAcceptPacketFromData spare d config
     :: (packet \<times> byte list \<times> 'n session_context) option res) = Panic"
proof -
  have s: "slice 28 30 d = [0, 0]"
    using arg_cong [OF assms(5), of "take 2"] by (simp add: slice_def)
  have off: "u16_at 20 d = Ok 32" using assms(1,6) by (simp add: u16_at_def be_at_def be_dec_def)
  have p: "u32_at 32 d = Panic \<or> u32_at 36 d = Panic" using assms(2) by (simp add: u32_at_def be_at_def)
  have n: "\<not> (ucast n :: u32) \<ge> 61"
    using assms(8) by (simp add: word_le_nat_alt word_less_nat_alt unsigned_ucast_eq take_bit_nat_eq_self
        less_trans [of "unat n" 61])
  have "recon_addr d = Ok []"
    using assms(1) by (simp add: recon_addr_def u16_at_def be_at_def s be_dec_def)
  then obtain c :: "'n session_context" where c: "accept_context d config = Ok c" "Version c = v"
    using assms(1-3) u16_at_bound(1) [of 10 d] u16_at_bound(1) [of 12 d] u16_at_bound(1) [of 14 d]
      u16_at_bound(1) [of 16 d] by (simp add: accept_context_def)
  have "slice_from 32 d = Ok (drop 32 d)" using assms(1) by (simp add: slice_from_def)
  moreover have "accept_uuid spare d (ucast n) c = Ok c" using n by (simp add: accept_uuid_def)
  moreover have "accept_units d c = Panic"
    using p c(2) assms(4) by (cases "u32_at 32 d") (auto simp: accept_units_def u32_at_def be_at_def split: if_splits)
  ultimately show ?thesis
    using assms(1,7) c(1) off by (simp add: newAcceptPacketFromData_def)
qed

definition short_accept :: "byte list" where
  "short_accept = [0, 32, 0, 0, 2, 0, 0, 0, 0x01, 0x3B, 0, 1, 0x20, 0, 0x7F, 0xFF, 1, 0, 0, 0, 0, 32,
     1, 1, 0, 0, 0, 0, 0, 0, 0, 0]"

theorem accept_packet_short_panics_witness:
  "(newAcceptPacketFromData [] short_accept sample_config
     :: (packet \<times> byte list \<times> unit session_context) option res) = Panic"
  by (rule accept_packet_short_panics [where v = 315 and n = 32])
     (simp_all add: short_accept_def u16_at_def be_at_def slice_def be_dec_def)

end
