(* ===== verification/TNS_Session.thy ===== *)
theory TNS_Session
  imports Basic_Session TNS_Packets
begin

text \<open>
  The network session of \<^verbatim>\<open>v3/network/session.go\<close>: packet framing over a connection that delivers
  its bytes in arbitrary pieces, the read path with resend, redirect and marker handling, the write
  path with segmentation, and the saved states. One goroutine uses the session; the mutex and the
  context watchdog are not part of the model.
\<close>

section \<open>State\<close>

text \<open>\<^verbatim>\<open>BindError\<close> and \<^verbatim>\<open>SummaryObject\<close> of \<^verbatim>\<open>summary_object.go\<close>.\<close>

record bind_error =
  errorCode :: int
  rowOffset :: int
  errorMsg :: nslice

record summary_object =
  EndOfCallStatus :: int
  EndToEndECIDSequence :: int
  CurRowNumber :: int
  RetCode :: int
  arrayElmWError :: int
  arrayElmErrno :: int
  CursorID :: int
  errorPos :: int
  sqlType :: byte
  oerFatal :: byte
  Flags :: int
  userCursorOPT :: int
  upiParam :: byte
  warningFlag :: byte
  rba :: int
  partitionID :: int
  tableID :: byte
  blockNumber :: int
  slotNumber :: int
  osError :: int
  stmtNumber :: byte
  callNumber :: byte
  pad1 :: int
  successIter :: int
  ErrorMessage :: nslice
  bindErrors :: "bind_error list"

text \<open>
  A packet kept in \<open>sendPcks\<close>. The payload of a data packet is either its own slice or the scratch
  slice \<open>segment\<close> that one call of \<open>WriteRPC\<close> shares between all the packets it cuts; the scratch
  slices are numbered cells of the store \<open>segments\<close>. The last packet of a call holds the rest of the
  output buffer, whose bytes are not written again before the packets are dropped with it.
\<close>

datatype out_packet =
    ConnectPck packet "byte list"
  | DataPck packet u16 "byte list"
  | SegmentPck packet u16 nat
  | MarkerPck byte

text \<open>
  What the connection will deliver: each element is one result of the underlying \<open>Read\<close>, bytes and
  possibly an error that comes with them. A \<open>Read\<close> into a shorter slice leaves the rest of the bytes
  for the next call. When nothing is left, \<open>Read\<close> reports \<open>io.EOF\<close>.
\<close>

datatype rd_event = Chunk "byte list" "go_error option"

record session_state =
  st_summary :: "summary_object option"
  st_sendPcks :: "out_packet list"
  st_inBuffer :: go_buffer
  st_outBuffer :: "byte list"

record 'n session = basic_session +
  conn :: bool
  sslConn :: bool
  reader :: "rd_event list"
  tlsReader :: "rd_event list list"
  deadlineErr :: "go_error option"
  writeErrs :: "go_error option list"
  wire :: "byte list list"
  remainingBytes :: int
  lastPacket :: "byte list"
  lastSpare :: "byte list"
  Context :: "'n session_context"
  sendPcks :: "out_packet list"
  segments :: "byte list list"
  HasEOSCapability :: bool
  HasFSAPCapability :: bool
  Summary :: "summary_object option"
  states :: "session_state list"
  breakConn :: bool
  Connected :: bool

type_synonym ('n, 'a) sm = "('n session, 'a) gom"

definition NewSession :: "conn_config \<Rightarrow> 'n session" where
  "NewSession config =
     \<lparr>inBuffer = new_buffer [], outBuffer = [],
      props = \<lparr>UseBigClrChunks = False, UseBigScn = False, ClrChunkSize = 0x40, ServerFlags = 0\<rparr>,
      TTCVersion = 0, ttcIndex = 0,
      conn = False, sslConn = False, reader = [], tlsReader = [], deadlineErr = None, writeErrs = [],
      wire = [], remainingBytes = 0, lastPacket = [], lastSpare = [],
      Context = NewSessionContext config, sendPcks = [], segments = [],
      HasEOSCapability = False, HasFSAPCapability = False, Summary = None, states = [],
      breakConn = False, Connected = False\<rparr>"

section \<open>Saved states and buffers\<close>

text \<open>
  The session keeps pointers to its buffers. The driver saves its state with a nil state only, which gives the session new buffers, so that
  nothing is shared between the saved state and the session; a state that a caller passes in is taken over by value here.
\<close>

definition SaveState :: "session_state option \<Rightarrow> 'n session \<Rightarrow> 'n session" where
  "SaveState newState s =
     (let s = s\<lparr>states := states s @ [\<lparr>st_summary = Summary s, st_sendPcks = sendPcks s,
                                      st_inBuffer = inBuffer s, st_outBuffer = outBuffer s\<rparr>]\<rparr>
      in case newState of
           None \<Rightarrow> s\<lparr>Summary := None, sendPcks := [], inBuffer := new_buffer [], outBuffer := []\<rparr>
         | Some n \<Rightarrow> s\<lparr>Summary := st_summary n, sendPcks := st_sendPcks n,
                      inBuffer := st_inBuffer n, outBuffer := st_outBuffer n\<rparr>)"

definition LoadState :: "'n session \<Rightarrow> session_state option \<times> 'n session" where
  "LoadState s =
     (if states s = [] then (None, s)
      else let c = last (states s)
           in (Some c, s\<lparr>Summary := st_summary c, sendPcks := st_sendPcks c,
                         inBuffer := st_inBuffer c, outBuffer := st_outBuffer c,
                         states := butlast (states s)\<rparr>))"

definition resetWrite :: "'n session \<Rightarrow> 'n session" where
  "resetWrite s = s\<lparr>sendPcks := [], outBuffer := []\<rparr>"

definition resetRead :: "'n session \<Rightarrow> 'n session" where
  "resetRead s = s\<lparr>inBuffer := new_buffer []\<rparr>"

definition ResetBuffer :: "'n session \<Rightarrow> 'n session" where
  "ResetBuffer s = resetRead (resetWrite (s\<lparr>Summary := None\<rparr>))"

definition SetConnected :: "'n session \<Rightarrow> 'n session" where
  "SetConnected s = s\<lparr>Connected := True\<rparr>"

definition ResetBreak :: "'n session \<Rightarrow> 'n session" where
  "ResetBreak s = s\<lparr>breakConn := False\<rparr>"

definition IsBreak :: "'n session \<Rightarrow> bool" where
  "IsBreak s = breakConn s"

definition Disconnect :: "'n session \<Rightarrow> 'n session" where
  "Disconnect s = s\<lparr>sslConn := False, conn := False\<rparr>"

section \<open>The connection\<close>

text \<open>\<open>initRead\<close> and \<open>initWrite\<close> set a deadline on whichever connection is open.\<close>

definition initRead :: "('n, unit) sm" where
  "initRead = (\<lambda>s. if sslConn s \<or> conn s
     then (case deadlineErr s of None \<Rightarrow> Some (Ok (), s) | Some e \<Rightarrow> Some (Err e, s))
     else Some (Err ClosedConnection, s))"

definition initWrite :: "('n, unit) sm" where
  "initWrite = (\<lambda>s. if sslConn s \<or> conn s
     then (case deadlineErr s of None \<Rightarrow> Some (Ok (), s) | Some e \<Rightarrow> Some (Err e, s))
     else Some (Err ClosedConnection, s))"

text \<open>
  \<open>negotiate\<close> replaces the connection by a TLS one, which its callers then read through a new buffered reader;
  \<open>tlsReader\<close> has what each of the TLS connections to come will deliver.
\<close>

definition negotiate :: "'n session \<Rightarrow> 'n session" where
  "negotiate s = s\<lparr>sslConn := True, reader := (case tlsReader s of [] \<Rightarrow> [] | evs # _ \<Rightarrow> evs), tlsReader := tl (tlsReader s)\<rparr>"

definition conn_write :: "byte list \<Rightarrow> ('n, unit) sm" where
  "conn_write bs = (\<lambda>s. if sslConn s \<or> conn s
     then (case writeErrs s of
             [] \<Rightarrow> Some (Ok (), s\<lparr>wire := wire s @ [bs]\<rparr>)
           | None # es \<Rightarrow> Some (Ok (), s\<lparr>wire := wire s @ [bs], writeErrs := es\<rparr>)
           | Some e # es \<Rightarrow> Some (Err e, s\<lparr>writeErrs := es\<rparr>))
     else Some (Err ClosedConnection, s))"

definition reader_read :: "nat \<Rightarrow> rd_event list \<Rightarrow> (byte list \<times> go_error option) \<times> rd_event list" where
  "reader_read n evs = (case evs of
     [] \<Rightarrow> (([], Some EOF), [])
   | Chunk bs e # evs' \<Rightarrow> if n < length bs then ((take n bs, None), Chunk (drop n bs) e # evs')
                         else ((bs, e), evs'))"

section \<open>Writing packets\<close>

definition pck_bytes :: "'n session \<Rightarrow> out_packet \<Rightarrow> byte list res" where
  "pck_bytes s pck = (case pck of
     ConnectPck p b \<Rightarrow> ConnectPacket_bytes (Context s) p b
   | DataPck p f d \<Rightarrow> DataPacket_bytes (Context s) p f d
   | SegmentPck p f k \<Rightarrow> if k < length (segments s) then DataPacket_bytes (Context s) p f (segments s ! k)
                         else Panic
   | MarkerPck m \<Rightarrow> Ok (MarkerPacket_bytes (Context s) m))"

definition lift_res :: "('s \<Rightarrow> 'a res) \<Rightarrow> ('s, 'a) gom" where
  "lift_res f = (\<lambda>s. Some (f s, s))"

definition writePacket :: "out_packet \<Rightarrow> ('n, unit) sm" where
  "writePacket pck =
     gseq (gupd (\<lambda>s. s\<lparr>sendPcks := sendPcks s @ [pck]\<rparr>))
    (gbind (lift_res (\<lambda>s. pck_bytes s pck)) (\<lambda>tmp.
     gseq initWrite (conn_write tmp)))"

text \<open>\<open>newDataPacket\<close> on the session's own context.\<close>

definition new_data_packet :: "'n nego_ops \<Rightarrow> byte list \<Rightarrow> u16 \<Rightarrow> ('n, packet \<times> u16 \<times> byte list) sm" where
  "new_data_packet ops d fl = (\<lambda>s. case newDataPacket ops d fl (Context s) of
     (r, ctx) \<Rightarrow> Some (r, s\<lparr>Context := ctx\<rparr>))"

definition WriteFinalPacket :: "'n nego_ops \<Rightarrow> ('n, unit) sm" where
  "WriteFinalPacket ops = gbind (new_data_packet ops [] 0) (\<lambda>(p, fl, d). writePacket (DataPck p 0x40 d))"

definition rpc_flag :: "bool \<Rightarrow> bool \<Rightarrow> u16" where
  "rpc_flag start stop = (if start then 0x1000 else 0) OR (if stop then 0x800 else 0)"

text \<open>An error of the write empties the output buffer before it is returned.\<close>

definition write_or_reset :: "out_packet \<Rightarrow> ('n, unit) sm" where
  "write_or_reset pck = (\<lambda>s. Option.bind (writePacket pck s) (\<lambda>(r, s'). case r of
     Err e \<Rightarrow> Some (Err e, s'\<lparr>outBuffer := []\<rparr>) | _ \<Rightarrow> Some (r, s')))"

text \<open>
  The loop of \<open>WriteRPC\<close>: each turn overwrites the scratch slice \<open>k\<close> and sends it. Without a
  negotiator, or with one that hands its argument back, the packet keeps the scratch slice itself.
  With a segment length of 0 the loop does not end.
\<close>

partial_function (option) write_segments ::
    "'n nego_ops \<Rightarrow> u16 \<Rightarrow> nat \<Rightarrow> nat \<Rightarrow> byte list \<Rightarrow> ('n, byte list) sm" where
  "write_segments ops fl segmentLen k outputBytes s =
     (if length outputBytes > segmentLen then
        gseq (gupd (\<lambda>s. s\<lparr>segments := (segments s)[k := take segmentLen outputBytes]\<rparr>))
       (gbind (gget (\<lambda>s. case nego (Context s) of None \<Rightarrow> True | Some n \<Rightarrow> WriteAliases ops n)) (\<lambda>aliased.
        gbind (new_data_packet ops (take segmentLen outputBytes) fl) (\<lambda>(p, fl', d).
        gseq (write_or_reset (if aliased then SegmentPck p fl' k else DataPck p fl' d))
             (write_segments ops fl segmentLen k (drop segmentLen outputBytes))))) s
      else gret outputBytes s)"

definition WriteRPC :: "'n nego_ops \<Rightarrow> bool \<Rightarrow> bool \<Rightarrow> ('n, unit) sm" where
  "WriteRPC ops start stop = (\<lambda>s.
     let dataFlag = rpc_flag start stop;
         outputBytes = outBuffer s;
         segmentLen = unat (SessionDataUnit (Context s) - 64);
         k = length (segments s)
     in if outputBytes = []
        then gbind (new_data_packet ops [] dataFlag) (\<lambda>(p, fl, d). writePacket (DataPck p fl d)) s
        else gbind (if length outputBytes > segmentLen
                    then gseq (gupd (\<lambda>s. s\<lparr>segments := segments s @ [replicate segmentLen 0]\<rparr>))
                              (write_segments ops dataFlag segmentLen k outputBytes)
                    else gret outputBytes) (\<lambda>rest.
             if rest \<noteq> []
             then gbind (new_data_packet ops rest dataFlag) (\<lambda>(p, fl, d). write_or_reset (DataPck p fl d))
             else gret ()) s)"

definition Write :: "'n nego_ops \<Rightarrow> ('n, unit) sm" where
  "Write ops = WriteRPC ops False False"

text \<open>
  \<open>BreakConnection\<close>: out of band if that was negotiated and the platform can (\<open>oob\<close> is the result of
  \<open>sendOOB\<close>), otherwise by an interrupt marker.
\<close>

definition BreakConnection :: "bool res \<Rightarrow> ('n, unit) sm" where
  "BreakConnection oob =
     gbind (gget (\<lambda>s. NegotiatedOptions (Context s) AND 0x400 \<noteq> 0)) (\<lambda>use_oob.
     gbind (if use_oob then lift_res (\<lambda>_. oob) else gret False) (\<lambda>done.
     gseq (if \<not> done then writePacket (MarkerPck (snd (newMarkerPacket marker_type_interrupt))) else gret ())
          (gupd (\<lambda>s. s\<lparr>breakConn := True\<rparr>))))"

section \<open>Reading packets\<close>

partial_function (option) readAll_loop :: "nat \<Rightarrow> byte list \<Rightarrow> ('n, unit) sm" where
  "readAll_loop sz tempBuffer s =
     (if length tempBuffer < sz then
        (if \<not> conn s \<and> \<not> sslConn s then gerr ClosedConnection s
         else gseq initRead (\<lambda>s.
           case reader_read (sz - length tempBuffer) (reader s) of ((bs, e), evs) \<Rightarrow>
             let s = s\<lparr>reader := evs, remainingBytes := remainingBytes s - int (length bs)\<rparr>
             in case e of
                  Some err \<Rightarrow> Some (Err err, s\<lparr>lastPacket := lastPacket s @ tempBuffer @ bs\<rparr>)
                | None \<Rightarrow> readAll_loop sz (tempBuffer @ bs) s) s)
      else Some (Ok (), s\<lparr>lastPacket := lastPacket s @ tempBuffer\<rparr>))"

definition readAll :: "nat \<Rightarrow> ('n, unit) sm" where
  "readAll sz = gseq (gupd (\<lambda>s. s\<lparr>remainingBytes := int sz\<rparr>)) (readAll_loop sz [])"

definition read_head :: "('n, unit) sm" where
  "read_head = (\<lambda>s. Option.bind (readAll 8 (s\<lparr>lastPacket := []\<rparr>)) (\<lambda>(r, s'). case r of
     Err e \<Rightarrow> Some (Err e, if remainingBytes s' = 8 then s'\<lparr>remainingBytes := 0\<rparr> else s')
   | _ \<Rightarrow> Some (r, s')))"

definition readPacketData :: "('n, unit) sm" where
  "readPacketData = (\<lambda>s.
     if remainingBytes s > 0
     then gseq (readAll (nat (remainingBytes s))) (gupd (\<lambda>s. s\<lparr>remainingBytes := 0\<rparr>)) s
     else gseq read_head
         (gbind (lift_res (\<lambda>s. read_length (Context s) (lastPacket s))) (\<lambda>len.
            readAll (unat (len - 8)))) s)"

datatype 'n in_packet =
    PAccept packet "byte list" "'n session_context"
  | PRefuse refuse_packet
  | PRedirect packet "byte list" "byte list"
  | PMarker packet byte

fun in_packet_type :: "'n in_packet \<Rightarrow> byte" where
  "in_packet_type (PAccept p _ _) = packetType p"
| "in_packet_type (PRefuse p) = packetType p"
| "in_packet_type (PRedirect p _ _) = packetType p"
| "in_packet_type (PMarker p _) = packetType p"

primrec resend :: "out_packet list \<Rightarrow> ('n, unit) sm" where
  "resend [] = gret ()"
| "resend (pck # pcks) = gseq initWrite
     (gbind (lift_res (\<lambda>s. pck_bytes s pck)) (\<lambda>tmp. gseq (conn_write tmp) (resend pcks)))"

definition data_packet_from_data :: "'n nego_ops \<Rightarrow> ('n, packet \<times> u16 \<times> byte list) sm" where
  "data_packet_from_data ops = (\<lambda>s. case newDataPacketFromData ops (lastPacket s) (Context s) of
     (r, ctx) \<Rightarrow> Some (r, s\<lparr>Context := ctx\<rparr>))"

text \<open>
  The body of a redirect follows in the same packet or in a data packet of its own; the error of
  reading that second packet is not looked at.
\<close>

definition redirect_data :: "'n nego_ops \<Rightarrow> packet \<Rightarrow> byte list \<Rightarrow> ('n, byte list) sm" where
  "redirect_data ops pck packetData =
     (if (ucast (pck_length pck) :: u16) \<le> dataOffset pck
      then gseq (gignore readPacketData) (gbind (data_packet_from_data ops) (\<lambda>(_, _, d). gret d))
      else gbind (lift_res (\<lambda>s. rbind (u16_at 8 packetData) (\<lambda>dataLen.
             slice_at 10 (unat (10 + dataLen)) (packetData @ lastSpare s)))) gret)"

definition split_redirect :: "packet \<Rightarrow> byte list \<Rightarrow> 'n in_packet" where
  "split_redirect pck data =
     (let pre = takeWhile (\<lambda>c. c \<noteq> 0) data; found = length pre < length data
      in if flag pck AND 2 \<noteq> 0 \<and> found \<and> length pre > 0
         then PRedirect pck pre (drop (length pre) data) else PRedirect pck data [])"

definition handle_data :: "'n nego_ops \<Rightarrow> ('n, 'n in_packet option) sm" where
  "handle_data ops = gbind (data_packet_from_data ops) (\<lambda>(p, dataFlag, buffer) s.
     let s = (if SSL (connConfig (Context s)) \<and> (dataFlag AND 0x8000 \<noteq> 0 \<or> flag p AND 0x80 \<noteq> 0)
              then negotiate s else s)
     in if dataFlag = 0x40 then Some (Err ErrBadConn, Disconnect s)
        else Some (Ok None, s\<lparr>inBuffer := buf_write buffer (inBuffer s)\<rparr>))"

partial_function (option) readPacket :: "'n nego_ops \<Rightarrow> ('n, 'n in_packet option) sm" where
  "readPacket ops s =
     gseq readPacketData (gbind (gget lastPacket) (\<lambda>packetData.
       if length packetData < 6 then gpanic
       else if packetData ! 4 = RESEND then
         gseq (gupd (\<lambda>s. if SSL (connConfig (Context s)) \<and> packetData ! 5 AND 8 \<noteq> 0 then negotiate s else s))
        (gseq (gbind (gget sendPcks) resend)
              (readPacket ops))
       else if packetData ! 4 = ACCEPT then
         gbind (lift_res (\<lambda>s. newAcceptPacketFromData (lastSpare s) packetData (connConfig (Context s)))) (\<lambda>x.
           case x of None \<Rightarrow> gerr (InvalidPacket ACCEPT) | Some (p, b, c) \<Rightarrow> gret (Some (PAccept p b c)))
       else if packetData ! 4 = REFUSE then
         gbind (lift_res (\<lambda>_. newRefusePacketFromData packetData)) (\<lambda>x.
           case x of None \<Rightarrow> gerr (InvalidPacket REFUSE) | Some p \<Rightarrow> gret (Some (PRefuse p)))
       else if packetData ! 4 = REDIRECT then
         gbind (lift_res (\<lambda>_. newRedirectPacketFromData packetData)) (\<lambda>x.
           case x of None \<Rightarrow> gerr (InvalidPacket REDIRECT)
           | Some p \<Rightarrow> gbind (redirect_data ops p packetData) (\<lambda>d. gret (Some (split_redirect p d))))
       else if packetData ! 4 = DATA then handle_data ops
       else if packetData ! 4 = MARKER then
         gbind (lift_res (\<lambda>s. newMarkerPacketFromData packetData (Context s))) (\<lambda>x.
           case x of None \<Rightarrow> gerr (InvalidPacket MARKER) | Some (p, m) \<Rightarrow> gret (Some (PMarker p m)))
       else gerr (UnsupportedPacket (packetData ! 4)))) s"

definition nego_reset :: "'n nego_ops \<Rightarrow> ('n, unit) sm" where
  "nego_reset ops = (\<lambda>s. case nego (Context s) of None \<Rightarrow> Some (Ok (), s)
     | Some n \<Rightarrow> (case NegoReset ops n of (r, n') \<Rightarrow>
         Some (r, s\<lparr>Context := (Context s)\<lparr>nego := Some n'\<rparr>\<rparr>)))"

definition processMarker :: "'n nego_ops \<Rightarrow> ('n, unit) sm" where
  "processMarker ops =
     gseq (gupd resetWrite)
    (gseq (writePacket (MarkerPck (snd (newMarkerPacket marker_type_reset))))
    (gseq (nego_reset ops)
    (gseq (readPacket ops) (gret ()))))"

text \<open>\<open>Session.read\<close>, the terminal reader of the network session.\<close>

partial_function (option) read_loop :: "'n nego_ops \<Rightarrow> nat \<Rightarrow> byte list \<Rightarrow> ('n, byte list) sm" where
  "read_loop ops numBytes ret s =
     (if numBytes > 0 then
        gseq (gupd (\<lambda>s. if IsBreak s then ResetBreak s else s))
       (gbind (readPacket ops) (\<lambda>pck.
          case pck of
            None \<Rightarrow> (\<lambda>s. case buf_read numBytes (inBuffer s) of ((out, _), b) \<Rightarrow>
                      read_loop ops (numBytes - length out) (ret @ out) (s\<lparr>inBuffer := b\<rparr>))
          | Some (PMarker _ _) \<Rightarrow> gseq (processMarker ops) (gerr ErrConnReset)
          | Some p \<Rightarrow> gerr (AbnormalPacket (in_packet_type p)))) s
      else gret ret s)"

definition net_read :: "'n nego_ops \<Rightarrow> int \<Rightarrow> ('n, byte list) sm" where
  "net_read ops numBytes = (\<lambda>s. if numBytes < 0 then Some (Panic, s)
     else case buf_read (nat numBytes) (inBuffer s) of ((out, _), b) \<Rightarrow>
       read_loop ops (nat numBytes - length out) out (s\<lparr>inBuffer := b\<rparr>))"

section \<open>Errors reported by the server\<close>

definition HasError :: "'n session \<Rightarrow> bool" where
  "HasError s = (case Summary s of None \<Rightarrow> False | Some x \<Rightarrow> RetCode x \<noteq> 0 \<and> RetCode x \<noteq> 1403)"

end
