(* ===== verification/TNS_Session_Props.thy ===== *)
theory TNS_Session_Props
  imports TNS_Session TNS_Packet_Props TTC_Wire
begin

text \<open>
  Properties of the network session. Reading: whatever pieces the connection delivers, the payloads of
  the data packets come out as one byte stream, so that the session is a terminal reader in the sense
  of the TTC layer and every round trip of that layer holds over the network. Writing: \<open>WriteRPC\<close> cuts
  the output into packets no longer than the session data unit whose payloads are the output. Then the
  saved states, the resumption of an interrupted read, and two defects of the write path.
\<close>

section \<open>Frames\<close>

text \<open>The packets of a stream of data packets: their flags and payloads.\<close>

fun frames :: "'n session_context \<Rightarrow> byte list \<Rightarrow> (u16 \<times> byte list) list" where
  "frames ctx bs =
     (let n = be_dec (take (if wide_length ctx then 4 else 2) bs)
      in if n < 10 \<or> length bs < n then []
         else (of_nat (be_dec (slice 8 10 bs)), slice 10 n bs) # frames ctx (drop n bs))"

declare frames.simps [simp del]

definition framed :: "'n session_context \<Rightarrow> (u16 \<times> byte list) list \<Rightarrow> byte list" where
  "framed ctx ps = concat (map (\<lambda>(fl, d). data_frame ctx fl d) ps)"

lemma framed_simps [simp]:
  "framed ctx [] = []" "framed ctx ((fl, d) # ps) = data_frame ctx fl d @ framed ctx ps"
  by (simp_all add: framed_def)

lemma frames_Nil [simp]: "frames ctx [] = []"
  by (simp add: frames.simps)

lemma frames_frame:
  assumes "fits_length ctx (length d + 10)"
  shows "frames ctx (data_frame ctx fl d @ rest) = (fl, d) # frames ctx rest"
proof -
  have "be_dec (take (if wide_length ctx then 4 else 2) (data_frame ctx fl d @ rest)) = length d + 10"
    using assms by (auto simp: data_frame_def header8_def be_dec_enc fits_length_def)
  moreover have "be_dec (slice 8 10 (data_frame ctx fl d @ rest)) = unat fl"
    using unat_less_pow [of fl] by (simp add: data_frame_def slice_def be_dec_enc)
  moreover have "slice 10 (length d + 10) (data_frame ctx fl d @ rest) = d"
    by (simp add: data_frame_def slice_def)
  moreover have "drop (length d + 10) (data_frame ctx fl d @ rest) = rest" by simp
  ultimately show ?thesis
    by (subst frames.simps) (simp add: Let_def)
qed

lemma frames_framed:
  "list_all (\<lambda>(fl, d). fits_length ctx (length d + 10)) ps \<Longrightarrow> frames ctx (framed ctx ps) = ps"
  by (induction ps) (auto simp: frames_frame)

text \<open>Only the width of the length field matters.\<close>

lemma data_frame_cong: "wide_length c = wide_length c' \<Longrightarrow> data_frame c fl d = data_frame c' fl d"
  by (simp add: data_frame_def header8_def)

lemma frames_cong: "wide_length c = wide_length c' \<Longrightarrow> frames c bs = frames c' bs"
proof (induction c bs rule: frames.induct)
  case (1 c bs)
  then show ?case
    by (subst (1 2) frames.simps) (simp add: Let_def)
qed

section \<open>Reading from the connection\<close>

text \<open>The bytes still to come, and that no error comes with them.\<close>

primrec chunk_bytes :: "rd_event \<Rightarrow> byte list" where
  "chunk_bytes (Chunk bs e) = bs"

primrec chunk_clean :: "rd_event \<Rightarrow> bool" where
  "chunk_clean (Chunk bs e) \<longleftrightarrow> e = None"

definition stream :: "rd_event list \<Rightarrow> byte list" where
  "stream evs = concat (map chunk_bytes evs)"

definition clean :: "rd_event list \<Rightarrow> bool" where
  "clean evs = list_all chunk_clean evs"

definition opened :: "'n session \<Rightarrow> bool" where
  "opened s \<longleftrightarrow> (conn s \<or> sslConn s) \<and> deadlineErr s = None"

lemma readAll_loop_done:
  "sz \<le> length tmp \<Longrightarrow> readAll_loop sz tmp s = Some (Ok (), s\<lparr>lastPacket := lastPacket s @ tmp\<rparr>)"
  by (subst readAll_loop.simps) simp

lemma readAll_loop_step:
  assumes "opened s" and "length tmp < sz" and "reader s = Chunk cs None # evs"
  defines "n \<equiv> sz - length tmp"
  shows "readAll_loop sz tmp s = readAll_loop sz (tmp @ take n cs)
    (s\<lparr>reader := (if n < length cs then Chunk (drop n cs) None # evs else evs),
       remainingBytes := remainingBytes s - int (length (take n cs))\<rparr>)"
  using assms
  by (subst readAll_loop.simps)
     (auto simp: gseq_def initRead_def opened_def reader_read_def Let_def min_def)

text \<open>Pieces that hold enough bytes are read whatever comes after them.\<close>

lemma readAll_loop_reads:
  fixes s :: "'n session"
  assumes "opened s" and "reader s = evs @ tail" and "clean evs" and "stream evs = bs @ rest"
    and "sz = length tmp + length bs"
  shows "\<exists>evs'. readAll_loop sz tmp s = Some (Ok (), s\<lparr>reader := evs' @ tail,
      remainingBytes := remainingBytes s - int (length bs), lastPacket := lastPacket s @ tmp @ bs\<rparr>)
    \<and> clean evs' \<and> stream evs' = rest"
  using assms
proof (induction evs arbitrary: s tmp bs)
  case Nil
  then show ?case
    by (intro exI [of _ "[]"]) (simp add: stream_def clean_def readAll_loop_done)
next
  case (Cons ev evs)
  obtain cs where ev: "ev = Chunk cs None"
    using Cons.prems(3) by (cases ev) (auto simp: clean_def)
  have st: "cs @ stream evs = bs @ rest" and cl: "clean evs"
    using Cons.prems(3,4) by (simp_all add: stream_def clean_def ev)
  show ?case
  proof (cases "bs = []")
    case True
    with Cons.prems show ?thesis
      by (intro exI [of _ "ev # evs"]) (simp add: readAll_loop_done)
  next
    case False
    then have lt: "length tmp < sz" and sz: "sz - length tmp = length bs" using Cons.prems(5) by simp_all
    note step = readAll_loop_step [OF Cons.prems(1) lt, of cs "evs @ tail", unfolded sz]
    show ?thesis
    proof (cases "length bs < length cs")
      case True
      have cs: "take (length bs) cs = bs" "drop (length bs) cs @ stream evs = rest"
        using append_eq_shorter [OF st] True by simp_all
      with True step Cons.prems(2,5) cl show ?thesis
        by (intro exI [of _ "Chunk (drop (length bs) cs) None # evs"])
           (simp add: readAll_loop_done stream_def clean_def ev)
    next
      case False
      then obtain bs' where bs: "bs = cs @ bs'" and st': "stream evs = bs' @ rest"
        using append_eq_longer [OF st] by (metis not_less)
      let ?s = "s\<lparr>reader := evs @ tail, remainingBytes := remainingBytes s - int (length cs)\<rparr>"
      have e: "readAll_loop sz tmp s = readAll_loop sz (tmp @ cs) ?s"
        using step False Cons.prems(2) by (simp add: ev bs)
      have "\<exists>evs'. readAll_loop sz (tmp @ cs) ?s = Some (Ok (), ?s\<lparr>reader := evs' @ tail,
          remainingBytes := remainingBytes ?s - int (length bs'),
          lastPacket := lastPacket ?s @ (tmp @ cs) @ bs'\<rparr>) \<and> clean evs' \<and> stream evs' = rest"
        using Cons.prems st' cl by (intro Cons.IH) (simp_all add: opened_def bs)
      then show ?thesis
        unfolding e by (auto simp: bs algebra_simps)
    qed
  qed
qed

lemma readAll_reads:
  fixes s :: "'n session"
  assumes "opened s" and "reader s = evs @ tail" and "clean evs" and "stream evs = bs @ rest"
    and "n = length bs"
  shows "\<exists>evs'. readAll n s = Some (Ok (), s\<lparr>reader := evs' @ tail, remainingBytes := 0,
      lastPacket := lastPacket s @ bs\<rparr>) \<and> clean evs' \<and> stream evs' = rest"
  using readAll_loop_reads [of "s\<lparr>remainingBytes := int (length bs)\<rparr>" evs tail bs rest "length bs" "[]"] assms
  by (simp add: readAll_def gseq_def gupd_def opened_def)

lemma read_head_reads:
  fixes s :: "'n session"
  assumes "opened s" and "reader s = evs @ tail" and "clean evs" and "stream evs = h @ rest" and "length h = 8"
  shows "\<exists>evs'. read_head s = Some (Ok (), s\<lparr>reader := evs' @ tail, remainingBytes := 0, lastPacket := h\<rparr>)
    \<and> clean evs' \<and> stream evs' = rest"
proof -
  have "opened (s\<lparr>lastPacket := []\<rparr>)" "reader (s\<lparr>lastPacket := []\<rparr>) = evs @ tail"
    using assms(1,2) by (simp_all add: opened_def)
  from readAll_reads [OF this assms(3,4) assms(5) [symmetric]]
  show ?thesis by (auto simp: read_head_def)
qed

text \<open>The length in the header of a data packet is that of the body behind the header.\<close>

lemma data_body_length:
  assumes "fits_length ctx (length d + 10)"
  shows "\<exists>len. read_length ctx (header8 ctx (length d + 10) DATA 0) = Ok len
    \<and> unat (len - 8) = length (be_enc 2 (unat fl) @ d)"
proof -
  have "read_length ctx (header8 ctx (length d + 10) DATA 0) = Ok (of_nat (length d + 10))"
    using read_length_header [OF assms, of DATA 0 "[]"] by simp
  moreover have "(of_nat (length d + 10) - 8 :: u32) = of_nat (length d + 2)" by simp
  moreover have "unat (of_nat (length d + 2) :: u32) = length d + 2"
    by (rule unat_of_nat_small) (use fits_length_u32 [OF assms] in simp)
  ultimately show ?thesis by simp
qed

section \<open>Reading a data packet\<close>

lemma readPacketData_reads:
  fixes s :: "'n session"
  assumes "opened s" and "clean (reader s)" and "remainingBytes s \<le> 0"
    and "stream (reader s) = data_frame (Context s) fl d @ rest"
    and "fits_length (Context s) (length d + 10)"
  shows "\<exists>evs. readPacketData s = Some (Ok (), s\<lparr>reader := evs, remainingBytes := 0,
      lastPacket := data_frame (Context s) fl d\<rparr>) \<and> clean evs \<and> stream evs = rest"
proof -
  let ?h = "header8 (Context s) (length d + 10) DATA 0" and ?b = "be_enc 2 (unat fl) @ d"
  have f: "data_frame (Context s) fl d = ?h @ ?b" by (simp add: data_frame_def)
  obtain evs1 where h: "read_head s = Some (Ok (), s\<lparr>reader := evs1, remainingBytes := 0, lastPacket := ?h\<rparr>)"
      and c1: "clean evs1" "stream evs1 = ?b @ rest"
    using read_head_reads [OF assms(1) _ assms(2), of "[]" ?h "?b @ rest"] assms(4) by (auto simp: f)
  let ?s1 = "s\<lparr>reader := evs1, remainingBytes := 0, lastPacket := ?h\<rparr>"
  obtain len where len: "read_length (Context s) ?h = Ok len" "unat (len - 8) = length ?b"
    using data_body_length [OF assms(5), of fl] by blast
  have "opened ?s1" using assms(1) by (simp add: opened_def)
  then obtain evs2 where r2: "readAll (unat (len - 8)) ?s1 = Some (Ok (), ?s1\<lparr>reader := evs2, remainingBytes := 0,
      lastPacket := ?h @ ?b\<rparr>)" and c2: "clean evs2" "stream evs2 = rest"
    using readAll_reads [of ?s1 evs1 "[]" ?b rest] c1 len(2) by auto
  have "readPacketData s = readAll (unat (len - 8)) ?s1"
    using assms(3) h len(1) by (simp add: readPacketData_def gseq_def lift_res_def)
  with r2 c2 show ?thesis by (intro exI [of _ evs2]) (simp add: f)
qed

text \<open>Data packets the reader passes on: not the end-of-connection one, and no TLS renegotiation.\<close>

definition plain :: "'n session_context \<Rightarrow> u16 \<times> byte list \<Rightarrow> bool" where
  "plain ctx = (\<lambda>(fl, d). fits_length ctx (length d + 10) \<and> fl \<noteq> 0x40
     \<and> \<not> (SSL (connConfig ctx) \<and> fl AND 0x8000 \<noteq> 0))"

lemma readPacket_reads:
  fixes s :: "'n session"
  assumes "opened s" and "clean (reader s)" and "remainingBytes s \<le> 0" and "nego (Context s) = None"
    and "stream (reader s) = data_frame (Context s) fl d @ rest" and "plain (Context s) (fl, d)"
  shows "\<exists>evs. readPacket ops s = Some (Ok None, s\<lparr>reader := evs, remainingBytes := 0,
      lastPacket := data_frame (Context s) fl d, inBuffer := buf_write d (inBuffer s)\<rparr>)
    \<and> clean evs \<and> stream evs = rest"
proof -
  have fits: "fits_length (Context s) (length d + 10)" using assms(6) by (simp add: plain_def)
  obtain evs where r: "readPacketData s = Some (Ok (), s\<lparr>reader := evs, remainingBytes := 0,
      lastPacket := data_frame (Context s) fl d\<rparr>)" and c: "clean evs" "stream evs = rest"
    using readPacketData_reads [OF assms(1-3,5) fits] by blast
  let ?s = "s\<lparr>reader := evs, remainingBytes := 0, lastPacket := data_frame (Context s) fl d\<rparr>"
  have t: "data_frame (Context s) fl d ! 4 = DATA" "\<not> length (data_frame (Context s) fl d) < 6"
    by (simp_all add: data_frame_def nth_append)
  have "handle_data ops ?s = Some (Ok None, ?s\<lparr>inBuffer := buf_write d (inBuffer s)\<rparr>)"
    using assms(4,6) newDataPacketFromData_frame [OF fits assms(4)]
    by (auto simp: handle_data_def gbind_def data_packet_from_data_def plain_def Let_def)
  then have "readPacket ops s = Some (Ok None, ?s\<lparr>inBuffer := buf_write d (inBuffer s)\<rparr>)"
    using r t(2) by (subst readPacket.simps) (simp add: gseq_def gget_def t(1) packet_types)
  with c show ?thesis by (intro exI [of _ evs]) simp
qed

section \<open>The session as a terminal reader\<close>

definition net_ok :: "'n session \<Rightarrow> bool" where
  "net_ok s \<longleftrightarrow> opened s \<and> clean (reader s) \<and> remainingBytes s \<le> 0 \<and> nego (Context s) = None
     \<and> (let ps = frames (Context s) (stream (reader s))
        in list_all (plain (Context s)) ps \<and> stream (reader s) = framed (Context s) ps)"

definition net_pending :: "'n session \<Rightarrow> byte list" where
  "net_pending s = unread (inBuffer s) @ concat (map snd (frames (Context s) (stream (reader s))))"

text \<open>The fields that reading leaves alone.\<close>

definition kept :: "'n session \<Rightarrow> byte \<times> bool \<times> bool \<times> summary_object option \<times> byte list \<times> byte list list \<times> byte" where
  "kept s = (TTCVersion s, HasEOSCapability s, HasFSAPCapability s, Summary s, outBuffer s, wire s, ttcIndex s)"

lemma read_loop_reads:
  fixes s :: "'n session"
  assumes "net_ok s" and "unread (inBuffer s) = []" and "net_pending s = bs @ rest"
  shows "\<exists>s'. read_loop ops (length bs) ret s = Some (Ok (ret @ bs), s') \<and> net_ok s'
    \<and> props s' = props s \<and> net_pending s' = rest \<and> kept s' = kept s"
  using assms
proof (induction "frames (Context s) (stream (reader s))" arbitrary: s bs ret)
  case Nil
  then have "bs = []" "rest = []" by (simp_all add: net_pending_def)
  with Nil show ?case by (subst read_loop.simps) (simp add: gret_def)
next
  case (Cons x ps)
  obtain fl d where x: "x = (fl, d)" by (cases x)
  show ?case
  proof (cases "bs = []")
    case True
    with Cons show ?thesis by (subst read_loop.simps) (simp add: gret_def)
  next
    case False
    let ?s = "if IsBreak s then ResetBreak s else s"
    have ps: "frames (Context s) (stream (reader s)) = (fl, d) # ps" using Cons.hyps(2) x by simp
    have pl: "plain (Context s) (fl, d)" "list_all (plain (Context s)) ps"
      and st: "stream (reader s) = data_frame (Context s) fl d @ framed (Context s) ps"
      and o: "opened ?s" "clean (reader ?s)" "remainingBytes ?s \<le> 0" "nego (Context ?s) = None"
      and k: "Context ?s = Context s" "reader ?s = reader s" "props ?s = props s" "inBuffer ?s = inBuffer s"
      using Cons.prems(1) by (auto simp: net_ok_def ps Let_def ResetBreak_def opened_def)
    obtain evs where r: "readPacket ops ?s = Some (Ok None, ?s\<lparr>reader := evs, remainingBytes := 0,
        lastPacket := data_frame (Context s) fl d, inBuffer := buf_write d (inBuffer s)\<rparr>)"
      and c: "clean evs" "stream evs = framed (Context s) ps"
      using readPacket_reads [OF o] st pl(1) unfolding k by blast
    have fr: "frames (Context s) (stream evs) = ps"
      unfolding c(2) using pl(2) by (intro frames_framed) (auto simp: list_all_iff plain_def)
    let ?n = "length bs"
    define b where "b = snd (buf_read ?n (buf_write d (inBuffer s)))"
    define s2 where "s2 = ?s\<lparr>reader := evs, remainingBytes := 0,
        lastPacket := data_frame (Context s) fl d, inBuffer := b\<rparr>"
    have p: "d @ concat (map snd ps) = bs @ rest"
      using Cons.prems(2,3) by (simp add: net_pending_def ps)
    have u: "unread (buf_write d (inBuffer s)) = d" using Cons.prems(2) by simp
    have loop: "read_loop ops ?n ret s = read_loop ops (?n - length (take ?n d)) (ret @ take ?n d) s2"
      using False r buf_read_parts(1) [of ?n "buf_write d (inBuffer s)"] u
      by (subst read_loop.simps) (auto simp: gseq_def gupd_def s2_def b_def split: prod.split)
    have s2: "net_ok s2" "Context s2 = Context s" "reader s2 = evs" "props s2 = props s" "kept s2 = kept s"
      "net_pending s2 = drop ?n d @ concat (map snd ps)" "unread (inBuffer s2) = drop ?n d"
      using o c(1) pl(2) fr k u
      by (auto simp: s2_def net_ok_def net_pending_def Let_def opened_def b_def buf_read_parts c(2) kept_def ResetBreak_def)
    show ?thesis
    proof (cases "?n \<le> length d")
      case True
      then have "take ?n d = bs" "drop ?n d @ concat (map snd ps) = rest"
        using append_eq_shorter [OF p] by simp_all
      then show ?thesis
        unfolding loop using s2 by (subst read_loop.simps) (simp add: gret_def)
    next
      case False
      then obtain bs' where bs: "bs = d @ bs'" and p': "concat (map snd ps) = bs' @ rest"
        using append_eq_longer [OF p] by (metis nat_le_linear)
      have "\<exists>s'. read_loop ops (length bs') (ret @ d) s2 = Some (Ok ((ret @ d) @ bs'), s') \<and> net_ok s'
          \<and> props s' = props s2 \<and> net_pending s' = rest \<and> kept s' = kept s2"
        using s2 fr False p' by (intro Cons.hyps(1)) simp_all
      then show ?thesis
        unfolding loop using False s2(4,5) bs by simp
    qed
  qed
qed

lemma net_reads:
  fixes s :: "'n session"
  assumes ok: "net_ok s" and p: "net_pending s = bs @ rest"
  shows "\<exists>s'. net_read ops (int (length bs)) s = Some (Ok bs, s') \<and> net_ok s' \<and> props s' = props s
      \<and> net_pending s' = rest \<and> kept s' = kept s"
proof -
  define b where "b = snd (buf_read (length bs) (inBuffer s))"
  define s1 where "s1 = s\<lparr>inBuffer := b\<rparr>"
  define u where "u = unread (inBuffer s)"
  have n: "net_read ops (int (length bs)) s = read_loop ops (length bs - length u) (take (length bs) u) s1"
    using buf_read_parts(1) [of "length bs" "inBuffer s"]
    by (auto simp: net_read_def s1_def b_def u_def min_def split: prod.split)
  have s1: "net_ok s1" "props s1 = props s" "unread (inBuffer s1) = drop (length bs) u" "kept s1 = kept s"
    "net_pending s1 = drop (length bs) u @ concat (map snd (frames (Context s) (stream (reader s))))"
    using ok by (auto simp: s1_def net_ok_def opened_def net_pending_def b_def buf_read_parts u_def kept_def)
  have q: "u @ concat (map snd (frames (Context s) (stream (reader s)))) = bs @ rest"
    using p by (simp add: net_pending_def u_def)
  show ?thesis
  proof (cases "length bs \<le> length u")
    case True
    then have "take (length bs) u = bs" "net_pending s1 = rest"
      using append_eq_shorter [OF q] s1 by simp_all
    with True s1 show ?thesis
      unfolding n by (subst read_loop.simps) (simp add: gret_def)
  next
    case False
    then obtain bs' where bs: "bs = u @ bs'" "net_pending s1 = bs' @ rest"
      using append_eq_longer [OF q] s1(5) by (metis append_Nil drop_all nat_le_linear)
    have "unread (inBuffer s1) = []" using False s1(3) by simp
    from read_loop_reads [OF s1(1) this bs(2), of ops u]
    show ?thesis
      unfolding n using s1(2,4) bs(1) by auto
  qed
qed

interpretation net: terminal_reader "net_read ops" net_ok net_pending for ops :: "'n nego_ops"
  using net_reads by unfold_locales blast

interpretation net_kept: terminal_reader "net_read ops" "\<lambda>s. net_ok s \<and> kept s = k" net_pending for ops :: "'n nego_ops" and k
  using net_reads by unfold_locales blast

section \<open>Writing\<close>

definition writable :: "'n session \<Rightarrow> bool" where
  "writable s \<longleftrightarrow> opened s \<and> writeErrs s = [] \<and> nego (Context s) = None"

definition data_pck :: "byte list \<Rightarrow> packet" where
  "data_pck d = \<lparr>dataOffset = 0xA, pck_length = of_nat (length d) + 0xA, packetType = DATA, flag = 0\<rparr>"

lemma new_data_packet_plain:
  "writable s \<Longrightarrow> new_data_packet ops d fl s = Some (Ok (data_pck d, fl, d), s)"
  by (simp add: new_data_packet_def newDataPacket_def writable_def data_pck_def)

lemma writePacket_sends:
  fixes s :: "'n session"
  assumes "writable s" and "pck_bytes s pck = Ok bs"
  shows "writePacket pck s = Some (Ok (), s\<lparr>sendPcks := sendPcks s @ [pck], wire := wire s @ [bs]\<rparr>)"
proof -
  have "pck_bytes (s\<lparr>sendPcks := sendPcks s @ [pck]\<rparr>) pck = Ok bs"
    using assms(2) by (cases pck) (auto simp: pck_bytes_def split: if_splits)
  then show ?thesis
    using assms(1)
    by (auto simp: writePacket_def gseq_def gupd_def lift_res_def initWrite_def conn_write_def writable_def
        opened_def gbind_def)
qed

lemma write_data:
  fixes s :: "'n session"
  assumes "writable s" and "fits_length (Context s) (length d + 10)"
  shows "writePacket (DataPck (data_pck d) fl d) s = Some (Ok (), s\<lparr>sendPcks := sendPcks s @ [DataPck (data_pck d) fl d],
      wire := wire s @ [data_frame (Context s) fl d]\<rparr>)"
  using writePacket_sends [OF assms(1)] DataPacket_bytes_frame [OF assms(2)]
  by (simp add: pck_bytes_def data_pck_def)

lemma write_segment:
  fixes s :: "'n session"
  assumes "writable s" and "fits_length (Context s) (length d + 10)"
    and "k < length (segments s)" and "segments s ! k = d"
  shows "writePacket (SegmentPck (data_pck d) fl k) s = Some (Ok (), s\<lparr>sendPcks := sendPcks s @ [SegmentPck (data_pck d) fl k],
      wire := wire s @ [data_frame (Context s) fl d]\<rparr>)"
  using writePacket_sends [OF assms(1)] DataPacket_bytes_frame [OF assms(2)] assms(3,4)
  by (simp add: pck_bytes_def data_pck_def)

text \<open>
  The loop sends full segments until at most one segment is left: \<open>cs\<close> are the segments sent by it,
  all of them from the scratch slice \<open>k\<close>, which afterwards holds the last one.
\<close>

definition sent_segments ::
    "nat \<Rightarrow> u16 \<Rightarrow> nat \<Rightarrow> byte list \<Rightarrow> 'n session \<Rightarrow> byte list list \<Rightarrow> byte list \<Rightarrow> 'n session \<Rightarrow> bool" where
  "sent_segments n fl k bs s cs rest s' \<longleftrightarrow>
     bs = concat cs @ rest \<and> (\<forall>c \<in> set cs. length c = n) \<and> length rest \<le> n \<and> (bs \<noteq> [] \<longrightarrow> rest \<noteq> [])
     \<and> wire s' = wire s @ map (data_frame (Context s) fl) cs
     \<and> sendPcks s' = sendPcks s @ map (\<lambda>c. SegmentPck (data_pck c) fl k) cs
     \<and> Context s' = Context s \<and> writable s' \<and> outBuffer s' = outBuffer s
     \<and> length (segments s') = length (segments s)
     \<and> segments s' ! k = (if cs = [] then segments s ! k else last cs)"

lemma sent_segments_Cons:
  assumes "sent_segments n fl k (drop n bs) s2 cs rest s'" and "n < length bs"
    and "wire s2 = wire s @ [data_frame (Context s) fl (take n bs)]"
    and "sendPcks s2 = sendPcks s @ [SegmentPck (data_pck (take n bs)) fl k]"
    and "Context s2 = Context s" "outBuffer s2 = outBuffer s" "length (segments s2) = length (segments s)"
    and "segments s2 ! k = take n bs"
  shows "sent_segments n fl k bs s (take n bs # cs) rest s'"
proof -
  have "bs = take n bs @ concat cs @ rest"
    using assms(1) append_take_drop_id [of n bs] by (simp add: sent_segments_def)
  then show ?thesis
    using assms unfolding sent_segments_def by (simp add: min_def)
qed

lemma write_segments_sends:
  fixes s :: "'n session"
  assumes "0 < n" and "fits_length (Context s) (n + 10)" and "writable s" and "k < length (segments s)"
  shows "\<exists>cs rest s'. write_segments ops fl n k bs s = Some (Ok rest, s') \<and> sent_segments n fl k bs s cs rest s'"
  using assms(3,4,2)
proof (induction bs arbitrary: s rule: length_induct)
  case (1 bs)
  show ?case
  proof (cases "n < length bs")
    case False
    then have "write_segments ops fl n k bs s = Some (Ok bs, s)"
      by (subst write_segments.simps) (simp add: gret_def)
    moreover have "sent_segments n fl k bs s [] bs s"
      using False 1(2) by (simp add: sent_segments_def)
    ultimately show ?thesis by blast
  next
    case True
    let ?c = "take n bs"
    define s1 where "s1 = s\<lparr>segments := (segments s)[k := ?c]\<rparr>"
    define s2 where "s2 = s1\<lparr>sendPcks := sendPcks s @ [SegmentPck (data_pck ?c) fl k],
        wire := wire s @ [data_frame (Context s) fl ?c]\<rparr>"
    have w1: "writable s1" "fits_length (Context s1) (length ?c + 10)" "k < length (segments s1)"
        "segments s1 ! k = ?c"
      using 1(2-4) True by (simp_all add: s1_def writable_def opened_def min_def)
    have "writePacket (SegmentPck (data_pck ?c) fl k) s1 = Some (Ok (), s2)"
      using write_segment [OF w1] by (simp add: s1_def s2_def)
    then have e: "write_segments ops fl n k bs s = write_segments ops fl n k (drop n bs) s2"
      using True new_data_packet_plain [OF w1(1)] w1(1)
      by (subst write_segments.simps)
         (simp add: gseq_def gupd_def gget_def write_or_reset_def gbind_def writable_def flip: s1_def)
    have w2: "writable s2" "k < length (segments s2)" "fits_length (Context s2) (n + 10)"
      using 1(2-4) by (simp_all add: s2_def s1_def writable_def opened_def)
    have "length (drop n bs) < length bs" using True assms(1) by simp
    then obtain cs rest s' where r: "write_segments ops fl n k (drop n bs) s2 = Some (Ok rest, s')"
        "sent_segments n fl k (drop n bs) s2 cs rest s'"
      using 1(1) w2 by blast
    have "sent_segments n fl k bs s (?c # cs) rest s'"
      by (rule sent_segments_Cons [OF r(2) True]) (use 1(3) in \<open>simp_all add: s2_def s1_def\<close>)
    then show ?thesis unfolding e using r(1) by blast
  qed
qed

lemma WriteRPC_sends:
  fixes s :: "'n session"
  assumes "writable s" and "outBuffer s \<noteq> []" and "64 < unat (SessionDataUnit (Context s))"
    and "fits_length (Context s) (unat (SessionDataUnit (Context s)) - 54)"
  shows "\<exists>parts s'. WriteRPC ops start stop s = Some (Ok (), s')
    \<and> concat parts = outBuffer s
    \<and> (\<forall>d \<in> set parts. 0 < length d \<and> length d \<le> unat (SessionDataUnit (Context s)) - 64)
    \<and> wire s' = wire s @ map (data_frame (Context s) (rpc_flag start stop)) parts
    \<and> Context s' = Context s \<and> outBuffer s' = outBuffer s"
proof -
  let ?n = "unat (SessionDataUnit (Context s)) - 64" and ?fl = "rpc_flag start stop" and ?k = "length (segments s)"
  have n: "unat (SessionDataUnit (Context s) - 64) = ?n"
    using assms(3) by (simp add: unat_sub_if')
  have fits: "fits_length (Context s) (m + 10)" if "m \<le> ?n" for m
    using assms(3,4) that by (auto simp: fits_length_def)
  have final: "gbind (new_data_packet ops rest ?fl) (\<lambda>(p, fl, d). write_or_reset (DataPck p fl d)) s1
      = Some (Ok (), s1\<lparr>sendPcks := sendPcks s1 @ [DataPck (data_pck rest) ?fl rest],
          wire := wire s1 @ [data_frame (Context s) ?fl rest]\<rparr>)"
    if "writable s1" "Context s1 = Context s" "length rest \<le> ?n" for s1 :: "'n session" and rest
    using new_data_packet_plain [OF that(1), of ops rest ?fl] write_data [OF that(1), of rest ?fl]
      that(2) fits [OF that(3)] by (simp add: gbind_def write_or_reset_def)
  show ?thesis
  proof (cases "length (outBuffer s) > ?n")
    case False
    then have "WriteRPC ops start stop s
        = gbind (new_data_packet ops (outBuffer s) ?fl) (\<lambda>(p, fl, d). write_or_reset (DataPck p fl d)) s"
      using assms(2) by (simp add: WriteRPC_def Let_def n)
    also note final [OF assms(1) refl, of "outBuffer s"]
    finally show ?thesis
      using False assms(2)
      by (intro exI [of _ "[outBuffer s]"] exI [of _ "s\<lparr>sendPcks := sendPcks s @
          [DataPck (data_pck (outBuffer s)) ?fl (outBuffer s)],
          wire := wire s @ [data_frame (Context s) ?fl (outBuffer s)]\<rparr>"]) auto
  next
    case True
    define s0 where "s0 = s\<lparr>segments := segments s @ [replicate ?n 0]\<rparr>"
    have s0: "writable s0" "?k < length (segments s0)" "fits_length (Context s0) (?n + 10)" "0 < ?n"
      using assms(1,3) fits [of ?n] by (simp_all add: s0_def writable_def opened_def)
    obtain cs rest s1 where r0: "write_segments ops ?fl ?n ?k (outBuffer s) s0 = Some (Ok rest, s1)"
        "sent_segments ?n ?fl ?k (outBuffer s) s0 cs rest s1"
      using write_segments_sends [OF s0(4,3,1,2), of ops ?fl "outBuffer s"] by blast
    then have r: "write_segments ops ?fl ?n ?k (outBuffer s) s0 = Some (Ok rest, s1)"
        "outBuffer s = concat cs @ rest" "\<forall>c \<in> set cs. length c = ?n" "length rest \<le> ?n" "rest \<noteq> []"
        "wire s1 = wire s0 @ map (data_frame (Context s0) ?fl) cs"
        "Context s1 = Context s0" "writable s1" "outBuffer s1 = outBuffer s0"
      using assms(2) unfolding sent_segments_def by simp_all
    have c: "Context s1 = Context s" "wire s0 = wire s" "outBuffer s1 = outBuffer s"
      using r(7,9) by (simp_all add: s0_def)
    have "WriteRPC ops start stop s
        = gbind (new_data_packet ops rest ?fl) (\<lambda>(p, fl, d). write_or_reset (DataPck p fl d)) s1"
      using True assms(2) r(1,5) by (simp add: WriteRPC_def Let_def n gseq_def gupd_def gbind_def flip: s0_def)
    also note final [OF r(8) c(1) r(4)]
    finally show ?thesis
      using r s0(4) c
      by (intro exI [of _ "cs @ [rest]"] exI [of _ "s1\<lparr>sendPcks := sendPcks s1 @ [DataPck (data_pck rest) ?fl rest],
          wire := wire s1 @ [data_frame (Context s) ?fl rest]\<rparr>"]) (auto simp: s0_def)
  qed
qed


text \<open>
  C17. \<^verbatim>\<open>WriteRPC\<close> sends its output: on an open connection, with a session data unit above 64 that the
  length field can hold, it returns without an error after writing one data packet per segment; no
  packet is longer than the session data unit, each carries the call's flag, and the payloads together
  are exactly the output buffer.
\<close>

theorem WriteRPC_segmentation:
  assumes "writable s" and "outBuffer s \<noteq> []" and "64 < unat (SessionDataUnit (Context s))"
    and "fits_length (Context s) (unat (SessionDataUnit (Context s)) - 54)"
  shows "\<exists>fs s'. WriteRPC ops start stop s = Some (Ok (), s') \<and> wire s' = wire s @ fs
    \<and> (\<forall>f \<in> set fs. length f \<le> unat (SessionDataUnit (Context s)))
    \<and> (\<forall>x \<in> set (frames (Context s) (concat fs)). fst x = rpc_flag start stop)
    \<and> concat (map snd (frames (Context s) (concat fs))) = outBuffer s"
proof -
  let ?fl = "rpc_flag start stop" and ?u = "unat (SessionDataUnit (Context s))"
  obtain parts s' where w: "WriteRPC ops start stop s = Some (Ok (), s')"
      "concat parts = outBuffer s" "\<forall>d \<in> set parts. 0 < length d \<and> length d \<le> ?u - 64"
      "wire s' = wire s @ map (data_frame (Context s) ?fl) parts"
    using WriteRPC_sends [OF assms] by blast
  have "concat (map (data_frame (Context s) ?fl) parts) = framed (Context s) (map (Pair ?fl) parts)"
    by (simp add: framed_def comp_def)
  moreover have "list_all (\<lambda>(fl, d). fits_length (Context s) (length d + 10)) (map (Pair ?fl) parts)"
    using w(3) assms(3,4) by (auto simp: list_all_iff fits_length_def split: if_splits)
  ultimately have fr: "frames (Context s) (concat (map (data_frame (Context s) ?fl) parts)) = map (Pair ?fl) parts"
    by (simp only: frames_framed)
  show ?thesis
    using w assms(3) by (intro exI [of _ "map (data_frame (Context s) ?fl) parts"] exI [of _ s'])
      (auto simp: fr comp_def)
qed

definition sample_session :: "byte list \<Rightarrow> unit session" where
  "sample_session out = (NewSession sample_config)\<lparr>conn := True, outBuffer := out,
     Context := (NewSessionContext sample_config)\<lparr>SessionDataUnit := 74\<rparr>\<rparr>"

theorem WriteRPC_segmentation_witness:
  "\<exists>fs s'. WriteRPC plain_ops True False (sample_session [1, 2, 3, 4, 5, 6, 7, 8, 9, 10, 11, 12, 13]) = Some (Ok (), s')
    \<and> wire s' = fs \<and> (\<forall>f \<in> set fs. length f \<le> 74)
    \<and> concat (map snd (frames (NewSessionContext sample_config :: unit session_context) (concat fs)))
        = [1, 2, 3, 4, 5, 6, 7, 8, 9, 10, 11, 12, 13]"
proof -
  let ?s = "sample_session [1, 2, 3, 4, 5, 6, 7, 8, 9, 10, 11, 12, 13]"
  have "frames (Context ?s) bs = frames (NewSessionContext sample_config :: unit session_context) bs" for bs
    by (rule frames_cong) (simp add: sample_session_def wide_length_def)
  moreover have "writable ?s" "unat (SessionDataUnit (Context ?s)) = 74" "wire ?s = []"
      "outBuffer ?s = [1, 2, 3, 4, 5, 6, 7, 8, 9, 10, 11, 12, 13]" "fits_length (Context ?s) 20"
    by (simp_all add: sample_session_def NewSession_def writable_def opened_def NewSessionContext_def
        zero_context_def fits_length_def wide_length_def)
  ultimately show ?thesis
    using WriteRPC_segmentation [of ?s plain_ops True False] by auto
qed

text \<open>A session waiting for the data packets of a peer with the same length width.\<close>

definition listening :: "'n session_context \<Rightarrow> session_props \<Rightarrow> 'm session \<Rightarrow> bool" where
  "listening ctx p r \<longleftrightarrow> props r = p \<and> opened r \<and> clean (reader r) \<and> remainingBytes r = 0
     \<and> nego (Context r) = None \<and> unread (inBuffer r) = [] \<and> wide_length (Context r) = wide_length ctx"

lemma listening_gets:
  fixes s :: "'n session" and r :: "'m session"
  assumes "listening (Context s) p r" and "stream (reader r) = concat (map (data_frame (Context s) fl) parts)"
    and "\<forall>d \<in> set parts. fits_length (Context s) (length d + 10)"
    and "fl \<noteq> 0x40" and "fl AND 0x8000 = 0"
  shows "net_ok r" and "net_pending r = concat parts"
proof -
  let ?ps = "map (Pair fl) parts"
  have wide: "wide_length (Context s) = wide_length (Context r)" using assms(1) by (simp add: listening_def)
  have "data_frame (Context s) fl = data_frame (Context r) fl"
    by (rule ext, rule data_frame_cong [OF wide])
  then have f: "stream (reader r) = framed (Context r) ?ps"
    unfolding assms(2) framed_def by (simp add: comp_def)
  have pl: "list_all (plain (Context r)) ?ps"
    using assms(3-5) wide by (auto simp: list_all_iff plain_def fits_length_def)
  then have "frames (Context r) (framed (Context r) ?ps) = ?ps"
    by (intro frames_framed) (auto simp: list_all_iff plain_def)
  with f pl assms(1) show "net_ok r" "net_pending r = concat parts"
    by (simp_all add: net_ok_def net_pending_def Let_def comp_def listening_def)
qed

text \<open>
  C16. Values cross the network: a CLR value written by one session and sent by \<^verbatim>\<open>WriteRPC\<close> is read back
  by \<^verbatim>\<open>GetClr\<close> of any listening session with the same properties and length width, however the
  connection cuts the bytes into pieces and however many packets the value was spread over.
\<close>

theorem net_clr_roundtrip:
  fixes s :: "'n session"
  assumes "clr_ok p" and "props s = p" and "writable s" and "outBuffer s = []"
    and "64 < unat (SessionDataUnit (Context s))"
    and "fits_length (Context s) (unat (SessionDataUnit (Context s)) - 54)"
  shows "\<exists>s1 s2 fs. PutClr data s = Some (Ok (), s1) \<and> WriteRPC ops start stop s1 = Some (Ok (), s2)
    \<and> wire s2 = wire s @ fs
    \<and> (\<forall>r :: 'm session. listening (Context s) p r \<and> stream (reader r) = concat fs \<longrightarrow>
        (\<exists>r'. GetClr (net_read ops') r = Some (Ok (nslice_of data), r') \<and> net_pending r' = []))"
proof -
  let ?fl = "rpc_flag start stop" and ?u = "unat (SessionDataUnit (Context s))"
  define s1 where "s1 = s\<lparr>outBuffer := wire_clr p data\<rparr>"
  have "emits p (PutClr data :: ('n, unit) sm) (wire_clr p data)" by (rule emits_PutClr [OF assms(1)])
  then have put: "PutClr data s = Some (Ok (), s1)"
    using assms(2,4) by (simp add: emits_def s1_def)
  have s1: "writable s1" "outBuffer s1 = wire_clr p data" "Context s1 = Context s" "wire s1 = wire s"
      "outBuffer s1 \<noteq> []"
    using assms(3) by (simp_all add: s1_def writable_def opened_def wire_clr_def)
  then obtain parts s2 where w: "WriteRPC ops start stop s1 = Some (Ok (), s2)"
      "concat parts = wire_clr p data" "\<forall>d \<in> set parts. 0 < length d \<and> length d \<le> ?u - 64"
      "wire s2 = wire s @ map (data_frame (Context s) ?fl) parts"
    using WriteRPC_sends [of s1 ops start stop] assms(5,6) by (auto simp: s1(3))
  have fits: "\<forall>d \<in> set parts. fits_length (Context s) (length d + 10)"
    using w(3) assms(5,6) by (auto simp: fits_length_def split: if_splits)
  have fl: "?fl \<noteq> 0x40" "?fl AND 0x8000 = 0" by (simp_all add: rpc_flag_def)
  have "\<exists>r'. GetClr (net_read ops') r = Some (Ok (nslice_of data), r') \<and> net_pending r' = []"
    if "listening (Context s) p r" "stream (reader r) = concat (map (data_frame (Context s) ?fl) parts)"
    for r :: "'m session"
    using net.parses_GetClr [OF assms(1), of ops' data] listening_gets [OF that fits fl] that(1) w(2)
    unfolding parses_def listening_def by (metis append.right_neutral)
  with put w(1,4) show ?thesis by blast
qed

theorem net_clr_roundtrip_witness:
  "\<exists>s1 s2 r'. PutClr (replicate 300 7) (sample_session []) = Some (Ok (), s1)
    \<and> WriteRPC plain_ops False False s1 = Some (Ok (), s2)
    \<and> GetClr (net_read plain_ops) ((sample_session [])\<lparr>reader := map (\<lambda>b. Chunk [b] None) (concat (wire s2))\<rparr>)
        = Some (Ok (Some (replicate 300 7)), r')"
proof -
  let ?s = "sample_session []"
  have p: "clr_ok (props ?s)" "writable ?s" "outBuffer ?s = []" "unat (SessionDataUnit (Context ?s)) = 74"
      "fits_length (Context ?s) 20" "wire ?s = []"
    by (simp_all add: sample_session_def NewSession_def writable_def opened_def NewSessionContext_def
        zero_context_def fits_length_def wide_length_def clr_ok_def)
  have l: "listening (Context ?s) (props ?s) (?s\<lparr>reader := map (\<lambda>b. Chunk [b] None) bs\<rparr>)" for bs
    by (simp add: listening_def clean_def list_all_iff sample_session_def NewSession_def opened_def
        NewSessionContext_def zero_context_def)
  have st: "stream (map (\<lambda>b. Chunk [b] None) bs) = bs" for bs
    by (induction bs) (simp_all add: stream_def)
  have "nslice_of (replicate 300 (7 :: byte)) = Some (replicate 300 7)" by (simp add: nslice_of_def)
  with net_clr_roundtrip [OF p(1) refl p(2,3), of "replicate 300 7" plain_ops False False plain_ops] p l st
  show ?thesis by fastforce
qed


end
