(* ===== verification/TNS_Session_Faults.thy ===== *)
theory TNS_Session_Faults
  imports TNS_Session_Props
begin

text \<open>
  The network session when things go wrong: a read interrupted by an error of the connection and
  resumed, and two defects of the write path: a session data
  unit of 64 makes \<open>WriteRPC\<close> loop forever, and a resend request is answered with the wrong bytes
  because the segments of one call share one slice.
\<close>

section \<open>Interrupted reads\<close>

lemma readAll_loop_interrupted:
  fixes s :: "'n session"
  assumes "opened s" and "reader s = evs @ Chunk bs (Some e) # evs'" and "clean evs"
    and "length tmp + length (stream evs @ bs) < sz"
  shows "readAll_loop sz tmp s = Some (Err e, s\<lparr>reader := evs',
      remainingBytes := remainingBytes s - int (length (stream evs @ bs)),
      lastPacket := lastPacket s @ tmp @ stream evs @ bs\<rparr>)"
  using assms
proof (induction evs arbitrary: s tmp)
  case Nil
  then show ?case
    by (subst readAll_loop.simps)
       (auto simp: gseq_def initRead_def opened_def reader_read_def Let_def stream_def)
next
  case (Cons ev evs)
  obtain cs where ev: "ev = Chunk cs None"
    using Cons.prems(3) by (cases ev) (auto simp: clean_def)
  let ?s = "s\<lparr>reader := evs @ Chunk bs (Some e) # evs', remainingBytes := remainingBytes s - int (length cs)\<rparr>"
  have "readAll_loop sz tmp s = readAll_loop sz (tmp @ cs) ?s"
    using Cons.prems(1,2,4)
    by (subst readAll_loop.simps)
       (auto simp: gseq_def initRead_def opened_def reader_read_def Let_def stream_def ev)
  also have "\<dots> = Some (Err e, ?s\<lparr>reader := evs',
      remainingBytes := remainingBytes ?s - int (length (stream evs @ bs)),
      lastPacket := lastPacket ?s @ (tmp @ cs) @ stream evs @ bs\<rparr>)"
    using Cons.prems by (intro Cons.IH) (simp_all add: opened_def clean_def stream_def ev)
  finally show ?case by (simp add: stream_def ev algebra_simps)
qed

lemma readAll_interrupted:
  fixes s :: "'n session"
  assumes "opened s" and "reader s = evs @ Chunk bs (Some e) # evs'" and "clean evs"
    and "sz = length (stream evs @ bs) + m" and "0 < m"
  shows "readAll sz s = Some (Err e, s\<lparr>reader := evs', remainingBytes := int m,
      lastPacket := lastPacket s @ stream evs @ bs\<rparr>)"
  using readAll_loop_interrupted [of "s\<lparr>remainingBytes := int sz\<rparr>" evs bs e evs' "[]" sz] assms
  by (simp add: readAll_def gseq_def gupd_def opened_def)

text \<open>
  A read interrupted inside the body of a packet is resumed: if the connection reports an error
  after the header and before the end of a data packet, \<^verbatim>\<open>readPacketData\<close> returns that error, and its
  next call completes the same packet, with the bytes read before the interruption in place and
  nothing taken from what follows the packet.
\<close>

theorem readPacketData_resumes:
  fixes s :: "'n session"
  assumes "opened s" and "remainingBytes s \<le> 0" and "fits_length (Context s) (length d + 10)"
    and "reader s = evs @ Chunk bs (Some e) # evs'" and "clean evs" and "clean evs'"
    and "data_frame (Context s) fl d = stream evs @ bs @ missing" and "8 \<le> length (stream evs)"
    and "missing \<noteq> []" and "stream evs' = missing @ rest"
  shows "\<exists>s1 s2. readPacketData s = Some (Err e, s1) \<and> readPacketData s1 = Some (Ok (), s2)
    \<and> lastPacket s2 = data_frame (Context s) fl d \<and> remainingBytes s2 = 0
    \<and> clean (reader s2) \<and> stream (reader s2) = rest"
proof -
  let ?h = "header8 (Context s) (length d + 10) DATA 0" and ?b = "be_enc 2 (unat fl) @ d"
  have "stream evs @ bs @ missing = ?h @ ?b" using assms(7) by (simp add: data_frame_def)
  then obtain more where m: "stream evs = ?h @ more" and b: "?b = more @ bs @ missing"
    using append_eq_longer [of ?h ?b "stream evs" "bs @ missing"] assms(8) by (metis length_header8)
  obtain evs1 where h: "read_head s = Some (Ok (), s\<lparr>reader := evs1 @ Chunk bs (Some e) # evs',
      remainingBytes := 0, lastPacket := ?h\<rparr>)" and c1: "clean evs1" "stream evs1 = more"
    using read_head_reads [OF assms(1,4,5) m] by auto
  let ?s1 = "s\<lparr>reader := evs1 @ Chunk bs (Some e) # evs', remainingBytes := 0, lastPacket := ?h\<rparr>"
  obtain len where len: "read_length (Context s) ?h = Ok len" "unat (len - 8) = length ?b"
    using data_body_length [OF assms(3), of fl] by blast
  let ?s2 = "s\<lparr>reader := evs', remainingBytes := int (length missing), lastPacket := ?h @ more @ bs\<rparr>"
  have sz: "unat (len - 8) = length (stream evs1 @ bs) + length missing"
    using arg_cong [OF b, of length] len(2) c1(2) by simp
  have "opened ?s1" using assms(1) by (simp add: opened_def)
  then have "readAll (unat (len - 8)) ?s1 = Some (Err e, ?s2)"
    using readAll_interrupted [OF _ _ c1(1) sz, of ?s1 e evs'] assms(9) c1(2) by simp
  then have r1: "readPacketData s = Some (Err e, ?s2)"
    using assms(2) h len(1) by (simp add: readPacketData_def gseq_def lift_res_def)
  have "opened ?s2" using assms(1) by (simp add: opened_def)
  then obtain evs2 where r2: "readAll (length missing) ?s2 = Some (Ok (), ?s2\<lparr>reader := evs2,
      remainingBytes := 0, lastPacket := (?h @ more @ bs) @ missing\<rparr>)" "clean evs2" "stream evs2 = rest"
    using readAll_reads [of ?s2 evs' "[]" missing rest "length missing"] assms(6,10) by auto
  then have "readPacketData ?s2 = Some (Ok (), ?s2\<lparr>reader := evs2,
      remainingBytes := 0, lastPacket := data_frame (Context s) fl d\<rparr>)"
    using assms(9) m by (simp add: readPacketData_def gseq_def gupd_def assms(7))
  with r1 r2 show ?thesis by (intro exI [of _ ?s2] exI conjI) auto
qed

theorem readPacketData_resumes_witness:
  "\<exists>s1 s2. readPacketData ((sample_session [])\<lparr>reader :=
      [Chunk [0, 13, 0, 0, 6, 0, 0, 0] None, Chunk [0, 0, 1] (Some (NetError 7)), Chunk [2, 3, 9] None]\<rparr>)
      = Some (Err (NetError 7), s1)
    \<and> readPacketData s1 = Some (Ok (), s2) \<and> lastPacket s2 = [0, 13, 0, 0, 6, 0, 0, 0, 0, 0, 1, 2, 3]
    \<and> stream (reader s2) = [9]"
proof -
  let ?s = "(sample_session [])\<lparr>reader :=
      [Chunk [0, 13, 0, 0, 6, 0, 0, 0] None, Chunk [0, 0, 1] (Some (NetError 7)), Chunk [2, 3, 9] None]\<rparr>"
  have "opened ?s" "remainingBytes ?s \<le> 0" "fits_length (Context ?s) (length [1, 2, 3 :: byte] + 10)"
    and f: "data_frame (Context ?s) 0 [1, 2, 3] = [0, 13, 0, 0, 6, 0, 0, 0, 0, 0, 1, 2, 3]"
    by (simp_all add: sample_session_def NewSession_def opened_def fits_length_def wide_length_def
        NewSessionContext_def zero_context_def data_frame_def header8_def be_enc_numeral packet_types)
  from readPacketData_resumes [OF this(1-3), of "[Chunk [0, 13, 0, 0, 6, 0, 0, 0] None]" "[0, 0, 1]"
      "NetError 7" "[Chunk [2, 3, 9] None]" 0 "[2, 3]" "[9]"]
  show ?thesis using f by (auto simp: clean_def stream_def)
qed

text \<open>
  A read interrupted inside the header is not resumed correctly: the next call of
  \<^verbatim>\<open>readPacketData\<close> completes the eight bytes of the header and returns them as a whole packet, without
  an error; the body stays in the stream, where it is taken for the header of the next packet.
\<close>

theorem readPacketData_header_interrupted:
  fixes s :: "'n session"
  assumes "opened s" and "remainingBytes s \<le> 0"
    and "reader s = evs @ Chunk bs (Some e) # evs'" and "clean evs" and "clean evs'"
    and "h = stream evs @ bs @ missing" and "length h = 8" and "stream evs @ bs \<noteq> []"
    and "missing \<noteq> []" and "stream evs' = missing @ body"
  shows "\<exists>s1 s2. readPacketData s = Some (Err e, s1) \<and> readPacketData s1 = Some (Ok (), s2)
    \<and> lastPacket s2 = h \<and> stream (reader s2) = body"
proof -
  let ?s1 = "s\<lparr>reader := evs', remainingBytes := int (length missing), lastPacket := stream evs @ bs\<rparr>"
  have l: "length (stream evs @ bs) + length missing = 8" using assms(6,7) by simp
  then have n: "length missing \<noteq> 8" using assms(8) by (cases "stream evs @ bs") auto
  have "readAll 8 (s\<lparr>lastPacket := []\<rparr>) = Some (Err e, ?s1)"
    using readAll_interrupted [of "s\<lparr>lastPacket := []\<rparr>" evs bs e evs' 8 "length missing"]
      assms(1,3,4,9) l by (simp add: opened_def)
  then have r1: "readPacketData s = Some (Err e, ?s1)"
    using assms(2) n by (simp add: readPacketData_def gseq_def read_head_def)
  have "opened ?s1" using assms(1) by (simp add: opened_def)
  then obtain evs2 where r2: "readAll (length missing) ?s1 = Some (Ok (), ?s1\<lparr>reader := evs2,
      remainingBytes := 0, lastPacket := (stream evs @ bs) @ missing\<rparr>)" "stream evs2 = body"
    using readAll_reads [of ?s1 evs' "[]" missing body "length missing"] assms(5,10) by auto
  then have "readPacketData ?s1 = Some (Ok (), ?s1\<lparr>reader := evs2, remainingBytes := 0, lastPacket := h\<rparr>)"
    using assms(6,9) by (simp add: readPacketData_def gseq_def gupd_def)
  with r1 r2(2) show ?thesis by (intro exI [of _ ?s1] exI conjI) auto
qed

theorem readPacketData_header_interrupted_witness:
  "\<exists>s1 s2. readPacketData ((sample_session [])\<lparr>reader :=
      [Chunk [0, 13] (Some (NetError 7)), Chunk [0, 0, 6, 0, 0, 0, 0, 0, 1, 2, 3] None]\<rparr>)
      = Some (Err (NetError 7), s1)
    \<and> readPacketData s1 = Some (Ok (), s2) \<and> lastPacket s2 = [0, 13, 0, 0, 6, 0, 0, 0]
    \<and> stream (reader s2) = [0, 0, 1, 2, 3]"
  by (rule readPacketData_header_interrupted [where evs = "[]" and bs = "[0, 13]"
        and evs' = "[Chunk [0, 0, 6, 0, 0, 0, 0, 0, 1, 2, 3] None]" and missing = "[0, 0, 6, 0, 0, 0]"])
     (simp_all add: sample_session_def NewSession_def opened_def clean_def stream_def)

section \<open>Writing with a session data unit of 64\<close>

lemma write_segments_0:
  fixes s :: "'n session"
  assumes "write_segments ops fl n k bs s = Some y"
  shows "\<not> (n = 0 \<and> bs \<noteq> [] \<and> writable s \<and> k < length (segments s))"
proof (rule write_segments.raw_induct [OF _ assms,
      where P = "\<lambda>ops fl n k bs s y. \<not> (n = 0 \<and> bs \<noteq> [] \<and> writable s \<and> k < length (segments s))"], goal_cases)
  case (1 f ops fl n k bs s y)
  show ?case
  proof
    assume a: "n = 0 \<and> bs \<noteq> [] \<and> writable s \<and> k < length (segments s)"
    define s1 where "s1 = s\<lparr>segments := (segments s)[k := []]\<rparr>"
    define s2 where "s2 = s1\<lparr>sendPcks := sendPcks s @ [SegmentPck (data_pck []) fl k],
        wire := wire s @ [data_frame (Context s) fl []]\<rparr>"
    have w1: "writable s1" "fits_length (Context s1) (length [] + 10)" "k < length (segments s1)"
        "segments s1 ! k = []"
      using a by (simp_all add: s1_def writable_def opened_def fits_length_def)
    have "writePacket (SegmentPck (data_pck []) fl k) s1 = Some (Ok (), s2)"
      using write_segment [OF w1] by (simp add: s1_def s2_def)
    then have "f ops fl n k bs s2 = Some y"
      using 1(2) a new_data_packet_plain [OF w1(1)] w1(1)
      by (simp add: gseq_def gupd_def gget_def write_or_reset_def gbind_def writable_def flip: s1_def)
    moreover have "writable s2" "k < length (segments s2)"
      using a by (simp_all add: s2_def s1_def writable_def opened_def)
    ultimately show False using 1(1) a by blast
  qed
qed

text \<open>
  With a session data unit of 64, a value the accept packet may carry, \<^verbatim>\<open>WriteRPC\<close> of a non-empty
  buffer never returns: the segment length is 0, and the loop keeps sending empty packets.
\<close>

theorem WriteRPC_never_returns:
  fixes s :: "'n session"
  assumes "writable s" and "outBuffer s \<noteq> []" and "SessionDataUnit (Context s) = 64"
  shows "WriteRPC ops start stop s = None"
proof -
  define s0 where "s0 = s\<lparr>segments := segments s @ [[]]\<rparr>"
  have "writable s0" "length (segments s) < length (segments s0)"
    using assms(1) by (simp_all add: s0_def writable_def opened_def)
  then have "write_segments ops (rpc_flag start stop) 0 (length (segments s)) (outBuffer s) s0 = None"
    using write_segments_0 [of ops "rpc_flag start stop" 0 "length (segments s)" "outBuffer s" s0] assms(2)
    by (cases "write_segments ops (rpc_flag start stop) 0 (length (segments s)) (outBuffer s) s0") auto
  then show ?thesis
    using assms(2,3) by (simp add: WriteRPC_def Let_def gseq_def gupd_def gbind_def s0_def)
qed

theorem WriteRPC_never_returns_witness:
  "WriteRPC plain_ops False False ((sample_session [1])\<lparr>Context :=
     (NewSessionContext sample_config)\<lparr>SessionDataUnit := 64\<rparr>\<rparr>) = None"
  by (rule WriteRPC_never_returns)
     (simp_all add: sample_session_def NewSession_def writable_def opened_def NewSessionContext_def zero_context_def)

section \<open>Resending\<close>

lemma resend_step:
  fixes s :: "'n session"
  assumes "writable s" and "pck_bytes s pck = Ok bs"
  shows "resend (pck # pcks) s = resend pcks (s\<lparr>wire := wire s @ [bs]\<rparr>)"
  using assms by (auto simp: gseq_def initWrite_def lift_res_def conn_write_def writable_def opened_def gbind_def)

lemma resend_segments:
  fixes s :: "'n session"
  assumes "writable s" and "k < length (segments s)" and "segments s ! k = c"
    and "\<forall>x \<in> set cs. length x = length c" and "fits_length (Context s) (length c + 10)"
  shows "resend (map (\<lambda>x. SegmentPck (data_pck x) fl k) cs) s
    = Some (Ok (), s\<lparr>wire := wire s @ map (\<lambda>_. data_frame (Context s) fl c) cs\<rparr>)"
  using assms
proof (induction cs arbitrary: s)
  case (Cons x cs)
  let ?s = "s\<lparr>wire := wire s @ [data_frame (Context s) fl c]\<rparr>"
  have "data_pck x = data_pck c" using Cons.prems(4) by (simp add: data_pck_def)
  then have "pck_bytes s (SegmentPck (data_pck x) fl k) = Ok (data_frame (Context s) fl c)"
    using Cons.prems(2,3) DataPacket_bytes_frame [OF Cons.prems(5)] by (simp add: pck_bytes_def data_pck_def)
  then have "resend (map (\<lambda>x. SegmentPck (data_pck x) fl k) (x # cs)) s
      = resend (map (\<lambda>x. SegmentPck (data_pck x) fl k) cs) ?s"
    using resend_step [OF Cons.prems(1)] by (simp del: resend.simps)
  also have "\<dots> = Some (Ok (), ?s\<lparr>wire := wire ?s @ map (\<lambda>_. data_frame (Context ?s) fl c) cs\<rparr>)"
    using Cons.prems by (intro Cons.IH) (simp_all add: writable_def opened_def)
  finally show ?case by simp
qed (simp add: gret_def)

text \<open>
  C33. What a resend request gets: after the loop of \<^verbatim>\<open>WriteRPC\<close> has cut the output into segments, all
  the packets kept for resending hold the same slice, so that resending them puts the last segment on
  the wire as many times as there were segments, instead of the segments sent before.
\<close>

theorem resend_repeats_last_segment:
  fixes s :: "'n session"
  assumes "0 < n" and "fits_length (Context s) (n + 10)" and "writable s" and "k < length (segments s)"
    and "sendPcks s = []" and "n < length bs"
  shows "\<exists>cs rest s1 s2. write_segments ops fl n k bs s = Some (Ok rest, s1) \<and> bs = concat cs @ rest
    \<and> (\<forall>c \<in> set cs. length c = n) \<and> length rest \<le> n \<and> rest \<noteq> []
    \<and> wire s1 = wire s @ map (data_frame (Context s) fl) cs
    \<and> resend (sendPcks s1) s1 = Some (Ok (), s2)
    \<and> wire s2 = wire s1 @ replicate (length cs) (data_frame (Context s) fl (last cs))"
proof -
  obtain cs rest s1 where w: "write_segments ops fl n k bs s = Some (Ok rest, s1)"
      and st: "sent_segments n fl k bs s cs rest s1"
    using write_segments_sends [OF assms(1-4)] by blast
  have cs: "cs \<noteq> []" "rest \<noteq> []" using st assms(6) by (auto simp: sent_segments_def)
  have "last cs \<in> set cs" using cs by simp
  then have l: "length (last cs) = n" "\<forall>x \<in> set cs. length x = length (last cs)"
    using st by (auto simp: sent_segments_def)
  have r: "writable s1" "k < length (segments s1)" "segments s1 ! k = last cs" "Context s1 = Context s"
      "fits_length (Context s1) (length (last cs) + 10)"
    using st cs assms(2,4) l(1) by (simp_all add: sent_segments_def)
  have "sendPcks s1 = map (\<lambda>c. SegmentPck (data_pck c) fl k) cs"
    using st assms(5) by (simp add: sent_segments_def)
  then have "resend (sendPcks s1) s1
      = Some (Ok (), s1\<lparr>wire := wire s1 @ map (\<lambda>_. data_frame (Context s1) fl (last cs)) cs\<rparr>)"
    using resend_segments [OF r(1-3) l(2) r(5)] by simp
  then show ?thesis
    using w st cs(2) r(4) by (intro exI [of _ cs] exI [of _ rest] exI [of _ s1] exI conjI)
      (auto simp: sent_segments_def map_replicate_const)
qed

theorem resend_repeats_last_segment_witness:
  "\<exists>s1 s2. write_segments plain_ops 0 1 0 [1, 2, 3] ((sample_session [])\<lparr>segments := [[0]]\<rparr>) = Some (Ok [3], s1)
    \<and> wire s1 = map (data_frame (Context (sample_session [])) 0) [[1], [2]]
    \<and> resend (sendPcks s1) s1 = Some (Ok (), s2)
    \<and> wire s2 = wire s1 @ map (data_frame (Context (sample_session [])) 0) [[2], [2]]"
proof -
  let ?s = "(sample_session [])\<lparr>segments := [[0]]\<rparr>" and ?c = "Context (sample_session [])"
  have p: "fits_length (Context ?s) (1 + 10)" "writable ?s" "0 < length (segments ?s)" "sendPcks ?s = []" "wire ?s = []"
    by (simp_all add: sample_session_def NewSession_def writable_def opened_def NewSessionContext_def
        zero_context_def fits_length_def wide_length_def)
  obtain cs rest s1 s2 where r: "write_segments plain_ops 0 1 0 [1, 2, 3] ?s = Some (Ok rest, s1)"
      "[1, 2, 3] = concat cs @ rest" "\<forall>c \<in> set cs. length c = 1" "length rest \<le> 1" "rest \<noteq> []"
      "wire s1 = map (data_frame ?c 0) cs" "resend (sendPcks s1) s1 = Some (Ok (), s2)"
      "wire s2 = wire s1 @ replicate (length cs) (data_frame ?c 0 (last cs))"
    using resend_repeats_last_segment [OF zero_less_one p(1-4), of "[1, 2, 3]" plain_ops 0] p(5) by auto
  obtain x where x: "rest = [x]" using r(4,5) by (cases rest) auto
  then have x3: "x = 3" "concat cs = [1, 2]"
    using r(2) butlast_snoc [of "concat cs" x] last_snoc [of "concat cs" x] by (simp_all flip: r(2))
  have "cs = map (\<lambda>x. [x]) (concat cs)"
    using r(3) by (induction cs) (auto simp: length_Suc_conv)
  then have cs: "cs = [[1], [2]]" unfolding x3(2) by simp
  show ?thesis
    using r(1,6-8) unfolding x x3(1) cs by (intro exI [of _ s1] exI [of _ s2]) simp
qed

end
