(* ===== verification/Go_Strconv.thy ===== *)
theory Go_Strconv
  imports Go_Prelude
begin

text \<open>
  The decimal conversions of the package \<^verbatim>\<open>strconv\<close> on ASCII byte strings: \<open>FormatInt\<close> and
  \<open>FormatUint\<close> in base 10, and \<open>ParseInt\<close>, \<open>ParseUint\<close> and \<open>Atoi\<close> with their range checks. Their
  two errors, bad syntax and value out of range, are one error value here.
\<close>

section \<open>Definitions\<close>

fun dec_digits :: "nat \<Rightarrow> byte list" where
  "dec_digits n = (if n < 10 then [48 + of_nat n] else dec_digits (n div 10) @ [48 + of_nat (n mod 10)])"

declare dec_digits.simps [simp del]

definition FormatInt :: "int \<Rightarrow> byte list" where
  "FormatInt x = (if x < 0 then 45 # dec_digits (nat (- x)) else dec_digits (nat x))"

definition FormatUint :: "u64 \<Rightarrow> byte list" where
  "FormatUint x = dec_digits (unat x)"

definition is_digit :: "byte \<Rightarrow> bool" where
  "is_digit b \<longleftrightarrow> 48 \<le> b \<and> b \<le> 57"

definition dec_val :: "byte list \<Rightarrow> nat" where
  "dec_val bs = foldl (\<lambda>a b. 10 * a + unat (b - 48)) 0 bs"

definition ParseUint :: "byte list \<Rightarrow> nat \<Rightarrow> nat res" where
  "ParseUint s bits = (if s = [] \<or> \<not> list_all is_digit s \<or> 2 ^ bits \<le> dec_val s
     then Err (ParseError s) else Ok (dec_val s))"

definition ParseInt :: "byte list \<Rightarrow> nat \<Rightarrow> int res" where
  "ParseInt s bits =
     (let neg = (s \<noteq> [] \<and> hd s = 45); ds = (if s \<noteq> [] \<and> (hd s = 45 \<or> hd s = 43) then tl s else s)
      in if ds = [] \<or> \<not> list_all is_digit ds then Err (ParseError s)
         else if \<not> neg \<and> 2 ^ (bits - 1) \<le> dec_val ds then Err (ParseError s)
         else if neg \<and> 2 ^ (bits - 1) < dec_val ds then Err (ParseError s)
         else Ok (if neg then - int (dec_val ds) else int (dec_val ds)))"

definition Atoi :: "byte list \<Rightarrow> int res" where
  "Atoi s = ParseInt s 64"

text \<open>A literal as its ASCII bytes.\<close>

definition ascii :: "string \<Rightarrow> byte list" where
  "ascii s = map of_char s"

definition to_upper_byte :: "byte \<Rightarrow> byte" where
  "to_upper_byte b = (if 97 \<le> b \<and> b \<le> 122 then b - 32 else b)"

definition to_upper :: "byte list \<Rightarrow> byte list" where
  "to_upper = map to_upper_byte"

lemma ascii_append: "ascii (v @ w) = ascii v @ ascii w"
  by (simp add: ascii_def)

section \<open>Digits\<close>

lemma dec_val_Nil [simp]: "dec_val [] = 0"
  by (simp add: dec_val_def)

lemma dec_val_snoc [simp]: "dec_val (bs @ [b]) = 10 * dec_val bs + unat (b - 48)"
  by (simp add: dec_val_def)

lemma dec_val_append: "dec_val (xs @ ys) = dec_val xs * 10 ^ length ys + dec_val ys"
proof (induction ys rule: rev_induct)
  case (snoc y ys)
  have "dec_val (xs @ ys @ [y]) = 10 * dec_val (xs @ ys) + unat (y - 48)"
    using dec_val_snoc [of "xs @ ys" y] by simp
  with snoc show ?case by (simp add: algebra_simps)
qed simp

lemma dec_val_Cons: "dec_val (b # bs) = unat (b - 48) * 10 ^ length bs + dec_val bs"
  using dec_val_append [of "[b]" bs] dec_val_snoc [of "[]" b] by simp

lemma dec_val_zeros [simp]: "dec_val (replicate k 48) = 0"
  by (induction k) (simp_all add: dec_val_Cons)

text \<open>A digit is \<open>48\<close> plus a number below ten.\<close>

lemma digit_word [simp]: "n < 10 \<Longrightarrow> unat (48 + of_nat n :: byte) = 48 + n"
  using unat_of_nat_byte [of "48 + n"] by simp

lemma is_digit_iff: "is_digit b \<longleftrightarrow> (\<exists>n < 10. b = 48 + of_nat n)"
proof
  assume "is_digit b"
  then have "48 \<le> unat b" "unat b \<le> 57" by (simp_all add: is_digit_def word_le_nat_alt)
  then have "unat b - 48 < 10" "b = 48 + of_nat (unat b - 48)" by (simp_all add: word_unat_eq_iff)
  then show "\<exists>n < 10. b = 48 + of_nat n" by blast
qed (auto simp: is_digit_def word_le_nat_alt)

lemma digit_sub [simp]: "n < 10 \<Longrightarrow> unat (of_nat n :: byte) = n"
  by (rule unat_of_nat_byte) simp

lemma is_digit_val: "is_digit b \<Longrightarrow> unat (b - 48) < 10"
  by (auto simp: is_digit_iff)

lemma dec_val_less: "list_all is_digit bs \<Longrightarrow> dec_val bs < 10 ^ length bs"
proof (induction bs rule: rev_induct)
  case (snoc b bs)
  then have "dec_val bs < 10 ^ length bs" "unat (b - 48) < 10" by (simp_all add: is_digit_val)
  then show ?case by simp
qed simp

lemma is_digitI [intro]: "n < 10 \<Longrightarrow> is_digit (48 + of_nat n)"
  by (auto simp: is_digit_iff)

lemma dec_digits_digits: "list_all is_digit (dec_digits n)"
proof (induction n rule: dec_digits.induct)
  case (1 n)
  then show ?case
    by (subst dec_digits.simps) auto
qed

lemma dec_val_digits [simp]: "dec_val (dec_digits n) = n"
proof (induction n rule: dec_digits.induct)
  case (1 n)
  show ?case
  proof (cases "n < 10")
    case True
    then show ?thesis using dec_val_Cons [of "48 + of_nat n" "[]"] by (subst dec_digits.simps) simp
  next
    case False
    with 1 show ?thesis by (subst dec_digits.simps) simp
  qed
qed

lemma dec_digits_not_Nil [simp]: "dec_digits n \<noteq> []"
  by (subst dec_digits.simps) simp

lemma dec_digits_snoc:
  assumes "d < 10" and "0 < n"
  shows "dec_digits (10 * n + d) = dec_digits n @ [48 + of_nat d]"
  using assms by (subst dec_digits.simps) simp

text \<open>A string of digits without a leading zero is the decimal representation of its value.\<close>

lemma dec_digits_val:
  assumes "list_all is_digit ds" and "ds \<noteq> []" and "hd ds \<noteq> 48"
  shows "dec_digits (dec_val ds) = ds \<and> 0 < dec_val ds"
  using assms
proof (induction ds rule: rev_induct)
  case (snoc d ds)
  obtain k where k: "k < 10" "d = 48 + of_nat k" using snoc.prems(1) by (auto simp: is_digit_iff)
  show ?case
  proof (cases "ds = []")
    case True
    then have "0 < k" using snoc.prems(3) k by (cases k) auto
    with True k show ?thesis using dec_val_snoc [of "[]" d] by (subst dec_digits.simps) simp
  next
    case False
    with snoc have "dec_digits (dec_val ds) = ds" "0 < dec_val ds" by simp_all
    with k show ?thesis using dec_digits_snoc [of k "dec_val ds"] by simp
  qed
qed simp

lemma hd_dec_digits:
  assumes "0 < n"
  shows "hd (dec_digits n) \<noteq> 48"
  using assms
proof (induction n rule: dec_digits.induct)
  case (1 n)
  show ?case
  proof (cases "n < 10")
    case True
    then have "unat (hd (dec_digits n)) = 48 + n" by (subst dec_digits.simps) simp
    with 1(2) show ?thesis by auto
  next
    case False
    with 1 show ?thesis by (subst dec_digits.simps) simp
  qed
qed

lemma length_dec_digits:
  assumes "n < 10 ^ k" and "0 < k"
  shows "length (dec_digits n) \<le> k"
  using assms
proof (induction n arbitrary: k rule: dec_digits.induct)
  case (1 n)
  show ?case
  proof (cases "n < 10")
    case True
    with 1(3) show ?thesis by (subst dec_digits.simps) simp
  next
    case False
    then obtain j where j: "k = Suc j" "0 < j" using 1(2,3) by (cases k; cases "k - 1") auto
    then have "n div 10 < 10 ^ j" using 1(2) by (simp add: less_mult_imp_div_less mult.commute)
    then have "length (dec_digits (n div 10)) \<le> j" using 1(1) False j(2) by blast
    with False j show ?thesis by (subst dec_digits.simps) simp
  qed
qed

lemma dec_digits_0 [simp]: "dec_digits 0 = [48]"
  by (subst dec_digits.simps) simp

section \<open>Parsing what was printed\<close>

lemma ParseUint_digits:
  "list_all is_digit ds \<Longrightarrow> ds \<noteq> [] \<Longrightarrow> dec_val ds < 2 ^ bits \<Longrightarrow> ParseUint ds bits = Ok (dec_val ds)"
  by (simp add: ParseUint_def)

lemma ParseInt_digits:
  assumes "list_all is_digit ds" and "ds \<noteq> []"
  shows "ParseInt ds bits = (if dec_val ds < 2 ^ (bits - 1) then Ok (int (dec_val ds)) else Err (ParseError ds))"
proof -
  have "hd ds \<noteq> 45" "hd ds \<noteq> 43" using assms by (cases ds; auto simp: is_digit_def)+
  with assms show ?thesis by (simp add: ParseInt_def)
qed

lemma ParseInt_FormatInt:
  assumes "- (2 ^ (bits - 1)) \<le> x" and "x < 2 ^ (bits - 1)"
  shows "ParseInt (FormatInt x) bits = Ok x"
proof (cases "x < 0")
  case True
  then have "nat (- x) \<le> 2 ^ (bits - 1)" using assms(1) by (simp add: nat_le_iff)
  with True show ?thesis by (simp add: ParseInt_def FormatInt_def dec_digits_digits)
next
  case False
  then have "nat x < 2 ^ (bits - 1)" using assms(2) by (simp add: nat_less_iff)
  with False show ?thesis
    by (simp add: FormatInt_def ParseInt_digits dec_digits_digits)
qed

end
