(* ===== verification/Oracle_Number.thy ===== *)
theory Oracle_Number
  imports Go_Strconv "HOL-Library.Signed_Division"
begin

text \<open>
  \<^verbatim>\<open>v3/types/number.go\<close>: the Oracle NUMBER, its base-100 wire format, and the binary float and double
  formats. Floating-point values are their IEEE bit patterns; the conversions of the Go library
  between them, integers and decimal text are a table of functions given as an argument.
\<close>

section \<open>Data\<close>

definition NUMBER :: u16 where "NUMBER = 2"
definition BDOUBLE :: u16 where "BDOUBLE = 22"
definition IBFLOAT :: u16 where "IBFLOAT = 100"
definition IBDOUBLE :: u16 where "IBDOUBLE = 101"

lemmas number_types = NUMBER_def BDOUBLE_def IBFLOAT_def IBDOUBLE_def

text \<open>\<^verbatim>\<open>Basic\<close>, the embedded struct, is all the state a number has.\<close>

record number =
  bValue :: nslice
  dataType :: u16

record float_ops =
  FormatFloat :: "u64 \<Rightarrow> byte list"         \<comment> \<open>\<open>strconv.FormatFloat(x, 'e', -1, 64)\<close>\<close>
  ParseFloat64 :: "byte list \<Rightarrow> u64 res"
  ParseFloat32 :: "byte list \<Rightarrow> u32 res"
  f64_of_int :: "int \<Rightarrow> u64"
  f32_of_int :: "int \<Rightarrow> u32"
  f32_of_f64 :: "u64 \<Rightarrow> u32"

definition Bytes :: "number \<Rightarrow> nslice" where
  "Bytes b = bValue b"

definition SetBytes :: "nslice \<Rightarrow> number \<Rightarrow> number" where
  "SetBytes input b = b\<lparr>bValue := input\<rparr>"

definition SetDataType :: "u16 \<Rightarrow> number \<Rightarrow> number" where
  "SetDataType dt b = (if dataType b = 0 then b\<lparr>dataType := dt\<rparr> else b)"

definition GetDataType :: "number \<Rightarrow> u16" where
  "GetDataType b = dataType b"

definition number_GetMaxLen :: "number \<Rightarrow> int" where
  "number_GetMaxLen n = (if dataType n = IBFLOAT then 4 else if dataType n = BDOUBLE then 8 else 0x16)"

definition isZero :: "byte list \<Rightarrow> bool" where
  "isZero b \<longleftrightarrow> b \<noteq> [] \<and> hd b = 0x80"

definition isPositive :: "byte list \<Rightarrow> bool" where
  "isPositive b \<longleftrightarrow> b \<noteq> [] \<and> hd b AND 0x80 \<noteq> 0"

section \<open>The NUMBER format\<close>

definition strip_zeros :: "byte list \<Rightarrow> byte list" where
  "strip_zeros m = rev (dropWhile (\<lambda>c. c = 48) (rev m))"

definition digit_byte :: "bool \<Rightarrow> byte \<Rightarrow> byte" where
  "digit_byte negative b = (if negative then 100 - b else b) + 1"

text \<open>Two decimal digits a byte; an odd last digit counts tens.\<close>

fun digit_bytes :: "bool \<Rightarrow> byte list \<Rightarrow> byte list" where
  "digit_bytes negative [] = []"
| "digit_bytes negative [a] = [digit_byte negative (10 * (a - 48))]"
| "digit_bytes negative (a # b # m) = digit_byte negative (10 * (a - 48) + (b - 48)) # digit_bytes negative m"

text \<open>Go's \<open>/\<close> on \<open>int\<close> truncates towards zero.\<close>

definition exp_byte :: "int \<Rightarrow> bool \<Rightarrow> byte" where
  "exp_byte ex negative =
     (let ex = (if ex < 0 then ex - 1 else ex); ex = (ex sdiv 2) + 1
      in if negative then (word_of_int (ex + 64)) XOR 0x7F else (word_of_int (ex + 64)) OR 0x80)"

definition number_encode :: "byte list \<Rightarrow> int \<Rightarrow> bool \<Rightarrow> byte list" where
  "number_encode mantissa ex negative =
     (let mantissa = strip_zeros mantissa
      in if mantissa = [] then [0x80]
         else let mantissa = (if ex mod 2 = 0 then 48 # mantissa else mantissa)
              in exp_byte ex negative # digit_bytes negative mantissa
                 @ (if negative \<and> length mantissa < 21 then [0x66] else []))"

definition isNegInf :: "byte list \<Rightarrow> bool" where
  "isNegInf b \<longleftrightarrow> b = [0]"

definition isPosInf :: "byte list \<Rightarrow> bool" where
  "isPosInf b \<longleftrightarrow> b = [255, 101]"

definition digit_chars :: "bool \<Rightarrow> byte \<Rightarrow> byte list" where
  "digit_chars negative d =
     (let d = d - 1; d = (if negative then 100 - d else d) in [d div 10 + 48, d mod 10 + 48])"

definition Infinity :: "byte list" where
  "Infinity = [73, 110, 102, 105, 110, 105, 116, 121]"

definition number_decode :: "byte list \<Rightarrow> (byte list \<times> int \<times> bool) res" where
  "number_decode b =
     (if b = [] then Err InvalidNumber
      else if isZero b then Ok ([48], 0, False)
      else let negative = (hd b AND 0x80 = 0);
               ex = uint (if negative then hd b XOR 0x7F else hd b AND 0x7F) - 64
           in if isPosInf b \<or> isNegInf b then Ok (Infinity, 0, negative)
              else let buf = tl b
                   in if buf = [] then Err InvalidNumber
                      else let buf = (if negative \<and> last buf = 0x66 then butlast buf else buf);
                               output = concat (map (digit_chars negative) buf)
                           in Ok (output, ex * 2 - int (length output), negative))"

section \<open>Reading a NUMBER\<close>

text \<open>The loop that multiplies by ten while \<open>exp > 0\<close>, in 64-bit arithmetic.\<close>

definition times10_i64 :: "int \<Rightarrow> int \<Rightarrow> int" where
  "times10_i64 ex m = ((\<lambda>m. to_i64 (m * 10)) ^^ nat ex) m"

definition times10_u64 :: "int \<Rightarrow> u64 \<Rightarrow> u64" where
  "times10_u64 ex m = ((\<lambda>m. m * 10) ^^ nat ex) m"

definition number_Int64 :: "number \<Rightarrow> int res" where
  "number_Int64 n = rbind (number_decode (slice_bytes (bValue n))) (\<lambda>(strNum, ex, negative).
     rbind (ParseInt strNum 64) (\<lambda>mantissa.
       let mantissa = times10_i64 ex mantissa
       in Ok (if negative \<and> mantissa \<ge> 0 then - mantissa else mantissa)))"

definition number_Uint64 :: "number \<Rightarrow> u64 res" where
  "number_Uint64 n = rbind (number_decode (slice_bytes (bValue n))) (\<lambda>(strNum, ex, _).
     rbind (ParseUint strNum 64) (\<lambda>mantissa. Ok (times10_u64 ex (of_nat mantissa))))"

text \<open>\<open>strNum[0]\<close> panics on the empty string.\<close>

definition place_point :: "byte list \<Rightarrow> int \<Rightarrow> byte list" where
  "place_point strNum ex =
     (if ex > 0 then strNum @ replicate (nat ex) 48
      else if ex < 0
      then let pos = int (length strNum) + ex;
               strNum = (if pos < 0 then replicate (nat (- pos)) 48 @ strNum else strNum);
               pos = nat (if pos < 0 then 0 else pos)
           in strip_zeros (take pos strNum @ [46] @ drop pos strNum)
      else strNum)"

definition number_String :: "number \<Rightarrow> byte list res" where
  "number_String n = rbind (number_decode (slice_bytes (bValue n))) (\<lambda>(strNum, ex, negative).
     let strNum = (if length strNum > 1 then dropWhile (\<lambda>c. c = 48) strNum else strNum);
         strNum = place_point strNum ex
     in if strNum = [] then Panic
        else let strNum = (if hd strNum = 46 then 48 # strNum else strNum)
             in Ok (if negative then 45 # strNum else strNum))"

section \<open>Binary floats\<close>

definition xorBuffer :: "byte list \<Rightarrow> nat \<Rightarrow> byte list" where
  "xorBuffer buffer len = map (\<lambda>b. NOT b) (take len buffer) @ drop len buffer"

text \<open>The sign test \<open>input > 0\<close> on bit patterns: neither zero, nor negative, nor a NaN.\<close>

definition f64_positive :: "u64 \<Rightarrow> bool" where
  "f64_positive w \<longleftrightarrow> 0 < w \<and> w \<le> 0x7FF0000000000000"

definition f32_positive :: "u32 \<Rightarrow> bool" where
  "f32_positive w \<longleftrightarrow> 0 < w \<and> w \<le> 0x7F800000"

definition f64_is_zero :: "u64 \<Rightarrow> bool" where
  "f64_is_zero w \<longleftrightarrow> w = 0 \<or> w = 0x8000000000000000"

definition encodeFloat64 :: "u64 \<Rightarrow> number \<Rightarrow> number" where
  "encodeFloat64 input n =
     (let b = be_enc 8 (unat input)
      in n\<lparr>bValue := Some (if f64_positive input then (hd b OR 128) # tl b else xorBuffer b 8),
           dataType := IBDOUBLE\<rparr>)"

definition encodeFloat32 :: "u32 \<Rightarrow> number \<Rightarrow> number" where
  "encodeFloat32 input n =
     (let b = be_enc 4 (unat input)
      in n\<lparr>bValue := Some (if f32_positive input then (hd b OR 128) # tl b else xorBuffer b 4),
           dataType := IBFLOAT\<rparr>)"

text \<open>Decoding works in place: it changes the bytes of the number.\<close>

definition decodeDouble :: "number \<Rightarrow> u64 res \<times> number" where
  "decodeDouble n =
     (let b = slice_bytes (bValue n)
      in if length b < 8 then (Err (ShortBuffer (length b) 8), n)
         else let b = (if hd b AND 128 \<noteq> 0 then (hd b AND 127) # tl b else xorBuffer b 8)
              in (Ok (of_nat (be_dec (take 8 b))), n\<lparr>bValue := Some b\<rparr>))"

definition decodeFloat :: "number \<Rightarrow> u32 res \<times> number" where
  "decodeFloat n =
     (let b = slice_bytes (bValue n)
      in if length b < 4 then (Err (ShortBuffer (length b) 4), n)
         else let b = (if hd b AND 128 \<noteq> 0 then (hd b AND 127) # tl b else xorBuffer b 4)
              in (Ok (of_nat (be_dec (take 4 b))), n\<lparr>bValue := Some b\<rparr>))"

datatype num_value = NilV | DoubleV u64 | FloatV u32 | TextV "byte list"

definition res_map :: "('a \<Rightarrow> 'b) \<Rightarrow> 'a res \<Rightarrow> 'b res" where
  "res_map f r = rbind r (\<lambda>a. Ok (f a))"

definition number_Value :: "number \<Rightarrow> num_value res \<times> number" where
  "number_Value n =
     (if slice_bytes (bValue n) = [] then (Ok NilV, n)
      else if dataType n = IBDOUBLE then (case decodeDouble n of (r, n') \<Rightarrow> (res_map DoubleV r, n'))
      else if dataType n = IBFLOAT then (case decodeFloat n of (r, n') \<Rightarrow> (res_map FloatV r, n'))
      else (res_map TextV (number_String n), n))"

definition NewBinaryDouble :: "u64 \<Rightarrow> number" where
  "NewBinaryDouble x = encodeFloat64 x \<lparr>bValue = None, dataType = 0\<rparr>"

definition NewBinaryFloat :: "u32 \<Rightarrow> number" where
  "NewBinaryFloat x = encodeFloat32 x \<lparr>bValue = None, dataType = 0\<rparr>"

section \<open>Writing a NUMBER\<close>

definition split_sign :: "byte list \<Rightarrow> bool \<times> byte list" where
  "split_sign m = (if hd m = 45 then (True, tl m) else (False, m))"

definition encodeInt :: "int \<Rightarrow> number \<Rightarrow> number" where
  "encodeInt input n = (case split_sign (FormatInt input) of (negative, mantissa) \<Rightarrow>
     n\<lparr>bValue := Some (number_encode mantissa (int (length mantissa) - 1) negative)\<rparr>)"

definition encodeUint :: "u64 \<Rightarrow> number \<Rightarrow> number" where
  "encodeUint input n = (let mantissa = FormatUint input
     in n\<lparr>bValue := Some (number_encode mantissa (int (length mantissa) - 1) False)\<rparr>)"

text \<open>\<open>bytes.Index(m, []byte{c})\<close>: the parts before and behind the first occurrence.\<close>

definition cut_at :: "byte \<Rightarrow> byte list \<Rightarrow> (byte list \<times> byte list) option" where
  "cut_at c m = (let pre = takeWhile (\<lambda>x. x \<noteq> c) m
     in if length pre < length m then Some (pre, drop (Suc (length pre)) m) else None)"

definition cut_exponent :: "byte list \<Rightarrow> (int \<times> byte list) res" where
  "cut_exponent m = (case cut_at 101 m of None \<Rightarrow> Ok (0, m)
     | Some (pre, post) \<Rightarrow> rbind (Atoi post) (\<lambda>ex. Ok (ex, pre)))"

definition encodeFloat :: "float_ops \<Rightarrow> u64 \<Rightarrow> number \<Rightarrow> unit res \<times> number" where
  "encodeFloat fo input n =
     (if f64_is_zero input then (Ok (), n\<lparr>bValue := Some [128]\<rparr>)
      else case cut_exponent (FormatFloat fo input) of
        Ok (ex, mantissa) \<Rightarrow>
          if mantissa = [] then (Panic, n)
          else (case split_sign mantissa of (negative, mantissa) \<Rightarrow>
            let mantissa = (case cut_at 46 mantissa of None \<Rightarrow> mantissa | Some (a, b) \<Rightarrow> a @ b)
            in (Ok (), n\<lparr>bValue := Some (number_encode mantissa ex negative)\<rparr>))
      | Err e \<Rightarrow> (Err e, n) | Panic \<Rightarrow> (Panic, n))"

definition encodeString :: "byte list \<Rightarrow> number \<Rightarrow> unit res \<times> number" where
  "encodeString input n =
     (if input = [] then (Panic, n)
      else case split_sign input of (negative, mantissa) \<Rightarrow>
        (case cut_exponent mantissa of
           Ok (ex, mantissa) \<Rightarrow>
             (case cut_at 46 mantissa of
                Some (a, b) \<Rightarrow> (Ok (), n\<lparr>bValue := Some (number_encode (a @ b)
                                  (to_i64 (ex + int (length a) - 1)) negative)\<rparr>)
              | None \<Rightarrow> (Ok (), n\<lparr>bValue := Some (number_encode mantissa
                                  (to_i64 (ex + int (length mantissa) - 1)) negative)\<rparr>))
         | Err e \<Rightarrow> (Err e, n) | Panic \<Rightarrow> (Panic, n)))"

text \<open>The Go values \<open>SetValue\<close> accepts; the integer and float kinds arrive widened to 64 bits.\<close>

datatype num_input =
    INil
  | INumber number
  | IInt int
  | IUint u64
  | IFloat u64
  | IString "byte list"
  | INullInt bool int
  | INullFloat64 bool u64
  | IOther

datatype temp_value = TInt int | TUint u64 | TFloat u64 | TString "byte list"

definition temp_value :: "num_input \<Rightarrow> temp_value option res" where
  "temp_value input = (case input of
     IInt i \<Rightarrow> Ok (Some (TInt i)) | IUint u \<Rightarrow> Ok (Some (TUint u)) | IFloat f \<Rightarrow> Ok (Some (TFloat f))
   | IString s \<Rightarrow> Ok (Some (TString s))
   | INullInt v i \<Rightarrow> Ok (if v then Some (TInt i) else None)
   | INullFloat64 v f \<Rightarrow> Ok (if v then Some (TFloat f) else None)
   | _ \<Rightarrow> Err UnsupportedType)"

definition set_temp :: "float_ops \<Rightarrow> temp_value \<Rightarrow> number \<Rightarrow> unit res \<times> number" where
  "set_temp fo tmp n = (case tmp of
     TInt i \<Rightarrow> if dataType n = IBFLOAT then (Ok (), encodeFloat32 (f32_of_int fo i) n)
       else if dataType n = IBDOUBLE then (Ok (), encodeFloat64 (f64_of_int fo i) n)
       else (Ok (), encodeInt i n)
   | TUint u \<Rightarrow> if dataType n = IBFLOAT then (Ok (), encodeFloat32 (f32_of_int fo (uint u)) n)
       else if dataType n = IBDOUBLE then (Ok (), encodeFloat64 (f64_of_int fo (uint u)) n)
       else (Ok (), encodeUint u n)
   | TFloat f \<Rightarrow> if dataType n = IBFLOAT then (Ok (), encodeFloat32 (f32_of_f64 fo f) n)
       else if dataType n = IBDOUBLE then (Ok (), encodeFloat64 f n)
       else encodeFloat fo f n
   | TString s \<Rightarrow> if dataType n = IBFLOAT then
         (case ParseFloat64 fo s of Ok f \<Rightarrow> (Ok (), encodeFloat32 (f32_of_f64 fo f) n)
          | Err e \<Rightarrow> (Err e, n) | Panic \<Rightarrow> (Panic, n))
       else if dataType n = IBDOUBLE then
         (case ParseFloat64 fo s of Ok f \<Rightarrow> (Ok (), encodeFloat64 f n)
          | Err e \<Rightarrow> (Err e, n) | Panic \<Rightarrow> (Panic, n))
       else encodeString s n)"

text \<open>The deferred function gives a number without a type the type NUMBER.\<close>

definition default_type :: "number \<Rightarrow> number" where
  "default_type n = (if dataType n = 0 then n\<lparr>dataType := NUMBER\<rparr> else n)"

definition number_SetValue :: "float_ops \<Rightarrow> num_input \<Rightarrow> number \<Rightarrow> unit res \<times> number" where
  "number_SetValue fo input n =
     (let (r, n) =
        (case input of
           INil \<Rightarrow> (Ok (), n\<lparr>bValue := None\<rparr>)
         | INumber m \<Rightarrow> (Ok (), default_type m)
         | _ \<Rightarrow> (case temp_value input of
                  Ok None \<Rightarrow> (Ok (), n\<lparr>bValue := None\<rparr>)
                | Ok (Some tmp) \<Rightarrow> set_temp fo tmp n
                | Err e \<Rightarrow> (Err e, n) | Panic \<Rightarrow> (Panic, n)))
      in (r, default_type n))"

definition NewNumber :: "float_ops \<Rightarrow> num_input \<Rightarrow> unit res \<times> number" where
  "NewNumber fo input = number_SetValue fo input (SetDataType NUMBER \<lparr>bValue = None, dataType = 0\<rparr>)"

definition number_Scan :: "float_ops \<Rightarrow> num_input \<Rightarrow> number \<Rightarrow> unit res \<times> number" where
  "number_Scan fo input n = number_SetValue fo input (SetDataType NUMBER n)"

section \<open>Copying into a Go variable\<close>

datatype num_dest =
    NotPointer | PString | PInt nat | PUint nat | PFloat32 | PFloat64
  | PNullString | PNullByte | PNullInt64 | PNullFloat64 | PNumber | POther

datatype dest_value =
    SetString "byte list" | SetInt int | SetUint nat | SetFloat32 u32 | SetFloat64 u64
  | SetNullString "byte list" bool | SetNullByte nat bool | SetNullInt64 int bool
  | SetNullFloat64 u64 bool | SetNumber number | ZeroValue

fun zero_value :: "num_dest \<Rightarrow> dest_value" where
  "zero_value PString = SetString []"
| "zero_value (PInt _) = SetInt 0"
| "zero_value (PUint _) = SetUint 0"
| "zero_value PFloat32 = SetFloat32 0"
| "zero_value PFloat64 = SetFloat64 0"
| "zero_value PNullString = SetNullString [] False"
| "zero_value PNullByte = SetNullByte 0 False"
| "zero_value PNullInt64 = SetNullInt64 0 False"
| "zero_value PNullFloat64 = SetNullFloat64 0 False"
| "zero_value PNumber = SetNumber \<lparr>bValue = None, dataType = 0\<rparr>"
| "zero_value _ = ZeroValue"

text \<open>\<open>PInt bits\<close> is a pointer to a signed integer of that width, \<open>PUint bits\<close> to an unsigned one.\<close>

definition number_CopyTo :: "float_ops \<Rightarrow> number \<Rightarrow> num_dest \<Rightarrow> dest_value res" where
  "number_CopyTo fo n dest =
     (if dest = NotPointer then Err NotAPointer
      else if bValue n = None then Ok (zero_value dest)
      else rbind (number_String n) (\<lambda>strVal.
        case dest of
          PString \<Rightarrow> Ok (SetString strVal)
        | PInt bits \<Rightarrow> res_map SetInt (ParseInt strVal bits)
        | PUint bits \<Rightarrow> res_map SetUint (ParseUint strVal bits)
        | PFloat32 \<Rightarrow> res_map SetFloat32 (ParseFloat32 fo strVal)
        | PFloat64 \<Rightarrow> res_map SetFloat64 (ParseFloat64 fo strVal)
        | PNullString \<Rightarrow> Ok (SetNullString strVal True)
        | PNullByte \<Rightarrow> res_map (\<lambda>v. SetNullByte v True) (ParseUint strVal 8)
        | PNullInt64 \<Rightarrow> res_map (\<lambda>v. SetNullInt64 v True) (ParseInt strVal 64)
        | PNullFloat64 \<Rightarrow> res_map (\<lambda>v. SetNullFloat64 v True) (ParseFloat64 fo strVal)
        | PNumber \<Rightarrow> Ok (SetNumber n)
        | _ \<Rightarrow> Err UnsupportedType))"

end
