(* ===== verification/Oracle_Number_Props.thy ===== *)
theory Oracle_Number_Props
  imports Complex_Main Oracle_Number
begin

text \<open>
  Properties of the Oracle NUMBER: what a reader gets from the bytes a writer produced, for every
  mantissa, exponent and sign the format can hold; that integers and decimal fractions survive as
  text and as integers; and what the binary float and double formats keep and lose.
\<close>

section \<open>Digits\<close>

lemma strip_zeros_replicate: "\<exists>k. m = strip_zeros m @ replicate k 48"
proof -
  have "rev m = takeWhile (\<lambda>c. c = 48) (rev m) @ dropWhile (\<lambda>c. c = 48) (rev m)" by simp
  then have "m = strip_zeros m @ rev (takeWhile (\<lambda>c. c = 48) (rev m))"
    unfolding strip_zeros_def by (metis rev_append rev_rev_ident)
  moreover have "takeWhile (\<lambda>c. c = 48) (rev m) = replicate (length (takeWhile (\<lambda>c. c = 48) (rev m))) 48"
    by (rule replicate_length_same [symmetric]) (auto dest: set_takeWhileD)
  ultimately show ?thesis by (metis rev_replicate)
qed

lemma strip_zeros_last: "strip_zeros m \<noteq> [] \<Longrightarrow> last (strip_zeros m) \<noteq> 48"
  unfolding strip_zeros_def using hd_dropWhile [of "\<lambda>c. c = 48" "rev m"] by (simp add: last_rev)

lemma strip_zeros_id: "m = [] \<or> last m \<noteq> 48 \<Longrightarrow> strip_zeros m = m"
  unfolding strip_zeros_def by (cases m rule: rev_cases) auto

lemma strip_zeros_zeros [simp]: "strip_zeros (replicate k 48) = []"
  by (simp add: strip_zeros_def)

lemma dropWhile_zeros: "dropWhile (\<lambda>c. c = 48) (replicate k 48 @ xs) = dropWhile (\<lambda>c. c = 48) xs"
  by (induction k) simp_all

lemma strip_zeros_append_zeros [simp]: "strip_zeros (m @ replicate k 48) = strip_zeros m"
  by (simp add: strip_zeros_def dropWhile_zeros)

lemma div_of_nat_byte: "t < 256 \<Longrightarrow> (of_nat t :: byte) div 10 = of_nat (t div 10)"
  by (rule word_unat_eq_iff [THEN iffD2]) (simp add: unat_div_distrib unat_of_nat_byte)

lemma mod_of_nat_byte: "t < 256 \<Longrightarrow> (of_nat t :: byte) mod 10 = of_nat (t mod 10)"
  by (rule word_unat_eq_iff [THEN iffD2]) (simp add: unat_mod_distrib unat_of_nat_byte)

lemma digit_chars_byte:
  assumes "x < 10" and "y < 10"
  shows "digit_chars negative (digit_byte negative (of_nat (10 * x + y))) = [48 + of_nat x, 48 + of_nat y]"
proof -
  have t: "10 * x + y < 256" "(10 * x + y) div 10 = x" "(10 * x + y) mod 10 = y" using assms by simp_all
  have "digit_chars negative (digit_byte negative w) = [w div 10 + 48, w mod 10 + 48]" for w
    by (simp add: digit_chars_def digit_byte_def Let_def)
  from this [of "of_nat (10 * x + y)"] show ?thesis
    unfolding div_of_nat_byte [OF t(1)] mod_of_nat_byte [OF t(1)] t(2,3) by (simp only: add.commute [of 48])
qed

text \<open>The decimal digits come back, an odd number of them padded with a zero.\<close>

lemma digit_chars_bytes:
  assumes "list_all is_digit m"
  shows "concat (map (digit_chars negative) (digit_bytes negative m))
    = m @ (if odd (length m) then [48] else [])"
  using assms
proof (induction negative m rule: digit_bytes.induct)
  case (2 negative a)
  then obtain x where "x < 10" "a = 48 + of_nat x" by (auto simp: is_digit_iff)
  then show ?case using digit_chars_byte [of x 0 negative] by simp
next
  case (3 negative a b m)
  then obtain x y where "x < 10" "a = 48 + of_nat x" "y < 10" "b = 48 + of_nat y" by (auto simp: is_digit_iff)
  then show ?case using digit_chars_byte [of x y negative] 3 by simp
qed simp

lemma digit_bytes_range:
  assumes "list_all is_digit m" and "c \<in> set (digit_bytes negative m)"
  shows "\<exists>t < 100. c = digit_byte negative (of_nat t)"
  using assms
proof (induction negative m rule: digit_bytes.induct)
  case (2 negative a)
  then obtain x where "x < 10" "a = 48 + of_nat x" by (auto simp: is_digit_iff)
  with 2 show ?case by (auto intro!: exI [of _ "10 * x"])
next
  case (3 negative a b m)
  then obtain x y where "x < 10" "a = 48 + of_nat x" "y < 10" "b = 48 + of_nat y" by (auto simp: is_digit_iff)
  then have "digit_byte negative (10 * (a - 48) + (b - 48)) = digit_byte negative (of_nat (10 * x + y))"
      "10 * x + y < 100" by simp_all
  with 3 show ?case
    by (cases "c = digit_byte negative (10 * (a - 48) + (b - 48))") (metis, simp)
qed simp

lemma digit_byte_values:
  assumes "t < 100"
  shows "unat (digit_byte False (of_nat t)) = t + 1" and "unat (digit_byte True (of_nat t)) = 101 - t"
proof -
  have "(of_nat t + 1 :: byte) = of_nat (t + 1)" by simp
  with assms show "unat (digit_byte False (of_nat t)) = t + 1"
    by (simp add: digit_byte_def unat_of_nat_byte del: of_nat_add of_nat_Suc)
  have e: "digit_byte True (of_nat t) = of_nat (101 - t)" using assms by (simp add: digit_byte_def of_nat_diff)
  show "unat (digit_byte True (of_nat t)) = 101 - t"
    unfolding e by (rule unat_of_nat_byte) simp
qed

lemma digit_bytes_Nil_iff [simp]: "digit_bytes negative m = [] \<longleftrightarrow> m = []"
  by (cases "(negative, m)" rule: digit_bytes.cases) auto

section \<open>The exponent byte\<close>

definition exp_half :: "int \<Rightarrow> int" where
  "exp_half ex = (if even ex then ex + 2 else ex + 1) div 2"

lemma exp_half_sdiv: "((if ex < 0 then ex - 1 else ex) sdiv 2) + 1 = exp_half ex"
proof (cases "ex < 0")
  case True
  then have "(ex - 1) sdiv 2 = - ((1 - ex) div 2)" by (simp add: signed_divide_int_def)
  moreover have "- ((1 - ex) div 2) + 1 = exp_half ex"
    by (cases "even ex"; elim evenE oddE) (simp_all add: exp_half_def)
  ultimately show ?thesis using True by simp
next
  case False
  then show ?thesis
    by (cases "even ex"; elim evenE oddE) (auto simp: exp_half_def signed_divide_int_def sgn_if)
qed

lemma exp_byte_decode:
  fixes ex :: int and negative :: bool
  assumes "- 64 \<le> exp_half ex" and "exp_half ex < 64"
  defines "b \<equiv> exp_byte ex negative"
  shows "(b AND 0x80 = 0) = negative"
    and "uint (if negative then b XOR 0x7F else b AND 0x7F) - 64 = exp_half ex"
proof -
  define w where "w = (word_of_int (exp_half ex + 64) :: byte)"
  have w: "w AND 0x80 = 0" "w AND 0x7F = w" "uint w = exp_half ex + 64"
    using low_byte_bits [of "exp_half ex + 64"] assms(1,2) by (simp_all add: w_def)
  have b: "b = (if negative then w XOR 0x7F else w OR 0x80)"
    by (simp add: b_def exp_byte_def Let_def exp_half_sdiv w_def)
  show "(b AND 0x80 = 0) = negative"
    using w(1) by (auto simp: b bit.conj_disj_distrib2 bit.conj_xor_distrib2)
  show "uint (if negative then b XOR 0x7F else b AND 0x7F) - 64 = exp_half ex"
    using w by (auto simp: b bit.conj_disj_distrib2 xor.assoc)
qed

section \<open>Decoding what was encoded\<close>

text \<open>The digits as they are packed: a leading zero makes the exponent odd, a trailing one pads.\<close>

definition packed :: "byte list \<Rightarrow> int \<Rightarrow> byte list" where
  "packed m ex = (if even ex then 48 # m else m)"

definition pad :: "byte list \<Rightarrow> byte list" where
  "pad m = (if odd (length m) then [48] else [])"

lemma twice_exp_half: "exp_half ex * 2 = ex + 1 + (if even ex then 1 else 0)"
  by (cases "even ex"; elim evenE oddE) (simp_all add: exp_half_def)

lemma number_decode_encode_core:
  assumes "list_all is_digit m" and "strip_zeros m \<noteq> []" and "- 63 \<le> exp_half ex" and "exp_half ex < 64"
  defines "p \<equiv> packed (strip_zeros m) ex"
  shows "number_decode (number_encode m ex negative)
    = Ok (p @ pad p, ex + 1 - int (length (strip_zeros m)) - int (length (pad p)), negative)"
proof -
  let ?b = "exp_byte ex negative" and ?t = "if negative \<and> length p < 21 then [0x66] else []"
  have enc: "number_encode m ex negative = ?b # digit_bytes negative p @ ?t"
    using assms(2) by (simp add: number_encode_def Let_def p_def packed_def even_iff_mod_2_eq_zero)
  obtain k where k: "m = strip_zeros m @ replicate k 48" using strip_zeros_replicate by blast
  have "list_all is_digit (strip_zeros m)" using assms(1) k by (metis list_all_append)
  then have dig: "list_all is_digit p" by (simp add: p_def packed_def is_digit_def)
  have ne: "digit_bytes negative p \<noteq> []" using assms(2) by (simp add: p_def packed_def)
  note eb = exp_byte_decode [of ex negative]
  have notzero: "\<not> isZero (number_encode m ex negative)"
  proof
    assume "isZero (number_encode m ex negative)"
    then have z: "?b = 0x80" by (simp add: enc isZero_def)
    with eb assms(3,4) show False by (cases negative) auto
  qed
  have range: "\<exists>t < 100. x = digit_byte negative (of_nat t)" if "x \<in> set (digit_bytes negative p)" for x
    using digit_bytes_range [OF dig that] .
  have noinf: "\<not> isPosInf (number_encode m ex negative) \<and> \<not> isNegInf (number_encode m ex negative)"
  proof (intro conjI notI)
    assume "isPosInf (number_encode m ex negative)"
    then have i: "?b = 255" "digit_bytes negative p @ ?t = [101]" by (simp_all add: isPosInf_def enc)
    then have "\<not> negative" using eb(1) assms(3,4) by (cases negative) auto
    with i have "101 \<in> set (digit_bytes False p)" by simp
    with range [of 101] \<open>\<not> negative\<close> obtain t where t: "t < 100" "101 = digit_byte False (of_nat t)" by auto
    from arg_cong [OF t(2), of unat] digit_byte_values(1) [OF t(1)] t(1) show False by simp
  qed (use ne in \<open>simp add: isNegInf_def enc\<close>)
  have buf: "(if negative \<and> last (digit_bytes negative p @ ?t) = 0x66 then butlast (digit_bytes negative p @ ?t)
      else digit_bytes negative p @ ?t) = digit_bytes negative p"
  proof (cases "negative \<and> \<not> length p < 21")
    case True
    have "last (digit_bytes negative p) \<in> set (digit_bytes negative p)" using ne by simp
    with range [of "last (digit_bytes negative p)"] True obtain t where t: "t < 100" "last (digit_bytes True p) = digit_byte True (of_nat t)" by auto
    have "last (digit_bytes True p) \<noteq> 0x66"
    proof
      assume "last (digit_bytes True p) = 0x66"
      then have "unat (digit_byte True (of_nat t)) = 102" using t(2) by simp
      with digit_byte_values(2) [OF t(1)] show False by simp
    qed
    with True show ?thesis by simp
  qed auto
  have len: "exp_half ex * 2 - int (length (p @ pad p))
      = ex + 1 - int (length (strip_zeros m)) - int (length (pad p))"
    by (simp add: twice_exp_half p_def packed_def)
  define bs where "bs = number_encode m ex negative"
  have bs: "bs \<noteq> []" "tl bs \<noteq> []" "hd bs = ?b" "tl bs = digit_bytes negative p @ ?t"
    using ne by (simp_all add: bs_def enc)
  have "number_decode bs = Ok (concat (map (digit_chars negative) (digit_bytes negative p)),
      exp_half ex * 2 - int (length (concat (map (digit_chars negative) (digit_bytes negative p)))), negative)"
    unfolding number_decode_def Let_def
    using notzero [folded bs_def] noinf [folded bs_def] bs(1,2) eb assms(3,4) buf [folded bs(4)]
    by (cases negative) (simp_all add: bs(3) left_diff_distrib)
  then show ?thesis
    using digit_chars_bytes [OF dig, of negative] len by (simp add: pad_def flip: bs_def)
qed



lemma dec_val_0_iff:
  assumes "list_all is_digit m"
  shows "dec_val m = 0 \<longleftrightarrow> strip_zeros m = []"
proof -
  obtain k where k: "m = strip_zeros m @ replicate k 48" using strip_zeros_replicate by blast
  have "0 < dec_val (strip_zeros m)" if ne: "strip_zeros m \<noteq> []"
  proof -
    obtain x xs where x: "strip_zeros m = xs @ [x]" using ne by (metis rev_exhaust)
    have "list_all is_digit (xs @ [x])" using assms k x by (metis list_all_append)
    then have "x \<noteq> 48" "is_digit x" using strip_zeros_last [OF ne] by (simp_all add: x)
    then obtain d where d: "d < 10" "x = 48 + of_nat d" by (auto simp: is_digit_iff)
    with \<open>x \<noteq> 48\<close> have "0 < d" by (cases d) auto
    with d show ?thesis by (simp add: x)
  qed
  then show ?thesis
    using arg_cong [OF k, of dec_val] by (cases "strip_zeros m = []") (auto simp: dec_val_append)
qed



section \<open>Integers\<close>

lemma split_sign_FormatInt: "split_sign (FormatInt v) = (v < 0, dec_digits (nat \<bar>v\<bar>))"
proof -
  have "hd (dec_digits n) \<noteq> 45" for n
    using dec_digits_digits [of n] by (cases "dec_digits n") (auto simp: is_digit_def)
  then show ?thesis by (auto simp: split_sign_def FormatInt_def)
qed

text \<open>What the reader of an encoded positive integer sees.\<close>

lemma decode_encode_nat:
  assumes "0 < a" and "a < 10 ^ 20"
  defines "m \<equiv> dec_digits a" and "s \<equiv> strip_zeros (dec_digits a)"
  defines "ex \<equiv> int (length m) - 1"
  shows "\<exists>z k. m = s @ replicate (z + 2 * k) 48 \<and> z \<le> 1 \<and> s \<noteq> [] \<and> hd s \<noteq> 48
    \<and> number_decode (number_encode m ex negative)
        = Ok (packed s ex @ replicate z 48, 2 * int k, negative)"
proof -
  have d: "list_all is_digit m" unfolding m_def by (rule dec_digits_digits)
  obtain t where t: "m = s @ replicate t 48" unfolding m_def s_def using strip_zeros_replicate by blast
  have ne: "s \<noteq> []" using dec_val_0_iff [OF d] assms(1) by (simp add: m_def s_def)
  have hd: "hd s \<noteq> 48" using hd_dec_digits [OF assms(1)] t ne by (metis hd_append2 m_def)
  have len: "length m \<le> 20" "0 < length m" using length_dec_digits [OF assms(2)] by (simp_all add: m_def)
  have e: "- 63 \<le> exp_half ex" "exp_half ex < 64"
    using len by (auto simp: exp_half_def ex_def)
  have lt: "length m = length s + t" using t by (metis length_append length_replicate)
  have par: "odd (length (packed s ex)) = odd t"
    using lt len(2) by (auto simp: packed_def ex_def even_diff_nat)
  have "t = t mod 2 + 2 * (t div 2)" by simp
  then have m: "m = s @ replicate (t mod 2 + 2 * (t div 2)) 48" using t by simp
  have pad: "pad (packed s ex) = replicate (t mod 2) 48"
    using par by (auto simp: pad_def odd_iff_mod_2_eq_one even_iff_mod_2_eq_zero)
  have "ex + 1 - int (length s) - int (t mod 2) = 2 * int (t div 2)"
    using lt zmod_int [of t 2] zdiv_int [of t 2] by (simp add: ex_def minus_mod_eq_mult_div)
  then have "number_decode (number_encode m ex negative)
      = Ok (packed s ex @ replicate (t mod 2) 48, 2 * int (t div 2), negative)"
    using number_decode_encode_core [OF d _ e, of negative] ne pad by (simp add: m_def s_def)
  with m ne hd show ?thesis
    by (intro exI [of _ "t mod 2"] exI [of _ "t div 2"]) auto
qed

lemma digits_neq:
  assumes "list_all is_digit m" and "m \<noteq> []"
  shows "hd m \<noteq> 46" and "hd m \<noteq> 45"
  using assms by (cases m; auto simp: is_digit_def)+

lemma strip_zeros_digits: "list_all is_digit m \<Longrightarrow> list_all is_digit (strip_zeros m)"
  using strip_zeros_replicate [of m] by (metis list_all_append)

lemma number_String_nat:
  assumes "0 < a" and "a < 10 ^ 20"
    and "bValue n = Some (number_encode (dec_digits a) (int (length (dec_digits a)) - 1) negative)"
  shows "number_String n = Ok ((if negative then [45] else []) @ dec_digits a)"
proof -
  let ?m = "dec_digits a"
  define s where "s = strip_zeros ?m"
  define ex where "ex = int (length ?m) - 1"
  obtain z k where zk: "?m = s @ replicate (z + 2 * k) 48" "z \<le> 1" "s \<noteq> []" "hd s \<noteq> 48"
      and dec: "number_decode (number_encode ?m ex negative) = Ok (packed s ex @ replicate z 48, 2 * int k, negative)"
    using decode_encode_nat [OF assms(1,2), of negative] unfolding s_def ex_def by auto
  obtain c cs where s: "s = c # cs" "c \<noteq> 48" using zk(3,4) by (cases s) auto
  have trim: "(if length (packed s ex @ replicate z 48) > 1 then dropWhile (\<lambda>c. c = 48) (packed s ex @ replicate z 48)
      else packed s ex @ replicate z 48) = s @ replicate z 48"
    using s by (auto simp: packed_def)
  have "place_point (s @ replicate z 48) (2 * int k) = ?m"
    unfolding place_point_def zk(1) by (auto simp: replicate_add nat_mult_distrib)
  moreover have "hd ?m \<noteq> 46" using digits_neq(1) [OF dec_digits_digits] by simp
  ultimately show ?thesis
    using dec trim by (simp add: number_String_def slice_bytes_def assms(3) Let_def flip: ex_def)
qed

text \<open>
  Integers survive as text: the NUMBER that \<^verbatim>\<open>encodeInt\<close> writes for any 64-bit integer is read back
  by \<^verbatim>\<open>String\<close> as exactly its decimal representation.
\<close>

theorem number_String_encodeInt:
  assumes "- (2 ^ 63) \<le> v" and "v < 2 ^ 63"
  shows "number_String (encodeInt v n) = Ok (FormatInt v)"
proof (cases "v = 0")
  case True
  then show ?thesis
    by (simp add: encodeInt_def FormatInt_def split_sign_def number_encode_def strip_zeros_def number_String_def
        slice_bytes_def number_decode_def isZero_def place_point_def)
next
  case False
  have "nat \<bar>v\<bar> < 10 ^ 20" "0 < nat \<bar>v\<bar>" using assms False by auto
  moreover have "bValue (encodeInt v n) = Some (number_encode (dec_digits (nat \<bar>v\<bar>))
      (int (length (dec_digits (nat \<bar>v\<bar>))) - 1) (v < 0))"
    by (simp add: encodeInt_def split_sign_FormatInt)
  ultimately show ?thesis
    using number_String_nat [of "nat \<bar>v\<bar>" "encodeInt v n" "v < 0"] by (simp add: FormatInt_def)
qed

theorem number_String_encodeInt_witness:
  "number_String (encodeInt (-1200) \<lparr>bValue = None, dataType = NUMBER\<rparr>) = Ok (FormatInt (-1200))"
  by (rule number_String_encodeInt) simp_all

lemma dec_val_packed: "dec_val (packed s ex) = dec_val s"
  by (simp add: packed_def dec_val_Cons)

lemma times10_i64_exact:
  "0 \<le> m \<Longrightarrow> m * 10 ^ k < 2 ^ 63 \<Longrightarrow> times10_i64 (int k) m = m * 10 ^ k"
proof (induction k)
  case (Suc k)
  have "m * 10 ^ k \<le> m * 10 ^ Suc k" using Suc.prems(1) by (intro mult_left_mono) simp_all
  then have "m * 10 ^ k < 2 ^ 63" using Suc.prems(2) by linarith
  then have ih: "times10_i64 (int k) m = m * 10 ^ k" using Suc by simp
  have "times10_i64 (int (Suc k)) m = to_i64 (times10_i64 (int k) m * 10)"
    unfolding times10_i64_def nat_int by simp
  also have "\<dots> = m * 10 ^ k * 10"
  proof (unfold ih, rule to_i64_id)
    have "0 \<le> m * 10 ^ k * 10" using Suc.prems(1) by simp
    then show "- (2 ^ 63) \<le> m * 10 ^ k * 10" by (rule order_trans [rotated]) simp
    show "m * 10 ^ k * 10 < 2 ^ 63" using Suc.prems(2) by (simp add: mult.assoc)
  qed
  finally show ?case by simp
qed (simp add: times10_i64_def)

text \<open>
  Integers survive as integers, but for the smallest one: \<^verbatim>\<open>Int64\<close> of the NUMBER that \<^verbatim>\<open>encodeInt\<close>
  writes is the integer itself for every 64-bit integer except \<open>- (2 ^ 63)\<close>, whose digits \<^verbatim>\<open>ParseInt\<close>
  refuses because the sign is only applied after parsing.
\<close>

theorem number_Int64_encodeInt:
  assumes "- (2 ^ 63) \<le> v" and "v < 2 ^ 63"
  shows "if v = - (2 ^ 63) then \<exists>e. number_Int64 (encodeInt v n) = Err e
    else number_Int64 (encodeInt v n) = Ok v"
proof (cases "v = 0")
  case True
  then show ?thesis
    by (simp add: encodeInt_def FormatInt_def split_sign_def number_encode_def strip_zeros_def number_Int64_def
        slice_bytes_def number_decode_def isZero_def ParseInt_def is_digit_def dec_val_def times10_i64_def)
next
  case False
  define a where "a = nat \<bar>v\<bar>"
  let ?m = "dec_digits a"
  define s where "s = strip_zeros ?m"
  define ex where "ex = int (length ?m) - 1"
  have a: "0 < a" "a < 10 ^ 20" "int a = \<bar>v\<bar>" using assms False by (auto simp: a_def)
  obtain z k where zk: "?m = s @ replicate (z + 2 * k) 48" "z \<le> 1" "s \<noteq> []" "hd s \<noteq> 48"
      and dec: "number_decode (number_encode ?m ex (v < 0)) = Ok (packed s ex @ replicate z 48, 2 * int k, v < 0)"
    using decode_encode_nat [OF a(1,2), of "v < 0"] unfolding s_def ex_def by auto
  let ?out = "packed s ex @ replicate z 48"
  have val: "a = dec_val ?out * 10 ^ (2 * k)"
    using arg_cong [OF zk(1), of dec_val] by (simp add: dec_val_append dec_val_packed power_add)
  have dig: "list_all is_digit ?out" "?out \<noteq> []"
    using strip_zeros_digits [OF dec_digits_digits, of a] zk(3)
    by (auto simp: packed_def is_digit_def list_all_iff s_def)
  have n: "number_Int64 (encodeInt v n) = rbind (ParseInt ?out 64) (\<lambda>mantissa.
      let mantissa = times10_i64 (2 * int k) mantissa in Ok (if v < 0 \<and> mantissa \<ge> 0 then - mantissa else mantissa))"
    using dec by (simp add: number_Int64_def encodeInt_def split_sign_FormatInt slice_bytes_def ex_def flip: a_def)
  have p: "ParseInt ?out 64 = (if dec_val ?out < 2 ^ 63 then Ok (int (dec_val ?out)) else Err (ParseError ?out))"
    using ParseInt_digits [OF dig, of 64] by simp
  show ?thesis
  proof (cases "v = - (2 ^ 63)")
    case True
    then have am: "a = 2 ^ 63" using a(3) by simp
    have "k = 0"
    proof (rule ccontr)
      assume "k \<noteq> 0"
      then have "10 dvd a" unfolding val by (cases k) simp_all
      then show False by (simp add: am)
    qed
    then show ?thesis using True n p val am by simp
  next
    case F2: False
    then have lt: "int a < 2 ^ 63" using assms a(3) by auto
    have "dec_val ?out \<le> a" by (subst val) simp
    moreover have "a < 2 ^ 63" using lt by (metis of_nat_less_iff of_nat_numeral of_nat_power)
    ultimately have "dec_val ?out < 2 ^ 63" by (rule le_less_trans)
    moreover have "times10_i64 (int (2 * k)) (int (dec_val ?out)) = int a"
      using times10_i64_exact [of "int (dec_val ?out)" "2 * k"] lt arg_cong [OF val, of int] by simp
    ultimately show ?thesis using F2 n p a(3) by (auto simp: Let_def)
  qed
qed

theorem number_Int64_encodeInt_witness:
  "number_Int64 (encodeInt (-1200) \<lparr>bValue = None, dataType = NUMBER\<rparr>) = Ok (-1200)
   \<and> (\<exists>e. number_Int64 (encodeInt (-9223372036854775808) \<lparr>bValue = None, dataType = NUMBER\<rparr>) = Err e)"
  using number_Int64_encodeInt [of "-1200" "\<lparr>bValue = None, dataType = NUMBER\<rparr>"]
    number_Int64_encodeInt [of "-9223372036854775808" "\<lparr>bValue = None, dataType = NUMBER\<rparr>"] by simp

section \<open>Decimal fractions\<close>

lemma digits_not_in:
  assumes "list_all is_digit m"
  shows "46 \<notin> set m" and "101 \<notin> set m"
  using assms by (auto simp: list_all_iff is_digit_def)

lemma cut_at_append: "c \<notin> set a \<Longrightarrow> cut_at c (a @ c # b) = Some (a, b)"
proof -
  assume "c \<notin> set a"
  then have "takeWhile (\<lambda>x. x \<noteq> c) (a @ c # b) = a" by (subst takeWhile_append2) auto
  then show ?thesis by (simp add: cut_at_def Let_def)
qed

lemma cut_at_none: "c \<notin> set a \<Longrightarrow> cut_at c a = None"
proof -
  assume "c \<notin> set a"
  then have "takeWhile (\<lambda>x. x \<noteq> c) a = a" by (subst takeWhile_eq_all_conv) auto
  then show ?thesis unfolding cut_at_def Let_def by (simp only:) simp
qed

text \<open>
  Decimal fractions survive as text: a literal with an optional sign, digits without a leading zero,
  a point and digits without a trailing zero, with at most 100 digits before the point, is written by
  \<^verbatim>\<open>encodeString\<close> to a NUMBER that \<^verbatim>\<open>String\<close> reads back as the same text.
\<close>

theorem number_String_encodeString:
  assumes "list_all is_digit a" and "a \<noteq> []" and "hd a \<noteq> 48" and "length a \<le> 100"
    and "list_all is_digit b" and "b \<noteq> []" and "last b \<noteq> 48"
    and text_def: "text = (if negative then [45] else []) @ a @ [46] @ b"
  shows "\<exists>n'. encodeString text n = (Ok (), n') \<and> number_String n' = Ok text"
proof -
  define ex where "ex = int (length a) - 1"
  let ?m = "a @ b" and ?p = "packed (a @ b) ex"
  have d: "list_all is_digit ?m" using assms(1,5) by simp
  have st: "strip_zeros ?m = ?m" by (rule strip_zeros_id) (simp add: assms(6,7))
  have e: "- 63 \<le> exp_half ex" "exp_half ex < 64"
    using assms(2,4) by (cases a; auto simp: exp_half_def ex_def)+
  have sp: "split_sign text = (negative, a @ 46 # b)"
    using digits_neq(2) [OF assms(1,2)] assms(2) by (simp add: split_sign_def text_def)
  have "cut_exponent (a @ 46 # b) = Ok (0, a @ 46 # b)"
    using digits_not_in [OF assms(1)] digits_not_in [OF assms(5)] by (simp add: cut_exponent_def cut_at_none)
  moreover have "to_i64 (0 + int (length a) - 1) = ex"
    unfolding ex_def using assms(2,4) by (subst to_i64_id) (cases a; simp)+
  ultimately have enc: "encodeString text n = (Ok (), n\<lparr>bValue := Some (number_encode ?m ex negative)\<rparr>)"
    using sp cut_at_append [OF digits_not_in(1) [OF assms(1)], of b]
    by (simp add: encodeString_def text_def split: if_splits)
  have dec: "number_decode (number_encode ?m ex negative)
      = Ok (?p @ pad ?p, - int (length b) - int (length (pad ?p)), negative)"
    using number_decode_encode_core [OF d _ e, of negative] assms(2) by (simp add: st ex_def)
  have pad: "pad ?p = replicate (length (pad ?p)) 48" by (simp add: pad_def)
  have trim: "(if length (?p @ pad ?p) > 1 then dropWhile (\<lambda>c. c = 48) (?p @ pad ?p) else ?p @ pad ?p)
      = ?m @ pad ?p"
    using assms(2,3,6) by (cases a; cases b) (auto simp: packed_def)
  have neg: "- int (length b) - int (length (pad ?p)) < 0" using assms(6) by (cases b) simp_all
  have "place_point (?m @ pad ?p) (- int (length b) - int (length (pad ?p)))
      = strip_zeros ((a @ [46] @ b) @ replicate (length (pad ?p)) 48)"
    using neg pad by (simp add: place_point_def Let_def)
  also have "\<dots> = a @ [46] @ b"
    unfolding strip_zeros_append_zeros using assms(6,7) by (simp add: strip_zeros_id)
  finally show ?thesis
    using enc dec trim digits_neq(1) [OF assms(1,2)] assms(2)
    by (auto simp: number_String_def slice_bytes_def Let_def text_def)
qed

theorem number_String_encodeString_witness:
  "\<exists>n'. encodeString [45, 49, 50, 46, 53] \<lparr>bValue = None, dataType = NUMBER\<rparr> = (Ok (), n')
    \<and> number_String n' = Ok [45, 49, 50, 46, 53]"
  using number_String_encodeString [of "[49, 50]" "[53]" _ True "\<lparr>bValue = None, dataType = NUMBER\<rparr>"]
  by (simp add: is_digit_def)

section \<open>Binary doubles\<close>

lemma be_enc_Suc: "be_enc (Suc k) n = of_nat (n div 256 ^ k mod 256) # be_enc k n"
proof (induction k arbitrary: n)
  case (Suc k)
  have "be_enc (Suc (Suc k)) n = be_enc (Suc k) (n div 256) @ [of_nat (n mod 256)]"
    by (rule be_enc.simps(2))
  also have "\<dots> = (of_nat (n div 256 div 256 ^ k mod 256) # be_enc k (n div 256)) @ [of_nat (n mod 256)]"
    by (simp only: Suc.IH)
  also have "\<dots> = of_nat (n div 256 div 256 ^ k mod 256) # be_enc (Suc k) n" by simp
  finally show ?case by (simp add: div_mult2_eq)
qed simp

lemma be_enc_8: "be_enc 8 n = of_nat (n div 256 ^ 7 mod 256) # be_enc 7 n"
  using be_enc_Suc [of 7 n] by simp

lemma byte_low:
  assumes "n < 128"
  shows "(of_nat n :: byte) AND 128 = 0" and "(of_nat n :: byte) AND 127 = of_nat n"
  using low_byte_bits [of "int n"] assms by simp_all

lemma byte_high:
  assumes "128 \<le> n" and "n < 256"
  shows "(of_nat n :: byte) AND 128 = 128"
proof -
  have "(of_nat n :: byte) = of_nat (n - 128) + 128" using assms by (simp add: of_nat_diff)
  also have "\<dots> = of_nat (n - 128) OR 128"
    using byte_low(1) [of "n - 128"] assms by (intro disjunctive_add_eq_or) simp
  finally show ?thesis by (simp add: bit.conj_disj_distrib2)
qed

lemma map_NOT_NOT [simp]: "map (\<lambda>b :: byte. NOT b) (map (\<lambda>b. NOT b) bs) = bs"
  by (simp add: comp_def)

lemma unat_NOT_byte: "unat (NOT b :: byte) = 255 - unat b"
proof -
  have "NOT b = 255 - b" by (simp add: not_eq_complement)
  moreover have "unat b \<le> 255" using unat_byte_less [of b] by linarith
  ultimately show ?thesis by (simp add: unat_sub_if')
qed

lemma NOT_and_128: "NOT (w :: byte) AND 128 = 0 \<longleftrightarrow> w AND 128 \<noteq> 0"
  using and_exp_eq_0_iff_not_bit [of w 7] and_exp_eq_0_iff_not_bit [of "NOT w" 7] by (simp add: bit_not_iff)

lemma be_dec_NOT: "be_dec (map (\<lambda>b. NOT b) bs) = 256 ^ length bs - 1 - be_dec bs"
proof (induction bs rule: rev_induct)
  case (snoc b bs)
  obtain r where r: "256 ^ length bs = Suc (be_dec bs + r)" using less_imp_Suc_add [OF be_dec_less] by metis
  have "unat b \<le> 255" using unat_byte_less [of b] by linarith
  then show ?case by (simp add: snoc unat_NOT_byte r)
qed simp

text \<open>The leading byte of the bit pattern of a double carries the sign.\<close>

lemma double_bytes:
  fixes x :: u64
  shows "\<exists>h t. be_enc 8 (unat x) = h # t \<and> length t = 7 \<and> be_dec (h # t) = unat x
    \<and> h AND 128 = (if unat x < 2 ^ 63 then 0 else 128) \<and> (unat x < 2 ^ 63 \<longrightarrow> h AND 127 = h)"
proof -
  let ?h = "of_nat (unat x div 256 ^ 7 mod 256) :: byte" and ?t = "be_enc 7 (unat x)"
  have ux: "unat x < 2 ^ 64" using unat_less_pow [of x] by simp
  have e: "be_enc 8 (unat x) = ?h # ?t" by (rule be_enc_8)
  have v: "be_dec (?h # ?t) = unat x" using ux be_dec_enc [of 8 "unat x"] unfolding e by simp
  have q: "unat x div 256 ^ 7 mod 256 = unat x div 2 ^ 56" using ux by (simp add: less_mult_imp_div_less)
  have small: "?h AND 128 = 0" "?h AND 127 = ?h" if "unat x < 2 ^ 63"
  proof -
    have "unat x div 2 ^ 56 < 128" using that by (simp add: less_mult_imp_div_less)
    then show "?h AND 128 = 0" "?h AND 127 = ?h" unfolding q by (simp_all add: byte_low)
  qed
  have big: "?h AND 128 = 128" if "\<not> unat x < 2 ^ 63"
  proof -
    have "128 \<le> unat x div 2 ^ 56" "unat x div 2 ^ 56 < 256"
      using that ux by (simp_all add: less_eq_div_iff_mult_less_eq less_mult_imp_div_less)
    then show ?thesis unfolding q by (rule byte_high)
  qed
  show ?thesis using e v small big by (intro exI [of _ ?h] exI [of _ ?t]) simp
qed

lemma decodeDouble_at:
  assumes "bValue n = Some (h # t)" and "length t = 7"
  shows "decodeDouble n =
    (let b = (if h AND 128 \<noteq> 0 then (h AND 127) # t else map (\<lambda>b. NOT b) (h # t))
     in (Ok (of_nat (be_dec b)), n\<lparr>bValue := Some b\<rparr>))"
  using assms by (auto simp: decodeDouble_def slice_bytes_def xorBuffer_def Let_def)

lemma encodeFloat64_at:
  assumes "be_enc 8 (unat x) = h # t" and "length t = 7"
  shows "bValue (encodeFloat64 x n) = Some (if f64_positive x then (h OR 128) # t else map (\<lambda>b. NOT b) (h # t))"
  using assms by (simp add: encodeFloat64_def Let_def xorBuffer_def)

lemma f64_positive_less: "f64_positive x \<Longrightarrow> unat x < 2 ^ 63"
  by (simp add: f64_positive_def word_le_nat_alt)

text \<open>
  BINARY_DOUBLE: decoding what \<^verbatim>\<open>encodeFloat64\<close> wrote gives back the same bit pattern for every
  positive number and for everything with the sign bit set; but the remaining patterns, positive zero and
  the NaNs without a sign bit, come back as another pattern: zero becomes a NaN.
\<close>

theorem binary_double_roundtrip:
  "fst (decodeDouble (encodeFloat64 x n)) = Ok
     (if f64_positive x \<or> 2 ^ 63 \<le> unat x then x else 0x7FFFFFFFFFFFFFFF - x)"
proof -
  obtain h t where b: "be_enc 8 (unat x) = h # t" "length t = 7" and v: "be_dec (h # t) = unat x"
      and hi: "h AND 128 = (if unat x < 2 ^ 63 then 0 else 128)" and lo: "unat x < 2 ^ 63 \<longrightarrow> h AND 127 = h"
    using double_bytes [of x] by blast
  consider (pos) "f64_positive x" | (neg) "\<not> f64_positive x" "2 ^ 63 \<le> unat x"
    | (other) "\<not> f64_positive x" "unat x < 2 ^ 63" by linarith
  then show ?thesis
  proof cases
    case pos
    then have l: "unat x < 2 ^ 63" by (rule f64_positive_less)
    have "(h OR 128) AND 128 \<noteq> 0" "(h OR 128) AND 127 = h"
      using lo l by (simp_all add: bit.conj_disj_distrib2)
    then show ?thesis
      using pos v encodeFloat64_at [OF b, of n] decodeDouble_at [of "encodeFloat64 x n" "h OR 128" t] b(2)
      by (simp add: Let_def)
  next
    case neg
    then have "NOT h AND 128 = 0" using hi by (simp add: NOT_and_128)
    then show ?thesis
      using neg v encodeFloat64_at [OF b, of n] decodeDouble_at [of "encodeFloat64 x n" "NOT h" "map (\<lambda>b. NOT b) t"] b(2)
      by (simp add: Let_def comp_def)
  next
    case other
    have h0: "h AND 128 = 0" using hi other(2) by simp
    have small_head: "unat h < 128"
      using v other(2) b(2) by (simp add: be_dec_Cons)
    have "NOT h AND 128 \<noteq> 0" using h0 by (simp add: NOT_and_128)
    then have "fst (decodeDouble (encodeFloat64 x n)) = Ok (of_nat (be_dec ((NOT h AND 127) # map (\<lambda>b. NOT b) t)))"
      using other encodeFloat64_at [OF b, of n]
        decodeDouble_at [of "encodeFloat64 x n" "NOT h" "map (\<lambda>b. NOT b) t"] b(2) by (simp add: Let_def)
    also have "be_dec ((NOT h AND 127) # map (\<lambda>b. NOT b) t) = 2 ^ 63 - 1 - unat x"
    proof -
      have c: "(127 :: byte) = NOT 128" by simp
      have "NOT h AND 127 = NOT (h OR 128)" unfolding c by (simp only: bit.de_Morgan_disj)
      also have "h OR 128 = h + 128" using h0 by (simp add: disjunctive_add_eq_or)
      finally have "unat (NOT h AND 127) = 255 - unat (h + 128)" by (simp add: unat_NOT_byte)
      also have "unat (h + 128) = unat h + 128"
        using small_head by (simp add: unat_add_lem [THEN iffD1])
      finally have u: "unat (NOT h AND 127) = 127 - unat h" by simp
      show ?thesis
        using small_head be_dec_less [of t] v b(2) by (simp add: be_dec_Cons be_dec_NOT u)
    qed
    also have "of_nat (2 ^ 63 - 1 - unat x) = (0x7FFFFFFFFFFFFFFF - x :: u64)"
      using other(2) by (simp add: of_nat_diff)
    finally show ?thesis using other by simp
  qed
qed

text \<open>
  Reading a BINARY_DOUBLE changes it: decoding works in place, so that the second call of
  \<^verbatim>\<open>decodeDouble\<close> on a positive number returns the complement of the bits the first call returned.
\<close>

theorem decodeDouble_twice:
  assumes "f64_positive x"
  shows "case decodeDouble (encodeFloat64 x n) of (r1, n1) \<Rightarrow>
    r1 = Ok x \<and> fst (decodeDouble n1) = Ok (NOT x)"
proof -
  obtain h t where b: "be_enc 8 (unat x) = h # t" "length t = 7" and v: "be_dec (h # t) = unat x"
      and hi: "h AND 128 = (if unat x < 2 ^ 63 then 0 else 128)" and lo: "unat x < 2 ^ 63 \<longrightarrow> h AND 127 = h"
    using double_bytes [of x] by blast
  have l: "unat x < 2 ^ 63" using assms by (rule f64_positive_less)
  define n1 where "n1 = (encodeFloat64 x n)\<lparr>bValue := Some (h # t)\<rparr>"
  have "(h OR 128) AND 128 \<noteq> 0" "(h OR 128) AND 127 = h"
    using lo l by (simp_all add: bit.conj_disj_distrib2)
  then have d1: "decodeDouble (encodeFloat64 x n) = (Ok x, n1)"
    using assms v encodeFloat64_at [OF b, of n] decodeDouble_at [of "encodeFloat64 x n" "h OR 128" t] b(2)
    by (simp add: Let_def n1_def)
  have "length (h # t) = 8" using b(2) by simp
  then have "be_dec (map (\<lambda>b. NOT b) (h # t)) = 2 ^ 64 - 1 - unat x"
    using be_dec_NOT [of "h # t"] v by simp
  moreover have "of_nat (2 ^ 64 - 1 - unat x) = NOT x"
    using unat_less_pow [of x] by (simp add: of_nat_diff not_eq_complement)
  ultimately have "fst (decodeDouble n1) = Ok (NOT x)"
    using decodeDouble_at [of n1 h t] b(2) hi l by (simp add: n1_def)
  with d1 show ?thesis by simp
qed

theorem decodeDouble_twice_witness:
  "case decodeDouble (encodeFloat64 0x3FF0000000000000 \<lparr>bValue = None, dataType = 0\<rparr>) of (r1, n1) \<Rightarrow>
    r1 = Ok 0x3FF0000000000000 \<and> fst (decodeDouble n1) = Ok (NOT 0x3FF0000000000000)"
  by (rule decodeDouble_twice) (simp add: f64_positive_def)

end
