(* ===== verification/Number_Conv.thy ===== *)
theory Number_Conv
  imports Oracle_Number
begin

text \<open>
  The package \<^verbatim>\<open>v3/converters\<close> has two more implementations of the NUMBER format: \<^verbatim>\<open>type_conversion.go\<close>
  with a 64-bit mantissa that stops at the first digit that does not fit, and \<^verbatim>\<open>oracle_number.go\<close>,
  which validates the bytes, prints them without parsing, and checks integer ranges by comparing bytes.
\<close>

section \<open>type conversion: decoding\<close>

definition addDigitToMantissa :: "u64 \<Rightarrow> byte \<Rightarrow> u64 \<times> bool" where
  "addDigitToMantissa mantissaIn d =
     (if mantissaIn \<noteq> 0 \<and> 2 ^ 64 \<le> unat mantissaIn * 10 then (mantissaIn, True)
      else let m = (if mantissaIn \<noteq> 0 then mantissaIn * 10 else mantissaIn)
           in if 2 ^ 64 \<le> unat m + unat d then (mantissaIn, True) else (m + ucast d, False))"

text \<open>The loop over the base-100 digits, left at the first carry, with the number of digits taken.\<close>

fun from_digits :: "bool \<Rightarrow> byte list \<Rightarrow> u64 \<Rightarrow> nat \<Rightarrow> u64 \<times> nat" where
  "from_digits negative [] mantissa k = (mantissa, k)"
| "from_digits negative (digit100 # ds) mantissa k =
     (let d = digit100 - 1; d = (if negative then 100 - d else d)
      in case addDigitToMantissa mantissa (d div 10) of
           (m1, True) \<Rightarrow> (m1, k)
         | (m1, False) \<Rightarrow> (case addDigitToMantissa m1 (d mod 10) of
             (m2, True) \<Rightarrow> (m2, k + 1)
           | (m2, False) \<Rightarrow> from_digits negative ds m2 (k + 2)))"

text \<open>\<open>inputData[1 : len-1]\<close> panics on the one-byte input \<open>[0x66]\<close>.\<close>

definition FromNumber :: "byte list \<Rightarrow> (u64 \<times> bool \<times> int \<times> int) res" where
  "FromNumber inputData =
     (if inputData = [] then Err InvalidNumber
      else if hd inputData = 0x80 then Ok (0, False, 0, 0)
      else let negative = (hd inputData AND 0x80 = 0);
               exponent = uint (if negative then hd inputData XOR 0x7F else hd inputData AND 0x7F) - 64
           in if negative \<and> inputData = [0x66] then Panic
              else let buf = (if negative \<and> last inputData = 0x66 then butlast (tl inputData) else tl inputData)
                   in case from_digits negative buf 0 0 of (mantissa, digits) \<Rightarrow>
                        Ok (mantissa, negative, exponent * 2 - int digits,
                            int digits + (if buf = [] then 0 else - 1)))"

definition signed_mantissa :: "bool \<Rightarrow> u64 \<Rightarrow> int" where
  "signed_mantissa negative m = (if negative \<and> drop_bit 63 m = 0 then - sint m else sint m)"

definition DecodeInt :: "byte list \<Rightarrow> int res" where
  "DecodeInt inputData = (case FromNumber inputData of
     Ok (mantissa, negative, exponent, _) \<Rightarrow>
       Ok (if exponent < 0 then 0 else signed_mantissa negative (times10_u64 exponent mantissa))
   | Err e \<Rightarrow> Ok 0
   | Panic \<Rightarrow> Panic)"

text \<open>
  The fallback to floating point is a function of mantissa, sign and exponent, given as an argument.
\<close>

datatype 'f num_result = RInt int | RFloat 'f | RNaN

definition DecodeNumber :: "(u64 \<Rightarrow> bool \<Rightarrow> int \<Rightarrow> 'f) \<Rightarrow> byte list \<Rightarrow> 'f num_result res" where
  "DecodeNumber to_float inputData = (case FromNumber inputData of
     Ok (mantissa, negative, exponent, mantissaDigits) \<Rightarrow>
       if mantissaDigits = 0 then Ok (RInt 0)
       else if 0 \<le> exponent \<and> exponent < 20
       then let p = 10 ^ nat exponent :: u64; m = mantissa * p
            in if (\<not> negative \<and> m > 0x7FFFFFFFFFFFFFFF) \<or> (negative \<and> m > 0x8000000000000000)
                  \<or> 2 ^ 64 \<le> unat mantissa * unat p
               then Ok (RFloat (to_float mantissa negative exponent))
               else Ok (RInt (signed_mantissa negative m))
       else Ok (RFloat (to_float mantissa negative exponent))
   | Err e \<Rightarrow> Ok RNaN
   | Panic \<Rightarrow> Panic)"

section \<open>type conversion: encoding\<close>

definition ToNumber :: "byte list \<Rightarrow> bool \<Rightarrow> int \<Rightarrow> byte list" where
  "ToNumber mantissa negative exponent =
     (if mantissa = [] then [128]
      else let mantissa = (if exponent mod 2 = 0 then 48 # mantissa else mantissa)
           in exp_byte exponent negative # digit_bytes negative mantissa
              @ (if negative \<and> length mantissa < 21 then [0x66] else []))"

definition EncodeUint64 :: "u64 \<Rightarrow> byte list" where
  "EncodeUint64 val = (let mantissa = FormatUint val
     in ToNumber (strip_zeros mantissa) False (int (length mantissa) - 1))"

definition EncodeInt64 :: "int \<Rightarrow> byte list" where
  "EncodeInt64 val = (case split_sign (FormatInt val) of (negative, mantissa) \<Rightarrow>
     ToNumber (strip_zeros mantissa) negative (int (length mantissa) - 1))"

definition EncodeInt :: "int \<Rightarrow> byte list" where
  "EncodeInt val = EncodeInt64 val"

definition EncodeDouble :: "float_ops \<Rightarrow> u64 \<Rightarrow> byte list res" where
  "EncodeDouble fo num =
     (if f64_is_zero num then Ok [128]
      else rbind (cut_exponent (FormatFloat fo num)) (\<lambda>(exponent, mantissa).
        if mantissa = [] then Panic
        else case split_sign mantissa of (negative, mantissa) \<Rightarrow>
          let mantissa = (case cut_at 46 mantissa of None \<Rightarrow> mantissa | Some (a, b) \<Rightarrow> a @ b)
          in Ok (ToNumber mantissa negative exponent)))"

section \<open>oracle number\<close>

definition Int64MaxByte :: "byte list" where
  "Int64MaxByte = [202, 10, 23, 34, 73, 4, 69, 55, 78, 59, 8]"
definition Int64MinByte :: "byte list" where
  "Int64MinByte = [53, 92, 79, 68, 29, 98, 33, 47, 24, 43, 93, 102]"
definition Uint64MinByte :: "byte list" where
  "Uint64MinByte = [128]"
definition Uint64MaxByte :: "byte list" where
  "Uint64MaxByte = [202, 19, 45, 68, 45, 8, 38, 10, 56, 17, 16]"

text \<open>These read \<open>b[0]\<close> and are only called on non-empty input.\<close>

definition num_isZero :: "byte list \<Rightarrow> bool" where
  "num_isZero b \<longleftrightarrow> b = [128]"

definition num_isPositive :: "byte list \<Rightarrow> bool" where
  "num_isPositive b \<longleftrightarrow> hd b AND 128 \<noteq> 0"

definition num_isInf :: "byte list \<Rightarrow> bool" where
  "num_isInf b \<longleftrightarrow> b = [255, 101] \<or> b = [0]"

definition isValid :: "byte list \<Rightarrow> bool" where
  "isValid b =
     (if num_isPositive b then
        if length b = 1 then num_isZero b
        else if hd b = 255 \<and> b ! 1 = 101 then length b = 2
        else if length b > 21 then False
        else b ! 1 \<ge> 2 \<and> last b \<ge> 2 \<and> list_all (\<lambda>x. 1 \<le> x \<and> x \<le> 100) (tl b)
      else if length b < 3 then isNegInf b
      else if length b > 21 then False
      else if last b \<noteq> 102 \<and> length b \<le> 20 then False
      else let c = (if last b = 102 then butlast b else b)
           in c ! 1 \<le> 100 \<and> last c \<le> 100 \<and> list_all (\<lambda>x. 2 \<le> x \<and> x \<le> 101) (tl c))"

definition fromLnxFmt :: "byte list \<Rightarrow> byte list" where
  "fromLnxFmt b =
     (if num_isPositive b then ((hd b AND 0x7F) - 65) # map (\<lambda>x. x - 1) (tl b)
      else (((hd b XOR 0xFF) AND 0x7F) - 65)
           # map (\<lambda>x. 101 - x) (if length b = 21 \<and> last b \<noteq> 102 then tl b else butlast (tl b)))"

definition byteToChars :: "byte \<Rightarrow> byte list" where
  "byteToChars x =
     (if x < 10 then [48 + x]
      else if x < 100 then [48 + x div 10, 48 + x mod 10]
      else [49, 48 + x div 10 - 10, 48 + x mod 10])"

definition byteTo2Chars :: "byte \<Rightarrow> byte list" where
  "byteTo2Chars x =
     (if x < 10 then [48, 48 + x]
      else if x < 100 then [48 + x div 10, 48 + x mod 10]
      else [48, 48])"

definition lastChars :: "byte \<Rightarrow> byte list" where
  "lastChars x = (if x mod 10 = 0 then byteToChars (x div 10) else byteTo2Chars x)"

text \<open>
  What \<open>toBytes\<close> writes for the base-100 digits \<open>ds\<close>: all writes are contiguous. \<open>n\<close> is the number of
  digits before the point.
\<close>

definition number_chars :: "int \<Rightarrow> byte list \<Rightarrow> byte list" where
  "number_chars exponent ds =
     (let k = exponent - (int (length ds) - 1); n = int (length ds) + k
      in if k \<ge> 0 then byteToChars (hd ds) @ concat (map byteTo2Chars (tl ds)) @ replicate (2 * nat k) 48
         else if n > 0 then
           byteToChars (hd ds) @ (if n = 1 then [46] else [])
           @ concat (map (\<lambda>i. byteTo2Chars (ds ! i) @ (if n = int i + 1 then [46] else [])) [1..<length ds - 1])
           @ lastChars (last ds)
         else [48, 46] @ replicate (2 * nat (- n)) 48 @ concat (map byteTo2Chars (butlast ds)) @ lastChars (last ds))"

text \<open>The result slice has a fixed length; a write behind its end panics.\<close>

definition toBytes :: "byte list \<Rightarrow> byte list res" where
  "toBytes b =
     (if b = [] then Panic
      else if num_isZero b then Ok [48]
      else if num_isInf b then Ok Infinity
      else if \<not> isValid b then Err InvalidNumber
      else let data = fromLnxFmt b; exponent = sint (hd data); ds = tl data; len = int (length ds);
               k = exponent - (len - 1);
               dataLen = (if k \<ge> 0 then 2 * (exponent + 1) + 1
                          else if exponent \<ge> 0 then 2 * (len + 1) else 2 * (len - exponent) + 3);
               out = (if num_isPositive b then [] else [45]) @ number_chars exponent ds
           in if int (length out) > dataLen then Panic else Ok out)"

definition NumberToString :: "byte list \<Rightarrow> byte list res" where
  "NumberToString b = rbind (toBytes b) (\<lambda>rb. if rb = [] then Err InvalidNumber else Ok rb)"

fun compareBytes :: "byte list \<Rightarrow> byte list \<Rightarrow> int" where
  "compareBytes [] [] = 0"
| "compareBytes (x # xs) [] = 1"
| "compareBytes [] (y # ys) = - 1"
| "compareBytes (x # xs) (y # ys) = (if x = y then compareBytes xs ys else if x < y then - 1 else 1)"

text \<open>\<open>b1\<close> is computed on bytes and so wraps for exponents below 65.\<close>

definition int64_shape :: "byte list \<Rightarrow> bool \<Rightarrow> int \<times> int \<times> nat" where
  "int64_shape data positive =
     (let b1 = uint ((if positive then hd data AND 0x7F else (hd data XOR 0xFF) AND 0x7F) - 65 :: byte);
          b2 = (if positive \<or> (length data = 21 \<and> data ! 20 \<noteq> 102) then int (length data) - 1
                else int (length data) - 2);
          b3 = (if b2 > b1 + 1 then b1 + 1 else b2)
      in (b1, b2, nat b3))"

definition toInt64 :: "byte list \<Rightarrow> int" where
  "toInt64 data =
     (let positive = num_isPositive data
      in case int64_shape data positive of (b1, b2, b3) \<Rightarrow>
           let l = foldl (\<lambda>l x. to_i64 (l * 100 + (if positive then uint x - 1 else 101 - uint x))) 0
                     (take b3 (tl data));
               l = ((\<lambda>l. to_i64 (l * 100)) ^^ nat (b1 - b2 + 1)) l
           in if positive then l else to_i64 (- l))"

definition toUInt64 :: "byte list \<Rightarrow> u64 res" where
  "toUInt64 data =
     (if \<not> num_isPositive data then Err Overflow
      else case int64_shape data True of (b1, b2, b3) \<Rightarrow>
           let l = foldl (\<lambda>l x. l * 100 + (ucast x - 1)) 0 (take b3 (tl data))
           in Ok (((\<lambda>l. l * 100) ^^ nat (b1 - b2 + 1)) l))"

definition toInt64Internal :: "byte list \<Rightarrow> byte list \<Rightarrow> byte list \<Rightarrow> int res" where
  "toInt64Internal data mx mn =
     (if data = [] then Panic
      else if num_isZero data then Ok 0
      else if num_isInf data \<or> compareBytes data mx > 0 \<or> compareBytes data mn < 0 then Err Overflow
      else Ok (toInt64 data))"

definition toUInt64Internal :: "byte list \<Rightarrow> byte list \<Rightarrow> byte list \<Rightarrow> u64 res" where
  "toUInt64Internal data mx mn =
     (if data = [] then Panic
      else if num_isZero data then Ok 0
      else if num_isInf data \<or> compareBytes data mx > 0 \<or> compareBytes data mn < 0 then Err Overflow
      else toUInt64 data)"

definition NumberToInt64 :: "byte list \<Rightarrow> int res" where
  "NumberToInt64 data = toInt64Internal data Int64MaxByte Int64MinByte"

definition NumberToUInt64 :: "byte list \<Rightarrow> u64 res" where
  "NumberToUInt64 data = toUInt64Internal data Uint64MaxByte Uint64MinByte"

end
