(* ===== verification/Number_Conv_Props.thy ===== *)
theory Number_Conv_Props
  imports Number_Conv Oracle_Number_Props
begin

text \<open>
  The encoder and the readers of \<^verbatim>\<open>converters/\<close> for the NUMBER format: the readers get the integers back that
  were written, the smallest one included.
\<close>

section \<open>The shared layout\<close>

lemma ToNumber_encode: "ToNumber (strip_zeros m) negative ex = number_encode m ex negative"
  by (simp add: ToNumber_def number_encode_def Let_def)

section \<open>The 64-bit mantissa\<close>

lemma addDigitToMantissa_exact:
  assumes "M * 10 + x < 2 ^ 64" and "x < 10"
  shows "addDigitToMantissa (of_nat M) (of_nat x) = (of_nat (M * 10 + x), False)"
proof -
  have M: "unat (of_nat M :: u64) = M" "unat (of_nat (M * 10) :: u64) = M * 10"
    using assms(1) by (simp_all add: unat_of_nat_small del: of_nat_mult)
  have x: "unat (of_nat x :: byte) = x" "(ucast (of_nat x :: byte) :: u64) = of_nat x"
    using assms(2) by (simp_all add: unat_of_nat_byte unsigned_of_nat word_unat_eq_iff take_bit_nat_eq_self)
  show ?thesis
    using assms M x by (cases "M = 0") (auto simp: addDigitToMantissa_def Let_def)
qed

lemma from_digits_Cons:
  "from_digits negative (digit_byte negative w # ds) m k =
     (case addDigitToMantissa m (w div 10) of
        (m1, True) \<Rightarrow> (m1, k)
      | (m1, False) \<Rightarrow> (case addDigitToMantissa m1 (w mod 10) of
          (m2, True) \<Rightarrow> (m2, k + 1)
        | (m2, False) \<Rightarrow> from_digits negative ds m2 (k + 2)))"
proof -
  have "(if negative then 100 - (digit_byte negative w - 1) else digit_byte negative w - 1) = w"
    by (simp add: digit_byte_def)
  then show ?thesis unfolding from_digits.simps Let_def by (simp only:)
qed

lemma from_digits_step:
  assumes "x < 10" and "y < 10" and "M * 100 + 10 * x + y < 2 ^ 64"
  shows "from_digits negative (digit_byte negative (of_nat (10 * x + y)) # ds) (of_nat M) k
    = from_digits negative ds (of_nat (M * 100 + 10 * x + y)) (k + 2)"
proof -
  have t: "10 * x + y < 256" "(10 * x + y) div 10 = x" "(10 * x + y) mod 10 = y" using assms by simp_all
  have a: "addDigitToMantissa (of_nat M) (of_nat x) = (of_nat (M * 10 + x), False)"
      "addDigitToMantissa (of_nat (M * 10 + x)) (of_nat y) = (of_nat ((M * 10 + x) * 10 + y), False)"
    using assms by (intro addDigitToMantissa_exact; simp)+
  have e: "(M * 10 + x) * 10 + y = M * 100 + 10 * x + y" by simp
  show ?thesis
    unfolding from_digits_Cons div_of_nat_byte [OF t(1)] mod_of_nat_byte [OF t(1)] t(2,3) a prod.case
    by (simp only: bool.case prod.case a e)
qed

lemma from_digits_bytes:
  assumes "list_all is_digit m" and "M * 10 ^ length (m @ pad m) + dec_val (m @ pad m) < 2 ^ 64"
  shows "from_digits negative (digit_bytes negative m) (of_nat M) k
    = (of_nat (M * 10 ^ length (m @ pad m) + dec_val (m @ pad m)), k + length (m @ pad m))"
  using assms
proof (induction negative m arbitrary: M k rule: digit_bytes.induct)
  case (2 negative a)
  then obtain x where x: "x < 10" "a = 48 + of_nat x" by (auto simp: is_digit_iff)
  have v: "dec_val [a, 48] = 10 * x" using x by (simp add: dec_val_Cons)
  have "M * 100 + 10 * x + 0 < 2 ^ 64" using 2(2) by (simp add: pad_def v)
  from from_digits_step [OF x(1) _ this, of negative "[]" k]
  have "from_digits negative (digit_bytes negative [a]) (of_nat M) k = (of_nat (M * 100 + 10 * x), k + 2)"
    using x by (simp del: from_digits.simps(2))
  then show ?case by (simp add: pad_def v del: from_digits.simps(2))
next
  case (3 negative a b m)
  then obtain x y where x: "x < 10" "a = 48 + of_nat x" "y < 10" "b = 48 + of_nat y"
    by (auto simp: is_digit_iff)
  let ?o = "m @ pad m" and ?M = "M * 100 + 10 * x + y"
  have p: "pad (a # b # m) = pad m" by (simp add: pad_def)
  have v: "M * 10 ^ length (a # b # ?o) + dec_val (a # b # ?o) = ?M * 10 ^ length ?o + dec_val ?o"
    using x by (simp add: dec_val_Cons algebra_simps)
  have lt: "?M * 10 ^ length ?o + dec_val ?o < 2 ^ 64" using 3(3) v by (simp add: p)
  have "?M * 1 \<le> ?M * 10 ^ length ?o" by (rule mult_le_mono2) simp
  then have "?M < 2 ^ 64" by (intro le_less_trans [OF _ lt]) (simp only: mult_1_right trans_le_add1)
  then have "from_digits negative (digit_bytes negative (a # b # m)) (of_nat M) k
      = from_digits negative (digit_bytes negative m) (of_nat ?M) (k + 2)"
    using from_digits_step [of x y M negative "digit_bytes negative m" k] x by simp
  also have "\<dots> = (of_nat (?M * 10 ^ length ?o + dec_val ?o), k + 2 + length ?o)"
    using 3(1) [OF _ lt, of "k + 2"] 3(2) by simp
  finally show ?case using v by (simp add: p)
qed (simp add: pad_def)

text \<open>The bytes of an encoded positive integer, for any reader.\<close>

lemma encode_nat_shape:
  assumes "0 < a" and "a < 10 ^ 20"
  defines "m \<equiv> dec_digits a" and "ex \<equiv> int (length (dec_digits a)) - 1"
  shows "\<exists>p k. number_encode m ex negative = exp_byte ex negative # digit_bytes negative p @ (if negative then [0x66] else [])
    \<and> p = packed (strip_zeros m) ex \<and> list_all is_digit p \<and> p \<noteq> [] \<and> length p < 21
    \<and> - 63 \<le> exp_half ex \<and> exp_half ex < 64
    \<and> exp_half ex * 2 = int (length (p @ pad p)) + int (2 * k) \<and> a = dec_val (p @ pad p) * 10 ^ (2 * k)
    \<and> m = strip_zeros m @ pad p @ replicate (2 * k) 48 \<and> strip_zeros m \<noteq> [] \<and> hd (strip_zeros m) \<noteq> 48"
proof -
  define s where "s = strip_zeros m"
  define p where "p = packed s ex"
  have d: "list_all is_digit m" unfolding m_def by (rule dec_digits_digits)
  obtain z k where zk: "m = s @ replicate (z + 2 * k) 48" "z \<le> 1" "s \<noteq> []" "hd s \<noteq> 48"
      and dec: "number_decode (number_encode m ex negative) = Ok (packed s ex @ replicate z 48, 2 * int k, negative)"
    using decode_encode_nat [OF assms(1,2), of negative] unfolding s_def ex_def m_def by auto
  have len: "length m \<le> 20" "0 < length m" using length_dec_digits [OF assms(2)] by (simp_all add: m_def)
  have e: "- 63 \<le> exp_half ex" "exp_half ex < 64" using len by (auto simp: exp_half_def ex_def m_def)
  have core: "number_decode (number_encode m ex negative)
      = Ok (p @ pad p, ex + 1 - int (length s) - int (length (pad p)), negative)"
    using number_decode_encode_core [OF d _ e, of negative] zk(3) by (simp add: s_def p_def)
  have pz: "pad p = replicate z 48" and k2: "ex + 1 - int (length s) - int (length (pad p)) = 2 * int k"
    using core dec by (simp_all add: p_def)
  have ls: "length m = length s + (z + 2 * k)" using zk(1) by (metis length_append length_replicate)
  have lp: "length p < 21"
  proof (cases "even ex")
    case True
    then have "length m \<noteq> 20" by (auto simp: ex_def m_def)
    with ls len show ?thesis using True by (simp add: p_def packed_def)
  qed (use ls len in \<open>simp add: p_def packed_def\<close>)
  have pd: "list_all is_digit p" "p \<noteq> []"
    using strip_zeros_digits [OF d] zk(3) by (simp_all add: p_def packed_def is_digit_def s_def)
  have enc: "number_encode m ex negative = exp_byte ex negative # digit_bytes negative p @ (if negative then [0x66] else [])"
    using zk(3) lp by (simp add: number_encode_def Let_def p_def packed_def even_iff_mod_2_eq_zero flip: s_def)
  have half: "exp_half ex * 2 = int (length (p @ pad p)) + int (2 * k)"
    unfolding twice_exp_half using k2 by (cases "even ex") (simp_all add: p_def packed_def)
  have val: "a = dec_val (p @ pad p) * 10 ^ (2 * k)"
    using arg_cong [OF zk(1), of dec_val]
    by (simp add: dec_val_append pz dec_val_packed [of s ex, folded p_def] power_add m_def)
  have "m = s @ pad p @ replicate (2 * k) 48" using zk(1) by (simp add: pz replicate_add)
  with enc p_def pd lp e half val zk(3,4) show ?thesis
    unfolding s_def [symmetric] by blast
qed

lemma FromNumber_nat:
  assumes "0 < a" and "a < 2 ^ 64"
  shows "\<exists>M k c. FromNumber (number_encode (dec_digits a) (int (length (dec_digits a)) - 1) negative)
      = Ok (of_nat M, negative, int k, c) \<and> a = M * 10 ^ k"
proof -
  let ?ex = "int (length (dec_digits a)) - 1"
  have "a < 10 ^ 20" using assms(2) by (rule less_trans) simp
  from encode_nat_shape [OF assms(1) this, of negative] obtain p k where
      enc: "number_encode (dec_digits a) ?ex negative
        = exp_byte ?ex negative # digit_bytes negative p @ (if negative then [0x66] else [])"
      and p: "list_all is_digit p" "p \<noteq> []" and e: "- 63 \<le> exp_half ?ex" "exp_half ?ex < 64"
      and ex: "exp_half ?ex * 2 = int (length (p @ pad p)) + int (2 * k)"
      and a: "a = dec_val (p @ pad p) * 10 ^ (2 * k)"
    by blast
  let ?b = "exp_byte ?ex negative" and ?o = "p @ pad p"
  have eb: "(?b AND 0x80 = 0) = negative"
      "uint (if negative then ?b XOR 0x7F else ?b AND 0x7F) - 64 = exp_half ?ex" "?b \<noteq> 0x80"
    using exp_byte_decode [of ?ex negative] e by (cases negative; auto)+
  have "dec_val ?o \<le> a" by (subst a) simp
  then have "dec_val ?o < 2 ^ 64" using assms(2) by (rule le_less_trans)
  then have fd: "from_digits negative (digit_bytes negative p) 0 0 = (of_nat (dec_val ?o), length ?o)"
    using from_digits_bytes [OF p(1), of 0 negative 0] by simp
  have ne: "digit_bytes negative p \<noteq> []" using p(2) by simp
  have "FromNumber (number_encode (dec_digits a) ?ex negative)
      = Ok (of_nat (dec_val ?o), negative, exp_half ?ex * 2 - int (length ?o), int (length ?o) - 1)"
    using fd ne eb unfolding enc FromNumber_def by (cases negative) (simp_all add: Let_def butlast_append)
  then show ?thesis using ex a by (intro exI [of _ "dec_val ?o"] exI [of _ "2 * k"]) auto
qed

lemma times10_u64_eq: "times10_u64 (int k) m = m * 10 ^ k"
  by (induction k) (simp_all add: times10_u64_def nat_add_distrib algebra_simps)

lemma sint_of_nat_small: "a < 2 ^ 63 \<Longrightarrow> sint (of_nat a :: u64) = int a"
proof -
  assume "a < 2 ^ 63"
  then have "int a < 2 ^ 63" by (metis of_nat_less_iff of_nat_numeral of_nat_power)
  then have "to_i64 (int a) = int a" using to_i64_id [of "int a"] by simp
  then show ?thesis by (simp add: to_i64_def)
qed

lemma drop_bit_63_iff: "drop_bit 63 (w :: u64) = 0 \<longleftrightarrow> unat w < 2 ^ 63"
proof -
  have "drop_bit 63 w = 0 \<longleftrightarrow> unat (drop_bit 63 w) = 0" by (simp add: unat_eq_zero)
  also have "unat (drop_bit 63 w) = unat w div 2 ^ 63"
    by (simp add: drop_bit_eq_div unat_div_distrib)
  finally show ?thesis by (simp add: div_eq_0_iff)
qed

lemma signed_mantissa_exact:
  assumes "- (2 ^ 63) \<le> v" and "v < 2 ^ 63"
  shows "signed_mantissa (v < 0) (of_nat (nat \<bar>v\<bar>)) = v"
proof (cases "v = - (2 ^ 63)")
  case True
  have "unat (0x8000000000000000 :: u64) = 2 ^ 63" by simp
  then have "drop_bit 63 (0x8000000000000000 :: u64) \<noteq> 0" unfolding drop_bit_63_iff by simp
  with True show ?thesis by (simp add: signed_mantissa_def)
next
  case False
  then have "\<bar>v\<bar> < 2 ^ 63" using assms by auto
  then have lt: "nat \<bar>v\<bar> < 2 ^ 63" by (simp add: nat_less_iff)
  then have "unat (of_nat (nat \<bar>v\<bar>) :: u64) < 2 ^ 63" by (subst unat_of_nat_small) simp_all
  then have "signed_mantissa (v < 0) (of_nat (nat \<bar>v\<bar>)) = (if v < 0 then - int (nat \<bar>v\<bar>) else int (nat \<bar>v\<bar>))"
    unfolding signed_mantissa_def drop_bit_63_iff sint_of_nat_small [OF lt] by simp
  then show ?thesis by simp
qed

text \<open>
  C23. Integers written by \<^verbatim>\<open>EncodeInt64\<close> are read back by \<^verbatim>\<open>DecodeInt\<close>, all of them: the mantissa is kept
  unsigned, so that \<open>- (2 ^ 63)\<close> is read back too.
\<close>

theorem DecodeInt_EncodeInt64:
  assumes "- (2 ^ 63) \<le> v" and "v < 2 ^ 63"
  shows "DecodeInt (EncodeInt64 v) = Ok v"
proof (cases "v = 0")
  case True
  then show ?thesis
    by (simp add: EncodeInt64_def FormatInt_def split_sign_def strip_zeros_def ToNumber_def DecodeInt_def
        FromNumber_def signed_mantissa_def times10_u64_def)
next
  case False
  define a where "a = nat \<bar>v\<bar>"
  have a: "0 < a" "a \<le> 2 ^ 63" "int a = \<bar>v\<bar>" using assms False by (auto simp: a_def)
  have "a < 2 ^ 64" using a(2) by (rule le_less_trans) simp
  from FromNumber_nat [OF a(1) this, of "v < 0"] obtain M k c where
      f: "FromNumber (EncodeInt64 v) = Ok (of_nat M, v < 0, int k, c)" and m: "a = M * 10 ^ k"
    by (auto simp: EncodeInt64_def split_sign_FormatInt ToNumber_encode a_def)
  have "times10_u64 (int k) (of_nat M) = (of_nat a :: u64)" unfolding times10_u64_eq m by simp
  moreover have "signed_mantissa (v < 0) (of_nat a) = v"
    unfolding a_def by (rule signed_mantissa_exact [OF assms])
  ultimately show ?thesis using f by (simp add: DecodeInt_def)
qed

theorem DecodeInt_EncodeInt64_witness:
  "DecodeInt (EncodeInt64 (-9223372036854775808)) = Ok (-9223372036854775808)"
  by (rule DecodeInt_EncodeInt64) simp_all

end
