(* ===== verification/Summary.thy ===== *)
theory Summary
  imports TNS_Session Go_Strconv
begin

text \<open>
  What the server reports at the end of a call: \<^verbatim>\<open>NewSummary\<close> and \<^verbatim>\<open>NewWarningObject\<close> of
  \<^verbatim>\<open>summary_object.go\<close>, read field by field over any terminal reader of a network session, and the
  errors of \<^verbatim>\<open>oracle_error.go\<close> they are turned into.
\<close>

section \<open>Summary object\<close>

definition zero_summary :: summary_object where
  "zero_summary = \<lparr>EndOfCallStatus = 0, EndToEndECIDSequence = 0, CurRowNumber = 0, RetCode = 0,
     arrayElmWError = 0, arrayElmErrno = 0, CursorID = 0, errorPos = 0, sqlType = 0, oerFatal = 0, Flags = 0,
     userCursorOPT = 0, upiParam = 0, warningFlag = 0, rba = 0, partitionID = 0, tableID = 0, blockNumber = 0,
     slotNumber = 0, osError = 0, stmtNumber = 0, callNumber = 0, pad1 = 0, successIter = 0,
     ErrorMessage = None, bindErrors = []\<rparr>"

type_synonym 'n net_terminal = "int \<Rightarrow> ('n, byte list) sm"

text \<open>One field: an integer or a byte read into the result.\<close>

definition int_field ::
    "'n net_terminal \<Rightarrow> int \<Rightarrow> (int \<Rightarrow> summary_object \<Rightarrow> summary_object) \<Rightarrow> summary_object \<Rightarrow> ('n, summary_object) sm" where
  "int_field rd sz upd r = gbind (GetInt rd sz True True) (\<lambda>v. gret (upd v r))"

definition byte_field ::
    "'n net_terminal \<Rightarrow> (byte \<Rightarrow> summary_object \<Rightarrow> summary_object) \<Rightarrow> summary_object \<Rightarrow> ('n, summary_object) sm" where
  "byte_field rd upd r = gbind (GetByte rd) (\<lambda>v. gret (upd v r))"

text \<open>The capabilities of the session the layout depends on.\<close>

definition session_caps :: "'n session \<Rightarrow> byte \<times> bool \<times> bool" where
  "session_caps s = (TTCVersion s, HasEOSCapability s, HasFSAPCapability s)"

definition summary_call :: "'n net_terminal \<Rightarrow> byte \<times> bool \<times> bool \<Rightarrow> summary_object \<Rightarrow> ('n, summary_object) sm" where
  "summary_call rd = (\<lambda>(ver, eos, fsap) r.
     gbind (if eos then int_field rd 4 (\<lambda>v r. r\<lparr>EndOfCallStatus := v\<rparr>) r else gret r) (\<lambda>r.
     gbind (if ver \<ge> 3 \<and> fsap then int_field rd 2 (\<lambda>v r. r\<lparr>EndToEndECIDSequence := v\<rparr>) r else gret r) (\<lambda>r.
     gbind (int_field rd 4 (\<lambda>v r. r\<lparr>CurRowNumber := v\<rparr>) r) (\<lambda>r.
     gbind (int_field rd 2 (\<lambda>v r. r\<lparr>RetCode := v\<rparr>) r) (\<lambda>r.
     gbind (int_field rd 2 (\<lambda>v r. r\<lparr>arrayElmWError := v\<rparr>) r) (\<lambda>r.
     gbind (int_field rd 2 (\<lambda>v r. r\<lparr>arrayElmErrno := v\<rparr>) r) (\<lambda>r.
     gbind (int_field rd 2 (\<lambda>v r. r\<lparr>CursorID := v\<rparr>) r) (\<lambda>r.
     gbind (int_field rd 2 (\<lambda>v r. r\<lparr>errorPos := v\<rparr>) r) (\<lambda>r.
     gbind (byte_field rd (\<lambda>v r. r\<lparr>sqlType := v\<rparr>) r) (\<lambda>r.
     byte_field rd (\<lambda>v r. r\<lparr>oerFatal := v\<rparr>) r))))))))))"

definition summary_flags :: "'n net_terminal \<Rightarrow> byte \<Rightarrow> summary_object \<Rightarrow> ('n, summary_object) sm" where
  "summary_flags rd ver r =
     gbind (if ver \<ge> 4 then gbind (int_field rd 2 (\<lambda>v r. r\<lparr>Flags := v\<rparr>) r) (int_field rd 2 (\<lambda>v r. r\<lparr>userCursorOPT := v\<rparr>))
            else gbind (byte_field rd (\<lambda>v r. r\<lparr>Flags := uint v\<rparr>) r) (byte_field rd (\<lambda>v r. r\<lparr>userCursorOPT := uint v\<rparr>))) (\<lambda>r.
     gbind (byte_field rd (\<lambda>v r. r\<lparr>upiParam := v\<rparr>) r)
           (byte_field rd (\<lambda>v r. r\<lparr>warningFlag := v\<rparr>)))"

definition summary_position :: "'n net_terminal \<Rightarrow> summary_object \<Rightarrow> ('n, summary_object) sm" where
  "summary_position rd r =
     gbind (int_field rd 4 (\<lambda>v r. r\<lparr>rba := v\<rparr>) r) (\<lambda>r.
     gbind (int_field rd 2 (\<lambda>v r. r\<lparr>partitionID := v\<rparr>) r) (\<lambda>r.
     gbind (byte_field rd (\<lambda>v r. r\<lparr>tableID := v\<rparr>) r) (\<lambda>r.
     gbind (int_field rd 4 (\<lambda>v r. r\<lparr>blockNumber := v\<rparr>) r) (\<lambda>r.
     gbind (int_field rd 2 (\<lambda>v r. r\<lparr>slotNumber := v\<rparr>) r) (\<lambda>r.
     gbind (int_field rd 4 (\<lambda>v r. r\<lparr>osError := v\<rparr>) r) (\<lambda>r.
     gbind (byte_field rd (\<lambda>v r. r\<lparr>stmtNumber := v\<rparr>) r) (\<lambda>r.
     gbind (byte_field rd (\<lambda>v r. r\<lparr>callNumber := v\<rparr>) r) (\<lambda>r.
     gbind (int_field rd 2 (\<lambda>v r. r\<lparr>pad1 := v\<rparr>) r) (\<lambda>r.
     int_field rd 4 (\<lambda>v r. r\<lparr>successIter := v\<rparr>) r)))))))))"

text \<open>
  The loops over the bind errors: \<open>pre\<close> is read ahead of the value an element gets, \<open>post\<close> behind it. An index
  behind the end of the slice panics once the value to store has been read, whether or not that read failed.
\<close>

primrec bind_loop ::
    "('n, unit) sm \<Rightarrow> ('n, 'a) sm \<Rightarrow> ('n, unit) sm \<Rightarrow> ('a \<Rightarrow> bind_error \<Rightarrow> bind_error) \<Rightarrow> nat \<Rightarrow> nat
     \<Rightarrow> bind_error list \<Rightarrow> ('n, bind_error list) sm" where
  "bind_loop pre get post upd 0 x errs = gret errs"
| "bind_loop pre get post upd (Suc k) x errs =
     gseq pre
      (if x < length errs
       then gbind get (\<lambda>v. gseq post (bind_loop pre get post upd k (Suc x) (errs[x := upd v (errs ! x)])))
       else gseq (gignore get) gpanic)"

text \<open>\<open>_, _ = f()\<close> as a statement.\<close>

definition gskip :: "('n, 'a) sm \<Rightarrow> ('n, unit) sm" where
  "gskip m = gseq (gignore m) (gret ())"

definition chunk_skip :: "'n net_terminal \<Rightarrow> bool \<Rightarrow> ('n, unit) sm" where
  "chunk_skip rd fl =
     (if fl then gbind (gget (\<lambda>s. UseBigClrChunks (props s))) (\<lambda>big.
        if big then gskip (GetInt rd 4 True True) else gskip (GetByte rd))
      else gret ())"

definition zero_bind :: bind_error where
  "zero_bind = \<lparr>errorCode = 0, rowOffset = 0, errorMsg = None\<rparr>"

definition bind_numbers ::
    "'n net_terminal \<Rightarrow> int \<Rightarrow> int \<Rightarrow> bool \<Rightarrow> (int \<Rightarrow> bind_error \<Rightarrow> bind_error) \<Rightarrow> bind_error list \<Rightarrow> ('n, bind_error list) sm" where
  "bind_numbers rd lenSize sz fresh upd errs =
     gbind (GetInt rd lenSize True True) (\<lambda>len.
       if len > 0 then
         let errs = (if fresh \<or> errs = [] then replicate (nat len) zero_bind else errs)
         in gbind (GetByte rd) (\<lambda>num.
            gbind (bind_loop (chunk_skip rd (num = 0xFE)) (GetInt rd sz True True) (gret ()) upd (nat len) 0 errs) (\<lambda>errs.
              if num = 0xFE then gseq (gskip (GetByte rd)) (gret errs) else gret errs))
       else gret errs)"

definition bind_messages :: "'n net_terminal \<Rightarrow> bind_error list \<Rightarrow> ('n, bind_error list) sm" where
  "bind_messages rd errs =
     gbind (GetInt rd 2 True True) (\<lambda>len.
       if len > 0 then
         let errs = (if errs = [] then replicate (nat len) zero_bind else errs)
         in gseq (gskip (GetByte rd))
              (bind_loop (gseq (GetInt rd 2 True True) (gret ())) (GetClr rd)
                (gseq (gskip (GetByte rd)) (gskip (GetByte rd)))
                (\<lambda>m e. e\<lparr>errorMsg := m\<rparr>) (nat len) 0 errs)
       else gret errs)"

definition summary_binds :: "'n net_terminal \<Rightarrow> byte \<Rightarrow> summary_object \<Rightarrow> ('n, summary_object) sm" where
  "summary_binds rd ver r =
     gseq (gskip (GetDlc rd))
      (if ver < 7 then gseq (gskip (GetDlc rd)) (gseq (gskip (GetDlc rd)) (gseq (gskip (GetDlc rd)) (gret r)))
       else
         gbind (bind_numbers rd 2 2 True (\<lambda>v e. e\<lparr>errorCode := v\<rparr>) []) (\<lambda>errs.
         gbind (bind_numbers rd 4 4 False (\<lambda>v e. e\<lparr>rowOffset := v\<rparr>) errs) (\<lambda>errs.
         gbind (bind_messages rd errs) (\<lambda>errs.
         gbind (int_field rd 4 (\<lambda>v r. r\<lparr>RetCode := v\<rparr>) (r\<lparr>bindErrors := errs\<rparr>))
               (int_field rd 8 (\<lambda>v r. r\<lparr>CurRowNumber := v\<rparr>))))))"

definition summary_message :: "'n net_terminal \<Rightarrow> summary_object \<Rightarrow> ('n, summary_object) sm" where
  "summary_message rd r =
     gbind (if RetCode r \<noteq> 0 then gbind (GetClr rd) (\<lambda>m. gret (r\<lparr>ErrorMessage := m\<rparr>)) else gret r) (\<lambda>r.
       gret (if bindErrors r \<noteq> [] \<and> RetCode r = 24381
             then r\<lparr>RetCode := errorCode (hd (bindErrors r)), ErrorMessage := errorMsg (hd (bindErrors r))\<rparr>
             else r))"

definition NewSummary :: "'n net_terminal \<Rightarrow> ('n, summary_object) sm" where
  "NewSummary rd =
     gbind (gget session_caps) (\<lambda>caps.
     gbind (summary_call rd caps zero_summary) (\<lambda>r.
     gbind (summary_flags rd (fst caps) r) (\<lambda>r.
     gbind (summary_position rd r) (\<lambda>r.
     gbind (summary_binds rd (fst caps) r)
           (summary_message rd)))))"

section \<open>Warnings\<close>

record warning_object =
  retCode :: int
  wflag :: int
  errorMessage :: "byte list"

definition NewWarningObject :: "'n net_terminal \<Rightarrow> ('n, warning_object option) sm" where
  "NewWarningObject rd =
     gbind (GetInt rd 2 True True) (\<lambda>code.
     gbind (GetInt rd 2 True True) (\<lambda>len.
     gbind (GetInt rd 2 True True) (\<lambda>fl.
       if code = 0 \<or> len = 0 then gret None
       else gbind (GetClr rd) (\<lambda>msg.
         gret (Some \<lparr>retCode = code, wflag = fl, errorMessage = (case msg of None \<Rightarrow> [] | Some m \<Rightarrow> m)\<rparr>)))))"

section \<open>Oracle errors\<close>

record oracle_error =
  ErrCode :: int
  ErrMsg :: "byte list"
  errPos :: int

definition NewOracleError :: "int \<Rightarrow> oracle_error" where
  "NewOracleError code = \<lparr>ErrCode = code, ErrMsg = [], errPos = - 1\<rparr>"

definition known_messages :: "(int \<times> string) list" where
  "known_messages =
    [(1, ''ORA-00001: Unique constraint violation''),
     (900, ''ORA-00900: Invalid SQL statement''),
     (901, ''ORA-00901: Invalid CREATE command''),
     (902, ''ORA-00902: Invalid data type''),
     (903, ''ORA-00903: Invalid table name''),
     (904, ''ORA-00904: Invalid identifier''),
     (905, ''ORA-00905: Misspelled keyword''),
     (906, ''ORA-00906: Missing left parenthesis''),
     (907, ''ORA-00907: Missing right parenthesis''),
     (1001, ''ORA-01001: invalid cursor''),
     (1013, ''ORA-01013: user requested cancel of current operation''),
     (12631, ''ORA-12631: Username retrieval failed''),
     (12564, ''ORA-12564: TNS connection refused''),
     (12506, ''ORA-12506: TNS:listener rejected connection based on service ACL filtering''),
     (12514, ''ORA-12514: TNS:listener does not currently know of service requested in connect descriptor''),
     (12516, ''ORA-12516: TNS:listener could not find available handler with matching protocol stack''),
     (3135, ''ORA-03135: connection lost contact''),
     (28041, ''ORA-28041: Authentication protocol internal error'')]"

definition translate :: "oracle_error \<Rightarrow> oracle_error" where
  "translate e = e\<lparr>ErrMsg := (case map_of known_messages (ErrCode e) of
     Some m \<Rightarrow> ascii m | None \<Rightarrow> ascii ''ORA-'' @ FormatInt (ErrCode e))\<rparr>"

definition Error :: "oracle_error \<Rightarrow> byte list \<times> oracle_error" where
  "Error e = (let e = (if ErrMsg e = [] then translate e else e)
     in (if errPos e \<ge> 0 then ErrMsg e @ ascii '' error occur at position: '' @ FormatInt (errPos e)
         else ErrMsg e, e))"

definition ErrPos :: "oracle_error \<Rightarrow> int" where
  "ErrPos e = errPos e"

definition Bad :: "oracle_error \<Rightarrow> bool" where
  "Bad e \<longleftrightarrow> ErrCode e \<in> {28, 1001, 1012, 1033, 1034, 1089, 3113, 3114, 3135, 12528, 12537}"

text \<open>
  \<open>GetError\<close>; \<open>conv\<close> is the string converter of the session, if there is one.
\<close>

definition GetError :: "(byte list \<Rightarrow> byte list) option \<Rightarrow> 'n session \<Rightarrow> oracle_error" where
  "GetError conv s =
     (case Summary s of
        Some x \<Rightarrow> if HasError s
          then let m = (case ErrorMessage x of None \<Rightarrow> [] | Some m \<Rightarrow> m)
               in \<lparr>ErrCode = RetCode x, ErrMsg = (case conv of Some f \<Rightarrow> f m | None \<Rightarrow> m), errPos = errorPos x\<rparr>
          else \<lparr>ErrCode = 0, ErrMsg = [], errPos = 0\<rparr>
      | None \<Rightarrow> \<lparr>ErrCode = 0, ErrMsg = [], errPos = 0\<rparr>)"

end
