(* ===== verification/Summary_Props.thy ===== *)
theory Summary_Props
  imports Summary TNS_Session_Props
begin

text \<open>
  What \<^verbatim>\<open>summary_object.go\<close> reads and what the driver makes of it: the layout of a summary and of a
  warning on the wire as a specification, that the parsers recover them over every network reader, the panic on
  bind error lists of different lengths, and the classification of the resulting Oracle errors.
\<close>

section \<open>The layout of a summary\<close>

definition wire_nat :: "int \<Rightarrow> byte list" where
  "wire_nat v = wire_int (nat v)"

definition field_ok :: "int \<Rightarrow> bool" where
  "field_ok v \<longleftrightarrow> 0 \<le> v \<and> v < 2 ^ 63"

definition wire_call :: "byte \<times> bool \<times> bool \<Rightarrow> int \<Rightarrow> int \<Rightarrow> summary_object \<Rightarrow> byte list" where
  "wire_call = (\<lambda>(ver, eos, fsap) row code r.
     (if eos then wire_nat (EndOfCallStatus r) else []) @
     (if ver \<ge> 3 \<and> fsap then wire_nat (EndToEndECIDSequence r) else []) @
     wire_nat row @ wire_nat code @ wire_nat (arrayElmWError r) @ wire_nat (arrayElmErrno r) @
     wire_nat (CursorID r) @ wire_nat (errorPos r) @ [sqlType r] @ [oerFatal r])"

definition wire_flags :: "byte \<Rightarrow> summary_object \<Rightarrow> byte list" where
  "wire_flags ver r =
     (if ver \<ge> 4 then wire_nat (Flags r) @ wire_nat (userCursorOPT r)
      else [word_of_int (Flags r)] @ [word_of_int (userCursorOPT r)]) @ [upiParam r] @ [warningFlag r]"

definition wire_position :: "summary_object \<Rightarrow> byte list" where
  "wire_position r = wire_nat (rba r) @ wire_nat (partitionID r) @ [tableID r] @ wire_nat (blockNumber r) @
     wire_nat (slotNumber r) @ wire_nat (osError r) @ [stmtNumber r] @ [callNumber r] @ wire_nat (pad1 r) @
     wire_nat (successIter r)"

text \<open>A list of numbers: its length, a tag, the numbers, each with a length in front when the tag is 0xFE.\<close>

definition wire_skip :: "session_props \<Rightarrow> byte \<Rightarrow> byte list \<Rightarrow> byte list" where
  "wire_skip p tag item =
     (if tag \<noteq> 0xFE then [] else if UseBigClrChunks p then wire_int (length item) else [of_nat (length item)])"

definition wire_numbers :: "session_props \<Rightarrow> byte \<Rightarrow> int list \<Rightarrow> byte list" where
  "wire_numbers p tag vs =
     (if vs = [] then wire_int 0
      else wire_int (length vs) @ [tag] @ concat (map (\<lambda>v. wire_skip p tag (wire_nat v) @ wire_nat v) vs) @
        (if tag = 0xFE then [0] else []))"

definition nbytes :: "nslice \<Rightarrow> byte list" where
  "nbytes m = (case m of None \<Rightarrow> [] | Some bs \<Rightarrow> bs)"

definition wire_messages :: "session_props \<Rightarrow> byte \<Rightarrow> nslice list \<Rightarrow> byte list" where
  "wire_messages p tag ms =
     (if ms = [] then wire_int 0
      else wire_int (length ms) @ [tag] @
        concat (map (\<lambda>m. wire_int (length (nbytes m)) @ wire_clr p (nbytes m) @ [0] @ [0]) ms))"

definition wire_binds :: "session_props \<Rightarrow> byte \<Rightarrow> byte \<Rightarrow> byte list list \<Rightarrow> summary_object \<Rightarrow> byte list" where
  "wire_binds p ver tag ds r =
     wire_dlc p (ds ! 0) @
     (if ver < 7 then wire_dlc p (ds ! 1) @ wire_dlc p (ds ! 2) @ wire_dlc p (ds ! 3)
      else wire_numbers p tag (map errorCode (bindErrors r)) @ wire_numbers p tag (map rowOffset (bindErrors r)) @
        wire_messages p tag (map errorMsg (bindErrors r)) @ wire_nat (RetCode r) @ wire_nat (CurRowNumber r))"

definition wire_message :: "session_props \<Rightarrow> summary_object \<Rightarrow> byte list" where
  "wire_message p r = (if RetCode r \<noteq> 0 then wire_clr p (nbytes (ErrorMessage r)) else [])"

text \<open>
  A whole summary. From version 7 on the return code and the row number come twice, and the first pair
  \<open>code\<close>, \<open>row\<close> has no influence on the result.
\<close>

definition wire_summary ::
    "byte \<times> bool \<times> bool \<Rightarrow> session_props \<Rightarrow> int \<times> int \<times> byte \<times> byte list list \<Rightarrow> summary_object \<Rightarrow> byte list" where
  "wire_summary caps p = (\<lambda>(row, code, tag, ds) r.
     wire_call caps row code r @ wire_flags (fst caps) r @ wire_position r @ wire_binds p (fst caps) tag ds r @
     wire_message p r)"

text \<open>The summaries a server of the given capabilities can send.\<close>

definition slice_ok :: "nslice \<Rightarrow> bool" where
  "slice_ok m \<longleftrightarrow> m \<noteq> Some []"

definition bind_ok :: "bind_error \<Rightarrow> bool" where
  "bind_ok e \<longleftrightarrow> field_ok (errorCode e) \<and> field_ok (rowOffset e) \<and> slice_ok (errorMsg e)
     \<and> length (nbytes (errorMsg e)) < 2 ^ 32"

definition ints_ok :: "summary_object \<Rightarrow> bool" where
  "ints_ok r = list_all field_ok [EndOfCallStatus r, EndToEndECIDSequence r, CurRowNumber r, RetCode r,
     arrayElmWError r, arrayElmErrno r, CursorID r, errorPos r, Flags r, userCursorOPT r, rba r, partitionID r,
     blockNumber r, slotNumber r, osError r, pad1 r, successIter r]"

definition summary_ok ::
    "byte \<times> bool \<times> bool \<Rightarrow> int \<times> int \<times> byte \<times> byte list list \<Rightarrow> summary_object \<Rightarrow> bool" where
  "summary_ok = (\<lambda>(ver, eos, fsap) (row, code, tag, ds) r.
     ints_ok r \<and> field_ok row \<and> field_ok code \<and> list_all bind_ok (bindErrors r) \<and> slice_ok (ErrorMessage r)
     \<and> length (bindErrors r) < 2 ^ 31 \<and> length ds = 4 \<and> list_all (\<lambda>d. length d < 2 ^ 32) ds
     \<and> (\<not> eos \<longrightarrow> EndOfCallStatus r = 0) \<and> (\<not> (ver \<ge> 3 \<and> fsap) \<longrightarrow> EndToEndECIDSequence r = 0)
     \<and> (ver < 4 \<longrightarrow> Flags r < 256 \<and> userCursorOPT r < 256)
     \<and> (ver < 7 \<longrightarrow> row = CurRowNumber r \<and> code = RetCode r \<and> bindErrors r = [])
     \<and> (RetCode r = 0 \<longrightarrow> ErrorMessage r = None))"

text \<open>The one field the driver rewrites: an array error is reported as its first bind error.\<close>

definition reported :: "summary_object \<Rightarrow> summary_object" where
  "reported r = (case bindErrors r of [] \<Rightarrow> r
     | e # _ \<Rightarrow> if RetCode r = 24381 then r\<lparr>RetCode := errorCode e, ErrorMessage := errorMsg e\<rparr> else r)"

lemma reported_eq:
  "(if bindErrors r \<noteq> [] \<and> RetCode r = 24381
    then r\<lparr>RetCode := errorCode (hd (bindErrors r)), ErrorMessage := errorMsg (hd (bindErrors r))\<rparr> else r) = reported r"
  by (cases "bindErrors r") (simp_all add: reported_def)

section \<open>Parsing over a network reader\<close>

lemma nslice_of_nbytes [simp]: "slice_ok m \<Longrightarrow> nslice_of (nbytes m) = m"
  by (cases m) (auto simp: slice_ok_def nslice_of_def nbytes_def)

lemma byte_field_value: "field_ok v \<Longrightarrow> v < 256 \<Longrightarrow> uint (word_of_int v :: byte) = v"
  by (simp add: field_ok_def unsigned_of_int take_bit_int_eq_self)

lemma parses_seq:
  "parses ok pending p m bs a \<Longrightarrow> parses ok pending p n cs b \<Longrightarrow> parses ok pending p (gseq m n) (bs @ cs) b"
  unfolding gseq_def by (rule parses_bind)

lemma parses_gskip:
  assumes "parses ok pending p m bs a"
  shows "parses ok pending p (gskip m) bs ()"
  unfolding parses_def
proof (intro allI impI, elim conjE)
  fix s rest
  assume "ok s" "props s = p" "pending s = bs @ rest"
  with assms obtain s' where "m s = Some (Ok a, s')" "ok s'" "props s' = p" "pending s' = rest"
    unfolding parses_def by blast
  then show "\<exists>s'. gskip m s = Some (Ok (), s') \<and> ok s' \<and> props s' = p \<and> pending s' = rest"
    by (simp add: gskip_def gseq_def gret_def)
qed

text \<open>\<open>panics ok pending p m bs\<close>: reading the bytes \<open>bs\<close> ends in a run-time panic.\<close>

definition panics ::
    "('z basic_session_scheme \<Rightarrow> bool) \<Rightarrow> ('z basic_session_scheme \<Rightarrow> byte list) \<Rightarrow> session_props
     \<Rightarrow> ('z basic_session_scheme, 'a) gom \<Rightarrow> byte list \<Rightarrow> bool" where
  "panics ok pending p m bs \<longleftrightarrow>
     (\<forall>s rest. ok s \<and> props s = p \<and> pending s = bs @ rest \<longrightarrow> (\<exists>s'. m s = Some (Panic, s')))"

lemma panics_bind:
  assumes "parses ok pending p m bs a" and "panics ok pending p (f a) cs"
  shows "panics ok pending p (gbind m f) (bs @ cs)"
  unfolding panics_def
proof (intro allI impI, elim conjE)
  fix s rest
  assume "ok s" "props s = p" "pending s = (bs @ cs) @ rest"
  with assms(1) obtain s' where "m s = Some (Ok a, s')" "ok s'" "props s' = p" "pending s' = cs @ rest"
    unfolding parses_def by fastforce
  with assms(2) show "\<exists>s'. gbind m f s = Some (Panic, s')" unfolding panics_def by auto
qed

lemma panics_seq:
  "parses ok pending p m bs a \<Longrightarrow> panics ok pending p n cs \<Longrightarrow> panics ok pending p (gseq m n) (bs @ cs)"
  unfolding gseq_def by (rule panics_bind)

lemma panics_first: "panics ok pending p m bs \<Longrightarrow> panics ok pending p (gbind m f) (bs @ cs)"
  unfolding panics_def by fastforce

locale net_reader = terminal_reader rd ok pending
  for rd :: "'n net_terminal" and ok :: "'n session \<Rightarrow> bool" and pending :: "'n session \<Rightarrow> byte list"
begin

lemma parses_GetByte_bind:
  "parses ok pending p (f b) cs a \<Longrightarrow> parses ok pending p (gbind (GetByte rd) f) (b # cs) a"
  using parses_bind [OF parses_GetByte, where f = f] by simp

lemma parses_int_field:
  "field_ok v \<Longrightarrow> parses ok pending p (int_field rd sz upd r) (wire_nat v) (upd v r)"
  unfolding int_field_def wire_nat_def
  using parses_bind_ret [OF parses_GetInt_compressed [of "nat v" p sz True], where f = "\<lambda>v. upd v r"]
  by (simp add: field_ok_def nat_less_iff)

lemma parses_byte_field: "parses ok pending p (byte_field rd upd r) [b] (upd b r)"
  unfolding byte_field_def by (rule parses_bind_ret [OF parses_GetByte])

lemma parses_opt_field:
  "field_ok v \<Longrightarrow> (\<not> c \<Longrightarrow> upd v r = r) \<Longrightarrow>
   parses ok pending p (if c then int_field rd sz upd r else gret r) (if c then wire_nat v else []) (upd v r)"
  using parses_int_field [of v p sz upd r] parses_ret [of ok pending p r] by auto

lemma parses_chunk_skip:
  assumes "length item < 2 ^ 63"
  shows "parses ok pending p (chunk_skip rd (tag = 0xFE)) (wire_skip p tag item) ()"
proof (cases "tag = 0xFE")
  case True
  have "parses ok pending p (if UseBigClrChunks p then gskip (GetInt rd 4 True True) else gskip (GetByte rd))
    (if UseBigClrChunks p then wire_int (length item) else [of_nat (length item)]) ()"
    using parses_gskip [OF parses_GetInt_compressed [OF assms]] parses_gskip [OF parses_GetByte] by auto
  then have "parses ok pending p (chunk_skip rd True)
    (if UseBigClrChunks p then wire_int (length item) else [of_nat (length item)]) ()"
    unfolding chunk_skip_def if_True by (rule parses_get)
  with True show ?thesis by (simp add: wire_skip_def)
qed (simp add: chunk_skip_def wire_skip_def parses_ret)

text \<open>The loop over the bind errors stores one value after the other.\<close>

lemma parses_bind_loop:
  assumes "\<forall>v \<in> set vs. \<exists>b c d. w v = b @ c @ d \<and> parses ok pending p pre b ()
      \<and> parses ok pending p get c v \<and> parses ok pending p post d ()"
    and "length errs = x + length vs"
  shows "parses ok pending p (bind_loop pre get post upd (length vs) x errs) (concat (map w vs))
    (take x errs @ map2 upd vs (drop x errs))"
  using assms
proof (induction vs arbitrary: x errs)
  case Nil
  then show ?case by (simp add: parses_ret)
next
  case (Cons v vs)
  let ?errs = "errs[x := upd v (errs ! x)]"
  obtain b c d where w: "w v = b @ c @ d" and pcs: "parses ok pending p pre b ()"
      "parses ok pending p get c v" "parses ok pending p post d ()"
    using Cons.prems(1) by auto
  have x: "x < length errs" using Cons.prems(2) by simp
  have "parses ok pending p (bind_loop pre get post upd (length vs) (Suc x) ?errs) (concat (map w vs))
      (take (Suc x) ?errs @ map2 upd vs (drop (Suc x) ?errs))"
    using Cons.prems by (intro Cons.IH) auto
  moreover have "take (Suc x) ?errs @ map2 upd vs (drop (Suc x) ?errs)
      = take x errs @ map2 upd (v # vs) (drop x errs)"
    using x by (simp add: take_Suc_conv_app_nth flip: Cons_nth_drop_Suc)
  ultimately have "parses ok pending p (bind_loop pre get post upd (length vs) (Suc x) ?errs)
      (concat (map w vs)) (take x errs @ map2 upd (v # vs) (drop x errs))" by simp
  from parses_seq [OF pcs(3) this]
  have "parses ok pending p (gbind get (\<lambda>v. gseq post (bind_loop pre get post upd (length vs) (Suc x)
      (errs[x := upd v (errs ! x)])))) (c @ d @ concat (map w vs)) (take x errs @ map2 upd (v # vs) (drop x errs))"
    by (rule parses_bind [OF pcs(2)])
  from parses_seq [OF pcs(1) this] x w show ?case by simp
qed

lemma panics_bind_loop:
  assumes "\<forall>v \<in> set vs. \<exists>b c. w v = b @ c \<and> parses ok pending p pre b () \<and> parses ok pending p get c v"
    and "x \<le> length errs" and "length errs < x + length vs"
  shows "panics ok pending p (bind_loop pre get (gret ()) upd (length vs) x errs) (concat (map w vs))"
  using assms
proof (induction vs arbitrary: x errs)
  case (Cons v vs)
  let ?step = "bind_loop pre get (gret ()) upd (length vs) (Suc x)"
  obtain b c where w: "w v = b @ c" and pcs: "parses ok pending p pre b ()" "parses ok pending p get c v"
    using Cons.prems(1) by auto
  have "panics ok pending p (if x < length errs
      then gbind get (\<lambda>v. gseq (gret ()) (?step (errs[x := upd v (errs ! x)])))
      else gseq (gignore get) gpanic) (c @ concat (map w vs))"
  proof (cases "x < length errs")
    case True
    then have "panics ok pending p (?step (errs[x := upd v (errs ! x)])) (concat (map w vs))"
      using Cons.prems by (intro Cons.IH) auto
    then have "panics ok pending p (gbind get (\<lambda>v. gseq (gret ()) (?step (errs[x := upd v (errs ! x)]))))
        (c @ concat (map w vs))"
      by (intro panics_bind [OF pcs(2)]) (simp add: gseq_def)
    with True show ?thesis by simp
  next
    case False
    have "panics ok pending p (gseq (gignore get) gpanic) (c @ concat (map w vs))"
      using pcs(2) by (fastforce simp: panics_def parses_def gseq_def gpanic_def)
    with False show ?thesis by simp
  qed
  from panics_seq [OF pcs(1) this] w show ?case by simp
qed simp

lemma number_item_parses:
  assumes "field_ok v"
  shows "parses ok pending p (chunk_skip rd (tag = 0xFE)) (wire_skip p tag (wire_nat v)) ()"
    and "parses ok pending p (GetInt rd sz True True) (wire_nat v) v"
proof -
  have v: "0 \<le> v" "nat v < 2 ^ 63" using assms by (auto simp: field_ok_def)
  then have "length (wire_nat v) < 2 ^ 63"
    using trim_left_facts(2) [of "nat v"] by (simp add: wire_nat_def wire_int_def Let_def)
  then show "parses ok pending p (chunk_skip rd (tag = 0xFE)) (wire_skip p tag (wire_nat v)) ()"
    by (rule parses_chunk_skip)
  show "parses ok pending p (GetInt rd sz True True) (wire_nat v) v"
    using parses_GetInt_compressed [OF v(2), of p sz True] v(1) by (simp add: wire_nat_def)
qed

lemma panics_bind_numbers:
  assumes "list_all field_ok vs" and "length vs < 2 ^ 31" and "errs \<noteq> []" and "length errs < length vs"
  shows "panics ok pending p (bind_numbers rd k sz False upd errs) (wire_numbers p tag vs)"
proof -
  let ?w = "\<lambda>v. wire_skip p tag (wire_nat v) @ wire_nat v"
  let ?loop = "\<lambda>tag. bind_loop (chunk_skip rd (tag = 0xFE)) (GetInt rd sz True True) (gret ()) upd (length vs) 0 errs"
  have "\<exists>b c. ?w v = b @ c \<and> parses ok pending p (chunk_skip rd (tag = 0xFE)) b ()
      \<and> parses ok pending p (GetInt rd sz True True) c v" if "v \<in> set vs" for v
    using number_item_parses(1) [of v p tag] number_item_parses(2) [of v p sz] that assms(1) by (auto simp: list_all_iff)
  then have "panics ok pending p (?loop tag) (concat (map ?w vs))"
    using assms(4) by (intro panics_bind_loop) auto
  from panics_first [OF this]
  have "panics ok pending p (gbind (?loop tag) (\<lambda>errs. if tag = 0xFE then gseq (gskip (GetByte rd)) (gret errs) else gret errs))
      (concat (map ?w vs) @ (if tag = 0xFE then [0] else []))" .
  then have "panics ok pending p (gbind (GetByte rd) (\<lambda>tag. gbind (?loop tag)
      (\<lambda>errs. if tag = 0xFE then gseq (gskip (GetByte rd)) (gret errs) else gret errs)))
      ([tag] @ concat (map ?w vs) @ (if tag = 0xFE then [0] else []))"
    by (rule panics_bind [OF parses_GetByte])
  then have "panics ok pending p (bind_numbers rd k sz False upd errs)
      (wire_int (length vs) @ [tag] @ concat (map ?w vs) @ (if tag = 0xFE then [0] else []))"
    unfolding bind_numbers_def using assms(2,3,4)
    by (intro panics_bind [OF parses_GetInt_compressed]) (auto simp: Let_def)
  with assms(4) show ?thesis by (auto simp: wire_numbers_def)
qed

lemma parses_bind_numbers:
  assumes "list_all field_ok vs" and "length vs < 2 ^ 31"
    and "fresh \<or> errs = [] \<or> length errs = length vs"
  shows "parses ok pending p (bind_numbers rd k sz fresh upd errs) (wire_numbers p tag vs)
    (if vs = [] then errs
     else map2 upd vs (if fresh \<or> errs = [] then replicate (length vs) zero_bind else errs))"
proof (cases "vs = []")
  case True
  have "parses ok pending p (bind_numbers rd k sz fresh upd errs) (wire_int 0 @ []) errs"
    unfolding bind_numbers_def by (rule parses_bind, rule parses_GetInt_compressed) (simp_all add: parses_ret)
  with True show ?thesis by (simp add: wire_numbers_def)
next
  case False
  let ?errs = "if fresh \<or> errs = [] then replicate (length vs) zero_bind else errs"
  let ?w = "\<lambda>v. wire_skip p tag (wire_nat v) @ wire_nat v"
  have "\<exists>b c d. ?w v = b @ c @ d \<and> parses ok pending p (chunk_skip rd (tag = 0xFE)) b ()
      \<and> parses ok pending p (GetInt rd sz True True) c v \<and> parses ok pending p (gret ()) d ()"
    if "v \<in> set vs" for v
    using number_item_parses(1) [of v p tag] number_item_parses(2) [of v p sz] that assms(1) parses_ret [of ok pending p "()"]
    by (intro exI [of _ "wire_skip p tag (wire_nat v)"] exI [of _ "wire_nat v"] exI [of _ "[]"])
       (auto simp: list_all_iff)
  then have "parses ok pending p (bind_loop (chunk_skip rd (tag = 0xFE)) (GetInt rd sz True True) (gret ()) upd
      (length vs) 0 ?errs) (concat (map ?w vs)) (map2 upd vs ?errs)"
    using parses_bind_loop [of vs ?w p "chunk_skip rd (tag = 0xFE)" "GetInt rd sz True True" "gret ()" ?errs 0 upd]
      assms(3) by auto
  moreover have "parses ok pending p (if tag = 0xFE then gseq (gskip (GetByte rd)) (gret e) else gret e)
      (if tag = 0xFE then [0] else []) e" for e :: "bind_error list"
    using parses_seq [OF parses_gskip [OF parses_GetByte] parses_ret, of p e 0] by (simp add: parses_ret)
  ultimately have "parses ok pending p (gbind (bind_loop (chunk_skip rd (tag = 0xFE)) (GetInt rd sz True True) (gret ()) upd
      (length vs) 0 ?errs) (\<lambda>errs. if tag = 0xFE then gseq (gskip (GetByte rd)) (gret errs) else gret errs))
      (concat (map ?w vs) @ (if tag = 0xFE then [0] else [])) (map2 upd vs ?errs)"
    by (rule parses_bind)
  then have "parses ok pending p (bind_numbers rd k sz fresh upd errs) (wire_int (length vs) @ [tag] @
      concat (map ?w vs) @ (if tag = 0xFE then [0] else [])) (map2 upd vs ?errs)"
    unfolding bind_numbers_def Let_def using False assms(2)
    by (intro parses_bind [OF parses_GetInt_compressed]) (auto intro!: parses_GetByte_bind)
  with False show ?thesis by (simp add: wire_numbers_def)
qed

lemma parses_bind_messages:
  assumes "clr_ok p" and "\<forall>m \<in> set ms. slice_ok m \<and> length (nbytes m) < 2 ^ 32" and "length ms < 2 ^ 31"
    and "errs = [] \<or> length errs = length ms"
  shows "parses ok pending p (bind_messages rd errs) (wire_messages p tag ms)
    (if ms = [] then errs
     else map2 (\<lambda>m e. e\<lparr>errorMsg := m\<rparr>) ms (if errs = [] then replicate (length ms) zero_bind else errs))"
proof (cases "ms = []")
  case True
  have "parses ok pending p (bind_messages rd errs) (wire_int 0 @ []) errs"
    unfolding bind_messages_def by (rule parses_bind, rule parses_GetInt_compressed) (simp_all add: parses_ret)
  with True show ?thesis by (simp add: wire_messages_def)
next
  case False
  let ?errs = "if errs = [] then replicate (length ms) zero_bind else errs"
  let ?w = "\<lambda>m. wire_int (length (nbytes m)) @ wire_clr p (nbytes m) @ [0] @ [0]"
  let ?pre = "gseq (GetInt rd 2 True True) (gret ())" and ?post = "gseq (gskip (GetByte rd)) (gskip (GetByte rd))"
  have "\<exists>b c d. ?w m = b @ c @ d \<and> parses ok pending p ?pre b () \<and> parses ok pending p (GetClr rd) c m
      \<and> parses ok pending p ?post d ()" if "m \<in> set ms" for m
  proof (intro exI conjI)
    have m: "slice_ok m" "length (nbytes m) < 2 ^ 63" using that assms(2) by auto
    show "?w m = (wire_int (length (nbytes m)) @ []) @ wire_clr p (nbytes m) @ [0] @ [0]" by simp
    show "parses ok pending p ?pre (wire_int (length (nbytes m)) @ []) ()"
      by (intro parses_seq [OF parses_GetInt_compressed] parses_ret m)
    show "parses ok pending p (GetClr rd) (wire_clr p (nbytes m)) m"
      using parses_GetClr [OF assms(1), of "nbytes m"] m(1) by simp
    show "parses ok pending p ?post ([0] @ [0]) ()"
      by (rule parses_seq [OF parses_gskip [OF parses_GetByte] parses_gskip [OF parses_GetByte]])
  qed
  then have "parses ok pending p (bind_loop ?pre (GetClr rd) ?post (\<lambda>m e. e\<lparr>errorMsg := m\<rparr>) (length ms) 0 ?errs)
      (concat (map ?w ms)) (map2 (\<lambda>m e. e\<lparr>errorMsg := m\<rparr>) ms ?errs)"
    using parses_bind_loop [of ms ?w p ?pre "GetClr rd" ?post ?errs 0 "\<lambda>m e. e\<lparr>errorMsg := m\<rparr>"] assms(4) by auto
  then have "parses ok pending p (bind_messages rd errs) (wire_int (length ms) @ [tag] @ concat (map ?w ms))
      (map2 (\<lambda>m e. e\<lparr>errorMsg := m\<rparr>) ms ?errs)"
    unfolding bind_messages_def Let_def using False assms(3)
    by (intro parses_bind [OF parses_GetInt_compressed])
       (auto intro!: parses_seq [OF parses_gskip [OF parses_GetByte], of _ _ _ _ tag, simplified])
  with False show ?thesis by (simp add: wire_messages_def)
qed

lemma parses_summary_call:
  assumes "field_ok (EndOfCallStatus r)" "field_ok (EndToEndECIDSequence r)" "field_ok row" "field_ok code"
    "field_ok (arrayElmWError r)" "field_ok (arrayElmErrno r)" "field_ok (CursorID r)" "field_ok (errorPos r)"
    and "\<not> eos \<longrightarrow> EndOfCallStatus r = EndOfCallStatus z"
    and "\<not> (ver \<ge> 3 \<and> fsap) \<longrightarrow> EndToEndECIDSequence r = EndToEndECIDSequence z"
  shows "parses ok pending p (summary_call rd (ver, eos, fsap) z) (wire_call (ver, eos, fsap) row code r)
    (z\<lparr>EndOfCallStatus := EndOfCallStatus r, EndToEndECIDSequence := EndToEndECIDSequence r, CurRowNumber := row,
       RetCode := code, arrayElmWError := arrayElmWError r, arrayElmErrno := arrayElmErrno r,
       CursorID := CursorID r, errorPos := errorPos r, sqlType := sqlType r, oerFatal := oerFatal r\<rparr>)"
proof -
  let ?z = "z\<lparr>EndOfCallStatus := EndOfCallStatus r\<rparr>"
  have 1: "parses ok pending p (if eos then int_field rd 4 (\<lambda>v r. r\<lparr>EndOfCallStatus := v\<rparr>) z else gret z)
      (if eos then wire_nat (EndOfCallStatus r) else []) ?z"
    using assms(1,9) by (intro parses_opt_field [where upd = "\<lambda>v r. r\<lparr>EndOfCallStatus := v\<rparr>"]) simp_all
  have 2: "parses ok pending p (if ver \<ge> 3 \<and> fsap then int_field rd 2 (\<lambda>v r. r\<lparr>EndToEndECIDSequence := v\<rparr>) ?z else gret ?z)
      (if ver \<ge> 3 \<and> fsap then wire_nat (EndToEndECIDSequence r) else [])
      (?z\<lparr>EndToEndECIDSequence := EndToEndECIDSequence r\<rparr>)"
    using assms(2,10) by (intro parses_opt_field [where upd = "\<lambda>v r. r\<lparr>EndToEndECIDSequence := v\<rparr>"]) simp_all
  show ?thesis
    unfolding summary_call_def wire_call_def prod.case
    by (rule parses_bind [OF 1], rule parses_bind [OF 2],
        rule parses_bind [OF parses_int_field [OF assms(3)]], rule parses_bind [OF parses_int_field [OF assms(4)]],
        rule parses_bind [OF parses_int_field [OF assms(5)]], rule parses_bind [OF parses_int_field [OF assms(6)]],
        rule parses_bind [OF parses_int_field [OF assms(7)]], rule parses_bind [OF parses_int_field [OF assms(8)]],
        rule parses_bind [OF parses_byte_field], rule parses_byte_field)
qed

lemma parses_summary_flags:
  assumes "field_ok (Flags r)" "field_ok (userCursorOPT r)" and "ver < 4 \<longrightarrow> Flags r < 256 \<and> userCursorOPT r < 256"
  shows "parses ok pending p (summary_flags rd ver z) (wire_flags ver r)
    (z\<lparr>Flags := Flags r, userCursorOPT := userCursorOPT r, upiParam := upiParam r, warningFlag := warningFlag r\<rparr>)"
proof -
  let ?z = "z\<lparr>Flags := Flags r, userCursorOPT := userCursorOPT r\<rparr>"
  have "parses ok pending p (if ver \<ge> 4
      then gbind (int_field rd 2 (\<lambda>v r. r\<lparr>Flags := v\<rparr>) z) (int_field rd 2 (\<lambda>v r. r\<lparr>userCursorOPT := v\<rparr>))
      else gbind (byte_field rd (\<lambda>v r. r\<lparr>Flags := uint v\<rparr>) z) (byte_field rd (\<lambda>v r. r\<lparr>userCursorOPT := uint v\<rparr>)))
      (if ver \<ge> 4 then wire_nat (Flags r) @ wire_nat (userCursorOPT r)
       else [word_of_int (Flags r)] @ [word_of_int (userCursorOPT r)]) ?z"
  proof (cases "ver \<ge> 4")
    case True
    have "parses ok pending p
        (gbind (int_field rd 2 (\<lambda>v r. r\<lparr>Flags := v\<rparr>) z) (int_field rd 2 (\<lambda>v r. r\<lparr>userCursorOPT := v\<rparr>)))
        (wire_nat (Flags r) @ wire_nat (userCursorOPT r)) ?z"
      by (rule parses_bind [OF parses_int_field [OF assms(1)]]) (rule parses_int_field [OF assms(2)])
    with True show ?thesis by simp
  next
    case False
    have "parses ok pending p
        (gbind (byte_field rd (\<lambda>v r. r\<lparr>Flags := uint v\<rparr>) z) (byte_field rd (\<lambda>v r. r\<lparr>userCursorOPT := uint v\<rparr>)))
        ([a] @ [b]) (z\<lparr>Flags := uint a, userCursorOPT := uint b\<rparr>)" for a b
      by (rule parses_bind [OF parses_byte_field]) (rule parses_byte_field)
    from this [of "word_of_int (Flags r)" "word_of_int (userCursorOPT r)"]
    show ?thesis
      unfolding if_not_P [OF False]
      using False byte_field_value [OF assms(1)] byte_field_value [OF assms(2)] assms(3) by (simp add: not_le)
  qed
  then show ?thesis
    unfolding summary_flags_def wire_flags_def
    by (rule parses_bind) (rule parses_bind [OF parses_byte_field], rule parses_byte_field)
qed

lemma parses_summary_position:
  assumes "field_ok (rba r)" "field_ok (partitionID r)" "field_ok (blockNumber r)" "field_ok (slotNumber r)"
    "field_ok (osError r)" "field_ok (pad1 r)" "field_ok (successIter r)"
  shows "parses ok pending p (summary_position rd z) (wire_position r)
    (z\<lparr>rba := rba r, partitionID := partitionID r, tableID := tableID r, blockNumber := blockNumber r,
       slotNumber := slotNumber r, osError := osError r, stmtNumber := stmtNumber r, callNumber := callNumber r,
       pad1 := pad1 r, successIter := successIter r\<rparr>)"
  unfolding summary_position_def wire_position_def
  by (rule parses_bind [OF parses_int_field [OF assms(1)]], rule parses_bind [OF parses_int_field [OF assms(2)]],
      rule parses_bind [OF parses_byte_field], rule parses_bind [OF parses_int_field [OF assms(3)]],
      rule parses_bind [OF parses_int_field [OF assms(4)]], rule parses_bind [OF parses_int_field [OF assms(5)]],
      rule parses_bind [OF parses_byte_field], rule parses_bind [OF parses_byte_field],
      rule parses_bind [OF parses_int_field [OF assms(6)]], rule parses_int_field [OF assms(7)])

lemma bind_errors_rebuilt:
  "map2 (\<lambda>m e. e\<lparr>errorMsg := m\<rparr>) (map errorMsg es)
     (map2 (\<lambda>v e. e\<lparr>rowOffset := v\<rparr>) (map rowOffset es)
       (map2 (\<lambda>v e. e\<lparr>errorCode := v\<rparr>) (map errorCode es) (replicate (length es) zero_bind))) = es"
  by (induction es) (auto simp: zero_bind_def)

lemma parses_summary_binds:
  assumes "clr_ok p" and "list_all bind_ok (bindErrors r)" and "length (bindErrors r) < 2 ^ 31"
    and "length ds = 4" and "list_all (\<lambda>d. length d < 2 ^ 32) ds" and "field_ok (RetCode r)" "field_ok (CurRowNumber r)"
  shows "parses ok pending p (summary_binds rd ver z) (wire_binds p ver tag ds r)
    (if ver < 7 then z
     else z\<lparr>bindErrors := bindErrors r, RetCode := RetCode r, CurRowNumber := CurRowNumber r\<rparr>)"
proof -
  let ?es = "bindErrors r"
  have dlc: "parses ok pending p (gskip (GetDlc rd)) (wire_dlc p (ds ! i)) ()" if "i < 4" for i
    using that assms(4,5) by (intro parses_gskip [OF parses_GetDlc [OF assms(1)]]) (simp add: list_all_length)
  have old: "parses ok pending p (gseq (gskip (GetDlc rd)) (gseq (gskip (GetDlc rd)) (gseq (gskip (GetDlc rd)) (gret z))))
      (wire_dlc p (ds ! 1) @ wire_dlc p (ds ! 2) @ wire_dlc p (ds ! 3)) z"
    using parses_seq [OF dlc [of 1] parses_seq [OF dlc [of 2] parses_seq [OF dlc [of 3] parses_ret]]] by simp
  define e1 where "e1 = map2 (\<lambda>v e. e\<lparr>errorCode := v\<rparr>) (map errorCode ?es) (replicate (length ?es) zero_bind)"
  define e2 where "e2 = map2 (\<lambda>v e. e\<lparr>rowOffset := v\<rparr>) (map rowOffset ?es) e1"
  have len: "length e1 = length ?es" "length e2 = length ?es" by (simp_all add: e1_def e2_def)
  have e3: "map2 (\<lambda>m e. e\<lparr>errorMsg := m\<rparr>) (map errorMsg ?es) e2 = ?es"
    unfolding e1_def e2_def by (rule bind_errors_rebuilt)
  have b1: "parses ok pending p (bind_numbers rd 2 2 True (\<lambda>v e. e\<lparr>errorCode := v\<rparr>) [])
      (wire_numbers p tag (map errorCode ?es)) e1"
    using parses_bind_numbers [of "map errorCode ?es" True "[]" p 2 2 "\<lambda>v e. e\<lparr>errorCode := v\<rparr>" tag] assms(2,3)
    by (auto simp: e1_def list_all_iff bind_ok_def split: if_splits)
  have b2: "parses ok pending p (bind_numbers rd 4 4 False (\<lambda>v e. e\<lparr>rowOffset := v\<rparr>) e1)
      (wire_numbers p tag (map rowOffset ?es)) e2"
    using parses_bind_numbers [of "map rowOffset ?es" False e1 p 4 4 "\<lambda>v e. e\<lparr>rowOffset := v\<rparr>" tag] assms(2,3) len
    by (auto simp: e2_def list_all_iff bind_ok_def split: if_splits)
  have b3: "parses ok pending p (bind_messages rd e2) (wire_messages p tag (map errorMsg ?es)) ?es"
    using parses_bind_messages [OF assms(1), of "map errorMsg ?es" e2 tag] assms(2,3) len e3
    by (auto simp: list_all_iff bind_ok_def split: if_splits)
  show ?thesis
  proof (cases "ver < 7")
    case True
    with parses_seq [OF dlc [of 0] old] show ?thesis by (simp add: summary_binds_def wire_binds_def)
  next
    case False
    have "parses ok pending p (summary_binds rd ver z) (wire_binds p ver tag ds r)
        (z\<lparr>bindErrors := ?es, RetCode := RetCode r, CurRowNumber := CurRowNumber r\<rparr>)"
      unfolding summary_binds_def wire_binds_def if_not_P [OF False]
      by (rule parses_seq [OF dlc [of 0]], simp, rule parses_bind [OF b1], rule parses_bind [OF b2],
          rule parses_bind [OF b3], rule parses_bind [OF parses_int_field [OF assms(6)]],
          rule parses_int_field [OF assms(7)])
    with False show ?thesis by simp
  qed
qed

lemma parses_summary_message:
  assumes "clr_ok p" and "slice_ok (ErrorMessage r)" and "RetCode r = 0 \<longrightarrow> ErrorMessage r = None"
  shows "parses ok pending p (summary_message rd (r\<lparr>ErrorMessage := None\<rparr>)) (wire_message p r) (reported r)"
proof -
  have "parses ok pending p (if RetCode r \<noteq> 0 then gbind (GetClr rd) (\<lambda>m. gret (r\<lparr>ErrorMessage := m\<rparr>))
      else gret (r\<lparr>ErrorMessage := None\<rparr>)) (wire_message p r) r"
    using parses_bind_ret [OF parses_GetClr [OF assms(1), of "nbytes (ErrorMessage r)"],
        of "\<lambda>m. r\<lparr>ErrorMessage := m\<rparr>"] assms(2,3) parses_ret [of ok pending p r]
    by (cases r) (auto simp: wire_message_def)
  from parses_bind_ret [OF this, of reported] show ?thesis
    by (auto simp: summary_message_def reported_eq split: if_splits)
qed

lemma parses_NewSummary_body:
  assumes "clr_ok p" and "summary_ok caps x r"
  shows "parses ok pending p (gbind (summary_call rd caps zero_summary) (\<lambda>r.
     gbind (summary_flags rd (fst caps) r) (\<lambda>r. gbind (summary_position rd r) (\<lambda>r.
     gbind (summary_binds rd (fst caps) r) (summary_message rd))))) (wire_summary caps p x r) (reported r)"
proof -
  obtain ver eos fsap where caps: "caps = (ver, eos, fsap)" by (cases caps)
  obtain row code tag ds where x: "x = (row, code, tag, ds)" by (cases x)
  note wf = assms(2) [unfolded caps x summary_ok_def prod.case]
  then have f: "ints_ok r" "field_ok row" "field_ok code" by simp_all
  note f = f(2,3) f(1) [unfolded ints_ok_def list.pred_inject, simplified]
  define z1 where "z1 = zero_summary\<lparr>EndOfCallStatus := EndOfCallStatus r, EndToEndECIDSequence := EndToEndECIDSequence r,
     CurRowNumber := row, RetCode := code, arrayElmWError := arrayElmWError r, arrayElmErrno := arrayElmErrno r,
     CursorID := CursorID r, errorPos := errorPos r, sqlType := sqlType r, oerFatal := oerFatal r\<rparr>"
  have 1: "parses ok pending p (summary_call rd caps zero_summary) (wire_call caps row code r) z1"
    unfolding z1_def caps using f wf by (intro parses_summary_call) (simp_all add: zero_summary_def)
  define z2 where "z2 = z1\<lparr>Flags := Flags r, userCursorOPT := userCursorOPT r, upiParam := upiParam r,
     warningFlag := warningFlag r\<rparr>"
  have 2: "parses ok pending p (summary_flags rd (fst caps) z1) (wire_flags (fst caps) r) z2"
    unfolding z2_def caps fst_conv using f wf by (intro parses_summary_flags) simp_all
  define z3 where "z3 = z2\<lparr>rba := rba r, partitionID := partitionID r, tableID := tableID r,
     blockNumber := blockNumber r, slotNumber := slotNumber r, osError := osError r, stmtNumber := stmtNumber r,
     callNumber := callNumber r, pad1 := pad1 r, successIter := successIter r\<rparr>"
  have 3: "parses ok pending p (summary_position rd z2) (wire_position r) z3"
    unfolding z3_def using f by (intro parses_summary_position) simp_all
  have 4: "parses ok pending p (summary_binds rd (fst caps) z3) (wire_binds p (fst caps) tag ds r)
      (if ver < 7 then z3 else z3\<lparr>bindErrors := bindErrors r, RetCode := RetCode r, CurRowNumber := CurRowNumber r\<rparr>)"
    unfolding caps fst_conv using f wf by (intro parses_summary_binds assms(1)) simp_all
  have 5: "(if ver < 7 then z3 else z3\<lparr>bindErrors := bindErrors r, RetCode := RetCode r, CurRowNumber := CurRowNumber r\<rparr>)
      = r\<lparr>ErrorMessage := None\<rparr>"
    using wf by (cases r) (simp add: z1_def z2_def z3_def zero_summary_def)
  have 6: "parses ok pending p (summary_message rd (r\<lparr>ErrorMessage := None\<rparr>)) (wire_message p r) (reported r)"
    using wf by (intro parses_summary_message assms(1)) simp_all
  show ?thesis
    unfolding wire_summary_def x prod.case
    by (rule parses_bind [OF 1], rule parses_bind [OF 2], rule parses_bind [OF 3],
        rule parses_bind [OF 4 [unfolded 5]], rule 6)
qed

text \<open>
  A server that reports fewer error codes than row offsets: everything up to the second list.
\<close>

lemma NewSummary_panics:
  assumes "clr_ok (props s)" and "summary_ok (session_caps s) (row, code, tag, ds) r" and "7 \<le> TTCVersion s" and "ok s"
    and "codes \<noteq> []" "list_all field_ok codes" "list_all field_ok offs" "length codes < length offs" "length offs < 2 ^ 31"
    and "pending s = (wire_call (session_caps s) row code r @ wire_flags (TTCVersion s) r @ wire_position r @
      wire_dlc (props s) (ds ! 0) @ wire_numbers (props s) tag codes @ wire_numbers (props s) tag offs) @ rest"
  shows "\<exists>s'. NewSummary rd s = Some (Panic, s')"
proof -
  let ?p = "props s" and ?z = "zero_summary"
  obtain ver eos fsap where caps: "session_caps s = (ver, eos, fsap)" by (cases "session_caps s")
  then have v: "TTCVersion s = ver" "\<not> ver < 7" using assms(3) by (auto simp: session_caps_def)
  note wf = assms(2) [unfolded caps summary_ok_def prod.case]
  then have f: "ints_ok r" "field_ok row" "field_ok code" by simp_all
  note f = f(2,3) f(1) [unfolded ints_ok_def list.pred_inject, simplified]
  obtain z1 where 1: "parses ok pending ?p (summary_call rd (ver, eos, fsap) ?z) (wire_call (ver, eos, fsap) row code r) z1"
    using parses_summary_call [of r row code eos ?z ver fsap ?p] f wf by (fastforce simp: zero_summary_def)
  obtain z2 where 2: "parses ok pending ?p (summary_flags rd ver z1) (wire_flags ver r) z2"
    using parses_summary_flags [of r ver ?p z1] f wf by blast
  obtain z3 where 3: "parses ok pending ?p (summary_position rd z2) (wire_position r) z3"
    using parses_summary_position [of r ?p z2] f by blast
  have 4: "parses ok pending ?p (gskip (GetDlc rd)) (wire_dlc ?p (ds ! 0)) ()"
    using wf by (intro parses_gskip [OF parses_GetDlc [OF assms(1)]]) (auto simp: list_all_length)
  define e1 where "e1 = map2 (\<lambda>v e. e\<lparr>errorCode := v\<rparr>) codes (replicate (length codes) zero_bind)"
  have 5: "parses ok pending ?p (bind_numbers rd 2 2 True (\<lambda>v e. e\<lparr>errorCode := v\<rparr>) []) (wire_numbers ?p tag codes) e1"
    using parses_bind_numbers [of codes True "[]" ?p 2 2 "\<lambda>v e. e\<lparr>errorCode := v\<rparr>" tag] assms(5-9) by (simp add: e1_def)
  have 6: "panics ok pending ?p (bind_numbers rd 4 4 False (\<lambda>v e. e\<lparr>rowOffset := v\<rparr>) e1) (wire_numbers ?p tag offs)"
    using assms(5-9) by (intro panics_bind_numbers) (auto simp: e1_def)
  have 7: "panics ok pending ?p (summary_binds rd ver z3)
      (wire_dlc ?p (ds ! 0) @ wire_numbers ?p tag codes @ wire_numbers ?p tag offs @ [])"
    unfolding summary_binds_def if_not_P [OF v(2)]
    by (rule panics_seq [OF 4], rule panics_bind [OF 5], rule panics_first [OF 6])
  have "panics ok pending ?p (gbind (summary_call rd (ver, eos, fsap) zero_summary) (\<lambda>r.
     gbind (summary_flags rd ver r) (\<lambda>r. gbind (summary_position rd r) (\<lambda>r.
     gbind (summary_binds rd ver r) (summary_message rd)))))
     (wire_call (ver, eos, fsap) row code r @ wire_flags ver r @ wire_position r @
      (wire_dlc ?p (ds ! 0) @ wire_numbers ?p tag codes @ wire_numbers ?p tag offs @ []) @ [])"
    by (rule panics_bind [OF 1], rule panics_bind [OF 2], rule panics_bind [OF 3], rule panics_first [OF 7])
  with assms(4,10) caps v(1) show ?thesis
    by (simp add: NewSummary_def panics_def gget_def)
qed

lemma parses_NewWarningObject:
  assumes "clr_ok p" and "field_ok code" and "field_ok fl" and "length msg < 2 ^ 63"
  shows "parses ok pending p (NewWarningObject rd)
    (wire_nat code @ wire_int (length msg) @ wire_nat fl @ (if code = 0 \<or> msg = [] then [] else wire_clr p msg))
    (if code = 0 \<or> msg = [] then None else Some \<lparr>retCode = code, wflag = fl, errorMessage = msg\<rparr>)"
  unfolding NewWarningObject_def
  using assms parses_bind_ret [OF parses_GetClr [OF assms(1), of msg], where f = "\<lambda>m. Some \<lparr>retCode = code,
    wflag = fl, errorMessage = (case m of None \<Rightarrow> [] | Some m \<Rightarrow> m)\<rparr>"]
  by (intro parses_bind [OF number_item_parses(2)] parses_bind [OF parses_GetInt_compressed])
     (auto simp: parses_ret nslice_of_def split: if_splits)

lemma NewSummary_parses:
  assumes "clr_ok (props s)" and "summary_ok (session_caps s) x r" and "ok s"
    and "pending s = wire_summary (session_caps s) (props s) x r @ rest"
  shows "\<exists>s'. NewSummary rd s = Some (Ok (reported r), s') \<and> ok s' \<and> pending s' = rest"
  using parses_NewSummary_body [OF assms(1,2)] assms(3,4)
  unfolding NewSummary_def parses_def gget_def by fastforce

end

interpretation net_sum: net_reader "net_read ops" net_ok net_pending for ops :: "'n nego_ops"
  by unfold_locales

section \<open>Summaries and warnings over the network\<close>

text \<open>
  C21. The summary at the end of a call, in the layout of the session's capabilities and version (with or
  without end-of-call status and ECID sequence, one- or two-byte flags, with or without bind errors, either
  list encoding), is read back field by field by \<open>NewSummary\<close> from the data packets of the connection, however
  they are cut; what follows it stays unread. The only rewritten field: an array error 24381 is reported as the
  code and message of its first bind error.
\<close>

theorem summary_parsed:
  fixes s :: "'n session"
  assumes "net_ok s" and "clr_ok (props s)" and "summary_ok (session_caps s) x r"
    and "net_pending s = wire_summary (session_caps s) (props s) x r @ rest"
  shows "\<exists>s'. NewSummary (net_read ops) s = Some (Ok (reported r), s') \<and> net_pending s' = rest"
  using net_sum.NewSummary_parses [OF assms(2,3,1,4), of ops] by blast

text \<open>A session of version 7 with the bytes to read in its buffer.\<close>

definition reading :: "byte list \<Rightarrow> unit session" where
  "reading bs = (sample_session [])\<lparr>inBuffer := new_buffer bs, TTCVersion := 7, HasEOSCapability := True\<rparr>"

definition sample_props :: session_props where
  "sample_props = props (NewSession sample_config :: unit session)"

definition sample_summary :: summary_object where
  "sample_summary = zero_summary\<lparr>EndOfCallStatus := 1, RetCode := 24381, CursorID := 300, ErrorMessage := Some [79],
     bindErrors := [\<lparr>errorCode = 1, rowOffset = 2, errorMsg = Some [82, 65]\<rparr>,
                    \<lparr>errorCode = 1400, rowOffset = 70000, errorMsg = None\<rparr>]\<rparr>"

lemma reading_ok:
  "net_ok (reading bs)" "clr_ok (props (reading bs))" "session_caps (reading bs) = (7, True, False)"
  "net_pending (reading bs) = bs" "TTCVersion (reading bs) = 7" "props (reading bs) = sample_props"
  by (simp_all add: sample_props_def reading_def sample_session_def NewSession_def net_ok_def net_pending_def opened_def clean_def
      stream_def clr_ok_def session_caps_def new_buffer_def NewSessionContext_def zero_context_def)

theorem summary_parsed_witness:
  "\<exists>s'. NewSummary (net_read plain_ops) (reading (wire_summary (7, True, False) sample_props (0, 0, 0xFE, [[], [], [], []])
      sample_summary @ [9]))
     = Some (Ok (sample_summary\<lparr>RetCode := 1, ErrorMessage := Some [82, 65]\<rparr>), s') \<and> net_pending s' = [9]"
proof -
  have "summary_ok (7, True, False) (0, 0, 0xFE, [[], [], [], []]) sample_summary"
    by (simp add: summary_ok_def sample_summary_def zero_summary_def ints_ok_def field_ok_def bind_ok_def
        slice_ok_def nbytes_def)
  moreover have "reported sample_summary = sample_summary\<lparr>RetCode := 1, ErrorMessage := Some [82, 65]\<rparr>"
    by (simp add: reported_def sample_summary_def)
  ultimately show ?thesis
    using summary_parsed [OF reading_ok(1,2), of _ "(0, 0, 0xFE, [[], [], [], []])" sample_summary "[9]" plain_ops]
    by (simp add: reading_ok)
qed



text \<open>
  A warning is read as its code, flag and message; one with code 0 or an empty message is dropped, and then
  its message is not read at all.
\<close>

theorem warning_parsed:
  fixes s :: "'n session"
  assumes "net_ok s" and "clr_ok (props s)" and "field_ok code" and "field_ok fl" and "length msg < 2 ^ 63"
    and "net_pending s = (wire_nat code @ wire_int (length msg) @ wire_nat fl
      @ (if code = 0 \<or> msg = [] then [] else wire_clr (props s) msg)) @ rest"
  shows "\<exists>s'. NewWarningObject (net_read ops) s = Some (Ok (if code = 0 \<or> msg = [] then None
      else Some \<lparr>retCode = code, wflag = fl, errorMessage = msg\<rparr>), s') \<and> net_pending s' = rest"
  using net_sum.parses_NewWarningObject [OF assms(2-5), of ops] assms(1,6) unfolding parses_def by blast

theorem warning_parsed_witness:
  "\<exists>s'. NewWarningObject (net_read plain_ops) (reading ((wire_nat 24344 @ wire_int (length [79, 75 :: byte]) @ wire_nat 1 @ wire_clr sample_props [79, 75]) @ [3]))
     = Some (Ok (Some \<lparr>retCode = 24344, wflag = 1, errorMessage = [79, 75]\<rparr>), s') \<and> net_pending s' = [3]"
  using warning_parsed [OF reading_ok(1,2), of 24344 1 "[79, 75]" _ "[3]" plain_ops]
  by (simp add: reading_ok field_ok_def)

section \<open>Oracle errors\<close>

definition error_digits :: "byte list \<Rightarrow> byte list" where
  "error_digits m = takeWhile (\<lambda>b. b = 45 \<or> is_digit b) (drop 4 m)"

lemma known_messages_codes:
  "list_all (\<lambda>(c, m). take 4 (ascii m) = ascii ''ORA-'' \<and> ParseInt (error_digits (ascii m)) 64 = Ok c) known_messages"
  unfolding known_messages_def list.pred_inject prod.case
  by (intro conjI TrueI) (simp_all add: ascii_def error_digits_def ParseInt_def dec_val_def is_digit_def)

lemma FormatInt_chars: "takeWhile (\<lambda>b. b = 45 \<or> is_digit b) (FormatInt c) = FormatInt c"
  using dec_digits_digits by (auto simp: FormatInt_def takeWhile_eq_all_conv list_all_iff)

lemma translated_text:
  assumes "- (2 ^ 63) \<le> c" and "c < 2 ^ 63"
  defines "m \<equiv> ErrMsg (translate (NewOracleError c))"
  shows "take 4 m = ascii ''ORA-'' \<and> ParseInt (error_digits m) 64 = Ok c"
proof (cases "map_of known_messages c")
  case None
  then have m: "m = ascii ''ORA-'' @ FormatInt c" by (simp add: m_def translate_def NewOracleError_def)
  moreover have "ParseInt (FormatInt c) 64 = Ok c" using assms(1,2) by (intro ParseInt_FormatInt) simp_all
  ultimately show ?thesis by (simp add: error_digits_def FormatInt_chars ascii_def)
next
  case (Some t)
  then have "(c, t) \<in> set known_messages" by (rule map_of_SomeD)
  moreover have "m = ascii t" using Some by (simp add: m_def translate_def NewOracleError_def)
  ultimately show ?thesis using known_messages_codes by (auto simp: list_all_iff)
qed

text \<open>
  The text of an error made from a bare code carries that code: behind the prefix \<open>ORA-\<close> stands a decimal
  number, closed by a colon or the end of the text, that reads back as the code; asking for the text again
  gives the same text. This holds for the codes with a known message and for all others.
\<close>

theorem Error_carries_code:
  assumes "- (2 ^ 63) \<le> c" and "c < 2 ^ 63"
  shows "take 4 (fst (Error (NewOracleError c))) = ascii ''ORA-''
    \<and> ParseInt (error_digits (fst (Error (NewOracleError c)))) 64 = Ok c
    \<and> Error (snd (Error (NewOracleError c))) = Error (NewOracleError c)"
proof -
  let ?e = "translate (NewOracleError c)"
  have "errPos ?e = - 1" by (simp add: translate_def NewOracleError_def)
  moreover have "ErrMsg ?e \<noteq> []" using translated_text [OF assms] by (auto simp: ascii_def)
  ultimately have "Error (NewOracleError c) = (ErrMsg ?e, ?e)" "Error ?e = (ErrMsg ?e, ?e)"
    by (simp_all add: Error_def Let_def NewOracleError_def)
  with translated_text [OF assms] show ?thesis by simp
qed

theorem Error_carries_code_witness:
  "ParseInt (error_digits (fst (Error (NewOracleError 942)))) 64 = Ok 942
   \<and> ParseInt (error_digits (fst (Error (NewOracleError 1)))) 64 = Ok 1"
  using Error_carries_code [of 942] Error_carries_code [of 1] by simp

end
