(* ===== verification/Nego_Comm.thy ===== *)
theory Nego_Comm
  imports TNS_Session_Props
begin

text \<open>
  \<^verbatim>\<open>advanced_nego/comm.go\<close>: the sub-packets of the advanced negotiation, each a header of two 16-bit
  numbers (length and type) and a body, written to and read from a session with the fixed-width integers
  of the TTC layer; and what is lost when a header does not have the expected type.
\<close>

section \<open>Headers\<close>

definition go_int :: "int \<Rightarrow> go_number" where
  "go_int v = IntN (word_of_int v)"

definition writePacketHeader :: "int \<Rightarrow> int \<Rightarrow> ('z basic_session_scheme, unit) gom" where
  "writePacketHeader len ty =
     gseq (PutInt (go_int len) 2 True False) (PutInt (go_int ty) 2 True False)"

definition validatePacketHeader :: "int \<Rightarrow> int \<Rightarrow> unit res" where
  "validatePacketHeader len ty =
     (if ty < 0 \<or> ty > 7 then Err NegoInvalidHeader
      else if ty = 0 \<or> ty = 1 then Ok ()
      else if ty = 2 then (if len > 1 then Err NegoInvalidHeader else Ok ())
      else if ty = 3 \<or> ty = 6 then (if len > 2 then Err NegoInvalidHeader else Ok ())
      else if ty = 4 \<or> ty = 5 then (if len > 4 then Err NegoInvalidHeader else Ok ())
      else if ty = 7 then (if len < 10 then Err NegoInvalidHeader else Ok ())
      else Err NegoInvalidHeader)"

definition gres :: "'a res \<Rightarrow> ('s, 'a) gom" where
  "gres r = (\<lambda>s. Some (r, s))"

definition readPacketHeader :: "'z terminal \<Rightarrow> int \<Rightarrow> ('z basic_session_scheme, int) gom" where
  "readPacketHeader rd ty =
     gbind (GetInt rd 2 False True) (\<lambda>len.
     gbind (GetInt rd 2 False True) (\<lambda>received.
       if received \<noteq> ty then gerr (NegoTypeMismatch received ty)
       else gseq (gres (validatePacketHeader len received)) (gret len)))"

section \<open>Values\<close>

definition readUB1 :: "'z terminal \<Rightarrow> ('z basic_session_scheme, byte) gom" where
  "readUB1 rd = gseq (readPacketHeader rd 2) (GetByte rd)"

definition writeUB1 :: "byte \<Rightarrow> ('z basic_session_scheme, unit) gom" where
  "writeUB1 number = gseq (writePacketHeader 1 2) (PutBytes [number])"

text \<open>The error of the header is overwritten by that of the number in these two.\<close>

definition readUB2 :: "'z terminal \<Rightarrow> ('z basic_session_scheme, int) gom" where
  "readUB2 rd = gseq (gignore (readPacketHeader rd 3)) (GetInt rd 2 False True)"

definition writeUB2 :: "int \<Rightarrow> ('z basic_session_scheme, unit) gom" where
  "writeUB2 number = gseq (writePacketHeader 2 3) (PutInt (go_int number) 2 True False)"

definition readUB4 :: "'z terminal \<Rightarrow> ('z basic_session_scheme, int) gom" where
  "readUB4 rd = gseq (gignore (readPacketHeader rd 4)) (GetInt rd 4 False True)"

definition writeUB4 :: "int \<Rightarrow> ('z basic_session_scheme, unit) gom" where
  "writeUB4 number = gseq (writePacketHeader 4 4) (PutInt (go_int number) 4 True False)"

definition readString :: "'z terminal \<Rightarrow> ('z basic_session_scheme, byte list) gom" where
  "readString rd = gbind (readPacketHeader rd 0) (GetBytes rd)"

definition writeString :: "byte list \<Rightarrow> ('z basic_session_scheme, unit) gom" where
  "writeString input = gseq (writePacketHeader (int (length input)) 0) (PutBytes input)"

definition writeStatus :: "int \<Rightarrow> ('z basic_session_scheme, unit) gom" where
  "writeStatus status = gseq (writePacketHeader 2 6) (PutInt (go_int status) 2 True False)"

definition readStatus :: "'z terminal \<Rightarrow> ('z basic_session_scheme, int) gom" where
  "readStatus rd = gseq (readPacketHeader rd 6) (GetInt rd 2 False True)"

definition readVersion :: "'z terminal \<Rightarrow> ('z basic_session_scheme, u32) gom" where
  "readVersion rd = gseq (readPacketHeader rd 5)
     (gbind (GetInt rd 4 False True) (\<lambda>version. gret (word_of_int version)))"

definition writeVersion :: "u32 \<Rightarrow> ('z basic_session_scheme, unit) gom" where
  "writeVersion version = gseq (writePacketHeader 4 5) (PutInt (Uint32 version) 4 True False)"

definition readBytes :: "'z terminal \<Rightarrow> ('z basic_session_scheme, byte list) gom" where
  "readBytes rd = gbind (readPacketHeader rd 1) (GetBytes rd)"

definition writeBytes :: "byte list \<Rightarrow> ('z basic_session_scheme, unit) gom" where
  "writeBytes input = gseq (writePacketHeader (int (length input)) 1) (PutBytes input)"

primrec read_ub2s :: "'z terminal \<Rightarrow> nat \<Rightarrow> ('z basic_session_scheme, int list) gom" where
  "read_ub2s rd 0 = gret []"
| "read_ub2s rd (Suc k) = gbind (GetInt rd 2 False True) (\<lambda>v. gbind (read_ub2s rd k) (\<lambda>vs. gret (v # vs)))"

definition readUB2Array :: "'z terminal \<Rightarrow> ('z basic_session_scheme, int list) gom" where
  "readUB2Array rd =
     gseq (readPacketHeader rd 1)
    (gbind (GetInt64 rd 4 False True) (\<lambda>num1.
     gbind (GetInt rd 2 False True) (\<lambda>num2.
     gbind (GetInt rd 4 False True) (\<lambda>size.
       if num1 \<noteq> 0xDEADBEEF \<or> num2 \<noteq> 3 then gerr NegoSupervisor
       else read_ub2s rd (nat size)))))"

primrec write_ub2s :: "int list \<Rightarrow> ('z basic_session_scheme, unit) gom" where
  "write_ub2s [] = gret ()"
| "write_ub2s (v # vs) = gseq (PutInt (go_int v) 2 True False) (write_ub2s vs)"

definition writeUB2Array :: "int list \<Rightarrow> ('z basic_session_scheme, unit) gom" where
  "writeUB2Array input =
     gseq (writePacketHeader (10 + int (length input) * 2) 1)
    (gseq (PutInt (Uint64 0xDEADBEEF) 4 True False)
    (gseq (PutInt (go_int 3) 2 True False)
    (gseq (PutInt (go_int (int (length input))) 4 True False)
          (write_ub2s input))))"

section \<open>Fixed-width integers\<close>

lemma emits_fixed:
  assumes "int64_of_number num = Some w" and "sz = 2 \<or> sz = 4"
  shows "emits p (PutInt num sz True False) (be_enc (unat sz) (unat w))"
  using assms by (auto simp: PutInt_def fixed_int_def emits_emit)

lemma emits_go_int:
  assumes "0 \<le> v" and "v < 2 ^ 63" and "sz = 2 \<or> sz = 4"
  shows "emits p (PutInt (go_int v) sz True False) (be_enc (unat sz) (nat v))"
proof -
  have "unat (word_of_int v :: u64) = nat v"
    using assms(1,2) by (simp add: unsigned_of_int take_bit_int_eq_self unat_eq_nat_uint)
  then show ?thesis using emits_fixed [of "go_int v" "word_of_int v" sz p] assms(3) by (simp add: go_int_def)
qed

context terminal_reader
begin

lemma parses_GetInt64_fixed:
  assumes "n < 256 ^ nat k" and "k = 2 \<or> k = 4"
  shows "parses ok pending p (GetInt64 rd k False True) (be_enc (nat k) n) (int n)"
proof -
  have "n < 2 ^ 63" using assms by auto
  then have "sint (of_nat n :: u64) = int n"
    using to_i64_id [of "int n"] by (simp add: to_i64_def)
  then have "int64_of_bytes (nat k) True (be_enc (nat k) n) = int n"
    using assms by (auto simp: int64_of_bytes_be be_dec_enc)
  then show ?thesis
    unfolding GetInt64_def int_header_def using assms(2)
    by (auto intro!: parses_bindI [OF parses_GetBytes parses_retI])
qed

lemma parses_GetInt_fixed:
  "n < 256 ^ nat k \<Longrightarrow> k = 2 \<or> k = 4 \<Longrightarrow> parses ok pending p (GetInt rd k False True) (be_enc (nat k) n) (int n)"
  using parses_bind_ret [OF parses_GetInt64_fixed, where f = "\<lambda>x. x"] by (simp add: GetInt_def)

lemma parses_header:
  assumes "len < 65536" and "ty < 65536" and "validatePacketHeader (int len) (int ty) = Ok ()"
  shows "parses ok pending p (readPacketHeader rd (int ty)) (be_enc 2 len @ be_enc 2 ty) (int len)"
proof -
  have "parses ok pending p (gbind (GetInt rd 2 False True) (\<lambda>received.
      if received \<noteq> int ty then gerr (NegoTypeMismatch received (int ty))
      else gseq (gres (validatePacketHeader (int len) received)) (gret (int len)))) (be_enc 2 ty @ []) (int len)"
    using parses_GetInt_fixed [of ty 2 p] assms(2,3)
    by (intro parses_bind [where a = "int ty"]) (simp_all add: parses_def gseq_def gres_def gret_def)
  then show ?thesis
    unfolding readPacketHeader_def using parses_GetInt_fixed [of len 2 p] assms(1)
    by (intro parses_bind [where a = "int len"]) simp_all
qed

lemma parses_read_ub2s:
  "list_all (\<lambda>v. 0 \<le> v \<and> v < 65536) vs \<Longrightarrow>
   parses ok pending p (read_ub2s rd (length vs)) (concat (map (\<lambda>v. be_enc 2 (nat v)) vs)) vs"
proof (induction vs)
  case (Cons v vs)
  have v: "parses ok pending p (GetInt rd 2 False True) (be_enc 2 (nat v)) v"
    using parses_GetInt_fixed [of "nat v" 2 p] Cons.prems by (simp add: nat_less_iff)
  from Cons have "parses ok pending p (read_ub2s rd (length vs)) (concat (map (\<lambda>v. be_enc 2 (nat v)) vs)) vs" by simp
  from parses_bind_ret [OF this, of "Cons v"]
  have "parses ok pending p (gbind (GetInt rd 2 False True) (\<lambda>v. gbind (read_ub2s rd (length vs)) (\<lambda>vs. gret (v # vs))))
      (be_enc 2 (nat v) @ concat (map (\<lambda>v. be_enc 2 (nat v)) vs)) (v # vs)"
    by (rule parses_bind [OF v])
  then show ?case by simp
qed (simp add: parses_ret)

end

lemma emits_header:
  assumes "0 \<le> len" "len < 2 ^ 63" "0 \<le> ty" "ty < 2 ^ 63"
  shows "emits p (writePacketHeader len ty) (be_enc 2 (nat len) @ be_enc 2 (nat ty))"
  unfolding writePacketHeader_def
  using emits_seq [OF emits_go_int [of len 2 p] emits_go_int [of ty 2 p]] assms by simp

lemma emits_write_ub2s:
  "list_all (\<lambda>v. 0 \<le> v \<and> v < 65536) vs \<Longrightarrow> emits p (write_ub2s vs) (concat (map (\<lambda>v. be_enc 2 (nat v)) vs))"
proof (induction vs)
  case (Cons v vs)
  then show ?case using emits_seq [OF emits_go_int [of v 2 p], of "write_ub2s vs"] by simp
qed (simp add: emits_ret)

text \<open>Only the low 16 bits of a number reach the wire.\<close>

lemma be_enc_mod: "be_enc k (n mod 256 ^ k) = be_enc k n"
proof (induction k arbitrary: n)
  case (Suc k)
  have "n mod (256 * 256 ^ k) div 256 = n div 256 mod 256 ^ k"
    by (simp add: mod_mult2_eq)
  moreover have "n mod (256 * 256 ^ k) mod 256 = n mod 256" by (simp add: mod_mod_cancel)
  ultimately show ?case using Suc by simp
qed simp

section \<open>The contract of a kind of sub-packet\<close>

text \<open>
  One kind of sub-packet: what \<open>send\<close> puts on the wire for an admissible value, \<open>receive\<close> takes from it. The
  contract is stated once; the kinds of \<^verbatim>\<open>comm.go\<close> are its interpretations.
\<close>

locale sub_packet =
  fixes send :: "'a \<Rightarrow> ('z basic_session_scheme, unit) gom"
    and receive :: "('n session, 'a) gom"
    and valid :: "'a \<Rightarrow> bool"
  assumes law: "valid v \<Longrightarrow> \<exists>bs. emits p (send v) bs \<and> parses net_ok net_pending p receive bs v"
begin

primrec send_all :: "'a list \<Rightarrow> ('z basic_session_scheme, unit) gom" where
  "send_all [] = gret ()"
| "send_all (v # vs) = gseq (send v) (send_all vs)"

primrec receive_all :: "nat \<Rightarrow> ('n session, 'a list) gom" where
  "receive_all 0 = gret []"
| "receive_all (Suc k) = gbind receive (\<lambda>v. gbind (receive_all k) (\<lambda>vs. gret (v # vs)))"

lemma all_law:
  "list_all valid vs \<Longrightarrow> \<exists>bs. emits p (send_all vs) bs \<and> parses net_ok net_pending p (receive_all (length vs)) bs vs"
proof (induction vs)
  case Nil
  show ?case by (intro exI [of _ "[]"]) (simp add: emits_ret parses_ret)
next
  case (Cons v vs)
  obtain bs cs where "emits p (send v) bs" and v: "parses net_ok net_pending p receive bs v"
      and "emits p (send_all vs) cs" and vs: "parses net_ok net_pending p (receive_all (length vs)) cs vs"
    using Cons law [of v p] by auto
  then have "emits p (send_all (v # vs)) (bs @ cs)" by (simp add: emits_seq)
  moreover from parses_bind_ret [OF vs, of "Cons v"]
  have "parses net_ok net_pending p (gbind receive (\<lambda>v. gbind (receive_all (length vs)) (\<lambda>vs. gret (v # vs)))) (bs @ cs) (v # vs)"
    by (rule parses_bind [OF v])
  ultimately show ?case by auto
qed

lemma roundtrip:
  assumes "valid v" and "props s = p"
  shows "\<exists>bs. send v s = Some (Ok (), s\<lparr>outBuffer := outBuffer s @ bs\<rparr>)
    \<and> (\<forall>r rest. net_ok r \<and> props r = p \<and> net_pending r = bs @ rest \<longrightarrow>
        (\<exists>r'. receive r = Some (Ok v, r') \<and> net_pending r' = rest))"
  using law [OF assms(1), of p] assms(2) unfolding emits_def parses_def by blast

end

lemma parses_net_header:
  assumes "0 \<le> len" "len < 65536" "0 \<le> ty" "ty < 65536" and "validatePacketHeader len ty = Ok ()"
  shows "parses net_ok net_pending p (readPacketHeader (net_read ops) ty) (be_enc 2 (nat len) @ be_enc 2 (nat ty)) len"
  using net.parses_header [of "nat len" "nat ty" p ops] assms by (simp add: nat_less_iff)

lemma sub_packetI:
  assumes "emits p w bs" and "parses net_ok net_pending p (f len) bs v" and "0 \<le> len" "len < 65536" "0 \<le> ty" "ty < 65536"
    and "validatePacketHeader len ty = Ok ()"
  shows "\<exists>bs. emits p (gseq (writePacketHeader len ty) w) bs
    \<and> parses net_ok net_pending p (gbind (readPacketHeader (net_read ops) ty) f) bs v"
proof (intro exI conjI)
  show "emits p (gseq (writePacketHeader len ty) w) ((be_enc 2 (nat len) @ be_enc 2 (nat ty)) @ bs)"
    using emits_seq [OF emits_header [of len ty p] assms(1)] assms(3-6) by simp
  show "parses net_ok net_pending p (gbind (readPacketHeader (net_read ops) ty) f) ((be_enc 2 (nat len) @ be_enc 2 (nat ty)) @ bs) v"
    by (rule parses_bind [OF parses_net_header [OF assms(3-7)]]) (rule assms(2))
qed

lemma sub_packet_ignoredI:
  assumes "emits p w bs" and "parses net_ok net_pending p rb bs v" and "0 \<le> len" "len < 65536" "0 \<le> ty" "ty < 65536"
    and "validatePacketHeader len ty = Ok ()"
  shows "\<exists>bs. emits p (gseq (writePacketHeader len ty) w) bs
    \<and> parses net_ok net_pending p (gseq (gignore (readPacketHeader (net_read ops) ty)) rb) bs v"
proof (intro exI conjI)
  show "emits p (gseq (writePacketHeader len ty) w) ((be_enc 2 (nat len) @ be_enc 2 (nat ty)) @ bs)"
    using emits_seq [OF emits_header [of len ty p] assms(1)] assms(3-6) by simp
  have "parses net_ok net_pending p (gignore (readPacketHeader (net_read ops) ty)) (be_enc 2 (nat len) @ be_enc 2 (nat ty)) (Some len)"
    using parses_net_header [OF assms(3-7), of p ops] unfolding parses_def by fastforce
  then show "parses net_ok net_pending p (gseq (gignore (readPacketHeader (net_read ops) ty)) rb)
      ((be_enc 2 (nat len) @ be_enc 2 (nat ty)) @ bs) v"
    unfolding gseq_def by (rule parses_bind) (rule assms(2))
qed

lemma fixed_number:
  assumes "0 \<le> v" and "v < 256 ^ nat k" and "k = 2 \<and> sz = 2 \<or> k = 4 \<and> sz = 4"
  shows "\<exists>bs. emits p (PutInt (go_int v) sz True False) bs \<and> parses net_ok net_pending p (GetInt (net_read ops) k False True) bs v"
proof (intro exI conjI)
  show "emits p (PutInt (go_int v) sz True False) (be_enc (nat k) (nat v))"
    using emits_go_int [of v sz p] assms by auto
  show "parses net_ok net_pending p (GetInt (net_read ops) k False True) (be_enc (nat k) (nat v)) v"
    using net.parses_GetInt_fixed [of "nat v" k p ops] assms by (auto simp: nat_less_iff)
qed

interpretation ub1: sub_packet writeUB1 "readUB1 (net_read ops)" "\<lambda>_. True"
  unfolding writeUB1_def readUB1_def PutBytes_def gseq_def [of "readPacketHeader _ _"]
  by unfold_locales
     (rule sub_packetI [OF emits_emit net.parses_GetByte]; simp add: validatePacketHeader_def)

interpretation ub2: sub_packet writeUB2 "readUB2 (net_read ops)" "\<lambda>v. 0 \<le> v \<and> v < 65536"
proof
  fix p v
  assume "0 \<le> v \<and> v < (65536 :: int)"
  with fixed_number [of v 2 2 p ops] show "\<exists>bs. emits p (writeUB2 v) bs \<and> parses net_ok net_pending p (readUB2 (net_read ops)) bs v"
    unfolding writeUB2_def readUB2_def by (auto intro!: sub_packet_ignoredI simp: validatePacketHeader_def)
qed

interpretation ub4: sub_packet writeUB4 "readUB4 (net_read ops)" "\<lambda>v. 0 \<le> v \<and> v < 2 ^ 32"
proof
  fix p v
  assume "0 \<le> v \<and> v < (2 ^ 32 :: int)"
  with fixed_number [of v 4 4 p ops] show "\<exists>bs. emits p (writeUB4 v) bs \<and> parses net_ok net_pending p (readUB4 (net_read ops)) bs v"
    unfolding writeUB4_def readUB4_def by (auto intro!: sub_packet_ignoredI simp: validatePacketHeader_def)
qed

interpretation status: sub_packet writeStatus "readStatus (net_read ops)" "\<lambda>v. 0 \<le> v \<and> v < 65536"
proof
  fix p v
  assume "0 \<le> v \<and> v < (65536 :: int)"
  with fixed_number [of v 2 2 p ops] show "\<exists>bs. emits p (writeStatus v) bs \<and> parses net_ok net_pending p (readStatus (net_read ops)) bs v"
    unfolding writeStatus_def readStatus_def gseq_def [of "readPacketHeader _ _"]
    by (auto intro!: sub_packetI simp: validatePacketHeader_def)
qed

interpretation text_string: sub_packet writeString "readString (net_read ops)" "\<lambda>v. length v < 65536"
  unfolding writeString_def readString_def PutBytes_def
  by unfold_locales
     (rule sub_packetI [OF emits_emit net.parses_GetBytes]; simp add: validatePacketHeader_def)

interpretation raw_bytes: sub_packet writeBytes "readBytes (net_read ops)" "\<lambda>v. length v < 65536"
  unfolding writeBytes_def readBytes_def PutBytes_def
  by unfold_locales
     (rule sub_packetI [OF emits_emit net.parses_GetBytes]; simp add: validatePacketHeader_def)

interpretation version: sub_packet writeVersion "readVersion (net_read ops)" "\<lambda>_. True"
proof
  fix p and v :: u32
  have "unat (ucast v :: u64) = unat v" 
    using unat_less_pow [of v] by (simp add: unsigned_ucast_eq take_bit_eq_mod)
  then have "emits p (PutInt (Uint32 v) 4 True False) (be_enc 4 (unat v))"
    using emits_fixed [of "Uint32 v" "ucast v" 4 p] by simp
  moreover have "parses net_ok net_pending p (gbind (GetInt (net_read ops) 4 False True) (\<lambda>x. gret (word_of_int x))) (be_enc 4 (unat v)) v"
    using parses_bind_ret [OF net.parses_GetInt_fixed [of "unat v" 4 p ops], of "word_of_int :: int \<Rightarrow> u32"] unat_less_pow [of v] by simp
  ultimately show "\<exists>bs. emits p (writeVersion v) bs \<and> parses net_ok net_pending p (readVersion (net_read ops)) bs v"
    unfolding writeVersion_def readVersion_def gseq_def [of "readPacketHeader _ _"]
    by (auto intro!: sub_packetI simp: validatePacketHeader_def)
qed

interpretation ub2_array: sub_packet writeUB2Array "readUB2Array (net_read ops)"
  "\<lambda>vs. list_all (\<lambda>v. 0 \<le> v \<and> v < 65536) vs \<and> length vs < 2 ^ 32"
proof
  fix p and vs :: "int list"
  assume vs: "list_all (\<lambda>v. 0 \<le> v \<and> v < 65536) vs \<and> length vs < 2 ^ 32"
  let ?len = "(10 + length vs * 2) mod 65536" and ?body = "concat (map (\<lambda>v. be_enc 2 (nat v)) vs)"
  let ?pre = "be_enc 4 0xDEADBEEF @ be_enc 2 3 @ be_enc 4 (length vs)"
  have "emits p (writePacketHeader (10 + int (length vs) * 2) 1) (be_enc 2 ?len @ be_enc 2 1)"
    using emits_header [of "10 + int (length vs) * 2" 1 p] vs be_enc_mod [of 2 "10 + length vs * 2"]
    by (simp add: nat_add_distrib nat_mult_distrib)
  moreover have "emits p (PutInt (Uint64 0xDEADBEEF) 4 True False) (be_enc 4 0xDEADBEEF)"
    using emits_fixed [of "Uint64 0xDEADBEEF" "0xDEADBEEF" 4 p] by simp
  moreover have "emits p (PutInt (go_int 3) 2 True False) (be_enc 2 3)"
    using emits_go_int [of 3 2 p] by simp
  moreover have "emits p (PutInt (go_int (int (length vs))) 4 True False) (be_enc 4 (length vs))"
    using emits_go_int [of "int (length vs)" 4 p] vs by simp
  moreover have "emits p (write_ub2s vs) ?body" using emits_write_ub2s vs by blast
  ultimately have e: "emits p (writeUB2Array vs) ((be_enc 2 ?len @ be_enc 2 1) @ be_enc 4 0xDEADBEEF @ be_enc 2 3
      @ be_enc 4 (length vs) @ ?body)"
    unfolding writeUB2Array_def by (intro emits_seq)
  have 1: "parses net_ok net_pending p (readPacketHeader (net_read ops) 1) (be_enc 2 ?len @ be_enc 2 1) (int ?len)"
    using parses_net_header [of "int ?len" 1 p ops] by (simp add: validatePacketHeader_def)
  have 2: "parses net_ok net_pending p (GetInt64 (net_read ops) 4 False True) (be_enc 4 0xDEADBEEF) 0xDEADBEEF"
    by (rule net.parses_GetInt64_fixed [where k = 4 and n = "0xDEADBEEF", simplified])
  have 3: "parses net_ok net_pending p (GetInt (net_read ops) 2 False True) (be_enc 2 3) 3"
    using net.parses_GetInt_fixed [of 3 2 p ops] by simp
  have 4: "parses net_ok net_pending p (GetInt (net_read ops) 4 False True) (be_enc 4 (length vs)) (int (length vs))"
    using net.parses_GetInt_fixed [of "length vs" 4 p ops] vs by simp
  have 5: "parses net_ok net_pending p (if (0xDEADBEEF :: int) \<noteq> 0xDEADBEEF \<or> (3 :: int) \<noteq> 3 then gerr NegoSupervisor
      else read_ub2s (net_read ops) (nat (int (length vs)))) ?body vs"
    using net.parses_read_ub2s [of vs p ops] vs by simp
  have "parses net_ok net_pending p (readUB2Array (net_read ops)) ((be_enc 2 ?len @ be_enc 2 1) @ be_enc 4 0xDEADBEEF @ be_enc 2 3
      @ be_enc 4 (length vs) @ ?body) vs"
    unfolding readUB2Array_def gseq_def
    by (rule parses_bind [OF 1], rule parses_bind [OF 2], rule parses_bind [OF 3], rule parses_bind [OF 4], rule 5)
  with e show "\<exists>bs. emits p (writeUB2Array vs) bs \<and> parses net_ok net_pending p (readUB2Array (net_read ops)) bs vs"
    by blast
qed

section \<open>Properties\<close>

text \<open>
  The array of 16-bit numbers in which the supervisor service announces the requested services crosses the
  network: what \<^verbatim>\<open>writeUB2Array\<close> appends to the output of one session is read back by \<^verbatim>\<open>readUB2Array\<close> of
  any session of the same properties, for every array of 16-bit numbers, and what follows it stays unread.
\<close>

theorem ub2_array_roundtrip:
  fixes s :: "'z basic_session_scheme" and ops :: "'n nego_ops"
  assumes "list_all (\<lambda>v. 0 \<le> v \<and> v < 65536) vs \<and> length vs < 2 ^ 32" and "props s = p"
  shows "\<exists>bs. writeUB2Array vs s = Some (Ok (), s\<lparr>outBuffer := outBuffer s @ bs\<rparr>)
    \<and> (\<forall>r rest. net_ok r \<and> props r = p \<and> net_pending r = bs @ rest \<longrightarrow>
        (\<exists>r'. readUB2Array (net_read ops) r = Some (Ok vs, r') \<and> net_pending r' = rest))"
  by (rule ub2_array.roundtrip [OF assms])

theorem ub2_array_roundtrip_witness:
  "\<exists>bs. writeUB2Array [4, 1, 2, 3] (NewMemorySession [] [] (props (sample_session [])))
      = Some (Ok (), NewMemorySession [] bs (props (sample_session [])))
    \<and> (\<exists>r'. readUB2Array (net_read plain_ops) ((sample_session [])\<lparr>inBuffer := new_buffer (bs @ [7])\<rparr>) = Some (Ok [4, 1, 2, 3], r')
        \<and> net_pending r' = [7])"
proof -
  let ?m = "NewMemorySession [] [] (props (sample_session []))"
  have "props ?m = props (sample_session [])" by (simp add: NewMemorySession_def)
  then obtain bs where w: "writeUB2Array [4, 1, 2, 3] ?m = Some (Ok (), ?m\<lparr>outBuffer := outBuffer ?m @ bs\<rparr>)"
    and r: "\<forall>r rest. net_ok r \<and> props r = props (sample_session []) \<and> net_pending r = bs @ rest \<longrightarrow>
        (\<exists>r'. readUB2Array (net_read plain_ops) r = Some (Ok [4, 1, 2, 3], r') \<and> net_pending r' = rest)"
    using ub2_array_roundtrip [of "[4, 1, 2, 3]" ?m "props (sample_session [])" plain_ops] by auto
  let ?r = "(sample_session [])\<lparr>inBuffer := new_buffer (bs @ [7])\<rparr>"
  have "net_ok ?r \<and> props ?r = props (sample_session []) \<and> net_pending ?r = bs @ [7]"
    by (simp add: sample_session_def NewSession_def net_ok_def net_pending_def opened_def clean_def
      stream_def new_buffer_def NewSessionContext_def zero_context_def)
  with r w show ?thesis by (auto simp: NewMemorySession_def)
qed

text \<open>\<open>fails ok pending p m bs e\<close>: reading the bytes \<open>bs\<close> ends in the error \<open>e\<close>.\<close>

definition fails ::
    "('z basic_session_scheme \<Rightarrow> bool) \<Rightarrow> ('z basic_session_scheme \<Rightarrow> byte list) \<Rightarrow> session_props
     \<Rightarrow> ('z basic_session_scheme, 'a) gom \<Rightarrow> byte list \<Rightarrow> go_error \<Rightarrow> bool" where
  "fails ok pending p m bs e \<longleftrightarrow>
     (\<forall>s rest. ok s \<and> props s = p \<and> pending s = bs @ rest \<longrightarrow>
        (\<exists>s'. m s = Some (Err e, s') \<and> ok s' \<and> props s' = p \<and> pending s' = rest))"

lemma fails_bind:
  assumes "parses ok pending p m bs a" and "fails ok pending p (f a) cs e"
  shows "fails ok pending p (gbind m f) (bs @ cs) e"
  unfolding fails_def
proof (intro allI impI, elim conjE)
  fix s rest
  assume "ok s" "props s = p" "pending s = (bs @ cs) @ rest"
  with assms(1) obtain s' where "m s = Some (Ok a, s')" "ok s'" "props s' = p" "pending s' = cs @ rest"
    unfolding parses_def by fastforce
  with assms(2) show "\<exists>s'. gbind m f s = Some (Err e, s') \<and> ok s' \<and> props s' = p \<and> pending s' = rest"
    unfolding fails_def by simp
qed

lemma fails_first: "fails ok pending p m bs e \<Longrightarrow> fails ok pending p (gbind m f) bs e"
  unfolding fails_def by fastforce

lemma fails_gerr: "fails ok pending p (gerr e) [] e"
  by (simp add: fails_def gerr_def)

lemma parses_gignore_fails: "fails ok pending p m bs e \<Longrightarrow> parses ok pending p (gignore m) bs None"
  unfolding fails_def parses_def by fastforce

lemma header_type_mismatch:
  assumes "len < 65536" and "ty < 65536" and "int ty \<noteq> k"
  shows "fails net_ok net_pending p (readPacketHeader (net_read ops) k) (be_enc 2 len @ be_enc 2 ty)
    (NegoTypeMismatch (int ty) k)"
proof -
  have 1: "parses net_ok net_pending p (GetInt (net_read ops) 2 False True) (be_enc 2 len) (int len)"
    using net.parses_GetInt_fixed [of len 2 p ops] assms(1) by simp
  have 2: "parses net_ok net_pending p (GetInt (net_read ops) 2 False True) (be_enc 2 ty) (int ty)"
    using net.parses_GetInt_fixed [of ty 2 p ops] assms(2) by simp
  have 3: "fails net_ok net_pending p (if int ty \<noteq> k then gerr (NegoTypeMismatch (int ty) k)
      else gseq (gres (validatePacketHeader (int len) (int ty))) (gret (int len))) [] (NegoTypeMismatch (int ty) k)"
    using assms(3) by (simp add: fails_gerr)
  have "fails net_ok net_pending p (readPacketHeader (net_read ops) k) (be_enc 2 len @ be_enc 2 ty @ [])
      (NegoTypeMismatch (int ty) k)"
    unfolding readPacketHeader_def by (rule fails_bind [OF 1], rule fails_bind [OF 2], rule 3)
  then show ?thesis by simp
qed

text \<open>
  \<^verbatim>\<open>readUB2\<close> does not check what it reads: a sub-packet of any other type is accepted, and the first two
  bytes of its body are returned as the number without an error, where \<^verbatim>\<open>readStatus\<close> reports the wrong type.
\<close>

theorem readUB2_accepts_any_type:
  fixes r :: "'n session"
  assumes "net_ok r" and "net_pending r = be_enc 2 len @ be_enc 2 ty @ be_enc 2 v @ rest"
    and "len < 65536" and "ty < 65536" and "v < 65536" and "ty \<noteq> 3" and "ty \<noteq> 6"
  shows "(\<exists>r'. readUB2 (net_read ops) r = Some (Ok (int v), r') \<and> net_pending r' = rest)
    \<and> (\<exists>r'. readStatus (net_read ops) r = Some (Err (NegoTypeMismatch (int ty) 6), r'))"
proof
  let ?p = "props r" and ?h = "be_enc 2 len @ be_enc 2 ty"
  have 1: "parses net_ok net_pending ?p (gignore (readPacketHeader (net_read ops) 3)) ?h None"
    using assms(6) by (intro parses_gignore_fails [OF header_type_mismatch [OF assms(3,4)]]) simp
  have 2: "parses net_ok net_pending ?p (GetInt (net_read ops) 2 False True) (be_enc 2 v) (int v)"
    using net.parses_GetInt_fixed [of v 2 ?p ops] assms(5) by simp
  have "parses net_ok net_pending ?p (readUB2 (net_read ops)) (?h @ be_enc 2 v) (int v)"
    unfolding readUB2_def gseq_def by (rule parses_bind [OF 1], rule 2)
  with assms(1,2) show "\<exists>r'. readUB2 (net_read ops) r = Some (Ok (int v), r') \<and> net_pending r' = rest"
    unfolding parses_def by auto
  have "fails net_ok net_pending ?p (readStatus (net_read ops)) ?h (NegoTypeMismatch (int ty) 6)"
    unfolding readStatus_def gseq_def
    using assms(7) by (intro fails_first header_type_mismatch assms(3,4)) simp
  with assms(1,2) show "\<exists>r'. readStatus (net_read ops) r = Some (Err (NegoTypeMismatch (int ty) 6), r')"
    unfolding fails_def by auto
qed

theorem readUB2_accepts_any_type_witness:
  "(\<exists>r'. readUB2 (net_read plain_ops) ((sample_session [])\<lparr>inBuffer := new_buffer [0, 4, 0, 5, 1, 2, 9]\<rparr>) = Some (Ok 258, r')
      \<and> net_pending r' = [9])
   \<and> (\<exists>r'. readStatus (net_read plain_ops) ((sample_session [])\<lparr>inBuffer := new_buffer [0, 4, 0, 5, 1, 2, 9]\<rparr>)
      = Some (Err (NegoTypeMismatch 5 6), r'))"
proof -
  let ?r = "(sample_session [])\<lparr>inBuffer := new_buffer [0, 4, 0, 5, 1, 2, 9]\<rparr>"
  have "net_ok ?r" "net_pending ?r = be_enc 2 4 @ be_enc 2 5 @ be_enc 2 258 @ [9]"
    by (simp_all add: sample_session_def NewSession_def net_ok_def net_pending_def opened_def clean_def
      stream_def new_buffer_def NewSessionContext_def zero_context_def numeral_2_eq_2)
  from readUB2_accepts_any_type [OF this, of plain_ops] show ?thesis by simp
qed

end
