(* ===== verification/Go_Regexp.thy ===== *)
theory Go_Regexp
  imports Go_Strconv
begin

text \<open>
  The part of the package \<^verbatim>\<open>regexp\<close> the driver uses, on ASCII text: patterns as a datatype, the match results
  of a pattern at the start of a text in the order a backtracking search tries them (Go returns the first of
  them, leftmost start first), submatches, and \<^verbatim>\<open>FindStringSubmatch\<close> and \<^verbatim>\<open>FindAllStringSubmatch\<close>. The rules
  of the last section derive the first result of a composed pattern from its parts.
\<close>

section \<open>Patterns and their results\<close>

datatype rx =
    Cls "byte \<Rightarrow> bool"            \<comment> \<open>one byte of a class\<close>
  | Eps
  | Cat rx rx
  | Alt rx rx
  | Star rx                       \<comment> \<open>greedy\<close>
  | Grp nat rx                    \<comment> \<open>a submatch\<close>

type_synonym captures = "(nat \<times> byte list) list"

text \<open>An iteration that consumes nothing ends a repetition, so that the length of the text bounds them.\<close>

primrec iterate :: "nat \<Rightarrow> (byte list \<Rightarrow> captures \<Rightarrow> (byte list \<times> captures) list)
    \<Rightarrow> byte list \<Rightarrow> captures \<Rightarrow> (byte list \<times> captures) list" where
  "iterate 0 m s c = [(s, c)]"
| "iterate (Suc n) m s c =
     concat (map (\<lambda>(s', c'). if length s' < length s then iterate n m s' c' else []) (m s c)) @ [(s, c)]"

primrec results :: "rx \<Rightarrow> byte list \<Rightarrow> captures \<Rightarrow> (byte list \<times> captures) list" where
  "results (Cls P) s c = (case s of [] \<Rightarrow> [] | b # s' \<Rightarrow> if P b then [(s', c)] else [])"
| "results Eps s c = [(s, c)]"
| "results (Cat r q) s c = concat (map (\<lambda>(s', c'). results q s' c') (results r s c))"
| "results (Alt r q) s c = results r s c @ results q s c"
| "results (Star r) s c = iterate (length s) (results r) s c"
| "results (Grp n r) s c = map (\<lambda>(s', c'). (s', (n, take (length s - length s') s) # c')) (results r s c)"

text \<open>The first match from the left: what it leaves unread, and the submatches. The most recent capture of
  a group comes first.\<close>

fun rx_find :: "rx \<Rightarrow> byte list \<Rightarrow> (byte list \<times> captures) option" where
  "rx_find r s = (case results r s [] of
      x # _ \<Rightarrow> Some x
    | [] \<Rightarrow> (case s of [] \<Rightarrow> None | _ # s' \<Rightarrow> rx_find r s'))"

declare rx_find.simps [simp del]

definition submatch :: "captures \<Rightarrow> nat \<Rightarrow> byte list" where
  "submatch c n = (case map_of c n of None \<Rightarrow> [] | Some w \<Rightarrow> w)"

lemma iterate_shorter:
  assumes "\<And>s c s' c'. (s', c') \<in> set (m s c) \<Longrightarrow> length s' \<le> length s"
  shows "(s', c') \<in> set (iterate n m s c) \<Longrightarrow> length s' \<le> length s"
proof (induction n arbitrary: s c)
  case (Suc n)
  then consider "(s', c') = (s, c)"
    | s2 c2 where "(s2, c2) \<in> set (m s c)" "length s2 < length s" "(s', c') \<in> set (iterate n m s2 c2)"
    by (auto split: if_splits)
  then show ?case
  proof cases
    case 2
    with Suc.IH [of s2 c2] show ?thesis by simp
  qed simp
qed simp

lemma results_shorter: "(s', c') \<in> set (results r s c) \<Longrightarrow> length s' \<le> length s"
proof (induction r arbitrary: s c s' c')
  case (Cat r q)
  then obtain s2 c2 where "(s2, c2) \<in> set (results r s c)" "(s', c') \<in> set (results q s2 c2)" by auto
  with Cat.IH show ?case by (meson le_trans)
next
  case (Star r)
  then show ?case by (auto intro: iterate_shorter [of "results r"])
qed (auto split: list.splits if_splits)

lemma rx_find_shorter: "rx_find r s = Some (s', c) \<Longrightarrow> length s' \<le> length s"
proof (induction r s rule: rx_find.induct)
  case (1 r s)
  show ?case
  proof (cases "results r s []")
    case Nil
    with 1 show ?thesis by (fastforce simp: rx_find.simps [of r s] split: list.splits)
  next
    case (Cons x xs)
    with 1(2) have "(s', c) \<in> set (results r s [])" by (simp add: rx_find.simps [of r s])
    then show ?thesis by (rule results_shorter)
  qed
qed

text \<open>All matches, one after the other; the patterns of the driver match no empty text, and a match that
  consumes nothing ends the search here.\<close>

function rx_find_all :: "rx \<Rightarrow> byte list \<Rightarrow> captures list" where
  "rx_find_all r s = (case rx_find r s of
      None \<Rightarrow> []
    | Some (s', c) \<Rightarrow> c # (if length s' < length s then rx_find_all r s' else []))"
  by pat_completeness auto
termination by (relation "measure (\<lambda>(r, s). length s)") auto

declare rx_find_all.simps [simp del]

section \<open>Building patterns\<close>

definition space_byte :: "byte \<Rightarrow> bool" where
  "space_byte b \<longleftrightarrow> b = 9 \<or> b = 10 \<or> b = 12 \<or> b = 13 \<or> b = 32"

definition word_byte :: "byte \<Rightarrow> bool" where
  "word_byte b \<longleftrightarrow> 48 \<le> b \<and> b \<le> 57 \<or> 65 \<le> b \<and> b \<le> 90 \<or> 97 \<le> b \<and> b \<le> 122 \<or> b = 95"

definition chr_rx :: "char \<Rightarrow> rx" where
  "chr_rx x = Cls (\<lambda>b. b = of_char x)"

text \<open>A literal, exactly and with case folded (the literal in upper case).\<close>

definition lit :: "string \<Rightarrow> rx" where
  "lit w = foldr (\<lambda>x r. Cat (chr_rx x) r) w Eps"

definition lit_fold :: "string \<Rightarrow> rx" where
  "lit_fold w = foldr (\<lambda>x r. Cat (Cls (\<lambda>b. to_upper_byte b = of_char x)) r) w Eps"

definition spaces :: rx where
  "spaces = Star (Cls space_byte)"

definition rx_plus :: "rx \<Rightarrow> rx" where
  "rx_plus r = Cat r (Star r)"

primrec cats :: "rx list \<Rightarrow> rx" where
  "cats [] = Eps"
| "cats (r # rs) = Cat r (cats rs)"

section \<open>First results\<close>

definition first :: "rx \<Rightarrow> byte list \<Rightarrow> captures \<Rightarrow> byte list \<Rightarrow> captures \<Rightarrow> bool" where
  "first r s c s' c' \<longleftrightarrow> (\<exists>xs. results r s c = (s', c') # xs)"

definition nothing :: "rx \<Rightarrow> byte list \<Rightarrow> bool" where
  "nothing r s \<longleftrightarrow> (\<forall>c. results r s c = [])"

named_theorems rx_first \<open>first results of composed patterns\<close>

lemma first_Eps [rx_first]: "first Eps s c s c"
  by (simp add: first_def)

lemma first_Cls [rx_first]: "P b \<Longrightarrow> first (Cls P) (b # s) c s c"
  by (simp add: first_def)

lemma first_Cat [rx_first]: "first r s c s1 c1 \<Longrightarrow> first q s1 c1 s2 c2 \<Longrightarrow> first (Cat r q) s c s2 c2"
  by (auto simp: first_def)

lemma first_Alt1: "first r s c s1 c1 \<Longrightarrow> first (Alt r q) s c s1 c1"
  by (auto simp: first_def)

lemma first_Alt2: "nothing r s \<Longrightarrow> first q s c s1 c1 \<Longrightarrow> first (Alt r q) s c s1 c1"
  by (auto simp: first_def nothing_def)

lemma first_Grp [rx_first]:
  "first r (w @ s) c s c1 \<Longrightarrow> first (Grp n r) (w @ s) c s ((n, w) # c1)"
  by (auto simp: first_def)

lemma iterate_stops: "nothing r s \<Longrightarrow> iterate n (results r) s c = [(s, c)]"
  by (cases n) (auto simp: nothing_def)

lemma first_Star_stop: "nothing r s \<Longrightarrow> first (Star r) s c s c"
  by (simp add: first_def iterate_stops)

lemma iterate_first_step:
  assumes "first r s c s1 c1" and "length s1 < length s" and "\<exists>xs. iterate n (results r) s1 c1 = (s2, c2) # xs"
  shows "\<exists>xs. iterate (Suc n) (results r) s c = (s2, c2) # xs"
  using assms by (auto simp: first_def)

text \<open>More iterations than the length of the text change nothing.\<close>

lemma iterate_enough:
  "length s \<le> n \<Longrightarrow> length s \<le> m \<Longrightarrow> iterate n (results r) s c = iterate m (results r) s c"
proof (induction n arbitrary: m s c)
  case 0
  then show ?case by (cases m) (auto dest: results_shorter)
next
  case (Suc n)
  show ?case
  proof (cases m)
    case 0
    with Suc.prems show ?thesis by auto
  next
    case (Suc k)
    have "iterate n (results r) s' c' = iterate k (results r) s' c'" if "length s' < length s" for s' c'
      using that Suc.prems Suc \<open>m = Suc k\<close> by (intro Suc.IH) auto
    then show ?thesis unfolding Suc iterate.simps by (intro arg_cong2 [of _ _ _ _ append] arg_cong [of _ _ concat] map_cong) auto
  qed
qed

lemma first_Star_step:
  assumes "first r s c s1 c1" and "length s1 < length s" and "first (Star r) s1 c1 s2 c2"
  shows "first (Star r) s c s2 c2"
proof -
  obtain n where n: "length s = Suc n" using assms(2) by (cases "length s") auto
  have "iterate n (results r) s1 c1 = iterate (length s1) (results r) s1 c1"
    using assms(2) n by (intro iterate_enough) auto
  with assms(3) have "\<exists>xs. iterate n (results r) s1 c1 = (s2, c2) # xs" by (simp add: first_def)
  from iterate_first_step [OF assms(1,2) this] n show ?thesis by (simp add: first_def)
qed

lemma nothing_Cls: "s = [] \<or> \<not> P (hd s) \<Longrightarrow> nothing (Cls P) s"
  by (cases s) (auto simp: nothing_def)

lemma nothing_Cat: "nothing r s \<Longrightarrow> nothing (Cat r q) s"
  by (simp add: nothing_def)

lemma nothing_Alt: "nothing r s \<Longrightarrow> nothing q s \<Longrightarrow> nothing (Alt r q) s"
  by (simp add: nothing_def)

lemma nothing_Grp: "nothing r s \<Longrightarrow> nothing (Grp n r) s"
  by (simp add: nothing_def)

text \<open>A class repeated greedily takes the longest run.\<close>

lemma first_Star_Cls:
  assumes "list_all P w" and "s = [] \<or> \<not> P (hd s)"
  shows "first (Star (Cls P)) (w @ s) c s c"
  using assms(1)
proof (induction w)
  case Nil
  then show ?case using assms(2) by (auto intro!: first_Star_stop nothing_Cls)
next
  case (Cons b w)
  then show ?case by (auto intro!: first_Star_step [OF first_Cls [of P b]])
qed

lemma first_rx_plus_Cls:
  assumes "list_all P w" and "w \<noteq> []" and "s = [] \<or> \<not> P (hd s)"
  shows "first (rx_plus (Cls P)) (w @ s) c s c"
proof -
  obtain b v where "w = b # v" using assms(2) by (cases w) auto
  with assms(1) first_Star_Cls [of P v s c] assms(3) show ?thesis
    unfolding rx_plus_def by (auto intro!: first_Cat [OF first_Cls])
qed

lemma first_lit: "first (lit w) (ascii w @ s) c s c"
  by (induction w) (auto simp: lit_def ascii_def chr_rx_def intro!: rx_first)

lemma first_lit_fold:
  "map to_upper_byte v = ascii w \<Longrightarrow> first (lit_fold w) (v @ s) c s c"
proof (induction w arbitrary: v)
  case Nil
  then show ?case by (simp add: lit_fold_def ascii_def first_Eps)
next
  case (Cons x w)
  then obtain b u where "v = b # u" "to_upper_byte b = of_char x" "map to_upper_byte u = ascii w"
    by (cases v) (auto simp: ascii_def)
  with Cons.IH [of u] show ?case
    by (auto simp: lit_fold_def intro!: first_Cat [OF first_Cls])
qed

lemma rx_find_here: "first r s [] s' c \<Longrightarrow> rx_find r s = Some (s', c)"
  by (auto simp: first_def rx_find.simps [of r s])

lemma rx_find_skip: "nothing r (b # s) \<Longrightarrow> rx_find r (b # s) = rx_find r s"
  by (simp add: nothing_def rx_find.simps [of r "b # s"])

lemma rx_find_end: "nothing r [] \<Longrightarrow> rx_find r [] = None"
  by (simp add: nothing_def rx_find.simps [of r "[]"])

text \<open>A stretch of text at no byte of which the pattern can start.\<close>

lemma rx_find_skips:
  assumes "\<And>u v. w = u @ v \<Longrightarrow> v \<noteq> [] \<Longrightarrow> nothing r (v @ s)"
  shows "rx_find r (w @ s) = rx_find r s"
  using assms
proof (induction w)
  case (Cons b w)
  have "nothing r ((b # w) @ s)" using Cons.prems [of "[]" "b # w"] by simp
  moreover have "rx_find r (w @ s) = rx_find r s"
    using Cons.prems [of "b # u" v for u v] by (intro Cons.IH) auto
  ultimately show ?case by (simp add: rx_find_skip)
qed simp

text \<open>A pattern with exactly one result that captures nothing, and what fails behind it.\<close>

definition only :: "rx \<Rightarrow> byte list \<Rightarrow> byte list \<Rightarrow> bool" where
  "only r s s' \<longleftrightarrow> (\<forall>c. results r s c = [(s', c)])"

lemma only_first: "only r s s' \<Longrightarrow> first r s c s' c"
  by (simp add: only_def first_def)

lemma nothing_Cat_only: "only r s s' \<Longrightarrow> nothing q s' \<Longrightarrow> nothing (Cat r q) s"
  by (simp add: only_def nothing_def)

lemma only_chr: "only (chr_rx x) (of_char x # s) s"
  by (simp add: only_def chr_rx_def)

lemma only_spaces: "s = [] \<or> \<not> space_byte (hd s) \<Longrightarrow> only spaces s s"
  by (auto simp: only_def spaces_def intro!: iterate_stops nothing_Cls)

lemma nothing_chr: "s = [] \<or> hd s \<noteq> of_char x \<Longrightarrow> nothing (chr_rx x) s"
  by (auto simp: chr_rx_def intro!: nothing_Cls)

lemma nothing_lit_fold: "take (length w) (map to_upper_byte s) \<noteq> ascii w \<Longrightarrow> nothing (lit_fold w) s"
proof (induction w arbitrary: s)
  case Nil
  then show ?case by (simp add: ascii_def)
next
  case (Cons x w)
  show ?case
  proof (cases s)
    case Nil
    then show ?thesis by (simp add: lit_fold_def nothing_def)
  next
    case (Cons b s')
    with Cons.prems Cons.IH [of s'] show ?thesis
      by (cases "to_upper_byte b = of_char x") (auto simp: lit_fold_def ascii_def nothing_def)
  qed
qed

lemma first_GrpI: "s = w @ s' \<Longrightarrow> first r s c s' c1 \<Longrightarrow> first (Grp n r) s c s' ((n, w) # c1)"
  using first_Grp by simp

text \<open>
  A parenthesised parameter, the form all the patterns of the driver start with: an opening parenthesis, space,
  a name. A text none of whose parentheses opens that name has no match.
\<close>

definition opener :: "string \<Rightarrow> rx \<Rightarrow> rx" where
  "opener name r = Cat (chr_rx (CHR ''('')) (Cat spaces (Cat (lit_fold name) r))"

fun never_opens :: "string \<Rightarrow> byte list \<Rightarrow> bool" where
  "never_opens name [] = True"
| "never_opens name (b # s) \<longleftrightarrow>
     (b = 40 \<longrightarrow> s \<noteq> [] \<and> \<not> space_byte (hd s) \<and> take (length name) (map to_upper_byte s) \<noteq> ascii name)
     \<and> never_opens name s"

declare never_opens.simps(2) [simp del]

lemma never_opens_cons: "b \<noteq> 40 \<Longrightarrow> never_opens name (b # s) = never_opens name s"
  by (simp add: never_opens.simps(2))

lemma nothing_opener:
  "s = [] \<or> hd s \<noteq> 40 \<or> tl s \<noteq> [] \<and> \<not> space_byte (hd (tl s)) \<and> take (length name) (map to_upper_byte (tl s)) \<noteq> ascii name
   \<Longrightarrow> nothing (opener name r) s"
proof (cases "s = [] \<or> hd s \<noteq> 40")
  case True
  then show ?thesis unfolding opener_def by (intro nothing_Cat nothing_chr) simp
next
  case False
  moreover assume "s = [] \<or> hd s \<noteq> 40 \<or> tl s \<noteq> [] \<and> \<not> space_byte (hd (tl s))
    \<and> take (length name) (map to_upper_byte (tl s)) \<noteq> ascii name"
  ultimately have "only (chr_rx (CHR ''('')) s (tl s)" "only spaces (tl s) (tl s)" "nothing (lit_fold name) (tl s)"
    using only_chr [of "CHR ''(''" "tl s"] by (auto intro!: only_spaces nothing_lit_fold simp: neq_Nil_conv)
  then show ?thesis unfolding opener_def by (meson nothing_Cat nothing_Cat_only)
qed

lemma rx_find_never_opens: "never_opens name s \<Longrightarrow> rx_find (opener name r) s = None"
proof (induction s)
  case Nil
  then show ?case by (simp add: rx_find_end nothing_opener)
next
  case (Cons b s)
  then have "nothing (opener name r) (b # s)" by (intro nothing_opener) (auto simp: never_opens.simps(2))
  with Cons show ?case by (simp add: rx_find_skip never_opens.simps(2))
qed

text \<open>Bytes other than an opening parenthesis are passed over, whatever follows them.\<close>

lemma rx_find_pass: "list_all (\<lambda>b. b \<noteq> 40) w \<Longrightarrow> rx_find (opener name r) (w @ s) = rx_find (opener name r) s"
  by (induction w) (simp_all add: rx_find_skip nothing_opener)

lemma never_opens_pass: "list_all (\<lambda>b. b \<noteq> 40) w \<Longrightarrow> never_opens name (w @ s) = never_opens name s"
  by (induction w) (simp_all add: never_opens_cons)

lemma rx_find_paren:
  "s \<noteq> [] \<Longrightarrow> \<not> space_byte (hd s) \<Longrightarrow> take (length name) (map to_upper_byte s) \<noteq> ascii name \<Longrightarrow>
   rx_find (opener name r) (40 # s) = rx_find (opener name r) s"
  by (intro rx_find_skip nothing_opener) simp

lemma first_opener:
  assumes "v \<noteq> []" and "\<not> space_byte (hd v)" and "map to_upper_byte v = ascii name" and "first r s c s' c'"
  shows "first (opener name r) (40 # v @ s) c s' c'"
proof -
  have "first spaces (v @ s) c (v @ s) c" using assms(1,2) by (intro only_first only_spaces) simp
  moreover have "first (lit_fold name) (v @ s) c s c" by (rule first_lit_fold [OF assms(3)])
  moreover have "first (chr_rx (CHR ''('')) (40 # v @ s) c (v @ s) c"
    using only_first [OF only_chr, of "CHR ''(''"] by simp
  ultimately show ?thesis unfolding opener_def using assms(4) by (intro first_Cat)
qed

end
