(* ===== verification/Conn_Config.thy ===== *)
theory Conn_Config
  imports Go_Regexp
begin

text \<open>
  What a connection is made from: the server list of \<^verbatim>\<open>configurations/database_info.go\<close> with its index of
  the active server, the parsing of connect descriptors with regular expressions, the protocol of a server in
  \<^verbatim>\<open>session_info.go\<close>, the connect descriptor that \<^verbatim>\<open>connect_config.go\<close> prints, and the error code that
  \<^verbatim>\<open>network/refuse_packet.go\<close> looks for in the text of a refusal.
\<close>

section \<open>Servers\<close>

record server_addr =
  srv_Protocol :: "byte list"
  srv_Addr :: "byte list"
  srv_Port :: int

record database_info =
  Servers :: "server_addr list"
  serverIndex :: int
  db_SID :: "byte list"
  ServiceName :: "byte list"
  InstanceName :: "byte list"
  connStr :: "byte list"

text \<open>The configuration around it, as far as the descriptor depends on it.\<close>

record connection_config = database_info +
  cfg_Protocol :: "byte list"
  cfg_SSL :: bool
  SSLVerify :: bool
  UnixAddress :: "byte list"
  ProgramPath :: "byte list"
  HostName :: "byte list"
  OSUserName :: "byte list"
  Cid :: "byte list"

definition IsEqual :: "server_addr \<Rightarrow> server_addr \<Rightarrow> bool" where
  "IsEqual serv input \<longleftrightarrow> to_upper (srv_Addr serv) = to_upper (srv_Addr input) \<and> srv_Port serv = srv_Port input"

definition AddServer :: "server_addr \<Rightarrow> 'z database_info_scheme \<Rightarrow> 'z database_info_scheme" where
  "AddServer server info =
     (if list_ex (IsEqual server) (Servers info) then info else info\<lparr>Servers := Servers info @ [server]\<rparr>)"

definition ResetServerIndex :: "'z database_info_scheme \<Rightarrow> 'z database_info_scheme" where
  "ResetServerIndex info = info\<lparr>serverIndex := 0\<rparr>"

text \<open>The index only ever grows or is reset, so that it is never negative.\<close>

definition GetActiveServer ::
    "bool \<Rightarrow> 'z database_info_scheme \<Rightarrow> server_addr option \<times> 'z database_info_scheme" where
  "GetActiveServer jump info =
     (let info = (if jump then info\<lparr>serverIndex := serverIndex info + 1\<rparr> else info)
      in (if serverIndex info \<ge> int (length (Servers info)) then None
          else Some (Servers info ! nat (serverIndex info)), info))"

text \<open>
  What a client of the server list relies on: the active server is the first of those that remain, and a jump leaves
  the others.
\<close>

locale cursor =
  fixes current :: "'s \<Rightarrow> 'h option"
    and advance :: "'s \<Rightarrow> 'h option \<times> 's"
    and remaining :: "'s \<Rightarrow> 'h list"
    and valid :: "'s \<Rightarrow> bool"
  assumes current_hd: "valid s \<Longrightarrow> current s = (if remaining s = [] then None else Some (hd (remaining s)))"
    and advance_tl: "valid s \<Longrightarrow> fst (advance s) = current (snd (advance s)) \<and> valid (snd (advance s))
      \<and> remaining (snd (advance s)) = tl (remaining s)"
begin

lemma advance_result: "valid s \<Longrightarrow> fst (advance s) = (if tl (remaining s) = [] then None else Some (hd (tl (remaining s))))"
  using advance_tl [of s] current_hd [of "snd (advance s)"] by simp

lemma advances: "valid s \<Longrightarrow> valid (((snd \<circ> advance) ^^ k) s) \<and> remaining (((snd \<circ> advance) ^^ k) s) = drop k (remaining s)"
  by (induction k) (auto simp: advance_tl drop_Suc tl_drop)

lemma exhausted: "valid s \<Longrightarrow> length (remaining s) \<le> k \<Longrightarrow> current (((snd \<circ> advance) ^^ k) s) = None"
  using advances [of s k] current_hd by simp

end

interpretation servers: cursor "\<lambda>info. fst (GetActiveServer False info)" "GetActiveServer True"
  "\<lambda>info. drop (nat (serverIndex info)) (Servers info)" "\<lambda>info :: 'z database_info_scheme. 0 \<le> serverIndex info"
proof
  fix s :: "'z database_info_scheme"
  assume s: "0 \<le> serverIndex s"
  show "fst (GetActiveServer False s) = (if drop (nat (serverIndex s)) (Servers s) = [] then None
      else Some (hd (drop (nat (serverIndex s)) (Servers s))))"
    using s by (auto simp: GetActiveServer_def hd_drop_conv_nth nat_le_iff)
  show "fst (GetActiveServer True s) = fst (GetActiveServer False (snd (GetActiveServer True s))) \<and> 0 \<le> serverIndex (snd (GetActiveServer True s))
      \<and> drop (nat (serverIndex (snd (GetActiveServer True s)))) (Servers (snd (GetActiveServer True s)))
        = tl (drop (nat (serverIndex s)) (Servers s))"
    using s by (auto simp: GetActiveServer_def Let_def nat_add_distrib drop_Suc tl_drop)
qed

text \<open>\<open>net.JoinHostPort\<close>: an address with a colon is bracketed.\<close>

definition NetworkAddr :: "server_addr \<Rightarrow> byte list" where
  "NetworkAddr serv =
     (if 58 \<in> set (srv_Addr serv) then [91] @ srv_Addr serv @ [93] else srv_Addr serv) @ [58] @ FormatInt (srv_Port serv)"

definition UpdateSSL :: "server_addr \<Rightarrow> 'z connection_config_scheme \<Rightarrow> unit res \<times> 'z connection_config_scheme" where
  "UpdateSSL server si =
     (if to_upper (srv_Protocol server) = ascii ''TCPS'' then (Ok (), si\<lparr>cfg_SSL := True\<rparr>)
      else if to_upper (srv_Protocol server) = ascii ''TCP'' then (Ok (), si\<lparr>cfg_SSL := False\<rparr>)
      else if to_upper (cfg_Protocol si) = ascii ''TCP'' then (Ok (), si\<lparr>cfg_SSL := False\<rparr>)
      else if to_upper (cfg_Protocol si) = ascii ''TCPS'' then (Ok (), si\<lparr>cfg_SSL := True\<rparr>)
      else (Err (UnknownProtocol (cfg_Protocol si)), si))"

section \<open>Connect descriptors\<close>

text \<open>The pattern of an address: any number of parameters in any order, a submatch for each name and value.\<close>

definition host_byte :: "byte \<Rightarrow> bool" where
  "host_byte b \<longleftrightarrow> word_byte b \<or> b = 46 \<or> b = 45 \<or> b = 58"

definition name_byte :: "byte \<Rightarrow> bool" where
  "name_byte b \<longleftrightarrow> word_byte b \<or> b = 46 \<or> b = 45"

definition param_rx :: "nat \<Rightarrow> string \<Rightarrow> (byte \<Rightarrow> bool) \<Rightarrow> rx" where
  "param_rx n name P = cats [chr_rx (CHR ''(''), spaces, Grp n (lit_fold name), spaces, chr_rx (CHR ''=''), spaces,
     Grp (n + 1) (rx_plus (Cls P)), spaces, chr_rx (CHR '')''), spaces]"

definition address_params :: rx where
  "address_params = Alt (param_rx 2 ''HOST'' host_byte) (Alt (param_rx 4 ''PORT'' is_digit)
     (Alt (param_rx 6 ''COMMUNITY'' name_byte) (param_rx 8 ''PROTOCOL'' word_byte)))"

definition address_rx :: rx where
  "address_rx = cats [chr_rx (CHR ''(''), spaces, lit_fold ''ADDRESS'', spaces, chr_rx (CHR ''=''), spaces,
     rx_plus (Grp 1 address_params), spaces, chr_rx (CHR '')'')]"

text \<open>
  The loop over the submatches \<open>2..9\<close> of an address: the submatch behind a name is its value. The submatches
  of a parameter that is not there are empty.
\<close>

definition is_param :: "captures \<Rightarrow> nat \<Rightarrow> string \<Rightarrow> bool" where
  "is_param m n name \<longleftrightarrow> to_upper (submatch m n) = ascii name"

function server_fields :: "captures \<Rightarrow> nat \<Rightarrow> server_addr \<Rightarrow> server_addr res" where
  "server_fields m x server =
     (if x \<ge> 10 then Ok server
      else if is_param m x ''PROTOCOL'' then
        (if x + 1 < 10 then server_fields m (x + 2) (server\<lparr>srv_Protocol := submatch m (x + 1)\<rparr>) else Panic)
      else if is_param m x ''PORT'' then
        (if x + 1 < 10 then rbind (Atoi (submatch m (x + 1))) (\<lambda>p. server_fields m (x + 2) (server\<lparr>srv_Port := p\<rparr>)) else Panic)
      else if is_param m x ''HOST'' then
        (if x + 1 < 10 then server_fields m (x + 2) (server\<lparr>srv_Addr := submatch m (x + 1)\<rparr>) else Panic)
      else server_fields m (x + 1) server)"
  by pat_completeness auto
termination by (relation "measure (\<lambda>(m, x, s). 10 - x)") auto

declare server_fields.simps [simp del]

fun servers_of :: "captures list \<Rightarrow> server_addr list res" where
  "servers_of [] = Ok []"
| "servers_of (m # ms) =
     rbind (server_fields m 2 \<lparr>srv_Protocol = [], srv_Addr = [], srv_Port = 1521\<rparr>) (\<lambda>server.
     rbind (servers_of ms) (\<lambda>servers. Ok (if srv_Addr server \<noteq> [] then server # servers else servers)))"

definition ExtractServers :: "byte list \<Rightarrow> server_addr list res" where
  "ExtractServers str = servers_of (rx_find_all address_rx str)"

definition value_rx :: "string \<Rightarrow> rx" where
  "value_rx name = cats [chr_rx (CHR ''(''), spaces, lit_fold name, spaces, chr_rx (CHR ''=''), spaces,
     Grp 1 (rx_plus (Cls name_byte)), spaces, chr_rx (CHR '')'')]"

definition find_value :: "string \<Rightarrow> byte list \<Rightarrow> byte list option" where
  "find_value name str = (case rx_find (value_rx name) str of None \<Rightarrow> None | Some (_, m) \<Rightarrow> Some (submatch m 1))"

definition no_breaks :: "byte list \<Rightarrow> byte list" where
  "no_breaks = filter (\<lambda>b. b \<noteq> 13 \<and> b \<noteq> 10)"

definition update_names :: "byte list \<Rightarrow> 'z database_info_scheme \<Rightarrow> 'z database_info_scheme" where
  "update_names str info =
     (let info = (case find_value ''SERVICE_NAME'' str of None \<Rightarrow> info | Some v \<Rightarrow> info\<lparr>ServiceName := v\<rparr>);
          info = (case find_value ''SID'' str of None \<Rightarrow> info | Some v \<Rightarrow> info\<lparr>db_SID := v\<rparr>)
      in case find_value ''INSTANCE_NAME'' str of None \<Rightarrow> info | Some v \<Rightarrow> info\<lparr>InstanceName := v\<rparr>)"

text \<open>The server list is overwritten even when the descriptor has no usable address.\<close>

definition UpdateDatabaseInfo :: "byte list \<Rightarrow> 'z database_info_scheme \<Rightarrow> unit res \<times> 'z database_info_scheme" where
  "UpdateDatabaseInfo str info =
     (let str = no_breaks str
      in case ExtractServers str of
           Err e \<Rightarrow> (Err e, info\<lparr>Servers := []\<rparr>)
         | Panic \<Rightarrow> (Panic, info)
         | Ok servers \<Rightarrow>
             let info = info\<lparr>Servers := servers\<rparr>
             in if servers = [] then (Err NoAddress, info)
                else (Ok (), update_names str (info\<lparr>connStr := str\<rparr>)))"

definition UpdateDatabaseInfoForRedirect ::
    "byte list \<Rightarrow> byte list \<Rightarrow> 'z database_info_scheme \<Rightarrow> unit res \<times> 'z database_info_scheme" where
  "UpdateDatabaseInfoForRedirect redirectAddr reconnectData info =
     (case ExtractServers (no_breaks redirectAddr) of
        Err e \<Rightarrow> (Err e, info\<lparr>Servers := []\<rparr>)
      | Panic \<Rightarrow> (Panic, info)
      | Ok servers \<Rightarrow>
          let info = info\<lparr>Servers := servers\<rparr>
          in if servers = [] then (Err NoAddress, info)
             else (Ok (), (update_names (no_breaks reconnectData) info)\<lparr>connStr := []\<rparr>))"

text \<open>The descriptor a session sends; without an active server the code reads through a nil pointer.\<close>

definition descriptor_address :: "'z connection_config_scheme \<Rightarrow> server_addr \<Rightarrow> byte list" where
  "descriptor_address config host =
     (if UnixAddress config \<noteq> [] then ascii ''(ADDRESS=(PROTOCOL=IPC)(KEY=EXTPROC1))''
      else ascii ''(ADDRESS=(PROTOCOL='' @ (if srv_Protocol host \<noteq> [] then srv_Protocol host else cfg_Protocol config) @
        ascii '')(HOST='' @ srv_Addr host @ ascii '')(PORT='' @ FormatInt (srv_Port host) @ ascii ''))'')"

definition descriptor_data :: "'z connection_config_scheme \<Rightarrow> byte list" where
  "descriptor_data config =
     ascii ''(CONNECT_DATA='' @
     (if db_SID config \<noteq> [] then ascii ''(SID='' @ db_SID config @ ascii '')''
      else ascii ''(SERVICE_NAME='' @ ServiceName config @ ascii '')'') @
     (if InstanceName config \<noteq> [] then ascii ''(INSTANCE_NAME='' @ InstanceName config @ ascii '')'' else []) @
     (if Cid config \<noteq> [] then Cid config
      else ascii ''(CID=(PROGRAM='' @ ProgramPath config @ ascii '')(HOST='' @ HostName config @
        ascii '')(USER='' @ OSUserName config @ ascii ''))'')"

definition cfg_ConnectionData :: "'z connection_config_scheme \<Rightarrow> byte list res" where
  "cfg_ConnectionData config =
     (if connStr config \<noteq> [] then Ok (connStr config)
      else case fst (GetActiveServer False config) of
             None \<Rightarrow> Panic
           | Some host \<Rightarrow> Ok (ascii ''(DESCRIPTION='' @ descriptor_address config host @ descriptor_data config @
               (if SSLVerify config then ascii ''(security=(ssl_server_dn_match=yes))'' else []) @ ascii ''))''))"

section \<open>The error code of a refusal\<close>

definition err_rx :: rx where
  "err_rx = cats [chr_rx (CHR ''(''), spaces, lit ''ERR'', spaces, chr_rx (CHR ''=''), spaces,
     Grp 1 (rx_plus (Cls is_digit)), spaces, chr_rx (CHR '')'')]"

definition error_byte :: "byte \<Rightarrow> bool" where
  "error_byte b \<longleftrightarrow> 65 \<le> b \<and> b \<le> 90 \<or> is_digit b \<or> b = 61 \<or> b = 40 \<or> b = 41"

definition error_rx :: rx where
  "error_rx = cats [chr_rx (CHR ''(''), spaces, lit ''ERROR'', spaces, chr_rx (CHR ''=''), Grp 1 (rx_plus (Cls error_byte))]"

definition code_rx :: rx where
  "code_rx = cats [lit ''CODE'', spaces, chr_rx (CHR ''=''), spaces, Grp 1 (rx_plus (Cls is_digit))]"

definition parse_code :: "byte list \<Rightarrow> int option" where
  "parse_code w = (case ParseInt w 32 of Ok n \<Rightarrow> Some n | _ \<Rightarrow> None)"

text \<open>The search for the long form is only made when the short form was found with a code out of range.\<close>

definition extractErrCode :: "byte list \<Rightarrow> int" where
  "extractErrCode message =
     (if message = [] then 12564
      else let msg = to_upper message
           in case rx_find err_rx msg of
                None \<Rightarrow> 12564
              | Some (_, m) \<Rightarrow> (case parse_code (submatch m 1) of
                  Some n \<Rightarrow> n
                | None \<Rightarrow> (case rx_find error_rx msg of
                    None \<Rightarrow> 12564
                  | Some (_, m) \<Rightarrow> (case rx_find code_rx (submatch m 1) of
                      None \<Rightarrow> 12564
                    | Some (_, m) \<Rightarrow> (case parse_code (submatch m 1) of Some n \<Rightarrow> n | None \<Rightarrow> 12564)))))"

end
