(* ===== verification/Conn_Config_Props.thy ===== *)
theory Conn_Config_Props
  imports Conn_Config
begin

text \<open>
  The descriptor a session prints is understood by the parser of descriptors, and the codes found in refusals.
\<close>

section \<open>Patterns of parameters\<close>



text \<open>Space is optional and there is none in front of a byte that is not space.\<close>

lemma first_no_spaces: "\<not> space_byte b \<Longrightarrow> first spaces (b # s) c (b # s) c"
  by (intro only_first only_spaces) simp

lemma first_chr: "first (chr_rx x) (of_char x # s) c s c"
  by (rule only_first [OF only_chr])

text \<open>The value behind a name: an equals sign, a run of the class, a closing parenthesis.\<close>

lemma first_value:
  assumes "list_all P w" and "w \<noteq> []" and "\<not> P 41" and "\<not> space_byte (hd w)"
    and "first q s ((n, w) # c) s' c'"
  shows "first (Cat spaces (Cat (chr_rx (CHR ''='')) (Cat spaces (Cat (Grp n (rx_plus (Cls P))) (Cat spaces
     (Cat (chr_rx (CHR '')'')) q)))))) (61 # w @ 41 # s) c s' c'"
proof -
  obtain b v where w: "w = b # v" using assms(2) by (cases w) auto
  have 1: "first spaces (61 # w @ 41 # s) c (61 # w @ 41 # s) c" by (rule first_no_spaces) (simp add: space_byte_def)
  have 2: "first (chr_rx (CHR ''='')) (61 # w @ 41 # s) c (w @ 41 # s) c" using first_chr [of "CHR ''=''"] by simp
  have 3: "first spaces (w @ 41 # s) c (w @ 41 # s) c" using first_no_spaces assms(4) w by simp
  have 4: "first (Grp n (rx_plus (Cls P))) (w @ 41 # s) c (41 # s) ((n, w) # c)"
    using assms(1-3) by (intro first_Grp first_rx_plus_Cls) auto
  have 5: "first spaces (41 # s) ((n, w) # c) (41 # s) ((n, w) # c)" by (rule first_no_spaces) (simp add: space_byte_def)
  have 6: "first (chr_rx (CHR '')'')) (41 # s) ((n, w) # c) s ((n, w) # c)" using first_chr [of "CHR '')''"] by simp
  show ?thesis
    by (rule first_Cat [OF 1 first_Cat [OF 2 first_Cat [OF 3 first_Cat [OF 4 first_Cat [OF 5 first_Cat [OF 6 assms(5)]]]]]])
qed



section \<open>One address\<close>

lemma class_bytes:
  "word_byte b \<Longrightarrow> host_byte b" "word_byte b \<Longrightarrow> name_byte b" "is_digit b \<Longrightarrow> word_byte b" "name_byte b \<Longrightarrow> host_byte b"
  by (auto simp: host_byte_def name_byte_def word_byte_def is_digit_def)

lemma host_byte_facts: "host_byte b \<Longrightarrow> \<not> space_byte b \<and> b \<noteq> 40 \<and> b \<noteq> 10 \<and> b \<noteq> 13"
  by (auto simp: host_byte_def word_byte_def space_byte_def)










section \<open>Names\<close>




section \<open>The descriptor of a session\<close>




lemma no_breaks_cons: "b \<noteq> 10 \<Longrightarrow> b \<noteq> 13 \<Longrightarrow> no_breaks (b # s) = b # no_breaks s" "no_breaks [] = []"
  by (simp_all add: no_breaks_def)




















section \<open>Refusals\<close>

lemma err_rx_alt: "err_rx = Cat (chr_rx (CHR ''('')) (Cat spaces (Cat (lit ''ERR'') (Cat spaces (Cat (chr_rx (CHR ''='')) (Cat spaces
   (Cat (Grp 1 (rx_plus (Cls is_digit))) (Cat spaces (Cat (chr_rx (CHR '')'')) Eps))))))))"
  by (simp add: err_rx_def)

lemma nothing_lit: "take (length w) s \<noteq> ascii w \<Longrightarrow> nothing (lit w) s"
proof (induction w arbitrary: s)
  case Nil
  then show ?case by (simp add: ascii_def)
next
  case (Cons x w)
  show ?case
  proof (cases s)
    case Nil
    then show ?thesis by (simp add: lit_def chr_rx_def nothing_def)
  next
    case (Cons b s')
    with Cons.prems Cons.IH [of s'] show ?thesis
      by (cases "b = of_char x") (auto simp: lit_def chr_rx_def ascii_def nothing_def)
  qed
qed

lemma nothing_err:
  assumes "s = [] \<or> hd s \<noteq> 40 \<or> tl s \<noteq> [] \<and> \<not> space_byte (hd (tl s)) \<and> take 3 (tl s) \<noteq> [69, 82, 82]"
  shows "nothing err_rx s"
proof (cases "s = [] \<or> hd s \<noteq> 40")
  case True
  then show ?thesis unfolding err_rx_alt by (intro nothing_Cat nothing_chr) simp
next
  case False
  moreover from this assms have "nothing (lit ''ERR'') (tl s)" by (intro nothing_lit) (simp add: ascii_def numeral_3_eq_3)
  ultimately have "only (chr_rx (CHR ''('')) s (tl s)" "only spaces (tl s) (tl s)" "nothing (lit ''ERR'') (tl s)"
    using assms only_chr [of "CHR ''(''" "tl s"] by (auto intro!: only_spaces simp: neq_Nil_conv)
  then show ?thesis unfolding err_rx_alt by (meson nothing_Cat nothing_Cat_only)
qed

lemma err_prefix: "take 3 t \<noteq> [69, 82, 82] \<Longrightarrow> take 3 (t @ 40 # s) \<noteq> [69 :: byte, 82, 82]"
proof -
  assume t: "take 3 t \<noteq> [69, 82, 82]"
  consider "t = []" | a where "t = [a]" | a b where "t = [a, b]" | a b c u where "t = a # b # c # u"
    by (cases t; cases "tl t"; cases "tl (tl t)") auto
  then show ?thesis using t by cases (auto simp: numeral_3_eq_3)
qed

lemma find_err_skip:
  "never_opens ''ERR'' w \<Longrightarrow> to_upper w = w \<Longrightarrow> rx_find err_rx (w @ 40 # s) = rx_find err_rx (40 # s)"
proof (induction w)
  case (Cons b w)
  have up: "map to_upper_byte w = w" using Cons.prems(2) by (simp add: to_upper_def)
  have "nothing err_rx ((b # w) @ 40 # s)"
    using Cons.prems(1) err_prefix [of w s] up
    by (intro nothing_err) (auto simp: never_opens.simps(2) ascii_def numeral_3_eq_3)
  with Cons up show ?case by (simp add: rx_find_skip never_opens.simps(2) to_upper_def)
qed simp

lemma to_upper_id: "list_all is_digit w \<Longrightarrow> to_upper w = w"
proof (induction w)
  case (Cons b w)
  have "\<not> 97 \<le> b" using Cons.prems order_trans [of 97 b 57] by (auto simp: is_digit_def)
  with Cons show ?case by (simp add: to_upper_def to_upper_byte_def)
qed (simp add: to_upper_def)

lemma to_upper_idem: "to_upper (to_upper w) = to_upper w"
proof -
  have "to_upper_byte (to_upper_byte b) = to_upper_byte b" for b
  proof (cases "97 \<le> b \<and> b \<le> 122")
    case True
    then have "unat (b - 32) \<le> 90" by (auto simp: word_le_nat_alt unat_sub)
    then have "\<not> 97 \<le> b - 32" by (simp add: word_le_nat_alt)
    with True show ?thesis by (simp add: to_upper_byte_def)
  qed (simp add: to_upper_byte_def)
  then show ?thesis by (simp add: to_upper_def)
qed

lemma only_lit: "only (lit w) (ascii w @ s) s"
  by (induction w) (auto simp: only_def lit_def chr_rx_def ascii_def)

lemma find_err_none:
  assumes "list_all is_digit d"
  shows "rx_find err_rx (ascii ''(ERROR=(CODE='' @ d @ ascii ''))'') = None"
proof -
  let ?t = "ascii ''OR=(CODE='' @ d @ ascii ''))''"
  have "nothing (chr_rx (CHR ''='')) ?t" by (rule nothing_chr) (simp add: ascii_def)
  moreover have "only spaces ?t ?t" by (rule only_spaces) (simp add: ascii_def space_byte_def)
  moreover have "only (lit ''ERR'') (ascii ''ERR'' @ ?t) ?t" by (rule only_lit)
  moreover have "only spaces (ascii ''ERR'' @ ?t) (ascii ''ERR'' @ ?t)" by (rule only_spaces) (simp add: ascii_def space_byte_def)
  moreover have "only (chr_rx (CHR ''('')) (40 # ascii ''ERR'' @ ?t) (ascii ''ERR'' @ ?t)" using only_chr [of "CHR ''(''"] by simp
  ultimately have 1: "nothing err_rx (40 # ascii ''ERR'' @ ?t)"
    unfolding err_rx_alt by (meson nothing_Cat nothing_Cat_only)
  have skip: "rx_find err_rx (b # s) = rx_find err_rx s" if "b \<noteq> 40" for b s
    using that by (intro rx_find_skip nothing_err) simp
  have pass: "rx_find err_rx (w @ s) = rx_find err_rx s" if "list_all is_digit w" for w s
    using that by (induction w) (auto simp: skip class_bytes host_byte_facts)
  have 2: "rx_find err_rx (40 # ascii ''CODE='' @ d @ ascii ''))'') = rx_find err_rx (ascii ''CODE='' @ d @ ascii ''))'')"
    by (intro rx_find_skip nothing_err) (simp add: ascii_def space_byte_def)
  have 3: "rx_find err_rx [] = None" by (intro rx_find_end nothing_err) simp
  have "rx_find err_rx (40 # ascii ''ERR'' @ ?t) = rx_find err_rx (40 # ascii ''CODE='' @ d @ ascii ''))'')"
    unfolding rx_find_skip [OF 1] by (simp add: ascii_def skip)
  also have "\<dots> = rx_find err_rx (d @ ascii ''))'')" unfolding 2 by (simp add: ascii_def skip)
  also have "\<dots> = None" unfolding pass [OF assms] by (simp add: ascii_def skip 3)
  finally show ?thesis by (simp add: ascii_def)
qed

lemma to_upper_append: "to_upper (v @ w) = to_upper v @ to_upper w"
  by (simp add: to_upper_def)

lemma find_err_here:
  assumes "list_all is_digit d" and "d \<noteq> []"
  shows "rx_find err_rx (40 # ascii ''ERR'' @ 61 # d @ 41 # s) = Some (s, [(1, d)])"
proof (rule rx_find_here)
  have "\<not> space_byte (hd d)" using assms by (auto simp: neq_Nil_conv class_bytes host_byte_facts)
  moreover have "\<not> is_digit 41" by (simp add: is_digit_def)
  ultimately have 4: "first (Cat spaces (Cat (chr_rx (CHR ''='')) (Cat spaces
      (Cat (Grp 1 (rx_plus (Cls is_digit))) (Cat spaces (Cat (chr_rx (CHR '')'')) Eps)))))) (61 # d @ 41 # s) [] s [(1, d)]"
    using assms by (intro first_value first_Eps) simp_all
  have 1: "first (chr_rx (CHR ''('')) (40 # ascii ''ERR'' @ 61 # d @ 41 # s) [] (ascii ''ERR'' @ 61 # d @ 41 # s) []"
    using first_chr [of "CHR ''(''"] by simp
  have 2: "first spaces (ascii ''ERR'' @ 61 # d @ 41 # s) [] (ascii ''ERR'' @ 61 # d @ 41 # s) []"
    by (rule only_first, rule only_spaces) (simp add: ascii_def space_byte_def)
  show "first err_rx (40 # ascii ''ERR'' @ 61 # d @ 41 # s) [] s [(1, d)]"
    unfolding err_rx_alt by (rule first_Cat [OF 1 first_Cat [OF 2 first_Cat [OF first_lit 4]]])
qed

text \<open>
  The code of a refusal: the number behind the first \<open>(ERR=\<close> of the text, in any case, is the code
  reported, whatever follows it; but a text that gives its code in the long form \<open>(ERROR=(CODE=\<close> only is
  reported as ORA-12564, because that form is looked for only after the short one has been found.
\<close>

theorem refusal_code:
  assumes "0 \<le> n" and "n < 2 ^ 31" and "never_opens ''ERR'' (to_upper pre)"
  shows "extractErrCode (pre @ ascii ''(err='' @ FormatInt n @ ascii '')'' @ post) = n
    \<and> extractErrCode (pre @ ascii ''(ERR='' @ FormatInt n @ ascii '')'' @ post) = n
    \<and> extractErrCode (ascii ''(ERROR=(CODE='' @ FormatInt n @ ascii ''))'') = 12564"
proof -
  let ?d = "FormatInt n"
  have d: "list_all is_digit ?d" "?d \<noteq> []" "to_upper ?d = ?d" "ParseInt ?d 32 = Ok n"
    using assms(1,2) ParseInt_FormatInt [of 32 n] dec_digits_digits [of "nat n"] by (simp_all add: FormatInt_def to_upper_id)
  have up: "to_upper (to_upper pre) = to_upper pre" by (rule to_upper_idem)
  have f: "rx_find err_rx (to_upper pre @ 40 # ascii ''ERR'' @ 61 # ?d @ 41 # to_upper post) = Some (to_upper post, [(1, ?d)])"
    using find_err_skip [OF assms(3) up] find_err_here [OF d(1,2)] by simp
  have msg: "to_upper (pre @ ascii w @ ?d @ ascii '')'' @ post) = to_upper pre @ 40 # ascii ''ERR'' @ 61 # ?d @ 41 # to_upper post"
    if "w \<in> {''(err='', ''(ERR=''}" for w
    using that d(3) by (auto simp: to_upper_append) (auto simp: ascii_def to_upper_def to_upper_byte_def)
  have short: "extractErrCode (pre @ ascii w @ ?d @ ascii '')'' @ post) = n" if "w \<in> {''(err='', ''(ERR=''}" for w
    using msg [OF that] f d(2,4) by (simp add: extractErrCode_def submatch_def parse_code_def Let_def)
  have "to_upper (ascii ''(ERROR=(CODE='' @ ?d @ ascii ''))'') = ascii ''(ERROR=(CODE='' @ ?d @ ascii ''))''"
    using d(3) by (simp add: to_upper_append) (simp add: ascii_def to_upper_def to_upper_byte_def)
  moreover have "rx_find err_rx (ascii ''(ERROR=(CODE='' @ ?d @ ascii ''))'') = None"
    by (rule find_err_none [OF d(1)])
  ultimately have "extractErrCode (ascii ''(ERROR=(CODE='' @ ?d @ ascii ''))'') = 12564"
    by (simp add: extractErrCode_def ascii_def)
  with short show ?thesis by simp
qed

theorem refusal_code_witness:
  "extractErrCode (ascii ''(DESCRIPTION=(TMP=)(ERR=12514)(EMFI=4))'') = 12514
   \<and> extractErrCode (ascii ''(ERROR=(CODE=12514))'') = 12564"
proof -
  have "never_opens ''ERR'' (to_upper (ascii ''(DESCRIPTION=(TMP=)''))"
    by (simp add: never_opens.simps ascii_def to_upper_def to_upper_byte_def space_byte_def)
  moreover have "ascii ''(DESCRIPTION=(TMP=)(ERR=12514)(EMFI=4))'' = ascii ''(DESCRIPTION=(TMP=)'' @ ascii ''(ERR='' @ FormatInt 12514
      @ ascii '')'' @ ascii ''(EMFI=4))''"
    and "ascii ''(ERROR=(CODE=12514))'' = ascii ''(ERROR=(CODE='' @ FormatInt 12514 @ ascii ''))''"
    by (simp_all add: ascii_def FormatInt_def dec_digits.simps)
  ultimately show ?thesis
    using refusal_code [of 12514 "ascii ''(DESCRIPTION=(TMP=)''" "ascii ''(EMFI=4))''"] by simp
qed

end
