(* ===== verification/TNS_Connect.thy ===== *)
theory TNS_Connect
  imports TNS_Session Conn_Config
begin

text \<open>
  \<^verbatim>\<open>Session.Connect\<close>: the servers of the configuration are dialled one after the other, a connect packet is
  sent to the first that answers, and its reply decides: an accept packet ends the handshake, a refusal goes on
  with the next server, a redirect starts again with the servers it names. The configuration the code reaches
  through a pointer of the session is part of the state, and so is what the network will do.
\<close>

text \<open>The result of a dial: an error, or a connection with what it delivers, in the clear and over TLS, and
  the results of the writes to it.\<close>

datatype dial_result =
    DialError go_error
  | Dialled "rd_event list" "rd_event list list" "go_error option list"

record 'n connecting =
  sess :: "'n session"
  config :: connection_config
  dials :: "dial_result list"
  tried :: "byte list list"

type_synonym ('n, 'a) cm = "('n connecting, 'a) gom"

definition on_session :: "('n, 'a) sm \<Rightarrow> ('n, 'a) cm" where
  "on_session m = (\<lambda>c. map_option (\<lambda>(r, s). (r, c\<lparr>sess := s\<rparr>)) (m (sess c)))"

text \<open>One dial; when the script of the network is at its end, dialling fails.\<close>

definition dial_address :: "connection_config \<Rightarrow> server_addr \<Rightarrow> byte list" where
  "dial_address cfg host = (if UnixAddress cfg \<noteq> [] then UnixAddress cfg else NetworkAddr host)"

definition dial :: "server_addr \<Rightarrow> 'n connecting \<Rightarrow> go_error option \<times> 'n connecting" where
  "dial host c =
     (let c' = c\<lparr>dials := tl (dials c), tried := tried c @ [dial_address (config c) host]\<rparr>
      in case dials c of
           [] \<Rightarrow> (Some (NetError 0), c'\<lparr>sess := (sess c)\<lparr>conn := False\<rparr>\<rparr>)
         | DialError e # _ \<Rightarrow> (Some e, c'\<lparr>sess := (sess c)\<lparr>conn := False\<rparr>\<rparr>)
         | Dialled evs tls ws # _ \<Rightarrow> (None, c'\<lparr>sess := (sess c)\<lparr>conn := True, reader := evs, tlsReader := tls, writeErrs := ws\<rparr>\<rparr>))"

definition jump :: "'n connecting \<Rightarrow> server_addr option \<times> 'n connecting" where
  "jump c = (case GetActiveServer True (config c) of (h, cfg) \<Rightarrow> (h, c\<lparr>config := cfg\<rparr>))"

lemma dial_config [simp]: "config (snd (dial host c)) = config c"
  by (auto simp: dial_def Let_def split: list.split dial_result.split)

text \<open>
  The loop over the servers. The error of a dial is returned when there is no server left; at the first
  iteration there is no such error yet.
\<close>

function dial_loop :: "'n connecting \<Rightarrow> server_addr res \<times> 'n connecting" where
  "dial_loop c = (case fst (GetActiveServer False (config c)) of
      None \<Rightarrow> (Err NoServers, c)
    | Some host \<Rightarrow> (case dial host c of
        (None, c') \<Rightarrow> (Ok host, c')
      | (Some e, c') \<Rightarrow> (case jump c' of
          (None, c'') \<Rightarrow> (Err e, c'')
        | (Some _, c'') \<Rightarrow> dial_loop c'')))"
  by pat_completeness auto
termination
proof (relation "measure (\<lambda>c. nat (int (length (Servers (config c))) - serverIndex (config c)))")
  fix c :: "'n connecting" and host x c' e x2 c''
  assume "fst (GetActiveServer False (config c)) = Some host" "(x, c') = dial host c" "(x2, c'') = jump c'"
  moreover from this(2) have "config c' = config c" by (metis dial_config snd_conv)
  ultimately show "(c'', c) \<in> measure (\<lambda>c. nat (int (length (Servers (config c))) - serverIndex (config c)))"
    by (auto simp: jump_def GetActiveServer_def Let_def split: if_splits)
qed simp

declare dial_loop.simps [simp del]

text \<open>The configuration as the packets see it.\<close>

definition sync_config :: "'n connecting \<Rightarrow> 'n session res" where
  "sync_config c = rbind (cfg_ConnectionData (config c)) (\<lambda>str.
     Ok ((sess c)\<lparr>Context := (Context (sess c))\<lparr>connConfig := (connConfig (Context (sess c)))\<lparr>
       SSL := cfg_SSL (config c), ConnectionData := str\<rparr>\<rparr>\<rparr>))"

definition open_connection :: "server_addr \<Rightarrow> ('n, unit) cm" where
  "open_connection host = (\<lambda>c. case UpdateSSL host (config c) of
     (Ok _, cfg) \<Rightarrow> (let c = c\<lparr>config := cfg\<rparr> in case sync_config c of
        Ok s \<Rightarrow> Some (Ok (), c\<lparr>sess := (if cfg_SSL cfg then negotiate s else s)\<rparr>)
      | Err e \<Rightarrow> Some (Err e, c)
      | Panic \<Rightarrow> Some (Panic, c))
   | (Err e, cfg) \<Rightarrow> Some (Err e, c\<lparr>config := cfg\<rparr>)
   | (Panic, cfg) \<Rightarrow> Some (Panic, c\<lparr>config := cfg\<rparr>))"

text \<open>A long descriptor follows the connect packet in a data packet of its own.\<close>

definition send_connect :: "'n nego_ops \<Rightarrow> ('n, unit) sm" where
  "send_connect ops = (\<lambda>s. case newConnectPacket (Context s) of ((p, buffer), ctx) \<Rightarrow>
     gseq (writePacket (ConnectPck p buffer))
       (if (ucast (pck_length p) :: u16) = dataOffset p
        then gseq (PutBytes buffer) (Write ops) else gret ()) (s\<lparr>Context := ctx\<rparr>))"

definition accepted :: "'n session_context \<Rightarrow> 'n session \<Rightarrow> 'n session" where
  "accepted ctx s = s\<lparr>Context := ctx\<lparr>handshakeComplete := True\<rparr>\<rparr>"

partial_function (option) Connect :: "'n nego_ops \<Rightarrow> ('n, unit) cm" where
  "Connect ops c0 =
     (let c = c0\<lparr>sess := Disconnect (ResetBuffer (sess c0))\<rparr>
      in case dial_loop c of
           (Err e, c) \<Rightarrow> Some (Err e, c)
         | (Panic, c) \<Rightarrow> Some (Panic, c)
         | (Ok host, c) \<Rightarrow>
             gseq (open_connection host)
            (gseq (on_session (send_connect ops))
            (gbind (on_session (readPacket ops)) (\<lambda>pck c.
               case pck of
                 Some (PAccept p b ctx) \<Rightarrow> Some (Ok (), c\<lparr>sess := accepted ctx (sess c)\<rparr>)
               | Some (PRedirect p addr data) \<Rightarrow>
                   (case UpdateDatabaseInfoForRedirect addr data (config c) of
                      (Ok _, cfg) \<Rightarrow> Connect ops (c\<lparr>config := ResetServerIndex cfg,
                        sess := (sess c)\<lparr>Context := (Context (sess c))\<lparr>isRedirect := True\<rparr>\<rparr>\<rparr>)
                    | (Err e, cfg) \<Rightarrow> Some (Err e, c\<lparr>config := cfg\<rparr>)
                    | (Panic, cfg) \<Rightarrow> Some (Panic, c\<lparr>config := cfg\<rparr>))
               | Some (PRefuse p) \<Rightarrow>
                   (case jump c of
                      (None, c) \<Rightarrow> Some (Err (Refused (extractErrCode (message p))), c\<lparr>sess := Disconnect (sess c)\<rparr>)
                    | (Some _, c) \<Rightarrow> Connect ops c)
               | _ \<Rightarrow> Some (Err ConnectionRefused, c)))) c)"

end
