(* ===== verification/TNS_Connect_Props.thy ===== *)
theory TNS_Connect_Props
  imports TNS_Connect TNS_Session_Props
begin

text \<open>
  What \<^verbatim>\<open>Connect\<close> promises, as an abstract choice among the servers left in the list: the first one that
  accepts is used, and if there is none, the failure of the last one is reported. The detailed model
  implements it, with the connect packet sent, the replies parsed and the index of the configuration moved.
\<close>

section \<open>The specification\<close>

datatype 'n outcome =
    Unreachable go_error
  | Refuses int
  | Accepts "'n session_context"

fun pick :: "'n outcome list \<Rightarrow> (nat \<times> 'n session_context) res" where
  "pick [] = Err NoServers"
| "pick (Accepts ctx # outs) = Ok (0, ctx)"
| "pick (Unreachable e # outs) = (if outs = [] then Err e else rbind (pick outs) (\<lambda>(j, ctx). Ok (Suc j, ctx)))"
| "pick (Refuses code # outs) = (if outs = [] then Err (Refused code) else rbind (pick outs) (\<lambda>(j, ctx). Ok (Suc j, ctx)))"

section \<open>Replies\<close>

text \<open>A packet of the handshake, whose length field has 16 bits.\<close>

definition whole_packet :: "byte \<Rightarrow> byte list \<Rightarrow> bool" where
  "whole_packet ty frame \<longleftrightarrow> 8 \<le> length frame \<and> length frame < 65536 \<and> take 2 frame = be_enc 2 (length frame) \<and> frame ! 4 = ty"

lemma readPacketData_frame:
  fixes s :: "'n session"
  assumes "opened s" and "clean (reader s)" and "remainingBytes s \<le> 0" and "\<not> wide_length (Context s)"
    and "stream (reader s) = frame @ rest" and "whole_packet ty frame"
  shows "\<exists>evs. readPacketData s = Some (Ok (), s\<lparr>reader := evs, remainingBytes := 0, lastPacket := frame\<rparr>)
    \<and> clean evs \<and> stream evs = rest"
proof -
  let ?h = "take 8 frame" and ?b = "drop 8 frame"
  have len: "8 \<le> length frame" "length frame < 65536" "take 2 frame = be_enc 2 (length frame)"
    using assms(6) by (simp_all add: whole_packet_def)
  obtain evs1 where h: "read_head s = Some (Ok (), s\<lparr>reader := evs1, remainingBytes := 0, lastPacket := ?h\<rparr>)"
      and c1: "clean evs1" "stream evs1 = ?b @ rest"
    using read_head_reads [OF assms(1) _ assms(2), of "[]" ?h "?b @ rest"] assms(5) len(1)
    by (auto simp flip: append_assoc)
  let ?s1 = "s\<lparr>reader := evs1, remainingBytes := 0, lastPacket := ?h\<rparr>"
  have "slice 0 2 ?h = be_enc 2 (length frame)" using len by (simp add: slice_def)
  then have rl: "read_length (Context s) ?h = Ok (of_nat (length frame))"
    using assms(4) len unfolding read_length_def be_at_def by (simp add: be_dec_enc flip: numeral_2_eq_2)
  have "(of_nat (length frame) - 8 :: u32) = of_nat (length frame - 8)" using len(1) by (simp add: of_nat_diff)
  then have ul: "unat (of_nat (length frame) - 8 :: u32) = length ?b" using len by (simp add: unat_of_nat_small del: of_nat_diff)
  have "opened ?s1" using assms(1) by (simp add: opened_def)
  then obtain evs2 where r2: "readAll (length ?b) ?s1 = Some (Ok (), ?s1\<lparr>reader := evs2, remainingBytes := 0,
      lastPacket := ?h @ ?b\<rparr>)" and c2: "clean evs2" "stream evs2 = rest"
    using readAll_reads [of ?s1 evs1 "[]" ?b rest "length ?b"] c1 by auto
  have "readPacketData s = readAll (length ?b) ?s1"
    using assms(3) h rl ul by (simp add: readPacketData_def gseq_def lift_res_def)
  with r2 c2 show ?thesis by (intro exI [of _ evs2]) simp
qed

lemma readPacket_refuse:
  fixes s :: "'n session"
  assumes "opened s" and "clean (reader s)" and "remainingBytes s \<le> 0" and "\<not> wide_length (Context s)"
    and "stream (reader s) = frame @ rest" and "whole_packet REFUSE frame" and "newRefusePacketFromData frame = Ok (Some p)"
  shows "\<exists>evs. readPacket ops s = Some (Ok (Some (PRefuse p)), s\<lparr>reader := evs, remainingBytes := 0, lastPacket := frame\<rparr>)"
proof -
  obtain evs where r: "readPacketData s = Some (Ok (), s\<lparr>reader := evs, remainingBytes := 0, lastPacket := frame\<rparr>)"
    using readPacketData_frame [OF assms(1-6)] by blast
  have "6 \<le> length frame" "frame ! 4 = REFUSE" using assms(6) by (simp_all add: whole_packet_def)
  then have "readPacket ops s = Some (Ok (Some (PRefuse p)), s\<lparr>reader := evs, remainingBytes := 0, lastPacket := frame\<rparr>)"
    using r assms(7)
    by (subst readPacket.simps)
       (simp add: gseq_def gget_def lift_res_def gret_def REFUSE_def RESEND_def ACCEPT_def)
  then show ?thesis ..
qed

lemma readPacket_accept:
  fixes s :: "'n session"
  assumes "opened s" and "clean (reader s)" and "remainingBytes s \<le> 0" and "\<not> wide_length (Context s)"
    and "stream (reader s) = frame @ rest" and "whole_packet ACCEPT frame"
    and "newAcceptPacketFromData (lastSpare s) frame (connConfig (Context s)) = Ok (Some (p, b, ctx))"
  shows "\<exists>evs. readPacket ops s = Some (Ok (Some (PAccept p b ctx)), s\<lparr>reader := evs, remainingBytes := 0, lastPacket := frame\<rparr>)"
proof -
  obtain evs where r: "readPacketData s = Some (Ok (), s\<lparr>reader := evs, remainingBytes := 0, lastPacket := frame\<rparr>)"
    using readPacketData_frame [OF assms(1-6)] by blast
  have "6 \<le> length frame" "frame ! 4 = ACCEPT" using assms(6) by (simp_all add: whole_packet_def)
  then have "readPacket ops s = Some (Ok (Some (PAccept p b ctx)), s\<lparr>reader := evs, remainingBytes := 0, lastPacket := frame\<rparr>)"
    using r assms(7)
    by (subst readPacket.simps)
       (simp add: gseq_def gget_def lift_res_def gret_def REFUSE_def RESEND_def ACCEPT_def)
  then show ?thesis ..
qed

section \<open>Sending the connect packet\<close>

text \<open>What the handshake needs of a session and does not change.\<close>

definition link :: "'n session \<Rightarrow> _" where
  "link s = ((conn s, sslConn s, reader s, tlsReader s, deadlineErr s, writeErrs s), (remainingBytes s, lastSpare s),
     connConfig (Context s), handshakeComplete (Context s), nego (Context s), SessionDataUnit (Context s))"

lemma WriteRPC_single:
  fixes s :: "'n session"
  assumes "writable s" and "outBuffer s \<noteq> []" and "length (outBuffer s) \<le> unat (SessionDataUnit (Context s) - 64)"
    and "fits_length (Context s) (length (outBuffer s) + 10)"
  shows "\<exists>s'. WriteRPC ops start stop s = Some (Ok (), s') \<and> link s' = link s"
proof -
  let ?fl = "rpc_flag start stop" and ?d = "outBuffer s"
  have "writePacket (DataPck (data_pck ?d) ?fl ?d) s = Some (Ok (), s\<lparr>sendPcks := sendPcks s @ [DataPck (data_pck ?d) ?fl ?d],
      wire := wire s @ [data_frame (Context s) ?fl ?d]\<rparr>)"
    by (rule write_data [OF assms(1,4)])
  then show ?thesis
    using assms(1-3) new_data_packet_plain [OF assms(1), of ops ?d ?fl]
    by (auto simp: WriteRPC_def Let_def write_or_reset_def gret_def link_def)
qed

lemma send_connect_sends:
  fixes s :: "'n session"
  assumes "writable s" and "\<not> handshakeComplete (Context s)" and "outBuffer s = []"
    and "ConnectionData (connConfig (Context s)) \<noteq> []" and "length (ConnectionData (connConfig (Context s))) < 65526"
    and "230 < length (ConnectionData (connConfig (Context s))) \<Longrightarrow>
      length (ConnectionData (connConfig (Context s))) \<le> unat (SessionDataUnit (Context s) - 64)"
  shows "\<exists>s'. send_connect ops s = Some (Ok (), s') \<and> link s' = link s"
proof -
  obtain p data ctx where n: "newConnectPacket (Context s) = ((p, data), ctx)" by (metis prod_cases3 surj_pair)
  have data: "data = ConnectionData (connConfig (Context s))" and c: "ctx = (Context s)\<lparr>hisOne := 1, ACFL0 := 1, ACFL1 := 1\<rparr>"
    and p: "dataOffset p = 74" "packetType p = CONNECT"
    using n by (auto simp: newConnectPacket_def Let_def)
  have ld: "unat (of_nat (length data) :: u32) = length data" using assms(5) data by (simp add: unat_of_nat_small)
  define len where "len = 74 + (if length data \<le> 230 then length data else 0)"
  have pl: "pck_length p = of_nat len"
    using n ld by (auto simp: newConnectPacket_def Let_def len_def word_less_nat_alt data)
  have len: "len < 65536" by (simp add: len_def)
  then have ul: "unat (pck_length p) = len" by (simp add: pl unat_of_nat_small)
  have w: "\<not> wide_length ctx" using assms(2) c by (simp add: wide_length_def)
  let ?s1 = "s\<lparr>Context := ctx\<rparr>" and ?pck = "ConnectPck p data"
  have "pck_bytes ?s1 ?pck = Ok (connect_frame ctx len (flag p) data)"
    using ConnectPacket_bytes_frame [OF _ p, of ctx data] w ul len by (simp add: pck_bytes_def fits_length_def)
  moreover have w1: "writable ?s1" using assms(1) c by (simp add: writable_def opened_def)
  ultimately have wp: "writePacket ?pck ?s1 = Some (Ok (), ?s1\<lparr>sendPcks := sendPcks s @ [?pck], wire := wire s @ [connect_frame ctx len (flag p) data]\<rparr>)"
    using writePacket_sends by fastforce
  let ?s2 = "?s1\<lparr>sendPcks := sendPcks s @ [?pck], wire := wire s @ [connect_frame ctx len (flag p) data]\<rparr>"
  have l2: "link ?s2 = link s" by (simp add: link_def c)
  have short: "(ucast (pck_length p) :: u16) = dataOffset p \<longleftrightarrow> len = 74"
    using len ul p(1) by (simp add: word_unat_eq_iff unsigned_ucast_eq take_bit_eq_mod)
  show ?thesis
  proof (cases "len = 74")
    case True
    then have d: "230 < length data" using assms(4) data by (auto simp: len_def split: if_splits)
    let ?s3 = "?s2\<lparr>outBuffer := data\<rparr>"
    have "PutBytes data ?s2 = Some (Ok (), ?s3)" using assms(3) by (simp add: PutBytes_def emit_def gupd_def)
    moreover have "\<exists>s'. WriteRPC ops False False ?s3 = Some (Ok (), s') \<and> link s' = link ?s3"
      using w1 d assms(5,6) data c w by (intro WriteRPC_single) (auto simp: writable_def opened_def fits_length_def wide_length_def)
    ultimately show ?thesis
      using wp short True l2 unfolding send_connect_def n prod.case by (auto simp: gseq_def Write_def link_def)
  next
    case False
    with wp short l2 show ?thesis unfolding send_connect_def n prod.case by (auto simp: gseq_def gret_def)
  qed
qed

section \<open>What the network does\<close>

text \<open>
  A network that shows the given outcomes to a session: an unreachable server fails the dial, the others
  deliver, in pieces of any size, a packet that parses to the outcome. The descriptors must fit the packets
  they travel in.
\<close>

definition answers :: "byte \<Rightarrow> byte list \<Rightarrow> dial_result \<Rightarrow> bool" where
  "answers ty frame d = (case d of DialError _ \<Rightarrow> False
     | Dialled evs tls ws \<Rightarrow> ws = [] \<and> clean evs \<and> take (length frame) (stream evs) = frame \<and> whole_packet ty frame)"

definition realises :: "conn_config \<Rightarrow> dial_result \<Rightarrow> 'n outcome \<Rightarrow> bool" where
  "realises k d out = (case out of
     Unreachable e \<Rightarrow> d = DialError e
   | Refuses code \<Rightarrow> (\<exists>frame p. answers REFUSE frame d \<and> newRefusePacketFromData frame = Ok (Some p) \<and> extractErrCode (message p) = code)
   | Accepts ctx \<Rightarrow> (\<exists>frame p b. answers ACCEPT frame d \<and> newAcceptPacketFromData [] frame k = Ok (Some (p, b, ctx))))"

definition sendable :: "u32 \<Rightarrow> byte list \<Rightarrow> bool" where
  "sendable sdu str \<longleftrightarrow> str \<noteq> [] \<and> length str < 65526 \<and> (length str \<le> 230 \<or> length str \<le> unat (sdu - 64))"

definition descriptor :: "connection_config \<Rightarrow> byte list" where
  "descriptor cfg = (case cfg_ConnectionData cfg of Ok str \<Rightarrow> str | _ \<Rightarrow> [])"

definition stage_config :: "conn_config \<Rightarrow> connection_config \<Rightarrow> conn_config" where
  "stage_config k cfg = k\<lparr>SSL := False, ConnectionData := descriptor cfg\<rparr>"

definition next_server :: "connection_config \<Rightarrow> connection_config" where
  "next_server cfg = cfg\<lparr>serverIndex := serverIndex cfg + 1\<rparr>"

fun realised :: "(connection_config \<Rightarrow> conn_config) \<Rightarrow> u32 \<Rightarrow> connection_config \<Rightarrow> dial_result list \<Rightarrow> 'n outcome list \<Rightarrow> bool" where
  "realised k sdu cfg ds [] \<longleftrightarrow> True"
| "realised k sdu cfg [] (out # outs) \<longleftrightarrow> False"
| "realised k sdu cfg (d # ds) (out # outs) \<longleftrightarrow> sendable sdu (descriptor cfg) \<and> realises (k cfg) d out
     \<and> realised k sdu (next_server cfg) ds outs"

text \<open>A session that is not connected yet, and a configuration whose servers are all reached in the clear.\<close>

definition fresh :: "'n session \<Rightarrow> bool" where
  "fresh s \<longleftrightarrow> remainingBytes s \<le> 0 \<and> lastSpare s = [] \<and> deadlineErr s = None \<and> nego (Context s) = None
     \<and> \<not> handshakeComplete (Context s)"

definition plain_servers :: "connection_config \<Rightarrow> bool" where
  "plain_servers cfg \<longleftrightarrow> 0 \<le> serverIndex cfg \<and> list_all (\<lambda>h. to_upper (srv_Protocol h) = ascii ''TCP'') (Servers cfg)"

definition left :: "connection_config \<Rightarrow> server_addr list" where
  "left cfg = drop (nat (serverIndex cfg)) (Servers cfg)"

text \<open>The states at the start of each round differ from the first in what the rounds before have used up.\<close>

definition cleared :: "'n session \<Rightarrow> 'n session" where
  "cleared s = Disconnect (ResetBuffer s)"

lemma cleared_fields [simp]:
  "Context (cleared s) = Context s" "remainingBytes (cleared s) = remainingBytes s" "lastSpare (cleared s) = lastSpare s"
  "deadlineErr (cleared s) = deadlineErr s" "outBuffer (cleared s) = []" "conn (cleared s) = False" "sslConn (cleared s) = False"
  "cleared (cleared s) = cleared s" "cleared (cleared s\<lparr>conn := False\<rparr>) = cleared s" "cleared s\<lparr>conn := False\<rparr> = cleared s"
  by (simp_all add: cleared_def Disconnect_def ResetBuffer_def resetRead_def resetWrite_def)

lemma fresh_cleared [simp]: "fresh (cleared s) = fresh s"
  by (simp add: fresh_def)

lemma ConnectionData_SSL [simp]: "cfg_ConnectionData (cfg\<lparr>cfg_SSL := b\<rparr>) = cfg_ConnectionData cfg"
  by (simp add: cfg_ConnectionData_def GetActiveServer_def descriptor_address_def descriptor_data_def split: option.split)

lemma descriptor_SSL [simp]: "descriptor (cfg\<lparr>cfg_SSL := b\<rparr>) = descriptor cfg"
  by (simp add: descriptor_def)

lemma realised_SSL [simp]: "realised (stage_config k) sdu (cfg\<lparr>cfg_SSL := b\<rparr>) ds outs = realised (stage_config k) sdu cfg ds outs"
proof (induction outs arbitrary: cfg ds)
  case (Cons out outs)
  have "next_server (cfg\<lparr>cfg_SSL := b\<rparr>) = next_server cfg\<lparr>cfg_SSL := b\<rparr>" by (simp add: next_server_def)
  with Cons show ?case by (cases ds) (auto simp: stage_config_def)
qed simp

lemma left_next: "plain_servers cfg \<Longrightarrow> left cfg = h # hs \<Longrightarrow> left (next_server cfg) = hs \<and> plain_servers (next_server cfg)"
  using servers.advance_tl [of cfg] by (auto simp: left_def next_server_def plain_servers_def GetActiveServer_def Let_def)

lemma active_server:
  assumes "plain_servers cfg" and "left cfg = h # hs"
  shows "GetActiveServer False cfg = (Some h, cfg)"
    and "GetActiveServer True cfg = (case hs of [] \<Rightarrow> None | h' # _ \<Rightarrow> Some h', next_server cfg)"
    and "UpdateSSL h cfg = (Ok (), cfg\<lparr>cfg_SSL := False\<rparr>)"
    and "\<exists>str. cfg_ConnectionData cfg = Ok str"
proof -
  have i: "0 \<le> serverIndex cfg" using assms(1) by (simp add: plain_servers_def)
  have "snd (GetActiveServer False cfg) = cfg" "snd (GetActiveServer True cfg) = next_server cfg"
    by (simp_all add: GetActiveServer_def Let_def next_server_def)
  then show g: "GetActiveServer False cfg = (Some h, cfg)"
      and "GetActiveServer True cfg = (case hs of [] \<Rightarrow> None | h' # _ \<Rightarrow> Some h', next_server cfg)"
    using servers.current_hd [OF i] servers.advance_result [OF i] assms(2)
    by (auto simp: left_def prod_eq_iff split: list.split)
  have "h \<in> set (Servers cfg)" using assms(2) by (metis left_def in_set_dropD list.set_intros(1))
  then have "to_upper (srv_Protocol h) = ascii ''TCP''" using assms(1) by (auto simp: plain_servers_def list_all_iff)
  then show "UpdateSSL h cfg = (Ok (), cfg\<lparr>cfg_SSL := False\<rparr>)" by (simp add: UpdateSSL_def ascii_def)
  show "\<exists>str. cfg_ConnectionData cfg = Ok str" using g by (simp add: cfg_ConnectionData_def)
qed

section \<open>One round\<close>

definition after_dial :: "server_addr \<Rightarrow> 'n connecting \<Rightarrow> 'n connecting" where
  "after_dial h c = c\<lparr>dials := tl (dials c), tried := tried c @ [dial_address (config c) h]\<rparr>"

lemma round_unreachable:
  assumes "plain_servers (config c)" and "left (config c) = h # hs" and "dials c = DialError e # ds"
  defines "c1 \<equiv> after_dial h c\<lparr>config := next_server (config c), sess := cleared (sess c)\<rparr>"
  shows "Connect ops c = (if hs = [] then Some (Err e, c1) else Connect ops c1)"
proof -
  let ?c0 = "c\<lparr>sess := cleared (sess c)\<rparr>"
  have d: "dial h ?c0 = (Some e, after_dial h ?c0)"
    using assms(3) by (simp add: dial_def after_dial_def)
  have j: "jump (after_dial h ?c0) = (case hs of [] \<Rightarrow> None | h' # _ \<Rightarrow> Some h', c1)"
    using active_server(2) [OF assms(1,2)] by (simp add: jump_def after_dial_def c1_def)
  have l: "dial_loop ?c0 = (if hs = [] then (Err e, c1) else dial_loop c1)"
    using active_server(1) [OF assms(1,2)] d j by (subst dial_loop.simps) (simp split: list.split)
  have c1: "c1\<lparr>sess := cleared (sess c1)\<rparr> = c1" by (simp add: c1_def after_dial_def)
  show ?thesis
  proof (cases "hs = []")
    case True
    then show ?thesis using l unfolding cleared_def by (subst Connect.simps) simp
  next
    case False
    have "Connect ops c = Connect ops c1"
      using l False by (subst (1 2) Connect.simps) (simp only: Let_def c1 cleared_def [symmetric] if_False)
    with False show ?thesis by simp
  qed
qed

text \<open>The connection is open and the connect packet sent: what is left is the reply.\<close>

definition dialled :: "server_addr \<Rightarrow> 'n session \<Rightarrow> 'n connecting \<Rightarrow> 'n connecting" where
  "dialled h s c = after_dial h c\<lparr>config := (config c)\<lparr>cfg_SSL := False\<rparr>, sess := s\<rparr>"

definition awaiting :: "'n session \<Rightarrow> rd_event list \<Rightarrow> connection_config \<Rightarrow> 'n session \<Rightarrow> bool" where
  "awaiting s evs cfg s' \<longleftrightarrow> fresh s' \<and> conn s' \<and> reader s' = evs \<and> connConfig (Context s') = stage_config (connConfig (Context s)) cfg
     \<and> SessionDataUnit (Context s') = SessionDataUnit (Context s)"

lemma round_opened:
  assumes "plain_servers (config c)" and "left (config c) = h # hs" and "dials c = Dialled evs tls [] # ds"
    and "fresh (sess c)" and "sendable (SessionDataUnit (Context (sess c))) (descriptor (config c))"
  shows "\<exists>s c1 c2. dial_loop (c\<lparr>sess := Disconnect (ResetBuffer (sess c))\<rparr>) = (Ok h, c1) \<and> open_connection h c1 = Some (Ok (), c2)
    \<and> on_session (send_connect ops) c2 = Some (Ok (), dialled h s c) \<and> awaiting (sess c) evs (config c) s"
proof -
  let ?c0 = "c\<lparr>sess := cleared (sess c)\<rparr>" and ?s = "sess c"
  let ?s1 = "cleared ?s\<lparr>conn := True, reader := evs, tlsReader := tls, writeErrs := []\<rparr>"
  let ?c1 = "after_dial h c\<lparr>sess := ?s1\<rparr>"
  have l: "dial_loop ?c0 = (Ok h, ?c1)"
    using active_server(1) [OF assms(1,2)] assms(3) by (subst dial_loop.simps) (simp add: dial_def after_dial_def)
  obtain str where str: "cfg_ConnectionData (config c) = Ok str" using active_server(4) [OF assms(1,2)] by blast
  then have d: "descriptor (config c) = str" by (simp add: descriptor_def)
  let ?s2 = "?s1\<lparr>Context := (Context ?s)\<lparr>connConfig := stage_config (connConfig (Context ?s)) (config c)\<rparr>\<rparr>"
  let ?c2 = "dialled h ?s2 c"
  have o: "open_connection h ?c1 = Some (Ok (), ?c2)"
    using active_server(3) [OF assms(1,2)] str
    by (simp add: open_connection_def sync_config_def after_dial_def dialled_def stage_config_def d)
  have "\<exists>s. send_connect ops ?s2 = Some (Ok (), s) \<and> link s = link ?s2"
    using assms(4,5) by (intro send_connect_sends) (auto simp: writable_def opened_def fresh_def sendable_def stage_config_def)
  then obtain s where s: "send_connect ops ?s2 = Some (Ok (), s)" "link s = link ?s2" by blast
  from s(1) have n: "on_session (send_connect ops) ?c2 = Some (Ok (), dialled h s c)"
    by (simp add: on_session_def dialled_def)
  from s(2) assms(4) have "awaiting ?s evs (config c) s"
    by (simp add: link_def awaiting_def fresh_def opened_def)
  with l o n show ?thesis unfolding cleared_def by blast
qed

lemma answers_stream:
  assumes "answers ty frame d"
  shows "\<exists>evs tls. d = Dialled evs tls [] \<and> clean evs \<and> (\<exists>rest. stream evs = frame @ rest) \<and> whole_packet ty frame"
  using assms unfolding answers_def by (auto split: dial_result.splits) (metis append_take_drop_id)

lemma round_accepted:
  assumes "plain_servers (config c)" and "left (config c) = h # hs" and "dials c = d # ds"
    and "fresh (sess c)" and "sendable (SessionDataUnit (Context (sess c))) (descriptor (config c))"
    and "realises (stage_config (connConfig (Context (sess c))) (config c)) d (Accepts ctx)"
  shows "\<exists>s. Connect ops c = Some (Ok (), dialled h (accepted ctx s) c) \<and> conn s"
proof -
  obtain frame p b where f: "answers ACCEPT frame d"
      "newAcceptPacketFromData [] frame (stage_config (connConfig (Context (sess c))) (config c)) = Ok (Some (p, b, ctx))"
    using assms(6) by (auto simp: realises_def)
  obtain evs tls rest where e: "d = Dialled evs tls []" "clean evs" "stream evs = frame @ rest" "whole_packet ACCEPT frame"
    using answers_stream [OF f(1)] by blast
  obtain s c1 c2 where r: "dial_loop (c\<lparr>sess := Disconnect (ResetBuffer (sess c))\<rparr>) = (Ok h, c1)" "open_connection h c1 = Some (Ok (), c2)"
      "on_session (send_connect ops) c2 = Some (Ok (), dialled h s c)" "awaiting (sess c) evs (config c) s"
    using round_opened [OF assms(1,2) _ assms(4,5)] assms(3) e(1) by blast
  have w: "opened s" "reader s = evs" "remainingBytes s \<le> 0" "lastSpare s = []" "\<not> wide_length (Context s)"
    using r(4) by (auto simp: awaiting_def fresh_def wide_length_def opened_def)
  have k: "newAcceptPacketFromData (lastSpare s) frame (connConfig (Context s)) = Ok (Some (p, b, ctx))"
    using f(2) w(4) r(4) by (simp add: awaiting_def)
  obtain evs' where "readPacket ops s = Some (Ok (Some (PAccept p b ctx)), s\<lparr>reader := evs', remainingBytes := 0, lastPacket := frame\<rparr>)"
      (is "_ = Some (_, ?s')")
    using readPacket_accept [OF w(1) _ w(3,5) _ e(4) k] e(2,3) w(2) by auto
  then have "Connect ops c = Some (Ok (), dialled h (accepted ctx ?s') c)"
    using r(1-3) by (subst Connect.simps) (simp add: gseq_def on_session_def dialled_def)
  moreover have "conn ?s'" using r(4) by (simp add: awaiting_def)
  ultimately show ?thesis by blast
qed

lemma round_refused:
  assumes "plain_servers (config c)" and "left (config c) = h # hs" and "dials c = d # ds"
    and "fresh (sess c)" and "sendable (SessionDataUnit (Context (sess c))) (descriptor (config c))"
    and "realises (stage_config (connConfig (Context (sess c))) (config c)) d (Refuses code)"
  shows "\<exists>evs s. let c1 = dialled h s c\<lparr>config := (next_server (config c))\<lparr>cfg_SSL := False\<rparr>\<rparr> in
      Connect ops c = (if hs = [] then Some (Err (Refused code), c1\<lparr>sess := Disconnect s\<rparr>) else Connect ops c1)
      \<and> awaiting (sess c) evs (config c) s"
proof -
  obtain frame p where f: "answers REFUSE frame d" "newRefusePacketFromData frame = Ok (Some p)" "extractErrCode (message p) = code"
    using assms(6) by (auto simp: realises_def)
  obtain evs tls rest where e: "d = Dialled evs tls []" "clean evs" "stream evs = frame @ rest" "whole_packet REFUSE frame"
    using answers_stream [OF f(1)] by blast
  obtain s c1 c2 where r: "dial_loop (c\<lparr>sess := Disconnect (ResetBuffer (sess c))\<rparr>) = (Ok h, c1)" "open_connection h c1 = Some (Ok (), c2)"
      "on_session (send_connect ops) c2 = Some (Ok (), dialled h s c)" "awaiting (sess c) evs (config c) s"
    using round_opened [OF assms(1,2) _ assms(4,5)] assms(3) e(1) by blast
  have w: "opened s" "reader s = evs" "remainingBytes s \<le> 0" "\<not> wide_length (Context s)"
    using r(4) by (auto simp: awaiting_def fresh_def wide_length_def opened_def)
  obtain evs' where rp: "readPacket ops s = Some (Ok (Some (PRefuse p)), s\<lparr>reader := evs', remainingBytes := 0, lastPacket := frame\<rparr>)"
      (is "_ = Some (_, ?s')")
    using readPacket_refuse [OF w(1) _ w(3,4) _ e(4) f(2)] e(2,3) w(2) by auto
  let ?c1 = "dialled h ?s' c\<lparr>config := (next_server (config c))\<lparr>cfg_SSL := False\<rparr>\<rparr>"
  have "jump (dialled h ?s' c) = (case hs of [] \<Rightarrow> None | h' # _ \<Rightarrow> Some h', ?c1)"
    using active_server(2) [OF assms(1,2)]
    by (auto simp: jump_def dialled_def GetActiveServer_def Let_def next_server_def after_dial_def)
  then have "Connect ops c = (if hs = [] then Some (Err (Refused code), ?c1\<lparr>sess := Disconnect ?s'\<rparr>) else Connect ops ?c1)"
    using r(1-3) rp f(3)
    by (subst Connect.simps) (simp add: gseq_def on_session_def dialled_def split: list.split)
  moreover have "awaiting (sess c) evs' (config c) ?s'" using r(4) by (simp add: awaiting_def fresh_def opened_def)
  ultimately show ?thesis unfolding Let_def by blast
qed

section \<open>All rounds\<close>

text \<open>What \<open>Connect\<close> leaves behind for a choice of the specification.\<close>

definition implements :: "'n connecting \<Rightarrow> (nat \<times> 'n session_context) res \<Rightarrow> (unit res \<times> 'n connecting) option \<Rightarrow> bool" where
  "implements c choice result = (case result of None \<Rightarrow> False | Some (r, c') \<Rightarrow>
     Servers (config c') = Servers (config c) \<and> (case choice of
        Ok (j, ctx) \<Rightarrow> r = Ok () \<and> Context (sess c') = ctx\<lparr>handshakeComplete := True\<rparr> \<and> conn (sess c')
          \<and> serverIndex (config c') = serverIndex (config c) + int j
          \<and> tried c' = tried c @ map (dial_address (config c)) (take (Suc j) (left (config c)))
      | Err e \<Rightarrow> r = Err e \<and> \<not> conn (sess c')
          \<and> tried c' = tried c @ map (dial_address (config c)) (left (config c))
      | Panic \<Rightarrow> False))"

lemma implements_step:
  assumes "implements c1 choice result" and "left (config c) = h # hs" and "left (config c1) = hs"
    and "serverIndex (config c1) = serverIndex (config c) + 1" and "UnixAddress (config c1) = UnixAddress (config c)"
    and "tried c1 = tried c @ [dial_address (config c) h]" and "Servers (config c1) = Servers (config c)"
  shows "implements c (rbind choice (\<lambda>(j, ctx). Ok (Suc j, ctx))) result"
proof -
  have "dial_address (config c1) = dial_address (config c)" using assms(5) by (simp add: dial_address_def fun_eq_iff)
  with assms show ?thesis by (cases choice) (auto simp: implements_def split: option.splits)
qed

lemma opened_conn: "awaiting s evs cfg s' \<Longrightarrow> stage_config (connConfig (Context s')) = stage_config (connConfig (Context s))"
  by (simp add: awaiting_def stage_config_def fun_eq_iff)

lemma left_SSL [simp]: "left (cfg\<lparr>cfg_SSL := b\<rparr>) = left cfg" "plain_servers (cfg\<lparr>cfg_SSL := b\<rparr>) = plain_servers cfg"
  by (simp_all add: left_def plain_servers_def)

lemma next_server_fields [simp]: "UnixAddress (next_server cfg) = UnixAddress cfg" "serverIndex (next_server cfg) = serverIndex cfg + 1"
    "Servers (next_server cfg) = Servers cfg"
  by (simp_all add: next_server_def)

text \<open>Outcomes for all the servers that are left, or for as many of them as it takes until one accepts.\<close>

definition covers :: "'n outcome list \<Rightarrow> nat \<Rightarrow> bool" where
  "covers outs n \<longleftrightarrow> length outs = n \<or> length outs \<le> n \<and> (\<exists>ctx. Accepts ctx \<in> set outs)"

lemma Connect_picks:
  assumes "fresh (sess c)" and "plain_servers (config c)" and "covers outs (length (left (config c)))" and "outs \<noteq> []"
    and "realised (stage_config (connConfig (Context (sess c)))) (SessionDataUnit (Context (sess c))) (config c) (dials c) outs"
  shows "implements c (pick outs) (Connect ops c)"
  using assms
proof (induction outs arbitrary: c)
  case (Cons out outs)
  let ?k = "stage_config (connConfig (Context (sess c)))" and ?sdu = "SessionDataUnit (Context (sess c))"
  obtain h hs where l: "left (config c) = h # hs" using Cons.prems(3) by (cases "left (config c)") (auto simp: covers_def)
  obtain d ds where d: "dials c = d # ds" "sendable ?sdu (descriptor (config c))" "realises (?k (config c)) d out"
      "realised ?k ?sdu (next_server (config c)) ds outs"
    using Cons.prems(5) by (cases "dials c") auto
  note next_left = left_next [OF Cons.prems(2) l]
  have covers: "covers outs (length hs)" "hs = [] \<longleftrightarrow> outs = []" if "\<forall>ctx. out \<noteq> Accepts ctx"
    using Cons.prems(3) l that by (auto simp: covers_def)
  show ?case
  proof (cases out)
    case (Unreachable e)
    then have len: "covers outs (length hs)" "hs = [] \<longleftrightarrow> outs = []" using covers by simp_all
    have "dials c = DialError e # ds" using d Unreachable by (simp add: realises_def)
    note r = round_unreachable [OF Cons.prems(2) l this, of ops]
    let ?c1 = "after_dial h c\<lparr>config := next_server (config c), sess := cleared (sess c)\<rparr>"
    have "implements ?c1 (pick outs) (Connect ops ?c1)" if "outs \<noteq> []"
      using that Cons.prems(1) next_left len d by (intro Cons.IH) (simp_all add: after_dial_def)
    then have "implements c (rbind (pick outs) (\<lambda>(j, ctx). Ok (Suc j, ctx))) (Connect ops ?c1)" if "outs \<noteq> []"
      using that l next_left by (intro implements_step [where ?c1.0 = ?c1]) (simp_all add: after_dial_def)
    with r len l show ?thesis by (cases "hs = []") (auto simp: Unreachable implements_def after_dial_def)
  next
    case (Refuses code)
    then have len: "covers outs (length hs)" "hs = [] \<longleftrightarrow> outs = []" using covers by simp_all
    obtain evs s where r: "Connect ops c = (if hs = [] then Some (Err (Refused code),
          dialled h s c\<lparr>config := (next_server (config c))\<lparr>cfg_SSL := False\<rparr>, sess := Disconnect s\<rparr>)
        else Connect ops (dialled h s c\<lparr>config := (next_server (config c))\<lparr>cfg_SSL := False\<rparr>\<rparr>))"
        and a: "awaiting (sess c) evs (config c) s"
      using round_refused [OF Cons.prems(2) l d(1) Cons.prems(1) d(2) d(3) [unfolded Refuses], of ops]
      unfolding Let_def by blast
    let ?c1 = "dialled h s c\<lparr>config := (next_server (config c))\<lparr>cfg_SSL := False\<rparr>\<rparr>"
    have "implements ?c1 (pick outs) (Connect ops ?c1)" if "outs \<noteq> []"
      using that a next_left len d opened_conn [OF a] by (intro Cons.IH) (simp_all add: dialled_def after_dial_def awaiting_def)
    then have "implements c (rbind (pick outs) (\<lambda>(j, ctx). Ok (Suc j, ctx))) (Connect ops ?c1)" if "outs \<noteq> []"
      using that l next_left by (intro implements_step [where ?c1.0 = ?c1]) (simp_all add: dialled_def after_dial_def)
    with r len l show ?thesis
      by (cases "hs = []") (auto simp: Refuses implements_def dialled_def after_dial_def Disconnect_def)
  next
    case (Accepts ctx)
    obtain s where "Connect ops c = Some (Ok (), dialled h (accepted ctx s) c)" "conn s"
      using round_accepted [OF Cons.prems(2) l d(1) Cons.prems(1) d(2) d(3) [unfolded Accepts], of ops] by blast
    then show ?thesis using l by (simp add: Accepts implements_def dialled_def after_dial_def accepted_def)
  qed
qed simp


text \<open>
  C19. Failover reaches a server over plain TCP: when a server accepts after servers that could not be dialled or that refused,
  \<open>Connect\<close> returns without an error and is connected to the first that accepted, which was dialled after the servers before it. Nothing is
  assumed of the servers behind it: they are not dialled.
\<close>

theorem Connect_reaches_server:
  assumes "fresh (sess c)" and "plain_servers (config c)" and "length fails < length (left (config c))" and "\<forall>out \<in> set fails. \<forall>x. out \<noteq> Accepts x"
    and "realised (stage_config (connConfig (Context (sess c)))) (SessionDataUnit (Context (sess c))) (config c) (dials c) (fails @ [Accepts ctx])"
  shows "\<exists>c'. Connect ops c = Some (Ok (), c') \<and> conn (sess c') \<and> Context (sess c') = ctx\<lparr>handshakeComplete := True\<rparr>
    \<and> GetActiveServer False (config c') = (Some (left (config c) ! length fails), config c')
    \<and> tried c' = tried c @ map (dial_address (config c)) (take (Suc (length fails)) (left (config c)))"
proof -
  let ?j = "length fails"
  have j: "pick (fails @ [Accepts ctx]) = Ok (?j, ctx)"
    using assms(4)
  proof (induction fails)
    case (Cons out fails)
    then show ?case by (cases out) auto
  qed simp
  have i: "implements c (pick (fails @ [Accepts ctx])) (Connect ops c)"
    by (rule Connect_picks [OF assms(1,2) _ _ assms(5)]) (use assms(3) in \<open>auto simp: covers_def\<close>)
  obtain r c' where r: "Connect ops c = Some (r, c')" using i by (auto simp: implements_def split: option.splits)
  have c': "r = Ok ()" "conn (sess c')" "Context (sess c') = ctx\<lparr>handshakeComplete := True\<rparr>"
      "Servers (config c') = Servers (config c)" "serverIndex (config c') = serverIndex (config c) + int ?j"
      "tried c' = tried c @ map (dial_address (config c)) (take (Suc ?j) (left (config c)))"
    using i by (simp_all add: implements_def r j)
  have s: "0 \<le> serverIndex (config c)" "nat (serverIndex (config c)) + ?j < length (Servers (config c))"
    using assms(2,3) by (simp_all add: plain_servers_def left_def)
  then have "GetActiveServer False (config c') = (Some (left (config c) ! ?j), config c')"
    by (auto simp: GetActiveServer_def Let_def c'(4,5) left_def nat_add_distrib)
  then show ?thesis using r c' by auto
qed

section \<open>Samples\<close>

definition sample_refuse :: "byte list" where
  "sample_refuse = [0, 12, 0, 0, 4, 0, 0, 0, 1, 1, 0, 0]"

definition sample_host :: "byte \<Rightarrow> server_addr" where
  "sample_host b = \<lparr>srv_Protocol = ascii ''tcp'', srv_Addr = [b], srv_Port = 1521\<rparr>"

definition sample_connecting :: "unit connecting" where
  "sample_connecting = \<lparr>sess = NewSession sample_config,
     config = \<lparr>Servers = [sample_host 65, sample_host 66, sample_host 67], serverIndex = 0, db_SID = [], ServiceName = [],
       InstanceName = [], connStr = ascii ''(X)'', cfg_Protocol = [], cfg_SSL = False, SSLVerify = False, UnixAddress = [],
       ProgramPath = [], HostName = [], OSUserName = [], Cid = []\<rparr>,
     dials = [DialError (NetError 1), Dialled [Chunk sample_refuse None] [] [],
       Dialled [Chunk (take 5 sample_accept) None, Chunk (drop 5 sample_accept) None] [] []],
     tried = []\<rparr>"

lemma sample_realised:
  "\<exists>ctx :: unit session_context. realised (stage_config (connConfig (Context (sess sample_connecting)))) (SessionDataUnit (Context (sess sample_connecting)))
     (config sample_connecting) (dials sample_connecting) [Unreachable (NetError 1), Refuses 12564, Accepts ctx]"
proof -
  let ?k = "stage_config (connConfig (Context (sess sample_connecting)))"
  have d: "descriptor (config sample_connecting\<lparr>serverIndex := i\<rparr>) = ascii ''(X)''" for i
    by (simp add: descriptor_def cfg_ConnectionData_def sample_connecting_def ascii_def)
  have s: "sendable sdu (ascii ''(X)'')" for sdu by (simp add: sendable_def ascii_def)
  have r: "realises k (Dialled [Chunk sample_refuse None] [] []) (Refuses 12564)" for k
    unfolding realises_def outcome.case
  proof (intro exI conjI)
    show "answers REFUSE sample_refuse (Dialled [Chunk sample_refuse None] [] [])"
      by (simp add: answers_def sample_refuse_def whole_packet_def be_enc_numeral stream_def clean_def REFUSE_def)
    show "newRefusePacketFromData sample_refuse = Ok (Some \<lparr>dataOffset = 12, pck_length = 12, packetType = 4, flag = 0,
        SystemReason = 1, UserReason = 1, message = []\<rparr>)"
      by (simp add: newRefusePacketFromData_def sample_refuse_def u16_at_def be_at_def slice_def be_dec_def slice_at_def)
  qed (simp add: extractErrCode_def)
  obtain p ctx where e: "newAcceptPacketFromData [] sample_accept (sample_config\<lparr>ConnectionData := ascii ''(X)''\<rparr>) =
      Ok (Some (p, [], ctx :: unit session_context))"
    by (simp add: newAcceptPacketFromData_def sample_accept_def accept_context_def recon_addr_def u16_at_def
        u32_at_def be_at_def slice_def be_dec_def slice_from_def accept_uuid_def accept_units_def
        accept_sid_def zero_context_def)
  have k: "?k (config sample_connecting\<lparr>serverIndex := i\<rparr>) = sample_config\<lparr>ConnectionData := ascii ''(X)''\<rparr>" for i
    by (simp add: stage_config_def d) (simp add: sample_connecting_def NewSession_def NewSessionContext_def zero_context_def sample_config_def)
  have "answers ACCEPT sample_accept (Dialled [Chunk (take 5 sample_accept) None, Chunk (drop 5 sample_accept) None] [] [])"
    by (simp add: answers_def sample_accept_def whole_packet_def be_enc_numeral stream_def clean_def ACCEPT_def)
  with e have a: "realises (sample_config\<lparr>ConnectionData := ascii ''(X)''\<rparr>)
      (Dialled [Chunk (take 5 sample_accept) None, Chunk (drop 5 sample_accept) None] [] []) (Accepts ctx)"
    by (auto simp: realises_def)
  let ?n = "\<lambda>i. config sample_connecting\<lparr>serverIndex := i\<rparr>"
  have n: "next_server (?n i) = ?n (i + 1)" for i by (simp add: next_server_def)
  have 0: "?n 0 = config sample_connecting" by (simp add: sample_connecting_def)
  have ds: "dials sample_connecting = [DialError (NetError 1), Dialled [Chunk sample_refuse None] [] [],
       Dialled [Chunk (take 5 sample_accept) None, Chunk (drop 5 sample_accept) None] [] []]"
    by (simp add: sample_connecting_def)
  have "realised ?k sdu (?n 0) (dials sample_connecting) [Unreachable (NetError 1), Refuses 12564, Accepts ctx]" for sdu
    unfolding ds realised.simps n d k using a r by (simp add: s realises_def)
  then show ?thesis unfolding 0 by blast
qed

lemma sample_start:
  "fresh (sess sample_connecting)" "plain_servers (config sample_connecting)" "length (left (config sample_connecting)) = 3"
  by (simp_all add: sample_connecting_def fresh_def NewSession_def NewSessionContext_def zero_context_def plain_servers_def left_def sample_host_def
      ascii_def to_upper_def to_upper_byte_def)


theorem Connect_reaches_server_witness:
  "\<exists>c'. Connect plain_ops sample_connecting = Some (Ok (), c') \<and> conn (sess c')"
proof -
  obtain ctx :: "unit session_context" where r: "realised (stage_config (connConfig (Context (sess sample_connecting))))
      (SessionDataUnit (Context (sess sample_connecting))) (config sample_connecting) (dials sample_connecting)
      [Unreachable (NetError 1), Refuses 12564, Accepts ctx]"
    using sample_realised by blast
  show ?thesis
    using Connect_reaches_server [OF sample_start(1,2), of "[Unreachable (NetError 1), Refuses 12564]" ctx plain_ops] r sample_start(3) by auto
qed

end
