(* ===== verification/Number_Text_Props.thy ===== *)
theory Number_Text_Props
  imports Number_Conv_Props
begin

text \<open>
  The validator and the printer of \<^verbatim>\<open>converters/oracle_number.go\<close> on the numbers that the encoders of the
  driver write: every encoded integer is well-formed and is printed as its decimal representation.
\<close>

section \<open>Base-100 digits\<close>

fun pairs :: "byte list \<Rightarrow> nat list" where
  "pairs [] = []"
| "pairs [a] = [10 * (unat a - 48)]"
| "pairs (a # b # m) = (10 * (unat a - 48) + (unat b - 48)) # pairs m"

abbreviation base100_byte :: "bool \<Rightarrow> nat \<Rightarrow> byte" where
  "base100_byte negative t \<equiv> digit_byte negative (of_nat t)"

lemma digit_value: "is_digit a \<Longrightarrow> \<exists>x < 10. a = 48 + of_nat x \<and> unat a - 48 = x"
proof -
  assume "is_digit a"
  then obtain x where x: "x < 10" "a = 48 + of_nat x" by (auto simp: is_digit_iff)
  have "a = of_nat (48 + x)" using x by simp
  then have "unat a = 48 + x" using x(1) by (simp only: unat_of_nat_byte)
  with x show ?thesis by auto
qed

lemma two_chars:
  assumes "x < 10" and "y < 10"
  shows "byteTo2Chars (of_nat (10 * x + y)) = [48 + of_nat x, 48 + of_nat y]"
    and "byteToChars (of_nat (10 * x + y)) = (if x = 0 then [] else [48 + of_nat x]) @ [48 + of_nat y]"
proof -
  let ?t = "10 * x + y"
  have t: "?t < 100" "?t div 10 = x" "?t mod 10 = y" using assms by auto
  then have u: "unat (of_nat ?t :: byte) = ?t" by (intro unat_of_nat_byte) simp
  have lt: "((of_nat ?t :: byte) < 10) = (x = 0)" "((of_nat ?t :: byte) < 100) = True"
    using u t assms by (auto simp: word_less_nat_alt simp del: of_nat_add of_nat_mult)
  have dm: "(of_nat ?t :: byte) div 10 = of_nat x" "(of_nat ?t :: byte) mod 10 = of_nat y"
    using t div_of_nat_byte [of ?t] mod_of_nat_byte [of ?t] by simp_all
  show "byteTo2Chars (of_nat ?t) = [48 + of_nat x, 48 + of_nat y]"
    unfolding byteTo2Chars_def lt dm by simp
  show "byteToChars (of_nat ?t) = (if x = 0 then [] else [48 + of_nat x]) @ [48 + of_nat y]"
    unfolding byteToChars_def lt dm by simp
qed

lemma pairs_bytes:
  assumes "list_all is_digit m"
  shows "digit_bytes negative m = map (base100_byte negative) (pairs m)
    \<and> list_all (\<lambda>t. t < 100) (pairs m) \<and> length (m @ pad m) = 2 * length (pairs m)
    \<and> concat (map (\<lambda>t. byteTo2Chars (of_nat t)) (pairs m)) = m @ pad m"
  using assms
proof (induction m rule: pairs.induct)
  case (2 a)
  then obtain x where "x < 10" "a = 48 + of_nat x" "unat a - 48 = x" using digit_value by auto
  then show ?case using two_chars(1) [of x 0] by (simp add: pad_def)
next
  case (3 a b m)
  then obtain x y where x: "x < 10" "a = 48 + of_nat x" "unat a - 48 = x" "y < 10" "b = 48 + of_nat y" "unat b - 48 = y"
    using digit_value [of a] digit_value [of b] by auto
  have pd: "pad (a # b # m) = pad m" by (simp add: pad_def)
  show ?case
    unfolding digit_bytes.simps pairs.simps list.map concat.simps list.pred_inject pd x(3,6) two_chars(1) [OF x(1,4)]
    using 3 x by simp
qed (simp add: pad_def)

lemma pairs_ends:
  assumes "list_all is_digit m" and "m \<noteq> []"
  shows "last m \<noteq> 48 \<Longrightarrow> last (pairs m) \<noteq> 0" and "hd m \<noteq> 48 \<Longrightarrow> 10 \<le> hd (pairs m)"
proof -
  have nz: "unat c - 48 \<noteq> 0" if "is_digit c" "c \<noteq> 48" for c :: byte
    using digit_value [OF that(1)] that(2) by auto
  show "last m \<noteq> 48 \<Longrightarrow> last (pairs m) \<noteq> 0"
    using assms
  proof (induction m rule: pairs.induct)
    case (3 a b m)
    then show ?case using nz [of b] by (cases m rule: pairs.cases) auto
  qed (use nz in auto)
  show "hd m \<noteq> 48 \<Longrightarrow> 10 \<le> hd (pairs m)"
    using assms nz by (cases m rule: pairs.cases) fastforce+
qed

text \<open>The bytes of an encoded positive integer in base 100, and its decimal digits as the printer writes them.\<close>

lemma encode_nat_pairs:
  assumes "0 < a" and "a < 10 ^ 20"
  defines "ex \<equiv> int (length (dec_digits a)) - 1"
  shows "\<exists>ts k. number_encode (dec_digits a) ex negative = exp_byte ex negative # map (base100_byte negative) ts @ (if negative then [0x66] else [])
    \<and> ts \<noteq> [] \<and> list_all (\<lambda>t. t < 100) ts \<and> hd ts \<noteq> 0 \<and> last ts \<noteq> 0 \<and> length ts \<le> 10
    \<and> - 63 \<le> exp_half ex \<and> exp_half ex < 64 \<and> exp_half ex = int (length ts) + int k
    \<and> dec_digits a = byteToChars (of_nat (hd ts)) @ concat (map (\<lambda>t. byteTo2Chars (of_nat t)) (tl ts)) @ replicate (2 * k) 48"
proof -
  define s where "s = strip_zeros (dec_digits a)"
  obtain p k where enc: "number_encode (dec_digits a) ex negative = exp_byte ex negative # digit_bytes negative p @ (if negative then [0x66] else [])"
      and p: "p = packed s ex" "list_all is_digit p" "p \<noteq> []" "length p < 21" and e: "- 63 \<le> exp_half ex" "exp_half ex < 64"
        "exp_half ex * 2 = int (length (p @ pad p)) + int (2 * k)"
      and m: "dec_digits a = s @ pad p @ replicate (2 * k) 48" "s \<noteq> []" "hd s \<noteq> 48"
    using encode_nat_shape [OF assms(1,2), of negative] unfolding ex_def s_def by blast
  note pb = pairs_bytes [OF p(2), of negative]
  have ne: "pairs p \<noteq> []" using p(3) by (cases p rule: pairs.cases) auto
  have s: "list_all is_digit s" using p(1,2) by (auto simp: packed_def split: if_splits)
  have "last s \<noteq> 48" using strip_zeros_last m(2) by (simp add: s_def)
  then have lp: "last p \<noteq> 48" using m(2) by (simp add: p(1) packed_def)
  have len: "length (pairs p) \<le> 10" using pb p(4) by (auto simp: pad_def split: if_splits)
  have h: "hd (pairs p) \<noteq> 0 \<and> byteToChars (of_nat (hd (pairs p))) @ concat (map (\<lambda>t. byteTo2Chars (of_nat t)) (tl (pairs p))) = s @ pad p"
  proof (cases "even ex")
    case True
    then obtain c s' where c: "s = c # s'" "p = 48 # c # s'" using m(2) p(1) by (cases s) (auto simp: packed_def)
    obtain x where x: "x < 10" "c = 48 + of_nat x" "unat c - 48 = x" using digit_value [of c] s c by auto
    have "x \<noteq> 0" using m(3) c(1) x(2) by (intro notI) simp
    moreover have "pairs p = x # pairs s'" using c x by simp
    ultimately show ?thesis
      using pb two_chars [of 0 x] x c by simp
  next
    case False
    then have ps: "p = s" by (simp add: p(1) packed_def)
    then have 10: "10 \<le> hd (pairs p)" using pairs_ends(2) [OF p(2,3)] m(3) by simp
    moreover have "hd (pairs p) < 100" using pb ne by (cases "pairs p") auto
    ultimately have "byteToChars (of_nat (hd (pairs p))) = byteTo2Chars (of_nat (hd (pairs p)))"
      using two_chars [of "hd (pairs p) div 10" "hd (pairs p) mod 10"] by simp
    then show ?thesis using pb ne 10 by (cases "pairs p") (auto simp: ps)
  qed
  show ?thesis
    using enc pb ne h pairs_ends(1) [OF p(2,3) lp] len e m(1)
    by (intro exI [of _ "pairs p"] exI [of _ k]) simp
qed

section \<open>Validation\<close>

lemma base100_byte_bounds:
  assumes "t < 100"
  shows "1 \<le> base100_byte False t" "base100_byte False t \<le> 100" "2 \<le> base100_byte True t" "base100_byte True t \<le> 101"
    "t \<noteq> 0 \<Longrightarrow> 2 \<le> base100_byte False t" "t \<noteq> 0 \<Longrightarrow> base100_byte True t \<le> 100"
  using digit_byte_values [OF assms] assms by (simp_all add: word_le_nat_alt)

lemma encode_nat_valid:
  fixes negative :: bool
  assumes "0 < a" and "a < 10 ^ 20"
  defines "b \<equiv> number_encode (dec_digits a) (int (length (dec_digits a)) - 1) negative"
  shows "isValid b" and "num_isPositive b \<longleftrightarrow> \<not> negative"
proof -
  let ?ex = "int (length (dec_digits a)) - 1"
  obtain ts where b: "b = exp_byte ?ex negative # map (base100_byte negative) ts @ (if negative then [0x66] else [])"
      and ts: "ts \<noteq> []" "list_all (\<lambda>t. t < 100) ts" "hd ts \<noteq> 0" "last ts \<noteq> 0" "length ts \<le> 10"
      and e: "- 63 \<le> exp_half ?ex" "exp_half ?ex < 64"
    using encode_nat_pairs [OF assms(1,2), of negative] unfolding b_def by blast
  show pos: "num_isPositive b \<longleftrightarrow> \<not> negative"
    using exp_byte_decode(1) [of ?ex negative] e by (simp add: num_isPositive_def b)
  obtain t ts' where t: "ts = t # ts'" using ts(1) by (cases ts) auto
  have bd: "t < 100" "last ts < 100" "t \<noteq> 0" using ts t by (auto simp: list_all_iff)
  note lt = base100_byte_bounds [OF bd(1)] base100_byte_bounds [OF bd(2)]
  have ne: "base100_byte False t \<noteq> 101"
    using lt(2) by (intro notI) simp
  have all: "list_all (\<lambda>x. 1 \<le> x \<and> x \<le> 100) (map (base100_byte False) ts)"
      "list_all (\<lambda>x. 2 \<le> x \<and> x \<le> 101) (map (base100_byte True) ts)"
    using ts(2) base100_byte_bounds by (auto simp: list_all_iff)
  have l: "last (map (base100_byte negative) ts) = base100_byte negative (last ts)" using ts(1) by (rule last_map)
  show "isValid b"
  proof (cases negative)
    case True
    then have "b = exp_byte ?ex True # map (base100_byte True) ts @ [0x66]" by (simp add: b)
    then show ?thesis
      using pos True all(2) lt bd(3) ts(4,5) l by (simp add: isValid_def t Let_def butlast_append)
  next
    case False
    then have "b = exp_byte ?ex False # map (base100_byte False) ts" by (simp add: b)
    then show ?thesis
      using pos False all(1) lt bd(3) ts(4,5) l ne by (simp add: isValid_def t)
  qed
qed

lemma EncodeInt64_nonzero:
  assumes "v \<noteq> 0"
  shows "EncodeInt64 v = number_encode (dec_digits (nat \<bar>v\<bar>)) (int (length (dec_digits (nat \<bar>v\<bar>))) - 1) (v < 0)"
  using assms by (simp add: EncodeInt64_def split_sign_FormatInt ToNumber_encode)

text \<open>
  The NUMBER that \<^verbatim>\<open>EncodeInt64\<close> writes for an integer of 64 bits is well-formed in the sense of the
  validator \<^verbatim>\<open>isValid\<close>, which is written against the format and not against the encoder: at most 21 bytes, base-100
  digits in the range of their sign, no leading or trailing zero digit, and the terminator of negative numbers; and
  its sign bit is the sign of the integer.
\<close>

theorem EncodeInt64_isValid:
  assumes "- (2 ^ 63) \<le> v" and "v < 2 ^ 63"
  shows "isValid (EncodeInt64 v) \<and> (num_isPositive (EncodeInt64 v) \<longleftrightarrow> 0 \<le> v)"
proof (cases "v = 0")
  case True
  then show ?thesis
    by (simp add: EncodeInt64_def FormatInt_def split_sign_def strip_zeros_def ToNumber_def isValid_def num_isPositive_def num_isZero_def)
next
  case False
  have "0 < nat \<bar>v\<bar>" "nat \<bar>v\<bar> < 10 ^ 20" using assms False by auto
  then show ?thesis using encode_nat_valid [of "nat \<bar>v\<bar>" "v < 0"] by (auto simp: EncodeInt64_nonzero [OF False])
qed

theorem EncodeInt64_isValid_witness:
  "isValid (EncodeInt64 (- 1200)) \<and> \<not> num_isPositive (EncodeInt64 (- 1200))"
  using EncodeInt64_isValid [of "- 1200"] by simp

section \<open>Printing\<close>

lemma exponent_byte:
  fixes negative :: bool
  assumes "- 63 \<le> exp_half ex" and "exp_half ex < 64"
  defines "b \<equiv> exp_byte ex negative"
  shows "((if negative then b XOR 0xFF else b) AND 0x7F) - 65 = word_of_int (exp_half ex - 1)"
proof -
  define w where "w = (word_of_int (exp_half ex + 64) :: byte)"
  have w: "w AND 0x7F = w" using low_byte_bits(2) [of "exp_half ex + 64"] assms(1,2) by (simp add: w_def)
  have b: "b = (if negative then w XOR 0x7F else w OR 0x80)"
    by (simp add: b_def exp_byte_def Let_def exp_half_sdiv w_def)
  have "(if negative then b XOR 0xFF else b) AND 0x7F = w"
    using w by (simp add: b bit.conj_disj_distrib2 xor.assoc bit.conj_xor_distrib2)
  then have "((if negative then b XOR 0xFF else b) AND 0x7F) - 65 = w - 65" by (rule arg_cong)
  also have "\<dots> = word_of_int (exp_half ex - 1)" by (simp add: w_def)
  finally show ?thesis .
qed

lemma base100_byte_inverse:
  "t < 100 \<Longrightarrow> base100_byte False t - 1 = of_nat t" "t < 100 \<Longrightarrow> 101 - base100_byte True t = of_nat t"
  by (simp_all add: digit_byte_def)

lemma fromLnxFmt_encode:
  assumes "list_all (\<lambda>t. t < 100) ts" and "- 63 \<le> exp_half ex" and "exp_half ex < 64"
  shows "fromLnxFmt (exp_byte ex negative # map (base100_byte negative) ts @ (if negative then [0x66] else []))
    = word_of_int (exp_half ex - 1) # map of_nat ts"
proof -
  have "num_isPositive (exp_byte ex negative # xs) \<longleftrightarrow> \<not> negative" for xs
    using exp_byte_decode(1) [of ex negative] assms(2,3) by (simp add: num_isPositive_def)
  moreover have "map (\<lambda>x. x - 1) (map (base100_byte False) ts) = map of_nat ts"
      "map (\<lambda>x. 101 - x) (map (base100_byte True) ts) = map of_nat ts"
    using assms(1) by (auto simp: list_all_iff base100_byte_inverse)
  ultimately show ?thesis
    using exponent_byte [OF assms(2,3), of negative] by (cases negative) (simp_all add: fromLnxFmt_def butlast_append o_def)
qed

lemma length_byteToChars: "length (byteToChars (of_nat t)) \<le> 2" if "t < 100"
  using that by (auto simp: byteToChars_def word_less_nat_alt unat_of_nat_byte)

lemma sint_byte_small: "- 128 \<le> k \<Longrightarrow> k < 128 \<Longrightarrow> sint (word_of_int k :: byte) = k"
  by (simp add: signed_of_int signed_take_bit_int_eq_self)

lemma toBytes_encode:
  assumes "0 < a" and "a < 10 ^ 20"
  shows "toBytes (number_encode (dec_digits a) (int (length (dec_digits a)) - 1) negative)
    = Ok ((if negative then [45] else []) @ dec_digits a)"
proof -
  let ?ex = "int (length (dec_digits a)) - 1"
  define b where "b = number_encode (dec_digits a) ?ex negative"
  obtain ts k where b': "b = exp_byte ?ex negative # map (base100_byte negative) ts @ (if negative then [0x66] else [])"
      and ts: "ts \<noteq> []" "list_all (\<lambda>t. t < 100) ts" and e: "- 63 \<le> exp_half ?ex" "exp_half ?ex < 64" "exp_half ?ex = int (length ts) + int k"
      and d: "dec_digits a = byteToChars (of_nat (hd ts)) @ concat (map (\<lambda>t. byteTo2Chars (of_nat t)) (tl ts)) @ replicate (2 * k) 48"
    using encode_nat_pairs [OF assms, of negative] unfolding b_def by blast
  have v: "isValid b" "num_isPositive b \<longleftrightarrow> \<not> negative"
    using encode_nat_valid [OF assms, of negative] unfolding b_def by auto
  obtain t ts' where t: "ts = t # ts'" "t < 100" using ts by (cases ts) auto
  have "base100_byte False t \<noteq> 101" using base100_byte_bounds(2) [OF t(2)] by (intro notI) simp
  then have nz: "b \<noteq> []" "\<not> num_isZero b" "\<not> num_isInf b" by (auto simp: b' t(1) num_isZero_def num_isInf_def)
  define q where "q = exp_half ?ex - 1"
  have f: "fromLnxFmt b = word_of_int q # map of_nat ts"
    unfolding b' q_def by (rule fromLnxFmt_encode [OF ts(2) e(1,2)])
  have q: "q = int (length ts) + int k - 1" using e(3) by (simp add: q_def)
  have se: "sint (word_of_int q :: byte) = q" using e(1,2) by (intro sint_byte_small) (simp_all add: q_def)
  have c: "number_chars q (map of_nat ts) = dec_digits a"
    using ts(1) unfolding d q by (simp add: number_chars_def Let_def hd_map map_tl o_def)
  have len: "int (length (dec_digits a)) \<le> 2 * (q + 1)" using twice_exp_half [of ?ex] by (auto simp: q_def split: if_splits)
  show ?thesis
    unfolding b_def [symmetric] toBytes_def using nz v f se c len q by (simp add: Let_def)
qed

text \<open>
  C22. The printer of \<^verbatim>\<open>oracle_number.go\<close>, which writes digits from the bytes into a result slice of a length computed
  ahead, agrees with the encoder: for every integer of 64 bits \<^verbatim>\<open>NumberToString\<close> of the NUMBER that \<^verbatim>\<open>EncodeInt64\<close>
  writes is the decimal representation of the integer.
\<close>

theorem NumberToString_EncodeInt64:
  assumes "- (2 ^ 63) \<le> v" and "v < 2 ^ 63"
  shows "NumberToString (EncodeInt64 v) = Ok (FormatInt v)"
proof (cases "v = 0")
  case True
  then show ?thesis
    by (simp add: EncodeInt64_def FormatInt_def split_sign_def strip_zeros_def ToNumber_def NumberToString_def toBytes_def num_isZero_def)
next
  case False
  have "0 < nat \<bar>v\<bar>" "nat \<bar>v\<bar> < 10 ^ 20" using assms False by auto
  from toBytes_encode [OF this, of "v < 0"] show ?thesis
    by (simp add: NumberToString_def EncodeInt64_nonzero [OF False] FormatInt_def)
qed

theorem NumberToString_EncodeInt64_witness:
  "NumberToString (EncodeInt64 (- 9223372036854775808)) = Ok (FormatInt (- 9223372036854775808))"
  by (rule NumberToString_EncodeInt64) simp_all

end
