(* ===== verification/Go_Time.thy ===== *)
theory Go_Time
  imports Go_Strconv
begin

text \<open>
  The part of the package \<^verbatim>\<open>time\<close> that the driver uses: instants with a location, the proleptic Gregorian
  calendar, \<^verbatim>\<open>time.Date\<close> with its normalisation of fields out of range, and the accessors. An instant is a number
  of seconds since the start of the year 0 in UTC and a number of nanoseconds. What a location of the time zone
  database answers is a function kept in the location.
\<close>

section \<open>The calendar\<close>

definition leap :: "int \<Rightarrow> bool" where
  "leap y \<longleftrightarrow> y mod 4 = 0 \<and> (y mod 100 \<noteq> 0 \<or> y mod 400 = 0)"

text \<open>The days between the start of the year 0, which is a leap year, and the start of a year.\<close>

definition days_before_year :: "int \<Rightarrow> int" where
  "days_before_year y = 365 * y + (y + 3) div 4 - (y + 99) div 100 + (y + 399) div 400"

definition year_days :: "int \<Rightarrow> int" where
  "year_days y = (if leap y then 366 else 365)"

definition month_starts :: "int list" where
  "month_starts = [0, 31, 59, 90, 120, 151, 181, 212, 243, 273, 304, 334]"

definition days_before_month :: "bool \<Rightarrow> nat \<Rightarrow> int" where
  "days_before_month lp m = month_starts ! (m - 1) + (if lp \<and> m > 2 then 1 else 0)"

definition month_days :: "bool \<Rightarrow> nat \<Rightarrow> int" where
  "month_days lp m = (if m = 2 then if lp then 29 else 28 else if m \<in> {4, 6, 9, 11} then 30 else 31)"

definition day_number :: "int \<Rightarrow> nat \<Rightarrow> int \<Rightarrow> int" where
  "day_number y m d = days_before_year y + days_before_month (leap y) m + (d - 1)"

text \<open>The other direction: an estimate of the year that is off by one at most, and a search for the month.\<close>

definition year_of_day :: "int \<Rightarrow> int" where
  "year_of_day n = (let y = n * 400 div 146097
     in if n < days_before_year y then y - 1 else if days_before_year (y + 1) \<le> n then y + 1 else y)"

definition month_of_day :: "bool \<Rightarrow> int \<Rightarrow> nat" where
  "month_of_day lp yd = length (filter (\<lambda>m. days_before_month lp m \<le> yd) [1, 2, 3, 4, 5, 6, 7, 8, 9, 10, 11, 12])"

definition civil :: "int \<Rightarrow> int \<times> nat \<times> int" where
  "civil n = (let y = year_of_day n; yd = n - days_before_year y; m = month_of_day (leap y) yd
     in (y, m, yd - days_before_month (leap y) m + 1))"

definition valid_date :: "int \<Rightarrow> nat \<Rightarrow> int \<Rightarrow> bool" where
  "valid_date y m d \<longleftrightarrow> 1 \<le> m \<and> m \<le> 12 \<and> 1 \<le> d \<and> d \<le> month_days (leap y) m"

subsection \<open>The two directions are inverse\<close>

lemma ceil_step:
  fixes y k :: int
  assumes "j = k - 1" and "1 < k"
  shows "(y + 1 + j) div k - (y + j) div k = (if y mod k = 0 then 1 else 0)"
proof -
  have m: "0 \<le> y mod k" "y mod k < k" using assms by simp_all
  have j: "0 \<le> j" "j < k" using assms by simp_all
  have k: "j div k = 0" "j mod k = j" using div_pos_pos_trivial [OF j] mod_pos_pos_trivial [OF j] .
  have "(y + j) div k = y div k + (y mod k + j) div k"
    unfolding div_add1_eq [of y j k] by (simp only: k add_0_right)
  moreover have "(y mod k + j) div k = (if y mod k = 0 then 0 else 1)"
  proof (cases "y mod k = 0")
    case False
    with m have r: "0 \<le> y mod k - 1" "y mod k - 1 < k" by linarith+
    have "(y mod k + j) div k = 1"
      by (rule int_div_pos_eq [OF _ r]) (simp add: assms)
    with False show ?thesis by simp
  qed (use k in simp)
  moreover have "(y + 1 + j) div k = y div k + 1"
  proof -
    have "y + 1 + j = y + k" using assms by simp
    then show ?thesis using assms by (simp only: div_add_self2)
  qed
  ultimately show ?thesis by simp
qed

lemma days_before_year_Suc: "days_before_year (y + 1) = days_before_year y + year_days y"
proof -
  have d: "y mod 100 = 0 \<Longrightarrow> y mod 4 = 0" "y mod 400 = 0 \<Longrightarrow> y mod 100 = 0"
    using mod_mod_cancel [of 4 100 y] mod_mod_cancel [of 100 400 y] by auto
  have s: "(y + 1 + 3) div 4 - (y + 3) div 4 = (if y mod 4 = 0 then 1 else 0)"
      "(y + 1 + 99) div 100 - (y + 99) div 100 = (if y mod 100 = 0 then 1 else 0)"
      "(y + 1 + 399) div 400 - (y + 399) div 400 = (if y mod 400 = 0 then 1 else 0)"
    by (rule ceil_step; simp)+
  have "days_before_year (y + 1) - days_before_year y = 365 + (if y mod 4 = 0 then 1 else 0)
      - (if y mod 100 = 0 then 1 else 0) + (if y mod 400 = 0 then 1 else 0)"
    unfolding days_before_year_def s [symmetric] by (simp add: distrib_left)
  also have "\<dots> = year_days y"
    unfolding year_days_def leap_def using d by (cases "y mod 4 = 0"; cases "y mod 100 = 0"; cases "y mod 400 = 0") simp_all
  finally show ?thesis by simp
qed

lemma year_days_pos: "365 \<le> year_days y" "year_days y \<le> 366"
  by (simp_all add: year_days_def)

lemma mult_div_mod: "k * (y div k) = y - y mod k" for y k :: int
  by (simp add: minus_mod_eq_mult_div)

lemma days_before_year_bounds:
  "146097 * y - 396 \<le> 400 * days_before_year y" "400 * days_before_year y \<le> 146097 * y + 699"
proof -
  define a b c where "a = (y + 3) div 4" "b = (y + 99) div 100" "c = (y + 399) div 400"
  define r s t where "r = (y + 3) mod 4" "s = (y + 99) mod 100" "t = (y + 399) mod 400"
  have "4 * a = y + 3 - r" "100 * b = y + 99 - s" "400 * c = y + 399 - t"
    unfolding a_b_c_def r_s_t_def by (rule mult_div_mod)+
  moreover have "0 \<le> r" "r \<le> 3" "0 \<le> s" "s \<le> 99" "0 \<le> t" "t \<le> 399"
    unfolding r_s_t_def by (simp_all del: mod_add_self1 mod_add_self2)
  moreover have "days_before_year y = 365 * y + a - b + c" by (simp only: days_before_year_def a_b_c_def)
  ultimately show "146097 * y - 396 \<le> 400 * days_before_year y" "400 * days_before_year y \<le> 146097 * y + 699"
    by linarith+
qed

lemma days_before_year_mono: "y \<le> z \<Longrightarrow> days_before_year y \<le> days_before_year z"
proof (induction z rule: int_ge_induct)
  case (step i)
  then show ?case using days_before_year_Suc [of i] year_days_pos [of i] by simp
qed simp

lemma year_of_day_spec:
  "days_before_year (year_of_day n) \<le> n" "n < days_before_year (year_of_day n + 1)"
proof -
  define y where "y = n * 400 div 146097"
  define r where "r = n * 400 mod 146097"
  have "146097 * y = n * 400 - r" unfolding y_def r_def by (rule mult_div_mod)
  moreover have "0 \<le> r" "r < 146097" by (simp_all add: r_def)
  ultimately have "146097 * y \<le> n * 400 \<and> n * 400 < 146097 * (y + 1)" by simp
  with days_before_year_bounds(2) [of "y - 1"] days_before_year_bounds(1) [of "y + 2"]
  have "days_before_year (y - 1) \<le> n \<and> n < days_before_year (y + 2)" by simp
  then show "days_before_year (year_of_day n) \<le> n" "n < days_before_year (year_of_day n + 1)"
    by (auto simp: year_of_day_def Let_def y_def [symmetric] add.assoc)
qed

lemma year_of_day_unique:
  assumes "days_before_year y \<le> n" and "n < days_before_year (y + 1)"
  shows "year_of_day n = y"
proof (rule ccontr)
  assume "year_of_day n \<noteq> y"
  then consider "year_of_day n + 1 \<le> y" | "y + 1 \<le> year_of_day n" by linarith
  then show False
    using days_before_year_mono [of "year_of_day n + 1" y] days_before_year_mono [of "y + 1" "year_of_day n"]
      year_of_day_spec [of n] assms by cases linarith+
qed

lemma days_before_month_values:
  "days_before_month lp 1 = 0" "days_before_month lp 2 = 31" "days_before_month lp 3 = (if lp then 60 else 59)"
  "days_before_month lp 4 = (if lp then 91 else 90)" "days_before_month lp 5 = (if lp then 121 else 120)"
  "days_before_month lp 6 = (if lp then 152 else 151)" "days_before_month lp 7 = (if lp then 182 else 181)"
  "days_before_month lp 8 = (if lp then 213 else 212)" "days_before_month lp 9 = (if lp then 244 else 243)"
  "days_before_month lp 10 = (if lp then 274 else 273)" "days_before_month lp 11 = (if lp then 305 else 304)"
  "days_before_month lp 12 = (if lp then 335 else 334)"
  by (simp_all add: days_before_month_def month_starts_def)

lemma month_cases:
  assumes "1 \<le> m" and "m \<le> (12 :: nat)"
  obtains "m = 1" | "m = 2" | "m = 3" | "m = 4" | "m = 5" | "m = 6" | "m = 7" | "m = 8" | "m = 9" | "m = 10" | "m = 11" | "m = 12"
proof -
  have "m \<in> {1..12}" using assms by simp
  then have "m \<in> {1, 2, 3, 4, 5, 6, 7, 8, 9, 10, 11, 12}" by (simp add: atLeastAtMost_insertL [symmetric] eval_nat_numeral atLeastAtMostSuc_conv)
  then show thesis using that by blast
qed

lemma month_of_day_correct:
  assumes "1 \<le> m" and "m \<le> 12" and "0 \<le> d" and "d < month_days lp m"
  shows "month_of_day lp (days_before_month lp m + d) = m"
  using assms(1,2)
proof (cases rule: month_cases)
qed (use assms(3,4) in \<open>simp_all add: month_of_day_def days_before_month_values days_before_month_values(1) [unfolded One_nat_def] month_days_def split: if_splits\<close>)

lemma month_in_year:
  assumes "1 \<le> m" and "m \<le> 12"
  shows "0 \<le> days_before_month (leap y) m" "days_before_month (leap y) m + month_days (leap y) m \<le> year_days y"
  using assms
  by (cases rule: month_cases; simp add: days_before_month_values days_before_month_values(1) [unfolded One_nat_def] month_days_def year_days_def)+

lemma civil_day_number:
  assumes "valid_date y m d"
  shows "civil (day_number y m d) = (y, m, d)"
proof -
  have m: "1 \<le> m" "m \<le> 12" "0 \<le> d - 1" "d - 1 < month_days (leap y) m" using assms by (simp_all add: valid_date_def)
  let ?n = "day_number y m d"
  have "days_before_year y \<le> ?n" "?n < days_before_year (y + 1)"
    using month_in_year [OF m(1,2), of y] m(3,4) by (simp_all add: day_number_def days_before_year_Suc)
  then have y: "year_of_day ?n = y" by (rule year_of_day_unique)
  then show ?thesis
    using month_of_day_correct [OF m] by (simp add: civil_def Let_def day_number_def)
qed

lemma month_exists:
  assumes "0 \<le> yd" and "yd < (if lp then 366 else 365)"
  shows "\<exists>m d. 1 \<le> m \<and> m \<le> 12 \<and> 0 \<le> d \<and> d < month_days lp m \<and> yd = days_before_month lp m + d"
proof -
  define S where "S = (\<lambda>m. days_before_month lp m)"
  have S: "S 1 = 0" "\<And>m. 1 \<le> m \<Longrightarrow> m \<le> 12 \<Longrightarrow> S (m + 1) = S m + month_days lp m \<or> m = 12" "S 12 + month_days lp 12 = (if lp then 366 else 365)"
  proof -
    show "S (m + 1) = S m + month_days lp m \<or> m = 12" if "1 \<le> m" "m \<le> 12" for m
      using that by (cases rule: month_cases) (simp_all add: S_def days_before_month_def month_starts_def month_days_def)
  qed (simp_all add: S_def days_before_month_def month_starts_def month_days_def)
  define m where "m = Max {m. 1 \<le> m \<and> m \<le> 12 \<and> S m \<le> yd}"
  have fin: "finite {m. 1 \<le> m \<and> m \<le> 12 \<and> S m \<le> yd}" by (rule finite_subset [of _ "{..12}"]) auto
  have "1 \<in> {m. 1 \<le> m \<and> m \<le> 12 \<and> S m \<le> yd}" using assms(1) S(1) by simp
  then have "m \<in> {m. 1 \<le> m \<and> m \<le> 12 \<and> S m \<le> yd}" unfolding m_def using fin Max_in by blast
  then have m: "1 \<le> m" "m \<le> 12" "S m \<le> yd" by simp_all
  have "yd < S m + month_days lp m"
  proof (cases "m = 12")
    case True
    then show ?thesis using assms(2) S(3) by simp
  next
    case False
    then have "m + 1 \<le> 12" using m(2) by simp
    moreover have "m + 1 \<notin> {m. 1 \<le> m \<and> m \<le> 12 \<and> S m \<le> yd}"
      using Max_ge [OF fin, of "m + 1"] unfolding m_def [symmetric] by auto
    ultimately have "yd < S (m + 1)" by simp
    then show ?thesis using S(2) [OF m(1,2)] False by simp
  qed
  with m show ?thesis unfolding S_def by (intro exI [of _ m] exI [of _ "yd - days_before_month lp m"]) simp
qed

lemma civil_spec:
  assumes "civil n = (y, m, d)"
  shows "valid_date y m d" and "day_number y m d = n"
proof -
  define yd where "yd = n - days_before_year y"
  have y: "y = year_of_day n" using assms by (simp add: civil_def Let_def)
  have "0 \<le> yd" "yd < year_days y"
    using year_of_day_spec [of n] days_before_year_Suc [of y] by (simp_all add: yd_def y)
  then obtain m' d' where m': "1 \<le> m'" "m' \<le> 12" "0 \<le> d'" "d' < month_days (leap y) m'" "yd = days_before_month (leap y) m' + d'"
    using month_exists [of yd "leap y"] by (auto simp: year_days_def)
  have "month_of_day (leap y) yd = m'" unfolding m'(5) by (rule month_of_day_correct [OF m'(1-4)])
  then have "m = m'" "d = d' + 1" using assms m'(5) by (auto simp: civil_def Let_def y yd_def)
  then show "valid_date y m d" "day_number y m d = n"
    using m' by (simp_all add: valid_date_def day_number_def yd_def)
qed

section \<open>Locations and instants\<close>

text \<open>
  The zone in force at an instant: its abbreviation, its offset east of UTC in seconds, the interval of instants it
  is in force for, and whether it is daylight saving time.
\<close>

record zone =
  z_name :: "byte list"
  z_offset :: int
  z_start :: int
  z_end :: int
  z_dst :: bool

datatype location =
    UTC
  | FixedZone "byte list" int
  | Loaded "byte list" "int \<Rightarrow> zone"

record go_time =
  t_sec :: int
  t_nsec :: int
  Location :: location

fun Location_String :: "location \<Rightarrow> byte list" where
  "Location_String UTC = ascii ''UTC''"
| "Location_String (FixedZone name off) = name"
| "Location_String (Loaded name f) = name"

fun zone_offset :: "location \<Rightarrow> int \<Rightarrow> int" where
  "zone_offset UTC t = 0"
| "zone_offset (FixedZone name off) t = off"
| "zone_offset (Loaded name f) t = z_offset (f t)"

fun zone_name :: "location \<Rightarrow> int \<Rightarrow> byte list" where
  "zone_name (Loaded name f) t = z_name (f t)"
| "zone_name l t = Location_String l"

fun zone_dst :: "location \<Rightarrow> int \<Rightarrow> bool" where
  "zone_dst (Loaded name f) t = z_dst (f t)"
| "zone_dst l t = False"

text \<open>The instant of a wall clock reading.\<close>

fun from_wall :: "location \<Rightarrow> int \<Rightarrow> int" where
  "from_wall UTC w = w"
| "from_wall (FixedZone name off) w = w - off"
| "from_wall (Loaded name f) w =
     (let z = f w; t = w - z_offset z
      in if z_offset z = 0 then w
         else if t < z_start z \<or> t \<ge> z_end z then w - z_offset (f t) else t)"

definition wall :: "go_time \<Rightarrow> int" where
  "wall t = t_sec t + zone_offset (Location t) (t_sec t)"

definition Year :: "go_time \<Rightarrow> int" where "Year t = fst (civil (wall t div 86400))"
definition Month :: "go_time \<Rightarrow> int" where "Month t = int (fst (snd (civil (wall t div 86400))))"
definition Day :: "go_time \<Rightarrow> int" where "Day t = snd (snd (civil (wall t div 86400)))"
definition Hour :: "go_time \<Rightarrow> int" where "Hour t = wall t mod 86400 div 3600"
definition Minute :: "go_time \<Rightarrow> int" where "Minute t = wall t mod 3600 div 60"
definition Second :: "go_time \<Rightarrow> int" where "Second t = wall t mod 60"
definition Nanosecond :: "go_time \<Rightarrow> int" where "Nanosecond t = t_nsec t"

definition In :: "location \<Rightarrow> go_time \<Rightarrow> go_time" where
  "In l t = t\<lparr>Location := l\<rparr>"

definition IsDST :: "go_time \<Rightarrow> bool" where
  "IsDST t = zone_dst (Location t) (t_sec t)"

text \<open>\<open>time.Date\<close>: a month out of range changes the year, every other field the wall clock.\<close>

definition wall_of :: "int \<Rightarrow> int \<Rightarrow> int \<Rightarrow> int \<Rightarrow> int \<Rightarrow> int \<Rightarrow> int \<Rightarrow> int" where
  "wall_of year month day hour minute sec nsec =
     86400 * day_number (year + (month - 1) div 12) (nat ((month - 1) mod 12) + 1) day
       + 3600 * hour + 60 * minute + sec + nsec div 1000000000"

definition Date :: "int \<Rightarrow> int \<Rightarrow> int \<Rightarrow> int \<Rightarrow> int \<Rightarrow> int \<Rightarrow> int \<Rightarrow> location \<Rightarrow> go_time" where
  "Date year month day hour minute sec nsec loc =
     \<lparr>t_sec = from_wall loc (wall_of year month day hour minute sec nsec), t_nsec = nsec mod 1000000000, Location = loc\<rparr>"

definition well_formed :: "go_time \<Rightarrow> bool" where
  "well_formed t \<longleftrightarrow> 0 \<le> t_nsec t \<and> t_nsec t < 1000000000"

lemma civil_fields: "valid_date (Year t) (nat (Month t)) (Day t)" "day_number (Year t) (nat (Month t)) (Day t) = wall t div 86400"
    "1 \<le> Month t" "Month t \<le> 12"
proof -
  obtain y m d where c: "civil (wall t div 86400) = (y, m, d)" by (metis prod_cases3)
  with civil_spec [OF c] show "valid_date (Year t) (nat (Month t)) (Day t)"
      "day_number (Year t) (nat (Month t)) (Day t) = wall t div 86400" "1 \<le> Month t" "Month t \<le> 12"
    by (auto simp: Year_def Month_def Day_def valid_date_def)
qed

lemma clock_fields:
  "0 \<le> Hour t" "Hour t < 24" "0 \<le> Minute t" "Minute t < 60" "0 \<le> Second t" "Second t < 60"
  "3600 * Hour t + 60 * Minute t + Second t = wall t mod 86400"
proof -
  define a b where "a = wall t mod 86400" "b = wall t mod 3600"
  have ab: "a mod 3600 = b" "b mod 60 = wall t mod 60"
    unfolding a_b_def by (rule mod_mod_cancel, simp)+
  have f: "Hour t = a div 3600" "Minute t = b div 60" "Second t = b mod 60"
    by (simp_all add: Hour_def Minute_def Second_def a_b_def(1) [symmetric] a_b_def(2) [symmetric] ab(2))
  have r: "0 \<le> a" "a < 86400" "0 \<le> b" "b < 3600" by (simp_all add: a_b_def)
  show "0 \<le> Hour t" "0 \<le> Minute t" "0 \<le> Second t" "Second t < 60" using r by (simp_all add: f pos_imp_zdiv_nonneg_iff)
  have e: "a = 3600 * (a div 3600) + b" "b = 60 * (b div 60) + b mod 60" unfolding ab(1) [symmetric] by simp_all
  have "0 \<le> b mod 60" by simp
  with e r have "a div 3600 < 24 \<and> b div 60 < 60" by linarith
  then show "Hour t < 24" "Minute t < 60" unfolding f by simp_all
  from e show "3600 * Hour t + 60 * Minute t + Second t = wall t mod 86400" unfolding f a_b_def(1) [symmetric] by linarith
qed

text \<open>Reading the fields of an instant and making an instant of them again, in any location.\<close>

lemma wall_of_fields:
  assumes "0 \<le> ns" and "ns < 1000000000"
  shows "wall_of (Year t) (Month t) (Day t) (Hour t) (Minute t) (Second t) ns = wall t"
proof -
  note m = civil_fields(3,4) [of t]
  have "(Month t - 1) div 12 = 0" "nat ((Month t - 1) mod 12) + 1 = nat (Month t)" using m by auto
  moreover have "ns div 1000000000 = 0" using assms by simp
  moreover have "86400 * (wall t div 86400) + wall t mod 86400 = wall t" by simp
  ultimately show ?thesis using civil_fields(2) [of t] clock_fields(7) [of t]
    unfolding wall_of_def by (simp only: add_0_right)
qed

end
