(* ===== verification/Oracle_Date.thy ===== *)
theory Oracle_Date
  imports Oracle_Number Go_Time
begin

text \<open>
  \<^verbatim>\<open>v3/types/date.go\<close> and \<^verbatim>\<open>v3/types/interval.go\<close>: DATE, TIMESTAMP, TIMESTAMP WITH TIME ZONE and the two interval
  types, written from and read back to \<^verbatim>\<open>time.Time\<close>. The table of time zone regions, the time zone database and
  the current time, which \<^verbatim>\<open>isEqualLoc\<close> looks at, are an argument.
\<close>

section \<open>Data\<close>

definition DATE_T :: u16 where "DATE_T = 12"
definition TimeStampDTY :: u16 where "TimeStampDTY = 180"
definition TimeStampTZ_DTY :: u16 where "TimeStampTZ_DTY = 181"
definition INTERVALYM_DTY :: u16 where "INTERVALYM_DTY = 182"
definition INTERVALDS_DTY :: u16 where "INTERVALDS_DTY = 183"
definition TIMESTAMP :: u16 where "TIMESTAMP = 187"
definition TIMESTAMPTZ :: u16 where "TIMESTAMPTZ = 188"
definition TimeStampLTZ_DTY :: u16 where "TimeStampLTZ_DTY = 231"
definition TimeStampLTZ :: u16 where "TimeStampLTZ = 232"

lemmas date_types = DATE_T_def TimeStampDTY_def TimeStampTZ_DTY_def INTERVALYM_DTY_def INTERVALDS_DTY_def
  TIMESTAMP_def TIMESTAMPTZ_def TimeStampLTZ_DTY_def TimeStampLTZ_def

record date = number +
  AsUTC :: bool
  DBTimeZone :: "location option"
  DBServerTimeZone :: "location option"

text \<open>The regions in the order in which the loop over the map meets them.\<close>

record tz_env =
  oracleZones :: "(int \<times> byte list) list"
  LoadLocation :: "byte list \<Rightarrow> location option"
  Now :: int

definition date_GetMaxLen :: "date \<Rightarrow> int" where
  "date_GetMaxLen d = (if dataType d = DATE_T then 7 else if dataType d = TIMESTAMP then 11 else 13)"

definition isEqualLoc :: "tz_env \<Rightarrow> location \<Rightarrow> location \<Rightarrow> bool" where
  "isEqualLoc env zone1 zone2 \<longleftrightarrow> zone_name zone1 (Now env) = zone_name zone2 (Now env)
     \<and> zone_offset zone1 (Now env) = zone_offset zone2 (Now env)"

section \<open>Writing\<close>

text \<open>\<open>uint8(x)\<close> of an \<open>int\<close>.\<close>

abbreviation u8 :: "int \<Rightarrow> byte" where
  "u8 x \<equiv> word_of_int x"

definition putDate :: "go_time \<Rightarrow> byte list" where
  "putDate ti = [u8 (Year ti sdiv 100 + 100), u8 (Year ti smod 100 + 100), u8 (Month ti), u8 (Day ti),
     u8 (Hour ti + 1), u8 (Minute ti + 1), u8 (Second ti + 1)]"

definition putTimestamp :: "go_time \<Rightarrow> byte list" where
  "putTimestamp ti = putDate ti @ be_enc 4 (unat (word_of_int (Nanosecond ti) :: u32))"

definition find_zone :: "tz_env \<Rightarrow> location \<Rightarrow> int" where
  "find_zone env loc = (case find (\<lambda>(key, val). to_upper (Location_String loc) = to_upper val) (oracleZones env) of
     None \<Rightarrow> 0 | Some (key, val) \<Rightarrow> key)"

definition zone_bytes :: "tz_env \<Rightarrow> go_time \<Rightarrow> byte \<times> byte" where
  "zone_bytes env input =
     (let zoneID = find_zone env (Location input); offset = zone_offset (Location input) (t_sec input)
      in if zoneID > 0 then (u8 (drop_bit 6 (zoneID AND 0x1FC0)) OR 0x80, u8 (push_bit 2 (zoneID AND 0x3F)))
         else (u8 (offset sdiv 3600) + 20, u8 ((offset sdiv 60) smod 60) + 60))"

definition local_flags :: "bool \<Rightarrow> byte \<times> byte \<Rightarrow> byte \<times> byte" where
  "local_flags dst = (\<lambda>(zone1, zone2).
     if zone1 AND 0x80 \<noteq> 0 then (zone1, (zone2 OR 1) OR (if dst then 2 else 0)) else (zone1 OR 0x40, zone2))"

definition date_encode :: "tz_env \<Rightarrow> go_time \<Rightarrow> date \<Rightarrow> nslice \<times> date" where
  "date_encode env input d =
     (let d = (if dataType d = 0 then d\<lparr>dataType := DATE_T\<rparr> else d)
      in if dataType d = DATE_T then (Some (putDate input), d)
         else if dataType d = TIMESTAMP then (Some (putTimestamp input), d)
         else if dataType d \<in> {TIMESTAMPTZ, TimeStampTZ_DTY, TimeStampLTZ, TimeStampLTZ_DTY} then
           (let val = (if AsUTC d then In UTC input else input);
                (zone1, zone2) = (if AsUTC d then zone_bytes env input else local_flags (IsDST input) (zone_bytes env input))
            in (Some (putTimestamp val @ [zone1, zone2]), d))
         else (None, d))"

section \<open>Reading\<close>

definition two_digits :: "nat \<Rightarrow> byte list" where
  "two_digits n = (if n < 10 then 48 # dec_digits n else dec_digits n)"

text \<open>\<open>fmt.Sprintf("%+03d:%02d", tzHour, tzMin)\<close>\<close>

definition zone_text :: "int \<Rightarrow> int \<Rightarrow> byte list" where
  "zone_text h m = (if h < 0 then 45 else 43) # two_digits (nat \<bar>h\<bar>) @ [58]
     @ (if m < 0 then 45 # dec_digits (nat \<bar>m\<bar>) else two_digits (nat m))"

text \<open>The location of a value with a zone, and whether its fields are a reading of the clock there.\<close>

definition decode_zone :: "tz_env \<Rightarrow> byte list \<Rightarrow> int \<Rightarrow> int \<Rightarrow> (location \<times> bool) res" where
  "decode_zone env b tzHour tzMin =
     (let fixed = FixedZone (zone_text tzHour tzMin) (tzHour * 60 * 60 + tzMin * 60)
      in if b ! 11 AND 0x80 \<noteq> 0 then
           if length b \<le> 12 then Panic
           else let regionCode = push_bit 6 (uint (b ! 11) AND 0x7F) + drop_bit 2 (uint (b ! 12) AND 0xFC);
                    zone = (case map_of (oracleZones env) regionCode of None \<Rightarrow> None | Some name \<Rightarrow> LoadLocation env name)
                in Ok (case zone of None \<Rightarrow> fixed | Some z \<Rightarrow> z, b ! 12 AND 1 = 1)
         else Ok (fixed, b ! 11 AND 0x40 = 0x40))"

definition date_at :: "byte list \<Rightarrow> int \<Rightarrow> location \<Rightarrow> go_time" where
  "date_at b nanoSec zone =
     Date ((uint (b ! 0) - 100) * 100 + (uint (b ! 1) - 100)) (uint (b ! 2)) (uint (b ! 3))
       (uint (b ! 4 - 1)) (uint (b ! 5 - 1)) (uint (b ! 6 - 1)) nanoSec zone"

definition retime :: "location \<Rightarrow> go_time \<Rightarrow> go_time" where
  "retime zone t = Date (Year t) (Month t) (Day t) (Hour t) (Minute t) (Second t) (Nanosecond t) zone"

definition date_decode :: "tz_env \<Rightarrow> date \<Rightarrow> go_time res" where
  "date_decode env d =
     (let b = slice_bytes (bValue d)
      in if length b < 7 then Err AbnormalDate
         else let nanoSec = (if length b > 10 then int (be_dec (slice 7 11 b)) else 0);
                  tzHour = (if length b > 11 then uint (b ! 11 AND 0x3F) - 20 else 0);
                  tzMin = (if length b > 12 then uint (b ! 12) - 60 else 0);
                  output = date_at b nanoSec UTC
              in rbind (if tzHour \<noteq> 0 \<or> tzMin \<noteq> 0 then
                          rbind (decode_zone env b tzHour tzMin) (\<lambda>(zone, timeInZone).
                            Ok (if timeInZone then date_at b nanoSec zone else In zone output))
                        else Ok output) (\<lambda>output.
                 let retimed = (\<lambda>z. case z of None \<Rightarrow> output
                       | Some zone \<Rightarrow> if isEqualLoc env zone UTC then output else retime zone output)
                 in Ok (if dataType d \<in> {DATE_T, TIMESTAMP, TimeStampDTY} then retimed (DBServerTimeZone d)
                        else if dataType d \<in> {TimeStampLTZ, TimeStampLTZ_DTY} then retimed (DBTimeZone d)
                        else output)))"

section \<open>Operations\<close>

text \<open>A pointer counts as what it points to.\<close>

datatype date_input =
    DNil
  | DDate date
  | DTime go_time
  | DNullTime bool go_time
  | DOther

definition date_default :: "date \<Rightarrow> date" where
  "date_default d = (if dataType d = 0 then d\<lparr>dataType := DATE_T\<rparr> else d)"

definition date_store :: "tz_env \<Rightarrow> go_time \<Rightarrow> date \<Rightarrow> date" where
  "date_store env t d = (case date_encode env t d of (b, d) \<Rightarrow> d\<lparr>bValue := b\<rparr>)"

definition date_SetValue :: "tz_env \<Rightarrow> date_input \<Rightarrow> date \<Rightarrow> unit res \<times> date" where
  "date_SetValue env input d = (case
     (case input of
        DNil \<Rightarrow> (Ok (), d\<lparr>bValue := None\<rparr>)
      | DDate data \<Rightarrow>
          if AsUTC d = AsUTC data then (Ok (), data)
          else (case date_decode env data of
                  Ok temp \<Rightarrow> (Ok (), date_default (date_store env temp (d\<lparr>dataType := dataType data\<rparr>)))
                | Err e \<Rightarrow> (Err e, d) | Panic \<Rightarrow> (Panic, d))
      | DTime t \<Rightarrow> (Ok (), date_store env t d)
      | DNullTime valid t \<Rightarrow> (Ok (), if valid then date_store env t d else d\<lparr>bValue := None\<rparr>)
      | DOther \<Rightarrow> (Err UnsupportedType, d)) of (r, d) \<Rightarrow> (r, date_default d))"

definition date_Scan :: "tz_env \<Rightarrow> date_input \<Rightarrow> date \<Rightarrow> unit res \<times> date" where
  "date_Scan env value d = date_SetValue env value d"

definition zero_date :: date where
  "zero_date = \<lparr>bValue = None, dataType = 0, AsUTC = False, DBTimeZone = None, DBServerTimeZone = None\<rparr>"

definition NewTimeStamp :: "tz_env \<Rightarrow> go_time \<Rightarrow> date" where
  "NewTimeStamp env t = snd (date_SetValue env (DTime t) (zero_date\<lparr>dataType := TIMESTAMP\<rparr>))"

definition NewTimeStampTZ :: "tz_env \<Rightarrow> go_time \<Rightarrow> date" where
  "NewTimeStampTZ env t = snd (date_SetValue env (DTime t) (zero_date\<lparr>dataType := TimeStampTZ_DTY\<rparr>))"

definition date_Value :: "tz_env \<Rightarrow> date \<Rightarrow> go_time option res" where
  "date_Value env d = (if slice_bytes (bValue d) = [] then Ok None else res_map Some (date_decode env d))"

text \<open>The variable behind the pointer, before and after; without a value a \<open>time.Time\<close> keeps what it had.\<close>

datatype time_dest =
    PTime go_time
  | PNullTime "go_time option"
  | PNoTime

definition copy_time :: "go_time option \<Rightarrow> time_dest \<Rightarrow> time_dest res" where
  "copy_time value dest = (case dest of
     PTime old \<Rightarrow> Ok (PTime (case value of None \<Rightarrow> old | Some t \<Rightarrow> t))
   | PNullTime _ \<Rightarrow> Ok (PNullTime value)
   | PNoTime \<Rightarrow> Err UnsupportedType)"

definition date_CopyTo :: "tz_env \<Rightarrow> date \<Rightarrow> time_dest \<Rightarrow> time_dest res" where
  "date_CopyTo env d dest = rbind (date_Value env d) (\<lambda>value. copy_time value dest)"

section \<open>Intervals\<close>

type_synonym interval = number

definition interval_GetMaxLen :: "interval \<Rightarrow> int" where
  "interval_GetMaxLen i = (if dataType i = INTERVALYM_DTY then 5 else 11)"

definition interval_Value :: "interval \<Rightarrow> go_time option res" where
  "interval_Value i =
     (let b = slice_bytes (bValue i)
      in if b = [] then Ok None
         else let guess = (if length b \<ge> 11 then INTERVALDS_DTY else 0);
                  guess = (if length b \<ge> 5 then INTERVALYM_DTY else guess);
                  typeId = (if dataType i = 0 then guess else dataType i)
              in if typeId = INTERVALYM_DTY then
                   if length b < 5 then Err ShortInterval
                   else Ok (Some (Date (int (be_dec (slice 0 4 b)) - 0x80000000) (uint (b ! 4 - 60)) 0 0 0 0 0 UTC))
                 else if typeId = INTERVALDS_DTY then
                   if length b < 11 then Err ShortInterval
                   else Ok (Some (Date 0 0 (int (be_dec (slice 0 4 b)) - 0x80000000) (uint (b ! 4 - 60)) (uint (b ! 5 - 60))
                          (uint (b ! 6 - 60)) ((int (be_dec (slice 7 11 b)) - 0x80000000) * 1000) UTC))
                 else Err (UnsupportedInterval typeId))"

definition offset_u32 :: "int \<Rightarrow> byte list" where
  "offset_u32 x = be_enc 4 (unat (word_of_int (x + 0x80000000) :: u32))"

text \<open>\<open>SetDataType\<close> sets a type only where there is none, so that the recursive call may find the same type again.\<close>

partial_function (option) interval_encode :: "go_time \<Rightarrow> (interval, unit) gom" where
  "interval_encode input i =
     (if dataType i = INTERVALYM_DTY then
        Some (Ok (), i\<lparr>bValue := Some (offset_u32 (Year input) @ [u8 (Month input + 60)])\<rparr>)
      else if dataType i = INTERVALDS_DTY then
        Some (Ok (), i\<lparr>bValue := Some (offset_u32 (Day input) @ [u8 (Hour input + 60), u8 (Minute input + 60), u8 (Second input + 60)]
          @ offset_u32 (Nanosecond input sdiv 1000))\<rparr>)
      else if Year input \<noteq> 0 \<or> Month input \<noteq> 0 then interval_encode input (SetDataType INTERVALYM_DTY i)
      else interval_encode input (SetDataType INTERVALDS_DTY i))"

datatype interval_input =
    VNil
  | VInterval interval
  | VTime go_time
  | VOther

definition interval_SetValue :: "interval_input \<Rightarrow> (interval, unit) gom" where
  "interval_SetValue input i = (case input of
     VNil \<Rightarrow> Some (Ok (), i\<lparr>bValue := None\<rparr>)
   | VInterval data \<Rightarrow> Some (Ok (), data)
   | VTime t \<Rightarrow> interval_encode t i
   | VOther \<Rightarrow> Some (Err UnsupportedType, i))"

definition interval_Scan :: "interval_input \<Rightarrow> (interval, unit) gom" where
  "interval_Scan value i = interval_SetValue value i"

definition interval_CopyTo :: "interval \<Rightarrow> time_dest \<Rightarrow> time_dest res" where
  "interval_CopyTo i dest = rbind (interval_Value i) (\<lambda>value. copy_time value dest)"

definition NewYearMonthInterval :: "int \<Rightarrow> int \<Rightarrow> (unit res \<times> interval) option" where
  "NewYearMonthInterval year month =
     interval_SetValue (VTime (Date year month 0 0 0 0 0 UTC)) \<lparr>bValue = None, dataType = INTERVALYM_DTY\<rparr>"

definition NewDaySecondInterval :: "int \<Rightarrow> int \<Rightarrow> int \<Rightarrow> int \<Rightarrow> int \<Rightarrow> (unit res \<times> interval) option" where
  "NewDaySecondInterval day hour minute second nanosecond =
     interval_SetValue (VTime (Date 0 0 day hour minute second nanosecond UTC)) \<lparr>bValue = None, dataType = INTERVALDS_DTY\<rparr>"

end
