(* ===== verification/Value_Cell.thy ===== *)
theory Value_Cell
  imports Go_Prelude
begin

text \<open>
  The contract that the value types of \<^verbatim>\<open>v3/types\<close> share with the code that binds parameters and reads columns: a
  value that fits is stored without an error, and what is read back is its canonical form, whatever was stored before.
\<close>

locale value_cell =
  fixes set_value :: "'i \<Rightarrow> 's \<Rightarrow> unit res \<times> 's"
    and get_value :: "'s \<Rightarrow> 'v res"
    and holds :: "'s \<Rightarrow> bool"
    and fits :: "'i \<Rightarrow> bool"
    and canon :: "'i \<Rightarrow> 'v"
  assumes stores: "holds s \<Longrightarrow> fits x \<Longrightarrow> \<exists>s'. set_value x s = (Ok (), s') \<and> holds s' \<and> get_value s' = Ok (canon x)"
begin

lemma set_holds: "holds s \<Longrightarrow> fits x \<Longrightarrow> holds (snd (set_value x s))"
  using stores [of s x] by auto

lemma sets_hold: "holds s \<Longrightarrow> list_all fits xs \<Longrightarrow> holds (foldl (\<lambda>s x. snd (set_value x s)) s xs)"
  by (induction xs arbitrary: s) (simp_all add: set_holds)

lemma last_set_wins:
  assumes "holds s" and "list_all fits xs" and "xs \<noteq> []"
  shows "get_value (foldl (\<lambda>s x. snd (set_value x s)) s xs) = Ok (canon (last xs))"
proof -
  obtain ys y where xs: "xs = ys @ [y]" using assms(3) by (cases xs rule: rev_cases) auto
  have "holds (foldl (\<lambda>s x. snd (set_value x s)) s ys)" using assms(1,2) by (intro sets_hold) (simp_all add: xs)
  then show ?thesis using stores [of _ y] assms(2) by (fastforce simp: xs)
qed

lemma errors_free: "holds s \<Longrightarrow> fits x \<Longrightarrow> fst (set_value x s) = Ok ()"
  using stores [of s x] by auto

end

end
