(* ===== verification/Oracle_Date_Props.thy ===== *)
theory Oracle_Date_Props
  imports Oracle_Date Value_Cell
begin

text \<open>
  Round trips of dates and timestamps through their bytes, with and without a time zone, and the behaviour of the
  interval types.
\<close>

section \<open>Fields\<close>

lemma uint_u8: "0 \<le> x \<Longrightarrow> x < 256 \<Longrightarrow> uint (u8 x) = x"
  by (simp add: unsigned_of_int take_bit_int_eq_self)

lemma uint_u8_pred: "0 \<le> x \<Longrightarrow> x < 255 \<Longrightarrow> uint (u8 (x + 1) - 1) = x"
  using uint_u8 [of x] by simp

lemma sdiv_cases: "0 < k \<Longrightarrow> 0 \<le> a \<Longrightarrow> a sdiv k = a div k \<and> a smod k = a mod k"
    "0 < k \<Longrightarrow> a \<le> 0 \<Longrightarrow> a sdiv k = - (- a div k) \<and> a smod k = - (- a mod k)" for a k :: int
  by (auto simp: signed_divide_int_def smod_int_alt_def sgn_if)

lemma sdiv_smod: "(a sdiv k) * k + a smod k = a" for a k :: int
  by (rule sdiv_mult_smod_eq)

lemma smod_bounds: "0 < k \<Longrightarrow> - k < a smod k \<and> a smod k < k" for a k :: int
  using smod_int_range [of k a] by auto

lemma zdiv_less: "0 < k \<Longrightarrow> a < u * k \<Longrightarrow> a div k < u" for a k u :: int
proof -
  assume k: "0 < k" and "a < u * k"
  then have "a div k * k < u * k" using div_mult_mod_eq [of a k] pos_mod_sign [OF k, of a] by linarith
  then show "a div k < u" using k by simp
qed

lemma sdiv_bounds:
  assumes "0 < k" and "- (l * k) < a" and "a < u * k" and "0 < l" and "0 < u"
  shows "- l < a sdiv k \<and> a sdiv k < (u :: int)"
proof (cases "0 \<le> a")
  case True
  have "a div k < u" using assms(1,3) by (rule zdiv_less)
  moreover have "0 \<le> a div k" using True assms(1) by (simp add: pos_imp_zdiv_nonneg_iff)
  ultimately show ?thesis using True sdiv_cases(1) [of k a] assms by simp
next
  case False
  have "- a < l * k" using assms(2) by linarith
  then have "- a div k < l" by (rule zdiv_less [OF assms(1)])
  moreover have "0 \<le> - a div k" using False assms(1) by (simp add: pos_imp_zdiv_nonneg_iff)
  ultimately show ?thesis using False sdiv_cases(2) [of k a] assms by simp
qed

definition writable_year :: "go_time \<Rightarrow> bool" where
  "writable_year t \<longleftrightarrow> - 10099 \<le> Year t \<and> Year t \<le> 15599"

lemma date_at_putDate:
  assumes "writable_year t" and "0 \<le> ns" and "ns < 1000000000"
  shows "date_at (putDate t @ rest) ns zone = \<lparr>t_sec = from_wall zone (wall t), t_nsec = ns, Location = zone\<rparr>"
proof -
  have b: "- 101 < Year t sdiv 100 \<and> Year t sdiv 100 < 156" "- 100 < Year t smod 100 \<and> Year t smod 100 < 100"
    using sdiv_bounds [of 100 101 "Year t" 156] smod_bounds [of 100 "Year t"] assms(1) by (auto simp: writable_year_def)
  have "uint (u8 (Year t sdiv 100 + 100)) = Year t sdiv 100 + 100" by (rule uint_u8) (use b in linarith)+
  moreover have "uint (u8 (Year t smod 100 + 100)) = Year t smod 100 + 100" by (rule uint_u8) (use b in linarith)+
  ultimately have y: "(uint (u8 (Year t sdiv 100 + 100)) - 100) * 100 + (uint (u8 (Year t smod 100 + 100)) - 100) = Year t"
    using sdiv_smod [of "Year t" 100] by simp
  have d: "1 \<le> Day t" "Day t \<le> 31" using civil_fields(1) [of t] by (auto simp: valid_date_def month_days_def split: if_splits)
  have f: "uint (u8 (Month t)) = Month t" "uint (u8 (Day t)) = Day t" "uint (u8 (Hour t + 1) - 1) = Hour t"
      "uint (u8 (Minute t + 1) - 1) = Minute t" "uint (u8 (Second t + 1) - 1) = Second t"
    using d civil_fields(3,4) [of t] clock_fields [of t] by (auto intro!: uint_u8 uint_u8_pred)
  have "ns mod 1000000000 = ns" using assms(2,3) by simp
  then show ?thesis
    using wall_of_fields [OF assms(2,3), of t] y f by (simp add: date_at_def putDate_def Date_def)
qed

lemma be_dec_nanoseconds:
  assumes "well_formed t"
  shows "int (be_dec (be_enc 4 (unat (word_of_int (Nanosecond t) :: u32)))) = t_nsec t"
proof -
  have "uint (word_of_int (Nanosecond t) :: u32) = t_nsec t"
    using assms by (simp add: Nanosecond_def well_formed_def unsigned_of_int take_bit_int_eq_self)
  then have "unat (word_of_int (Nanosecond t) :: u32) = nat (t_nsec t)" by (simp add: unat_eq_nat_uint)
  moreover have "nat (t_nsec t) < 4294967296" using assms by (simp add: well_formed_def nat_less_iff)
  ultimately show ?thesis using assms by (simp add: be_dec_enc well_formed_def)
qed

lemma length_putDate [simp]: "length (putDate t) = 7" "length (putTimestamp t) = 11"
  by (simp_all add: putDate_def putTimestamp_def)

lemma slice_putTimestamp: "slice 7 11 (putTimestamp t @ rest) = be_enc 4 (unat (word_of_int (Nanosecond t) :: u32))"
  by (simp add: putTimestamp_def slice_def)

section \<open>Dates and timestamps without a zone\<close>

lemma date_stored:
  assumes "well_formed t" and "writable_year t" and "dataType d \<in> {0, DATE_T, TIMESTAMP}" and "DBServerTimeZone d = None"
  shows "date_Value env (snd (date_SetValue env (DTime t) d))
    = Ok (Some \<lparr>t_sec = wall t, t_nsec = (if dataType d = TIMESTAMP then t_nsec t else 0), Location = UTC\<rparr>)"
proof -
  define d' where "d' = snd (date_SetValue env (DTime t) d)"
  have d': "d' = date_default (date_store env t d)" by (simp add: d'_def date_SetValue_def)
  show ?thesis
  proof (cases "dataType d = TIMESTAMP")
    case True
    then have "d' = d\<lparr>bValue := Some (putTimestamp t)\<rparr>"
      by (simp add: d' date_store_def date_encode_def date_default_def date_types)
    moreover have "putTimestamp t \<noteq> []" by (simp add: putTimestamp_def putDate_def)
    moreover have "date_at (putTimestamp t) (t_nsec t) UTC = \<lparr>t_sec = wall t, t_nsec = t_nsec t, Location = UTC\<rparr>"
      using date_at_putDate [OF assms(2), of "t_nsec t"] assms(1) by (simp add: putTimestamp_def well_formed_def)
    moreover have "int (be_dec (slice 7 11 (putTimestamp t))) = t_nsec t"
      using slice_putTimestamp [of t "[]"] be_dec_nanoseconds [OF assms(1)] by simp
    ultimately show ?thesis
      unfolding d'_def [symmetric] using True assms(4) by (simp add: date_Value_def date_decode_def slice_bytes_def res_map_def Let_def)
  next
    case False
    then have "d' = d\<lparr>dataType := DATE_T, bValue := Some (putDate t)\<rparr>"
      using assms(3) by (auto simp: d' date_store_def date_encode_def date_default_def date_types)
    moreover have "putDate t \<noteq> []" by (simp add: putDate_def)
    moreover have "date_at (putDate t) 0 UTC = \<lparr>t_sec = wall t, t_nsec = 0, Location = UTC\<rparr>"
      using date_at_putDate [OF assms(2), of 0 "[]"] by simp
    ultimately show ?thesis
      unfolding d'_def [symmetric] using False assms(4) by (simp add: date_Value_def date_decode_def slice_bytes_def res_map_def Let_def)
  qed
qed

lemma date_SetValue_time: "fst (date_SetValue env (DTime t) d) = Ok ()" "dataType d \<in> {0, DATE_T} \<Longrightarrow> dataType (snd (date_SetValue env (DTime t) d)) = DATE_T"
    "dataType d = TIMESTAMP \<Longrightarrow> dataType (snd (date_SetValue env (DTime t) d)) = TIMESTAMP"
    "DBServerTimeZone (snd (date_SetValue env (DTime t) d)) = DBServerTimeZone d"
  by (auto simp: date_SetValue_def date_store_def date_encode_def date_default_def date_types Let_def split: prod.splits)

interpretation plain_date: value_cell "\<lambda>t. date_SetValue env (DTime t)" "date_Value env"
  "\<lambda>d. dataType d \<in> {0, DATE_T} \<and> DBServerTimeZone d = None" "\<lambda>t. well_formed t \<and> writable_year t"
  "\<lambda>t. Some \<lparr>t_sec = wall t, t_nsec = 0, Location = UTC\<rparr>" for env
proof
  fix d :: date and t
  assume "dataType d \<in> {0, DATE_T} \<and> DBServerTimeZone d = None" and "well_formed t \<and> writable_year t"
  moreover from this have "dataType d \<noteq> TIMESTAMP" by (auto simp: date_types)
  ultimately show "\<exists>d'. date_SetValue env (DTime t) d = (Ok (), d') \<and> (dataType d' \<in> {0, DATE_T} \<and> DBServerTimeZone d' = None)
      \<and> date_Value env d' = Ok (Some \<lparr>t_sec = wall t, t_nsec = 0, Location = UTC\<rparr>)"
    using date_stored [where t = t and d = d and env = env] date_SetValue_time [where env = env and t = t and d = d] by (cases "date_SetValue env (DTime t) d") auto
qed

interpretation timestamp: value_cell "\<lambda>t. date_SetValue env (DTime t)" "date_Value env"
  "\<lambda>d. dataType d = TIMESTAMP \<and> DBServerTimeZone d = None" "\<lambda>t. well_formed t \<and> writable_year t"
  "\<lambda>t. Some \<lparr>t_sec = wall t, t_nsec = t_nsec t, Location = UTC\<rparr>" for env
proof
  fix d :: date and t
  assume "dataType d = TIMESTAMP \<and> DBServerTimeZone d = None" and "well_formed t \<and> writable_year t"
  then show "\<exists>d'. date_SetValue env (DTime t) d = (Ok (), d') \<and> (dataType d' = TIMESTAMP \<and> DBServerTimeZone d' = None)
      \<and> date_Value env d' = Ok (Some \<lparr>t_sec = wall t, t_nsec = t_nsec t, Location = UTC\<rparr>)"
    using date_stored [where t = t and d = d and env = env] date_SetValue_time [where env = env and t = t and d = d] by (cases "date_SetValue env (DTime t) d") auto
qed

text \<open>
  C26. A DATE keeps the wall clock of the time it was last set from to the second, and a TIMESTAMP to the nanosecond, for
  all years from -10099 to 15599, whatever the location was and whatever it was set from before: what is read back, when
  the server is in UTC, is the same reading of the clock in UTC.
\<close>

theorem date_roundtrip:
  assumes "dataType d \<in> {0, DATE_T, TIMESTAMP}" and "DBServerTimeZone d = None"
    and "list_all (\<lambda>t. well_formed t \<and> writable_year t) ts" and "ts \<noteq> []"
  shows "date_Value env (foldl (\<lambda>d t. snd (date_SetValue env (DTime t) d)) d ts)
    = Ok (Some \<lparr>t_sec = wall (last ts), t_nsec = (if dataType d = TIMESTAMP then t_nsec (last ts) else 0), Location = UTC\<rparr>)"
proof (cases "dataType d = TIMESTAMP")
  case True
  then show ?thesis using timestamp.last_set_wins [where s = d and xs = ts and env = env] assms by simp
next
  case False
  then show ?thesis using plain_date.last_set_wins [where s = d and xs = ts and env = env] assms by auto
qed

section \<open>Timestamps with a zone\<close>

text \<open>What is stored for a type with a zone, and what reading it comes down to.\<close>

definition zoned_type :: "date \<Rightarrow> bool" where
  "zoned_type d \<longleftrightarrow> dataType d \<in> {TIMESTAMPTZ, TimeStampTZ_DTY} \<or> dataType d \<in> {TimeStampLTZ, TimeStampLTZ_DTY} \<and> DBTimeZone d = None"

definition sent :: "date \<Rightarrow> go_time \<Rightarrow> go_time" where
  "sent d t = (if AsUTC d then In UTC t else t)"

definition sent_zone :: "tz_env \<Rightarrow> date \<Rightarrow> go_time \<Rightarrow> byte \<times> byte" where
  "sent_zone env d t = (if AsUTC d then zone_bytes env t else local_flags (IsDST t) (zone_bytes env t))"

lemma zoned_stored:
  assumes "zoned_type d"
  shows "snd (date_SetValue env (DTime t) d)
    = d\<lparr>bValue := Some (putTimestamp (sent d t) @ [fst (sent_zone env d t), snd (sent_zone env d t)])\<rparr>"
proof -
  have "dataType d \<notin> {0, DATE_T, TIMESTAMP}" "dataType d \<in> {TIMESTAMPTZ, TimeStampTZ_DTY, TimeStampLTZ, TimeStampLTZ_DTY}"
    using assms by (auto simp: zoned_type_def date_types)
  then show ?thesis
    by (cases "sent_zone env d t")
       (auto simp: date_SetValue_def date_store_def date_encode_def date_default_def sent_def sent_zone_def Let_def
         split: prod.splits if_splits)
qed

lemma zoned_value:
  fixes z1 z2 :: byte
  assumes "zoned_type d" and "well_formed t" and "writable_year (sent d t)"
  defines "b \<equiv> putTimestamp (sent d t) @ [z1, z2]"
  shows "date_Value env (d\<lparr>bValue := Some b\<rparr>)
    = (if uint (z1 AND 0x3F) \<noteq> 20 \<or> uint z2 \<noteq> 60 then
         rbind (decode_zone env b (uint (z1 AND 0x3F) - 20) (uint z2 - 60)) (\<lambda>(zone, timeInZone).
           Ok (Some \<lparr>t_sec = (if timeInZone then from_wall zone (wall (sent d t)) else wall (sent d t)),
                     t_nsec = t_nsec t, Location = zone\<rparr>))
       else Ok (Some \<lparr>t_sec = wall (sent d t), t_nsec = t_nsec t, Location = UTC\<rparr>))"
proof -
  have wf: "well_formed (sent d t)" "t_nsec (sent d t) = t_nsec t" using assms(2) by (simp_all add: sent_def In_def well_formed_def)
  have len: "length b = 13" "b \<noteq> []" "b ! 11 = z1" "b ! 12 = z2"
    by (auto simp: b_def nth_append)
  have ns: "int (be_dec (slice 7 11 b)) = t_nsec t"
    using be_dec_nanoseconds [OF wf(1)] wf(2) by (simp add: b_def slice_putTimestamp)
  have at: "date_at b (t_nsec t) zone = \<lparr>t_sec = from_wall zone (wall (sent d t)), t_nsec = t_nsec t, Location = zone\<rparr>" for zone
    using date_at_putDate [OF assms(3), of "t_nsec t"] assms(2) by (simp add: b_def putTimestamp_def well_formed_def)
  have ty: "dataType d \<notin> {DATE_T, TIMESTAMP, TimeStampDTY}" "dataType d \<in> {TimeStampLTZ, TimeStampLTZ_DTY} \<Longrightarrow> DBTimeZone d = None"
    using assms(1) by (auto simp: zoned_type_def date_types)
  show ?thesis
    using ty by (auto simp: date_Value_def date_decode_def slice_bytes_def len ns at res_map_def Let_def In_def rbind_assoc
        split: prod.splits intro!: arg_cong2 [where f = rbind])
qed

subsection \<open>Fixed offsets\<close>




subsection \<open>Regions\<close>

lemma region_high:
  fixes n :: int
  assumes "0 \<le> n" and "n < 8192"
  defines "w \<equiv> word_of_int (drop_bit 6 (n AND 0x1FC0)) :: byte"
  shows "uint w = n div 64" "(w OR 0x80) AND 0x80 = 0x80" "uint (w OR 0x80) AND 0x7F = n div 64" "uint ((w OR 0x80) AND 0x3F) = n div 64 mod 64"
proof -
  have "(0x7F :: int) = mask 7" by (simp add: mask_eq_exp_minus_1)
  moreover have "drop_bit 6 (n AND 0x1FC0) = drop_bit 6 n AND 0x7F" by (simp add: drop_bit_and)
  moreover have "drop_bit 6 n = n div 64" by (simp add: drop_bit_eq_div)
  ultimately have "drop_bit 6 (n AND 0x1FC0) = take_bit 7 (n div 64)" by (simp only: take_bit_eq_mask)
  moreover have "take_bit 7 (n div 64) = n div 64"
    using assms(1,2) zdiv_less [of 64 n 128] by (intro take_bit_int_eq_self) (simp_all add: pos_imp_zdiv_nonneg_iff)
  ultimately have e: "w = word_of_int (n div 64)" by (simp add: w_def)
  have r: "0 \<le> n div 64" "n div 64 < 128" using assms(1,2) zdiv_less [of 64 n 128] by (simp_all add: pos_imp_zdiv_nonneg_iff)
  note b = low_byte_bits [OF r, folded e]
  show "uint w = n div 64" by (rule b(3))
  show "(w OR 0x80) AND 0x80 = 0x80" using b(1) by (simp add: bit.conj_disj_distrib2)
  have "uint (w OR 0x80) AND 0x7F = uint ((w OR 0x80) AND 0x7F)" by (simp add: unsigned_and_eq)
  also have "\<dots> = n div 64" using b by (simp add: bit.conj_disj_distrib2)
  finally show "uint (w OR 0x80) AND 0x7F = n div 64" .
  have m: "(0x3F :: byte) = mask 6" by (simp add: mask_eq_exp_minus_1)
  have "(w OR 0x80) AND 0x3F = w AND 0x3F" by (simp add: bit.conj_disj_distrib2)
  then have "uint ((w OR 0x80) AND 0x3F) = uint (take_bit 6 w)" by (simp only: m take_bit_eq_mask)
  also have "\<dots> = take_bit 6 (n div 64)" unfolding unsigned_take_bit_eq b(3) ..
  finally show "uint ((w OR 0x80) AND 0x3F) = n div 64 mod 64" by (simp add: take_bit_eq_mod)
qed

lemma region_low:
  fixes n :: int and f :: byte
  defines "w \<equiv> word_of_int (push_bit 2 (n AND 0x3F)) :: byte"
  assumes "f \<in> {0, 2}"
  shows "uint w = 4 * (n mod 64)" "w AND 1 = 0" "drop_bit 2 (uint w AND 0xFC) = n mod 64"
    "((w OR 1) OR f) AND 1 = 1" "drop_bit 2 (uint ((w OR 1) OR f) AND 0xFC) = n mod 64" "uint ((w OR 1) OR f) \<noteq> 60"
proof -
  have m: "(0x3F :: int) = mask 6" by (simp add: mask_eq_exp_minus_1)
  have c: "n AND 0x3F = n mod 64" by (simp add: m take_bit_eq_mask [symmetric] take_bit_eq_mod)
  have r: "0 \<le> n mod 64" "n mod 64 < 64" by simp_all
  have c6: "(n mod 64) AND 0x3F = n mod 64" by (simp add: m take_bit_eq_mask [symmetric] take_bit_eq_mod)
  show u: "uint w = 4 * (n mod 64)"
    unfolding w_def c by (subst uint_u8) (use r in \<open>simp_all add: push_bit_eq_mult\<close>)
  have d: "drop_bit 2 (4 * (n mod 64)) = n mod 64" by (simp add: drop_bit_eq_div)
  show w1: "w AND 1 = 0"
  proof (rule word_uint_eq_iff [THEN iffD2])
    have "uint (w AND 1) = uint w AND 1" by (simp only: unsigned_and_eq unsigned_1)
    then show "uint (w AND 1) = uint (0 :: byte)" by (simp only: u) (simp add: and_one_eq)
  qed
  show "drop_bit 2 (uint w AND 0xFC) = n mod 64" by (simp add: u drop_bit_and d c6)
  show o: "((w OR 1) OR f) AND 1 = 1" using assms(2) w1 by (auto simp: bit.conj_disj_distrib2)
  have "drop_bit 2 (uint f) = 0" using assms(2) by (auto simp: drop_bit_eq_div)
  then show "drop_bit 2 (uint ((w OR 1) OR f) AND 0xFC) = n mod 64"
    by (simp add: unsigned_or_eq u drop_bit_and drop_bit_or d c6)
  show "uint ((w OR 1) OR f) \<noteq> 60"
  proof
    assume "uint ((w OR 1) OR f) = 60"
    moreover have "uint (((w OR 1) OR f) AND 1) = uint ((w OR 1) OR f) AND 1" by (simp only: unsigned_and_eq unsigned_1)
    ultimately show False using o by (simp only: o) (simp add: and_one_eq)
  qed
qed

text \<open>
  C24. A time in a region of the time zone table keeps its instant and its region. When the driver sends the wall clock,
  the reading has to determine the instant, which it does not in the hour that a change of the clock repeats. When it
  sends the time in UTC, no reading is lost, but the codes 1295 and 5391 could not be told from UTC.
\<close>

theorem timestamptz_region_roundtrip:
  assumes "zoned_type d" and "well_formed t" and "writable_year (sent d t)"
    and "find_zone env (Location t) = n" and "0 < n" and "n < 8192"
    and "map_of (oracleZones env) n = Some name" and "LoadLocation env name = Some (Location t)"
    and "\<not> AsUTC d \<Longrightarrow> from_wall (Location t) (wall t) = t_sec t"
    and "AsUTC d \<Longrightarrow> n \<noteq> 1295 \<and> n \<noteq> 5391"
  shows "date_Value env (snd (date_SetValue env (DTime t) d)) = Ok (Some t)"
proof -
  define w z where "w = (word_of_int (drop_bit 6 (n AND 0x1FC0)) :: byte)" "z = (word_of_int (push_bit 2 (n AND 0x3F)) :: byte)"
  define f :: byte where "f = (if IsDST t then 2 else 0)"
  have n0: "0 \<le> n" using assms(5) by simp
  note hi = region_high [OF n0 assms(6), folded w_z_def]
  have f: "f \<in> {0, 2}" by (simp add: f_def)
  note lo = region_low [OF f, of n, folded w_z_def]
  have n: "64 * (n div 64) + n mod 64 = n" by simp
  have zb: "zone_bytes env t = (w OR 0x80, z)" using assms(4,5) by (simp add: zone_bytes_def w_z_def)
  have code: "push_bit 6 (n div 64) + n mod 64 = n" using n by (simp add: push_bit_eq_mult)
  show ?thesis
  proof (cases "AsUTC d")
    case True
    then have s: "sent d t = In UTC t" "sent_zone env d t = (w OR 0x80, z)" by (simp_all add: sent_def sent_zone_def zb)
    have "n div 64 mod 64 \<noteq> 20 \<or> 4 * (n mod 64) \<noteq> 60"
    proof (rule ccontr)
      assume c: "\<not> ?thesis"
      define q where "q = n div 64"
      have "0 \<le> q" "q < 128" "q mod 64 = 20" using n0 assms(6) zdiv_less [of 64 n 128] c
        by (auto simp: q_def pos_imp_zdiv_nonneg_iff)
      then have "q = 20 \<or> q = 84" by presburger
      then show False using n c assms(10) [OF True] by (auto simp: q_def [symmetric])
    qed
    then show ?thesis
      unfolding zoned_stored [OF assms(1)] s zoned_value [OF assms(1-3), unfolded s] fst_conv snd_conv
      using hi lo code assms(7,8) by (simp add: decode_zone_def nth_append Let_def wall_def In_def)
  next
    case False
    then have s: "sent d t = t" "sent_zone env d t = (w OR 0x80, (z OR 1) OR f)"
      using hi(2) by (simp_all add: sent_def sent_zone_def zb local_flags_def f_def)
    show ?thesis
      unfolding zoned_stored [OF assms(1)] s zoned_value [OF assms(1-3), unfolded s] fst_conv snd_conv
      using hi lo code assms(7,8) assms(9) [OF False] by (simp add: decode_zone_def nth_append Let_def)
  qed
qed

section \<open>Samples\<close>

definition sample_time :: go_time where
  "sample_time = \<lparr>t_sec = 63876000000, t_nsec = 500, Location = FixedZone (ascii ''IST'') 19800\<rparr>"

definition sample_region :: location where
  "sample_region = Loaded (ascii ''Africa/Cairo'') (\<lambda>_. \<lparr>z_name = ascii ''EET'', z_offset = 7200, z_start = 0, z_end = 10 ^ 12, z_dst = False\<rparr>)"

definition sample_env :: tz_env where
  "sample_env = \<lparr>oracleZones = [(44, ascii ''Africa/Cairo''), (5121, ascii ''UTC'')], LoadLocation = (\<lambda>_. Some sample_region), Now = 0\<rparr>"

lemma sample_year: "writable_year sample_time" "writable_year (sample_time\<lparr>Location := sample_region\<rparr>)" "well_formed sample_time"
  by (simp_all add: writable_year_def well_formed_def Year_def wall_def sample_time_def sample_region_def civil_def year_of_day_def
      days_before_year_def Let_def)

theorem date_roundtrip_witness:
  "date_Value sample_env (foldl (\<lambda>d t. snd (date_SetValue sample_env (DTime t) d)) (zero_date\<lparr>dataType := TIMESTAMP\<rparr>)
      [sample_time\<lparr>Location := sample_region\<rparr>, sample_time])
    = Ok (Some \<lparr>t_sec = 63876019800, t_nsec = 500, Location = UTC\<rparr>)"
proof -
  have "well_formed (sample_time\<lparr>Location := sample_region\<rparr>)" using sample_year(3) by (simp add: well_formed_def)
  then show ?thesis
    using date_roundtrip [of "zero_date\<lparr>dataType := TIMESTAMP\<rparr>" "[sample_time\<lparr>Location := sample_region\<rparr>, sample_time]" sample_env] sample_year
    by (simp add: zero_date_def wall_def sample_time_def)
qed


theorem timestamptz_region_roundtrip_witness:
  "date_Value sample_env (snd (date_SetValue sample_env (DTime (sample_time\<lparr>Location := sample_region\<rparr>)) (zero_date\<lparr>dataType := TIMESTAMPTZ\<rparr>)))
    = Ok (Some (sample_time\<lparr>Location := sample_region\<rparr>))"
proof (rule timestamptz_region_roundtrip [where n = 44 and name = "ascii ''Africa/Cairo''"])
  let ?t = "sample_time\<lparr>Location := sample_region\<rparr>"
  show "well_formed ?t" using sample_year(3) by (simp add: well_formed_def)
  show "writable_year (sent (zero_date\<lparr>dataType := TIMESTAMPTZ\<rparr>) ?t)" using sample_year(2) by (simp add: sent_def zero_date_def)
  show "find_zone sample_env (Location ?t) = 44"
    by (simp add: find_zone_def sample_env_def sample_region_def)
  show "from_wall (Location ?t) (wall ?t) = t_sec ?t"
    by (simp add: wall_def sample_time_def sample_region_def)
qed (simp_all add: zoned_type_def sample_env_def zero_date_def)

section \<open>Intervals\<close>

lemma month_step: "2 \<le> m \<Longrightarrow> m \<le> 12 \<Longrightarrow> days_before_month lp m = days_before_month lp (m - 1) + month_days lp (m - 1)"
proof -
  assume "2 \<le> m" "m \<le> 12"
  then have "1 \<le> m" "m \<le> 12" "m \<noteq> 1" by simp_all
  then show ?thesis by (cases rule: month_cases) (simp_all add: days_before_month_def month_starts_def month_days_def)
qed

text \<open>The day before the first of a month, as \<open>time.Date\<close> takes a day 0.\<close>

lemma last_of_previous:
  assumes "2 \<le> m" and "m \<le> 12"
  shows "civil (day_number y m 0) = (y, m - 1, month_days (leap y) (m - 1))"
proof -
  have "day_number y m 0 = day_number y (m - 1) (month_days (leap y) (m - 1))"
    using month_step [OF assms, of "leap y"] by (simp add: day_number_def)
  moreover have "valid_date y (m - 1) (month_days (leap y) (m - 1))"
    using assms by (auto simp: valid_date_def month_days_def)
  ultimately show ?thesis using civil_day_number by simp
qed

lemma Date_UTC_fields:
  assumes "1 \<le> month" and "month \<le> 12"
  shows "civil (wall (Date year month day 0 0 0 0 UTC) div 86400) = civil (day_number year (nat month) day)"
proof -
  have "(month - 1) div 12 = 0" "(month - 1) mod 12 = month - 1" "Suc (nat (month - 1)) = nat month" using assms by auto
  then show ?thesis by (simp add: Date_def wall_def wall_of_def)
qed

lemma uint_u32: "0 \<le> x \<Longrightarrow> x < 2 ^ 32 \<Longrightarrow> uint (word_of_int x :: u32) = x"
  by (simp add: unsigned_of_int take_bit_int_eq_self)

lemma be_dec_offset:
  assumes "- (2 ^ 31) \<le> x" and "x < 2 ^ 31"
  shows "int (be_dec (offset_u32 x)) - 0x80000000 = x"
proof -
  have u: "uint (word_of_int (x + 0x80000000) :: u32) = x + 0x80000000"
    by (rule uint_u32) (use assms in simp_all)
  then have "unat (word_of_int (x + 0x80000000) :: u32) = nat (x + 0x80000000)" by (simp only: unat_eq_nat_uint)
  moreover have "nat (x + 0x80000000) < 4294967296" using assms by (simp add: nat_less_iff)
  ultimately show ?thesis using assms unfolding offset_u32_def be_dec_enc by simp
qed

lemma length_offset [simp]: "length (offset_u32 x) = 4"
  by (simp add: offset_u32_def)

lemma slice_offset: "slice 0 4 (offset_u32 x @ rest) = offset_u32 x"
  by (simp add: slice_def)

lemma uint_u8_60: "0 \<le> x \<Longrightarrow> x < 196 \<Longrightarrow> uint (u8 (x + 60) - 60) = x"
  using uint_u8 [of x] by simp

text \<open>
  A year-month interval loses a month whenever it is set from a time and read back: the constructor and the
  decoder both take a day 0, which \<^verbatim>\<open>time.Date\<close> turns into the last day of the month before. The interval of
  \<open>month\<close> months, from 2 to 12, is sent to the server as \<open>month - 1\<close> months and read back as \<open>month - 2\<close> months.
\<close>

theorem year_month_interval_loses_month:
  assumes "- (2 ^ 31) \<le> year" and "year < 2 ^ 31" and "2 \<le> month" and "month \<le> 12"
  shows "\<exists>i. NewYearMonthInterval year month = Some (Ok (), i) \<and> bValue i = Some (offset_u32 year @ [u8 (month - 1 + 60)])
    \<and> interval_Value i = Ok (Some (Date year (month - 1) 0 0 0 0 0 UTC))
    \<and> (3 \<le> month \<longrightarrow> Year (Date year (month - 1) 0 0 0 0 0 UTC) = year \<and> Month (Date year (month - 1) 0 0 0 0 0 UTC) = month - 2)"
proof -
  let ?t = "\<lambda>m. Date year m 0 0 0 0 0 UTC"
  have ym: "Year (?t m) = year \<and> Month (?t m) = m - 1" if "2 \<le> m" "m \<le> 12" for m
    using that last_of_previous [of "nat m" year] Date_UTC_fields [of m year 0]
    by (auto simp: Year_def Month_def)
  define i where "i = \<lparr>bValue = Some (offset_u32 year @ [u8 (month - 1 + 60)]), dataType = INTERVALYM_DTY\<rparr>"
  have e: "NewYearMonthInterval year month = Some (Ok (), i)"
    using ym [OF assms(3,4)] by (simp add: NewYearMonthInterval_def interval_SetValue_def interval_encode.simps i_def)
  have "interval_Value i = Ok (Some (?t (month - 1)))"
    using assms(3,4) uint_u8_60 [of "month - 1"] be_dec_offset [OF assms(1,2)]
    by (simp add: interval_Value_def i_def slice_bytes_def slice_offset nth_append Let_def)
  moreover have "Year (?t (month - 1)) = year \<and> Month (?t (month - 1)) = month - 2" if "3 \<le> month"
    using ym [of "month - 1"] that assms(4) by simp
  ultimately show ?thesis using e by (auto simp: i_def)
qed

theorem year_month_interval_loses_month_witness:
  "\<exists>i. NewYearMonthInterval 1 6 = Some (Ok (), i) \<and> bValue i = Some [128, 0, 0, 1, 65] \<and> interval_Value i = Ok (Some (Date 1 5 0 0 0 0 0 UTC))"
  using year_month_interval_loses_month [of 1 6] by (auto simp: offset_u32_def be_enc_numeral)

text \<open>
  An interval without a type that is set from a time always becomes a year-month interval, since no month is 0; and one
  with any type other than the two interval types makes \<^verbatim>\<open>encode\<close> call itself for ever, because \<^verbatim>\<open>SetDataType\<close>
  does not replace a type.
\<close>

theorem interval_encode_other_types:
  assumes "dataType i \<noteq> INTERVALYM_DTY" and "dataType i \<noteq> INTERVALDS_DTY"
  shows "interval_encode t i = (if dataType i = 0
    then Some (Ok (), \<lparr>bValue = Some (offset_u32 (Year t) @ [u8 (Month t + 60)]), dataType = INTERVALYM_DTY\<rparr>) else None)"
proof (cases "dataType i = 0")
  case True
  have "Month t \<noteq> 0" using civil_fields(3) [of t] by simp
  then show ?thesis
    using True assms by (subst interval_encode.simps) (simp add: SetDataType_def interval_encode.simps)
next
  case False
  have "dataType j \<in> {0, INTERVALYM_DTY, INTERVALDS_DTY}" if "interval_encode t j = Some r" for j r
  proof (rule interval_encode.raw_induct [OF _ that])
    fix enc and u :: go_time and j :: interval and r
    assume ih: "\<And>u j r. enc u j = Some r \<Longrightarrow> dataType j \<in> {0, INTERVALYM_DTY, INTERVALDS_DTY}"
      and body: "(if dataType j = INTERVALYM_DTY then Some (Ok (), j\<lparr>bValue := Some (offset_u32 (Year u) @ [u8 (Month u + 60)])\<rparr>)
        else if dataType j = INTERVALDS_DTY then Some (Ok (), j\<lparr>bValue := Some (offset_u32 (Day u) @
          [u8 (Hour u + 60), u8 (Minute u + 60), u8 (Second u + 60)] @ offset_u32 (Nanosecond u sdiv 1000))\<rparr>)
        else if Year u \<noteq> 0 \<or> Month u \<noteq> 0 then enc u (SetDataType INTERVALYM_DTY j)
        else enc u (SetDataType INTERVALDS_DTY j)) = Some r"
    show "dataType j \<in> {0, INTERVALYM_DTY, INTERVALDS_DTY}"
      using body ih [of u j r] by (cases "dataType j = 0") (auto simp: SetDataType_def split: if_splits)
  qed
  then show ?thesis using False assms by (cases "interval_encode t i") auto
qed

theorem interval_encode_other_types_witness:
  "interval_encode sample_time \<lparr>bValue = None, dataType = 189\<rparr> = None"
  using interval_encode_other_types [of "\<lparr>bValue = None, dataType = 189\<rparr>" sample_time] by (simp add: date_types)

text \<open>The fields of the time that stands for a day-second interval, a day of December of the year -1.\<close>

lemma Date_day_second:
  fixes day :: int
  assumes "0 \<le> h" "h < 24" "0 \<le> m" "m < 60" "0 \<le> s" "s < 60" "0 \<le> ns" "ns < 1000000000"
  defines "t \<equiv> Date 0 0 day h m s ns UTC"
  shows "Hour t = h" "Minute t = m" "Second t = s" "Nanosecond t = ns" "Day t = snd (snd (civil (day_number (- 1) 12 day)))"
proof -
  let ?D = "day_number (- 1) 12 day"
  have w: "wall t = 86400 * ?D + (3600 * h + 60 * m + s)" using assms(7,8) by (simp add: t_def Date_def wall_def wall_of_def)
  have r: "0 \<le> 3600 * h + 60 * m + s" "3600 * h + 60 * m + s < 86400" using assms by linarith+
  have D: "wall t mod 86400 = 3600 * h + 60 * m + s" "wall t div 86400 = ?D"
    unfolding w using r by simp_all
  have e: "3600 * Hour t + 60 * Minute t + Second t = 3600 * h + 60 * m + s" using clock_fields(7) [of t] D(1) by simp
  note c = clock_fields(1-6) [of t]
  show H: "Hour t = h" by (rule antisym; rule ccontr) (use e c assms in linarith)+
  show M: "Minute t = m" by (rule antisym; rule ccontr) (use e H c assms in linarith)+
  show "Second t = s" using e H M by simp
  show "Day t = snd (snd (civil ?D))" using D(2) by (simp add: Day_def)
  show "Nanosecond t = ns" using assms(7,8) by (simp add: Nanosecond_def t_def Date_def)
qed

lemma december_days:
  "1 \<le> day \<Longrightarrow> day \<le> 31 \<Longrightarrow> snd (snd (civil (day_number (- 1) 12 day))) = day"
  "32 \<le> day \<Longrightarrow> day \<le> 62 \<Longrightarrow> snd (snd (civil (day_number (- 1) 12 day))) = day - 31"
proof -
  assume "1 \<le> day" "day \<le> 31"
  then show "snd (snd (civil (day_number (- 1) 12 day))) = day"
    using civil_day_number [of "- 1" 12 day] by (simp add: valid_date_def month_days_def)
next
  assume "32 \<le> day" "day \<le> 62"
  moreover have "day_number (- 1) 12 day = day_number 0 1 (day - 31)"
    by (simp add: day_number_def days_before_year_def days_before_month_def month_starts_def leap_def)
  ultimately show "snd (snd (civil (day_number (- 1) 12 day))) = day - 31"
    using civil_day_number [of 0 1 "day - 31"] by (simp add: valid_date_def month_days_def)
qed

text \<open>
  A day-second interval of 1 to 31 days with a whole number of microseconds is read back as it was set; one of 32 to 62
  days has lost 31 days, because its days are kept as a day of December.
\<close>

theorem day_second_interval_roundtrip:
  assumes "1 \<le> day" and "day \<le> 62" and "0 \<le> h" and "h < 24" and "0 \<le> m" and "m < 60" and "0 \<le> s" and "s < 60"
    and "0 \<le> us" and "us < 1000000"
  shows "\<exists>i. NewDaySecondInterval day h m s (us * 1000) = Some (Ok (), i)
    \<and> interval_Value i = Ok (Some (Date 0 0 (if day \<le> 31 then day else day - 31) h m s (us * 1000) UTC))"
proof -
  define dd where "dd = (if day \<le> 31 then day else day - 31)"
  have ns: "0 \<le> us * 1000" "us * 1000 < 1000000000" using assms(9,10) by simp_all
  note f = Date_day_second [OF assms(3-8) ns, of day]
  have day: "Day (Date 0 0 day h m s (us * 1000) UTC) = dd" using f(5) december_days [of day] assms(1,2) by (auto simp: dd_def)
  have "us * 1000 sdiv 1000 = us" using assms(9) sdiv_cases(1) [of 1000 "us * 1000"] by simp
  then have e: "NewDaySecondInterval day h m s (us * 1000) = Some (Ok (), \<lparr>bValue = Some (offset_u32 dd @ [u8 (h + 60), u8 (m + 60), u8 (s + 60)]
      @ offset_u32 us), dataType = INTERVALDS_DTY\<rparr>)" (is "_ = Some (_, ?i)")
    using f day by (simp add: NewDaySecondInterval_def interval_SetValue_def interval_encode.simps date_types)
  have "slice 7 11 (offset_u32 dd @ [x, y, z] @ offset_u32 us) = offset_u32 us" for x y z by (simp add: slice_def)
  moreover have "- (2 ^ 31) \<le> dd" "dd < 2 ^ 31" using assms(1,2) by (auto simp: dd_def)
  ultimately have "interval_Value ?i = Ok (Some (Date 0 0 dd h m s (us * 1000) UTC))"
    using uint_u8_60 [of h] uint_u8_60 [of m] uint_u8_60 [of s] assms be_dec_offset [of dd] be_dec_offset [of us]
    by (simp add: interval_Value_def slice_bytes_def slice_offset nth_append Let_def date_types)
  with e show ?thesis unfolding dd_def by blast
qed

theorem day_second_interval_roundtrip_witness:
  "\<exists>i. NewDaySecondInterval 40 1 2 3 4000 = Some (Ok (), i) \<and> interval_Value i = Ok (Some (Date 0 0 9 1 2 3 4000 UTC))"
  using day_second_interval_roundtrip [of 40 1 2 3 4] by simp

end
