(* ===== verification/Oracle_Values.thy ===== *)
theory Oracle_Values
  imports Oracle_Number
begin

text \<open>
  The smaller value types of \<^verbatim>\<open>v3/types\<close>: row identifiers, booleans, raw bytes and the flags of LOB locators.
\<close>

section \<open>Row identifiers\<close>

definition ROWID :: u16 where "ROWID = 11"
definition UROWID :: u16 where "UROWID = 208"

record rowid = number +
  Rba :: int
  PartitionID :: int
  rid_filter :: byte
  BlockNumber :: int
  SlotNumber :: int

text \<open>The 64 characters.\<close>

definition rowid_chars :: "byte list" where
  "rowid_chars = ascii ''ABCDEFGHIJKLMNOPQRSTUVWXYZabcdefghijklmnopqrstuvwxyz0123456789+/''"

text \<open>The last character is written first; a negative number is shifted with a correction of 26 bits.\<close>

primrec convertRowIDToByte :: "int \<Rightarrow> nat \<Rightarrow> byte list" where
  "convertRowIDToByte number 0 = []"
| "convertRowIDToByte number (Suc x) =
     convertRowIDToByte (if number \<ge> 0 then drop_bit 6 number else drop_bit 6 number + 2 * 2 ^ 25) x
     @ [rowid_chars ! nat (number AND 0x3F)]"

definition rowid_decode :: "rowid \<Rightarrow> byte list" where
  "rowid_decode r = convertRowIDToByte (Rba r) 6 @ convertRowIDToByte (PartitionID r) 3
     @ convertRowIDToByte (BlockNumber r) 6 @ convertRowIDToByte (SlotNumber r) 3"

text \<open>\<open>%0nX\<close> of a number that fits the width.\<close>

definition hex_chars :: "byte list" where
  "hex_chars = ascii ''0123456789ABCDEF''"

primrec hex_text :: "nat \<Rightarrow> int \<Rightarrow> byte list" where
  "hex_text 0 n = []"
| "hex_text (Suc w) n = hex_text w (n div 16) @ [hex_chars ! nat (n mod 16)]"

text \<open>Slices of \<open>data\<close> may run into its capacity, \<open>spare\<close>.\<close>

definition uint_slice :: "nat \<Rightarrow> nat \<Rightarrow> byte list \<Rightarrow> int res" where
  "uint_slice i j xs = rbind (slice_at i j xs) (\<lambda>bs. Ok (int (be_dec bs)))"

definition physicalRawIDToByteArray :: "byte list \<Rightarrow> byte list \<Rightarrow> rowid \<Rightarrow> byte list res" where
  "physicalRawIDToByteArray spare data r =
     rbind (uint_slice 1 5 (data @ spare)) (\<lambda>rba.
     rbind (uint_slice 5 7 (data @ spare)) (\<lambda>part.
     rbind (uint_slice 7 11 (data @ spare)) (\<lambda>block.
     rbind (uint_slice 11 13 (data @ spare)) (\<lambda>slot.
       Ok (if rba = 0 then hex_text 8 block @ [46] @ hex_text 4 slot @ [46] @ hex_text 4 part
           else rowid_decode (r\<lparr>Rba := rba, PartitionID := part, BlockNumber := block, SlotNumber := slot\<rparr>))))))"

definition indbyte_chars :: "byte list" where
  "indbyte_chars = [65, 42, 45, 40, 41]"

definition set_at :: "nat \<Rightarrow> byte \<Rightarrow> byte list \<Rightarrow> byte list res" where
  "set_at i b out = (if i < length out then Ok (out[i := b]) else Panic)"

text \<open>
  One pass of the loop writes two to four characters from \<open>dstIndex\<close> on and then moves on by three, over the last one
  of the four.
\<close>

function logical_loop :: "byte list \<Rightarrow> nat \<Rightarrow> byte list \<Rightarrow> byte list res" where
  "logical_loop data dst out = (case data of
     [] \<Rightarrow> Ok out
   | [a] \<Rightarrow> rbind (set_at dst (rowid_chars ! unat (drop_bit 2 a)) out) (\<lambda>out.
            set_at (dst + 1) (rowid_chars ! unat (push_bit 4 (a AND 3))) out)
   | [a, b] \<Rightarrow> rbind (set_at dst (rowid_chars ! unat (drop_bit 2 a)) out) (\<lambda>out.
            rbind (set_at (dst + 1) (rowid_chars ! unat (push_bit 4 (a AND 3) OR drop_bit 4 (b AND 0xF0))) out) (\<lambda>out.
            set_at (dst + 2) (rowid_chars ! unat (push_bit 2 (b AND 0xF))) out))
   | a # b # c # rest \<Rightarrow> rbind (set_at dst (rowid_chars ! unat (drop_bit 2 a)) out) (\<lambda>out.
            rbind (set_at (dst + 1) (rowid_chars ! unat (push_bit 4 (a AND 3) OR drop_bit 4 (b AND 0xF0))) out) (\<lambda>out.
            rbind (set_at (dst + 2) (rowid_chars ! unat (push_bit 2 (b AND 0xF) OR drop_bit 6 (c AND 0xC0))) out) (\<lambda>out.
            rbind (set_at (dst + 3) (rowid_chars ! unat (c AND 63)) out) (\<lambda>out.
              logical_loop rest (dst + 3) out)))))"
  by pat_completeness auto
termination by (relation "measure (\<lambda>(data, dst, out). length data)") auto

declare logical_loop.simps [simp del]

definition logical_length :: "nat \<Rightarrow> nat" where
  "logical_length n = n div 3 * 4 + (if n mod 3 > 1 then 3 else n mod 3)"

definition logicalRawIDToByteArray :: "byte list \<Rightarrow> byte list res" where
  "logicalRawIDToByteArray data =
     (if logical_length (length data) = 0 then Ok []
      else let i = unat (hd data - 1)
           in if i \<ge> length indbyte_chars then Panic
              else rbind (set_at 1 (indbyte_chars ! i) (replicate (logical_length (length data)) 0)) (\<lambda>out.
                logical_loop (tl data) 2 out))"

definition rowid_SetValue :: "rowid \<Rightarrow> unit res" where
  "rowid_SetValue r = Err ServerOnly"

definition rowid_Value :: "byte list \<Rightarrow> rowid \<Rightarrow> byte list res" where
  "rowid_Value spare r =
     (let b = slice_bytes (bValue r)
      in if dataType r = ROWID then Ok (rowid_decode r)
         else if dataType r = UROWID then
           if b \<noteq> [] \<and> hd b = 1 then physicalRawIDToByteArray spare b r else logicalRawIDToByteArray b
         else Err ServerOnly)"

section \<open>Booleans\<close>

text \<open>A pointer counts as what it points to.\<close>

datatype bool_input =
    BNil
  | BBool number
  | BValue bool
  | BOther

definition bool_SetValue :: "bool_input \<Rightarrow> number \<Rightarrow> unit res \<times> number" where
  "bool_SetValue input b = (case input of
     BNil \<Rightarrow> (Ok (), b\<lparr>bValue := None\<rparr>)
   | BBool v \<Rightarrow> (Ok (), v)
   | BValue v \<Rightarrow> (Ok (), b\<lparr>bValue := Some [1, if v then 1 else 0]\<rparr>)
   | BOther \<Rightarrow> (Err UnsupportedType, b))"

definition bool_Value :: "number \<Rightarrow> bool option" where
  "bool_Value b = (case bValue b of None \<Rightarrow> None | Some bs \<Rightarrow> Some (bs = [1, 1]))"

definition bool_Scan :: "bool_input \<Rightarrow> number \<Rightarrow> unit res \<times> number" where
  "bool_Scan input b = bool_SetValue input b"

datatype bool_dest = PBool number | PGoBool bool | PNullBool bool bool | PGoInt int | PGoText "byte list" | PNoBool

text \<open>A \<open>sql.NullBool\<close> that becomes invalid keeps its boolean.\<close>

definition bool_CopyTo :: "number \<Rightarrow> bool_dest \<Rightarrow> bool_dest res" where
  "bool_CopyTo b dest = (let val = bool_Value b in case dest of
     PBool _ \<Rightarrow> Ok (PBool b)
   | PGoBool _ \<Rightarrow> Ok (PGoBool (case val of None \<Rightarrow> False | Some v \<Rightarrow> v))
   | PNullBool old _ \<Rightarrow> Ok (case val of None \<Rightarrow> PNullBool old False | Some v \<Rightarrow> PNullBool v True)
   | PGoInt _ \<Rightarrow> Ok (PGoInt (if val = Some True then 1 else 0))
   | PGoText _ \<Rightarrow> Ok (PGoText (if val = Some True then ascii ''true'' else ascii ''false''))
   | PNoBool \<Rightarrow> Err UnsupportedType)"

section \<open>Raw bytes\<close>

datatype raw_input =
    RNil
  | RBytes nslice
  | RText "byte list"
  | ROther

definition raw_SetValue :: "raw_input \<Rightarrow> number \<Rightarrow> unit res \<times> number" where
  "raw_SetValue input r = (case input of
     RNil \<Rightarrow> (Ok (), r\<lparr>bValue := None\<rparr>)
   | RBytes data \<Rightarrow> (Ok (), r\<lparr>bValue := data\<rparr>)
   | RText data \<Rightarrow> (Ok (), r\<lparr>bValue := Some data\<rparr>)
   | ROther \<Rightarrow> (Err UnsupportedType, r))"

definition raw_Value :: "number \<Rightarrow> nslice" where
  "raw_Value r = bValue r"

definition raw_Scan :: "raw_input \<Rightarrow> number \<Rightarrow> unit res \<times> number" where
  "raw_Scan input r = raw_SetValue input r"

datatype raw_dest = PRawBytes nslice | PRawText "byte list" | PRawNull "byte list option" | PRaw number | PNoRaw

definition raw_CopyTo :: "number \<Rightarrow> raw_dest \<Rightarrow> raw_dest res" where
  "raw_CopyTo r dest = (case dest of
     PRawBytes _ \<Rightarrow> Ok (PRawBytes (bValue r))
   | PRawText _ \<Rightarrow> Ok (PRawText (slice_bytes (bValue r)))
   | PRawNull _ \<Rightarrow> Ok (PRawNull (bValue r))
   | PRaw _ \<Rightarrow> Ok (PRaw r)
   | PNoRaw \<Rightarrow> Err UnsupportedType)"

section \<open>LOB locators\<close>

definition NewQuasiLocator :: "u64 \<Rightarrow> byte list" where
  "NewQuasiLocator dataLen = [0, 38, 0, 4, 97, 8, 0, 0, 0, 1] @ be_enc 8 (unat dataLen) @ replicate 22 0"

definition loc_flag :: "byte list \<Rightarrow> nat \<Rightarrow> byte \<Rightarrow> bool" where
  "loc_flag l i m \<longleftrightarrow> length l > i \<and> l ! i AND m = m"

definition IsQuasi :: "byte list \<Rightarrow> bool" where
  "IsQuasi l \<longleftrightarrow> length l > 3 \<and> l ! 3 = 4"

definition IsValueBased :: "byte list \<Rightarrow> bool" where
  "IsValueBased l = loc_flag l 4 0x20"

definition IsTemporary :: "byte list \<Rightarrow> bool" where
  "IsTemporary l \<longleftrightarrow> loc_flag l 7 1 \<or> loc_flag l 4 0x40 \<or> IsValueBased l"

definition IsVarWidthChar :: "byte list \<Rightarrow> bool" where
  "IsVarWidthChar l = loc_flag l 6 0x80"

definition IsLittleEndian :: "byte list \<Rightarrow> bool" where
  "IsLittleEndian l = loc_flag l 7 0x40"

definition IsReadOnly :: "byte list \<Rightarrow> bool" where
  "IsReadOnly l = loc_flag l 6 1"

end
