(* ===== verification/Oracle_Values_Props.thy ===== *)
theory Oracle_Values_Props
  imports Oracle_Values Value_Cell
begin

text \<open>
  Row identifiers: the text of a physical one is its four numbers in base 64; the text of a logical one is not a faithful
  encoding of its bytes.
\<close>

section \<open>Physical row identifiers\<close>

definition char_value :: "byte \<Rightarrow> int" where
  "char_value c = int (length (takeWhile (\<lambda>x. x \<noteq> c) rowid_chars))"

definition base64_value :: "byte list \<Rightarrow> int" where
  "base64_value s = foldl (\<lambda>v c. 64 * v + char_value c) 0 s"

lemma takeWhile_nth: "distinct xs \<Longrightarrow> i < length xs \<Longrightarrow> length (takeWhile (\<lambda>x. x \<noteq> xs ! i) xs) = i"
  by (subst takeWhile_eq_take_P_nth [of i]) (auto simp: nth_eq_iff_index_eq)

lemma rowid_chars_64: "length rowid_chars = 64" "distinct rowid_chars"
  by (simp_all add: rowid_chars_def ascii_def)

lemma char_value_nth: "0 \<le> i \<Longrightarrow> i < 64 \<Longrightarrow> char_value (rowid_chars ! nat i) = i"
  using takeWhile_nth [of rowid_chars "nat i"] by (simp add: char_value_def rowid_chars_64)

lemma low_six: "n AND 0x3F = n mod 64" for n :: int
proof -
  have m: "(0x3F :: int) = mask 6" by (simp add: mask_eq_exp_minus_1)
  show ?thesis by (simp add: m take_bit_eq_mask [symmetric] take_bit_eq_mod)
qed

lemma convertRowIDToByte_value:
  "0 \<le> n \<Longrightarrow> base64_value (convertRowIDToByte n w) = n mod 64 ^ w \<and> length (convertRowIDToByte n w) = w"
proof (induction w arbitrary: n)
  case 0
  then show ?case by (simp add: base64_value_def)
next
  case (Suc w)
  have d: "drop_bit 6 n = n div 64" by (simp add: drop_bit_eq_div)
  have ih: "base64_value (convertRowIDToByte (n div 64) w) = n div 64 mod 64 ^ w" "length (convertRowIDToByte (n div 64) w) = w"
    using Suc.IH [of "n div 64"] Suc.prems by (simp_all add: pos_imp_zdiv_nonneg_iff)
  have c: "char_value (rowid_chars ! nat (n mod 64)) = n mod 64" by (rule char_value_nth) simp_all
  have "base64_value (convertRowIDToByte n (Suc w)) = 64 * (n div 64 mod 64 ^ w) + n mod 64"
    using Suc.prems ih(1) c by (simp add: d low_six base64_value_def)
  also have "\<dots> = n mod 64 ^ Suc w" by (simp add: zmod_zmult2_eq)
  finally show ?case using Suc.prems ih(2) by (simp add: d)
qed

text \<open>
  The text of a physical row identifier has 18 characters, from which the four numbers in its bytes are read back in
  base 64: the data object, the file, the block and the row.
\<close>

theorem physical_rowid_text:
  assumes "rba < 2 ^ 32" and "part < 2 ^ 16" and "block < 2 ^ 32" and "slot < 2 ^ 16" and "0 < rba" and "dataType r = UROWID"
    and "bValue r = Some (1 # be_enc 4 rba @ be_enc 2 part @ be_enc 4 block @ be_enc 2 slot)"
  shows "\<exists>s. rowid_Value spare r = Ok s \<and> length s = 18 \<and> base64_value (take 6 s) = int rba
    \<and> base64_value (take 3 (drop 6 s)) = int part \<and> base64_value (take 6 (drop 9 s)) = int block
    \<and> base64_value (drop 15 s) = int slot"
proof -
  let ?d = "1 # be_enc 4 rba @ be_enc 2 part @ be_enc 4 block @ be_enc 2 slot"
  have u: "uint_slice 1 5 (?d @ spare) = Ok (int rba)" "uint_slice 5 7 (?d @ spare) = Ok (int part)"
      "uint_slice 7 11 (?d @ spare) = Ok (int block)" "uint_slice 11 13 (?d @ spare) = Ok (int slot)"
    using assms(1-4) by (simp_all add: uint_slice_def slice_at_def slice_def be_dec_enc drop_Cons')
  define s where "s = convertRowIDToByte (int rba) 6 @ convertRowIDToByte (int part) 3 @ convertRowIDToByte (int block) 6
    @ convertRowIDToByte (int slot) 3"
  have "rowid_Value spare r = Ok s"
    using assms(5-7) u by (simp add: rowid_Value_def slice_bytes_def ROWID_def UROWID_def physicalRawIDToByteArray_def rowid_decode_def s_def)
  moreover have "base64_value (convertRowIDToByte (int rba) 6) = int rba" "base64_value (convertRowIDToByte (int part) 3) = int part"
      "base64_value (convertRowIDToByte (int block) 6) = int block" "base64_value (convertRowIDToByte (int slot) 3) = int slot"
    using assms(1-4) convertRowIDToByte_value [of "int rba" 6] convertRowIDToByte_value [of "int part" 3]
      convertRowIDToByte_value [of "int block" 6] convertRowIDToByte_value [of "int slot" 3] by simp_all
  moreover have "length (convertRowIDToByte (int n) w) = w" for n w using convertRowIDToByte_value [of "int n" w] by simp
  ultimately show ?thesis by (simp add: s_def)
qed

definition sample_rowid :: rowid where
  "sample_rowid = \<lparr>bValue = Some (1 # be_enc 4 73000 @ be_enc 2 4 @ be_enc 4 131 @ be_enc 2 7), dataType = UROWID,
     Rba = 0, PartitionID = 0, rid_filter = 0, BlockNumber = 0, SlotNumber = 0\<rparr>"

theorem physical_rowid_text_witness:
  "\<exists>s. rowid_Value [] sample_rowid = Ok s \<and> length s = 18 \<and> base64_value (take 6 s) = 73000"
  using physical_rowid_text [of 73000 4 131 7 sample_rowid "[]"] by (auto simp: sample_rowid_def)

section \<open>Logical row identifiers\<close>

lemma set_at_twice: "rbind (set_at i x out) (\<lambda>out. set_at i y out) = set_at i y out"
  by (simp add: set_at_def)

lemma logical_loop_start:
  assumes "rest \<noteq> []" and "i < length out"
  shows "logical_loop rest i (out[i := x]) = logical_loop rest i out"
  using assms by (subst (1 2) logical_loop.simps) (auto simp: set_at_def split: list.splits)

lemma logical_length_min: "5 \<le> n \<Longrightarrow> 7 \<le> logical_length n"
  unfolding logical_length_def by presburger

lemma list4_cases:
  obtains "xs = []" | a where "xs = [a]" | a b where "xs = [a, b]" | a b c where "xs = [a, b, c]" | a b c d zs where "xs = a # b # c # d # zs"
  by (metis list.exhaust)

text \<open>
  Logical row identifiers are not written faithfully. Those of one to four bytes make the encoder panic, because the text
  they are given room for is too short by the characters that are skipped; of longer ones every fourth character is
  overwritten by the next, so that identifiers that differ in the low six bits of the fourth byte get the same text.
\<close>

theorem logical_rowid_unfaithful:
  "(1 \<le> length data \<and> length data \<le> 4 \<longrightarrow> logicalRawIDToByteArray data = Panic)
   \<and> (rest \<noteq> [] \<and> c AND 0xC0 = c' AND 0xC0 \<longrightarrow>
     logicalRawIDToByteArray (k # a # b # c # rest) = logicalRawIDToByteArray (k # a # b # c' # rest))"
proof (intro conjI impI)
  assume l: "1 \<le> length data \<and> length data \<le> 4"
  then consider k1 where "data = [k1]" | k1 a1 where "data = [k1, a1]" | k1 a1 b1 where "data = [k1, a1, b1]"
      | k1 a1 b1 c1 where "data = [k1, a1, b1, c1]"
    by (cases data rule: list4_cases) auto
  then show "logicalRawIDToByteArray data = Panic"
    by cases (simp_all add: logicalRawIDToByteArray_def logical_length_def set_at_def logical_loop.simps Let_def)
next
  assume c: "rest \<noteq> [] \<and> c AND 0xC0 = c' AND 0xC0"
  define L where "L = logical_length (length (k # a # b # c # rest))"
  have "5 \<le> length (k # a # b # c # rest)" using c by (cases rest) auto
  then have "7 \<le> L" unfolding L_def by (rule logical_length_min)
  have "logical_loop (a # b # c # rest) 2 out = logical_loop (a # b # c' # rest) 2 out" if "length out = L" for out
  proof -
    have e: "rbind (set_at 5 x out') (logical_loop rest 5) = logical_loop rest 5 out'" if "length out' = L" for x out'
      using that \<open>7 \<le> L\<close> c logical_loop_start [of rest 5 out' x] by (simp add: set_at_def)
    have "drop_bit 6 (c AND 0xC0) = drop_bit 6 (c' AND 0xC0)" by (simp only: conjunct2 [OF c])
    then have "drop_bit 6 c AND 3 = drop_bit 6 c' AND 3" by (simp add: drop_bit_and)
    then show ?thesis
      using c e that \<open>7 \<le> L\<close> by (subst (1 2) logical_loop.simps) (simp add: set_at_def)
  qed
  then show "logicalRawIDToByteArray (k # a # b # c # rest) = logicalRawIDToByteArray (k # a # b # c' # rest)"
    by (simp add: logicalRawIDToByteArray_def Let_def set_at_def L_def)
qed

theorem logical_rowid_unfaithful_witness:
  "logicalRawIDToByteArray [2, 1, 2] = Panic \<and> logicalRawIDToByteArray [2, 1, 2, 3, 4] = logicalRawIDToByteArray [2, 1, 2, 60, 4]"
  using logical_rowid_unfaithful [of "[2, 1, 2]" "[4]" 3 60 2 1 2] by simp

section \<open>Booleans and raw bytes\<close>

interpretation boolean: value_cell bool_SetValue "\<lambda>b. Ok (bool_Value b)" "\<lambda>_. True" "\<lambda>x. x = BNil \<or> (\<exists>v. x = BValue v)"
  "\<lambda>x. case x of BValue v \<Rightarrow> Some v | _ \<Rightarrow> None"
  by unfold_locales (auto simp: bool_SetValue_def bool_Value_def)

interpretation raw: value_cell raw_SetValue "\<lambda>r. Ok (raw_Value r)" "\<lambda>_. True" "\<lambda>x. x \<noteq> ROther"
  "\<lambda>x. case x of RBytes data \<Rightarrow> data | RText data \<Rightarrow> Some data | _ \<Rightarrow> None"
  by unfold_locales (auto simp: raw_SetValue_def raw_Value_def split: raw_input.splits)

lemma bool_CopyTo_last_set:
  assumes "vs \<noteq> []"
  shows "bool_CopyTo (foldl (\<lambda>b v. snd (bool_SetValue v b)) b (map BValue vs)) (PGoBool old) = Ok (PGoBool (last vs))"
  using boolean.last_set_wins [of "map BValue vs" b] assms by (simp add: bool_CopyTo_def list_all_iff last_map)

end
