(* ===== verification/Go_Unicode.thy ===== *)
theory Go_Unicode
  imports Go_Prelude
begin

text \<open>
  The conversions between Go strings, runes and UTF-16 code units that the string converters call:
  \<^verbatim>\<open>[]rune(s)\<close>, \<^verbatim>\<open>string(runes)\<close>, \<^verbatim>\<open>utf16.Encode\<close> and \<^verbatim>\<open>utf16.Decode\<close>. A Go string is its
  bytes, valid UTF-8 or not; a rune is a code point. Malformed input is replaced by U+FFFD, one
  replacement for each byte (UTF-8) or unit (UTF-16) that does not start a valid sequence.
\<close>

type_synonym gostr = "byte list"
type_synonym rune = nat

definition rune_error :: rune where
  "rune_error = 0xFFFD"

definition valid_rune :: "rune \<Rightarrow> bool" where
  "valid_rune r \<longleftrightarrow> r < 0xD800 \<or> 0xE000 \<le> r \<and> r \<le> 0x10FFFF"

section \<open>UTF-8\<close>

text \<open>\<^verbatim>\<open>utf8.AppendRune\<close>\<close>

definition utf8_rune :: "rune \<Rightarrow> gostr" where
  "utf8_rune r = (let r = (if valid_rune r then r else rune_error) in
     if r < 0x80 then [of_nat r]
     else if r < 0x800 then [of_nat (0xC0 + r div 64), of_nat (0x80 + r mod 64)]
     else if r < 0x10000 then [of_nat (0xE0 + r div 4096), of_nat (0x80 + r div 64 mod 64), of_nat (0x80 + r mod 64)]
     else [of_nat (0xF0 + r div 262144), of_nat (0x80 + r div 4096 mod 64), of_nat (0x80 + r div 64 mod 64),
           of_nat (0x80 + r mod 64)])"

definition utf8_string :: "rune list \<Rightarrow> gostr" where
  "utf8_string rs = concat (map utf8_rune rs)"

text \<open>What the first byte announces: the length of the sequence and the range of the second byte.\<close>

definition utf8_first :: "nat \<Rightarrow> (nat \<times> nat \<times> nat) option" where
  "utf8_first b =
    (if b < 0x80 then Some (1, 0x80, 0xBF)
     else if b < 0xC2 then None
     else if b < 0xE0 then Some (2, 0x80, 0xBF)
     else if b = 0xE0 then Some (3, 0xA0, 0xBF)
     else if b = 0xED then Some (3, 0x80, 0x9F)
     else if b < 0xF0 then Some (3, 0x80, 0xBF)
     else if b = 0xF0 then Some (4, 0x90, 0xBF)
     else if b < 0xF4 then Some (4, 0x80, 0xBF)
     else if b = 0xF4 then Some (4, 0x80, 0x8F)
     else None)"

text \<open>\<^verbatim>\<open>utf8.DecodeRune\<close> on the first byte and the bytes behind it: the rune and how many of the
  latter it takes.\<close>

fun cont :: "nat \<Rightarrow> bool" where
  "cont b = (0x80 \<le> b \<and> b \<le> 0xBF)"

definition decode_rune :: "nat \<Rightarrow> nat list \<Rightarrow> rune \<times> nat" where
  "decode_rune b0 bs = (case utf8_first b0 of
       None \<Rightarrow> (rune_error, 0)
     | Some (sz, lo, hi) \<Rightarrow>
         if sz = 1 then (b0, 0)
         else (case bs of
             b1 # bs1 \<Rightarrow>
               if \<not> (lo \<le> b1 \<and> b1 \<le> hi) then (rune_error, 0)
               else if sz = 2 then (b0 mod 32 * 64 + b1 mod 64, 1)
               else (case bs1 of
                   b2 # bs2 \<Rightarrow>
                     if sz = 3 then
                       if cont b2 then (b0 mod 16 * 4096 + b1 mod 64 * 64 + b2 mod 64, 2) else (rune_error, 0)
                     else (case bs2 of
                         b3 # _ \<Rightarrow>
                           if cont b2 \<and> cont b3
                           then (b0 mod 8 * 262144 + b1 mod 64 * 4096 + b2 mod 64 * 64 + b3 mod 64, 3)
                           else (rune_error, 0)
                       | [] \<Rightarrow> (rune_error, 0))
                 | [] \<Rightarrow> (rune_error, 0))
           | [] \<Rightarrow> (rune_error, 0)))"

text \<open>\<^verbatim>\<open>[]rune(s)\<close>\<close>

function runes_of :: "nat list \<Rightarrow> rune list" where
  "runes_of [] = []"
| "runes_of (b # bs) = (let (r, n) = decode_rune b bs in r # runes_of (drop n bs))"
  by pat_completeness auto
termination by (relation "measure length") auto

definition runes :: "gostr \<Rightarrow> rune list" where
  "runes s = runes_of (map unat s)"

section \<open>UTF-16\<close>

definition utf16_units :: "rune \<Rightarrow> u16 list" where
  "utf16_units r =
    (if r < 0xD800 \<or> 0xE000 \<le> r \<and> r < 0x10000 then [of_nat r]
     else if 0x10000 \<le> r \<and> r \<le> 0x10FFFF
     then [of_nat (0xD800 + (r - 0x10000) div 1024 mod 1024), of_nat (0xDC00 + (r - 0x10000) mod 1024)]
     else [0xFFFD])"

definition utf16_Encode :: "rune list \<Rightarrow> u16 list" where
  "utf16_Encode rs = concat (map utf16_units rs)"

fun utf16_Decode :: "u16 list \<Rightarrow> rune list" where
  "utf16_Decode [] = []"
| "utf16_Decode (u # us) =
    (if unat u < 0xD800 \<or> 0xE000 \<le> unat u then unat u # utf16_Decode us
     else (case us of
         v # vs \<Rightarrow>
           if unat u < 0xDC00 \<and> 0xDC00 \<le> unat v \<and> unat v < 0xE000
           then ((unat u - 0xD800) * 1024 + (unat v - 0xDC00) + 0x10000) # utf16_Decode vs
           else rune_error # utf16_Decode us
       | [] \<Rightarrow> [rune_error]))"

lemmas utf_eval = utf8_string_def utf8_rune_def valid_rune_def rune_error_def utf16_Encode_def runes_def
  decode_rune_def utf8_first_def utf16_units_def

section \<open>Round trips\<close>

lemma runes_of_1: "b < 0x80 \<Longrightarrow> runes_of (b # bs) = b # runes_of bs"
  by (simp add: decode_rune_def utf8_first_def)

lemma runes_of_2:
  assumes "0xC2 \<le> b0" "b0 < 0xE0" and "cont b1"
  shows "runes_of (b0 # b1 # bs) = (b0 mod 32 * 64 + b1 mod 64) # runes_of bs"
  using assms by (simp add: decode_rune_def utf8_first_def)

lemma runes_of_3:
  assumes "0xE0 \<le> b0" "b0 < 0xF0" and "cont b1" "cont b2"
    and "b0 = 0xE0 \<Longrightarrow> 0xA0 \<le> b1" and "b0 = 0xED \<Longrightarrow> b1 \<le> 0x9F"
  shows "runes_of (b0 # b1 # b2 # bs) = (b0 mod 16 * 4096 + b1 mod 64 * 64 + b2 mod 64) # runes_of bs"
  using assms by (cases "b0 = 0xE0"; cases "b0 = 0xED") (simp_all add: decode_rune_def utf8_first_def)

lemma runes_of_4:
  assumes "0xF0 \<le> b0" "b0 \<le> 0xF4" and "cont b1" "cont b2" "cont b3"
    and "b0 = 0xF0 \<Longrightarrow> 0x90 \<le> b1" and "b0 = 0xF4 \<Longrightarrow> b1 \<le> 0x8F"
  shows "runes_of (b0 # b1 # b2 # b3 # bs) =
    (b0 mod 8 * 262144 + b1 mod 64 * 4096 + b2 mod 64 * 64 + b3 mod 64) # runes_of bs"
  using assms by (cases "b0 = 0xF0"; cases "b0 = 0xF4") (simp_all add: decode_rune_def utf8_first_def)

lemma mod_offset: "(k :: nat) < n \<Longrightarrow> (c * n + k) mod n = k"
  by simp

lemma lead_mod:
  "(k :: nat) < 64 \<Longrightarrow> (0x80 + k) mod 64 = k" "k < 32 \<Longrightarrow> (0xC0 + k) mod 32 = k"
  "k < 16 \<Longrightarrow> (0xE0 + k) mod 16 = k" "k < 8 \<Longrightarrow> (0xF0 + k) mod 8 = k"
  using mod_offset [of k 64 2] mod_offset [of k 32 6] mod_offset [of k 16 14] mod_offset [of k 8 30]
  by simp_all

lemma runes_of_utf8_rune:
  assumes "valid_rune r"
  shows "runes_of (map unat (utf8_rune r) @ bs) = r # runes_of bs"
proof -
  let ?b = "\<lambda>n. unat (of_nat n :: byte)"
  define q1 where "q1 = r div 64"
  define q2 where "q2 = q1 div 64"
  define q3 where "q3 = q2 div 64"
  have q: "r = q1 * 64 + r mod 64" "q1 = q2 * 64 + q1 mod 64" "q2 = q3 * 64 + q2 mod 64"
    unfolding q1_def q2_def q3_def by simp_all
  have d: "r div 64 = q1" "r div 4096 = q2" "r div 262144 = q3"
    unfolding q1_def q2_def q3_def by (simp_all add: div_mult2_eq [symmetric])
  have m: "r mod 64 < 64" "q1 mod 64 < 64" "q2 mod 64 < 64" by simp_all
  have r: "r < 0xD800 \<or> 0xE000 \<le> r \<and> r \<le> 0x10FFFF" using assms by (simp add: valid_rune_def)
  consider "r < 0x80" | "0x80 \<le> r" "r < 0x800" | "0x800 \<le> r" "r < 0x10000" | "0x10000 \<le> r" by linarith
  then show ?thesis
  proof cases
    case 1
    then show ?thesis using assms by (simp add: utf8_rune_def unat_of_nat_byte runes_of_1 del: runes_of.simps)
  next
    case 2
    then have "q1 < 32" "2 \<le> q1" using q m by linarith+
    then show ?thesis using 2 assms m q(1)
      by (simp add: utf8_rune_def d unat_of_nat_byte runes_of_2 lead_mod del: runes_of.simps of_nat_add)
  next
    case 3
    then have q2: "q2 < 16" and e0: "q2 = 0 \<Longrightarrow> 0x20 \<le> q1 mod 64" and ed: "q2 = 0xD \<Longrightarrow> q1 mod 64 < 32"
      using q m r by linarith+
    have "map unat (utf8_rune r) = [0xE0 + q2, 0x80 + q1 mod 64, 0x80 + r mod 64]"
      using 3 assms m q2 by (simp add: utf8_rune_def d unat_of_nat_byte del: of_nat_add)
    moreover have "runes_of ((0xE0 + q2) # (0x80 + q1 mod 64) # (0x80 + r mod 64) # bs) =
        ((0xE0 + q2) mod 16 * 4096 + (0x80 + q1 mod 64) mod 64 * 64 + (0x80 + r mod 64) mod 64) # runes_of bs"
      using q2 m by (intro runes_of_3) (auto dest: e0 ed)
    moreover have "q2 * 4096 + q1 mod 64 * 64 + r mod 64 = r" using q(1,2) by linarith
    ultimately show ?thesis using q2 m by (simp add: lead_mod del: runes_of.simps)
  next
    case 4
    then have q3: "q3 < 5" and f0: "q3 = 0 \<Longrightarrow> 0x10 \<le> q2 mod 64" and f4: "q3 = 4 \<Longrightarrow> q2 mod 64 < 16"
      using q m r by linarith+
    have "map unat (utf8_rune r) = [0xF0 + q3, 0x80 + q2 mod 64, 0x80 + q1 mod 64, 0x80 + r mod 64]"
      using 4 assms m q3 by (simp add: utf8_rune_def d unat_of_nat_byte del: of_nat_add)
    moreover have "runes_of ((0xF0 + q3) # (0x80 + q2 mod 64) # (0x80 + q1 mod 64) # (0x80 + r mod 64) # bs) =
        ((0xF0 + q3) mod 8 * 262144 + (0x80 + q2 mod 64) mod 64 * 4096 + (0x80 + q1 mod 64) mod 64 * 64
         + (0x80 + r mod 64) mod 64) # runes_of bs"
      using q3 m by (intro runes_of_4) (auto dest: f0 f4)
    moreover have "q3 * 262144 + q2 mod 64 * 4096 + q1 mod 64 * 64 + r mod 64 = r" using q by linarith
    ultimately show ?thesis using q3 m by (simp add: lead_mod del: runes_of.simps)
  qed
qed

lemma runes_utf8_string: "list_all valid_rune rs \<Longrightarrow> runes (utf8_string rs) = rs"
  unfolding runes_def utf8_string_def
  by (induction rs) (simp_all add: runes_of_utf8_rune)

lemma cont_mod_64: "cont b \<Longrightarrow> b mod 64 = b - 0x80"
proof -
  assume "cont b"
  then obtain k where "b = 0x80 + k" "k < 64" using le_Suc_ex [of "0x80" b] by auto
  then show ?thesis using lead_mod(1) [of k] by simp
qed

lemma valid_rune_3:
  assumes "0xE0 \<le> b0" "b0 < 0xF0" and "cont b1" and "b0 = 0xED \<Longrightarrow> b1 \<le> 0x9F"
  shows "valid_rune (b0 mod 16 * 4096 + b1 mod 64 * 64 + b2 mod 64)"
proof -
  define k where "k = b0 - 0xE0"
  have k: "b0 = 0xE0 + k" "k < 16" using assms by (simp_all add: k_def)
  then have m: "b0 mod 16 = k" using lead_mod(3) by simp
  have b1: "b1 mod 64 = b1 - 0x80" "b1 - 0x80 < 64" using assms(3) cont_mod_64 by auto
  have b2: "b2 mod 64 < 64" by simp
  have "k < 0xD \<or> k = 0xD \<and> b1 - 0x80 < 32 \<or> 0xE \<le> k" using assms(4) k b1 by auto
  then show ?thesis unfolding valid_rune_def m b1(1) using k b1(2) b2 by linarith
qed

lemma valid_rune_4:
  assumes "0xF0 \<le> b0" "b0 \<le> 0xF4" and "cont b1"
    and "b0 = 0xF0 \<Longrightarrow> 0x90 \<le> b1" and "b0 = 0xF4 \<Longrightarrow> b1 \<le> 0x8F"
  shows "valid_rune (b0 mod 8 * 262144 + b1 mod 64 * 4096 + b2 mod 64 * 64 + b3 mod 64)"
proof -
  define k where "k = b0 - 0xF0"
  have k: "b0 = 0xF0 + k" "k \<le> 4" using assms by (simp_all add: k_def)
  then have m: "b0 mod 8 = k" using lead_mod(4) by simp
  have b1: "b1 mod 64 = b1 - 0x80" "b1 - 0x80 < 64" using assms(3) cont_mod_64 by auto
  have b: "b2 mod 64 < 64" "b3 mod 64 < 64" by simp_all
  consider "k = 0" "0x10 \<le> b1 - 0x80" | "1 \<le> k" "k < 4" | "k = 4" "b1 - 0x80 < 16"
    using assms(4,5) k by (cases "k = 0"; cases "k = 4") auto
  then show ?thesis unfolding valid_rune_def m b1(1) using b1(2) b by cases linarith+
qed

lemma valid_rune_2: "valid_rune (b0 mod 32 * 64 + b1 mod 64)"
proof -
  have "b0 mod 32 < 32" "b1 mod 64 < 64" by simp_all
  then show ?thesis unfolding valid_rune_def by linarith
qed

lemma utf8_first_cases:
  assumes "utf8_first b0 = Some (sz, lo, hi)" and "sz \<noteq> 1" and "lo \<le> b1" "b1 \<le> hi"
  shows "cont b1" and "sz \<in> {2, 3, 4}"
    and "sz = 3 \<Longrightarrow> 0xE0 \<le> b0 \<and> b0 < 0xF0 \<and> (b0 = 0xED \<longrightarrow> b1 \<le> 0x9F)"
    and "sz = 4 \<Longrightarrow> 0xF0 \<le> b0 \<and> b0 \<le> 0xF4 \<and> (b0 = 0xF0 \<longrightarrow> 0x90 \<le> b1) \<and> (b0 = 0xF4 \<longrightarrow> b1 \<le> 0x8F)"
  using assms by (auto simp: utf8_first_def split: if_splits)

lemma valid_rune_error: "valid_rune rune_error"
  by (simp add: valid_rune_def rune_error_def)

lemma decode_rune_valid: "valid_rune (fst (decode_rune b0 bs))"
proof (cases "utf8_first b0")
  case None
  then show ?thesis by (simp add: decode_rune_def valid_rune_error)
next
  case (Some i)
  obtain sz lo hi where i: "i = (sz, lo, hi)" by (cases i)
  have one: "sz = 1 \<Longrightarrow> valid_rune b0"
    using Some i by (auto simp: utf8_first_def valid_rune_def split: if_splits)
  show ?thesis
  proof (cases "sz \<noteq> 1 \<and> bs \<noteq> [] \<and> lo \<le> hd bs \<and> hd bs \<le> hi")
    case False
    then show ?thesis
      using one Some i by (auto simp: decode_rune_def valid_rune_error split: list.splits)
  next
    case True
    note f = utf8_first_cases [OF Some [unfolded i], of "hd bs"]
    have "valid_rune (b0 mod 16 * 4096 + hd bs mod 64 * 64 + b2 mod 64)" if "sz = 3" for b2
      using f(1,3) True that by (intro valid_rune_3) simp_all
    moreover have "valid_rune (b0 mod 8 * 262144 + hd bs mod 64 * 4096 + b2 mod 64 * 64 + b3 mod 64)"
      if "sz = 4" for b2 b3
      using f(1,4) True that by (intro valid_rune_4) simp_all
    ultimately show ?thesis
      using True f(2) Some i
      by (auto simp: decode_rune_def valid_rune_error valid_rune_2 split: list.splits)
  qed
qed

lemma runes_valid: "list_all valid_rune (runes s)"
proof -
  have "list_all valid_rune (runes_of bs)" for bs
  proof (induction bs rule: runes_of.induct)
    case (2 b bs)
    then show ?case using decode_rune_valid [of b bs] by (auto split: prod.splits)
  qed simp
  then show ?thesis by (simp add: runes_def)
qed

lemma utf16_Decode_units:
  assumes "valid_rune r"
  shows "utf16_Decode (utf16_units r @ us) = r # utf16_Decode us"
proof (cases "r < 0x10000")
  case True
  moreover from this have "unat (of_nat r :: u16) = r" by (intro unat_of_nat_small) simp
  ultimately show ?thesis
    using assms by (auto simp: utf16_units_def valid_rune_def)
next
  case False
  define h where "h = (r - 0x10000) div 1024"
  define l where "l = (r - 0x10000) mod 1024"
  have hl: "h * 1024 + l = r - 0x10000" "l < 1024" unfolding h_def l_def by simp_all
  have h: "h < 1024" using hl False assms by (auto simp: valid_rune_def)
  then have "h mod 1024 = h" by simp
  moreover have "unat (of_nat (0xD800 + h) :: u16) = 0xD800 + h" "unat (of_nat (0xDC00 + l) :: u16) = 0xDC00 + l"
    using h hl by (auto intro!: unat_of_nat_small simp del: of_nat_add)
  ultimately show ?thesis
    using False assms hl h by (simp add: utf16_units_def valid_rune_def h_def [symmetric] l_def [symmetric])
qed

lemma utf16_Decode_Encode: "list_all valid_rune rs \<Longrightarrow> utf16_Decode (utf16_Encode rs) = rs"
  unfolding utf16_Encode_def by (induction rs) (simp_all add: utf16_Decode_units)

lemma runes_of_Nil_iff: "runes_of bs = [] \<longleftrightarrow> bs = []"
  by (cases bs) (auto split: prod.splits)

lemma runes_Nil_iff: "runes s = [] \<longleftrightarrow> s = []"
  by (simp add: runes_def runes_of_Nil_iff)

lemma utf16_Encode_Nil_iff: "utf16_Encode rs = [] \<longleftrightarrow> rs = []"
  by (induction rs) (auto simp: utf16_Encode_def utf16_units_def)

lemma utf8_string_Nil [simp]: "utf8_string [] = []" "runes [] = []"
  by (simp_all add: utf8_string_def runes_def)

end
