(* ===== verification/String_Conv.thy ===== *)
theory String_Conv
  imports Go_Unicode
begin

text \<open>
  The charset converters of \<^verbatim>\<open>v3/converters/string_conversion.go\<close>: the \<^verbatim>\<open>StringConverter\<close> record with its
  tables, \<^verbatim>\<open>Encode\<close>, and \<^verbatim>\<open>Decode\<close> for every family of charsets the code distinguishes. A result of type
  \<open>gostr res option\<close> is \<open>None\<close> when the loop does not end and \<open>Panic\<close> for an index outside a table.
\<close>

record StringConverter =
  LangID :: int
  CharWidth :: int
  eReplace :: int
  dReplace :: int
  dBuffer :: "int list option"
  dBuffer2 :: "int list option"
  eBuffer :: "(int \<rightharpoonup> int) option"
  leading :: "int \<rightharpoonup> int"

definition MaxBytePerChar :: "int \<Rightarrow> int" where
  "MaxBytePerChar charsetID =
    (if charsetID \<in> {0x33D, 0x348, 0x34D, 0x34E, 0x352, 0x353, 0x35D, 0x361, 0x362, 0x363, 0x364, 0x3E0} then 3
     else if charsetID \<in> {0x340, 0x342, 0x344, 0x346} then 3
     else if charsetID \<in> {0x33E, 0x33F, 0x345} then 4
     else if charsetID \<in> {0x35C, 0x35F} then 4
     else if charsetID \<in> {0x341, 0x343, 0x34A, 0x355, 0x360} then 4
     else if charsetID = 0x354 then 3
     else if charsetID = 870 \<or> charsetID = 871 then 3
     else if charsetID = 872 \<or> charsetID = 873 then 4
     else if charsetID = 2000 \<or> charsetID = 2002 then 2
     else 1)"

text \<open>\<^verbatim>\<open>Clone\<close> lists its fields and leaves out the map of leading bytes.\<close>

definition Clone :: "StringConverter \<Rightarrow> StringConverter" where
  "Clone conv = \<lparr>LangID = LangID conv, CharWidth = CharWidth conv, eReplace = eReplace conv,
     dReplace = dReplace conv, dBuffer = dBuffer conv, dBuffer2 = dBuffer2 conv, eBuffer = eBuffer conv,
     leading = Map.empty\<rparr>"

definition GetLangID :: "StringConverter \<Rightarrow> int" where
  "GetLangID conv = LangID conv"

section \<open>Encoding\<close>

text \<open>The bytes of a table entry: one, two or four, chosen by its size.\<close>

definition entry_bytes :: "int \<Rightarrow> byte list" where
  "entry_bytes ch =
    (if ch < 0x100 then [word_of_int ch]
     else if ch < 0x10000 then [word_of_int (ch div 256), word_of_int ch]
     else [word_of_int (ch div 16777216), word_of_int (ch div 65536), word_of_int (ch div 256), word_of_int ch])"

definition encode_unit :: "StringConverter \<Rightarrow> (int \<rightharpoonup> int) \<Rightarrow> u16 \<Rightarrow> byte list" where
  "encode_unit conv tab u = (case tab (uint u) of
       Some ch \<Rightarrow> entry_bytes ch
     | None \<Rightarrow> [word_of_int (eReplace conv)])"

definition Encode :: "StringConverter \<Rightarrow> gostr \<Rightarrow> nslice" where
  "Encode conv input =
    (if input = [] then None
     else let temp = utf16_Encode (runes input) in
       if LangID conv \<in> {870, 871, 872, 873} then Some input
       else if LangID conv = 2000 then Some (concat (map (\<lambda>u. be_enc 2 (unat u)) temp))
       else if LangID conv = 2002 then Some (concat (map (\<lambda>u. le_enc 2 (unat u)) temp))
       else (case eBuffer conv of
           None \<Rightarrow> Some input
         | Some tab \<Rightarrow> Some (concat (map (encode_unit conv tab) temp))))"

section \<open>Decoding\<close>

definition int_index :: "int list option \<Rightarrow> int \<Rightarrow> int res" where
  "int_index xs i = (case xs of
       Some ys \<Rightarrow> if 0 \<le> i \<and> i < int (length ys) then Ok (ys ! nat i) else Panic
     | None \<Rightarrow> Panic)"

definition toUnicodeChar :: "StringConverter \<Rightarrow> int \<Rightarrow> int \<Rightarrow> int res" where
  "toUnicodeChar conv ch lead = (let index1 = ch div 256 mod 256 + lead; index2 = ch mod 256 in
     rbind (int_index (dBuffer conv) index1) (\<lambda>char1.
       if char1 = 0xFFFF then Ok (dReplace conv)
       else rbind (int_index (dBuffer2 conv) (char1 + index2)) (\<lambda>out.
         if out = 0xFFFF then Ok (dReplace conv) else Ok out)))"

text \<open>Two code units when the table entry does not fit one (\<^verbatim>\<open>uint\<close> of a negative entry does not either).\<close>

definition char_units :: "int \<Rightarrow> u16 list" where
  "char_units char = (if char < 0 \<or> char > 0xFFFF then [word_of_int (char div 65536)] else []) @ [word_of_int char]"

text \<open>
  One turn of a decoding loop on the bytes from the current index on: give up and return the input as it
  is, index outside the input, or a character with its table offset and by how much the index is increased.
\<close>

datatype turn = Whole | Crash | Code int int nat

definition double_byte :: "(int \<Rightarrow> bool) \<Rightarrow> byte list \<Rightarrow> turn" where
  "double_byte is_lead rest =
    (if is_lead (uint (hd rest)) then
       if length rest \<le> 1 then Whole else Code (int (be_dec (take 2 rest))) 0 2
     else Code (uint (hd rest)) 0 1)"

definition turn_12byte :: "byte list \<Rightarrow> turn" where
  "turn_12byte = double_byte (\<lambda>b. b > 127)"

definition turn_gbk :: "byte list \<Rightarrow> turn" where
  "turn_gbk = double_byte (\<lambda>b. b > 128)"

definition turn_sjis :: "byte list \<Rightarrow> turn" where
  "turn_sjis = double_byte (\<lambda>b. b > 223 \<or> b > 127 \<and> b < 161)"

definition turn_jaeuc :: "byte list \<Rightarrow> turn" where
  "turn_jaeuc rest = (let b = uint (hd rest); skip = (if b = 0x8F then 1 else 0) in
     if b > 0x7F then
       if length rest \<le> skip + 1 then Whole
       else Code (int (be_dec (take 2 (drop skip rest)))) (if b = 0x8F then 0x100 else 0) (skip + 2)
     else Code b 0 1)"

definition turn_zhteuc :: "StringConverter \<Rightarrow> byte list \<Rightarrow> turn" where
  "turn_zhteuc conv rest =
    (if uint (hd rest) > 127 then
       if length rest \<le> 1 then Whole
       else let result = int (be_dec (take 2 rest)) in
         (case leading conv result of
            Some value \<Rightarrow>
              if length rest \<le> 2 then Whole
              else if length rest < 4 then Crash
              else Code (int (be_dec (take 4 rest))) value 4
          | None \<Rightarrow> Code result 0 2)
     else Code (uint (hd rest)) 0 1)"

text \<open>The loop of these families, on the bytes from the index on; the turn says how far the index moves.\<close>

partial_function (option) decode_loop ::
    "(byte list \<Rightarrow> turn) \<Rightarrow> StringConverter \<Rightarrow> byte list \<Rightarrow> byte list \<Rightarrow> u16 list \<Rightarrow> gostr res option" where
  "decode_loop turn conv input rest output =
    (if rest = [] then Some (Ok (utf8_string (utf16_Decode output)))
     else case turn rest of
         Whole \<Rightarrow> Some (Ok input)
       | Crash \<Rightarrow> Some Panic
       | Code ch lead n \<Rightarrow>
           (case toUnicodeChar conv ch lead of
              Ok char \<Rightarrow> decode_loop turn conv input (drop n rest) (output @ char_units char)
            | Err e \<Rightarrow> Some (Err e)
            | Panic \<Rightarrow> Some Panic))"

text \<open>The shift charsets: bytes 14 and 15 change the state, and \<open>continue\<close> leaves the index where it is.\<close>

partial_function (option) decode_shift ::
    "StringConverter \<Rightarrow> byte list \<Rightarrow> nat \<Rightarrow> bool \<Rightarrow> u16 list \<Rightarrow> gostr res option" where
  "decode_shift conv input index shiftIn output =
    (if index < length input then
       if input ! index = 15 then decode_shift conv input index True output
       else if input ! index = 14 then decode_shift conv input index False output
       else if shiftIn then
         (case toUnicodeChar conv (uint (input ! index)) 0 of
            Ok char \<Rightarrow> decode_shift conv input (index + 1) shiftIn (output @ char_units char)
          | Err e \<Rightarrow> Some (Err e)
          | Panic \<Rightarrow> Some Panic)
       else if index + 1 \<ge> length input then Some (Ok input)
       else
         (case toUnicodeChar conv (int (be_dec (take 2 (drop index input)))) 0 of
            Ok char \<Rightarrow> decode_shift conv input (index + 2) shiftIn (output @ char_units char)
          | Err e \<Rightarrow> Some (Err e)
          | Panic \<Rightarrow> Some Panic)
     else Some (Ok (utf8_string (utf16_Decode output))))"

text \<open>UTF-16: a zero byte completes an odd input; then two bytes at a time.\<close>

fun units_by :: "(byte list \<Rightarrow> nat) \<Rightarrow> byte list \<Rightarrow> u16 list" where
  "units_by dec (a # b # bs) = of_nat (dec [a, b]) # units_by dec bs"
| "units_by dec _ = []"

definition decode_utf16 :: "(byte list \<Rightarrow> nat) \<Rightarrow> byte list \<Rightarrow> gostr" where
  "decode_utf16 dec input = utf8_string (utf16_Decode
     (units_by dec (if odd (length input) then input @ [0] else input)))"

text \<open>Single-byte charsets: a table of code units.\<close>

definition decode_byte :: "StringConverter \<Rightarrow> int list \<Rightarrow> byte \<Rightarrow> u16" where
  "decode_byte conv tab b =
    (if uint b \<ge> int (length tab) then word_of_int (dReplace conv)
     else let u = word_of_int (tab ! unat b) in if u = 0xFFFF then word_of_int (dReplace conv) else u)"

definition Decode :: "StringConverter \<Rightarrow> byte list \<Rightarrow> gostr res option" where
  "Decode conv input =
    (if input = [] then Some (Ok [])
     else if LangID conv \<in> {870, 871, 872, 873} then Some (Ok input)
     else if LangID conv = 2000 then Some (Ok (decode_utf16 be_dec input))
     else if LangID conv = 2002 then Some (Ok (decode_utf16 le_dec input))
     else if LangID conv \<in> {0x341, 0x343, 0x34A, 0x355, 0x360} then decode_shift conv input 0 True []
     else if LangID conv \<in> {0x35C, 0x35F} then decode_loop (turn_zhteuc conv) conv input input []
     else if LangID conv \<in> {0x33D, 0x348, 0x34D, 0x34E, 0x352, 0x353, 0x35D, 0x361, 0x362, 0x363, 0x364, 0x3E0}
     then decode_loop turn_12byte conv input input []
     else if LangID conv = 0x354 then decode_loop turn_gbk conv input input []
     else if LangID conv \<in> {0x33E, 0x33F, 0x345} then decode_loop turn_jaeuc conv input input []
     else if LangID conv \<in> {0x340, 0x342, 0x344, 0x346} then decode_loop turn_sjis conv input input []
     else (case dBuffer conv of
         None \<Rightarrow> Some (Ok input)
       | Some tab \<Rightarrow> Some (Ok (utf8_string (utf16_Decode (map (decode_byte conv tab) input))))))"

section \<open>Empty strings\<close>

lemma decode_loop_Nil [simp]: "decode_loop turn conv input [] output = Some (Ok (utf8_string (utf16_Decode output)))"
  by (simp add: decode_loop.simps)

lemma decode_loop_Cons [simp]:
  "decode_loop turn conv input (b # bs) output = (case turn (b # bs) of
       Whole \<Rightarrow> Some (Ok input)
     | Crash \<Rightarrow> Some Panic
     | Code ch lead n \<Rightarrow> (case toUnicodeChar conv ch lead of
           Ok char \<Rightarrow> decode_loop turn conv input (drop n (b # bs)) (output @ char_units char)
         | Err e \<Rightarrow> Some (Err e)
         | Panic \<Rightarrow> Some Panic))"
  by (subst decode_loop.simps) simp

lemma Encode_Nil: "Encode conv [] = None"
  by (simp add: Encode_def)

lemma Decode_Nil: "Decode conv [] = Some (Ok [])"
  by (simp add: Decode_def)

lemma concat_map_Nil_iff: "(\<And>u. f u \<noteq> []) \<Longrightarrow> concat (map f us) = [] \<longleftrightarrow> us = []"
  by (cases us) simp_all

lemma encode_unit_ne: "encode_unit conv tab u \<noteq> []"
  by (simp add: encode_unit_def entry_bytes_def split: option.split)

lemma encode_units_Nil_iff:
  "concat (map (encode_unit conv tab) (utf16_Encode (runes s))) = [] \<longleftrightarrow> s = []"
  by (simp add: concat_map_Nil_iff encode_unit_ne utf16_Encode_Nil_iff runes_Nil_iff del: concat_eq_Nil_conv)

end
