(* ===== verification/Charset_Tables.thy ===== *)
theory Charset_Tables
  imports String_Conv
begin

text \<open>
  \<^verbatim>\<open>NewStringConverter\<close> of \<^verbatim>\<open>v3/converters/string_conversion_new.go\<close>: the Unicode charsets, and the tables of fifteen
  single-byte charsets as the source lists them. The tables that are not transcribed are an argument.
\<close>

definition dBuffer_1 :: "int list" where
  "dBuffer_1 = [
    0, 1, 2, 3, 4, 5, 6, 7, 8, 9, 10, 11, 12, 13, 14, 15, 16, 17, 18, 19, 20, 21, 22, 23, 24, 25, 26, 27, 28, 29, 30,
    31, 32, 33, 34, 35, 36, 37, 38, 39, 40, 41, 42, 43, 44, 45, 46, 47, 48, 49, 50, 51, 52, 53, 54, 55, 56, 57, 58,
    59, 60, 61, 62, 63, 64, 65, 66, 67, 68, 69, 70, 71, 72, 73, 74, 75, 76, 77, 78, 79, 80, 81, 82, 83, 84, 85, 86,
    87, 88, 89, 90, 91, 92, 93, 94, 95, 96, 97, 98, 99, 100, 101, 102, 103, 104, 105, 106, 107, 108, 109, 110, 111,
    112, 113, 114, 115, 116, 117, 118, 119, 120, 121, 122, 123, 124, 125, 126, 127, 65535, 65535, 65535, 65535,
    65535, 65535, 65535, 65535, 65535, 65535, 65535, 65535, 65535, 65535, 65535, 65535, 65535, 65535, 65535, 65535,
    65535, 65535, 65535, 65535, 65535, 65535, 65535, 65535, 65535, 65535, 65535, 65535, 65535, 65535, 65535, 65535,
    65535, 65535, 65535, 65535, 65535, 65535, 65535, 65535, 65535, 65535, 65535, 65535, 65535, 65535, 65535, 65535,
    65535, 65535, 65535, 65535, 65535, 65535, 65535, 65535, 65535, 65535, 65535, 65535, 65535, 65535, 65535, 65535,
    65535, 65535, 65535, 65535, 65535, 65535, 65535, 65535, 65535, 65535, 65535, 65535, 65535, 65535, 65535, 65535,
    65535, 65535, 65535, 65535, 65535, 65535, 65535, 65535, 65535, 65535, 65535, 65535, 65535, 65535, 65535, 65535,
    65535, 65535, 65535, 65535, 65535, 65535, 65535, 65535, 65535, 65535, 65535, 65535, 65535, 65535, 65535, 65535,
    65535, 65535, 65535, 65535, 65535, 65535, 65535, 65535, 65535, 65535, 65535, 65535]"

definition eBuffer_1 :: "(int \<times> int) list" where
  "eBuffer_1 = [
    (0, 0), (1, 1), (2, 2), (3, 3), (4, 4), (5, 5), (6, 6), (7, 7), (8, 8), (9, 9), (10, 10), (11, 11), (12, 12),
    (13, 13), (14, 14), (15, 15), (16, 16), (17, 17), (18, 18), (19, 19), (20, 20), (21, 21), (22, 22), (23, 23),
    (24, 24), (25, 25), (26, 26), (27, 27), (28, 28), (29, 29), (30, 30), (31, 31), (32, 32), (33, 33), (34, 34),
    (35, 35), (36, 36), (37, 37), (38, 38), (39, 39), (40, 40), (41, 41), (42, 42), (43, 43), (44, 44), (45, 45),
    (46, 46), (47, 47), (48, 48), (49, 49), (50, 50), (51, 51), (52, 52), (53, 53), (54, 54), (55, 55), (56, 56),
    (57, 57), (58, 58), (59, 59), (60, 60), (61, 61), (62, 62), (63, 63), (64, 64), (65, 65), (66, 66), (67, 67),
    (68, 68), (69, 69), (70, 70), (71, 71), (72, 72), (73, 73), (74, 74), (75, 75), (76, 76), (77, 77), (78, 78),
    (79, 79), (80, 80), (81, 81), (82, 82), (83, 83), (84, 84), (85, 85), (86, 86), (87, 87), (88, 88), (89, 89),
    (90, 90), (91, 91), (92, 92), (93, 93), (94, 94), (95, 95), (96, 96), (97, 97), (98, 98), (99, 99), (100, 100),
    (101, 101), (102, 102), (103, 103), (104, 104), (105, 105), (106, 106), (107, 107), (108, 108), (109, 109),
    (110, 110), (111, 111), (112, 112), (113, 113), (114, 114), (115, 115), (116, 116), (117, 117), (118, 118),
    (119, 119), (120, 120), (121, 121), (122, 122), (123, 123), (124, 124), (125, 125), (126, 126), (127, 127),
    (65535, 255), (161, 33), (171, 60), (187, 62), (8216, 96), (8213, 45), (160, 32), (173, 45), (166, 124),
    (180, 39), (8248, 94), (8764, 126), (163, 35), (165, 89), (63741, 102), (8356, 76), (192, 65), (193, 65),
    (194, 65), (196, 65), (258, 65), (260, 65), (262, 67), (268, 67), (199, 67), (270, 68), (272, 68), (200, 69),
    (201, 69), (202, 69), (203, 69), (282, 69), (280, 69), (204, 73), (205, 73), (206, 73), (313, 76), (317, 76),
    (321, 76), (323, 78), (327, 78), (210, 79), (211, 79), (212, 79), (214, 79), (336, 79), (340, 82), (344, 82),
    (346, 83), (352, 83), (350, 83), (356, 84), (354, 84), (217, 85), (218, 85), (219, 85), (220, 85), (368, 85),
    (366, 85), (221, 89), (377, 90), (381, 90), (379, 90), (224, 97), (225, 97), (226, 97), (228, 97), (259, 97),
    (261, 97), (263, 99), (269, 99), (231, 99), (271, 100), (273, 100), (232, 101), (233, 101), (234, 101),
    (235, 101), (283, 101), (281, 101), (236, 105), (237, 105), (238, 105), (314, 108), (318, 108), (322, 108),
    (324, 110), (328, 110), (242, 111), (243, 111), (244, 111), (246, 111), (337, 111), (341, 114), (345, 114),
    (347, 115), (353, 115), (351, 115), (357, 116), (355, 116), (249, 117), (250, 117), (251, 117), (252, 117),
    (369, 117), (367, 117), (253, 121), (378, 122), (382, 122), (380, 122), (207, 73), (239, 105), (255, 121)]"

definition dBuffer_31 :: "int list" where
  "dBuffer_31 = [
    0, 1, 2, 3, 4, 5, 6, 7, 8, 9, 10, 11, 12, 13, 14, 15, 16, 17, 18, 19, 20, 21, 22, 23, 24, 25, 26, 27, 28, 29, 30,
    31, 32, 33, 34, 35, 36, 37, 38, 39, 40, 41, 42, 43, 44, 45, 46, 47, 48, 49, 50, 51, 52, 53, 54, 55, 56, 57, 58,
    59, 60, 61, 62, 63, 64, 65, 66, 67, 68, 69, 70, 71, 72, 73, 74, 75, 76, 77, 78, 79, 80, 81, 82, 83, 84, 85, 86,
    87, 88, 89, 90, 91, 92, 93, 94, 95, 96, 97, 98, 99, 100, 101, 102, 103, 104, 105, 106, 107, 108, 109, 110, 111,
    112, 113, 114, 115, 116, 117, 118, 119, 120, 121, 122, 123, 124, 125, 126, 127, 128, 129, 130, 131, 132, 133,
    134, 135, 136, 137, 138, 139, 140, 141, 142, 143, 144, 145, 146, 147, 148, 149, 150, 151, 152, 153, 154, 155,
    156, 157, 158, 159, 160, 161, 162, 163, 164, 165, 166, 167, 168, 169, 170, 171, 172, 173, 174, 175, 176, 177,
    178, 179, 180, 181, 182, 183, 184, 185, 186, 187, 188, 189, 190, 191, 192, 193, 194, 195, 196, 197, 198, 199,
    200, 201, 202, 203, 204, 205, 206, 207, 208, 209, 210, 211, 212, 213, 214, 215, 216, 217, 218, 219, 220, 221,
    222, 223, 224, 225, 226, 227, 228, 229, 230, 231, 232, 233, 234, 235, 236, 237, 238, 239, 240, 241, 242, 243,
    244, 245, 246, 247, 248, 249, 250, 251, 252, 253, 254, 255]"

definition eBuffer_31 :: "(int \<times> int) list" where
  "eBuffer_31 = [
    (0, 0), (1, 1), (2, 2), (3, 3), (4, 4), (5, 5), (6, 6), (7, 7), (8, 8), (9, 9), (10, 10), (11, 11), (12, 12),
    (13, 13), (14, 14), (15, 15), (16, 16), (17, 17), (18, 18), (19, 19), (20, 20), (21, 21), (22, 22), (23, 23),
    (24, 24), (25, 25), (26, 26), (27, 27), (28, 28), (29, 29), (30, 30), (31, 31), (32, 32), (33, 33), (34, 34),
    (35, 35), (36, 36), (37, 37), (38, 38), (39, 39), (40, 40), (41, 41), (42, 42), (43, 43), (44, 44), (45, 45),
    (46, 46), (47, 47), (48, 48), (49, 49), (50, 50), (51, 51), (52, 52), (53, 53), (54, 54), (55, 55), (56, 56),
    (57, 57), (58, 58), (59, 59), (60, 60), (61, 61), (62, 62), (63, 63), (64, 64), (65, 65), (66, 66), (67, 67),
    (68, 68), (69, 69), (70, 70), (71, 71), (72, 72), (73, 73), (74, 74), (75, 75), (76, 76), (77, 77), (78, 78),
    (79, 79), (80, 80), (81, 81), (82, 82), (83, 83), (84, 84), (85, 85), (86, 86), (87, 87), (88, 88), (89, 89),
    (90, 90), (91, 91), (92, 92), (93, 93), (94, 94), (95, 95), (96, 96), (97, 97), (98, 98), (99, 99), (100, 100),
    (101, 101), (102, 102), (103, 103), (104, 104), (105, 105), (106, 106), (107, 107), (108, 108), (109, 109),
    (110, 110), (111, 111), (112, 112), (113, 113), (114, 114), (115, 115), (116, 116), (117, 117), (118, 118),
    (119, 119), (120, 120), (121, 121), (122, 122), (123, 123), (124, 124), (125, 125), (126, 126), (127, 127),
    (128, 128), (129, 129), (130, 130), (131, 131), (132, 132), (133, 133), (134, 134), (135, 135), (136, 136),
    (137, 137), (138, 138), (139, 139), (140, 140), (141, 141), (142, 142), (143, 143), (144, 144), (145, 145),
    (146, 146), (147, 147), (148, 148), (149, 149), (150, 150), (151, 151), (152, 152), (153, 153), (154, 154),
    (155, 155), (156, 156), (157, 157), (158, 158), (159, 159), (160, 160), (161, 161), (162, 162), (163, 163),
    (164, 164), (165, 165), (166, 166), (167, 167), (168, 168), (169, 169), (170, 170), (171, 171), (172, 172),
    (173, 173), (174, 174), (175, 175), (176, 176), (177, 177), (178, 178), (179, 179), (180, 180), (181, 181),
    (182, 182), (183, 183), (184, 184), (185, 185), (186, 186), (187, 187), (188, 188), (189, 189), (190, 190),
    (191, 191), (192, 192), (193, 193), (194, 194), (195, 195), (196, 196), (197, 197), (198, 198), (199, 199),
    (200, 200), (201, 201), (202, 202), (203, 203), (204, 204), (205, 205), (206, 206), (207, 207), (208, 208),
    (209, 209), (210, 210), (211, 211), (212, 212), (213, 213), (214, 214), (215, 215), (216, 216), (217, 217),
    (218, 218), (219, 219), (220, 220), (221, 221), (222, 222), (223, 223), (224, 224), (225, 225), (226, 226),
    (227, 227), (228, 228), (229, 229), (230, 230), (231, 231), (232, 232), (233, 233), (234, 234), (235, 235),
    (236, 236), (237, 237), (238, 238), (239, 239), (240, 240), (241, 241), (242, 242), (243, 243), (244, 244),
    (245, 245), (246, 246), (247, 247), (248, 248), (249, 249), (250, 250), (251, 251), (252, 252), (253, 253),
    (254, 254), (255, 255), (8216, 96), (8213, 45), (63742, 183), (8248, 94), (8764, 126), (63741, 102), (8356, 76),
    (376, 89), (946, 223)]"

definition dBuffer_32 :: "int list" where
  "dBuffer_32 = [
    0, 1, 2, 3, 4, 5, 6, 7, 8, 9, 10, 11, 12, 13, 14, 15, 16, 17, 18, 19, 20, 21, 22, 23, 24, 25, 26, 27, 28, 29, 30,
    31, 32, 33, 34, 35, 36, 37, 38, 39, 40, 41, 42, 43, 44, 45, 46, 47, 48, 49, 50, 51, 52, 53, 54, 55, 56, 57, 58,
    59, 60, 61, 62, 63, 64, 65, 66, 67, 68, 69, 70, 71, 72, 73, 74, 75, 76, 77, 78, 79, 80, 81, 82, 83, 84, 85, 86,
    87, 88, 89, 90, 91, 92, 93, 94, 95, 96, 97, 98, 99, 100, 101, 102, 103, 104, 105, 106, 107, 108, 109, 110, 111,
    112, 113, 114, 115, 116, 117, 118, 119, 120, 121, 122, 123, 124, 125, 126, 127, 128, 129, 130, 131, 132, 133,
    134, 135, 136, 137, 138, 139, 140, 141, 142, 143, 144, 145, 146, 147, 148, 149, 150, 151, 152, 153, 154, 155,
    156, 157, 158, 159, 160, 260, 728, 321, 164, 317, 346, 167, 168, 352, 350, 356, 377, 173, 381, 379, 176, 261,
    731, 322, 180, 318, 347, 711, 184, 353, 351, 357, 378, 733, 382, 380, 340, 193, 194, 258, 196, 313, 262, 199,
    268, 201, 280, 203, 282, 205, 206, 270, 272, 323, 327, 211, 212, 336, 214, 215, 344, 366, 218, 368, 220, 221,
    354, 223, 341, 225, 226, 259, 228, 314, 263, 231, 269, 233, 281, 235, 283, 237, 238, 271, 273, 324, 328, 243,
    244, 337, 246, 247, 345, 367, 250, 369, 252, 253, 355, 729]"

definition eBuffer_32 :: "(int \<times> int) list" where
  "eBuffer_32 = [
    (0, 0), (1, 1), (2, 2), (3, 3), (4, 4), (5, 5), (6, 6), (7, 7), (8, 8), (9, 9), (10, 10), (11, 11), (12, 12),
    (13, 13), (14, 14), (15, 15), (16, 16), (17, 17), (18, 18), (19, 19), (20, 20), (21, 21), (22, 22), (23, 23),
    (24, 24), (25, 25), (26, 26), (27, 27), (28, 28), (29, 29), (30, 30), (31, 31), (32, 32), (33, 33), (34, 34),
    (35, 35), (36, 36), (37, 37), (38, 38), (39, 39), (40, 40), (41, 41), (42, 42), (43, 43), (44, 44), (45, 45),
    (46, 46), (47, 47), (48, 48), (49, 49), (50, 50), (51, 51), (52, 52), (53, 53), (54, 54), (55, 55), (56, 56),
    (57, 57), (58, 58), (59, 59), (60, 60), (61, 61), (62, 62), (63, 63), (64, 64), (65, 65), (66, 66), (67, 67),
    (68, 68), (69, 69), (70, 70), (71, 71), (72, 72), (73, 73), (74, 74), (75, 75), (76, 76), (77, 77), (78, 78),
    (79, 79), (80, 80), (81, 81), (82, 82), (83, 83), (84, 84), (85, 85), (86, 86), (87, 87), (88, 88), (89, 89),
    (90, 90), (91, 91), (92, 92), (93, 93), (94, 94), (95, 95), (96, 96), (97, 97), (98, 98), (99, 99), (100, 100),
    (101, 101), (102, 102), (103, 103), (104, 104), (105, 105), (106, 106), (107, 107), (108, 108), (109, 109),
    (110, 110), (111, 111), (112, 112), (113, 113), (114, 114), (115, 115), (116, 116), (117, 117), (118, 118),
    (119, 119), (120, 120), (121, 121), (122, 122), (123, 123), (124, 124), (125, 125), (126, 126), (127, 127),
    (128, 128), (129, 129), (130, 130), (131, 131), (132, 132), (133, 133), (134, 134), (135, 135), (136, 136),
    (137, 137), (138, 138), (139, 139), (140, 140), (141, 141), (142, 142), (143, 143), (144, 144), (145, 145),
    (146, 146), (147, 147), (148, 148), (149, 149), (150, 150), (151, 151), (152, 152), (153, 153), (154, 154),
    (155, 155), (156, 156), (157, 157), (158, 158), (159, 159), (160, 160), (260, 161), (728, 162), (321, 163),
    (164, 164), (317, 165), (346, 166), (167, 167), (168, 168), (352, 169), (350, 170), (356, 171), (377, 172),
    (173, 173), (381, 174), (379, 175), (176, 176), (261, 177), (731, 178), (322, 179), (180, 180), (318, 181),
    (347, 182), (711, 183), (184, 184), (353, 185), (351, 186), (357, 187), (378, 188), (733, 189), (382, 190),
    (380, 191), (340, 192), (193, 193), (194, 194), (258, 195), (196, 196), (313, 197), (262, 198), (199, 199),
    (268, 200), (201, 201), (280, 202), (203, 203), (282, 204), (205, 205), (206, 206), (270, 207), (272, 208),
    (323, 209), (327, 210), (211, 211), (212, 212), (336, 213), (214, 214), (215, 215), (344, 216), (366, 217),
    (218, 218), (368, 219), (220, 220), (221, 221), (354, 222), (223, 223), (341, 224), (225, 225), (226, 226),
    (259, 227), (228, 228), (314, 229), (263, 230), (231, 231), (269, 232), (233, 233), (281, 234), (235, 235),
    (283, 236), (237, 237), (238, 238), (271, 239), (273, 240), (324, 241), (328, 242), (243, 243), (244, 244),
    (337, 245), (246, 246), (247, 247), (345, 248), (367, 249), (250, 250), (369, 251), (252, 252), (253, 253),
    (355, 254), (729, 255), (730, 176)]"

definition dBuffer_35 :: "int list" where
  "dBuffer_35 = [
    0, 1, 2, 3, 4, 5, 6, 7, 8, 9, 10, 11, 12, 13, 14, 15, 16, 17, 18, 19, 20, 21, 22, 23, 24, 25, 26, 27, 28, 29, 30,
    31, 32, 33, 34, 35, 36, 37, 38, 39, 40, 41, 42, 43, 44, 45, 46, 47, 48, 49, 50, 51, 52, 53, 54, 55, 56, 57, 58,
    59, 60, 61, 62, 63, 64, 65, 66, 67, 68, 69, 70, 71, 72, 73, 74, 75, 76, 77, 78, 79, 80, 81, 82, 83, 84, 85, 86,
    87, 88, 89, 90, 91, 92, 93, 94, 95, 96, 97, 98, 99, 100, 101, 102, 103, 104, 105, 106, 107, 108, 109, 110, 111,
    112, 113, 114, 115, 116, 117, 118, 119, 120, 121, 122, 123, 124, 125, 126, 127, 128, 129, 130, 131, 132, 133,
    134, 135, 136, 137, 138, 139, 140, 141, 142, 143, 144, 145, 146, 147, 148, 149, 150, 151, 152, 153, 154, 155,
    156, 157, 158, 159, 160, 1025, 1026, 1027, 1028, 1029, 1030, 1031, 1032, 1033, 1034, 1035, 1036, 173, 1038, 1039,
    1040, 1041, 1042, 1043, 1044, 1045, 1046, 1047, 1048, 1049, 1050, 1051, 1052, 1053, 1054, 1055, 1056, 1057, 1058,
    1059, 1060, 1061, 1062, 1063, 1064, 1065, 1066, 1067, 1068, 1069, 1070, 1071, 1072, 1073, 1074, 1075, 1076, 1077,
    1078, 1079, 1080, 1081, 1082, 1083, 1084, 1085, 1086, 1087, 1088, 1089, 1090, 1091, 1092, 1093, 1094, 1095, 1096,
    1097, 1098, 1099, 1100, 1101, 1102, 1103, 8470, 1105, 1106, 1107, 1108, 1109, 1110, 1111, 1112, 1113, 1114, 1115,
    1116, 167, 1118, 1119]"

definition eBuffer_35 :: "(int \<times> int) list" where
  "eBuffer_35 = [
    (0, 0), (1, 1), (2, 2), (3, 3), (4, 4), (5, 5), (6, 6), (7, 7), (8, 8), (9, 9), (10, 10), (11, 11), (12, 12),
    (13, 13), (14, 14), (15, 15), (16, 16), (17, 17), (18, 18), (19, 19), (20, 20), (21, 21), (22, 22), (23, 23),
    (24, 24), (25, 25), (26, 26), (27, 27), (28, 28), (29, 29), (30, 30), (31, 31), (32, 32), (33, 33), (34, 34),
    (35, 35), (36, 36), (37, 37), (38, 38), (39, 39), (40, 40), (41, 41), (42, 42), (43, 43), (44, 44), (45, 45),
    (46, 46), (47, 47), (48, 48), (49, 49), (50, 50), (51, 51), (52, 52), (53, 53), (54, 54), (55, 55), (56, 56),
    (57, 57), (58, 58), (59, 59), (60, 60), (61, 61), (62, 62), (63, 63), (64, 64), (65, 65), (66, 66), (67, 67),
    (68, 68), (69, 69), (70, 70), (71, 71), (72, 72), (73, 73), (74, 74), (75, 75), (76, 76), (77, 77), (78, 78),
    (79, 79), (80, 80), (81, 81), (82, 82), (83, 83), (84, 84), (85, 85), (86, 86), (87, 87), (88, 88), (89, 89),
    (90, 90), (91, 91), (92, 92), (93, 93), (94, 94), (95, 95), (96, 96), (97, 97), (98, 98), (99, 99), (100, 100),
    (101, 101), (102, 102), (103, 103), (104, 104), (105, 105), (106, 106), (107, 107), (108, 108), (109, 109),
    (110, 110), (111, 111), (112, 112), (113, 113), (114, 114), (115, 115), (116, 116), (117, 117), (118, 118),
    (119, 119), (120, 120), (121, 121), (122, 122), (123, 123), (124, 124), (125, 125), (126, 126), (127, 127),
    (128, 128), (129, 129), (130, 130), (131, 131), (132, 132), (133, 133), (134, 134), (135, 135), (136, 136),
    (137, 137), (138, 138), (139, 139), (140, 140), (141, 141), (142, 142), (143, 143), (144, 144), (145, 145),
    (146, 146), (147, 147), (148, 148), (149, 149), (150, 150), (151, 151), (152, 152), (153, 153), (154, 154),
    (155, 155), (156, 156), (157, 157), (158, 158), (159, 159), (160, 160), (1025, 161), (1026, 162), (1027, 163),
    (1028, 164), (1029, 165), (1030, 166), (1031, 167), (1032, 168), (1033, 169), (1034, 170), (1035, 171),
    (1036, 172), (173, 173), (1038, 174), (1039, 175), (1040, 176), (1041, 177), (1042, 178), (1043, 179),
    (1044, 180), (1045, 181), (1046, 182), (1047, 183), (1048, 184), (1049, 185), (1050, 186), (1051, 187),
    (1052, 188), (1053, 189), (1054, 190), (1055, 191), (1056, 192), (1057, 193), (1058, 194), (1059, 195),
    (1060, 196), (1061, 197), (1062, 198), (1063, 199), (1064, 200), (1065, 201), (1066, 202), (1067, 203),
    (1068, 204), (1069, 205), (1070, 206), (1071, 207), (1072, 208), (1073, 209), (1074, 210), (1075, 211),
    (1076, 212), (1077, 213), (1078, 214), (1079, 215), (1080, 216), (1081, 217), (1082, 218), (1083, 219),
    (1084, 220), (1085, 221), (1086, 222), (1087, 223), (1088, 224), (1089, 225), (1090, 226), (1091, 227),
    (1092, 228), (1093, 229), (1094, 230), (1095, 231), (1096, 232), (1097, 233), (1098, 234), (1099, 235),
    (1100, 236), (1101, 237), (1102, 238), (1103, 239), (8470, 240), (1105, 241), (1106, 242), (1107, 243),
    (1108, 244), (1109, 245), (1110, 246), (1111, 247), (1112, 248), (1113, 249), (1114, 250), (1115, 251),
    (1116, 252), (167, 253), (1118, 254), (1119, 255)]"

definition dBuffer_39 :: "int list" where
  "dBuffer_39 = [
    0, 1, 2, 3, 4, 5, 6, 7, 8, 9, 10, 11, 12, 13, 14, 15, 16, 17, 18, 19, 20, 21, 22, 23, 24, 25, 26, 27, 28, 29, 30,
    31, 32, 33, 34, 35, 36, 37, 38, 39, 40, 41, 42, 43, 44, 45, 46, 47, 48, 49, 50, 51, 52, 53, 54, 55, 56, 57, 58,
    59, 60, 61, 62, 63, 64, 65, 66, 67, 68, 69, 70, 71, 72, 73, 74, 75, 76, 77, 78, 79, 80, 81, 82, 83, 84, 85, 86,
    87, 88, 89, 90, 91, 92, 93, 94, 95, 96, 97, 98, 99, 100, 101, 102, 103, 104, 105, 106, 107, 108, 109, 110, 111,
    112, 113, 114, 115, 116, 117, 118, 119, 120, 121, 122, 123, 124, 125, 126, 127, 128, 129, 130, 131, 132, 133,
    134, 135, 136, 137, 138, 139, 140, 141, 142, 143, 144, 145, 146, 147, 148, 149, 150, 151, 152, 153, 154, 155,
    156, 157, 158, 159, 160, 161, 162, 163, 164, 165, 166, 167, 168, 169, 170, 171, 172, 173, 174, 175, 176, 177,
    178, 179, 180, 181, 182, 183, 184, 185, 186, 187, 188, 189, 190, 191, 192, 193, 194, 195, 196, 197, 198, 199,
    200, 201, 202, 203, 204, 205, 206, 207, 286, 209, 210, 211, 212, 213, 214, 215, 216, 217, 218, 219, 220, 304,
    350, 223, 224, 225, 226, 227, 228, 229, 230, 231, 232, 233, 234, 235, 236, 237, 238, 239, 287, 241, 242, 243,
    244, 245, 246, 247, 248, 249, 250, 251, 252, 305, 351, 255]"

definition eBuffer_39 :: "(int \<times> int) list" where
  "eBuffer_39 = [
    (0, 0), (1, 1), (2, 2), (3, 3), (4, 4), (5, 5), (6, 6), (7, 7), (8, 8), (9, 9), (10, 10), (11, 11), (12, 12),
    (13, 13), (14, 14), (15, 15), (16, 16), (17, 17), (18, 18), (19, 19), (20, 20), (21, 21), (22, 22), (23, 23),
    (24, 24), (25, 25), (26, 26), (27, 27), (28, 28), (29, 29), (30, 30), (31, 31), (32, 32), (33, 33), (34, 34),
    (35, 35), (36, 36), (37, 37), (38, 38), (39, 39), (40, 40), (41, 41), (42, 42), (43, 43), (44, 44), (45, 45),
    (46, 46), (47, 47), (48, 48), (49, 49), (50, 50), (51, 51), (52, 52), (53, 53), (54, 54), (55, 55), (56, 56),
    (57, 57), (58, 58), (59, 59), (60, 60), (61, 61), (62, 62), (63, 63), (64, 64), (65, 65), (66, 66), (67, 67),
    (68, 68), (69, 69), (70, 70), (71, 71), (72, 72), (73, 73), (74, 74), (75, 75), (76, 76), (77, 77), (78, 78),
    (79, 79), (80, 80), (81, 81), (82, 82), (83, 83), (84, 84), (85, 85), (86, 86), (87, 87), (88, 88), (89, 89),
    (90, 90), (91, 91), (92, 92), (93, 93), (94, 94), (95, 95), (96, 96), (97, 97), (98, 98), (99, 99), (100, 100),
    (101, 101), (102, 102), (103, 103), (104, 104), (105, 105), (106, 106), (107, 107), (108, 108), (109, 109),
    (110, 110), (111, 111), (112, 112), (113, 113), (114, 114), (115, 115), (116, 116), (117, 117), (118, 118),
    (119, 119), (120, 120), (121, 121), (122, 122), (123, 123), (124, 124), (125, 125), (126, 126), (127, 127),
    (128, 128), (129, 129), (130, 130), (131, 131), (132, 132), (133, 133), (134, 134), (135, 135), (136, 136),
    (137, 137), (138, 138), (139, 139), (140, 140), (141, 141), (142, 142), (143, 143), (144, 144), (145, 145),
    (146, 146), (147, 147), (148, 148), (149, 149), (150, 150), (151, 151), (152, 152), (153, 153), (154, 154),
    (155, 155), (156, 156), (157, 157), (158, 158), (159, 159), (160, 160), (161, 161), (162, 162), (163, 163),
    (164, 164), (165, 165), (166, 166), (167, 167), (168, 168), (169, 169), (170, 170), (171, 171), (172, 172),
    (173, 173), (174, 174), (175, 175), (176, 176), (177, 177), (178, 178), (179, 179), (180, 180), (181, 181),
    (182, 182), (183, 183), (184, 184), (185, 185), (186, 186), (187, 187), (188, 188), (189, 189), (190, 190),
    (191, 191), (192, 192), (193, 193), (194, 194), (195, 195), (196, 196), (197, 197), (198, 198), (199, 199),
    (200, 200), (201, 201), (202, 202), (203, 203), (204, 204), (205, 205), (206, 206), (207, 207), (286, 208),
    (209, 209), (210, 210), (211, 211), (212, 212), (213, 213), (214, 214), (215, 215), (216, 216), (217, 217),
    (218, 218), (219, 219), (220, 220), (304, 221), (350, 222), (223, 223), (224, 224), (225, 225), (226, 226),
    (227, 227), (228, 228), (229, 229), (230, 230), (231, 231), (232, 232), (233, 233), (234, 234), (235, 235),
    (236, 236), (237, 237), (238, 238), (239, 239), (287, 240), (241, 241), (242, 242), (243, 243), (244, 244),
    (245, 245), (246, 246), (247, 247), (248, 248), (249, 249), (250, 250), (251, 251), (252, 252), (305, 253),
    (351, 254), (255, 255), (8216, 96), (8213, 45), (63742, 183), (8248, 94), (8764, 126), (63741, 102), (8356, 76),
    (63738, 73), (376, 89), (63736, 105), (946, 223)]"

definition dBuffer_46 :: "int list" where
  "dBuffer_46 = [
    0, 1, 2, 3, 4, 5, 6, 7, 8, 9, 10, 11, 12, 13, 14, 15, 16, 17, 18, 19, 20, 21, 22, 23, 24, 25, 26, 27, 28, 29, 30,
    31, 32, 33, 34, 35, 36, 37, 38, 39, 40, 41, 42, 43, 44, 45, 46, 47, 48, 49, 50, 51, 52, 53, 54, 55, 56, 57, 58,
    59, 60, 61, 62, 63, 64, 65, 66, 67, 68, 69, 70, 71, 72, 73, 74, 75, 76, 77, 78, 79, 80, 81, 82, 83, 84, 85, 86,
    87, 88, 89, 90, 91, 92, 93, 94, 95, 96, 97, 98, 99, 100, 101, 102, 103, 104, 105, 106, 107, 108, 109, 110, 111,
    112, 113, 114, 115, 116, 117, 118, 119, 120, 121, 122, 123, 124, 125, 126, 127, 128, 129, 130, 131, 132, 133,
    134, 135, 136, 137, 138, 139, 140, 141, 142, 143, 144, 145, 146, 147, 148, 149, 150, 151, 152, 153, 154, 155,
    156, 157, 158, 159, 160, 161, 162, 163, 8364, 165, 352, 167, 353, 169, 170, 171, 172, 173, 174, 175, 176, 177,
    178, 179, 381, 181, 182, 183, 382, 185, 186, 187, 338, 339, 376, 191, 192, 193, 194, 195, 196, 197, 198, 199,
    200, 201, 202, 203, 204, 205, 206, 207, 208, 209, 210, 211, 212, 213, 214, 215, 216, 217, 218, 219, 220, 221,
    222, 223, 224, 225, 226, 227, 228, 229, 230, 231, 232, 233, 234, 235, 236, 237, 238, 239, 240, 241, 242, 243,
    244, 245, 246, 247, 248, 249, 250, 251, 252, 253, 254, 255]"

definition eBuffer_46 :: "(int \<times> int) list" where
  "eBuffer_46 = [
    (0, 0), (1, 1), (2, 2), (3, 3), (4, 4), (5, 5), (6, 6), (7, 7), (8, 8), (9, 9), (10, 10), (11, 11), (12, 12),
    (13, 13), (14, 14), (15, 15), (16, 16), (17, 17), (18, 18), (19, 19), (20, 20), (21, 21), (22, 22), (23, 23),
    (24, 24), (25, 25), (26, 26), (27, 27), (28, 28), (29, 29), (30, 30), (31, 31), (32, 32), (33, 33), (34, 34),
    (35, 35), (36, 36), (37, 37), (38, 38), (39, 39), (40, 40), (41, 41), (42, 42), (43, 43), (44, 44), (45, 45),
    (46, 46), (47, 47), (48, 48), (49, 49), (50, 50), (51, 51), (52, 52), (53, 53), (54, 54), (55, 55), (56, 56),
    (57, 57), (58, 58), (59, 59), (60, 60), (61, 61), (62, 62), (63, 63), (64, 64), (65, 65), (66, 66), (67, 67),
    (68, 68), (69, 69), (70, 70), (71, 71), (72, 72), (73, 73), (74, 74), (75, 75), (76, 76), (77, 77), (78, 78),
    (79, 79), (80, 80), (81, 81), (82, 82), (83, 83), (84, 84), (85, 85), (86, 86), (87, 87), (88, 88), (89, 89),
    (90, 90), (91, 91), (92, 92), (93, 93), (94, 94), (95, 95), (96, 96), (97, 97), (98, 98), (99, 99), (100, 100),
    (101, 101), (102, 102), (103, 103), (104, 104), (105, 105), (106, 106), (107, 107), (108, 108), (109, 109),
    (110, 110), (111, 111), (112, 112), (113, 113), (114, 114), (115, 115), (116, 116), (117, 117), (118, 118),
    (119, 119), (120, 120), (121, 121), (122, 122), (123, 123), (124, 124), (125, 125), (126, 126), (127, 127),
    (128, 128), (129, 129), (130, 130), (131, 131), (132, 132), (133, 133), (134, 134), (135, 135), (136, 136),
    (137, 137), (138, 138), (139, 139), (140, 140), (141, 141), (142, 142), (143, 143), (144, 144), (145, 145),
    (146, 146), (147, 147), (148, 148), (149, 149), (150, 150), (151, 151), (152, 152), (153, 153), (154, 154),
    (155, 155), (156, 156), (157, 157), (158, 158), (159, 159), (160, 160), (161, 161), (162, 162), (163, 163),
    (8364, 164), (165, 165), (352, 166), (167, 167), (353, 168), (169, 169), (170, 170), (171, 171), (172, 172),
    (173, 173), (174, 174), (175, 175), (176, 176), (177, 177), (178, 178), (179, 179), (381, 180), (181, 181),
    (182, 182), (183, 183), (382, 184), (185, 185), (186, 186), (187, 187), (338, 188), (339, 189), (376, 190),
    (191, 191), (192, 192), (193, 193), (194, 194), (195, 195), (196, 196), (197, 197), (198, 198), (199, 199),
    (200, 200), (201, 201), (202, 202), (203, 203), (204, 204), (205, 205), (206, 206), (207, 207), (208, 208),
    (209, 209), (210, 210), (211, 211), (212, 212), (213, 213), (214, 214), (215, 215), (216, 216), (217, 217),
    (218, 218), (219, 219), (220, 220), (221, 221), (222, 222), (223, 223), (224, 224), (225, 225), (226, 226),
    (227, 227), (228, 228), (229, 229), (230, 230), (231, 231), (232, 232), (233, 233), (234, 234), (235, 235),
    (236, 236), (237, 237), (238, 238), (239, 239), (240, 240), (241, 241), (242, 242), (243, 243), (244, 244),
    (245, 245), (246, 246), (247, 247), (248, 248), (249, 249), (250, 250), (251, 251), (252, 252), (253, 253),
    (254, 254), (255, 255), (8216, 96), (8213, 45), (63742, 183), (8248, 94), (8764, 126), (63741, 102), (8356, 76),
    (946, 223)]"

definition dBuffer_170 :: "int list" where
  "dBuffer_170 = [
    0, 1, 2, 3, 4, 5, 6, 7, 8, 9, 10, 11, 12, 13, 14, 15, 16, 17, 18, 19, 20, 21, 22, 23, 24, 25, 26, 27, 28, 29, 30,
    31, 32, 33, 34, 35, 36, 37, 38, 39, 40, 41, 42, 43, 44, 45, 46, 47, 48, 49, 50, 51, 52, 53, 54, 55, 56, 57, 58,
    59, 60, 61, 62, 63, 64, 65, 66, 67, 68, 69, 70, 71, 72, 73, 74, 75, 76, 77, 78, 79, 80, 81, 82, 83, 84, 85, 86,
    87, 88, 89, 90, 91, 92, 93, 94, 95, 96, 97, 98, 99, 100, 101, 102, 103, 104, 105, 106, 107, 108, 109, 110, 111,
    112, 113, 114, 115, 116, 117, 118, 119, 120, 121, 122, 123, 124, 125, 126, 127, 8364, 129, 8218, 131, 8222, 8230,
    8224, 8225, 136, 8240, 352, 8249, 346, 356, 381, 377, 144, 8216, 8217, 8220, 8221, 8226, 8211, 8212, 152, 8482,
    353, 8250, 347, 357, 382, 378, 160, 711, 728, 321, 164, 260, 166, 167, 168, 169, 350, 171, 172, 173, 174, 379,
    176, 177, 731, 322, 180, 181, 182, 183, 184, 261, 351, 187, 317, 733, 318, 380, 340, 193, 194, 258, 196, 313,
    262, 199, 268, 201, 280, 203, 282, 205, 206, 270, 272, 323, 327, 211, 212, 336, 214, 215, 344, 366, 218, 368,
    220, 221, 354, 223, 341, 225, 226, 259, 228, 314, 263, 231, 269, 233, 281, 235, 283, 237, 238, 271, 273, 324,
    328, 243, 244, 337, 246, 247, 345, 367, 250, 369, 252, 253, 355, 729]"

definition eBuffer_170 :: "(int \<times> int) list" where
  "eBuffer_170 = [
    (0, 0), (1, 1), (2, 2), (3, 3), (4, 4), (5, 5), (6, 6), (7, 7), (8, 8), (9, 9), (10, 10), (11, 11), (12, 12),
    (13, 13), (14, 14), (15, 15), (16, 16), (17, 17), (18, 18), (19, 19), (20, 20), (21, 21), (22, 22), (23, 23),
    (24, 24), (25, 25), (26, 26), (27, 27), (28, 28), (29, 29), (30, 30), (31, 31), (32, 32), (33, 33), (34, 34),
    (35, 35), (36, 36), (37, 37), (38, 38), (39, 39), (40, 40), (41, 41), (42, 42), (43, 43), (44, 44), (45, 45),
    (46, 46), (47, 47), (48, 48), (49, 49), (50, 50), (51, 51), (52, 52), (53, 53), (54, 54), (55, 55), (56, 56),
    (57, 57), (58, 58), (59, 59), (60, 60), (61, 61), (62, 62), (63, 63), (64, 64), (65, 65), (66, 66), (67, 67),
    (68, 68), (69, 69), (70, 70), (71, 71), (72, 72), (73, 73), (74, 74), (75, 75), (76, 76), (77, 77), (78, 78),
    (79, 79), (80, 80), (81, 81), (82, 82), (83, 83), (84, 84), (85, 85), (86, 86), (87, 87), (88, 88), (89, 89),
    (90, 90), (91, 91), (92, 92), (93, 93), (94, 94), (95, 95), (96, 96), (97, 97), (98, 98), (99, 99), (100, 100),
    (101, 101), (102, 102), (103, 103), (104, 104), (105, 105), (106, 106), (107, 107), (108, 108), (109, 109),
    (110, 110), (111, 111), (112, 112), (113, 113), (114, 114), (115, 115), (116, 116), (117, 117), (118, 118),
    (119, 119), (120, 120), (121, 121), (122, 122), (123, 123), (124, 124), (125, 125), (126, 126), (127, 127),
    (8364, 128), (129, 129), (8218, 130), (131, 131), (8222, 132), (8230, 133), (8224, 134), (8225, 135), (136, 136),
    (8240, 137), (352, 138), (8249, 139), (346, 140), (356, 141), (381, 142), (377, 143), (144, 144), (8216, 145),
    (8217, 146), (8220, 147), (8221, 148), (8226, 149), (8211, 150), (8212, 151), (152, 152), (8482, 153),
    (353, 154), (8250, 155), (347, 156), (357, 157), (382, 158), (378, 159), (160, 160), (711, 161), (728, 162),
    (321, 163), (164, 164), (260, 165), (166, 166), (167, 167), (168, 168), (169, 169), (350, 170), (171, 171),
    (172, 172), (173, 173), (174, 174), (379, 175), (176, 176), (177, 177), (731, 178), (322, 179), (180, 180),
    (181, 181), (182, 182), (183, 183), (184, 184), (261, 185), (351, 186), (187, 187), (317, 188), (733, 189),
    (318, 190), (380, 191), (340, 192), (193, 193), (194, 194), (258, 195), (196, 196), (313, 197), (262, 198),
    (199, 199), (268, 200), (201, 201), (280, 202), (203, 203), (282, 204), (205, 205), (206, 206), (270, 207),
    (272, 208), (323, 209), (327, 210), (211, 211), (212, 212), (336, 213), (214, 214), (215, 215), (344, 216),
    (366, 217), (218, 218), (368, 219), (220, 220), (221, 221), (354, 222), (223, 223), (341, 224), (225, 225),
    (226, 226), (259, 227), (228, 228), (314, 229), (263, 230), (231, 231), (269, 232), (233, 233), (281, 234),
    (235, 235), (283, 236), (237, 237), (238, 238), (271, 239), (273, 240), (324, 241), (328, 242), (243, 243),
    (244, 244), (337, 245), (246, 246), (247, 247), (345, 248), (367, 249), (250, 250), (369, 251), (252, 252),
    (253, 253), (355, 254), (729, 255), (161, 33), (162, 99), (163, 76), (165, 89), (170, 97), (175, 151), (178, 50),
    (179, 51), (185, 49), (186, 111), (188, 49), (189, 49), (190, 51), (192, 65), (195, 65), (197, 65), (198, 65),
    (200, 69), (202, 69), (204, 73), (207, 73), (209, 78), (210, 79), (213, 79), (216, 79), (217, 85), (219, 85),
    (224, 97), (227, 97), (229, 97), (230, 97), (232, 101), (234, 101), (236, 105), (239, 105), (241, 110),
    (242, 111), (245, 111), (248, 111), (249, 117), (251, 117), (255, 121), (256, 65), (257, 97), (264, 67),
    (265, 99), (266, 67), (267, 99), (274, 69), (275, 101), (276, 69), (277, 101), (278, 69), (279, 101), (284, 71),
    (285, 103), (286, 71), (287, 103), (288, 71), (289, 103), (290, 71), (291, 103), (292, 72), (293, 104),
    (294, 72), (295, 104), (296, 73), (297, 105), (298, 73), (299, 105), (300, 73), (301, 105), (302, 73),
    (303, 105), (304, 73), (305, 105), (308, 74), (309, 106), (310, 75), (311, 107), (315, 76), (316, 108),
    (325, 78), (326, 110), (332, 79), (333, 111), (334, 79), (335, 111), (338, 79), (339, 111), (342, 82),
    (343, 114), (348, 83), (349, 115), (358, 84), (359, 116), (360, 85), (361, 117), (362, 85), (363, 117),
    (364, 85), (365, 117), (370, 85), (371, 117), (372, 87), (373, 119), (374, 89), (375, 121), (376, 89), (384, 98),
    (393, 208), (401, 70), (402, 102), (407, 73), (410, 108), (415, 79), (416, 79), (417, 111), (427, 116),
    (430, 84), (431, 85), (432, 117), (438, 122), (448, 124), (451, 33), (461, 65), (462, 97), (463, 73), (464, 105),
    (465, 79), (466, 111), (467, 85), (468, 117), (469, 85), (470, 117), (471, 85), (472, 117), (473, 85),
    (474, 117), (475, 85), (476, 117), (478, 65), (479, 97), (484, 71), (485, 103), (486, 71), (487, 103), (488, 75),
    (489, 107), (490, 79), (491, 111), (492, 79), (493, 111), (496, 106), (609, 103), (697, 39), (698, 34),
    (699, 145), (700, 39), (708, 94), (710, 94), (712, 39), (713, 175), (714, 180), (715, 96), (717, 95), (730, 176),
    (732, 126), (768, 96), (769, 180), (770, 94), (771, 126), (772, 175), (773, 175), (774, 162), (775, 255),
    (776, 168), (778, 176), (780, 161), (782, 34), (807, 184), (817, 95), (818, 95), (894, 59), (946, 223),
    (956, 181), (1211, 104), (1417, 58), (1642, 37), (8192, 32), (8193, 32), (8194, 32), (8195, 32), (8196, 32),
    (8197, 32), (8198, 32), (8208, 45), (8209, 45), (8228, 149), (8242, 39), (8243, 148), (8245, 96), (8252, 33),
    (8260, 47), (8304, 176), (8308, 52), (8309, 53), (8310, 54), (8311, 55), (8312, 56), (8320, 48), (8321, 49),
    (8322, 50), (8323, 51), (8324, 52), (8325, 53), (8326, 54), (8327, 55), (8328, 56), (8329, 57), (8356, 163),
    (8450, 67), (8455, 69), (8458, 103), (8459, 72), (8460, 72), (8461, 72), (8462, 104), (8464, 73), (8465, 73),
    (8466, 76), (8467, 108), (8469, 78), (8472, 80), (8473, 80), (8474, 81), (8475, 82), (8476, 82), (8477, 82),
    (8484, 90), (8488, 90), (8490, 75), (8491, 197), (8492, 66), (8493, 67), (8494, 101), (8495, 101), (8496, 69),
    (8497, 70), (8499, 77), (8500, 111), (8592, 139), (8593, 94), (8594, 155), (8595, 161), (8596, 45), (8597, 124),
    (8616, 124), (8709, 216), (8722, 45), (8723, 177), (8725, 47), (8726, 92), (8727, 42), (8728, 176), (8729, 149),
    (8735, 76), (8739, 124), (8758, 58), (8764, 126), (8810, 171), (8811, 187), (8901, 183), (8962, 166), (8963, 94),
    (9001, 60), (9002, 62), (9472, 166), (9474, 45), (9484, 45), (9488, 172), (9492, 76), (9496, 45), (9500, 43),
    (9508, 43), (9516, 84), (9524, 43), (9532, 43), (9552, 61), (9553, 166), (9556, 45), (9559, 172), (9562, 76),
    (9565, 45), (9568, 166), (9571, 166), (9574, 84), (9577, 166), (9580, 43), (9600, 45), (9604, 45), (9608, 45),
    (9617, 45), (9618, 45), (9619, 45), (9632, 166), (9644, 45), (9650, 94), (9658, 62), (9660, 161), (9668, 60),
    (9675, 48), (9688, 149), (9689, 48), (9786, 162), (9787, 162), (9788, 48), (9792, 43), (9794, 62), (9824, 166),
    (9827, 166), (9829, 166), (9830, 166), (9834, 100), (9835, 100), (10072, 124), (10075, 145), (10076, 146),
    (10077, 147), (10078, 148), (12288, 32), (12296, 60), (12297, 62), (12298, 171), (12299, 187), (12314, 91),
    (12315, 93), (12317, 147), (12318, 148), (12319, 132), (12539, 183), (12540, 151), (65281, 33), (65282, 34),
    (65283, 35), (65284, 36), (65285, 37), (65286, 38), (65287, 39), (65288, 40), (65289, 41), (65290, 42),
    (65291, 43), (65292, 44), (65293, 45), (65294, 46), (65295, 47), (65296, 48), (65297, 49), (65298, 50),
    (65299, 51), (65300, 52), (65301, 53), (65302, 54), (65303, 55), (65304, 56), (65305, 57), (65306, 58),
    (65307, 59), (65308, 60), (65309, 61), (65310, 62), (65312, 64), (65313, 65), (65314, 66), (65315, 67),
    (65316, 68), (65317, 69), (65318, 70), (65319, 71), (65320, 72), (65321, 73), (65322, 74), (65323, 75),
    (65324, 76), (65325, 77), (65326, 78), (65327, 79), (65328, 80), (65329, 81), (65330, 82), (65331, 83),
    (65332, 84), (65333, 85), (65334, 86), (65335, 87), (65336, 88), (65337, 89), (65338, 90), (65339, 91),
    (65340, 92), (65341, 93), (65342, 94), (65343, 95), (65344, 96), (65345, 97), (65346, 98), (65347, 99),
    (65348, 100), (65349, 101), (65350, 102), (65351, 103), (65352, 104), (65353, 105), (65354, 106), (65355, 107),
    (65356, 108), (65357, 109), (65358, 110), (65359, 111), (65360, 112), (65361, 113), (65362, 114), (65363, 115),
    (65364, 116), (65365, 117), (65366, 118), (65367, 119), (65368, 120), (65369, 121), (65370, 122), (65371, 123),
    (65372, 124), (65373, 125), (65374, 126)]"

definition dBuffer_171 :: "int list" where
  "dBuffer_171 = [
    0, 1, 2, 3, 4, 5, 6, 7, 8, 9, 10, 11, 12, 13, 14, 15, 16, 17, 18, 19, 20, 21, 22, 23, 24, 25, 26, 27, 28, 29, 30,
    31, 32, 33, 34, 35, 36, 37, 38, 39, 40, 41, 42, 43, 44, 45, 46, 47, 48, 49, 50, 51, 52, 53, 54, 55, 56, 57, 58,
    59, 60, 61, 62, 63, 64, 65, 66, 67, 68, 69, 70, 71, 72, 73, 74, 75, 76, 77, 78, 79, 80, 81, 82, 83, 84, 85, 86,
    87, 88, 89, 90, 91, 92, 93, 94, 95, 96, 97, 98, 99, 100, 101, 102, 103, 104, 105, 106, 107, 108, 109, 110, 111,
    112, 113, 114, 115, 116, 117, 118, 119, 120, 121, 122, 123, 124, 125, 126, 127, 1026, 1027, 8218, 1107, 8222,
    8230, 8224, 8225, 8364, 8240, 1033, 8249, 1034, 1036, 1035, 1039, 1106, 8216, 8217, 8220, 8221, 8226, 8211, 8212,
    152, 8482, 1113, 8250, 1114, 1116, 1115, 1119, 160, 1038, 1118, 1032, 164, 1168, 166, 167, 1025, 169, 1028, 171,
    172, 173, 174, 1031, 176, 177, 1030, 1110, 1169, 181, 182, 183, 1105, 8470, 1108, 187, 1112, 1029, 1109, 1111,
    1040, 1041, 1042, 1043, 1044, 1045, 1046, 1047, 1048, 1049, 1050, 1051, 1052, 1053, 1054, 1055, 1056, 1057, 1058,
    1059, 1060, 1061, 1062, 1063, 1064, 1065, 1066, 1067, 1068, 1069, 1070, 1071, 1072, 1073, 1074, 1075, 1076, 1077,
    1078, 1079, 1080, 1081, 1082, 1083, 1084, 1085, 1086, 1087, 1088, 1089, 1090, 1091, 1092, 1093, 1094, 1095, 1096,
    1097, 1098, 1099, 1100, 1101, 1102, 1103]"

definition eBuffer_171 :: "(int \<times> int) list" where
  "eBuffer_171 = [
    (0, 0), (1, 1), (2, 2), (3, 3), (4, 4), (5, 5), (6, 6), (7, 7), (8, 8), (9, 9), (10, 10), (11, 11), (12, 12),
    (13, 13), (14, 14), (15, 15), (16, 16), (17, 17), (18, 18), (19, 19), (20, 20), (21, 21), (22, 22), (23, 23),
    (24, 24), (25, 25), (26, 26), (27, 27), (28, 28), (29, 29), (30, 30), (31, 31), (32, 32), (33, 33), (34, 34),
    (35, 35), (36, 36), (37, 37), (38, 38), (39, 39), (40, 40), (41, 41), (42, 42), (43, 43), (44, 44), (45, 45),
    (46, 46), (47, 47), (48, 48), (49, 49), (50, 50), (51, 51), (52, 52), (53, 53), (54, 54), (55, 55), (56, 56),
    (57, 57), (58, 58), (59, 59), (60, 60), (61, 61), (62, 62), (63, 63), (64, 64), (65, 65), (66, 66), (67, 67),
    (68, 68), (69, 69), (70, 70), (71, 71), (72, 72), (73, 73), (74, 74), (75, 75), (76, 76), (77, 77), (78, 78),
    (79, 79), (80, 80), (81, 81), (82, 82), (83, 83), (84, 84), (85, 85), (86, 86), (87, 87), (88, 88), (89, 89),
    (90, 90), (91, 91), (92, 92), (93, 93), (94, 94), (95, 95), (96, 96), (97, 97), (98, 98), (99, 99), (100, 100),
    (101, 101), (102, 102), (103, 103), (104, 104), (105, 105), (106, 106), (107, 107), (108, 108), (109, 109),
    (110, 110), (111, 111), (112, 112), (113, 113), (114, 114), (115, 115), (116, 116), (117, 117), (118, 118),
    (119, 119), (120, 120), (121, 121), (122, 122), (123, 123), (124, 124), (125, 125), (126, 126), (127, 127),
    (1026, 128), (1027, 129), (8218, 130), (1107, 131), (8222, 132), (8230, 133), (8224, 134), (8225, 135),
    (8364, 136), (8240, 137), (1033, 138), (8249, 139), (1034, 140), (1036, 141), (1035, 142), (1039, 143),
    (1106, 144), (8216, 145), (8217, 146), (8220, 147), (8221, 148), (8226, 149), (8211, 150), (8212, 151),
    (152, 152), (8482, 153), (1113, 154), (8250, 155), (1114, 156), (1116, 157), (1115, 158), (1119, 159),
    (160, 160), (1038, 161), (1118, 162), (1032, 163), (164, 164), (1168, 165), (166, 166), (167, 167), (1025, 168),
    (169, 169), (1028, 170), (171, 171), (172, 172), (173, 173), (174, 174), (1031, 175), (176, 176), (177, 177),
    (1030, 178), (1110, 179), (1169, 180), (181, 181), (182, 182), (183, 183), (1105, 184), (8470, 185), (1108, 186),
    (187, 187), (1112, 188), (1029, 189), (1109, 190), (1111, 191), (1040, 192), (1041, 193), (1042, 194),
    (1043, 195), (1044, 196), (1045, 197), (1046, 198), (1047, 199), (1048, 200), (1049, 201), (1050, 202),
    (1051, 203), (1052, 204), (1053, 205), (1054, 206), (1055, 207), (1056, 208), (1057, 209), (1058, 210),
    (1059, 211), (1060, 212), (1061, 213), (1062, 214), (1063, 215), (1064, 216), (1065, 217), (1066, 218),
    (1067, 219), (1068, 220), (1069, 221), (1070, 222), (1071, 223), (1072, 224), (1073, 225), (1074, 226),
    (1075, 227), (1076, 228), (1077, 229), (1078, 230), (1079, 231), (1080, 232), (1081, 233), (1082, 234),
    (1083, 235), (1084, 236), (1085, 237), (1086, 238), (1087, 239), (1088, 240), (1089, 241), (1090, 242),
    (1091, 243), (1092, 244), (1093, 245), (1094, 246), (1095, 247), (1096, 248), (1097, 249), (1098, 250),
    (1099, 251), (1100, 252), (1101, 253), (1102, 254), (1103, 255), (192, 65), (193, 65), (194, 65), (195, 65),
    (196, 65), (197, 65), (199, 67), (200, 69), (201, 69), (202, 69), (203, 69), (204, 73), (205, 73), (206, 73),
    (207, 73), (209, 78), (210, 79), (211, 79), (212, 79), (213, 79), (214, 79), (216, 79), (217, 85), (218, 85),
    (219, 85), (220, 85), (221, 89), (224, 97), (225, 97), (226, 97), (227, 97), (228, 97), (229, 97), (231, 99),
    (232, 101), (233, 101), (234, 101), (235, 101), (236, 105), (237, 105), (238, 105), (239, 105), (241, 110),
    (242, 111), (243, 111), (244, 111), (245, 111), (246, 111), (248, 111), (249, 117), (250, 117), (251, 117),
    (252, 117), (253, 121), (255, 121), (256, 65), (257, 97), (258, 65), (259, 97), (260, 65), (261, 97), (262, 67),
    (263, 99), (264, 67), (265, 99), (266, 67), (267, 99), (268, 67), (269, 99), (270, 68), (271, 100), (272, 68),
    (273, 100), (274, 69), (275, 101), (276, 69), (277, 101), (278, 69), (279, 101), (280, 69), (281, 101),
    (282, 69), (283, 101), (284, 71), (285, 103), (286, 71), (287, 103), (288, 71), (289, 103), (290, 71),
    (291, 103), (292, 72), (293, 104), (294, 72), (295, 104), (296, 73), (297, 105), (298, 73), (299, 105),
    (300, 73), (301, 105), (302, 73), (303, 105), (304, 73), (308, 74), (309, 106), (310, 75), (311, 107), (313, 76),
    (314, 108), (315, 76), (316, 108), (317, 76), (318, 108), (321, 76), (322, 108), (323, 78), (324, 110),
    (325, 78), (326, 110), (327, 78), (328, 110), (332, 79), (333, 111), (334, 79), (335, 111), (336, 79),
    (337, 111), (340, 82), (341, 114), (342, 82), (343, 114), (344, 82), (345, 114), (346, 83), (347, 115),
    (348, 83), (349, 115), (350, 83), (351, 115), (352, 83), (353, 115), (354, 84), (355, 116), (356, 84),
    (357, 116), (358, 84), (359, 116), (360, 85), (361, 117), (362, 85), (363, 117), (364, 85), (365, 117),
    (366, 85), (367, 117), (368, 85), (369, 117), (370, 85), (371, 117), (372, 87), (373, 119), (374, 89),
    (375, 121), (376, 89), (377, 90), (378, 122), (379, 90), (380, 122), (381, 90), (382, 122), (384, 98), (407, 73),
    (410, 108), (415, 79), (416, 79), (417, 111), (427, 116), (430, 84), (431, 85), (432, 117), (461, 65), (462, 97),
    (463, 73), (464, 105), (465, 79), (466, 111), (467, 85), (468, 117), (469, 85), (470, 117), (471, 85),
    (472, 117), (473, 85), (474, 117), (475, 85), (476, 117), (478, 65), (479, 97), (484, 71), (485, 103), (486, 71),
    (487, 103), (488, 75), (489, 107), (490, 79), (491, 111), (492, 79), (493, 111), (496, 106), (8252, 33),
    (8592, 60), (8593, 94), (8594, 62), (8595, 118), (8596, 45), (8597, 166), (8616, 166), (8729, 149), (8730, 118),
    (8735, 76), (8962, 166), (9472, 45), (9474, 166), (9484, 45), (9488, 172), (9492, 76), (9496, 45), (9500, 43),
    (9508, 43), (9516, 84), (9524, 43), (9532, 43), (9552, 61), (9553, 166), (9554, 45), (9555, 227), (9556, 227),
    (9557, 172), (9558, 172), (9559, 172), (9560, 76), (9561, 76), (9562, 76), (9563, 45), (9564, 45), (9565, 45),
    (9566, 166), (9567, 166), (9568, 166), (9569, 166), (9570, 166), (9571, 166), (9572, 84), (9573, 84), (9574, 84),
    (9575, 166), (9576, 166), (9577, 166), (9578, 43), (9579, 43), (9580, 43), (9600, 45), (9604, 45), (9608, 45),
    (9612, 166), (9616, 166), (9617, 45), (9618, 45), (9619, 45), (9632, 166), (9644, 45), (9650, 94), (9658, 62),
    (9660, 161), (9668, 60), (9675, 48), (9688, 149), (9689, 48), (9786, 79), (9787, 79), (9788, 48), (9792, 43),
    (9794, 62), (9824, 166), (9827, 166), (9829, 166), (9830, 166), (9834, 100), (9835, 100), (65281, 33),
    (65282, 34), (65283, 35), (65284, 36), (65285, 37), (65286, 38), (65287, 39), (65288, 40), (65289, 41),
    (65290, 42), (65291, 43), (65292, 44), (65293, 45), (65294, 46), (65295, 47), (65296, 48), (65297, 49),
    (65298, 50), (65299, 51), (65300, 52), (65301, 53), (65302, 54), (65303, 55), (65304, 56), (65305, 57),
    (65306, 58), (65307, 59), (65308, 60), (65309, 61), (65310, 62), (65312, 64), (65313, 65), (65314, 66),
    (65315, 67), (65316, 68), (65317, 69), (65318, 70), (65319, 71), (65320, 72), (65321, 73), (65322, 74),
    (65323, 75), (65324, 76), (65325, 77), (65326, 78), (65327, 79), (65328, 80), (65329, 81), (65330, 82),
    (65331, 83), (65332, 84), (65333, 85), (65334, 86), (65335, 87), (65336, 88), (65337, 89), (65338, 90),
    (65339, 91), (65340, 92), (65341, 93), (65342, 94), (65343, 95), (65344, 96), (65345, 97), (65346, 98),
    (65347, 99), (65348, 100), (65349, 101), (65350, 102), (65351, 103), (65352, 104), (65353, 105), (65354, 106),
    (65355, 107), (65356, 108), (65357, 109), (65358, 110), (65359, 111), (65360, 112), (65361, 113), (65362, 114),
    (65363, 115), (65364, 116), (65365, 117), (65366, 118), (65367, 119), (65368, 120), (65369, 121), (65370, 122),
    (65371, 123), (65372, 124), (65373, 125), (65374, 126)]"

definition dBuffer_174 :: "int list" where
  "dBuffer_174 = [
    0, 1, 2, 3, 4, 5, 6, 7, 8, 9, 10, 11, 12, 13, 14, 15, 16, 17, 18, 19, 20, 21, 22, 23, 24, 25, 26, 27, 28, 29, 30,
    31, 32, 33, 34, 35, 36, 37, 38, 39, 40, 41, 42, 43, 44, 45, 46, 47, 48, 49, 50, 51, 52, 53, 54, 55, 56, 57, 58,
    59, 60, 61, 62, 63, 64, 65, 66, 67, 68, 69, 70, 71, 72, 73, 74, 75, 76, 77, 78, 79, 80, 81, 82, 83, 84, 85, 86,
    87, 88, 89, 90, 91, 92, 93, 94, 95, 96, 97, 98, 99, 100, 101, 102, 103, 104, 105, 106, 107, 108, 109, 110, 111,
    112, 113, 114, 115, 116, 117, 118, 119, 120, 121, 122, 123, 124, 125, 126, 127, 8364, 129, 8218, 402, 8222, 8230,
    8224, 8225, 136, 8240, 138, 8249, 140, 141, 142, 143, 144, 8216, 8217, 8220, 8221, 8226, 8211, 8212, 152, 8482,
    154, 8250, 156, 157, 158, 159, 160, 901, 902, 163, 164, 165, 166, 167, 168, 169, 63737, 171, 172, 173, 174, 8213,
    176, 177, 178, 179, 900, 181, 182, 183, 904, 905, 906, 187, 908, 189, 910, 911, 912, 913, 914, 915, 916, 917,
    918, 919, 920, 921, 922, 923, 924, 925, 926, 927, 928, 929, 63738, 931, 932, 933, 934, 935, 936, 937, 938, 939,
    940, 941, 942, 943, 944, 945, 946, 947, 948, 949, 950, 951, 952, 953, 954, 955, 956, 957, 958, 959, 960, 961,
    962, 963, 964, 965, 966, 967, 968, 969, 970, 971, 972, 973, 974, 63739]"

definition eBuffer_174 :: "(int \<times> int) list" where
  "eBuffer_174 = [
    (0, 0), (1, 1), (2, 2), (3, 3), (4, 4), (5, 5), (6, 6), (7, 7), (8, 8), (9, 9), (10, 10), (11, 11), (12, 12),
    (13, 13), (14, 14), (15, 15), (16, 16), (17, 17), (18, 18), (19, 19), (20, 20), (21, 21), (22, 22), (23, 23),
    (24, 24), (25, 25), (26, 26), (27, 27), (28, 28), (29, 29), (30, 30), (31, 31), (32, 32), (33, 33), (34, 34),
    (35, 35), (36, 36), (37, 37), (38, 38), (39, 39), (40, 40), (41, 41), (42, 42), (43, 43), (44, 44), (45, 45),
    (46, 46), (47, 47), (48, 48), (49, 49), (50, 50), (51, 51), (52, 52), (53, 53), (54, 54), (55, 55), (56, 56),
    (57, 57), (58, 58), (59, 59), (60, 60), (61, 61), (62, 62), (63, 63), (64, 64), (65, 65), (66, 66), (67, 67),
    (68, 68), (69, 69), (70, 70), (71, 71), (72, 72), (73, 73), (74, 74), (75, 75), (76, 76), (77, 77), (78, 78),
    (79, 79), (80, 80), (81, 81), (82, 82), (83, 83), (84, 84), (85, 85), (86, 86), (87, 87), (88, 88), (89, 89),
    (90, 90), (91, 91), (92, 92), (93, 93), (94, 94), (95, 95), (96, 96), (97, 97), (98, 98), (99, 99), (100, 100),
    (101, 101), (102, 102), (103, 103), (104, 104), (105, 105), (106, 106), (107, 107), (108, 108), (109, 109),
    (110, 110), (111, 111), (112, 112), (113, 113), (114, 114), (115, 115), (116, 116), (117, 117), (118, 118),
    (119, 119), (120, 120), (121, 121), (122, 122), (123, 123), (124, 124), (125, 125), (126, 126), (127, 127),
    (8364, 128), (129, 129), (8218, 130), (402, 131), (8222, 132), (8230, 133), (8224, 134), (8225, 135), (136, 136),
    (8240, 137), (138, 138), (8249, 139), (140, 140), (141, 141), (142, 142), (143, 143), (144, 144), (8216, 145),
    (8217, 146), (8220, 147), (8221, 148), (8226, 149), (8211, 150), (8212, 151), (152, 152), (8482, 153),
    (154, 154), (8250, 155), (156, 156), (157, 157), (158, 158), (159, 159), (160, 160), (901, 161), (902, 162),
    (163, 163), (164, 164), (165, 165), (166, 166), (167, 167), (168, 168), (169, 169), (63737, 170), (171, 171),
    (172, 172), (173, 173), (174, 174), (8213, 175), (176, 176), (177, 177), (178, 178), (179, 179), (900, 180),
    (181, 181), (182, 182), (183, 183), (904, 184), (905, 185), (906, 186), (187, 187), (908, 188), (189, 189),
    (910, 190), (911, 191), (912, 192), (913, 193), (914, 194), (915, 195), (916, 196), (917, 197), (918, 198),
    (919, 199), (920, 200), (921, 201), (922, 202), (923, 203), (924, 204), (925, 205), (926, 206), (927, 207),
    (928, 208), (929, 209), (63738, 210), (931, 211), (932, 212), (933, 213), (934, 214), (935, 215), (936, 216),
    (937, 217), (938, 218), (939, 219), (940, 220), (941, 221), (942, 222), (943, 223), (944, 224), (945, 225),
    (946, 226), (947, 227), (948, 228), (949, 229), (950, 230), (951, 231), (952, 232), (953, 233), (954, 234),
    (955, 235), (956, 236), (957, 237), (958, 238), (959, 239), (960, 240), (961, 241), (962, 242), (963, 243),
    (964, 244), (965, 245), (966, 246), (967, 247), (968, 248), (969, 249), (970, 250), (971, 251), (972, 252),
    (973, 253), (974, 254), (63739, 255), (180, 47), (192, 65), (193, 65), (194, 65), (195, 65), (196, 65),
    (197, 65), (199, 67), (200, 69), (201, 69), (202, 69), (203, 69), (204, 73), (205, 73), (206, 73), (207, 73),
    (209, 78), (210, 79), (211, 79), (212, 79), (213, 79), (214, 79), (216, 79), (217, 85), (218, 85), (219, 85),
    (220, 85), (221, 89), (224, 97), (225, 97), (226, 97), (227, 97), (228, 97), (229, 97), (231, 99), (232, 101),
    (233, 101), (234, 101), (235, 101), (236, 105), (237, 105), (238, 105), (239, 105), (241, 110), (242, 111),
    (243, 111), (244, 111), (245, 111), (246, 111), (248, 111), (249, 117), (250, 117), (251, 117), (252, 117),
    (253, 121), (255, 121), (256, 65), (257, 97), (258, 65), (259, 97), (260, 65), (261, 97), (262, 67), (263, 99),
    (264, 67), (265, 99), (266, 67), (267, 99), (268, 67), (269, 99), (270, 68), (271, 100), (272, 68), (273, 100),
    (274, 69), (275, 101), (276, 69), (277, 101), (278, 69), (279, 101), (280, 69), (281, 101), (282, 69),
    (283, 101), (284, 71), (285, 103), (286, 71), (287, 103), (288, 71), (289, 103), (290, 71), (291, 103),
    (292, 72), (293, 104), (294, 72), (295, 104), (296, 73), (297, 105), (298, 73), (299, 105), (300, 73),
    (301, 105), (302, 73), (303, 105), (304, 73), (308, 74), (309, 106), (310, 75), (311, 107), (313, 76),
    (314, 108), (315, 76), (316, 108), (317, 76), (318, 108), (321, 76), (322, 108), (323, 78), (324, 110),
    (325, 78), (326, 110), (327, 78), (328, 110), (332, 79), (333, 111), (334, 79), (335, 111), (336, 79),
    (337, 111), (340, 82), (341, 114), (342, 82), (343, 114), (344, 82), (345, 114), (346, 83), (347, 115),
    (348, 83), (349, 115), (350, 83), (351, 115), (352, 83), (353, 115), (354, 84), (355, 116), (356, 84),
    (357, 116), (358, 84), (359, 116), (360, 85), (361, 117), (362, 85), (363, 117), (364, 85), (365, 117),
    (366, 85), (367, 117), (368, 85), (369, 117), (370, 85), (371, 117), (372, 87), (373, 119), (374, 89),
    (375, 121), (376, 89), (377, 90), (378, 122), (379, 90), (380, 122), (381, 90), (382, 122), (384, 98),
    (401, 131), (407, 73), (410, 108), (415, 79), (416, 79), (417, 111), (427, 116), (430, 84), (431, 85),
    (432, 117), (461, 65), (462, 97), (463, 73), (464, 105), (465, 79), (466, 111), (467, 85), (468, 117), (469, 85),
    (470, 117), (471, 85), (472, 117), (473, 85), (474, 117), (475, 85), (476, 117), (478, 65), (479, 97), (484, 71),
    (485, 103), (486, 71), (487, 103), (488, 75), (489, 107), (490, 79), (491, 111), (492, 79), (493, 111),
    (496, 106), (781, 180), (894, 59), (8252, 33), (8592, 60), (8593, 94), (8594, 62), (8595, 118), (8596, 45),
    (8597, 166), (8616, 166), (8735, 76), (8962, 166), (9472, 45), (9474, 166), (9484, 45), (9488, 172), (9492, 76),
    (9496, 45), (9500, 43), (9508, 43), (9516, 84), (9524, 43), (9532, 43), (9552, 61), (9553, 166), (9556, 45),
    (9559, 172), (9562, 76), (9565, 45), (9568, 166), (9571, 166), (9574, 84), (9577, 166), (9580, 43), (9600, 45),
    (9604, 45), (9608, 45), (9617, 45), (9618, 45), (9619, 45), (9632, 166), (9644, 45), (9650, 94), (9658, 62),
    (9660, 161), (9668, 60), (9675, 48), (9688, 149), (9689, 48), (9786, 79), (9787, 79), (9788, 48), (9792, 43),
    (9794, 62), (9824, 166), (9827, 166), (9829, 166), (9830, 166), (9834, 100), (9835, 100), (65281, 33),
    (65282, 34), (65283, 35), (65284, 36), (65285, 37), (65286, 38), (65287, 39), (65288, 40), (65289, 41),
    (65290, 42), (65291, 43), (65292, 44), (65293, 45), (65294, 46), (65295, 47), (65296, 48), (65297, 49),
    (65298, 50), (65299, 51), (65300, 52), (65301, 53), (65302, 54), (65303, 55), (65304, 56), (65305, 57),
    (65306, 58), (65307, 59), (65308, 60), (65309, 61), (65310, 62), (65312, 64), (65313, 65), (65314, 66),
    (65315, 67), (65316, 68), (65317, 69), (65318, 70), (65319, 71), (65320, 72), (65321, 73), (65322, 74),
    (65323, 75), (65324, 76), (65325, 77), (65326, 78), (65327, 79), (65328, 80), (65329, 81), (65330, 82),
    (65331, 83), (65332, 84), (65333, 85), (65334, 86), (65335, 87), (65336, 88), (65337, 89), (65338, 90),
    (65339, 91), (65340, 92), (65341, 93), (65342, 94), (65343, 95), (65344, 96), (65345, 97), (65346, 98),
    (65347, 99), (65348, 100), (65349, 101), (65350, 102), (65351, 103), (65352, 104), (65353, 105), (65354, 106),
    (65355, 107), (65356, 108), (65357, 109), (65358, 110), (65359, 111), (65360, 112), (65361, 113), (65362, 114),
    (65363, 115), (65364, 116), (65365, 117), (65366, 118), (65367, 119), (65368, 120), (65369, 121), (65370, 122),
    (65371, 123), (65372, 124), (65373, 125), (65374, 126)]"

definition dBuffer_177 :: "int list" where
  "dBuffer_177 = [
    0, 1, 2, 3, 4, 5, 6, 7, 8, 9, 10, 11, 12, 13, 14, 15, 16, 17, 18, 19, 20, 21, 22, 23, 24, 25, 26, 27, 28, 29, 30,
    31, 32, 33, 34, 35, 36, 37, 38, 39, 40, 41, 42, 43, 44, 45, 46, 47, 48, 49, 50, 51, 52, 53, 54, 55, 56, 57, 58,
    59, 60, 61, 62, 63, 64, 65, 66, 67, 68, 69, 70, 71, 72, 73, 74, 75, 76, 77, 78, 79, 80, 81, 82, 83, 84, 85, 86,
    87, 88, 89, 90, 91, 92, 93, 94, 95, 96, 97, 98, 99, 100, 101, 102, 103, 104, 105, 106, 107, 108, 109, 110, 111,
    112, 113, 114, 115, 116, 117, 118, 119, 120, 121, 122, 123, 124, 125, 126, 127, 8364, 129, 8218, 402, 8222, 8230,
    8224, 8225, 710, 8240, 352, 8249, 338, 141, 142, 143, 144, 8216, 8217, 8220, 8221, 8226, 8211, 8212, 732, 8482,
    353, 8250, 339, 157, 158, 376, 160, 161, 162, 163, 164, 165, 166, 167, 168, 169, 170, 171, 172, 173, 174, 175,
    176, 177, 178, 179, 180, 181, 182, 183, 184, 185, 186, 187, 188, 189, 190, 191, 192, 193, 194, 195, 196, 197,
    198, 199, 200, 201, 202, 203, 204, 205, 206, 207, 286, 209, 210, 211, 212, 213, 214, 215, 216, 217, 218, 219,
    220, 304, 350, 223, 224, 225, 226, 227, 228, 229, 230, 231, 232, 233, 234, 235, 236, 237, 238, 239, 287, 241,
    242, 243, 244, 245, 246, 247, 248, 249, 250, 251, 252, 305, 351, 255]"

definition eBuffer_177 :: "(int \<times> int) list" where
  "eBuffer_177 = [
    (0, 0), (1, 1), (2, 2), (3, 3), (4, 4), (5, 5), (6, 6), (7, 7), (8, 8), (9, 9), (10, 10), (11, 11), (12, 12),
    (13, 13), (14, 14), (15, 15), (16, 16), (17, 17), (18, 18), (19, 19), (20, 20), (21, 21), (22, 22), (23, 23),
    (24, 24), (25, 25), (26, 26), (27, 27), (28, 28), (29, 29), (30, 30), (31, 31), (32, 32), (33, 33), (34, 34),
    (35, 35), (36, 36), (37, 37), (38, 38), (39, 39), (40, 40), (41, 41), (42, 42), (43, 43), (44, 44), (45, 45),
    (46, 46), (47, 47), (48, 48), (49, 49), (50, 50), (51, 51), (52, 52), (53, 53), (54, 54), (55, 55), (56, 56),
    (57, 57), (58, 58), (59, 59), (60, 60), (61, 61), (62, 62), (63, 63), (64, 64), (65, 65), (66, 66), (67, 67),
    (68, 68), (69, 69), (70, 70), (71, 71), (72, 72), (73, 73), (74, 74), (75, 75), (76, 76), (77, 77), (78, 78),
    (79, 79), (80, 80), (81, 81), (82, 82), (83, 83), (84, 84), (85, 85), (86, 86), (87, 87), (88, 88), (89, 89),
    (90, 90), (91, 91), (92, 92), (93, 93), (94, 94), (95, 95), (96, 96), (97, 97), (98, 98), (99, 99), (100, 100),
    (101, 101), (102, 102), (103, 103), (104, 104), (105, 105), (106, 106), (107, 107), (108, 108), (109, 109),
    (110, 110), (111, 111), (112, 112), (113, 113), (114, 114), (115, 115), (116, 116), (117, 117), (118, 118),
    (119, 119), (120, 120), (121, 121), (122, 122), (123, 123), (124, 124), (125, 125), (126, 126), (127, 127),
    (8364, 128), (129, 129), (8218, 130), (402, 131), (8222, 132), (8230, 133), (8224, 134), (8225, 135), (710, 136),
    (8240, 137), (352, 138), (8249, 139), (338, 140), (141, 141), (142, 142), (143, 143), (144, 144), (8216, 145),
    (8217, 146), (8220, 147), (8221, 148), (8226, 149), (8211, 150), (8212, 151), (732, 152), (8482, 153),
    (353, 154), (8250, 155), (339, 156), (157, 157), (158, 158), (376, 159), (160, 160), (161, 161), (162, 162),
    (163, 163), (164, 164), (165, 165), (166, 166), (167, 167), (168, 168), (169, 169), (170, 170), (171, 171),
    (172, 172), (173, 173), (174, 174), (175, 175), (176, 176), (177, 177), (178, 178), (179, 179), (180, 180),
    (181, 181), (182, 182), (183, 183), (184, 184), (185, 185), (186, 186), (187, 187), (188, 188), (189, 189),
    (190, 190), (191, 191), (192, 192), (193, 193), (194, 194), (195, 195), (196, 196), (197, 197), (198, 198),
    (199, 199), (200, 200), (201, 201), (202, 202), (203, 203), (204, 204), (205, 205), (206, 206), (207, 207),
    (286, 208), (209, 209), (210, 210), (211, 211), (212, 212), (213, 213), (214, 214), (215, 215), (216, 216),
    (217, 217), (218, 218), (219, 219), (220, 220), (304, 221), (350, 222), (223, 223), (224, 224), (225, 225),
    (226, 226), (227, 227), (228, 228), (229, 229), (230, 230), (231, 231), (232, 232), (233, 233), (234, 234),
    (235, 235), (236, 236), (237, 237), (238, 238), (239, 239), (287, 240), (241, 241), (242, 242), (243, 243),
    (244, 244), (245, 245), (246, 246), (247, 247), (248, 248), (249, 249), (250, 250), (251, 251), (252, 252),
    (305, 253), (351, 254), (255, 255), (221, 89), (253, 121), (256, 65), (257, 97), (258, 65), (259, 97), (260, 65),
    (261, 97), (262, 67), (263, 99), (264, 67), (265, 99), (266, 67), (267, 99), (268, 67), (269, 99), (270, 68),
    (271, 100), (272, 68), (273, 100), (274, 69), (275, 101), (276, 69), (277, 101), (278, 69), (279, 101),
    (280, 69), (281, 101), (282, 69), (283, 101), (284, 71), (285, 103), (288, 71), (289, 103), (290, 71),
    (291, 103), (292, 72), (293, 104), (294, 72), (295, 104), (296, 73), (297, 105), (298, 73), (299, 105),
    (300, 73), (301, 105), (302, 73), (303, 105), (308, 74), (309, 106), (310, 75), (311, 107), (313, 76),
    (314, 108), (315, 76), (316, 108), (317, 76), (318, 108), (321, 76), (322, 108), (323, 78), (324, 110),
    (325, 78), (326, 110), (327, 78), (328, 110), (332, 79), (333, 111), (334, 79), (335, 111), (336, 79),
    (337, 111), (340, 82), (341, 114), (342, 82), (343, 114), (344, 82), (345, 114), (346, 83), (347, 115),
    (348, 83), (349, 115), (354, 84), (355, 116), (356, 84), (357, 116), (358, 84), (359, 116), (360, 85),
    (361, 117), (362, 85), (363, 117), (364, 85), (365, 117), (366, 85), (367, 117), (368, 85), (369, 117),
    (370, 85), (371, 117), (372, 87), (373, 119), (374, 89), (375, 121), (377, 90), (378, 122), (379, 90),
    (380, 122), (381, 90), (382, 122), (384, 98), (393, 68), (401, 131), (407, 73), (410, 108), (415, 79), (416, 79),
    (417, 111), (427, 116), (430, 84), (431, 85), (432, 117), (438, 122), (448, 124), (451, 33), (461, 65),
    (462, 97), (463, 73), (464, 105), (465, 79), (466, 111), (467, 85), (468, 117), (469, 85), (470, 117), (471, 85),
    (472, 117), (473, 85), (474, 117), (475, 85), (476, 117), (478, 65), (479, 97), (484, 71), (485, 103), (486, 71),
    (487, 103), (488, 75), (489, 107), (490, 79), (491, 111), (492, 79), (493, 111), (496, 106), (609, 103),
    (697, 39), (698, 34), (699, 145), (700, 39), (708, 94), (711, 94), (712, 39), (713, 175), (714, 180), (715, 96),
    (717, 95), (728, 94), (729, 39), (730, 176), (731, 184), (733, 168), (768, 96), (769, 180), (770, 94),
    (771, 152), (772, 175), (773, 175), (774, 136), (775, 183), (776, 168), (778, 167), (780, 136), (782, 168),
    (807, 184), (817, 95), (818, 95), (946, 223), (956, 181), (1211, 104), (1417, 58), (1642, 37), (8192, 32),
    (8193, 32), (8194, 32), (8195, 32), (8196, 32), (8197, 32), (8198, 32), (8208, 45), (8209, 45), (8228, 149),
    (8242, 39), (8243, 168), (8245, 96), (8252, 33), (8260, 47), (8304, 176), (8308, 52), (8309, 53), (8310, 54),
    (8311, 55), (8312, 56), (8320, 176), (8321, 48), (8322, 178), (8323, 179), (8324, 52), (8325, 53), (8326, 54),
    (8327, 55), (8328, 56), (8329, 57), (8356, 163), (8450, 67), (8455, 69), (8458, 103), (8459, 72), (8460, 72),
    (8461, 72), (8462, 104), (8464, 73), (8465, 73), (8466, 76), (8467, 108), (8469, 78), (8472, 80), (8473, 80),
    (8474, 81), (8475, 82), (8476, 82), (8477, 82), (8484, 90), (8488, 90), (8490, 75), (8491, 197), (8492, 66),
    (8493, 67), (8494, 101), (8495, 101), (8496, 69), (8497, 70), (8499, 77), (8500, 111), (8592, 139), (8593, 94),
    (8594, 155), (8595, 118), (8596, 45), (8597, 124), (8616, 124), (8709, 216), (8722, 45), (8723, 177), (8725, 47),
    (8726, 92), (8727, 42), (8728, 176), (8729, 149), (8735, 76), (8739, 124), (8758, 58), (8764, 126), (8810, 171),
    (8811, 187), (8901, 183), (8962, 166), (8963, 94), (9001, 60), (9002, 62), (9472, 166), (9474, 45), (9484, 45),
    (9488, 172), (9492, 76), (9496, 45), (9500, 43), (9508, 43), (9516, 84), (9524, 43), (9532, 43), (9552, 61),
    (9553, 166), (9556, 45), (9559, 172), (9562, 76), (9565, 45), (9568, 166), (9571, 166), (9574, 84), (9577, 166),
    (9580, 43), (9600, 45), (9604, 45), (9608, 45), (9617, 45), (9618, 45), (9619, 45), (9632, 166), (9644, 45),
    (9650, 94), (9658, 62), (9660, 161), (9668, 60), (9675, 48), (9688, 149), (9689, 48), (9786, 79), (9787, 79),
    (9788, 48), (9792, 43), (9794, 62), (9824, 166), (9827, 166), (9829, 166), (9830, 166), (9834, 100), (9835, 100),
    (10072, 124), (10075, 145), (10076, 146), (10077, 147), (10078, 148), (12288, 32), (12296, 60), (12297, 62),
    (12298, 171), (12299, 187), (12314, 91), (12315, 61), (12317, 34), (12318, 34), (12319, 132), (12539, 183),
    (12540, 151), (65281, 33), (65282, 34), (65283, 35), (65284, 36), (65285, 37), (65286, 38), (65287, 39),
    (65288, 40), (65289, 41), (65290, 42), (65291, 43), (65292, 44), (65293, 45), (65294, 46), (65295, 47),
    (65296, 48), (65297, 49), (65298, 50), (65299, 51), (65300, 52), (65301, 53), (65302, 54), (65303, 55),
    (65304, 56), (65305, 57), (65306, 58), (65307, 59), (65308, 60), (65309, 61), (65310, 62), (65312, 64),
    (65313, 65), (65314, 66), (65315, 67), (65316, 68), (65317, 69), (65318, 70), (65319, 71), (65320, 72),
    (65321, 73), (65322, 74), (65323, 75), (65324, 76), (65325, 77), (65326, 78), (65327, 79), (65328, 80),
    (65329, 81), (65330, 82), (65331, 83), (65332, 84), (65333, 85), (65334, 86), (65335, 87), (65336, 88),
    (65337, 89), (65338, 90), (65339, 91), (65340, 92), (65341, 93), (65342, 94), (65343, 95), (65344, 96),
    (65345, 97), (65346, 98), (65347, 99), (65348, 100), (65349, 101), (65350, 102), (65351, 103), (65352, 104),
    (65353, 105), (65354, 106), (65355, 107), (65356, 108), (65357, 109), (65358, 110), (65359, 111), (65360, 112),
    (65361, 113), (65362, 114), (65363, 115), (65364, 116), (65365, 117), (65366, 118), (65367, 119), (65368, 120),
    (65369, 121), (65370, 122), (65371, 123), (65372, 124), (65373, 125), (65374, 126)]"

definition dBuffer_178 :: "int list" where
  "dBuffer_178 = [
    0, 1, 2, 3, 4, 5, 6, 7, 8, 9, 10, 11, 12, 13, 14, 15, 16, 17, 18, 19, 20, 21, 22, 23, 24, 25, 26, 27, 28, 29, 30,
    31, 32, 33, 34, 35, 36, 37, 38, 39, 40, 41, 42, 43, 44, 45, 46, 47, 48, 49, 50, 51, 52, 53, 54, 55, 56, 57, 58,
    59, 60, 61, 62, 63, 64, 65, 66, 67, 68, 69, 70, 71, 72, 73, 74, 75, 76, 77, 78, 79, 80, 81, 82, 83, 84, 85, 86,
    87, 88, 89, 90, 91, 92, 93, 94, 95, 96, 97, 98, 99, 100, 101, 102, 103, 104, 105, 106, 107, 108, 109, 110, 111,
    112, 113, 114, 115, 116, 117, 118, 119, 120, 121, 122, 123, 124, 125, 126, 127, 8364, 129, 8218, 402, 8222, 8230,
    8224, 8225, 710, 8240, 352, 8249, 338, 141, 381, 143, 144, 8216, 8217, 8220, 8221, 8226, 8211, 8212, 732, 8482,
    353, 8250, 339, 157, 382, 376, 160, 161, 162, 163, 164, 165, 166, 167, 168, 169, 170, 171, 172, 173, 174, 175,
    176, 177, 178, 179, 180, 181, 182, 183, 184, 185, 186, 187, 188, 189, 190, 191, 192, 193, 194, 195, 196, 197,
    198, 199, 200, 201, 202, 203, 204, 205, 206, 207, 208, 209, 210, 211, 212, 213, 214, 215, 216, 217, 218, 219,
    220, 221, 222, 223, 224, 225, 226, 227, 228, 229, 230, 231, 232, 233, 234, 235, 236, 237, 238, 239, 240, 241,
    242, 243, 244, 245, 246, 247, 248, 249, 250, 251, 252, 253, 254, 255]"

definition eBuffer_178 :: "(int \<times> int) list" where
  "eBuffer_178 = [
    (0, 0), (1, 1), (2, 2), (3, 3), (4, 4), (5, 5), (6, 6), (7, 7), (8, 8), (9, 9), (10, 10), (11, 11), (12, 12),
    (13, 13), (14, 14), (15, 15), (16, 16), (17, 17), (18, 18), (19, 19), (20, 20), (21, 21), (22, 22), (23, 23),
    (24, 24), (25, 25), (26, 26), (27, 27), (28, 28), (29, 29), (30, 30), (31, 31), (32, 32), (33, 33), (34, 34),
    (35, 35), (36, 36), (37, 37), (38, 38), (39, 39), (40, 40), (41, 41), (42, 42), (43, 43), (44, 44), (45, 45),
    (46, 46), (47, 47), (48, 48), (49, 49), (50, 50), (51, 51), (52, 52), (53, 53), (54, 54), (55, 55), (56, 56),
    (57, 57), (58, 58), (59, 59), (60, 60), (61, 61), (62, 62), (63, 63), (64, 64), (65, 65), (66, 66), (67, 67),
    (68, 68), (69, 69), (70, 70), (71, 71), (72, 72), (73, 73), (74, 74), (75, 75), (76, 76), (77, 77), (78, 78),
    (79, 79), (80, 80), (81, 81), (82, 82), (83, 83), (84, 84), (85, 85), (86, 86), (87, 87), (88, 88), (89, 89),
    (90, 90), (91, 91), (92, 92), (93, 93), (94, 94), (95, 95), (96, 96), (97, 97), (98, 98), (99, 99), (100, 100),
    (101, 101), (102, 102), (103, 103), (104, 104), (105, 105), (106, 106), (107, 107), (108, 108), (109, 109),
    (110, 110), (111, 111), (112, 112), (113, 113), (114, 114), (115, 115), (116, 116), (117, 117), (118, 118),
    (119, 119), (120, 120), (121, 121), (122, 122), (123, 123), (124, 124), (125, 125), (126, 126), (127, 127),
    (8364, 128), (129, 129), (8218, 130), (402, 131), (8222, 132), (8230, 133), (8224, 134), (8225, 135), (710, 136),
    (8240, 137), (352, 138), (8249, 139), (338, 140), (141, 141), (381, 142), (143, 143), (144, 144), (8216, 145),
    (8217, 146), (8220, 147), (8221, 148), (8226, 149), (8211, 150), (8212, 151), (732, 152), (8482, 153),
    (353, 154), (8250, 155), (339, 156), (157, 157), (382, 158), (376, 159), (160, 160), (161, 161), (162, 162),
    (163, 163), (164, 164), (165, 165), (166, 166), (167, 167), (168, 168), (169, 169), (170, 170), (171, 171),
    (172, 172), (173, 173), (174, 174), (175, 175), (176, 176), (177, 177), (178, 178), (179, 179), (180, 180),
    (181, 181), (182, 182), (183, 183), (184, 184), (185, 185), (186, 186), (187, 187), (188, 188), (189, 189),
    (190, 190), (191, 191), (192, 192), (193, 193), (194, 194), (195, 195), (196, 196), (197, 197), (198, 198),
    (199, 199), (200, 200), (201, 201), (202, 202), (203, 203), (204, 204), (205, 205), (206, 206), (207, 207),
    (208, 208), (209, 209), (210, 210), (211, 211), (212, 212), (213, 213), (214, 214), (215, 215), (216, 216),
    (217, 217), (218, 218), (219, 219), (220, 220), (221, 221), (222, 222), (223, 223), (224, 224), (225, 225),
    (226, 226), (227, 227), (228, 228), (229, 229), (230, 230), (231, 231), (232, 232), (233, 233), (234, 234),
    (235, 235), (236, 236), (237, 237), (238, 238), (239, 239), (240, 240), (241, 241), (242, 242), (243, 243),
    (244, 244), (245, 245), (246, 246), (247, 247), (248, 248), (249, 249), (250, 250), (251, 251), (252, 252),
    (253, 253), (254, 254), (255, 255), (256, 65), (257, 97), (258, 65), (259, 97), (260, 65), (261, 97), (262, 67),
    (263, 99), (264, 67), (265, 99), (266, 67), (267, 99), (268, 67), (269, 99), (270, 68), (271, 100), (272, 208),
    (273, 100), (274, 69), (275, 101), (276, 69), (277, 101), (278, 69), (279, 101), (280, 69), (281, 101),
    (282, 69), (283, 101), (284, 71), (285, 103), (286, 71), (287, 103), (288, 71), (289, 103), (290, 71),
    (291, 103), (292, 72), (293, 104), (294, 72), (295, 104), (296, 73), (297, 105), (298, 73), (299, 105),
    (300, 73), (301, 105), (302, 73), (303, 105), (304, 73), (305, 105), (308, 74), (309, 106), (310, 75),
    (311, 107), (313, 76), (314, 108), (315, 76), (316, 108), (317, 76), (318, 108), (321, 76), (322, 108),
    (323, 78), (324, 110), (325, 78), (326, 110), (327, 78), (328, 110), (332, 79), (333, 111), (334, 79),
    (335, 111), (336, 79), (337, 111), (340, 82), (341, 114), (342, 82), (343, 114), (344, 82), (345, 114),
    (346, 83), (347, 115), (348, 83), (349, 115), (350, 83), (351, 115), (354, 84), (355, 116), (356, 84),
    (357, 116), (358, 84), (359, 116), (360, 85), (361, 117), (362, 85), (363, 117), (364, 85), (365, 117),
    (366, 85), (367, 117), (368, 85), (369, 117), (370, 85), (371, 117), (372, 87), (373, 119), (374, 89),
    (375, 121), (377, 90), (378, 122), (379, 90), (380, 122), (384, 98), (393, 208), (401, 131), (407, 73),
    (410, 108), (415, 79), (416, 79), (417, 111), (427, 116), (430, 84), (431, 85), (432, 117), (438, 122),
    (448, 124), (451, 33), (461, 65), (462, 97), (463, 73), (464, 105), (465, 79), (466, 111), (467, 85), (468, 117),
    (469, 85), (470, 117), (471, 85), (472, 117), (473, 85), (474, 117), (475, 85), (476, 117), (478, 65), (479, 97),
    (484, 71), (485, 103), (486, 71), (487, 103), (488, 75), (489, 107), (490, 79), (491, 111), (492, 79),
    (493, 111), (496, 106), (609, 103), (697, 39), (698, 34), (700, 39), (708, 94), (712, 39), (713, 175),
    (714, 180), (715, 96), (717, 95), (730, 176), (768, 96), (769, 180), (770, 94), (771, 126), (772, 175),
    (773, 175), (776, 168), (778, 176), (782, 34), (807, 184), (817, 95), (818, 95), (894, 59), (915, 71), (920, 84),
    (931, 83), (934, 70), (937, 79), (945, 97), (946, 223), (948, 100), (949, 101), (956, 181), (960, 112),
    (963, 115), (964, 116), (966, 102), (1211, 104), (1417, 58), (1642, 37), (8192, 32), (8193, 32), (8194, 32),
    (8195, 32), (8196, 32), (8197, 32), (8198, 32), (8208, 45), (8209, 45), (8215, 61), (8228, 183), (8242, 39),
    (8245, 96), (8260, 47), (8304, 176), (8308, 52), (8309, 53), (8310, 54), (8311, 55), (8312, 56), (8319, 110),
    (8320, 48), (8321, 49), (8322, 50), (8323, 51), (8324, 52), (8325, 53), (8326, 54), (8327, 55), (8328, 56),
    (8329, 57), (8353, 162), (8356, 163), (8359, 80), (8450, 67), (8455, 69), (8458, 103), (8459, 72), (8460, 72),
    (8461, 72), (8462, 104), (8464, 73), (8465, 73), (8466, 76), (8467, 108), (8469, 78), (8472, 80), (8473, 80),
    (8474, 81), (8475, 82), (8476, 82), (8477, 82), (8484, 90), (8488, 90), (8490, 75), (8491, 197), (8492, 66),
    (8493, 67), (8494, 101), (8495, 101), (8496, 69), (8497, 70), (8499, 77), (8500, 111), (8709, 216), (8722, 45),
    (8723, 177), (8725, 47), (8726, 92), (8727, 42), (8728, 176), (8729, 183), (8730, 118), (8734, 56), (8739, 124),
    (8745, 110), (8758, 58), (8764, 126), (8776, 152), (8801, 61), (8804, 61), (8805, 61), (8810, 171), (8811, 187),
    (8901, 183), (8962, 166), (8963, 94), (8976, 172), (8992, 40), (8993, 41), (9001, 60), (9002, 62), (9472, 45),
    (9474, 166), (9484, 43), (9488, 43), (9492, 43), (9496, 43), (9500, 43), (9508, 166), (9516, 45), (9524, 45),
    (9532, 43), (9552, 45), (9553, 166), (9554, 43), (9555, 43), (9556, 43), (9557, 43), (9558, 43), (9559, 43),
    (9560, 43), (9561, 43), (9562, 43), (9563, 43), (9564, 43), (9565, 43), (9566, 166), (9567, 166), (9568, 166),
    (9569, 166), (9570, 166), (9571, 166), (9572, 45), (9573, 45), (9574, 45), (9575, 45), (9576, 45), (9577, 45),
    (9578, 43), (9579, 43), (9580, 43), (9600, 175), (9604, 95), (9608, 166), (9612, 166), (9616, 166), (9617, 166),
    (9618, 166), (9619, 166), (9632, 166), (9788, 164), (10072, 124), (12288, 32), (12296, 60), (12297, 62),
    (12298, 171), (12299, 187), (12314, 91), (12315, 93), (12539, 183), (65281, 33), (65282, 34), (65283, 35),
    (65284, 36), (65285, 37), (65286, 38), (65287, 39), (65288, 40), (65289, 41), (65290, 42), (65291, 43),
    (65292, 44), (65293, 45), (65294, 46), (65295, 47), (65296, 48), (65297, 49), (65298, 50), (65299, 51),
    (65300, 52), (65301, 53), (65302, 54), (65303, 55), (65304, 56), (65305, 57), (65306, 58), (65307, 59),
    (65308, 60), (65309, 61), (65310, 62), (65312, 64), (65313, 65), (65314, 66), (65315, 67), (65316, 68),
    (65317, 69), (65318, 70), (65319, 71), (65320, 72), (65321, 73), (65322, 74), (65323, 75), (65324, 76),
    (65325, 77), (65326, 78), (65327, 79), (65328, 80), (65329, 81), (65330, 82), (65331, 83), (65332, 84),
    (65333, 85), (65334, 86), (65335, 87), (65336, 88), (65337, 89), (65338, 90), (65339, 91), (65340, 92),
    (65341, 93), (65342, 94), (65343, 95), (65344, 96), (65345, 97), (65346, 98), (65347, 99), (65348, 100),
    (65349, 101), (65350, 102), (65351, 103), (65352, 104), (65353, 105), (65354, 106), (65355, 107), (65356, 108),
    (65357, 109), (65358, 110), (65359, 111), (65360, 112), (65361, 113), (65362, 114), (65363, 115), (65364, 116),
    (65365, 117), (65366, 118), (65367, 119), (65368, 120), (65369, 121), (65370, 122), (65371, 123), (65372, 124),
    (65373, 125), (65374, 126)]"

definition dBuffer_179 :: "int list" where
  "dBuffer_179 = [
    0, 1, 2, 3, 4, 5, 6, 7, 8, 9, 10, 11, 12, 13, 14, 15, 16, 17, 18, 19, 20, 21, 22, 23, 24, 25, 26, 27, 28, 29, 30,
    31, 32, 33, 34, 35, 36, 37, 38, 39, 40, 41, 42, 43, 44, 45, 46, 47, 48, 49, 50, 51, 52, 53, 54, 55, 56, 57, 58,
    59, 60, 61, 62, 63, 64, 65, 66, 67, 68, 69, 70, 71, 72, 73, 74, 75, 76, 77, 78, 79, 80, 81, 82, 83, 84, 85, 86,
    87, 88, 89, 90, 91, 92, 93, 94, 95, 96, 97, 98, 99, 100, 101, 102, 103, 104, 105, 106, 107, 108, 109, 110, 111,
    112, 113, 114, 115, 116, 117, 118, 119, 120, 121, 122, 123, 124, 125, 126, 127, 8364, 129, 8218, 131, 8222, 8230,
    8224, 8225, 136, 8240, 138, 8249, 140, 168, 711, 184, 144, 8216, 8217, 8220, 8221, 8226, 8211, 8212, 152, 8482,
    154, 8250, 156, 175, 731, 159, 160, 63740, 162, 163, 164, 63741, 166, 167, 216, 169, 342, 171, 172, 173, 174,
    198, 176, 177, 178, 179, 180, 181, 182, 183, 248, 185, 343, 187, 188, 189, 190, 230, 260, 302, 256, 262, 196,
    197, 280, 274, 268, 201, 377, 278, 290, 310, 298, 315, 352, 323, 325, 211, 332, 213, 214, 215, 370, 321, 346,
    362, 220, 379, 381, 223, 261, 303, 257, 263, 228, 229, 281, 275, 269, 233, 378, 279, 291, 311, 299, 316, 353,
    324, 326, 243, 333, 245, 246, 247, 371, 322, 347, 363, 252, 380, 382, 729]"

definition eBuffer_179 :: "(int \<times> int) list" where
  "eBuffer_179 = [
    (0, 0), (1, 1), (2, 2), (3, 3), (4, 4), (5, 5), (6, 6), (7, 7), (8, 8), (9, 9), (10, 10), (11, 11), (12, 12),
    (13, 13), (14, 14), (15, 15), (16, 16), (17, 17), (18, 18), (19, 19), (20, 20), (21, 21), (22, 22), (23, 23),
    (24, 24), (25, 25), (26, 26), (27, 27), (28, 28), (29, 29), (30, 30), (31, 31), (32, 32), (33, 33), (34, 34),
    (35, 35), (36, 36), (37, 37), (38, 38), (39, 39), (40, 40), (41, 41), (42, 42), (43, 43), (44, 44), (45, 45),
    (46, 46), (47, 47), (48, 48), (49, 49), (50, 50), (51, 51), (52, 52), (53, 53), (54, 54), (55, 55), (56, 56),
    (57, 57), (58, 58), (59, 59), (60, 60), (61, 61), (62, 62), (63, 63), (64, 64), (65, 65), (66, 66), (67, 67),
    (68, 68), (69, 69), (70, 70), (71, 71), (72, 72), (73, 73), (74, 74), (75, 75), (76, 76), (77, 77), (78, 78),
    (79, 79), (80, 80), (81, 81), (82, 82), (83, 83), (84, 84), (85, 85), (86, 86), (87, 87), (88, 88), (89, 89),
    (90, 90), (91, 91), (92, 92), (93, 93), (94, 94), (95, 95), (96, 96), (97, 97), (98, 98), (99, 99), (100, 100),
    (101, 101), (102, 102), (103, 103), (104, 104), (105, 105), (106, 106), (107, 107), (108, 108), (109, 109),
    (110, 110), (111, 111), (112, 112), (113, 113), (114, 114), (115, 115), (116, 116), (117, 117), (118, 118),
    (119, 119), (120, 120), (121, 121), (122, 122), (123, 123), (124, 124), (125, 125), (126, 126), (127, 127),
    (8364, 128), (129, 129), (8218, 130), (131, 131), (8222, 132), (8230, 133), (8224, 134), (8225, 135), (136, 136),
    (8240, 137), (138, 138), (8249, 139), (140, 140), (168, 141), (711, 142), (184, 143), (144, 144), (8216, 145),
    (8217, 146), (8220, 147), (8221, 148), (8226, 149), (8211, 150), (8212, 151), (152, 152), (8482, 153),
    (154, 154), (8250, 155), (156, 156), (175, 157), (731, 158), (159, 159), (160, 160), (63740, 161), (162, 162),
    (163, 163), (164, 164), (63741, 165), (166, 166), (167, 167), (216, 168), (169, 169), (342, 170), (171, 171),
    (172, 172), (173, 173), (174, 174), (198, 175), (176, 176), (177, 177), (178, 178), (179, 179), (180, 180),
    (181, 181), (182, 182), (183, 183), (248, 184), (185, 185), (343, 186), (187, 187), (188, 188), (189, 189),
    (190, 190), (230, 191), (260, 192), (302, 193), (256, 194), (262, 195), (196, 196), (197, 197), (280, 198),
    (274, 199), (268, 200), (201, 201), (377, 202), (278, 203), (290, 204), (310, 205), (298, 206), (315, 207),
    (352, 208), (323, 209), (325, 210), (211, 211), (332, 212), (213, 213), (214, 214), (215, 215), (370, 216),
    (321, 217), (346, 218), (362, 219), (220, 220), (379, 221), (381, 222), (223, 223), (261, 224), (303, 225),
    (257, 226), (263, 227), (228, 228), (229, 229), (281, 230), (275, 231), (269, 232), (233, 233), (378, 234),
    (279, 235), (291, 236), (311, 237), (299, 238), (316, 239), (353, 240), (324, 241), (326, 242), (243, 243),
    (333, 244), (245, 245), (246, 246), (247, 247), (371, 248), (322, 249), (347, 250), (363, 251), (252, 252),
    (380, 253), (382, 254), (729, 255), (65281, 33), (65282, 34), (65283, 35), (65284, 36), (65285, 37), (65286, 38),
    (65287, 39), (65288, 40), (65289, 41), (65290, 42), (65291, 43), (65292, 44), (65293, 45), (65294, 46),
    (65295, 47), (65296, 48), (65297, 49), (65298, 50), (65299, 51), (65300, 52), (65301, 53), (65302, 54),
    (65303, 55), (65304, 56), (65305, 57), (65306, 58), (65307, 59), (65308, 60), (65309, 61), (65310, 62),
    (65312, 64), (65313, 65), (65314, 66), (65315, 67), (65316, 68), (65317, 69), (65318, 70), (65319, 71),
    (65320, 72), (65321, 73), (65322, 74), (65323, 75), (65324, 76), (65325, 77), (65326, 78), (65327, 79),
    (65328, 80), (65329, 81), (65330, 82), (65331, 83), (65332, 84), (65333, 85), (65334, 86), (65335, 87),
    (65336, 88), (65337, 89), (65338, 90), (65339, 91), (65340, 92), (65341, 93), (65342, 94), (65343, 95),
    (65344, 96), (65345, 97), (65346, 98), (65347, 99), (65348, 100), (65349, 101), (65350, 102), (65351, 103),
    (65352, 104), (65353, 105), (65354, 106), (65355, 107), (65356, 108), (65357, 109), (65358, 110), (65359, 111),
    (65360, 112), (65361, 113), (65362, 114), (65363, 115), (65364, 116), (65365, 117), (65366, 118), (65367, 119),
    (65368, 120), (65369, 121), (65370, 122), (65371, 123), (65372, 124), (65373, 125), (65374, 126)]"

definition dBuffer_72 :: "int list" where
  "dBuffer_72 = [
    0, 1, 2, 3, 65535, 9, 65535, 127, 65535, 65535, 10, 11, 12, 13, 14, 15, 16, 17, 18, 19, 65535, 10, 8, 65535, 24,
    25, 65535, 65535, 65535, 29, 30, 31, 65535, 65535, 28, 65535, 65535, 65535, 23, 27, 65535, 65535, 65535, 65535,
    65535, 5, 6, 7, 65535, 65535, 22, 65535, 65535, 65535, 65535, 4, 65535, 65535, 65535, 65535, 20, 21, 65535, 26,
    32, 160, 1617, 1617, 1600, 160, 1569, 1570, 1570, 1571, 91, 46, 60, 40, 43, 33, 38, 1571, 1572, 65535, 65535,
    1574, 1575, 1575, 1576, 1576, 93, 36, 42, 41, 59, 94, 45, 47, 1577, 1578, 1578, 1579, 1579, 1580, 1580, 1581,
    166, 44, 37, 95, 62, 63, 1581, 1582, 1582, 1583, 1584, 1585, 1586, 1587, 1587, 1548, 58, 35, 64, 39, 61, 34,
    1588, 97, 98, 99, 100, 101, 102, 103, 104, 105, 1588, 1589, 1589, 1590, 1590, 1591, 1592, 106, 107, 108, 109,
    110, 111, 112, 113, 114, 1593, 1593, 1593, 1593, 1594, 1594, 1594, 126, 115, 116, 117, 118, 119, 120, 121, 122,
    1594, 1601, 1601, 1602, 1602, 1603, 1603, 1604, 65269, 65269, 65271, 65271, 65535, 65535, 65275, 65275, 1604,
    1605, 1605, 1606, 1606, 1607, 1563, 65, 66, 67, 68, 69, 70, 71, 72, 73, 173, 1607, 65535, 1607, 65535, 1608,
    1567, 74, 75, 76, 77, 78, 79, 80, 81, 82, 1609, 1610, 1610, 1610, 1610, 48, 92, 247, 83, 84, 85, 86, 87, 88, 89,
    90, 49, 50, 65535, 51, 52, 53, 48, 49, 50, 51, 52, 53, 54, 55, 56, 57, 179, 54, 55, 56, 57, 65535]"

definition eBuffer_72 :: "(int \<times> int) list" where
  "eBuffer_72 = [
    (0, 0), (1, 1), (2, 2), (3, 3), (65535, 255), (9, 5), (127, 7), (10, 21), (11, 11), (12, 12), (13, 13), (14, 14),
    (15, 15), (16, 16), (17, 17), (18, 18), (19, 19), (8, 22), (24, 24), (25, 25), (29, 29), (30, 30), (31, 31),
    (28, 34), (23, 38), (27, 39), (5, 45), (6, 46), (7, 47), (22, 50), (4, 55), (20, 60), (21, 61), (26, 63),
    (32, 64), (160, 69), (1617, 67), (1600, 68), (1569, 70), (1570, 72), (1571, 81), (91, 74), (46, 75), (60, 76),
    (40, 77), (43, 78), (33, 79), (38, 80), (1572, 82), (1574, 85), (1575, 87), (1576, 89), (93, 90), (36, 91),
    (42, 92), (41, 93), (59, 94), (94, 95), (45, 96), (47, 97), (1577, 98), (1578, 100), (1579, 102), (1580, 104),
    (1581, 112), (166, 106), (44, 107), (37, 108), (95, 109), (62, 110), (63, 111), (1582, 114), (1583, 115),
    (1584, 116), (1585, 117), (1586, 118), (1587, 120), (1548, 121), (58, 122), (35, 123), (64, 124), (39, 125),
    (61, 126), (34, 127), (1588, 138), (97, 129), (98, 130), (99, 131), (100, 132), (101, 133), (102, 134),
    (103, 135), (104, 136), (105, 137), (1589, 140), (1590, 142), (1591, 143), (1592, 144), (106, 145), (107, 146),
    (108, 147), (109, 148), (110, 149), (111, 150), (112, 151), (113, 152), (114, 153), (1593, 157), (1594, 170),
    (126, 161), (115, 162), (116, 163), (117, 164), (118, 165), (119, 166), (120, 167), (121, 168), (122, 169),
    (1601, 172), (1602, 174), (1603, 176), (1604, 186), (65269, 179), (65271, 181), (65275, 185), (1605, 188),
    (1606, 190), (1607, 205), (1563, 192), (65, 193), (66, 194), (67, 195), (68, 196), (69, 197), (70, 198),
    (71, 199), (72, 200), (73, 201), (173, 202), (1608, 207), (1567, 208), (74, 209), (75, 210), (76, 211),
    (77, 212), (78, 213), (79, 214), (80, 215), (81, 216), (82, 217), (1609, 208), (1610, 222), (48, 240), (92, 224),
    (247, 225), (83, 226), (84, 227), (85, 228), (86, 229), (87, 230), (88, 231), (89, 232), (90, 233), (49, 241),
    (50, 242), (51, 243), (52, 244), (53, 245), (54, 251), (55, 252), (56, 253), (57, 254), (179, 250), (96, 121),
    (123, 192), (124, 187), (125, 208), (161, 170), (171, 138), (187, 139), (167, 181), (182, 182), (169, 180),
    (174, 175), (170, 154), (186, 155), (8216, 121), (181, 160), (183, 179), (176, 144), (175, 188), (185, 218),
    (178, 234), (189, 184), (188, 183), (190, 185), (180, 190), (8248, 95), (8764, 161), (168, 189), (184, 157),
    (164, 159), (162, 176), (163, 177), (165, 178), (177, 143), (172, 186), (215, 191), (192, 100), (193, 101),
    (194, 98), (195, 102), (196, 99), (197, 103), (198, 158), (199, 104), (208, 172), (200, 116), (201, 113),
    (202, 114), (203, 115), (204, 120), (205, 117), (206, 118), (207, 119), (209, 105), (210, 237), (211, 238),
    (212, 235), (213, 239), (214, 236), (216, 128), (222, 174), (217, 253), (218, 254), (219, 251), (220, 252),
    (221, 173), (376, 232), (224, 68), (225, 69), (226, 66), (227, 70), (228, 67), (229, 71), (230, 156), (231, 72),
    (240, 140), (232, 84), (233, 81), (234, 82), (235, 83), (236, 88), (237, 85), (238, 86), (239, 87), (241, 73),
    (242, 205), (243, 206), (244, 203), (245, 207), (246, 204), (248, 112), (254, 142), (249, 221), (250, 222),
    (251, 219), (252, 220), (253, 141), (255, 223), (223, 89), (1612, 138)]"

definition dBuffer_101 :: "int list" where
  "dBuffer_101 = [
    0, 1, 2, 3, 156, 9, 134, 127, 151, 141, 142, 11, 12, 13, 14, 15, 16, 17, 18, 19, 157, 10, 8, 135, 24, 25, 146,
    143, 28, 29, 30, 31, 128, 129, 28, 131, 132, 10, 23, 27, 136, 137, 138, 139, 140, 5, 6, 7, 144, 145, 22, 147,
    148, 149, 150, 4, 152, 153, 154, 155, 20, 21, 158, 26, 32, 160, 226, 228, 224, 225, 227, 229, 231, 241, 221, 46,
    60, 40, 43, 124, 38, 233, 234, 235, 232, 237, 238, 239, 236, 223, 33, 36, 42, 41, 59, 94, 45, 47, 194, 196, 192,
    193, 195, 197, 199, 209, 352, 44, 37, 95, 62, 63, 248, 201, 202, 203, 200, 205, 206, 207, 204, 96, 58, 35, 64,
    39, 61, 34, 216, 97, 98, 99, 100, 101, 102, 103, 104, 105, 171, 187, 240, 253, 254, 177, 176, 106, 107, 108, 109,
    110, 111, 112, 113, 114, 170, 186, 230, 382, 198, 8364, 181, 126, 115, 116, 117, 118, 119, 120, 121, 122, 161,
    191, 208, 91, 222, 174, 162, 163, 165, 183, 169, 167, 182, 338, 339, 376, 172, 353, 175, 93, 381, 215, 123, 65,
    66, 67, 68, 69, 70, 71, 72, 73, 173, 244, 246, 242, 243, 245, 125, 74, 75, 76, 77, 78, 79, 80, 81, 82, 185, 251,
    252, 249, 250, 255, 92, 247, 83, 84, 85, 86, 87, 88, 89, 90, 178, 212, 214, 210, 211, 213, 48, 49, 50, 51, 52,
    53, 54, 55, 56, 57, 179, 219, 220, 217, 218, 159]"

definition eBuffer_101 :: "(int \<times> int) list" where
  "eBuffer_101 = [
    (0, 0), (1, 1), (2, 2), (3, 3), (156, 4), (9, 5), (134, 6), (127, 7), (151, 8), (141, 9), (142, 10), (11, 11),
    (12, 12), (13, 13), (14, 14), (15, 15), (16, 16), (17, 17), (18, 18), (19, 19), (157, 20), (10, 37), (8, 22),
    (135, 23), (24, 24), (25, 25), (146, 26), (143, 27), (28, 34), (29, 29), (30, 30), (31, 31), (128, 32),
    (129, 33), (131, 35), (132, 36), (23, 38), (27, 39), (136, 40), (137, 41), (138, 42), (139, 43), (140, 44),
    (5, 45), (6, 46), (7, 47), (144, 48), (145, 49), (22, 50), (147, 51), (148, 52), (149, 53), (150, 54), (4, 55),
    (152, 56), (153, 57), (154, 58), (155, 59), (20, 60), (21, 61), (158, 62), (26, 63), (32, 64), (160, 65),
    (226, 66), (228, 67), (224, 68), (225, 69), (227, 70), (229, 71), (231, 72), (241, 73), (221, 74), (46, 75),
    (60, 76), (40, 77), (43, 78), (124, 79), (38, 80), (233, 81), (234, 82), (235, 83), (232, 84), (237, 85),
    (238, 86), (239, 87), (236, 88), (223, 89), (33, 90), (36, 91), (42, 92), (41, 93), (59, 94), (94, 95), (45, 96),
    (47, 97), (194, 98), (196, 99), (192, 100), (193, 101), (195, 102), (197, 103), (199, 104), (209, 105),
    (352, 106), (44, 107), (37, 108), (95, 109), (62, 110), (63, 111), (248, 112), (201, 113), (202, 114),
    (203, 115), (200, 116), (205, 117), (206, 118), (207, 119), (204, 120), (96, 121), (58, 122), (35, 123),
    (64, 124), (39, 125), (61, 126), (34, 127), (216, 128), (97, 129), (98, 130), (99, 131), (100, 132), (101, 133),
    (102, 134), (103, 135), (104, 136), (105, 137), (171, 138), (187, 139), (240, 140), (253, 141), (254, 142),
    (177, 143), (176, 144), (106, 145), (107, 146), (108, 147), (109, 148), (110, 149), (111, 150), (112, 151),
    (113, 152), (114, 153), (170, 154), (186, 155), (230, 156), (382, 157), (198, 158), (8364, 159), (181, 160),
    (126, 161), (115, 162), (116, 163), (117, 164), (118, 165), (119, 166), (120, 167), (121, 168), (122, 169),
    (161, 170), (191, 171), (208, 172), (91, 173), (222, 174), (174, 175), (162, 176), (163, 177), (165, 178),
    (183, 179), (169, 180), (167, 181), (182, 182), (338, 183), (339, 184), (376, 232), (172, 186), (353, 187),
    (175, 188), (93, 189), (381, 190), (215, 191), (123, 192), (65, 193), (66, 194), (67, 195), (68, 196), (69, 197),
    (70, 198), (71, 199), (72, 200), (73, 201), (173, 202), (244, 203), (246, 204), (242, 205), (243, 206),
    (245, 207), (125, 208), (74, 209), (75, 210), (76, 211), (77, 212), (78, 213), (79, 214), (80, 215), (81, 216),
    (82, 217), (185, 218), (251, 219), (252, 220), (249, 221), (250, 222), (255, 223), (92, 224), (247, 225),
    (83, 226), (84, 227), (85, 228), (86, 229), (87, 230), (88, 231), (89, 232), (90, 233), (178, 234), (212, 235),
    (214, 236), (210, 237), (211, 238), (213, 239), (48, 240), (49, 241), (50, 242), (51, 243), (52, 244), (53, 245),
    (54, 246), (55, 247), (56, 248), (57, 249), (179, 250), (219, 251), (220, 252), (217, 253), (218, 254),
    (159, 255), (8216, 121), (8248, 186), (8764, 161), (63743, 37)]"

definition dBuffer_152 :: "int list" where
  "dBuffer_152 = [
    0, 1, 2, 3, 4, 5, 6, 7, 8, 9, 10, 11, 12, 13, 14, 15, 16, 17, 18, 19, 20, 21, 22, 23, 24, 25, 26, 27, 28, 29, 30,
    31, 32, 33, 34, 35, 36, 37, 38, 39, 40, 41, 42, 43, 44, 45, 46, 47, 48, 49, 50, 51, 52, 53, 54, 55, 56, 57, 58,
    59, 60, 61, 62, 63, 64, 65, 66, 67, 68, 69, 70, 71, 72, 73, 74, 75, 76, 77, 78, 79, 80, 81, 82, 83, 84, 85, 86,
    87, 88, 89, 90, 91, 92, 93, 94, 95, 96, 97, 98, 99, 100, 101, 102, 103, 104, 105, 106, 107, 108, 109, 110, 111,
    112, 113, 114, 115, 116, 117, 118, 119, 120, 121, 122, 123, 124, 125, 126, 127, 1040, 1041, 1042, 1043, 1044,
    1045, 1046, 1047, 1048, 1049, 1050, 1051, 1052, 1053, 1054, 1055, 1056, 1057, 1058, 1059, 1060, 1061, 1062, 1063,
    1064, 1065, 1066, 1067, 1068, 1069, 1070, 1071, 1072, 1073, 1074, 1075, 1076, 1077, 1078, 1079, 1080, 1081, 1082,
    1083, 1084, 1085, 1086, 1087, 9617, 9618, 9619, 9474, 9508, 9569, 9570, 9558, 9557, 9571, 9553, 9559, 9565, 9564,
    9563, 9488, 9492, 9524, 9516, 9500, 9472, 9532, 9566, 9567, 9562, 9556, 9577, 9574, 9568, 9552, 9580, 9575, 9576,
    9572, 9573, 9561, 9560, 9554, 9555, 9579, 9578, 9496, 9484, 9608, 9604, 9612, 9616, 9600, 1088, 1089, 1090, 1091,
    1092, 1093, 1094, 1095, 1096, 1097, 1098, 1099, 1100, 1101, 1102, 1103, 1025, 1105, 1028, 1108, 1031, 1111, 1038,
    1118, 176, 8729, 183, 8730, 8470, 164, 9632, 160]"

definition eBuffer_152 :: "(int \<times> int) list" where
  "eBuffer_152 = [
    (0, 0), (1, 1), (2, 2), (3, 3), (4, 4), (5, 5), (6, 6), (7, 7), (8, 8), (9, 9), (10, 10), (11, 11), (12, 12),
    (13, 13), (14, 14), (15, 15), (16, 16), (17, 17), (18, 18), (19, 19), (20, 20), (21, 21), (22, 22), (23, 23),
    (24, 24), (25, 25), (26, 26), (27, 27), (28, 28), (29, 29), (30, 30), (31, 31), (32, 32), (33, 33), (34, 34),
    (35, 35), (36, 36), (37, 37), (38, 38), (39, 39), (40, 40), (41, 41), (42, 42), (43, 43), (44, 44), (45, 45),
    (46, 46), (47, 47), (48, 48), (49, 49), (50, 50), (51, 51), (52, 52), (53, 53), (54, 54), (55, 55), (56, 56),
    (57, 57), (58, 58), (59, 59), (60, 60), (61, 61), (62, 62), (63, 63), (64, 64), (65, 65), (66, 66), (67, 67),
    (68, 68), (69, 69), (70, 70), (71, 71), (72, 72), (73, 73), (74, 74), (75, 75), (76, 76), (77, 77), (78, 78),
    (79, 79), (80, 80), (81, 81), (82, 82), (83, 83), (84, 84), (85, 85), (86, 86), (87, 87), (88, 88), (89, 89),
    (90, 90), (91, 91), (92, 92), (93, 93), (94, 94), (95, 95), (96, 96), (97, 97), (98, 98), (99, 99), (100, 100),
    (101, 101), (102, 102), (103, 103), (104, 104), (105, 105), (106, 106), (107, 107), (108, 108), (109, 109),
    (110, 110), (111, 111), (112, 112), (113, 113), (114, 114), (115, 115), (116, 116), (117, 117), (118, 118),
    (119, 119), (120, 120), (121, 121), (122, 122), (123, 123), (124, 124), (125, 125), (126, 126), (127, 127),
    (1040, 128), (1041, 129), (1042, 130), (1043, 131), (1044, 132), (1045, 133), (1046, 134), (1047, 135),
    (1048, 136), (1049, 137), (1050, 138), (1051, 139), (1052, 140), (1053, 141), (1054, 142), (1055, 143),
    (1056, 144), (1057, 145), (1058, 146), (1059, 147), (1060, 148), (1061, 149), (1062, 150), (1063, 151),
    (1064, 152), (1065, 153), (1066, 154), (1067, 155), (1068, 156), (1069, 157), (1070, 158), (1071, 159),
    (1072, 160), (1073, 161), (1074, 162), (1075, 163), (1076, 164), (1077, 165), (1078, 166), (1079, 167),
    (1080, 168), (1081, 169), (1082, 170), (1083, 171), (1084, 172), (1085, 173), (1086, 174), (1087, 175),
    (9617, 176), (9618, 177), (9619, 178), (9474, 179), (9508, 180), (9569, 181), (9570, 182), (9558, 183),
    (9557, 184), (9571, 185), (9553, 186), (9559, 187), (9565, 188), (9564, 189), (9563, 190), (9488, 191),
    (9492, 192), (9524, 193), (9516, 194), (9500, 195), (9472, 196), (9532, 197), (9566, 198), (9567, 199),
    (9562, 200), (9556, 201), (9577, 202), (9574, 203), (9568, 204), (9552, 205), (9580, 206), (9575, 207),
    (9576, 208), (9572, 209), (9573, 210), (9561, 211), (9560, 212), (9554, 213), (9555, 214), (9579, 215),
    (9578, 216), (9496, 217), (9484, 218), (9608, 219), (9604, 220), (9612, 221), (9616, 222), (9600, 223),
    (1088, 224), (1089, 225), (1090, 226), (1091, 227), (1092, 228), (1093, 229), (1094, 230), (1095, 231),
    (1096, 232), (1097, 233), (1098, 234), (1099, 235), (1100, 236), (1101, 237), (1102, 238), (1103, 239),
    (1025, 240), (1105, 241), (1028, 242), (1108, 243), (1031, 244), (1111, 245), (1038, 246), (1118, 247),
    (176, 248), (8729, 249), (183, 250), (8730, 251), (8470, 252), (164, 253), (9632, 254), (160, 32), (173, 45)]"

section \<open>The converters\<close>

definition table_converter :: "int \<Rightarrow> int \<Rightarrow> int list \<Rightarrow> (int \<times> int) list \<Rightarrow> StringConverter" where
  "table_converter i r d e = \<lparr>LangID = i, CharWidth = 1, eReplace = 65533, dReplace = r, dBuffer = Some d,
     dBuffer2 = None, eBuffer = Some (map_of e), leading = Map.empty\<rparr>"

text \<open>The Unicode charsets have no tables. They are the last cases of the function, at the end of its file (from line 78231).\<close>

definition unicode_converter :: "int \<Rightarrow> StringConverter" where
  "unicode_converter i = \<lparr>LangID = i, CharWidth = 2, eReplace = 65533, dReplace = 63, dBuffer = None,
     dBuffer2 = None, eBuffer = None, leading = Map.empty\<rparr>"

definition single_byte_tables :: "(int \<times> int \<times> int list \<times> (int \<times> int) list) list" where
  "single_byte_tables = [
    (1, 63, dBuffer_1, eBuffer_1),
    (31, 191, dBuffer_31, eBuffer_31),
    (32, 63, dBuffer_32, eBuffer_32),
    (35, 63, dBuffer_35, eBuffer_35),
    (39, 63, dBuffer_39, eBuffer_39),
    (46, 191, dBuffer_46, eBuffer_46),
    (170, 63, dBuffer_170, eBuffer_170),
    (171, 63, dBuffer_171, eBuffer_171),
    (174, 63, dBuffer_174, eBuffer_174),
    (177, 63, dBuffer_177, eBuffer_177),
    (178, 191, dBuffer_178, eBuffer_178),
    (179, 63, dBuffer_179, eBuffer_179),
    (72, 171, dBuffer_72, eBuffer_72),
    (101, 171, dBuffer_101, eBuffer_101),
    (152, 63, dBuffer_152, eBuffer_152)]"

definition NewStringConverter :: "(int \<Rightarrow> StringConverter option) \<Rightarrow> int \<Rightarrow> StringConverter option" where
  "NewStringConverter others langID = (case map_of single_byte_tables langID of
       Some (r, d, e) \<Rightarrow> Some (table_converter langID r d e)
     | None \<Rightarrow>
         if langID \<in> {0x366, 0x367, 0x368, 0x369, 0x7D0, 0x7D2} then Some (unicode_converter langID)
         else others langID)"

section \<open>The encoding tables invert the decoding tables\<close>

text \<open>The pairs an inverse of the decoding table begins with, in the order of the bytes.\<close>

fun table_pairs :: "int \<Rightarrow> int list \<Rightarrow> (int \<times> int) list" where
  "table_pairs i [] = []"
| "table_pairs i (u # us) = (if u = 65535 then [] else [(u, i)]) @ table_pairs (i + 1) us"

fun begins_with :: "'a list \<Rightarrow> 'a list \<Rightarrow> bool" where
  "begins_with xs [] = True"
| "begins_with [] (y # ys) = False"
| "begins_with (x # xs) (y # ys) = (x = y \<and> begins_with xs ys)"

definition inverts :: "(int \<times> int) list \<Rightarrow> int list \<Rightarrow> bool" where
  "inverts e d \<longleftrightarrow> begins_with e (table_pairs 0 d) \<and> length d = 256"

lemma inverts_1: "inverts eBuffer_1 dBuffer_1"
  by code_simp

lemma inverts_31: "inverts eBuffer_31 dBuffer_31"
  by code_simp

lemma inverts_32: "inverts eBuffer_32 dBuffer_32"
  by code_simp

lemma inverts_35: "inverts eBuffer_35 dBuffer_35"
  by code_simp

lemma inverts_39: "inverts eBuffer_39 dBuffer_39"
  by code_simp

lemma inverts_46: "inverts eBuffer_46 dBuffer_46"
  by code_simp

lemma inverts_170: "inverts eBuffer_170 dBuffer_170"
  by code_simp

lemma inverts_171: "inverts eBuffer_171 dBuffer_171"
  by code_simp

lemma inverts_174: "inverts eBuffer_174 dBuffer_174"
  by code_simp

lemma inverts_177: "inverts eBuffer_177 dBuffer_177"
  by code_simp

lemma inverts_178: "inverts eBuffer_178 dBuffer_178"
  by code_simp

lemma inverts_179: "inverts eBuffer_179 dBuffer_179"
  by code_simp

lemmas inverts_tables =
  inverts_1 inverts_31 inverts_32 inverts_35 inverts_39 inverts_46 inverts_170 inverts_171 inverts_174 inverts_177 inverts_178 inverts_179

lemma begins_with_append: "begins_with xs ys \<Longrightarrow> \<exists>zs. xs = ys @ zs"
  by (induction xs ys rule: begins_with.induct) auto

lemma map_of_table_pairs:
  assumes "map_of (table_pairs i d) u = Some b"
  shows "i \<le> b \<and> b < i + int (length d) \<and> d ! nat (b - i) = u"
  using assms
proof (induction d arbitrary: i)
  case (Cons v vs)
  show ?case
  proof (cases "map_of (table_pairs (i + 1) vs) u = Some b \<and> \<not> (v = u \<and> v \<noteq> 65535)")
    case True
    with Cons.IH [of "i + 1"] have b: "i + 1 \<le> b" "b < i + 1 + int (length vs)" "vs ! nat (b - (i + 1)) = u" by simp_all
    then have "nat (b - i) = Suc (nat (b - (i + 1)))" by simp
    with b show ?thesis by simp
  next
    case False
    then have "b = i" "v = u" using Cons.prems by (auto split: if_splits)
    then show ?thesis by simp
  qed
qed simp

lemma table_pairs_defined: "u \<in> set d \<Longrightarrow> u \<noteq> 65535 \<Longrightarrow> \<exists>b. map_of (table_pairs i d) u = Some b"
  by (induction d arbitrary: i) auto

lemma inverts_lookup:
  assumes "inverts e d" and "u \<in> set d" "u \<noteq> 65535"
  obtains b where "map_of e u = Some b" "0 \<le> b" "b < 256" "d ! nat b = u"
proof -
  obtain rest where e: "e = table_pairs 0 d @ rest"
    using assms(1) begins_with_append by (auto simp: inverts_def)
  obtain b where b: "map_of (table_pairs 0 d) u = Some b" using table_pairs_defined assms(2,3) by blast
  then have "map_of e u = Some b" by (simp add: e map_of_append map_add_def)
  with that map_of_table_pairs [OF b] assms(1) show ?thesis by (simp add: inverts_def)
qed

end
