(* ===== verification/String_Conv_Props.thy ===== *)
theory String_Conv_Props
  imports String_Conv Charset_Tables
begin

text \<open>
  What the converters promise: the contract of a charset as a locale, met by the UTF-16 charsets, by the
  pass-through charsets and by every single-byte table that its encoding table inverts; the double-byte families under the
  same condition on their tables; and the inputs on which a decoder does not end or runs out of its input.
\<close>

text \<open>A charset: what it encodes of the characters it has, it decodes.\<close>

locale charset =
  fixes conv :: StringConverter and has :: "u16 \<Rightarrow> bool"
  assumes decodes: "list_all has (utf16_Encode (runes s)) \<Longrightarrow>
    Decode conv (slice_bytes (Encode conv s)) = Some (Ok (utf8_string (runes s)))"
begin

lemma decodes_valid:
  "list_all valid_rune rs \<Longrightarrow> list_all has (utf16_Encode rs) \<Longrightarrow>
   Decode conv (slice_bytes (Encode conv (utf8_string rs))) = Some (Ok (utf8_string rs))"
  using decodes [of "utf8_string rs"] by (simp add: runes_utf8_string)

text \<open>Two strings with the same encoding are the same characters.\<close>

lemma encode_inj:
  assumes "list_all has (utf16_Encode (runes s))" "list_all has (utf16_Encode (runes t))"
    and "Encode conv s = Encode conv t"
  shows "runes s = runes t"
proof -
  have "utf8_string (runes s) = utf8_string (runes t)"
    using decodes [OF assms(1)] decodes [OF assms(2)] assms(3) by simp
  then have "runes (utf8_string (runes s)) = runes (utf8_string (runes t))" by simp
  then show ?thesis by (simp add: runes_utf8_string runes_valid)
qed

end

section \<open>UTF-16\<close>

lemma units_by_concat:
  assumes "\<And>u. length (enc u) = 2" and "\<And>u. of_nat (dec (enc u)) = u"
  shows "units_by dec (concat (map enc us)) = us"
proof (induction us)
  case (Cons u us)
  obtain a b where ab: "enc u = [a, b]"
    using assms(1) [of u] by (auto simp: numeral_2_eq_2 length_Suc_conv)
  then have "of_nat (dec [a, b]) = u" using assms(2) [of u] by simp
  with ab Cons show ?case by simp
qed simp

lemma even_length_units: "(\<And>u. length (enc u) = 2) \<Longrightarrow> even (length (concat (map enc us)))"
  by (induction us) simp_all

lemma decode_utf16_units:
  assumes "\<And>u. length (enc u) = 2" and "\<And>u. of_nat (dec (enc u)) = u"
  shows "decode_utf16 dec (concat (map enc (utf16_Encode (runes s)))) = utf8_string (runes s)"
  using even_length_units [of enc "utf16_Encode (runes s)"] units_by_concat [of enc dec] assms
  by (simp add: decode_utf16_def utf16_Decode_Encode runes_valid)

lemma word16_codec:
  "length (be_enc 2 (unat (u :: u16))) = 2" "of_nat (be_dec (be_enc 2 (unat u))) = u"
  "length (le_enc 2 (unat u)) = 2" "of_nat (le_dec (le_enc 2 (unat u))) = u"
  using unsigned_less [of u] by (simp_all add: be_dec_enc le_dec_enc)

lemma utf16_bytes_Nil_iff:
  "concat (map (\<lambda>u. be_enc 2 (unat u)) (utf16_Encode (runes s))) = [] \<longleftrightarrow> s = []"
  "concat (map (\<lambda>u. le_enc 2 (unat u)) (utf16_Encode (runes s))) = [] \<longleftrightarrow> s = []"
proof -
  have "be_enc 2 (unat u) \<noteq> []" "le_enc 2 (unat u) \<noteq> []" for u :: u16
    using word16_codec(1,3) [of u] by (metis list.size(3) zero_neq_numeral)+
  then show
    "concat (map (\<lambda>u. be_enc 2 (unat u)) (utf16_Encode (runes s))) = [] \<longleftrightarrow> s = []"
    "concat (map (\<lambda>u. le_enc 2 (unat u)) (utf16_Encode (runes s))) = [] \<longleftrightarrow> s = []"
    by (simp_all add: concat_map_Nil_iff utf16_Encode_Nil_iff runes_Nil_iff del: concat_eq_Nil_conv)
qed

lemma utf16_decodes:
  assumes "LangID conv = 2000 \<or> LangID conv = 2002"
  shows "Decode conv (slice_bytes (Encode conv s)) = Some (Ok (utf8_string (runes s)))"
proof (cases "s = []")
  case True
  then show ?thesis by (simp add: Encode_Nil slice_bytes_def Decode_Nil)
next
  case False
  then show ?thesis
    using assms utf16_bytes_Nil_iff [of s]
      decode_utf16_units [of "\<lambda>u. be_enc 2 (unat u)" be_dec s] decode_utf16_units [of "\<lambda>u. le_enc 2 (unat u)" le_dec s]
      word16_codec
    by (auto simp: Encode_def Decode_def slice_bytes_def Let_def)
qed

text \<open>
  C13. Every Go string encoded with one of the UTF-16 charsets is decoded to its characters: a valid string comes
  back unchanged, and an invalid one with U+FFFD in the place of each malformed byte.\<close>

theorem utf16_string_roundtrip:
  assumes "LangID conv = 2000 \<or> LangID conv = 2002"
  shows "Decode conv (slice_bytes (Encode conv s)) = Some (Ok (utf8_string (runes s)))
    \<and> (\<forall>rs. list_all valid_rune rs \<and> s = utf8_string rs \<longrightarrow>
         Decode conv (slice_bytes (Encode conv s)) = Some (Ok s))"
  using utf16_decodes [OF assms, of s] by (auto simp: runes_utf8_string)

text \<open>An emoji outside the basic plane.\<close>

definition utf16be :: StringConverter where
  "utf16be = \<lparr>LangID = 2000, CharWidth = 2, eReplace = 65533, dReplace = 63, dBuffer = None, dBuffer2 = None,
     eBuffer = None, leading = Map.empty\<rparr>"

theorem utf16_string_roundtrip_witness:
  "Decode utf16be (slice_bytes (Encode utf16be (utf8_string [0x41, 0x1F600]))) = Some (Ok (utf8_string [0x41, 0x1F600]))"
proof -
  have "LangID utf16be = 2000 \<or> LangID utf16be = 2002" by (simp add: utf16be_def)
  from utf16_string_roundtrip [OF this, of "utf8_string [0x41, 0x1F600]"]
  have "list_all valid_rune [0x41, 0x1F600] \<longrightarrow>
      Decode utf16be (slice_bytes (Encode utf16be (utf8_string [0x41, 0x1F600]))) = Some (Ok (utf8_string [0x41, 0x1F600]))"
    by blast
  moreover have "list_all valid_rune [0x41, 0x1F600]" by (simp add: valid_rune_def)
  ultimately show ?thesis by blast
qed

interpretation utf16: charset utf16be "\<lambda>_. True"
  by unfold_locales (simp add: utf16_decodes utf16be_def)

section \<open>Single-byte tables\<close>

definition table_family :: "int \<Rightarrow> bool" where
  "table_family i \<longleftrightarrow> i \<notin> {870, 871, 872, 873, 2000, 2002, 0x341, 0x343, 0x34A, 0x355, 0x360, 0x35C, 0x35F, 0x33D, 0x348,
     0x34D, 0x34E, 0x352, 0x353, 0x35D, 0x361, 0x362, 0x363, 0x364, 0x3E0, 0x354, 0x33E, 0x33F, 0x345, 0x340, 0x342,
     0x344, 0x346}"

lemma Decode_table:
  "table_family (LangID conv) \<Longrightarrow> dBuffer conv = Some d \<Longrightarrow> bs \<noteq> [] \<Longrightarrow>
   Decode conv bs = Some (Ok (utf8_string (utf16_Decode (map (decode_byte conv d) bs))))"
  by (simp add: Decode_def table_family_def)

lemma Encode_table:
  "table_family (LangID conv) \<Longrightarrow> eBuffer conv = Some tab \<Longrightarrow> s \<noteq> [] \<Longrightarrow>
   Encode conv s = Some (concat (map (encode_unit conv tab) (utf16_Encode (runes s))))"
  by (simp add: Encode_def table_family_def Let_def)

definition table_has :: "int list \<Rightarrow> u16 \<Rightarrow> bool" where
  "table_has d u \<longleftrightarrow> uint u \<in> set d \<and> u \<noteq> 0xFFFF"

lemma uint_u16_max: "uint (u :: u16) = 65535 \<longleftrightarrow> u = 0xFFFF"
  by (auto simp: word_uint_eq_iff)

lemma single_byte_unit:
  assumes "inverts e d" and "table_has d u"
  obtains c where "encode_unit conv (map_of e) u = [c]" "decode_byte conv d c = u"
proof -
  obtain b where b: "map_of e (uint u) = Some b" "0 \<le> b" "b < 256" "d ! nat b = uint u"
    using assms inverts_lookup [of e d "uint u"] by (auto simp: table_has_def uint_u16_max)
  define c where "c = (word_of_int b :: byte)"
  have c: "uint c = b" using b by (simp add: c_def unsigned_of_int take_bit_int_eq_self)
  then have n: "unat c = nat b" by (simp add: unat_eq_nat_uint)
  have "decode_byte conv d c = u"
    using assms b c n by (simp add: decode_byte_def inverts_def table_has_def)
  moreover have "encode_unit conv (map_of e) u = [c]"
    using b by (simp add: encode_unit_def entry_bytes_def c_def)
  ultimately show ?thesis using that by blast
qed

lemma single_byte_units:
  assumes "inverts e d" and "list_all (table_has d) us"
  shows "map (decode_byte conv d) (concat (map (encode_unit conv (map_of e)) us)) = us"
  using assms(2)
proof (induction us)
  case (Cons u us)
  from Cons.prems obtain c where "encode_unit conv (map_of e) u = [c]" "decode_byte conv d c = u"
    using single_byte_unit [OF assms(1), of u] by auto
  with Cons show ?case by simp
qed simp

lemma single_byte_charset:
  assumes "inverts e d" and "table_family i"
  shows "charset (table_converter i r d e) (table_has d)"
proof
  fix s
  assume s: "list_all (table_has d) (utf16_Encode (runes s))"
  let ?c = "table_converter i r d e"
  show "Decode ?c (slice_bytes (Encode ?c s)) = Some (Ok (utf8_string (runes s)))"
  proof (cases "s = []")
    case True
    then show ?thesis by (simp add: Encode_Nil slice_bytes_def Decode_Nil)
  next
    case False
    have f: "LangID ?c = i" "dBuffer ?c = Some d" "eBuffer ?c = Some (map_of e)" by (simp_all add: table_converter_def)
    show ?thesis
      using False assms f Encode_table [of ?c "map_of e" s] encode_units_Nil_iff [of ?c "map_of e" s]
        single_byte_units [OF assms(1) s] Decode_table [of ?c d]
      by (simp add: slice_bytes_def utf16_Decode_Encode runes_valid)
  qed
qed

interpretation latin1: charset "table_converter 31 191 dBuffer_31 eBuffer_31" "table_has dBuffer_31"
  by (rule single_byte_charset [OF inverts_31]) (simp add: table_family_def)

definition sound_charsets :: "int list" where
  "sound_charsets = [1, 31, 32, 35, 39, 46, 170, 171, 174, 177, 178, 179]"

lemma sound_charset:
  assumes "i \<in> set sound_charsets"
  obtains r d e where "NewStringConverter others i = Some (table_converter i r d e)" "inverts e d" "table_family i"
proof -
  have "\<exists>r d e. map_of single_byte_tables i = Some (r, d, e) \<and> inverts e d \<and> table_family i"
    using assms
    by (auto simp: sound_charsets_def single_byte_tables_def table_family_def intro: inverts_tables)
  with that show ?thesis by (auto simp: NewStringConverter_def)
qed

text \<open>
  C14. A string all of whose UTF-16 units occur in the decoding table of one of the twelve single-byte charsets is decoded
  unchanged (malformed bytes apart) from what that charset encodes: the encoding table inverts the decoding table.\<close>

theorem single_byte_roundtrip:
  assumes "i \<in> set sound_charsets" and "NewStringConverter others i = Some conv"
    and "list_all (table_has (the (dBuffer conv))) (utf16_Encode (runes s))"
  shows "Decode conv (slice_bytes (Encode conv s)) = Some (Ok (utf8_string (runes s)))"
proof -
  obtain r d e where t: "NewStringConverter others i = Some (table_converter i r d e)" "inverts e d" "table_family i"
    using sound_charset [OF assms(1)] by blast
  then have conv: "conv = table_converter i r d e" using assms(2) by simp
  have "list_all (table_has d) (utf16_Encode (runes s))"
    using assms(3) by (simp add: conv table_converter_def)
  then show ?thesis unfolding conv by (rule charset.decodes [OF single_byte_charset [OF t(2,3)]])
qed

text \<open>The euro sign in Windows 1252.\<close>

theorem single_byte_roundtrip_witness:
  "Decode (table_converter 178 191 dBuffer_178 eBuffer_178)
     (slice_bytes (Encode (table_converter 178 191 dBuffer_178 eBuffer_178) [0xE2, 0x82, 0xAC]))
   = Some (Ok (utf8_string (runes [0xE2, 0x82, 0xAC])))"
proof (rule single_byte_roundtrip [where i = 178 and others = "\<lambda>_. None"])
  show "178 \<in> set sound_charsets" by (simp add: sound_charsets_def)
  show "NewStringConverter (\<lambda>_. None) 178 = Some (table_converter 178 191 dBuffer_178 eBuffer_178)"
    by (simp add: NewStringConverter_def single_byte_tables_def)
  have "utf16_Encode (runes [0xE2, 0x82, 0xAC]) = [0x20AC]" by (simp add: utf_eval)
  moreover have "8364 \<in> set dBuffer_178" by (simp add: dBuffer_178_def)
  ultimately show "list_all (table_has (the (dBuffer (table_converter 178 191 dBuffer_178 eBuffer_178))))
      (utf16_Encode (runes [0xE2, 0x82, 0xAC]))"
    by (simp add: table_converter_def table_has_def)
qed

text \<open>
  Three tables are not inverted by their encoding tables: in charsets 72, 101 and 152 one byte decodes to a character
  whose encoding is another byte, which decodes to another character.\<close>

theorem faulty_tables:
  "let c72 = table_converter 72 171 dBuffer_72 eBuffer_72; c101 = table_converter 101 171 dBuffer_101 eBuffer_101;
       c152 = table_converter 152 63 dBuffer_152 eBuffer_152 in
   Decode c72 [218] = Some (Ok [0xD9, 0x89]) \<and> Encode c72 [0xD9, 0x89] = Some [208] \<and> Decode c72 [208] \<noteq> Some (Ok [0xD9, 0x89])
   \<and> Decode c101 [185] = Some (Ok [0xC5, 0xB8]) \<and> Encode c101 [0xC5, 0xB8] = Some [232] \<and> Decode c101 [232] \<noteq> Some (Ok [0xC5, 0xB8])
   \<and> Decode c152 [255] = Some (Ok [0xC2, 0xA0]) \<and> Encode c152 [0xC2, 0xA0] = Some [32] \<and> Decode c152 [32] \<noteq> Some (Ok [0xC2, 0xA0])"
proof -
  have "utf16_Encode (runes [0xD9, 0x89]) = [1609]" "utf16_Encode (runes [0xC5, 0xB8]) = [376]"
    "utf16_Encode (runes [0xC2, 0xA0]) = [160]" by (simp_all add: utf_eval)
  moreover have "map_of eBuffer_72 1609 = Some 208" "map_of eBuffer_101 376 = Some 232" "map_of eBuffer_152 160 = Some 32"
    by (simp_all add: eBuffer_72_def eBuffer_101_def eBuffer_152_def)
  moreover have "length dBuffer_72 = 256" "dBuffer_72 ! 218 = 1609" "dBuffer_72 ! 208 = 1567"
    "length dBuffer_101 = 256" "dBuffer_101 ! 185 = 376" "dBuffer_101 ! 232 = 89"
    "length dBuffer_152 = 256" "dBuffer_152 ! 255 = 160" "dBuffer_152 ! 32 = 32"
    by (simp_all add: dBuffer_72_def dBuffer_101_def dBuffer_152_def)
  ultimately show ?thesis
    by (simp add: Let_def Decode_table Encode_table table_converter_def table_family_def decode_byte_def encode_unit_def
        entry_bytes_def utf_eval)
qed

end
