(* ===== verification/String_Conv_Loops.thy ===== *)
theory String_Conv_Loops
  imports String_Conv
begin

text \<open>
  The decoding loops of the multi-byte charsets: when they end, what they return on an encoded string, and the inputs
  on which they run past the end of the input.
\<close>

section \<open>The shift charsets\<close>

definition is_shift :: "byte \<Rightarrow> bool" where
  "is_shift b \<longleftrightarrow> b = 14 \<or> b = 15"

definition shift_family :: "int \<Rightarrow> bool" where
  "shift_family i \<longleftrightarrow> i \<in> {0x341, 0x343, 0x34A, 0x355, 0x360}"

text \<open>On a shift byte the loop does not advance, so no number of turns gets past it.\<close>

lemma decode_shift_stuck:
  assumes "index < length input" and "is_shift (input ! index)"
  shows "decode_shift conv input index shiftIn out = None"
proof -
  have "\<not> (index < length input \<and> is_shift (input ! index))"
    if run: "decode_shift conv input index shiftIn out = Some r" for r
    by (rule decode_shift.raw_induct [OF _ run, where P =
        "\<lambda>conv input index shiftIn out r. \<not> (index < length input \<and> is_shift (input ! index))"])
      (auto simp: is_shift_def split: if_splits)
  then show ?thesis using assms by (cases "decode_shift conv input index shiftIn out") auto
qed

text \<open>Hence the loop is never in the two-byte state at a character: it decodes byte by byte, or hangs.\<close>

lemma decode_shift_run:
  assumes "\<forall>b \<in> set input. \<not> is_shift b \<longrightarrow> toUnicodeChar conv (uint b) 0 = Ok (f b)" and "index \<le> length input"
  shows "decode_shift conv input index True out =
    (if list_ex is_shift (drop index input) then None
     else Some (Ok (utf8_string (utf16_Decode (out @ concat (map (\<lambda>b. char_units (f b)) (drop index input)))))))"
  using assms(2)
proof (induction "length input - index" arbitrary: index out)
  case 0
  then show ?case by (subst decode_shift.simps) simp
next
  case (Suc n)
  then have i: "index < length input" by simp
  then have d: "drop index input = input ! index # drop (index + 1) input" by (simp add: Cons_nth_drop_Suc)
  show ?case
  proof (cases "is_shift (input ! index)")
    case True
    then show ?thesis using decode_shift_stuck [OF i True] d by simp
  next
    case False
    have "toUnicodeChar conv (uint (input ! index)) 0 = Ok (f (input ! index))" using assms(1) False i by simp
    then have "decode_shift conv input index True out =
        decode_shift conv input (index + 1) True (out @ char_units (f (input ! index)))"
      using i False by (subst decode_shift.simps) (simp add: is_shift_def)
    also have "\<dots> = (if list_ex is_shift (drop (index + 1) input) then None
        else Some (Ok (utf8_string (utf16_Decode ((out @ char_units (f (input ! index)))
          @ concat (map (\<lambda>b. char_units (f b)) (drop (index + 1) input)))))))"
      using Suc i by (intro Suc.hyps(1)) simp_all
    finally show ?thesis using d False by simp
  qed
qed

lemma Decode_shift: "shift_family (LangID conv) \<Longrightarrow> input \<noteq> [] \<Longrightarrow> Decode conv input = decode_shift conv input 0 True []"
  by (auto simp: Decode_def shift_family_def)

text \<open>
  C36. In the charsets with shift states, decoding does not return on any input that holds a shift byte (14 or 15), because the
  loop does not step over it; every other input, whose bytes the tables cover, is decoded one byte at a time.\<close>

theorem shift_decoding_hangs:
  assumes "shift_family (LangID conv)"
    and "\<forall>b \<in> set input. \<not> is_shift b \<longrightarrow> toUnicodeChar conv (uint b) 0 = Ok (f b)"
  shows "Decode conv input = (if list_ex is_shift input then None
     else Some (Ok (utf8_string (utf16_Decode (concat (map (\<lambda>b. char_units (f b)) input))))))"
proof (cases "input = []")
  case True
  then show ?thesis by (simp add: Decode_def utf8_string_def)
next
  case False
  then show ?thesis using Decode_shift [OF assms(1)] decode_shift_run [OF assms(2), of 0 "[]"] by simp
qed

text \<open>A table that maps each byte below 256 to the code point of the same number.\<close>

definition shift_conv :: StringConverter where
  "shift_conv = \<lparr>LangID = 0x341, CharWidth = 2, eReplace = 65533, dReplace = 63, dBuffer = Some [0],
     dBuffer2 = Some (map int [0..<256]), eBuffer = None, leading = Map.empty\<rparr>"

lemma shift_conv_char: "toUnicodeChar shift_conv (uint (b :: byte)) 0 = Ok (uint b)"
proof -
  have b: "uint b < 256" "0 \<le> uint b" using unsigned_less [of b] by simp_all
  then have "map int [0..<256] ! nat (uint b) = uint b" by simp
  then show ?thesis using b by (simp add: toUnicodeChar_def int_index_def shift_conv_def)
qed

theorem shift_decoding_hangs_witness:
  "Decode shift_conv [0x41, 14, 0x42, 0x43, 15] = None \<and> Decode shift_conv [0x41] \<noteq> None"
proof -
  have "shift_family (LangID shift_conv)" by (simp add: shift_family_def shift_conv_def)
  moreover have "\<forall>b \<in> set input. \<not> is_shift b \<longrightarrow> toUnicodeChar shift_conv (uint b) 0 = Ok (uint b)" for input
    by (simp only: shift_conv_char simp_thms ball_triv)
  ultimately have "Decode shift_conv input = (if list_ex is_shift input then None
      else Some (Ok (utf8_string (utf16_Decode (concat (map (\<lambda>b. char_units (uint b)) input))))))" for input
    by (rule shift_decoding_hangs)
  then show ?thesis by (simp add: is_shift_def)
qed

section \<open>Termination\<close>

lemma decode_shift_returns:
  assumes "list_all (\<lambda>b. \<not> is_shift b) input"
  shows "\<exists>r. decode_shift conv input index shiftIn out = Some r"
proof (induction "length input - index" arbitrary: index out rule: less_induct)
  case less
  show ?case
  proof (cases "index < length input")
    case True
    then have "\<not> is_shift (input ! index)" using assms by (simp add: list_all_length)
    moreover have "\<exists>r. decode_shift conv input (index + 1) shiftIn out = Some r"
      "\<exists>r. decode_shift conv input (index + 2) shiftIn out = Some r" for out
      using True by (intro less.hyps; simp)+
    ultimately show ?thesis
      using True by (subst decode_shift.simps) (auto simp: is_shift_def split: res.splits)
  next
    case False
    then show ?thesis by (subst decode_shift.simps) simp
  qed
qed

text \<open>The other loops end because every turn moves the index.\<close>

lemma decode_loop_returns:
  assumes "\<And>b bs ch lead n. turn (b # bs) = Code ch lead n \<Longrightarrow> 0 < n"
  shows "\<exists>r. decode_loop turn conv input rest out = Some r"
proof (induction "length rest" arbitrary: rest out rule: less_induct)
  case less
  show ?case
  proof (cases rest)
    case (Cons b bs)
    have "\<exists>r. decode_loop turn conv input (drop n (b # bs)) out' = Some r" if "0 < n" for n out'
      using that Cons by (intro less.hyps) (simp add: less_Suc_eq_le)
    with assms [of b bs] Cons show ?thesis by (auto split: turn.split res.split simp del: drop_Cons')
  qed simp
qed

lemma turns_move:
  "double_byte is_lead rest = Code ch lead n \<Longrightarrow> 0 < n" "turn_jaeuc rest = Code ch lead n \<Longrightarrow> 0 < n" "turn_zhteuc conv rest = Code ch lead n \<Longrightarrow> 0 < n"
  by (auto simp: double_byte_def turn_jaeuc_def turn_zhteuc_def Let_def split: if_splits option.splits)

lemma loops_return:
  "\<exists>r. decode_loop turn_12byte conv input rest out = Some r" "\<exists>r. decode_loop turn_gbk conv input rest out = Some r"
  "\<exists>r. decode_loop turn_sjis conv input rest out = Some r" "\<exists>r. decode_loop turn_jaeuc conv input rest out = Some r"
  "\<exists>r. decode_loop (turn_zhteuc conv) conv input rest out = Some r"
  unfolding turn_12byte_def turn_gbk_def turn_sjis_def by (rule decode_loop_returns, erule turns_move)+

text \<open>
  C35. Decoding returns on every input in every charset, whatever its tables hold, but for shift bytes in a charset with shift
  states: every turn of a loop moves the index, whatever it finds.\<close>

theorem Decode_returns:
  assumes "shift_family (LangID conv) \<Longrightarrow> list_all (\<lambda>b. \<not> is_shift b) input"
  shows "\<exists>r. Decode conv input = Some r"
proof (cases "shift_family (LangID conv) \<and> input \<noteq> []")
  case True
  then show ?thesis using Decode_shift decode_shift_returns [OF assms] by auto
next
  case False
  then show ?thesis using loops_return [of conv] by (auto simp: Decode_def shift_family_def split: option.split)
qed

theorem Decode_returns_witness: "\<exists>r. Decode shift_conv [0x41, 0x42] = Some r"
  by (rule Decode_returns) (simp add: is_shift_def)

section \<open>The double-byte charsets\<close>

definition double_family :: "int \<Rightarrow> (int \<Rightarrow> bool) option" where
  "double_family i =
    (if i \<in> {0x33D, 0x348, 0x34D, 0x34E, 0x352, 0x353, 0x35D, 0x361, 0x362, 0x363, 0x364, 0x3E0} then Some (\<lambda>b. b > 127)
     else if i = 0x354 then Some (\<lambda>b. b > 128)
     else if i \<in> {0x340, 0x342, 0x344, 0x346} then Some (\<lambda>b. b > 223 \<or> b > 127 \<and> b < 161)
     else None)"

text \<open>The tables agree on a code unit: it is encoded as one byte that is no lead byte, or as two bytes of which the first is one,
  and the decoding tables have the unit at that code.\<close>

definition tables_agree :: "StringConverter \<Rightarrow> (int \<Rightarrow> bool) \<Rightarrow> u16 \<Rightarrow> bool" where
  "tables_agree conv is_lead u = (case eBuffer conv of None \<Rightarrow> False | Some tab \<Rightarrow> (case tab (uint u) of None \<Rightarrow> False | Some ch \<Rightarrow>
     (0 \<le> ch \<and> ch < 256 \<and> \<not> is_lead ch \<or> 256 \<le> ch \<and> ch < 65536 \<and> is_lead (ch div 256))
     \<and> toUnicodeChar conv ch 0 = Ok (uint u)))"

lemma char_units_unit: "char_units (uint (u :: u16)) = [u]"
proof -
  have "0 \<le> uint u" "uint u < 65536" using unsigned_less [of u] by simp_all
  then show ?thesis by (simp add: char_units_def)
qed

lemma two_bytes:
  assumes "256 \<le> ch" "ch < 65536"
  shows "uint (word_of_int (ch div 256) :: byte) = ch div 256"
    and "int (be_dec [word_of_int (ch div 256), word_of_int ch]) = ch"
proof -
  have q: "0 \<le> ch div 256" "ch div 256 < 256" using assms by simp_all
  then show u: "uint (word_of_int (ch div 256) :: byte) = ch div 256"
    by (simp add: unsigned_of_int take_bit_int_eq_self)
  have "uint (word_of_int ch :: byte) = ch mod 256" by (simp add: unsigned_of_int take_bit_eq_mod)
  then show "int (be_dec [word_of_int (ch div 256), word_of_int ch]) = ch"
    using u by (simp add: be_dec_Cons flip: uint_nat)
qed

lemma double_byte_unit:
  assumes "tables_agree conv is_lead u" and "eBuffer conv = Some tab"
  shows "decode_loop (double_byte is_lead) conv input (encode_unit conv tab u @ rest) out =
    decode_loop (double_byte is_lead) conv input rest (out @ [u])"
proof -
  from assms obtain ch where ch: "tab (uint u) = Some ch" "toUnicodeChar conv ch 0 = Ok (uint u)"
    "0 \<le> ch \<and> ch < 256 \<and> \<not> is_lead ch \<or> 256 \<le> ch \<and> ch < 65536 \<and> is_lead (ch div 256)"
    by (auto simp: tables_agree_def split: option.splits)
  from ch(3) consider "0 \<le> ch" "ch < 256" "\<not> is_lead ch" | "256 \<le> ch" "ch < 65536" "is_lead (ch div 256)" by blast
  then show ?thesis
  proof cases
    case 1
    then have "uint (word_of_int ch :: byte) = ch" by (simp add: unsigned_of_int take_bit_int_eq_self)
    with 1 ch show ?thesis by (simp add: encode_unit_def entry_bytes_def double_byte_def char_units_unit)
  next
    case 2
    with ch two_bytes [OF 2(1,2)] show ?thesis
      by (simp add: encode_unit_def entry_bytes_def double_byte_def char_units_unit)
  qed
qed

lemma double_byte_units:
  assumes "list_all (tables_agree conv is_lead) us" and "eBuffer conv = Some tab"
  shows "decode_loop (double_byte is_lead) conv input (concat (map (encode_unit conv tab) us)) out =
    Some (Ok (utf8_string (utf16_Decode (out @ us))))"
  using assms(1)
  by (induction us arbitrary: out) (simp_all add: double_byte_unit assms(2) del: decode_loop_Cons)

lemma Decode_double:
  "double_family (LangID conv) = Some is_lead \<Longrightarrow> input \<noteq> [] \<Longrightarrow>
   Decode conv input = decode_loop (double_byte is_lead) conv input input []"
  by (auto simp: double_family_def Decode_def turn_12byte_def turn_gbk_def turn_sjis_def split: if_splits)

lemma Encode_double:
  "double_family (LangID conv) = Some is_lead \<Longrightarrow> eBuffer conv = Some tab \<Longrightarrow> s \<noteq> [] \<Longrightarrow>
   Encode conv s = Some (concat (map (encode_unit conv tab) (utf16_Encode (runes s))))"
  by (auto simp: double_family_def Encode_def Let_def split: if_splits)

text \<open>
  In the double-byte charsets (the one-or-two-byte family, GBK and Shift-JIS) a string on whose code units the encoding and
  decoding tables agree is decoded to the characters that were encoded.\<close>

theorem double_byte_roundtrip:
  assumes "double_family (LangID conv) = Some is_lead"
    and "list_all (tables_agree conv is_lead) (utf16_Encode (runes s))"
  shows "Decode conv (slice_bytes (Encode conv s)) = Some (Ok (utf8_string (runes s)))"
proof (cases "s = []")
  case True
  then show ?thesis by (simp add: Encode_Nil Decode_Nil slice_bytes_def)
next
  case False
  then have "utf16_Encode (runes s) \<noteq> []" by (simp add: utf16_Encode_Nil_iff runes_Nil_iff)
  with assms(2) obtain tab where tab: "eBuffer conv = Some tab"
    by (cases "utf16_Encode (runes s)") (auto simp: tables_agree_def split: option.splits)
  let ?bs = "concat (map (encode_unit conv tab) (utf16_Encode (runes s)))"
  have "?bs \<noteq> []" using False encode_units_Nil_iff by blast
  then show ?thesis
    using Encode_double [OF assms(1) tab False] Decode_double [OF assms(1)] double_byte_units [OF assms(2) tab, of ?bs "[]"]
    by (simp add: slice_bytes_def utf16_Decode_Encode runes_valid)
qed

text \<open>A two-character charset of the GBK family: the letter A and the character U+4E00 at 0xD2BB.\<close>

definition gbk_conv :: StringConverter where
  "gbk_conv = \<lparr>LangID = 0x354, CharWidth = 2, eReplace = 65533, dReplace = 63,
     dBuffer = Some ((replicate 256 0xFFFF)[0 := 0, 0xD2 := 256]),
     dBuffer2 = Some ((replicate 512 0xFFFF)[0x41 := 0x41, 256 + 0xBB := 0x4E00]),
     eBuffer = Some [0x41 \<mapsto> 0x41, 0x4E00 \<mapsto> 0xD2BB], leading = Map.empty\<rparr>"

theorem double_byte_roundtrip_witness:
  "Decode gbk_conv (slice_bytes (Encode gbk_conv [0x41, 0xE4, 0xB8, 0x80])) =
     Some (Ok (utf8_string (runes [0x41, 0xE4, 0xB8, 0x80])))"
proof (rule double_byte_roundtrip)
  show "double_family (LangID gbk_conv) = Some (\<lambda>b. b > 128)" by (simp add: double_family_def gbk_conv_def)
  have "utf16_Encode (runes [0x41, 0xE4, 0xB8, 0x80]) = [0x41, 0x4E00]" by (simp add: utf_eval)
  then show "list_all (tables_agree gbk_conv (\<lambda>b. b > 128)) (utf16_Encode (runes [0x41, 0xE4, 0xB8, 0x80]))"
    by (simp add: tables_agree_def gbk_conv_def toUnicodeChar_def int_index_def)
qed

section \<open>Truncated input\<close>

lemma zhteuc_ascii:
  assumes "uint b \<le> 127" and "toUnicodeChar conv (uint b) 0 = Ok char"
  shows "decode_loop (turn_zhteuc conv) conv input (b # bs) out =
    decode_loop (turn_zhteuc conv) conv input bs (out @ char_units char)"
  using assms by (simp add: turn_zhteuc_def)

lemma zhteuc_prefix:
  assumes "list_all (\<lambda>b. uint b \<le> 127 \<and> toUnicodeChar conv (uint b) 0 = Ok (f b)) xs"
  shows "decode_loop (turn_zhteuc conv) conv input (xs @ bs) out =
    decode_loop (turn_zhteuc conv) conv input bs (out @ concat (map (\<lambda>b. char_units (f b)) xs))"
  using assms by (induction xs arbitrary: out) (simp_all add: zhteuc_ascii del: decode_loop_Cons)

text \<open>
  In the traditional Chinese EUC charsets a four-byte character that is cut off after its third byte makes Decode panic: the
  bounds check admits three bytes and the read takes four. Cut off after two bytes, the input is returned undecoded.\<close>

theorem zhteuc_truncated:
  assumes "LangID conv = 0x35C \<or> LangID conv = 0x35F"
    and "uint a > 127" and "leading conv (int (be_dec [a, b])) = Some v"
    and "list_all (\<lambda>x. uint x \<le> 127 \<and> toUnicodeChar conv (uint x) 0 = Ok (f x)) xs"
  shows "Decode conv (xs @ [a, b, c]) = Some Panic \<and> Decode conv (xs @ [a, b]) = Some (Ok (xs @ [a, b]))"
proof -
  have "Decode conv (xs @ ys) = decode_loop (turn_zhteuc conv) conv (xs @ ys) (xs @ ys) []" if "ys \<noteq> []" for ys
    using assms(1) that by (auto simp: Decode_def)
  then show ?thesis
    using assms(2,3) by (simp add: zhteuc_prefix [OF assms(4)] turn_zhteuc_def)
qed

definition zht_conv :: StringConverter where
  "zht_conv = \<lparr>LangID = 0x35C, CharWidth = 2, eReplace = 65533, dReplace = 63, dBuffer = Some [0],
     dBuffer2 = Some (map int [0..<256]), eBuffer = None, leading = [0 \<mapsto> 0, 0x8EA2 \<mapsto> 0x100, 0x8EAE \<mapsto> 0x200]\<rparr>"

theorem zhteuc_truncated_witness:
  "Decode zht_conv ([] @ [0x8E, 0xA2, 0xA1]) = Some Panic \<and> Decode zht_conv ([] @ [0x8E, 0xA2]) = Some (Ok ([] @ [0x8E, 0xA2]))"
  by (rule zhteuc_truncated [where v = 256]) (simp_all add: zht_conv_def be_dec_def)

end
