(* ===== verification/Connection.thy ===== *)
theory Connection
  imports Summary Charset_Tables Oracle_Date Oracle_Values
begin

text \<open>
  The connection object of \<^verbatim>\<open>v3/connection.go\<close> and the exchanges it runs on its session: the protocol and data type
  negotiation (\<^verbatim>\<open>tcp_protocol_nego.go\<close>, \<^verbatim>\<open>data_type_nego.go\<close>), the version request (\<^verbatim>\<open>db_version.go\<close>), the dispatch of the
  server's messages, NLS settings, temporary LOBs, logging off and closing, and the simple calls (\<^verbatim>\<open>simple_object.go\<close>,
  \<^verbatim>\<open>transaction.go\<close>). Tracing is left out. What the code takes from outside is the record \<open>conn_env\<close>: reading and
  writing of the session, the charset tables that are not transcribed, the offset of the local time zone, and which
  errors of the network stack are a broken pipe or a failed write.
\<close>

section \<open>State\<close>

record NLSData =
  Calender :: "byte list"
  Comp :: "byte list"
  Language :: "byte list"
  LengthSemantics :: "byte list"
  NCharConvExcep :: "byte list"
  NCharConvImp :: "byte list"
  DateLang :: "byte list"
  Sort :: "byte list"
  Currency :: "byte list"
  DateFormat :: "byte list"
  TimeFormat :: "byte list"
  IsoCurrency :: "byte list"
  NumericChars :: "byte list"
  DualCurrency :: "byte list"
  UnionCurrency :: "byte list"
  Timestamp :: "byte list"
  TimestampTZ :: "byte list"
  TTimezoneFormat :: "byte list"
  NTimezoneFormat :: "byte list"
  Territory :: "byte list"
  Charset :: "byte list"

record tcp_nego =
  MessageCode :: byte
  ProtocolServerString :: "byte list"
  OracleVersion :: int
  ServerCharset :: int
  nego_ServerFlags :: byte
  ServerNCharset :: int
  ServerCompileTimeCaps :: nslice
  ServerRuntimeCaps :: nslice

record data_nego =
  TypeAndRep :: "u16 list"
  RuntimeTypeAndRep :: "u16 list"
  CompileTimeCaps :: "byte list"
  RuntimeCap :: "byte list"
  b32kTypeSupported :: bool
  supportSessionStateOps :: bool
  serverTZVersion :: int
  clientTZVersion :: int

record db_version =
  Info :: "byte list"
  Text :: "byte list"
  Number :: u16
  MajorVersion :: int
  MinorVersion :: int
  PatchsetVersion :: int

record max_len =
  varchar :: int
  nvarchar :: int
  maxraw :: int

datatype connection_state = Closed | Opened

text \<open>\<open>StrConv\<close> and \<open>TimeZone\<close> are fields of the session that only the connection assigns. The negotiation objects
  point to the connection's own \<open>tcpNego\<close>, which is where their \<open>Server\<close> is looked up.\<close>

record 'n connection =
  sess :: "'n session option"
  StrConv :: "StringConverter option"
  TimeZone :: nslice
  State :: connection_state
  LogonMode :: int
  autoCommit :: bool
  tcpNego :: "tcp_nego option"
  dataNego :: "data_nego option"
  dBVersion :: "db_version option"
  sessionID :: int
  serialID :: int
  transactionID :: nslice
  sStrConv :: "StringConverter option"
  nStrConv :: "StringConverter option"
  cStrConv :: "StringConverter option"
  NLS :: NLSData
  maxLen :: max_len
  bad :: bool
  dbTimeZone :: "location option"
  temporaryLocs :: "byte list list"

type_synonym ('n, 'z, 'a) conm = "(('n, 'z) connection_scheme, 'a) gom"

record 'n conn_env =
  env_read :: "'n net_terminal"
  env_write :: "('n, unit) sm"
  env_tables :: "int \<Rightarrow> StringConverter option"
  env_offset :: int
  env_broken :: "nat \<Rightarrow> bool"

text \<open>A call on the connection's session; through a nil pointer it panics.\<close>

definition on_sess :: "('n, 'a) sm \<Rightarrow> ('n, 'z, 'a) conm" where
  "on_sess m = (\<lambda>c. case sess c of
       None \<Rightarrow> Some (Panic, c)
     | Some s \<Rightarrow> Option.bind (m s) (\<lambda>(r, s'). Some (r, c\<lparr>sess := Some s'\<rparr>)))"

definition upd_tcp :: "(tcp_nego \<Rightarrow> tcp_nego) \<Rightarrow> ('n, 'z) connection_scheme \<Rightarrow> ('n, 'z) connection_scheme" where
  "upd_tcp f c = c\<lparr>tcpNego := map_option f (tcpNego c)\<rparr>"

definition go_index :: "'a list \<Rightarrow> nat \<Rightarrow> 'a res" where
  "go_index xs i = (if i < length xs then Ok (xs ! i) else Panic)"

definition lift_val :: "'a res \<Rightarrow> ('s, 'a) gom" where
  "lift_val r = (\<lambda>s. Some (r, s))"

section \<open>Protocol negotiation\<close>

definition tcp_writeMessage :: "('n, unit) sm" where
  "tcp_writeMessage = gseq (PutBytes [1, 6, 0]) (PutBytes (ascii ''OracleClientGo'' @ [0]))"

definition tcp_write :: "'n conn_env \<Rightarrow> ('n, 'z, unit) conm" where
  "tcp_write env = on_sess (gseq (gupd ResetBuffer) (gseq tcp_writeMessage (env_write env)))"

text \<open>The head of the server's message: code, version, banner.\<close>

definition tcp_head :: "'n conn_env \<Rightarrow> ('n, 'z, unit) conm" where
  "tcp_head env =
     gseq (gassign 0 (on_sess (GetByte (env_read env))) (\<lambda>v. upd_tcp (\<lambda>t. t\<lparr>MessageCode := v\<rparr>)))
    (gbind (gget (\<lambda>c. map_option MessageCode (tcpNego c))) (\<lambda>code.
       if code \<noteq> Some 1 then gerr (MessageCodeError (the code) 1)
       else gbind (on_sess (GetByte (env_read env))) (\<lambda>v.
         if v \<noteq> 4 \<and> v \<noteq> 5 \<and> v \<noteq> 6 then gerr (UnsupportedServer v)
         else gseq (gupd (upd_tcp (\<lambda>t. t\<lparr>OracleVersion := (if v = 4 then 7230 else if v = 5 then 8030 else 8100)\<rparr>)))
        (gseq (on_sess (GetByte (env_read env)))
        (gbind (on_sess GetNullTermString) (\<lambda>(str, err).
          gseq (gupd (upd_tcp (\<lambda>t. t\<lparr>ProtocolServerString := str\<rparr>)))
               (case err of Some e \<Rightarrow> gerr e | None \<Rightarrow> gret ())))))))"

text \<open>The charset of the server and its converter.\<close>

definition tcp_charset :: "'n conn_env \<Rightarrow> ('n, 'z, unit) conm" where
  "tcp_charset env =
     gseq (gassign 0 (on_sess (GetInt (env_read env) 2 False False)) (\<lambda>v. upd_tcp (\<lambda>t. t\<lparr>ServerCharset := v\<rparr>)))
    (gbind (gget (\<lambda>c. (sStrConv c, map_option ServerCharset (tcpNego c)))) (\<lambda>(conv, cs).
      gseq (if conv = None then
              (case NewStringConverter (env_tables env) (the cs) of
                 None \<Rightarrow> gerr (UnsupportedCharset (the cs))
               | Some cv \<Rightarrow> gupd (\<lambda>c. c\<lparr>sStrConv := Some cv\<rparr>))
            else gret ())
           (gupd (\<lambda>c. c\<lparr>StrConv := sStrConv c\<rparr>))))"

text \<open>The national charset stands at an offset computed from two bytes of the block in 8-bit arithmetic.\<close>

definition ncharset_offset :: "byte list \<Rightarrow> nat res" where
  "ncharset_offset arr = rbind (go_index arr 5) (\<lambda>a. rbind (go_index arr 6) (\<lambda>b. Ok (unat (6 + a + b))))"

definition tcp_ncharset :: "'n conn_env \<Rightarrow> ('n, 'z, unit) conm" where
  "tcp_ncharset env =
     gbind (on_sess (GetInt (env_read env) 2 False True)) (\<lambda>len1.
     gbind (on_sess (GetBytes (env_read env) len1)) (\<lambda>arr.
     gbind (lift_val (rbind (ncharset_offset arr) (\<lambda>off. be_at 2 (off + 3) arr))) (\<lambda>cs.
       gseq (gupd (upd_tcp (\<lambda>t. t\<lparr>ServerNCharset := int cs\<rparr>)))
      (gbind (gget nStrConv) (\<lambda>conv.
         if conv = None then
           (case NewStringConverter (env_tables env) (int cs) of
              None \<Rightarrow> gerr (UnsupportedCharset (int cs))
            | Some cv \<Rightarrow> gupd (\<lambda>c. c\<lparr>nStrConv := Some cv\<rparr>))
         else gret ())))))"

text \<open>The capabilities and what the session takes from them.\<close>

definition cap_bit :: "byte list \<Rightarrow> nat \<Rightarrow> byte \<Rightarrow> bool" where
  "cap_bit cs i m \<longleftrightarrow> length cs > i \<and> cs ! i AND m \<noteq> 0"

definition session_caps_from :: "byte list \<Rightarrow> 'n session \<Rightarrow> 'n session" where
  "session_caps_from cs s = (let
     s = (if cap_bit cs 15 1 then s\<lparr>HasEOSCapability := True\<rparr> else s);
     s = (if cap_bit cs 16 1 then s\<lparr>HasFSAPCapability := True\<rparr> else s) in s)"

definition big_chunks_from :: "byte list \<Rightarrow> 'n session \<Rightarrow> 'n session" where
  "big_chunks_from cs s = (if cap_bit cs 37 32
     then s\<lparr>props := (props s)\<lparr>UseBigClrChunks := True, ClrChunkSize := 0x7FFF\<rparr>\<rparr> else s)"

definition tcp_caps :: "'n conn_env \<Rightarrow> ('n, 'z, unit) conm" where
  "tcp_caps env =
     gbind (on_sess (GetByte (env_read env))) (\<lambda>len2.
     gseq (gassign None (gbind (on_sess (GetBytes (env_read env) (uint len2))) (\<lambda>bs. gret (Some bs)))
             (\<lambda>v. upd_tcp (\<lambda>t. t\<lparr>ServerCompileTimeCaps := v\<rparr>)))
    (gbind (on_sess (GetByte (env_read env))) (\<lambda>len3.
     gassign None (gbind (on_sess (GetBytes (env_read env) (uint len3))) (\<lambda>bs. gret (Some bs)))
             (\<lambda>v. upd_tcp (\<lambda>t. t\<lparr>ServerRuntimeCaps := v\<rparr>)))))"

definition apply_caps :: "('n, 'z, unit) conm" where
  "apply_caps = gbind (gget (\<lambda>c. slice_bytes (ServerCompileTimeCaps (the (tcpNego c))))) (\<lambda>cs.
     gseq (on_sess (gupd (session_caps_from cs)))
       (if length cs < 8 then gerr ShortCaps else on_sess (gupd (big_chunks_from cs))))"

definition read_protocol :: "'n conn_env \<Rightarrow> ('n, 'z, unit) conm" where
  "read_protocol env =
     gseq (tcp_head env)
    (gseq (tcp_charset env)
    (gseq (gassign 0 (on_sess (GetByte (env_read env))) (\<lambda>v. upd_tcp (\<lambda>t. t\<lparr>nego_ServerFlags := v\<rparr>)))
    (gbind (on_sess (GetInt (env_read env) 2 False False)) (\<lambda>charsetElem.
     gseq (if charsetElem > 0 then gseq (gignore (on_sess (GetBytes (env_read env) (charsetElem * 5)))) (gret ())
           else gret ())
    (gseq (tcp_ncharset env) (tcp_caps env))))))"

definition readMessage :: "'n conn_env \<Rightarrow> ('n, 'z, unit) conm" where
  "readMessage env = gseq (read_protocol env) apply_caps"

definition zero_tcp :: tcp_nego where
  "zero_tcp = \<lparr>MessageCode = 0, ProtocolServerString = [], OracleVersion = 0, ServerCharset = 0, nego_ServerFlags = 0,
     ServerNCharset = 0, ServerCompileTimeCaps = None, ServerRuntimeCaps = None\<rparr>"

definition protocolNegotiation :: "'n conn_env \<Rightarrow> ('n, 'z, unit) conm" where
  "protocolNegotiation env =
     gseq (gupd (\<lambda>c. c\<lparr>tcpNego := Some zero_tcp\<rparr>))
    (gseq (tcp_write env)
    (gseq (readMessage env)
          (gupd (upd_tcp (\<lambda>t. t\<lparr>nego_ServerFlags := nego_ServerFlags t OR 2\<rparr>)))))"

section \<open>Data type negotiation\<close>

definition type_reps_base :: "(u16 \<times> u16 \<times> u16) list" where
  "type_reps_base = [
    (1, 1, 1), (2, 2, 10), (8, 8, 1), (12, 12, 10), (23, 23, 1), (24, 24, 1), (25, 25, 1), (26, 26, 1), (27, 27, 1),
    (28, 28, 1), (29, 29, 1), (30, 30, 1), (31, 31, 1), (32, 32, 1), (33, 33, 1), (10, 10, 1), (11, 11, 1),
    (40, 40, 1), (41, 41, 1), (117, 117, 1), (120, 120, 1), (290, 290, 1), (291, 291, 1), (292, 292, 1),
    (293, 293, 1), (294, 294, 1), (298, 298, 1), (299, 299, 1), (300, 300, 1), (301, 301, 1), (302, 302, 1),
    (303, 303, 1), (304, 304, 1), (305, 305, 1), (306, 306, 1), (307, 307, 1), (308, 308, 1), (309, 309, 1),
    (310, 310, 1), (311, 311, 1), (312, 312, 1), (313, 313, 1), (315, 315, 1), (316, 316, 1), (317, 317, 1),
    (318, 318, 1), (319, 319, 1), (320, 320, 1), (321, 321, 1), (322, 322, 1), (323, 323, 1), (327, 327, 1),
    (328, 328, 1), (329, 329, 1), (331, 331, 1), (333, 333, 1), (334, 334, 1), (335, 335, 1), (336, 336, 1),
    (337, 337, 1), (338, 338, 1), (339, 339, 1), (340, 340, 1), (341, 341, 1), (342, 342, 1), (343, 343, 1),
    (344, 344, 1), (345, 345, 1), (346, 346, 1), (348, 348, 1), (349, 349, 1), (354, 354, 1), (355, 355, 1),
    (359, 359, 1), (363, 363, 1), (380, 380, 1), (381, 381, 1), (382, 382, 1), (383, 383, 1), (384, 384, 1),
    (385, 385, 1), (386, 386, 1), (387, 387, 1), (388, 388, 1), (389, 389, 1), (390, 390, 1), (391, 391, 1),
    (393, 393, 1), (394, 394, 1), (395, 395, 1), (396, 396, 1), (397, 397, 1), (398, 398, 1), (399, 399, 1),
    (400, 400, 1), (401, 401, 1), (404, 404, 1), (405, 405, 1), (406, 406, 1), (407, 407, 1), (413, 413, 1),
    (414, 414, 1), (415, 415, 1), (416, 416, 1), (417, 417, 1), (418, 418, 1), (419, 419, 1), (420, 420, 1),
    (421, 421, 1), (422, 422, 1), (423, 423, 1), (424, 424, 1), (425, 425, 1), (426, 426, 1), (427, 427, 1),
    (429, 429, 1), (430, 430, 1), (431, 431, 1), (432, 432, 1), (433, 433, 1), (449, 449, 1), (450, 450, 1),
    (454, 454, 1), (455, 455, 1), (456, 456, 1), (457, 457, 1), (458, 458, 1), (459, 459, 1), (460, 460, 1),
    (461, 461, 1), (462, 462, 1), (463, 463, 1), (466, 466, 1), (467, 467, 1), (468, 468, 1), (469, 469, 1),
    (470, 470, 1), (471, 471, 1), (472, 472, 1), (473, 473, 1), (474, 474, 1), (475, 475, 1), (476, 476, 1),
    (477, 477, 1), (478, 478, 1), (479, 479, 1), (480, 480, 1), (481, 481, 1)]"

definition type_reps_more :: "(u16 \<times> u16 \<times> u16) list" where
  "type_reps_more = [
    (482, 482, 1), (483, 483, 1), (484, 484, 1), (485, 485, 1), (486, 486, 1), (490, 490, 1), (491, 491, 1),
    (492, 492, 1), (493, 493, 1), (494, 494, 1), (495, 495, 1), (496, 496, 1), (498, 498, 1), (499, 499, 1),
    (500, 500, 1), (501, 501, 1), (502, 502, 1), (509, 509, 1), (510, 510, 1), (513, 513, 1), (514, 514, 1),
    (516, 516, 1), (517, 517, 1), (518, 518, 1), (519, 519, 1), (520, 520, 1), (521, 521, 1), (522, 522, 1),
    (523, 523, 1), (524, 524, 1), (525, 525, 1), (526, 526, 1), (527, 527, 1), (528, 528, 1), (529, 529, 1),
    (530, 530, 1), (531, 531, 1), (532, 532, 1), (533, 533, 1), (534, 534, 1), (535, 535, 1), (536, 536, 1),
    (537, 537, 1), (538, 538, 1), (539, 539, 1), (540, 540, 1), (541, 541, 1), (542, 542, 1), (543, 543, 1),
    (560, 560, 1), (562, 562, 1), (565, 565, 1), (572, 572, 1), (573, 573, 1), (574, 574, 1), (575, 575, 1),
    (576, 576, 1), (578, 578, 1), (563, 563, 1), (564, 564, 1), (579, 579, 1), (580, 580, 1), (581, 581, 1),
    (582, 582, 1), (583, 583, 1), (584, 584, 1), (585, 585, 1), (3, 2, 10), (4, 2, 10), (5, 1, 1), (6, 2, 10),
    (7, 2, 10), (9, 1, 1), (13, 0, 0), (14, 0, 0), (15, 23, 1), (16, 0, 0), (17, 0, 0), (18, 0, 0), (19, 0, 0),
    (20, 0, 0), (21, 0, 0), (22, 0, 0), (39, 646, 1), (58, 0, 0), (68, 2, 10), (69, 0, 0), (70, 0, 0), (74, 0, 0),
    (76, 0, 0), (91, 2, 10), (94, 1, 1), (95, 23, 1), (96, 96, 1), (97, 96, 1), (100, 100, 1), (101, 101, 1),
    (102, 102, 1), (104, 11, 1), (105, 0, 0), (106, 106, 1), (108, 109, 1), (109, 109, 1), (110, 111, 1),
    (111, 111, 1), (112, 112, 1), (113, 113, 1), (114, 114, 1), (115, 115, 1), (116, 102, 1), (118, 0, 0),
    (119, 119, 1), (127, 127, 1), (121, 0, 0), (122, 0, 0), (123, 0, 0), (136, 0, 0), (146, 146, 1), (147, 0, 0),
    (152, 2, 10), (153, 2, 10), (154, 2, 10), (155, 1, 1), (156, 12, 10), (172, 2, 10), (178, 178, 1), (179, 179, 1),
    (180, 180, 1), (181, 181, 1), (182, 182, 1), (183, 183, 1), (184, 12, 10), (185, 185, 1), (186, 186, 1),
    (187, 187, 1), (188, 188, 1), (189, 189, 1), (190, 190, 1), (191, 0, 0), (192, 0, 0), (195, 112, 1),
    (196, 113, 1), (197, 114, 1), (208, 208, 1), (209, 0, 0), (198, 127, 1), (231, 231, 1), (232, 231, 1),
    (233, 233, 1), (252, 252, 1), (241, 109, 1), (515, 0, 0)]"

definition type_reps_1200 :: "(u16 \<times> u16 \<times> u16) list" where
  "type_reps_1200 = [
    (590, 590, 1), (591, 591, 1), (592, 592, 1), (613, 613, 1), (614, 614, 1), (615, 615, 1), (616, 616, 1),
    (647, 647, 1), (611, 611, 1), (612, 612, 1), (617, 617, 1), (639, 639, 1), (593, 593, 1), (594, 594, 1),
    (595, 595, 1), (596, 596, 1), (597, 597, 1), (598, 598, 1), (599, 599, 1), (600, 600, 1), (601, 601, 1),
    (602, 602, 1), (603, 603, 1), (604, 604, 1), (605, 605, 1), (622, 622, 1), (623, 623, 1), (624, 624, 1),
    (625, 625, 1), (626, 626, 1), (627, 627, 1), (628, 628, 1), (629, 629, 1), (630, 630, 1), (631, 631, 1),
    (632, 632, 1), (637, 637, 1), (638, 638, 1), (636, 636, 1)]"

definition type_reps_rest :: "(u16 \<times> u16 \<times> u16) list" where
  "type_reps_rest = [
    (663, 663, 1), (640, 640, 1), (899, 899, 1), (900, 900, 1), (901, 901, 1), (646, 646, 1), (662, 662, 1)]"

definition addTypeRep :: "u16 list \<Rightarrow> u16 \<times> u16 \<times> u16 \<Rightarrow> u16 list" where
  "addTypeRep t = (\<lambda>(dty, ndty, rep). t @ [dty, ndty] @ (if ndty \<noteq> 0 then [rep, 0] else []))"

definition client_caps :: "byte list" where
  "client_caps =
    [6, 1, 0, 0, 234, 28, 1, 24, 1, 1, 1, 1, 1, 1, 0, 41, 144, 3, 7, 3, 0, 1, 0, 235, 1, 63, 5, 1, 0, 0,
     0, 24, 0, 0, 10, 160, 2, 58, 0, 15, 71, 0, 1, 0, 40, 0, 0, 0, 0, 0, 0, 0, 2, 53]"

text \<open>The client's capabilities reduced to what the server has; reading \<open>ServerRuntimeCaps[1]\<close> of a one-byte slice
  panics.\<close>

definition nego_caps :: "byte list \<Rightarrow> byte list \<Rightarrow> data_nego \<Rightarrow> data_nego res" where
  "nego_caps cs rs d =
    (if cs = [] then Ok d
     else let
       d = (if length cs \<le> 27 \<or> cs ! 27 = 0 then d\<lparr>CompileTimeCaps := (CompileTimeCaps d)[27 := 0]\<rparr> else d);
       d = (if length cs > 7 \<and> cs ! 7 < 7 then d\<lparr>CompileTimeCaps := (CompileTimeCaps d)[36 := 0]\<rparr> else d) in
     rbind (if length rs < 1 then Ok True else rbind (go_index rs 1) (\<lambda>b. Ok (b AND 1 \<noteq> 1))) (\<lambda>no_tz. let
       d = (if no_tz then d\<lparr>RuntimeCap := (RuntimeCap d)[1 := 0]\<rparr> else d);
       d = (if length rs > 6 then let
              d = (if rs ! 6 AND 4 = 4
                   then d\<lparr>RuntimeCap := (RuntimeCap d)[6 := RuntimeCap d ! 6 OR 4], b32kTypeSupported := True\<rparr> else d);
              d = (if rs ! 6 AND 16 = 16 then d\<lparr>supportSessionStateOps := True\<rparr> else d)
            in if rs ! 6 AND 2 = 2 then d\<lparr>RuntimeCap := (RuntimeCap d)[6 := RuntimeCap d ! 6 OR 2]\<rparr> else d
            else d)
     in Ok (if length cs \<le> 37 \<or> cs ! 37 AND 2 \<noteq> 2
            then d\<lparr>CompileTimeCaps := (CompileTimeCaps d)[37 := 0, 1 := 0]\<rparr> else d)))"

definition buildTypeNego :: "tcp_nego option \<Rightarrow> data_nego res" where
  "buildTypeNego tcp =
    (let d = \<lparr>TypeAndRep = [], RuntimeTypeAndRep = [], CompileTimeCaps = client_caps, RuntimeCap = [2, 1, 0, 0, 0, 0, 6],
              b32kTypeSupported = False, supportSessionStateOps = False, serverTZVersion = 0, clientTZVersion = 0x2B\<rparr> in
     rbind (case tcp of None \<Rightarrow> Ok d
              | Some t \<Rightarrow> nego_caps (slice_bytes (ServerCompileTimeCaps t)) (slice_bytes (ServerRuntimeCaps t)) d) (\<lambda>d.
       let reps1100 = foldl addTypeRep [] (type_reps_base @ type_reps_more);
           reps1200 = foldl addTypeRep reps1100 type_reps_1200;
           reps = foldl addTypeRep reps1200 type_reps_rest;
           d = d\<lparr>TypeAndRep := reps\<rparr>
       in case tcp of None \<Rightarrow> Panic
          | Some t \<Rightarrow> let cs = slice_bytes (ServerCompileTimeCaps t) in
              Ok (d\<lparr>RuntimeTypeAndRep :=
                (if length cs > 7 then
                   if cs ! 7 \<ge> 8 then reps
                   else if cs ! 7 \<ge> 7 then reps1200
                   else reps1100
                 else reps)\<rparr>)))"

text \<open>\<open>TZBytes\<close>: the offset of the local zone as a day-second interval.\<close>

definition TZBytes :: "int \<Rightarrow> byte list option" where
  "TZBytes offset = (case NewDaySecondInterval 0 (offset sdiv 3600) (offset sdiv 60 smod 60) (offset smod 60) 0 of
       None \<Rightarrow> None
     | Some (r, i) \<Rightarrow> Some (slice_bytes (bValue i)))"

definition put_reps :: "bool \<Rightarrow> u16 list \<Rightarrow> ('n, unit) sm" where
  "put_reps narrow reps =
    (if narrow then gseq (PutBytes (map ucast reps)) (PutBytes [0])
     else gseq (foldr (\<lambda>x m. gseq (PutInt (Uint16 x) 2 True False) m) reps (gret ())) (PutBytes [0, 0]))"

definition data_message :: "tcp_nego \<Rightarrow> data_nego \<Rightarrow> byte list \<Rightarrow> ('n, unit) sm" where
  "data_message t d tz =
     gseq (PutBytes [2])
    (gseq (PutInt (IntN (word_of_int (ServerCharset t))) 2 False False)
    (gseq (PutInt (IntN (word_of_int (ServerCharset t))) 2 False False)
    (gseq (PutBytes [nego_ServerFlags t, of_nat (length (CompileTimeCaps d))])
    (gseq (PutBytes (CompileTimeCaps d))
    (gseq (PutBytes [of_nat (length (RuntimeCap d))])
    (gseq (PutBytes (RuntimeCap d))
    (gseq (gwhen (RuntimeCap d ! 1 AND 1 = 1)
            (gseq (PutBytes tz)
              (gwhen (CompileTimeCaps d ! 37 AND 2 = 2) (PutInt (IntN (word_of_int (clientTZVersion d))) 4 True False))))
    (gseq (PutInt (IntN (word_of_int (ServerNCharset t))) 2 False False)
          (put_reps (CompileTimeCaps d ! 27 = 0) (RuntimeTypeAndRep d))))))))))"

definition drop_wide_types :: "tcp_nego \<Rightarrow> data_nego \<Rightarrow> data_nego" where
  "drop_wide_types t d = (case ServerCompileTimeCaps t of
       Some cs \<Rightarrow> if length cs \<le> 27 \<or> cs ! 27 = 0 then d\<lparr>CompileTimeCaps := (CompileTimeCaps d)[27 := 0]\<rparr> else d
     | None \<Rightarrow> d)"

definition data_writeMessage :: "'n conn_env \<Rightarrow> ('n, 'z, unit) conm" where
  "data_writeMessage env c = (case (tcpNego c, dataNego c) of
       (Some t, Some d0) \<Rightarrow> (let d = drop_wide_types t d0; c = c\<lparr>dataNego := Some d\<rparr> in
         if RuntimeCap d ! 1 AND 1 = 1
         then Option.bind (TZBytes (env_offset env)) (\<lambda>tz. on_sess (data_message t d tz) c)
         else on_sess (data_message t d []) c)
     | _ \<Rightarrow> Some (Panic, c))"

definition data_write :: "'n conn_env \<Rightarrow> ('n, 'z, unit) conm" where
  "data_write env = gseq (on_sess (gupd ResetBuffer)) (gseq (data_writeMessage env) (on_sess (env_write env)))"

text \<open>The loop that skips the server's table of types; its errors are looked at after it.\<close>

partial_function (option) skip_types :: "'n net_terminal \<Rightarrow> bool \<Rightarrow> nat \<Rightarrow> ('n, go_error option) sm" where
  "skip_types rd narrow level s =
     gbind (gtry 0 (if narrow then GetInt rd 1 False False else GetInt rd 2 False True)) (\<lambda>(num, err).
       if num = 0 \<and> level = 0 then gret err
       else if num = 0 \<and> level = 1 then skip_types rd narrow 0
       else if level = 3 then skip_types rd narrow 0
       else skip_types rd narrow (level + 1)) s"

definition sprintf_02d :: "int \<Rightarrow> byte list" where
  "sprintf_02d n = (if 0 \<le> n \<and> n < 10 then 48 # FormatInt n else FormatInt n)"

definition sprintf_plus03d :: "int \<Rightarrow> byte list" where
  "sprintf_plus03d n = (if n < 0 then 45 else 43) # (if \<bar>n\<bar> < 10 then 48 # FormatInt \<bar>n\<bar> else FormatInt \<bar>n\<bar>)"

definition db_zone :: "byte list \<Rightarrow> location" where
  "db_zone tz = (let h = uint (tz ! 4) - 60; m = uint (tz ! 5) - 60; s = uint (tz ! 6) - 60
     in FixedZone (sprintf_plus03d h @ [58] @ sprintf_02d m) (h * 60 * 60 + m * 60 + s))"

text \<open>What the negotiation leaves in the session and the connection; a slice of fewer than eight capabilities panics.\<close>

definition data_result :: "data_nego \<Rightarrow> tcp_nego \<Rightarrow> ('n, 'z, unit) conm" where
  "data_result d t = (let cs = slice_bytes (ServerCompileTimeCaps t); rs = slice_bytes (ServerRuntimeCaps t);
       len = (if length rs > 6 \<and> rs ! 6 AND 4 = 4 then 0x7FFF else 0xFA0) in
     gseq (on_sess (gupd (\<lambda>s. s\<lparr>TTCVersion := CompileTimeCaps d ! 7\<rparr>)))
    (if length cs \<le> 7 then gpanic
     else gseq (on_sess (gupd (\<lambda>s. s\<lparr>props := (props s)\<lparr>UseBigScn := (cs ! 7 \<ge> 8)\<rparr>,
             TTCVersion := (if cs ! 7 < TTCVersion s then cs ! 7 else TTCVersion s)\<rparr>)))
         (gupd (\<lambda>c. c\<lparr>maxLen := \<lparr>varchar = len, nvarchar = len, maxraw = len\<rparr>\<rparr>))))"

definition read_zone :: "'n conn_env \<Rightarrow> data_nego \<Rightarrow> ('n, 'z, location option) conm" where
  "read_zone env d =
    (if RuntimeCap d ! 1 = 1 then
       gbind (on_sess (GetBytes (env_read env) 11)) (\<lambda>tz.
         if length tz < 11 then gerr BadTimeZone
         else gseq (gwhen (CompileTimeCaps d ! 37 AND 2 = 2)
                     (gbind (gtry 0 (on_sess (GetInt (env_read env) 4 False True))) (\<lambda>(v, _).
                        gupd (\<lambda>c. c\<lparr>dataNego := Some (d\<lparr>serverTZVersion := v\<rparr>)\<rparr>))))
                   (gret (Some (db_zone tz))))
     else gret None)"

text \<open>The zone and the error that \<open>read\<close> returns; until the zone is known an error is returned with no zone.\<close>

definition data_read :: "'n conn_env \<Rightarrow> ('n, 'z, location option \<times> go_error option) conm" where
  "data_read env c = (case (tcpNego c, dataNego c) of
       (Some t, Some d) \<Rightarrow>
         gbind (gtry None (gbind (on_sess (GetByte (env_read env))) (\<lambda>msg.
             if msg \<noteq> 2 then gerr (MessageCodeError msg 2) else read_zone env d))) (\<lambda>(zone, err).
           if err \<noteq> None then gret (None, err)
           else gbind (on_sess (skip_types (env_read env) (CompileTimeCaps d ! 27 = 0) 0)) (\<lambda>err.
             gseq (gwhen (zone = None) (gupd (\<lambda>c. c\<lparr>dbTimeZone := Some UTC\<rparr>)))
            (gseq (data_result d t)
                  (gret (zone, err))))) c
     | _ \<Rightarrow> Some (Panic, c))"

text \<open>The caller assigns the zone it gets, also when the negotiation has chosen UTC itself.\<close>

definition dataTypeNegotiation :: "'n conn_env \<Rightarrow> ('n, 'z, unit) conm" where
  "dataTypeNegotiation env =
     gbind (gget tcpNego) (\<lambda>t.
     gbind (lift_val (buildTypeNego t)) (\<lambda>d.
     gseq (gupd (\<lambda>c. c\<lparr>dataNego := Some d\<rparr>))
    (gseq (data_write env)
    (gbind (data_read env) (\<lambda>(zone, err).
     gseq (gupd (\<lambda>c. c\<lparr>dbTimeZone := zone\<rparr>))
          (case err of Some e \<Rightarrow> gerr e | None \<Rightarrow> gret ()))))))"

end
