(* ===== verification/Conn_Calls.thy ===== *)
theory Conn_Calls
  imports Connection
begin

text \<open>
  The calls of an open connection: the version of the database, the dispatch of the server's messages
  (\<^verbatim>\<open>ProcessTCCResponse\<close>) and the loop that reads a response, NLS settings, the string converters by charset, the freeing of
  temporary LOBs, logging off, closing, and the simple calls.
\<close>

section \<open>Database version\<close>

definition version_field :: "int \<Rightarrow> int \<Rightarrow> int \<Rightarrow> int" where
  "version_field number shift m = number div 2 ^ nat shift mod m"

definition version_of :: "byte list \<Rightarrow> int \<Rightarrow> db_version" where
  "version_of info number = (let f = version_field number in
     \<lparr>Info = info,
      Text = FormatInt (f 24 256) @ [46] @ FormatInt (f 20 16) @ [46] @ FormatInt (f 12 16) @ [46] @ FormatInt (f 8 16)
        @ [46] @ FormatInt (f 0 256),
      Number = word_of_int (f 24 256 * 1000 + f 20 16 * 100 + f 12 16 * 10 + f 8 16),
      MajorVersion = f 24 256, MinorVersion = f 20 16, PatchsetVersion = f 8 16\<rparr>)"

definition GetDBVersion :: "'n conn_env \<Rightarrow> byte list \<Rightarrow> ('n, db_version) sm" where
  "GetDBVersion env spare =
     gseq (gupd ResetBuffer)
    (gseq (PutTTCFunc 0x3 0x3B)
    (gseq (PutBytes [1])
    (gseq (PutUint (IntN 0x100) 2 True True)
    (gseq (PutBytes [1, 1])
    (gbind (gget TTCVersion) (\<lambda>ver.
     gseq (gwhen (ver \<ge> 11) (PutUint (IntN 1) 4 True True))
    (gseq (env_write env)
    (gbind (GetByte (env_read env)) (\<lambda>msg.
       if msg \<noteq> 8 then gerr (MessageCodeError msg 8)
       else gbind (GetInt (env_read env) 2 True True) (\<lambda>len.
         gbind (GetString (env_read env) spare len) (\<lambda>info.
         gbind (GetInt (env_read env) 4 True True) (\<lambda>number.
           gret (version_of info number)))))))))))))"

section \<open>NLS settings\<close>

definition nls_keys :: "(string \<times> int) list" where
  "nls_keys =
    [(''AUTH_NLS_LXCCURRENCY'', 0), (''AUTH_NLS_LXCISOCURR'', 1), (''AUTH_NLS_LXCNUMERICS'', 2),
     (''AUTH_NLS_LXCDATEFM'', 7), (''AUTH_NLS_LXCDATELANG'', 8), (''AUTH_NLS_LXCTERRITORY'', 9),
     (''SESSION_NLS_LXCCHARSET'', 10), (''AUTH_NLS_LXCSORT'', 11), (''AUTH_NLS_LXCCALENDAR'', 12),
     (''AUTH_NLS_LXLAN'', 16), (''AL8KW_NLSCOMP'', 50), (''AUTH_NLS_LXCUNIONCUR'', 52), (''AUTH_NLS_LXCTIMEFM'', 57),
     (''AUTH_NLS_LXCSTMPFM'', 58), (''AUTH_NLS_LXCTTZNFM'', 59), (''AUTH_NLS_LXCSTZNFM'', 60),
     (''SESSION_NLS_LXCNLSLENSEM'', 61), (''SESSION_NLS_LXCNCHAREXCP'', 62), (''SESSION_NLS_LXCNCHARIMP'', 63)]"

definition nls_code :: "byte list \<Rightarrow> int \<Rightarrow> int" where
  "nls_code key code = (case map_of (map (\<lambda>(k, c). (ascii k, c)) nls_keys) (to_upper key) of Some c \<Rightarrow> c | None \<Rightarrow> code)"

definition store_nls :: "int \<Rightarrow> byte list \<Rightarrow> NLSData \<Rightarrow> NLSData" where
  "store_nls code v n =
    (if code = 0 then n\<lparr>Currency := v\<rparr>
     else if code = 1 then n\<lparr>IsoCurrency := v\<rparr>
     else if code = 2 then n\<lparr>NumericChars := v\<rparr>
     else if code = 7 then n\<lparr>DateFormat := v\<rparr>
     else if code = 8 then n\<lparr>DateLang := v\<rparr>
     else if code = 9 then n\<lparr>Territory := v\<rparr>
     else if code = 10 then n\<lparr>Charset := v\<rparr>
     else if code = 11 then n\<lparr>Sort := v\<rparr>
     else if code = 12 then n\<lparr>Calender := v\<rparr>
     else if code = 16 then n\<lparr>Language := v\<rparr>
     else if code = 50 then n\<lparr>Comp := v\<rparr>
     else if code = 52 then n\<lparr>UnionCurrency := v\<rparr>
     else if code = 57 then n\<lparr>TimeFormat := v\<rparr>
     else if code = 58 then n\<lparr>Timestamp := v\<rparr>
     else if code = 59 then n\<lparr>TTimezoneFormat := v\<rparr>
     else if code = 60 then n\<lparr>NTimezoneFormat := v\<rparr>
     else if code = 61 then n\<lparr>LengthSemantics := v\<rparr>
     else if code = 62 then n\<lparr>NCharConvExcep := v\<rparr>
     else if code = 63 then n\<lparr>NCharConvImp := v\<rparr>
     else n)"

definition SaveNLSValue :: "byte list \<Rightarrow> byte list \<Rightarrow> int \<Rightarrow> NLSData \<Rightarrow> NLSData" where
  "SaveNLSValue key v code n = store_nls (nls_code key code) v n"

definition save_nls_pair :: "'n conn_env \<Rightarrow> ('n, 'z, unit) conm" where
  "save_nls_pair env = gbind (on_sess (GetKeyVal (env_read env))) (\<lambda>(key, val, code).
     gupd (\<lambda>c. c\<lparr>NLS := SaveNLSValue (slice_bytes key) (slice_bytes val) code (NLS c)\<rparr>))"

definition loadNLSData :: "'n conn_env \<Rightarrow> ('n, 'z, unit) conm" where
  "loadNLSData env = (let rd = env_read env in
     gseq (on_sess (GetInt rd 2 True True))
    (gseq (on_sess (GetByte rd))
    (gbind (on_sess (GetInt rd 4 True True)) (\<lambda>len.
     gseq (on_sess (GetByte rd))
    (gseq (grepeat (nat len) (save_nls_pair env))
    (gseq (on_sess (GetInt rd 4 True True)) (gret ())))))))"

section \<open>Messages of the server\<close>

text \<open>The session identifiers that come with the NLS settings of a session.\<close>

definition session_return :: "'n conn_env \<Rightarrow> ('n, 'z, unit) conm" where
  "session_return env = (let rd = env_read env in
     gseq (on_sess (GetInt rd 2 True True))
    (gseq (on_sess (GetByte rd))
    (gbind (on_sess (GetInt rd 2 True True)) (\<lambda>len.
     gseq (grepeat (nat len) (save_nls_pair env))
    (gbind (on_sess (GetInt rd 4 True True)) (\<lambda>fl.
     gbind (on_sess (GetInt rd 4 True True)) (\<lambda>sid.
     gbind (on_sess (GetInt rd 2 True True)) (\<lambda>serial.
       gwhen (fl AND 4 = 4) (gupd (\<lambda>c. c\<lparr>sessionID := sid, serialID := serial\<rparr>))))))))))"

definition transaction_return :: "'n conn_env \<Rightarrow> ('n, 'z, unit) conm" where
  "transaction_return env =
     gbind (on_sess (GetInt (env_read env) 4 True True)) (\<lambda>len.
     gbind (gtry None (on_sess (GetClr (env_read env)))) (\<lambda>(tid, _).
     gseq (gupd (\<lambda>c. c\<lparr>transactionID := tid\<rparr>))
          (if int (nlen tid) > len then
             if len < 0 then gpanic else gupd (\<lambda>c. c\<lparr>transactionID := ntake (nat len) tid\<rparr>)
           else gret ())))"

definition getServerNetworkInformation :: "'n conn_env \<Rightarrow> byte \<Rightarrow> ('n, 'z, unit) conm" where
  "getServerNetworkInformation env code = (let rd = env_read env in
     if code = 0 then gseq (on_sess (GetByte rd)) (gret ())
     else if code = 2 then
       gbind (on_sess (GetInt rd 2 True True)) (\<lambda>len.
         gseq (on_sess (GetByte rd)) (gseq (on_sess (GetBytes rd len)) (gret ())))
     else if code = 4 then session_return env
     else if code = 5 then loadNLSData env
     else if code = 7 then transaction_return env
     else if code = 8 then
       gseq (on_sess (GetInt rd 2 True True)) (gseq (on_sess (GetByte rd)) (gseq (on_sess (GetInt rd 4 True True))
         (gseq (on_sess (GetInt rd 4 True True)) (gseq (on_sess (GetByte rd)) (gseq (on_sess (GetDlc rd)) (gret ()))))))
     else if code = 9 then gseq (on_sess (GetInt rd 2 True True)) (gseq (on_sess (GetByte rd)) (gret ()))
     else gret ())"

text \<open>\<open>GetError\<close> with the session's converter, which may not return or panic on the message.\<close>

definition session_error :: "('n, 'z, unit) conm" where
  "session_error c = (case sess c of
       None \<Rightarrow> Some (Panic, c)
     | Some s \<Rightarrow>
         let msg = (case Summary s of Some x \<Rightarrow> slice_bytes (ErrorMessage x) | None \<Rightarrow> []);
             fail = (\<lambda>conv. let e = GetError conv s in Some (Err (OracleErr (ErrCode e) (ErrMsg e) (errPos e)), c))
         in (case StrConv c of
               None \<Rightarrow> fail None
             | Some cv \<Rightarrow> (case Decode cv msg of
                   None \<Rightarrow> None
                 | Some (Ok m) \<Rightarrow> fail (Some (\<lambda>_. m))
                 | Some _ \<Rightarrow> Some (Panic, c))))"

definition summary_msg :: "'n conn_env \<Rightarrow> ('n, 'z, unit) conm" where
  "summary_msg env =
     gseq (gassign None (gbind (on_sess (NewSummary (env_read env))) (\<lambda>x. gret (Some x)))
             (\<lambda>v c. c\<lparr>sess := map_option (\<lambda>s. s\<lparr>Summary := v\<rparr>) (sess c)\<rparr>))
    (gbind (gget (\<lambda>c. HasError (the (sess c)))) (\<lambda>failed. if failed then session_error else gret ()))"

definition time_zone_pair :: "'n conn_env \<Rightarrow> ('n, 'z, unit) conm" where
  "time_zone_pair env = gbind (on_sess (GetKeyVal (env_read env))) (\<lambda>(key, val, num).
     gwhen (num = 163) (gupd (\<lambda>c. c\<lparr>TimeZone := val\<rparr>)))"

definition rpa_msg :: "'n conn_env \<Rightarrow> ('n, 'z, unit) conm" where
  "rpa_msg env = (let rd = env_read env in
     gbind (on_sess (GetInt rd 2 True True)) (\<lambda>size1.
     gseq (grepeat (nat size1) (on_sess (GetInt rd 4 True True)))
    (gseq (on_sess (GetInt rd 2 True True))
    (gbind (gtry 0 (on_sess (GetInt rd 2 True True))) (\<lambda>(size2, _).
     gseq (grepeat (nat size2) (time_zone_pair env))
    (gbind (on_sess (gget TTCVersion)) (\<lambda>ver.
     gseq (gwhen (ver \<ge> 4) (gbind (on_sess (GetInt rd 4 True True)) (\<lambda>size3.
             gwhen (size3 > 0) (gseq (on_sess (GetBytes rd size3)) (gret ())))))
          (gwhen (ver \<ge> 7) (gbind (on_sess (GetInt rd 4 True True)) (\<lambda>len.
             grepeat (nat len) (on_sess (GetInt rd 8 True True))))))))))))"

definition end_msg :: "'n conn_env \<Rightarrow> ('n, unit) sm" where
  "end_msg env =
     gbind (gget (\<lambda>s. (HasEOSCapability s, HasFSAPCapability s))) (\<lambda>(eos, fsap).
     gseq (gwhen eos (gbind (GetInt (env_read env) 4 True True) (\<lambda>temp.
             gupd (\<lambda>s. s\<lparr>Summary := map_option (\<lambda>x. x\<lparr>EndOfCallStatus := temp\<rparr>) (Summary s)\<rparr>))))
          (gwhen fsap
             (gseq (gupd (\<lambda>s. if Summary s = None then s\<lparr>Summary := Some zero_summary\<rparr> else s))
               (gassign 0 (GetInt (env_read env) 2 True True)
                 (\<lambda>v s. s\<lparr>Summary := map_option (\<lambda>x. x\<lparr>EndToEndECIDSequence := v\<rparr>) (Summary s)\<rparr>)))))"

definition ProcessTCCResponse :: "'n conn_env \<Rightarrow> byte \<Rightarrow> ('n, 'z, unit) conm" where
  "ProcessTCCResponse env msgCode =
    (if msgCode = 4 then summary_msg env
     else if msgCode = 8 then rpa_msg env
     else if msgCode = 9 then on_sess (end_msg env)
     else if msgCode = 15 then gseq (on_sess (NewWarningObject (env_read env))) (gret ())
     else if msgCode = 23 then gbind (on_sess (GetByte (env_read env))) (getServerNetworkInformation env)
     else if msgCode = 28 then gseq (protocolNegotiation env) (dataTypeNegotiation env)
     else gerr (TTCCode msgCode))"

partial_function (option) conn_read :: "'n conn_env \<Rightarrow> ('n, 'z, unit) conm" where
  "conn_read env c =
     gbind (on_sess (GetByte (env_read env))) (\<lambda>msg.
       gseq (ProcessTCCResponse env msg)
         (if msg = 4 \<or> msg = 9 then gret () else conn_read env)) c"

section \<open>Broken connections\<close>

definition isBadConn :: "(nat \<Rightarrow> bool) \<Rightarrow> go_error \<Rightarrow> bool" where
  "isBadConn broken err = (case err of
       EOF \<Rightarrow> True
     | NetError n \<Rightarrow> broken n
     | OracleErr code msg pos \<Rightarrow> Bad \<lparr>ErrCode = code, ErrMsg = msg, errPos = pos\<rparr>
     | _ \<Rightarrow> False)"

definition setBad :: "('n, 'z) connection_scheme \<Rightarrow> ('n, 'z) connection_scheme" where
  "setBad c = c\<lparr>bad := True\<rparr>"

text \<open>\<open>err = f(); return processReset(err, conn)\<close>: after a reset of the connection the answer is read again, and an error
  that means a broken connection marks it.\<close>

definition processReset :: "'n conn_env \<Rightarrow> ('n, 'z, unit) conm \<Rightarrow> ('n, 'z, unit) conm" where
  "processReset env m =
     gbind (gtry () m) (\<lambda>(_, err).
     gbind (if err = Some ErrConnReset then gtry () (conn_read env) else gret ((), err)) (\<lambda>(_, err).
       case err of
         None \<Rightarrow> gret ()
       | Some e \<Rightarrow> if isBadConn (env_broken env) e then gseq (gupd setBad) (gerr e) else gerr e))"

definition ResetSession :: "('n, 'z, unit) conm" where
  "ResetSession c = Some (if bad c then Err ErrBadConn else Ok (), c)"

definition IsValid :: "('n, 'z) connection_scheme \<Rightarrow> bool" where
  "IsValid c \<longleftrightarrow> \<not> bad c \<and> State c = Opened"

text \<open>\<open>simpleObject.exec\<close>: a call without arguments. The write is not followed by a look for a broken connection.\<close>

definition simple_exec :: "'n conn_env \<Rightarrow> byte \<Rightarrow> nslice \<Rightarrow> ('n, 'z, unit) conm" where
  "simple_exec env operationID data =
     gseq (on_sess (gseq (PutTTCFunc 0x3 operationID)
            (gseq (case data of Some bs \<Rightarrow> PutBytes bs | None \<Rightarrow> gret ()) (env_write env))))
    (gbind (gtry () (conn_read env)) (\<lambda>(_, err).
     gbind (if err = Some ErrConnReset then gtry () (conn_read env) else gret ((), err)) (\<lambda>(_, err).
       case err of
         None \<Rightarrow> gret ()
       | Some e \<Rightarrow> if isBadConn (env_broken env) e then gseq (gupd setBad) (gerr ErrBadConn) else gerr e)))"

definition Commit :: "'n conn_env \<Rightarrow> ('n, 'z, unit) conm" where
  "Commit env c = (if State c \<noteq> Opened then Some (Err ErrBadConn, c)
     else gseq (gupd (\<lambda>c. c\<lparr>autoCommit := True\<rparr>)) (gseq (on_sess (gupd ResetBuffer)) (simple_exec env 0xE None)) c)"

definition Rollback :: "'n conn_env \<Rightarrow> ('n, 'z, unit) conm" where
  "Rollback env c = (if State c \<noteq> Opened then Some (Err ErrBadConn, c)
     else gseq (gupd (\<lambda>c. c\<lparr>autoCommit := True\<rparr>)) (gseq (on_sess (gupd ResetBuffer)) (simple_exec env 0xF None)) c)"

section \<open>String converters\<close>

definition GetStringCoder ::
    "(int \<Rightarrow> StringConverter option) \<Rightarrow> int \<Rightarrow> int \<Rightarrow> ('n, 'z) connection_scheme \<Rightarrow> StringConverter res" where
  "GetStringCoder others charsetID charsetForm c =
    (let fail = Err (UnsupportedCharset charsetID); has = (\<lambda>conv. \<exists>x. conv = Some x \<and> GetLangID x = charsetID) in
     if charsetID = 0 then
       if charsetForm = 1 then
         (case cStrConv c of Some x \<Rightarrow> Ok x | None \<Rightarrow> (case sStrConv c of Some x \<Rightarrow> Ok x | None \<Rightarrow> fail))
       else (case nStrConv c of Some x \<Rightarrow> Ok x | None \<Rightarrow> fail)
     else if has (cStrConv c) then Ok (the (cStrConv c))
     else if has (sStrConv c) then
       (case cStrConv c of Some x \<Rightarrow> Ok x | None \<Rightarrow> Ok (the (sStrConv c)))
     else if has (nStrConv c) then Ok (the (nStrConv c))
     else (case NewStringConverter others charsetID of Some x \<Rightarrow> Ok x | None \<Rightarrow> fail))"

definition GetDefaultStringCoder ::
    "(int \<Rightarrow> StringConverter option) \<Rightarrow> ('n, 'z) connection_scheme \<Rightarrow> StringConverter res" where
  "GetDefaultStringCoder others c = (case tcpNego c of
       None \<Rightarrow> Panic
     | Some t \<Rightarrow> GetStringCoder others (ServerCharset t) 1 c)"

definition GetMaxStringLength :: "('n, 'z) connection_scheme \<Rightarrow> int" where
  "GetMaxStringLength c = (if varchar (maxLen c) = 0 then 0x7FFF else varchar (maxLen c))"

definition GetMaxRawLength :: "('n, 'z) connection_scheme \<Rightarrow> int" where
  "GetMaxRawLength c = (if maxraw (maxLen c) = 0 then 0x7FFF else maxraw (maxLen c))"

section \<open>Temporary LOBs and closing\<close>

definition appendTemporaryLoc :: "byte list \<Rightarrow> ('n, 'z) connection_scheme \<Rightarrow> ('n, 'z) connection_scheme" where
  "appendTemporaryLoc loc c =
    (if loc \<in> set (temporaryLocs c) then c else c\<lparr>temporaryLocs := temporaryLocs c @ [loc]\<rparr>)"

definition freeTemp :: "byte list list \<Rightarrow> ('n, unit) sm" where
  "freeTemp locators =
     gseq (PutTTCFunc 0x11 0x60)
    (gseq (PutBytes [1])
    (gseq (PutUint (IntN (of_nat (sum_list (map length locators)))) 4 True True)
    (gseq (PutBytes (replicate 7 0))
    (gseq (PutUint (IntN 0x80111) 4 True True)
    (gseq (PutBytes (replicate 11 0))
          (PutBytes (concat locators)))))))"

text \<open>The blocks of at most 25000 locators. The loop adds the end of a block to its start.\<close>

function free_blocks :: "nat \<Rightarrow> nat \<Rightarrow> (nat \<times> nat) list" where
  "free_blocks n start =
    (if start < n then let stop = (if start + 25000 > n then n else start + 25000) in (start, stop) # free_blocks n (start + stop)
     else [])"
  by pat_completeness auto
termination by (relation "measure (\<lambda>(n, start). n - start)") auto

declare free_blocks.simps [simp del]

definition freeTemporaryLobs :: "'n conn_env \<Rightarrow> ('n, 'z, unit) conm" where
  "freeTemporaryLobs env c =
    (if temporaryLocs c = [] then Some (Ok (), c)
     else gseq (on_sess (gupd ResetBuffer))
         (gseq (on_sess (foldr (\<lambda>(i, j) m. gseq (freeTemp (slice i j (temporaryLocs c))) m)
                   (free_blocks (length (temporaryLocs c)) 0) (gret ())))
         (gseq (on_sess (gseq (PutTTCFunc 0x3 0x93) (env_write env)))
         (gseq (conn_read env)
               (gupd (\<lambda>c. c\<lparr>temporaryLocs := []\<rparr>))))) c)"

definition Logoff :: "'n conn_env \<Rightarrow> ('n, 'z, unit) conm" where
  "Logoff env = gseq (on_sess (gseq (gupd ResetBuffer) (gseq (PutTTCFunc 3 9) (env_write env)))) (conn_read env)"

text \<open>The error of freeing is lost unless there is no session; the error of logging off is returned.\<close>

definition Close :: "'n conn_env \<Rightarrow> ('n, 'z, unit) conm" where
  "Close env =
     gbind (gtry () (freeTemporaryLobs env)) (\<lambda>(_, err1).
     gbind (gget (\<lambda>c. sess c = None)) (\<lambda>gone.
     gbind (if gone then gret ((), err1)
            else gbind (gtry () (Logoff env)) (\<lambda>r.
                 gseq (on_sess (gupd Disconnect)) (gseq (gupd (\<lambda>c. c\<lparr>sess := None\<rparr>)) (gret r)))) (\<lambda>(_, err).
     gseq (gupd (\<lambda>c. c\<lparr>State := Closed\<rparr>))
          (case err of Some e \<Rightarrow> gerr e | None \<Rightarrow> gret ()))))"

end
