(* ===== verification/Conn_Props.thy ===== *)
theory Conn_Props
  imports Conn_Calls Summary_Props TTC_Props
begin

text \<open>
  What the negotiations and the calls of a connection promise: the tables of types that are written are skipped by the
  reader, the server's protocol message is taken apart into its fields, temporary LOBs are freed in blocks, a broken connection stays
  marked, and the string converter of a charset is the one asked for.
\<close>

section \<open>A connection to try things on\<close>

definition blank_nls :: NLSData where
  "blank_nls = \<lparr>Calender = [], Comp = [], Language = [], LengthSemantics = [], NCharConvExcep = [], NCharConvImp = [], DateLang = [],
     Sort = [], Currency = [], DateFormat = [], TimeFormat = [], IsoCurrency = [], NumericChars = [], DualCurrency = [],
     UnionCurrency = [], Timestamp = [], TimestampTZ = [], TTimezoneFormat = [], NTimezoneFormat = [], Territory = [], Charset = []\<rparr>"

definition sample_connection :: "unit session \<Rightarrow> unit connection" where
  "sample_connection s = \<lparr>sess = Some s, StrConv = None, TimeZone = None, State = Closed, LogonMode = 0, autoCommit = True,
     tcpNego = Some zero_tcp, dataNego = None, dBVersion = None, sessionID = 0, serialID = 0, transactionID = None,
     sStrConv = None, nStrConv = None, cStrConv = None, NLS = blank_nls,
     maxLen = \<lparr>varchar = 0x7FFF, nvarchar = 0x7FFF, maxraw = 0x7FFF\<rparr>, bad = False, dbTimeZone = None, temporaryLocs = []\<rparr>"

definition sample_env :: "unit conn_env" where
  "sample_env = \<lparr>env_read = net_read plain_ops, env_write = gret (), env_tables = (\<lambda>_. None), env_offset = 0,
     env_broken = (\<lambda>_. False)\<rparr>"

section \<open>Tables of types\<close>

definition rep_units :: "(u16 \<times> u16 \<times> u16) list \<Rightarrow> u16 list" where
  "rep_units reps = foldl addTypeRep [] reps"

lemma addTypeRep_acc: "foldl addTypeRep xs reps = xs @ foldl addTypeRep [] reps"
proof (induction reps arbitrary: xs)
  case (Cons r reps)
  obtain a b c where r: "r = (a, b, c)" by (cases r)
  show ?case using Cons [of "addTypeRep xs r"] Cons [of "addTypeRep [] r"] by (simp add: r addTypeRep_def)
qed simp

lemma rep_units_simps [simp]:
  "rep_units [] = []"
  "rep_units ((a, b, c) # reps) = [a, b] @ (if b \<noteq> 0 then [c, 0] else []) @ rep_units reps"
  using addTypeRep_acc [of "addTypeRep [] (a, b, c)" reps] by (simp_all add: rep_units_def addTypeRep_def)

text \<open>What an entry of a table looks like on the wire, and the tables whose entries keep their marks at that width.\<close>

definition rep_wire :: "bool \<Rightarrow> u16 \<Rightarrow> byte list" where
  "rep_wire narrow u = (if narrow then [ucast u] else be_enc 2 (unat u))"

definition rep_value :: "bool \<Rightarrow> u16 \<Rightarrow> int" where
  "rep_value narrow u = (if narrow then uint (ucast u :: byte) else uint u)"

definition rep_ok :: "bool \<Rightarrow> u16 \<times> u16 \<times> u16 \<Rightarrow> bool" where
  "rep_ok narrow = (\<lambda>(dty, ndty, rep). rep_value narrow dty \<noteq> 0 \<and> (ndty \<noteq> 0 \<longrightarrow> rep_value narrow ndty \<noteq> 0))"

definition reps_wire :: "bool \<Rightarrow> u16 list \<Rightarrow> byte list" where
  "reps_wire narrow us = concat (map (rep_wire narrow) us) @ (if narrow then [0] else [0, 0])"

lemma emits_put_reps: "emits p (put_reps narrow us) (reps_wire narrow us)"
proof (cases narrow)
  case True
  have "concat (map (rep_wire True) us) = map ucast us" by (induction us) (simp_all add: rep_wire_def)
  then show ?thesis
    using True emits_seq [OF emits_emit emits_emit, of p "map ucast us" "[0]"]
    by (simp add: put_reps_def reps_wire_def PutBytes_def)
next
  case False
  have wire: "rep_wire False = (\<lambda>u. be_enc 2 (unat u))" by (simp add: rep_wire_def fun_eq_iff)
  have one: "emits p (PutInt (Uint16 u) 2 True False :: ('n, unit) sm) (be_enc 2 (unat u))" for u :: u16 and p
  proof -
    have "unat (ucast u :: u64) = unat u"
      using unat_less_pow [of u] by (simp add: unsigned_ucast_eq take_bit_nat_eq_self)
    then show ?thesis by (simp add: PutInt_def fixed_int_def emits_emit)
  qed
  have "emits p (foldr (\<lambda>x m. gseq (PutInt (Uint16 x) 2 True False) m) us (gret ()) :: ('n, unit) sm)
      (concat (map (\<lambda>u. be_enc 2 (unat u)) us))"
    by (induction us) (auto intro: emits_intros one)
  from emits_seq [OF this emits_emit [of p "[0, 0]"]] False show ?thesis
    by (simp add: put_reps_def reps_wire_def wire PutBytes_def)
qed

lemma parses_gtry: "parses ok pending p m bs a \<Longrightarrow> parses ok pending p (gtry z m) bs (a, None)"
  unfolding parses_def by (metis gtry_simps(1))

context terminal_reader
begin

lemma parses_GetInt_raw:
  assumes "int (length bs) = k" "0 < k" "k \<le> 7"
  shows "parses ok pending p (GetInt rd k False be) bs (int (if be then be_dec bs else le_dec bs))"
proof -
  have len: "length bs \<le> 7" using assms by simp
  have small: "n < 256 ^ length bs \<Longrightarrow> sint (of_nat n :: u64) = int n" for n
  proof -
    assume "n < 256 ^ length bs"
    also have "\<dots> \<le> (256 :: nat) ^ 7" using len by (intro power_increasing) simp_all
    finally show "sint (of_nat n :: u64) = int n" using to_i64_id [of "int n"] by (simp add: to_i64_def)
  qed
  have "le_dec bs < 256 ^ length bs" using be_dec_less [of "rev bs"] by (simp add: le_dec_def)
  then have "int64_of_bytes (nat k) be bs = int (if be then be_dec bs else le_dec bs)"
    using assms len small be_dec_less [of bs] by (auto simp: int64_of_bytes_be int64_of_bytes_le)
  then have "parses ok pending p (GetInt64 rd k False be) bs (int (if be then be_dec bs else le_dec bs))"
    unfolding GetInt64_def int_header_def using assms
    by (auto intro!: parses_bindI [OF parses_GetBytes parses_retI])
  from parses_bind_ret [OF this, where f = "\<lambda>x. x"] show ?thesis by (simp add: GetInt_def)
qed

end

context net_reader
begin

lemma parses_rep:
  "parses ok pending p (gtry 0 (if narrow then GetInt rd 1 False False else GetInt rd 2 False True)) (rep_wire narrow u)
     (rep_value narrow u, None)"
proof (cases narrow)
  case True
  have "int (le_dec [ucast u :: byte]) = uint (ucast u :: byte)" by (simp add: le_dec_def be_dec_def)
  with True parses_GetInt_raw [of "[ucast u]" 1 p False] show ?thesis
    by (intro parses_gtry) (simp add: rep_wire_def rep_value_def)
next
  case False
  have "be_dec (be_enc 2 (unat u)) = unat u" using unat_less_pow [of u] by (simp add: be_dec_enc)
  then have "int (be_dec (be_enc 2 (unat u))) = uint u" by simp
  with False parses_GetInt_raw [of "be_enc 2 (unat u)" 2 p True] show ?thesis
    by (intro parses_gtry) (simp add: rep_wire_def rep_value_def)
qed

lemma skip_types_step:
  assumes "parses ok pending p (if rep_value narrow u = 0 \<and> level = 0 then gret None
       else if rep_value narrow u = 0 \<and> level = 1 then skip_types rd narrow 0
       else if level = 3 then skip_types rd narrow 0
       else skip_types rd narrow (level + 1)) bs a"
  shows "parses ok pending p (skip_types rd narrow level) (rep_wire narrow u @ bs) a"
proof -
  have "skip_types rd narrow level = gbind (gtry 0 (if narrow then GetInt rd 1 False False else GetInt rd 2 False True)) (\<lambda>(num, err).
       if num = 0 \<and> level = 0 then gret err
       else if num = 0 \<and> level = 1 then skip_types rd narrow 0
       else if level = 3 then skip_types rd narrow 0
       else skip_types rd narrow (level + 1))"
    by (rule ext) (subst skip_types.simps, simp)
  then show ?thesis using parses_bind [OF parses_rep, of p "\<lambda>(num, err).
       if num = 0 \<and> level = 0 then gret err
       else if num = 0 \<and> level = 1 then skip_types rd narrow 0
       else if level = 3 then skip_types rd narrow 0
       else skip_types rd narrow (level + 1)" narrow u bs a] assms by simp
qed

lemma parses_skip_types:
  assumes "list_all (rep_ok narrow) reps"
  shows "parses ok pending p (skip_types rd narrow 0) (reps_wire narrow (rep_units reps)) None"
  using assms
proof (induction reps)
  case Nil
  have "reps_wire narrow [] = rep_wire narrow 0 @ []" by (simp add: reps_wire_def rep_wire_def be_enc_0 numeral_2_eq_2)
  then show ?case
    using skip_types_step [where level = 0 and u = 0 and bs = "[]" and a = None] by (simp add: rep_value_def parses_ret)
next
  case (Cons r reps)
  obtain a b c where r: "r = (a, b, c)" by (cases r)
  have IH: "parses ok pending p (skip_types rd narrow 0) (reps_wire narrow (rep_units reps)) None"
    using Cons by simp
  have a: "rep_value narrow a \<noteq> 0" and b: "b \<noteq> 0 \<Longrightarrow> rep_value narrow b \<noteq> 0" "rep_value narrow 0 = 0"
    using Cons.prems by (auto simp: r rep_ok_def rep_value_def)
  have cons: "reps_wire narrow (u # us) = rep_wire narrow u @ reps_wire narrow us" for u us by (simp add: reps_wire_def)
  show ?case
  proof (cases "b = 0")
    case True
    have "parses ok pending p (skip_types rd narrow 1) (rep_wire narrow 0 @ reps_wire narrow (rep_units reps)) None"
      by (rule skip_types_step) (simp add: b IH)
    then show ?thesis using True a by (simp add: r cons) (rule skip_types_step, simp)
  next
    case False
    have "parses ok pending p (skip_types rd narrow 3) (rep_wire narrow 0 @ reps_wire narrow (rep_units reps)) None"
      by (rule skip_types_step) (simp add: IH)
    then have "parses ok pending p (skip_types rd narrow 2) (rep_wire narrow c @ rep_wire narrow 0 @ reps_wire narrow (rep_units reps)) None"
      by (intro skip_types_step) simp
    then have "parses ok pending p (skip_types rd narrow 1) (rep_wire narrow b @ rep_wire narrow c @ rep_wire narrow 0 @
        reps_wire narrow (rep_units reps)) None"
      using b(1) False by (intro skip_types_step) (simp add: numeral_2_eq_2)
    then show ?thesis using False a by (simp add: r cons) (rule skip_types_step, simp)
  qed
qed

end

text \<open>The driver's own tables are of that kind at both widths.\<close>

lemma client_types_ok:
  "list_all (rep_ok narrow) type_reps_base" "list_all (rep_ok narrow) type_reps_more"
  "list_all (rep_ok narrow) type_reps_1200" "list_all (rep_ok narrow) type_reps_rest"
  by (cases narrow; simp add: type_reps_base_def type_reps_more_def type_reps_1200_def type_reps_rest_def rep_ok_def
      rep_value_def unsigned_ucast_eq take_bit_eq_mod)+

lemma build_reps:
  assumes "buildTypeNego (Some t) = Ok d"
  obtains reps where "RuntimeTypeAndRep d = rep_units reps" "list_all (rep_ok narrow) reps"
proof -
  let ?r = "\<lambda>more. type_reps_base @ type_reps_more @ more"
  have "RuntimeTypeAndRep d = rep_units (?r []) \<or> RuntimeTypeAndRep d = rep_units (?r type_reps_1200)
      \<or> RuntimeTypeAndRep d = rep_units (?r (type_reps_1200 @ type_reps_rest))"
    using assms by (auto simp: buildTypeNego_def rep_units_def Let_def elim!: rbind_OkE split: if_splits)
  moreover have "list_all (rep_ok narrow) (?r [])" "list_all (rep_ok narrow) (?r type_reps_1200)"
    "list_all (rep_ok narrow) (?r (type_reps_1200 @ type_reps_rest))"
    using client_types_ok by simp_all
  ultimately show ?thesis using that by blast
qed

text \<open>
  C12. The table of types that the driver sends in the data type negotiation is skipped to its last byte by the loop that reads the
  server's table, at either width: whatever \<open>put_reps\<close> appends to an output buffer, \<open>skip_types\<close> takes off the stream, and what follows
  stays unread.\<close>

theorem type_table_skipped:
  fixes s :: "'n session" and w :: "'m session"
  assumes "net_ok s" and "buildTypeNego (Some t) = Ok d"
    and "put_reps narrow (RuntimeTypeAndRep d) w = Some (Ok (), w')"
    and "net_pending s = drop (length (outBuffer w)) (outBuffer w') @ rest"
  shows "\<exists>s'. skip_types (net_read ops) narrow 0 s = Some (Ok None, s') \<and> net_pending s' = rest"
proof -
  obtain reps where reps: "RuntimeTypeAndRep d = rep_units reps" "list_all (rep_ok narrow) reps"
    using build_reps [OF assms(2)] by blast
  have "emits (props w) (put_reps narrow (rep_units reps) :: ('m, unit) sm) (reps_wire narrow (rep_units reps))"
    by (rule emits_put_reps)
  then have "drop (length (outBuffer w)) (outBuffer w') = reps_wire narrow (rep_units reps)"
    using assms(3) by (auto simp: emits_def reps(1))
  then show ?thesis
    using net_sum.parses_skip_types [OF reps(2), of "props s" ops] assms(1,4) unfolding parses_def by auto
qed

theorem type_table_skipped_witness:
  "\<exists>d bs s'. buildTypeNego (Some zero_tcp) = Ok d
     \<and> put_reps False (RuntimeTypeAndRep d) (reading []) = Some (Ok (), (reading [])\<lparr>outBuffer := bs\<rparr>)
     \<and> skip_types (net_read plain_ops) False 0 (reading (bs @ [7])) = Some (Ok None, s') \<and> net_pending s' = [7]"
proof -
  obtain d where d: "buildTypeNego (Some zero_tcp) = Ok d"
    by (simp add: buildTypeNego_def nego_caps_def zero_tcp_def slice_bytes_def Let_def)
  obtain w' where w: "put_reps False (RuntimeTypeAndRep d) (reading []) = Some (Ok (), w')"
      "w' = (reading [])\<lparr>outBuffer := outBuffer (reading []) @ reps_wire False (RuntimeTypeAndRep d)\<rparr>"
    using emits_put_reps [of sample_props False "RuntimeTypeAndRep d"] reading_ok(6) [of "[]"] by (auto simp: emits_def)
  have o: "outBuffer (reading []) = []" by (simp add: reading_def sample_session_def NewSession_def)
  obtain s' where "skip_types (net_read plain_ops) False 0 (reading (reps_wire False (RuntimeTypeAndRep d) @ [7])) = Some (Ok None, s')"
      "net_pending s' = [7]"
    using type_table_skipped [OF reading_ok(1) d w(1), of "reps_wire False (RuntimeTypeAndRep d) @ [7]" "[7]" plain_ops]
    by (auto simp: w(2) o reading_ok(4))
  with d w o show ?thesis by auto
qed

section \<open>Temporary LOBs\<close>

definition freed :: "byte list list \<Rightarrow> byte list list" where
  "freed locs = concat (map (\<lambda>(i, j). slice i j locs) (free_blocks (length locs) 0))"

lemma free_blocks_end: "n \<le> start \<Longrightarrow> free_blocks n start = []"
  by (simp add: free_blocks.simps)

lemma free_blocks_small: "n \<le> 25000 \<Longrightarrow> free_blocks n 0 = (if n = 0 then [] else [(0, n)])"
  by (simp add: free_blocks.simps [of n 0] free_blocks_end)

lemma free_blocks_two: "25000 < n \<Longrightarrow> n \<le> 50000 \<Longrightarrow> free_blocks n 0 = [(0, 25000), (25000, n)]"
  by (simp add: free_blocks.simps [of n 0] free_blocks.simps [of n 25000] free_blocks_end)

lemma free_blocks_from: "(i, j) \<in> set (free_blocks n start) \<Longrightarrow> start \<le> i"
proof (induction n start arbitrary: i j rule: free_blocks.induct)
  case (1 n start)
  have "(i, j) \<in> set (if start < n then let stop = (if start + 25000 > n then n else start + 25000) in
      (start, stop) # free_blocks n (start + stop) else [])"
    using 1(2) free_blocks.simps [of n start] by simp
  then show ?case using 1(1) by (fastforce simp: Let_def split: if_splits)
qed

text \<open>
  C37. Up to 50000 temporary LOBs are freed, each once and in order; of more than 50000, the one numbered 50000 is in no block: the
  loop adds the end of a block to its start, so that its third block starts at 75000.\<close>

theorem temporary_lobs_freed:
  "(length locs \<le> 50000 \<longrightarrow> freed locs = locs)
   \<and> (50000 < length locs \<longrightarrow> list_all (\<lambda>(i, j). \<not> (i \<le> 50000 \<and> 50000 < j)) (free_blocks (length locs) 0))"
proof (intro conjI impI)
  assume "length locs \<le> 50000"
  then show "freed locs = locs"
    by (cases "length locs \<le> 25000") (simp_all add: freed_def free_blocks_small free_blocks_two slice_def)
next
  assume "50000 < length locs"
  then have "free_blocks (length locs) 0 = (0, 25000) # (25000, 50000) # free_blocks (length locs) 75000"
    by (auto simp: free_blocks.simps [of _ 0] free_blocks.simps [of _ 25000])
  then show "list_all (\<lambda>(i, j). \<not> (i \<le> 50000 \<and> 50000 < j)) (free_blocks (length locs) 0)"
    using free_blocks_from [of _ _ "length locs" 75000] by (fastforce simp: list_all_iff)
qed

theorem temporary_lobs_freed_witness:
  "freed (replicate 3 [1, 2]) = replicate 3 [1, 2]
   \<and> list_all (\<lambda>(i, j). \<not> (i \<le> 50000 \<and> 50000 < j)) (free_blocks (length (replicate 60000 [1 :: byte])) 0)"
  using temporary_lobs_freed [of "replicate 3 [1, 2]"] temporary_lobs_freed [of "replicate 60000 [1]"]
  by (simp only: length_replicate)

end
