(* ===== verification/Conn_Nego_Props.thy ===== *)
theory Conn_Nego_Props
  imports Conn_Props
begin

text \<open>
  The protocol negotiation: reading on a connection as reading on its session, the layout of the server's protocol message
  and its parsing field by field, and the data type negotiation's loss of the default time zone.
\<close>

section \<open>Reading on a connection\<close>

definition cparses ::
    "('n session \<Rightarrow> bool) \<Rightarrow> ('n session \<Rightarrow> byte list) \<Rightarrow> session_props \<Rightarrow> ('n, 'z) connection_scheme
     \<Rightarrow> ('n, 'z, 'a) conm \<Rightarrow> byte list \<Rightarrow> 'a \<Rightarrow> ('n, 'z) connection_scheme \<Rightarrow> bool" where
  "cparses ok pending p c m bs a c' \<longleftrightarrow>
     (\<forall>s rest. ok s \<and> props s = p \<and> pending s = bs @ rest \<longrightarrow>
        (\<exists>s'. m (c\<lparr>sess := Some s\<rparr>) = Some (Ok a, c'\<lparr>sess := Some s'\<rparr>) \<and> ok s' \<and> props s' = p \<and> pending s' = rest))"

lemma cparses_on_sess:
  assumes "parses ok pending p m bs a"
  shows "cparses ok pending p c (on_sess m) bs a c"
  unfolding cparses_def
proof (intro allI impI, elim conjE)
  fix s rest
  assume "ok s" "props s = p" "pending s = bs @ rest"
  then obtain s' where "m s = Some (Ok a, s')" "ok s'" "props s' = p" "pending s' = rest"
    using assms unfolding parses_def by blast
  then show "\<exists>s'. on_sess m (c\<lparr>sess := Some s\<rparr>) = Some (Ok a, c\<lparr>sess := Some s'\<rparr>) \<and> ok s' \<and> props s' = p \<and> pending s' = rest"
    by (auto simp: on_sess_def)
qed

lemma cparses_ret: "cparses ok pending p c (gret a) [] a c"
  by (auto simp: cparses_def gret_def)

lemma cparses_bind:
  assumes "cparses ok pending p c m bs a c1" and "cparses ok pending p c1 (f a) cs b c2"
  shows "cparses ok pending p c (gbind m f) (bs @ cs) b c2"
  unfolding cparses_def
proof (intro allI impI, elim conjE)
  fix s rest
  assume s: "ok s" "props s = p" "pending s = (bs @ cs) @ rest"
  then obtain s1 where s1: "m (c\<lparr>sess := Some s\<rparr>) = Some (Ok a, c1\<lparr>sess := Some s1\<rparr>)" "ok s1" "props s1 = p"
      "pending s1 = cs @ rest"
    using assms(1) unfolding cparses_def by (metis append_assoc)
  then obtain s2 where "f a (c1\<lparr>sess := Some s1\<rparr>) = Some (Ok b, c2\<lparr>sess := Some s2\<rparr>)" "ok s2" "props s2 = p" "pending s2 = rest"
    using assms(2) unfolding cparses_def by metis
  with s1 show "\<exists>s'. gbind m f (c\<lparr>sess := Some s\<rparr>) = Some (Ok b, c2\<lparr>sess := Some s'\<rparr>) \<and> ok s' \<and> props s' = p \<and> pending s' = rest"
    by auto
qed

lemma cparses_bindI:
  "cparses ok pending p c m bs a d \<Longrightarrow> cparses ok pending p d (f a) cs b e \<Longrightarrow> xs = bs @ cs \<Longrightarrow>
   cparses ok pending p c (gbind m f) xs b e"
  using cparses_bind by metis

lemma cparses_seqI:
  "cparses ok pending p c m bs a d \<Longrightarrow> cparses ok pending p d n cs b e \<Longrightarrow> xs = bs @ cs \<Longrightarrow>
   cparses ok pending p c (gseq m n) xs b e"
  unfolding gseq_def by (rule cparses_bindI)

lemma cparses_upd: "(\<And>x. f (c\<lparr>sess := x\<rparr>) = (f c)\<lparr>sess := x\<rparr>) \<Longrightarrow> cparses ok pending p c (gupd f) [] () (f c)"
  by (auto simp: cparses_def gupd_def)

lemma cparses_get:
  "(\<And>x. g (c\<lparr>sess := x\<rparr>) = g c) \<Longrightarrow> cparses ok pending p c (f (g c)) bs a c' \<Longrightarrow> cparses ok pending p c (gbind (gget g) f) bs a c'"
  by (simp add: cparses_def gget_def)

lemma cparses_assign:
  assumes "cparses ok pending p c m bs a c1" and "\<And>x. upd a (c1\<lparr>sess := x\<rparr>) = (upd a c1)\<lparr>sess := x\<rparr>"
  shows "cparses ok pending p c (gassign z m upd) bs () (upd a c1)"
  unfolding cparses_def
proof (intro allI impI, elim conjE)
  fix s rest
  assume "ok s" "props s = p" "pending s = bs @ rest"
  then obtain s' where "m (c\<lparr>sess := Some s\<rparr>) = Some (Ok a, c1\<lparr>sess := Some s'\<rparr>)" "ok s'" "props s' = p" "pending s' = rest"
    using assms(1) unfolding cparses_def by blast
  then show "\<exists>s'. gassign z m upd (c\<lparr>sess := Some s\<rparr>) = Some (Ok (), (upd a c1)\<lparr>sess := Some s'\<rparr>) \<and> ok s' \<and> props s' = p
      \<and> pending s' = rest"
    by (auto simp: assms(2))
qed

lemma cparses_gignore:
  assumes "cparses ok pending p c m bs a c1"
  shows "cparses ok pending p c (gignore m) bs (Some a) c1"
  unfolding cparses_def
proof (intro allI impI, elim conjE)
  fix s rest
  assume "ok s" "props s = p" "pending s = bs @ rest"
  then obtain s' where "m (c\<lparr>sess := Some s\<rparr>) = Some (Ok a, c1\<lparr>sess := Some s'\<rparr>)" "ok s'" "props s' = p" "pending s' = rest"
    using assms(1) unfolding cparses_def by blast
  then show "\<exists>s'. gignore m (c\<lparr>sess := Some s\<rparr>) = Some (Ok (Some a), c1\<lparr>sess := Some s'\<rparr>) \<and> ok s' \<and> props s' = p \<and> pending s' = rest"
    by auto
qed

lemma cparses_lift: "r = Ok a \<Longrightarrow> cparses ok pending p c (lift_val r) [] a c"
  by (auto simp: cparses_def lift_val_def)

lemma upd_tcp_sess: "upd_tcp f (c\<lparr>sess := x\<rparr>) = (upd_tcp f c)\<lparr>sess := x\<rparr>"
  by (simp add: upd_tcp_def)

section \<open>A message that has arrived\<close>

text \<open>\<open>GetNullTermString\<close> only looks at the input buffer, so the message has to be in it as a whole.\<close>

definition arrived :: "'n session \<Rightarrow> byte list" where
  "arrived s = unread (inBuffer s)"

lemma arrived_reads:
  fixes s :: "'n session"
  assumes "arrived s = bs @ rest"
  shows "\<exists>s'. net_read ops (int (length bs)) s = Some (Ok bs, s') \<and> kept s' = kept s \<and> props s' = props s \<and> arrived s' = rest"
proof -
  define b where "b = snd (buf_read (length bs) (inBuffer s))"
  have "net_read ops (int (length bs)) s = read_loop ops 0 bs (s\<lparr>inBuffer := b\<rparr>)"
    using buf_read_parts(1) [of "length bs" "inBuffer s"] assms
    by (auto simp: net_read_def b_def arrived_def split: prod.split)
  also have "\<dots> = Some (Ok bs, s\<lparr>inBuffer := b\<rparr>)" by (subst read_loop.simps) (simp add: gret_def)
  finally show ?thesis
    using assms by (auto simp: kept_def arrived_def b_def buf_read_parts)
qed

interpretation buffered: net_reader "net_read ops" "\<lambda>s. kept s = k" arrived for ops :: "'n nego_ops" and k
proof
  fix s :: "'n session" and bs rest
  assume "kept s = k" and "arrived s = bs @ rest"
  then show "\<exists>s'. net_read ops (int (length bs)) s = Some (Ok bs, s') \<and> kept s' = k \<and> props s' = props s \<and> arrived s' = rest"
    using arrived_reads [of s bs rest ops] by auto
qed

lemma parses_GetNullTermString:
  assumes "0 \<notin> set str"
  shows "parses (\<lambda>s. kept s = k) arrived p GetNullTermString (str @ [0]) (str @ [0], None)"
proof -
  have "takeWhile (\<lambda>c. c \<noteq> 0) (str @ [0] @ rest) = str" for rest
    using assms by (induction str) auto
  then show ?thesis
    by (auto simp: parses_def GetNullTermString_def arrived_def buf_read_string0_def Let_def kept_def)
qed

section \<open>The protocol message\<close>

definition wire_protocol ::
    "byte \<Rightarrow> byte \<Rightarrow> byte list \<Rightarrow> nat \<Rightarrow> byte \<Rightarrow> byte list \<Rightarrow> byte list \<Rightarrow> byte list \<Rightarrow> byte list \<Rightarrow> byte list" where
  "wire_protocol ver x banner cs fl elems arr cc rc =
     [1, ver, x] @ banner @ [0] @ le_enc 2 cs @ [fl] @ le_enc 2 (length elems div 5) @ elems @ be_enc 2 (length arr) @ arr
     @ [of_nat (length cc)] @ cc @ [of_nat (length rc)] @ rc"

definition protocol_fields :: "byte \<Rightarrow> byte list \<Rightarrow> nat \<Rightarrow> byte \<Rightarrow> nat \<Rightarrow> byte list \<Rightarrow> byte list \<Rightarrow> tcp_nego" where
  "protocol_fields ver banner cs fl ncs cc rc =
     \<lparr>MessageCode = 1, ProtocolServerString = banner @ [0],
      OracleVersion = (if ver = 4 then 7230 else if ver = 5 then 8030 else 8100), ServerCharset = int cs,
      nego_ServerFlags = fl, ServerNCharset = int ncs, ServerCompileTimeCaps = Some cc, ServerRuntimeCaps = Some rc\<rparr>"

lemma cparses_byte: "env_read env = net_read ops \<Longrightarrow> cparses (\<lambda>s. kept s = k) arrived p c (on_sess (GetByte (env_read env))) [b] b c"
  using cparses_on_sess [OF buffered.parses_GetByte] by simp

lemma cparses_bytes:
  "env_read env = net_read ops \<Longrightarrow> n = int (length bs) \<Longrightarrow>
   cparses (\<lambda>s. kept s = k) arrived p c (on_sess (GetBytes (env_read env) n)) bs bs c"
  using cparses_on_sess [OF buffered.parses_GetBytes] by simp

lemma cparses_u16:
  assumes "env_read env = net_read ops" and "n < 65536"
  shows "cparses (\<lambda>s. kept s = k) arrived p c (on_sess (GetInt (env_read env) 2 False False)) (le_enc 2 n) (int n) c"
    and "cparses (\<lambda>s. kept s = k) arrived p c (on_sess (GetInt (env_read env) 2 False True)) (be_enc 2 n) (int n) c"
  using assms cparses_on_sess [OF buffered.parses_GetInt_raw [of "le_enc 2 n" 2 k p ops False]]
    cparses_on_sess [OF buffered.parses_GetInt_raw [of "be_enc 2 n" 2 k p ops True]]
  by (simp_all add: le_dec_enc be_dec_enc)

lemma cparses_tcp_head:
  assumes "env_read env = net_read ops" and "ver = 4 \<or> ver = 5 \<or> ver = 6" and "0 \<notin> set banner" and "tcpNego c = Some t"
  shows "cparses (\<lambda>s. kept s = k) arrived p c (tcp_head env) ([1, ver, x] @ banner @ [0]) ()
    (c\<lparr>tcpNego := Some (t\<lparr>MessageCode := 1, OracleVersion := (if ver = 4 then 7230 else if ver = 5 then 8030 else 8100),
       ProtocolServerString := banner @ [0]\<rparr>)\<rparr>)"
proof -
  let ?ver = "if ver = 4 then 7230 else if ver = 5 then 8030 else 8100"
  define c1 where "c1 = upd_tcp (\<lambda>t. t\<lparr>MessageCode := 1\<rparr>) c"
  define c2 where "c2 = upd_tcp (\<lambda>t. t\<lparr>OracleVersion := ?ver\<rparr>) c1"
  define c3 where "c3 = upd_tcp (\<lambda>t. t\<lparr>ProtocolServerString := banner @ [0]\<rparr>) c2"
  let ?P = "cparses (\<lambda>s. kept s = k) arrived p"
  note byte = cparses_byte [OF assms(1), of k p]
  have code: "tcpNego c1 = Some (t\<lparr>MessageCode := 1\<rparr>)" using assms(4) by (simp add: c1_def upd_tcp_def)
  have str: "?P c2 (on_sess GetNullTermString) (banner @ [0]) (banner @ [0], None) c2"
    by (rule cparses_on_sess [OF parses_GetNullTermString [OF assms(3)]])
  have "?P c2 (gbind (on_sess GetNullTermString) (\<lambda>(str, err). gseq (gupd (upd_tcp (\<lambda>t. t\<lparr>ProtocolServerString := str\<rparr>)))
      (case err of Some e \<Rightarrow> gerr e | None \<Rightarrow> gret ()))) (banner @ [0]) () c3"
    unfolding c3_def
    by (rule cparses_bindI [OF str]) (auto intro!: cparses_seqI [OF cparses_upd cparses_ret] simp: upd_tcp_sess)
  then have "?P c1 (gseq (gupd (upd_tcp (\<lambda>t. t\<lparr>OracleVersion := ?ver\<rparr>))) (gseq (on_sess (GetByte (env_read env)))
      (gbind (on_sess GetNullTermString) (\<lambda>(str, err). gseq (gupd (upd_tcp (\<lambda>t. t\<lparr>ProtocolServerString := str\<rparr>)))
      (case err of Some e \<Rightarrow> gerr e | None \<Rightarrow> gret ()))))) (x # banner @ [0]) () c3"
    unfolding c2_def by (intro cparses_seqI [OF cparses_upd] cparses_seqI [OF byte]) (auto simp: upd_tcp_sess)
  then have tail: "?P c1 (gbind (on_sess (GetByte (env_read env))) (\<lambda>v. if v \<noteq> 4 \<and> v \<noteq> 5 \<and> v \<noteq> 6 then gerr (UnsupportedServer v)
       else gseq (gupd (upd_tcp (\<lambda>t. t\<lparr>OracleVersion := (if v = 4 then 7230 else if v = 5 then 8030 else 8100)\<rparr>)))
        (gseq (on_sess (GetByte (env_read env))) (gbind (on_sess GetNullTermString) (\<lambda>(str, err).
          gseq (gupd (upd_tcp (\<lambda>t. t\<lparr>ProtocolServerString := str\<rparr>))) (case err of Some e \<Rightarrow> gerr e | None \<Rightarrow> gret ())))))) (ver # x # banner @ [0]) () c3"
    using assms(2) by (intro cparses_bindI [OF byte [of _ ver]]) auto
  have "?P c (tcp_head env) (1 # ver # x # banner @ [0]) () c3"
    unfolding tcp_head_def
  proof (rule cparses_seqI)
    show "?P c (gassign 0 (on_sess (GetByte (env_read env))) (\<lambda>v. upd_tcp (\<lambda>t. t\<lparr>MessageCode := v\<rparr>))) [1] () c1"
      unfolding c1_def by (rule cparses_assign [OF byte]) (simp add: upd_tcp_sess)
  qed (auto intro!: cparses_get [where c = c1] tail simp: code)
  moreover have "c3 = c\<lparr>tcpNego := Some (t\<lparr>MessageCode := 1, OracleVersion := ?ver, ProtocolServerString := banner @ [0]\<rparr>)\<rparr>"
    using assms(4) by (simp add: c1_def c2_def c3_def upd_tcp_def)
  ultimately show ?thesis by simp
qed

lemma cparses_tcp_charset:
  assumes "env_read env = net_read ops" and "cs < 65536" and "tcpNego c = Some t" and "sStrConv c = None"
    and "NewStringConverter (env_tables env) (int cs) = Some cv"
  shows "cparses (\<lambda>s. kept s = k) arrived p c (tcp_charset env) (le_enc 2 cs) ()
    (c\<lparr>tcpNego := Some (t\<lparr>ServerCharset := int cs\<rparr>), sStrConv := Some cv, StrConv := Some cv\<rparr>)"
proof -
  let ?P = "cparses (\<lambda>s. kept s = k) arrived p"
  define c1 where "c1 = upd_tcp (\<lambda>t. t\<lparr>ServerCharset := int cs\<rparr>) c"
  define c2 where "c2 = c1\<lparr>sStrConv := Some cv\<rparr>"
  have c1: "tcpNego c1 = Some (t\<lparr>ServerCharset := int cs\<rparr>)" "sStrConv c1 = None" using assms(3,4) by (simp_all add: c1_def upd_tcp_def)
  have "?P c (gassign 0 (on_sess (GetInt (env_read env) 2 False False)) (\<lambda>v. upd_tcp (\<lambda>t. t\<lparr>ServerCharset := v\<rparr>))) (le_enc 2 cs) () c1"
    unfolding c1_def by (rule cparses_assign [OF cparses_u16(1) [OF assms(1,2)]]) (simp add: upd_tcp_sess)
  moreover have "?P c1 (gupd (\<lambda>c. c\<lparr>sStrConv := Some cv\<rparr>)) [] () c2" unfolding c2_def by (rule cparses_upd) simp
  moreover have "?P c2 (gupd (\<lambda>c. c\<lparr>StrConv := sStrConv c\<rparr>)) [] () (c2\<lparr>StrConv := sStrConv c2\<rparr>)" by (rule cparses_upd) simp
  ultimately have "?P c (tcp_charset env) (le_enc 2 cs) () (c2\<lparr>StrConv := sStrConv c2\<rparr>)"
    unfolding tcp_charset_def
    by (auto intro!: cparses_seqI [where d = c1] cparses_get [where c = c1] cparses_seqI [where c = c1 and d = c2] simp: c1 assms(5))
  then show ?thesis using assms(3) by (simp add: c2_def c1_def upd_tcp_def)
qed

lemma cparses_tcp_ncharset:
  assumes "env_read env = net_read ops" and "length arr < 65536" and "rbind (ncharset_offset arr) (\<lambda>off. be_at 2 (off + 3) arr) = Ok ncs"
    and "tcpNego c = Some t" and "nStrConv c = None" and "NewStringConverter (env_tables env) (int ncs) = Some ncv"
  shows "cparses (\<lambda>s. kept s = k) arrived p c (tcp_ncharset env) (be_enc 2 (length arr) @ arr) ()
    (c\<lparr>tcpNego := Some (t\<lparr>ServerNCharset := int ncs\<rparr>), nStrConv := Some ncv\<rparr>)"
proof -
  let ?P = "cparses (\<lambda>s. kept s = k) arrived p"
  define c1 where "c1 = upd_tcp (\<lambda>t. t\<lparr>ServerNCharset := int ncs\<rparr>) c"
  have n: "nStrConv c1 = None" using assms(5) by (simp add: c1_def upd_tcp_def)
  have "?P c1 (gupd (\<lambda>c. c\<lparr>nStrConv := Some ncv\<rparr>)) [] () (c1\<lparr>nStrConv := Some ncv\<rparr>)" by (rule cparses_upd) simp
  then have conv: "?P c1 (gbind (gget nStrConv) (\<lambda>conv. if conv = None then
      (case NewStringConverter (env_tables env) (int ncs) of None \<Rightarrow> gerr (UnsupportedCharset (int ncs))
       | Some cv \<Rightarrow> gupd (\<lambda>c. c\<lparr>nStrConv := Some cv\<rparr>)) else gret ())) [] () (c1\<lparr>nStrConv := Some ncv\<rparr>)"
    by (intro cparses_get) (simp_all add: n assms(6))
  have upd: "?P c (gupd (upd_tcp (\<lambda>t. t\<lparr>ServerNCharset := int ncs\<rparr>))) [] () c1"
    unfolding c1_def by (rule cparses_upd) (simp add: upd_tcp_sess)
  have "?P c (tcp_ncharset env) (be_enc 2 (length arr) @ arr) () (c1\<lparr>nStrConv := Some ncv\<rparr>)"
    unfolding tcp_ncharset_def
    by (rule cparses_bindI [OF cparses_u16(2) [OF assms(1,2)]], rule cparses_bindI [OF cparses_bytes [OF assms(1) refl]],
        rule cparses_bindI [OF cparses_lift [OF assms(3)]], rule cparses_seqI [OF upd conv]) simp_all
  then show ?thesis using assms(4) by (simp add: c1_def upd_tcp_def)
qed

lemma cparses_slice_field:
  assumes "env_read env = net_read ops" and "length bs < 256"
  shows "cparses (\<lambda>s. kept s = k) arrived p c (gbind (on_sess (GetBytes (env_read env) (uint (of_nat (length bs) :: byte))))
    (\<lambda>bs. gret (Some bs))) bs (Some bs) c"
  using assms by (intro cparses_bindI [OF cparses_bytes cparses_ret]) (simp_all add: uint_of_nat_byte)

lemma cparses_tcp_caps:
  assumes "env_read env = net_read ops" and "length cc < 256" "length rc < 256" and "tcpNego c = Some t"
  shows "cparses (\<lambda>s. kept s = k) arrived p c (tcp_caps env) ([of_nat (length cc)] @ cc @ [of_nat (length rc)] @ rc) ()
    (c\<lparr>tcpNego := Some (t\<lparr>ServerCompileTimeCaps := Some cc, ServerRuntimeCaps := Some rc\<rparr>)\<rparr>)"
proof -
  let ?P = "cparses (\<lambda>s. kept s = k) arrived p"
  define c1 where "c1 = upd_tcp (\<lambda>t. t\<lparr>ServerCompileTimeCaps := Some cc\<rparr>) c"
  define c2 where "c2 = upd_tcp (\<lambda>t. t\<lparr>ServerRuntimeCaps := Some rc\<rparr>) c1"
  have "?P c1 (gassign None (gbind (on_sess (GetBytes (env_read env) (uint (of_nat (length rc) :: byte)))) (\<lambda>bs. gret (Some bs)))
      (\<lambda>v. upd_tcp (\<lambda>t. t\<lparr>ServerRuntimeCaps := v\<rparr>))) rc () c2"
    unfolding c2_def by (rule cparses_assign [OF cparses_slice_field [OF assms(1,3)]]) (simp add: upd_tcp_sess)
  note rc = this
  have cc: "?P c (gassign None (gbind (on_sess (GetBytes (env_read env) (uint (of_nat (length cc) :: byte)))) (\<lambda>bs. gret (Some bs)))
      (\<lambda>v. upd_tcp (\<lambda>t. t\<lparr>ServerCompileTimeCaps := v\<rparr>))) cc () c1"
    unfolding c1_def by (rule cparses_assign [OF cparses_slice_field [OF assms(1,2)]]) (simp add: upd_tcp_sess)
  have "?P c (tcp_caps env) ([of_nat (length cc)] @ cc @ [of_nat (length rc)] @ rc) () c2"
    unfolding tcp_caps_def
    by (rule cparses_bindI [OF cparses_byte [OF assms(1)]], rule cparses_seqI [OF cc],
        rule cparses_bindI [OF cparses_byte [OF assms(1)]], rule rc) simp_all
  then show ?thesis using assms(4) by (simp add: c1_def c2_def upd_tcp_def)
qed

lemma cparses_skip_charsets:
  assumes "env_read env = net_read ops" and "length elems = 5 * n" and "n < 65536"
    and rest: "cparses (\<lambda>s. kept s = k) arrived p c m bs a d"
  shows "cparses (\<lambda>s. kept s = k) arrived p c (gbind (on_sess (GetInt (env_read env) 2 False False)) (\<lambda>charsetElem.
     gseq (if charsetElem > 0 then gseq (gignore (on_sess (GetBytes (env_read env) (charsetElem * 5)))) (gret ()) else gret ())
      m)) (le_enc 2 n @ elems @ bs) a d"
proof -
  let ?P = "cparses (\<lambda>s. kept s = k) arrived p"
  have "?P c (gseq (gignore (on_sess (GetBytes (env_read env) (int n * 5)))) (gret ())) elems () c"
    using assms(2) by (intro cparses_seqI [OF cparses_gignore [OF cparses_bytes [OF assms(1)]] cparses_ret]) simp_all
  then have "?P c (if int n > 0 then gseq (gignore (on_sess (GetBytes (env_read env) (int n * 5)))) (gret ()) else gret ()) elems () c"
    using assms(2) by (cases "n = 0") (auto intro: cparses_ret)
  then show ?thesis
    by (rule cparses_bindI [OF cparses_u16(1) [OF assms(1,3)] cparses_seqI [OF _ rest]]) simp_all
qed

lemma apply_caps_result:
  assumes "tcpNego c = Some t" and "ServerCompileTimeCaps t = Some cc" and "8 \<le> length cc" and "sess c = Some s"
  shows "apply_caps c = Some (Ok (), c\<lparr>sess := Some (big_chunks_from cc (session_caps_from cc s))\<rparr>)"
  using assms by (simp add: apply_caps_def gget_def gseq_def on_sess_def gupd_def gbind_def slice_bytes_def)

lemma caps_fields:
  "HasEOSCapability (big_chunks_from cc (session_caps_from cc s)) \<longleftrightarrow> HasEOSCapability s \<or> cap_bit cc 15 1"
  "HasFSAPCapability (big_chunks_from cc (session_caps_from cc s)) \<longleftrightarrow> HasFSAPCapability s \<or> cap_bit cc 16 1"
  "props (big_chunks_from cc (session_caps_from cc s)) =
     (if cap_bit cc 37 32 then (props s)\<lparr>UseBigClrChunks := True, ClrChunkSize := 0x7FFF\<rparr> else props s)"
  "arrived (big_chunks_from cc (session_caps_from cc s)) = arrived s"
  by (auto simp: big_chunks_from_def session_caps_from_def Let_def arrived_def)

text \<open>The message up to the capabilities.\<close>

lemma cparses_protocol:
  assumes "env_read env = net_read ops" and "ver = 4 \<or> ver = 5 \<or> ver = 6" and "0 \<notin> set banner" and "cs < 65536"
    and "length elems = 5 * n" and "n < 65536" and "length arr < 65536"
    and "rbind (ncharset_offset arr) (\<lambda>off. be_at 2 (off + 3) arr) = Ok ncs" and "length cc < 256" "length rc < 256"
    and "tcpNego c = Some t" "sStrConv c = None" "nStrConv c = None"
    and "NewStringConverter (env_tables env) (int cs) = Some cv" "NewStringConverter (env_tables env) (int ncs) = Some ncv"
  shows "cparses (\<lambda>s. kept s = k) arrived p c (read_protocol env) (wire_protocol ver x banner cs fl elems arr cc rc) ()
    (c\<lparr>tcpNego := Some (protocol_fields ver banner cs fl ncs cc rc), sStrConv := Some cv, nStrConv := Some ncv, StrConv := Some cv\<rparr>)"
proof -
  let ?P = "cparses (\<lambda>s. kept s = k) arrived p"
  define t1 where "t1 = t\<lparr>MessageCode := 1, OracleVersion := (if ver = 4 then 7230 else if ver = 5 then 8030 else 8100),
    ProtocolServerString := banner @ [0]\<rparr>"
  define t2 where "t2 = t1\<lparr>ServerCharset := int cs\<rparr>"
  define t3 where "t3 = t2\<lparr>nego_ServerFlags := fl\<rparr>"
  define t4 where "t4 = t3\<lparr>ServerNCharset := int ncs\<rparr>"
  define c1 where "c1 = c\<lparr>tcpNego := Some t1\<rparr>"
  define c2 where "c2 = c\<lparr>tcpNego := Some t2, sStrConv := Some cv, StrConv := Some cv\<rparr>"
  define c3 where "c3 = c2\<lparr>tcpNego := Some t3\<rparr>"
  define c4 where "c4 = c3\<lparr>tcpNego := Some t4, nStrConv := Some ncv\<rparr>"
  define c5 where "c5 = c4\<lparr>tcpNego := Some (t4\<lparr>ServerCompileTimeCaps := Some cc, ServerRuntimeCaps := Some rc\<rparr>)\<rparr>"
  have 1: "?P c (tcp_head env) ([1, ver, x] @ banner @ [0]) () c1"
    unfolding c1_def t1_def by (rule cparses_tcp_head [OF assms(1,2,3,11)])
  have 2: "?P c1 (tcp_charset env) (le_enc 2 cs) () c2"
    using cparses_tcp_charset [OF assms(1,4), of c1 t1 cv k p] assms(12,14) by (simp add: c1_def c2_def t2_def)
  have 3: "?P c2 (gassign 0 (on_sess (GetByte (env_read env))) (\<lambda>v. upd_tcp (\<lambda>t. t\<lparr>nego_ServerFlags := v\<rparr>))) [fl] () c3"
    using cparses_assign [OF cparses_byte [OF assms(1), of k p c2 fl], of "\<lambda>v. upd_tcp (\<lambda>t. t\<lparr>nego_ServerFlags := v\<rparr>)" 0]
    by (simp add: upd_tcp_sess) (simp add: c3_def c2_def t3_def upd_tcp_def)
  have 4: "?P c3 (tcp_ncharset env) (be_enc 2 (length arr) @ arr) () c4"
    using cparses_tcp_ncharset [OF assms(1,7,8), of c3 t3 ncv k p] assms(13,15) by (simp add: c4_def c3_def c2_def t4_def)
  have 5: "?P c4 (tcp_caps env) ([of_nat (length cc)] @ cc @ [of_nat (length rc)] @ rc) () c5"
    unfolding c5_def by (rule cparses_tcp_caps [OF assms(1,9,10)]) (simp add: c4_def)
  have "?P c (read_protocol env) (wire_protocol ver x banner cs fl elems arr cc rc) () c5"
    unfolding read_protocol_def
    by (rule cparses_seqI [OF 1], rule cparses_seqI [OF 2], rule cparses_seqI [OF 3],
        rule cparses_skip_charsets [OF assms(1,5,6)], rule cparses_seqI [OF 4 5]) (simp_all add: wire_protocol_def assms(5))
  moreover have "c5 = c\<lparr>tcpNego := Some (protocol_fields ver banner cs fl ncs cc rc), sStrConv := Some cv, nStrConv := Some ncv, StrConv := Some cv\<rparr>"
    by (simp add: c5_def c4_def c3_def c2_def t4_def t3_def t2_def t1_def protocol_fields_def)
  ultimately show ?thesis by simp
qed

text \<open>
  C2. The protocol message of a server, once it has arrived, gives every field of the negotiation: the version, the banner, the two
  charsets and their converters, the flags and both lists of capabilities. The session's end-of-call, sequence and big-chunk settings
  follow the capability bits, and what follows the message stays unread.\<close>

theorem protocol_message_parsed:
  assumes "env_read env = net_read ops" and "ver = 4 \<or> ver = 5 \<or> ver = 6" and "0 \<notin> set banner" and "cs < 65536"
    and "length elems = 5 * n" and "n < 65536" and "length arr < 65536"
    and "rbind (ncharset_offset arr) (\<lambda>off. be_at 2 (off + 3) arr) = Ok ncs" and "length cc < 256" "length rc < 256" "8 \<le> length cc"
    and "tcpNego c = Some t" "sStrConv c = None" "nStrConv c = None"
    and "NewStringConverter (env_tables env) (int cs) = Some cv" "NewStringConverter (env_tables env) (int ncs) = Some ncv"
    and "sess c = Some s" "arrived s = wire_protocol ver x banner cs fl elems arr cc rc @ rest"
  shows "\<exists>c' s'. readMessage env c = Some (Ok (), c') \<and> tcpNego c' = Some (protocol_fields ver banner cs fl ncs cc rc)
    \<and> sStrConv c' = Some cv \<and> nStrConv c' = Some ncv \<and> StrConv c' = Some cv \<and> sess c' = Some s' \<and> arrived s' = rest
    \<and> (HasEOSCapability s' \<longleftrightarrow> HasEOSCapability s \<or> cap_bit cc 15 1) \<and> (HasFSAPCapability s' \<longleftrightarrow> HasFSAPCapability s \<or> cap_bit cc 16 1)
    \<and> props s' = (if cap_bit cc 37 32 then (props s)\<lparr>UseBigClrChunks := True, ClrChunkSize := 0x7FFF\<rparr> else props s)"
proof -
  let ?f = "protocol_fields ver banner cs fl ncs cc rc"
  let ?c = "c\<lparr>tcpNego := Some ?f, sStrConv := Some cv, nStrConv := Some ncv, StrConv := Some cv\<rparr>"
  have c: "c\<lparr>sess := Some s\<rparr> = c" using assms(17) by simp
  have "\<exists>s1. read_protocol env (c\<lparr>sess := Some s\<rparr>) = Some (Ok (), ?c\<lparr>sess := Some s1\<rparr>) \<and> kept s1 = kept s \<and> props s1 = props s
      \<and> arrived s1 = rest"
    using cparses_protocol [OF assms(1-10,12-16), where k = "kept s" and p = "props s" and x = x and fl = fl, unfolded cparses_def] assms(18)
    by blast
  then obtain s1 where s1: "read_protocol env c = Some (Ok (), ?c\<lparr>sess := Some s1\<rparr>)" "kept s1 = kept s" "props s1 = props s" "arrived s1 = rest"
    unfolding c by blast
  have "apply_caps (?c\<lparr>sess := Some s1\<rparr>) = Some (Ok (), ?c\<lparr>sess := Some (big_chunks_from cc (session_caps_from cc s1))\<rparr>)"
    using apply_caps_result [of "?c\<lparr>sess := Some s1\<rparr>" ?f cc s1] assms(11) by (simp add: protocol_fields_def)
  then have "readMessage env c = Some (Ok (), ?c\<lparr>sess := Some (big_chunks_from cc (session_caps_from cc s1))\<rparr>)"
    using s1(1) by (simp add: readMessage_def gseq_def)
  moreover have "HasEOSCapability s1 = HasEOSCapability s" "HasFSAPCapability s1 = HasFSAPCapability s"
    using s1(2) by (simp_all add: kept_def)
  ultimately show ?thesis using s1(3,4) by (auto simp: caps_fields)
qed

theorem protocol_message_parsed_witness:
  "\<exists>c' s'. readMessage sample_env (sample_connection (reading
       (wire_protocol 6 0 [79, 114, 97] 873 1 [1, 2, 3, 4, 5] [0, 0, 0, 0, 0, 0, 0, 0, 0, 7, 208] (replicate 38 0xFF) [2, 1] @ [9])))
       = Some (Ok (), c')
     \<and> tcpNego c' = Some (protocol_fields 6 [79, 114, 97] 873 1 2000 (replicate 38 0xFF) [2, 1])
     \<and> StrConv c' = Some (unicode_converter 873) \<and> nStrConv c' = Some (unicode_converter 2000)
     \<and> sess c' = Some s' \<and> arrived s' = [9] \<and> HasFSAPCapability s' \<and> ClrChunkSize (props s') = 0x7FFF"
proof -
  let ?bs = "wire_protocol 6 0 [79, 114, 97] 873 1 [1, 2, 3, 4, 5] [0, 0, 0, 0, 0, 0, 0, 0, 0, 7, 208] (replicate 38 0xFF) [2, 1]"
  have conv: "NewStringConverter others 873 = Some (unicode_converter 873)" "NewStringConverter others 2000 = Some (unicode_converter 2000)"
    for others by (simp_all add: NewStringConverter_def single_byte_tables_def)
  have ncs: "rbind (ncharset_offset [0, 0, 0, 0, 0, 0, 0, 0, 0, 7, 208]) (\<lambda>off. be_at 2 (off + 3) [0, 0, 0, 0, 0, 0, 0, 0, 0, 7, 208]) = Ok 2000"
    by code_simp
  have caps: "cap_bit (replicate 38 0xFF) 16 1" "cap_bit (replicate 38 0xFF) 37 32" by code_simp+
  have "arrived (reading (?bs @ [9])) = ?bs @ [9]" by (simp add: arrived_def reading_def new_buffer_def)
  from protocol_message_parsed [where env = sample_env and c = "sample_connection (reading (?bs @ [9]))" and ver = 6 and n = 1,
      OF _ _ _ _ _ _ _ ncs _ _ _ _ _ _ _ _ _ this, of plain_ops zero_tcp "unicode_converter 873" "unicode_converter 2000"]
  show ?thesis using conv caps by (auto simp: sample_env_def sample_connection_def)
qed

end
