(* ===== verification/Conn_Frame.thy ===== *)
theory Conn_Frame
  imports Conn_Props
begin

text \<open>
  What the messages of a server leave alone. Whatever the server sends, handling it changes only some fields of the connection;
  the locale \<open>connection_frame\<close> takes a property of the other fields and shows that every call keeps it. Its first use is the mark of a
  broken connection, which no later call takes away.
\<close>

section \<open>Properties that a computation keeps\<close>

definition stable :: "('s \<Rightarrow> bool) \<Rightarrow> ('s, 'a) gom \<Rightarrow> bool" where
  "stable Q m \<longleftrightarrow> (\<forall>s r s'. Q s \<longrightarrow> m s = Some (r, s') \<longrightarrow> Q s')"

named_theorems stable_intros \<open>computations that keep a property of the state\<close>

lemma stableI: "(\<And>s r s'. Q s \<Longrightarrow> m s = Some (r, s') \<Longrightarrow> Q s') \<Longrightarrow> stable Q m"
  by (auto simp: stable_def)

lemma stableD: "stable Q m \<Longrightarrow> Q s \<Longrightarrow> m s = Some (r, s') \<Longrightarrow> Q s'"
  by (auto simp: stable_def)

lemma stable_basic [stable_intros]:
  "stable Q (gret a)" "stable Q (gerr e)" "stable Q gpanic" "stable Q (gget g)" "stable Q (lift_val x)"
  by (auto simp: stable_def gret_def gerr_def gpanic_def gget_def lift_val_def)

lemma stable_upd: "(\<And>s. Q s \<Longrightarrow> Q (f s)) \<Longrightarrow> stable Q (gupd f)"
  by (auto simp: stable_def gupd_def)

lemma stable_bind [stable_intros]:
  assumes "stable Q m" and "\<And>a. stable Q (f a)"
  shows "stable Q (gbind m f)"
proof (rule stableI)
  fix s r s'
  assume s: "Q s" "gbind m f s = Some (r, s')"
  then obtain x s1 where 1: "m s = Some (x, s1)" by (auto simp: gbind_def bind_eq_Some_conv)
  then have Q1: "Q s1" by (rule stableD [OF assms(1) s(1)])
  show "Q s'"
    using s(2) 1 stableD [OF assms(2) Q1] Q1 by (cases x) (auto simp: gbind_def)
qed

lemma stable_seq [stable_intros]: "stable Q m \<Longrightarrow> stable Q n \<Longrightarrow> stable Q (gseq m n)"
  unfolding gseq_def by (rule stable_bind)

lemma stable_try [stable_intros]: "stable Q m \<Longrightarrow> stable Q (gtry z m)"
  by (auto simp: stable_def gtry_def bind_eq_Some_conv split: res.split_asm)

lemma stable_assign [stable_intros]:
  "stable Q m \<Longrightarrow> (\<And>a s. Q s \<Longrightarrow> Q (upd a s)) \<Longrightarrow> stable Q (gassign z m upd)"
  unfolding stable_def gassign_def by (auto simp: bind_eq_Some_conv split: res.split_asm)

lemma stable_ignore [stable_intros]: "stable Q m \<Longrightarrow> stable Q (gignore m)"
  by (auto simp: stable_def gignore_def bind_eq_Some_conv split: res.split_asm)

lemma stable_when [stable_intros]: "stable Q m \<Longrightarrow> stable Q (gwhen b m)"
  by (auto simp: gwhen_def stable_basic)

lemma stable_repeat [stable_intros]: "stable Q m \<Longrightarrow> stable Q (grepeat n m)"
  by (induction n) (auto intro: stable_intros)

lemma stable_split [stable_intros]:
  "stable Q m \<Longrightarrow> stable Q n \<Longrightarrow> stable Q (if b then m else n)"
  "stable Q m \<Longrightarrow> (\<And>x. stable Q (f x)) \<Longrightarrow> stable Q (case y of None \<Rightarrow> m | Some x \<Rightarrow> f x)"
  "(\<And>x y. stable Q (g x y)) \<Longrightarrow> stable Q (case p of (x, y) \<Rightarrow> g x y)"
  by (auto split: option.split prod.split)

section \<open>Requests\<close>

text \<open>A computation that can only append to the output buffer and count calls.\<close>

definition only_writes :: "('n, unit) sm \<Rightarrow> bool" where
  "only_writes m \<longleftrightarrow> (\<forall>s. \<exists>out ix. m s = Some (Ok (), s\<lparr>outBuffer := out, ttcIndex := ix\<rparr>))"

named_theorems only_writes_intros \<open>requests that only write\<close>

lemma only_writes_emits:
  fixes m :: "('n, unit) sm"
  shows "(\<And>p. \<exists>bs. emits p m bs) \<Longrightarrow> only_writes m"
  unfolding only_writes_def
proof
  fix s :: "'n session"
  assume "\<And>p. \<exists>bs. emits p m bs"
  then obtain bs where "m s = Some (Ok (), s\<lparr>outBuffer := outBuffer s @ bs\<rparr>)" by (auto simp: emits_def)
  also have "s\<lparr>outBuffer := outBuffer s @ bs\<rparr> = s\<lparr>outBuffer := outBuffer s @ bs, ttcIndex := ttcIndex s\<rparr>" by simp
  finally show "\<exists>out ix. m s = Some (Ok (), s\<lparr>outBuffer := out, ttcIndex := ix\<rparr>)" by blast
qed

lemma only_writes_seq [only_writes_intros]:
  fixes m n :: "('n, unit) sm"
  shows "only_writes m \<Longrightarrow> only_writes n \<Longrightarrow> only_writes (gseq m n)"
  unfolding only_writes_def
proof
  fix s :: "'n session"
  assume m: "\<forall>s. \<exists>out ix. m s = Some (Ok (), s\<lparr>outBuffer := out, ttcIndex := ix\<rparr>)"
    and n: "\<forall>s. \<exists>out ix. n s = Some (Ok (), s\<lparr>outBuffer := out, ttcIndex := ix\<rparr>)"
  obtain out ix where 1: "m s = Some (Ok (), s\<lparr>outBuffer := out, ttcIndex := ix\<rparr>)" using m by blast
  obtain out' ix' where "n (s\<lparr>outBuffer := out, ttcIndex := ix\<rparr>)
      = Some (Ok (), s\<lparr>outBuffer := out, ttcIndex := ix\<rparr>\<lparr>outBuffer := out', ttcIndex := ix'\<rparr>)" using n by blast
  with 1 show "\<exists>out ix. gseq m n s = Some (Ok (), s\<lparr>outBuffer := out, ttcIndex := ix\<rparr>)" by (auto simp: gseq_def)
qed

lemma only_writes_basic [only_writes_intros]:
  "only_writes (gret ())" "only_writes (emit bs)" "only_writes (PutBytes bs)"
  by (auto intro!: only_writes_emits emits_ret emits_emit simp: PutBytes_def)

lemma only_writes_numbers [only_writes_intros]:
  "int64_of_number v \<noteq> None \<Longrightarrow> only_writes (PutInt v sz be cmp)"
  "int64_of_number v \<noteq> None \<Longrightarrow> only_writes (PutUint v sz be cmp)"
  by (auto simp: PutInt_def PutUint_def Let_def intro!: only_writes_intros)

lemma only_writes_when [only_writes_intros]:
  "only_writes m \<Longrightarrow> only_writes (gwhen b m)"
  "only_writes m \<Longrightarrow> only_writes n \<Longrightarrow> only_writes (if b then m else n)"
  by (simp_all add: gwhen_def only_writes_basic)

lemma only_writes_PutTTCFunc [only_writes_intros]: "only_writes (PutTTCFunc a b)"
  unfolding only_writes_def
proof
  fix s :: "'n session"
  let ?ix = "if ttcIndex s = 0 \<or> ttcIndex s = 255 then 1 else ttcIndex s"
  let ?bs = "if TTCVersion s \<ge> 18 then [a, b, ?ix, 0] else [a, b, ?ix]"
  have "PutTTCFunc a b s = Some (Ok (), s\<lparr>outBuffer := outBuffer s @ ?bs, ttcIndex := ?ix + 1\<rparr>)"
    by (simp add: PutTTCFunc_def PutBytes_def emit_def gseq_def gupd_def gget_def gbind_def)
  then show "\<exists>out ix. PutTTCFunc a b s = Some (Ok (), s\<lparr>outBuffer := out, ttcIndex := ix\<rparr>)" by blast
qed

lemma on_sess_only_writes:
  assumes "only_writes m" and "sess c = Some s"
  obtains out ix where "on_sess m c = Some (Ok (), c\<lparr>sess := Some (s\<lparr>outBuffer := out, ttcIndex := ix\<rparr>)\<rparr>)"
proof -
  obtain out ix where "m s = Some (Ok (), s\<lparr>outBuffer := out, ttcIndex := ix\<rparr>)" using assms(1) unfolding only_writes_def by blast
  then show ?thesis using that assms(2) by (simp add: on_sess_def)
qed

section \<open>Connections\<close>

locale connection_frame =
  fixes Q :: "('n, 'z) connection_scheme \<Rightarrow> bool"
  assumes keeps [simp]:
    "Q (c\<lparr>sess := x1\<rparr>) = Q c" "Q (c\<lparr>StrConv := x2\<rparr>) = Q c" "Q (c\<lparr>TimeZone := x3\<rparr>) = Q c" "Q (c\<lparr>tcpNego := x4\<rparr>) = Q c"
    "Q (c\<lparr>dataNego := x5\<rparr>) = Q c" "Q (c\<lparr>sessionID := x6\<rparr>) = Q c" "Q (c\<lparr>serialID := x7\<rparr>) = Q c" "Q (c\<lparr>transactionID := x8\<rparr>) = Q c"
    "Q (c\<lparr>sStrConv := x9\<rparr>) = Q c" "Q (c\<lparr>nStrConv := x10\<rparr>) = Q c" "Q (c\<lparr>NLS := x11\<rparr>) = Q c" "Q (c\<lparr>maxLen := x12\<rparr>) = Q c"
    "Q (c\<lparr>dbTimeZone := x13\<rparr>) = Q c"
begin

lemma stable_on_sess [stable_intros]: "stable Q (on_sess m)"
  by (auto simp: stable_def on_sess_def bind_eq_Some_conv split: option.splits)

lemma keeps_tcp [simp]: "Q (upd_tcp f c) = Q c"
  by (simp add: upd_tcp_def)

lemma stable_protocolNegotiation [stable_intros]: "stable Q (protocolNegotiation env)"
  unfolding protocolNegotiation_def tcp_write_def readMessage_def read_protocol_def tcp_head_def tcp_charset_def tcp_ncharset_def
    tcp_caps_def apply_caps_def
  by (intro stable_intros stable_upd; simp)

lemma stable_cases:
  assumes "\<And>s. m s = (case (f s, g s) of (Some t, Some d) \<Rightarrow> n t d s | _ \<Rightarrow> Some (Panic, s))" and "\<And>t d. stable Q (n t d)"
  shows "stable Q m"
proof (rule stableI)
  fix s r s'
  assume "Q s" "m s = Some (r, s')"
  then show "Q s'"
    using stableD [OF assms(2)] by (cases "f s"; cases "g s") (auto simp: assms(1))
qed

lemma stable_after: "stable Q m \<Longrightarrow> (\<And>c. Q c \<Longrightarrow> Q (f c)) \<Longrightarrow> stable Q (\<lambda>c. m (f c))"
  by (auto simp: stable_def)

lemma stable_option_bind: "(\<And>a. stable Q (m a)) \<Longrightarrow> stable Q (\<lambda>c. Option.bind x (\<lambda>a. m a c))"
  by (cases x) (auto simp: stable_def)

lemma stable_data_writeMessage [stable_intros]: "stable Q (data_writeMessage env)"
proof (rule stable_cases [where f = tcpNego and g = dataNego])
  let ?n = "\<lambda>t d. if RuntimeCap (drop_wide_types t d) ! 1 AND 1 = 1
      then \<lambda>c. Option.bind (TZBytes (env_offset env)) (\<lambda>tz. on_sess (data_message t (drop_wide_types t d) tz) c)
      else on_sess (data_message t (drop_wide_types t d) [])"
  show "data_writeMessage env c = (case (tcpNego c, dataNego c) of
       (Some t, Some d) \<Rightarrow> ?n t d (c\<lparr>dataNego := Some (drop_wide_types t d)\<rparr>)
     | _ \<Rightarrow> Some (Panic, c))" for c
    by (simp add: data_writeMessage_def Let_def split: option.split)
  have "stable Q (?n t d)" for t d by (intro stable_split stable_option_bind stable_on_sess)
  then show "stable Q (\<lambda>c. ?n t d (c\<lparr>dataNego := Some (drop_wide_types t d)\<rparr>))" for t d by (rule stable_after) simp
qed

lemma stable_data_read [stable_intros]: "stable Q (data_read env)"
  by (rule stable_cases [where f = tcpNego and g = dataNego], rule data_read_def)
     (unfold read_zone_def data_result_def Let_def, intro stable_intros stable_upd; simp)

lemma stable_dataTypeNegotiation [stable_intros]: "stable Q (dataTypeNegotiation env)"
  unfolding dataTypeNegotiation_def data_write_def by (intro stable_intros stable_upd; simp)

lemma stable_network_information [stable_intros]: "stable Q (getServerNetworkInformation env code)"
  unfolding getServerNetworkInformation_def session_return_def loadNLSData_def save_nls_pair_def transaction_return_def Let_def
  by (intro stable_intros stable_upd; simp)

lemma stable_session_error [stable_intros]: "stable Q session_error"
  by (auto simp: stable_def session_error_def Let_def split: option.splits res.splits)

lemma stable_summary_msg [stable_intros]: "stable Q (summary_msg env)"
  unfolding summary_msg_def by (intro stable_intros; simp)

lemma stable_rpa_msg [stable_intros]: "stable Q (rpa_msg env)"
  unfolding rpa_msg_def time_zone_pair_def Let_def by (intro stable_intros stable_upd; simp)

lemma stable_ProcessTCCResponse [stable_intros]: "stable Q (ProcessTCCResponse env msg)"
  unfolding ProcessTCCResponse_def by (intro stable_intros)

lemma stable_conn_read [stable_intros]: "stable Q (conn_read env)"
proof -
  have "Q c \<longrightarrow> Q (snd y)" if "conn_read env c = Some y" for env c y
    using that
  proof (rule conn_read.raw_induct [where P = "\<lambda>env c y. Q c \<longrightarrow> Q (snd y)", rotated])
    fix rec :: "'n conn_env \<Rightarrow> ('n, 'z, unit) conm" and env c y
    assume IH: "\<And>env c y. rec env c = Some y \<Longrightarrow> Q c \<longrightarrow> Q (snd y)"
      and eq: "gbind (on_sess (GetByte (env_read env))) (\<lambda>msg. gseq (ProcessTCCResponse env msg)
        (if msg = 4 \<or> msg = 9 then gret () else rec env)) c = Some y"
    have "stable Q (rec env)" using IH by (force simp: stable_def)
    then have "stable Q (gbind (on_sess (GetByte (env_read env))) (\<lambda>msg. gseq (ProcessTCCResponse env msg)
        (if msg = 4 \<or> msg = 9 then gret () else rec env)))"
      by (intro stable_intros)
    then show "Q c \<longrightarrow> Q (snd y)" using stableD [of Q _ c "fst y" "snd y"] eq by auto
  qed
  then show ?thesis by (force simp: stable_def)
qed

lemma stable_freeTemporaryLobs:
  assumes "\<And>c. Q c \<Longrightarrow> Q (c\<lparr>temporaryLocs := []\<rparr>)"
  shows "stable Q (freeTemporaryLobs env)"
proof (rule stableI)
  fix s r s'
  assume s: "Q s" "freeTemporaryLobs env s = Some (r, s')"
  have "stable Q (gseq (on_sess (gupd ResetBuffer)) (gseq (on_sess m) (gseq (on_sess n) (gseq (conn_read env)
      (gupd (\<lambda>c. c\<lparr>temporaryLocs := []\<rparr>))))))" for m n
    using assms by (intro stable_intros stable_upd)
  from stableD [OF this s(1)] show "Q s'"
    using s unfolding freeTemporaryLobs_def by (auto split: if_splits)
qed

lemma stable_Close:
  assumes "\<And>c. Q c \<Longrightarrow> Q (c\<lparr>temporaryLocs := []\<rparr>)" and "\<And>c. Q c \<Longrightarrow> Q (c\<lparr>State := Closed\<rparr>)"
  shows "stable Q (Close env)"
  unfolding Close_def Logoff_def using assms by (intro stable_intros stable_upd stable_freeTemporaryLobs; simp)

lemma stable_processReset:
  assumes "\<And>c. Q c \<Longrightarrow> Q (setBad c)" and "stable Q m"
  shows "stable Q (processReset env m)"
  unfolding processReset_def using assms by (intro stable_intros stable_upd; simp)

lemma stable_simple_exec:
  assumes "\<And>c. Q c \<Longrightarrow> Q (setBad c)"
  shows "stable Q (simple_exec env op data)"
  unfolding simple_exec_def using assms by (intro stable_intros stable_upd; simp)

end

section \<open>A broken connection\<close>

interpretation broken: connection_frame "bad :: ('n, 'z) connection_scheme \<Rightarrow> bool"
  by unfold_locales simp_all

text \<open>What a program can still ask of a connection it holds.\<close>

inductive conn_call :: "('n, 'z) connection_scheme \<Rightarrow> ('n, 'z) connection_scheme \<Rightarrow> bool" where
  Commit: "Commit env c = Some (r, c') \<Longrightarrow> conn_call c c'"
| Rollback: "Rollback env c = Some (r, c') \<Longrightarrow> conn_call c c'"
| ResetSession: "ResetSession c = Some (r, c') \<Longrightarrow> conn_call c c'"
| FreeLobs: "freeTemporaryLobs env c = Some (r, c') \<Longrightarrow> conn_call c c'"
| Answer: "processReset env (conn_read env) c = Some (r, c') \<Longrightarrow> conn_call c c'"
| Close: "Close env c = Some (r, c') \<Longrightarrow> conn_call c c'"

inductive_cases conn_callE: "conn_call c c'"

inductive conn_calls :: "('n, 'z) connection_scheme \<Rightarrow> ('n, 'z) connection_scheme \<Rightarrow> bool" where
  None: "conn_calls c c"
| More: "conn_calls c c' \<Longrightarrow> conn_call c' c'' \<Longrightarrow> conn_calls c c''"

lemma stable_guarded: "stable Q m \<Longrightarrow> stable Q (\<lambda>c. if b c then Some (x, c) else m c)"
  by (auto simp: stable_def split: if_splits)

lemma bad_Commit: "stable bad (Commit env)" "stable bad (Rollback env)"
  unfolding Commit_def [abs_def] Rollback_def [abs_def]
  by (intro stable_guarded stable_seq stable_upd broken.stable_simple_exec broken.stable_on_sess; simp add: setBad_def)+

lemma conn_call_bad:
  assumes "conn_call c c'" and "bad c"
  shows "bad c'"
  using assms
proof (cases rule: conn_call.cases)
  case (Commit env r)
  then show ?thesis using stableD [OF bad_Commit(1)] assms(2) by blast
next
  case (Rollback env r)
  then show ?thesis using stableD [OF bad_Commit(2)] assms(2) by blast
next
  case (ResetSession r)
  then show ?thesis using assms(2) by (simp add: ResetSession_def)
next
  case (FreeLobs env r)
  have "stable bad (freeTemporaryLobs env)" by (rule broken.stable_freeTemporaryLobs) simp
  from stableD [OF this] show ?thesis using assms(2) FreeLobs by blast
next
  case (Answer env r)
  have "stable bad (processReset env (conn_read env))"
    by (rule broken.stable_processReset [OF _ broken.stable_conn_read]) (simp add: setBad_def)
  from stableD [OF this] show ?thesis using assms(2) Answer by blast
next
  case (Close env r)
  have "stable bad (Close env)" by (rule broken.stable_Close) simp_all
  from stableD [OF this] show ?thesis using assms(2) Close by blast
qed

lemma conn_calls_bad: "conn_calls c c' \<Longrightarrow> bad c \<Longrightarrow> bad c'"
  by (induction rule: conn_calls.induct) (auto intro: conn_call_bad)

lemma gbind_ErrE:
  assumes "gbind m f s = Some (Err e, s')"
  obtains "m s = Some (Err e, s')" | a s1 where "m s = Some (Ok a, s1)" "f a s1 = Some (Err e, s')"
proof -
  obtain x s1 where 1: "m s = Some (x, s1)" using assms by (auto simp: gbind_def bind_eq_Some_conv)
  then show ?thesis using assms that by (cases x) (auto simp: gbind_def)
qed

lemma gbind_OkE:
  assumes "gbind m f s = Some (Ok b, s')"
  obtains a s1 where "m s = Some (Ok a, s1)" "f a s1 = Some (Ok b, s')"
proof -
  obtain x s1 where 1: "m s = Some (x, s1)" using assms by (auto simp: gbind_def bind_eq_Some_conv)
  then show ?thesis using assms that by (cases x) (auto simp: gbind_def)
qed

lemma gtry_no_Err: "gtry z m s \<noteq> Some (Err e, s')"
  by (auto simp: gtry_def bind_eq_Some_conv split: res.split_asm)

lemma processReset_marks:
  assumes "processReset env m c = Some (Err e, c')" and "isBadConn (env_broken env) e"
  shows "bad c'"
proof -
  obtain err c1 where "gbind (if err = Some ErrConnReset then gtry () (conn_read env) else gret ((), err)) (\<lambda>(_, err).
       case err of None \<Rightarrow> gret ()
       | Some e \<Rightarrow> if isBadConn (env_broken env) e then gseq (gupd setBad) (gerr e) else gerr e) c1 = Some (Err e, c')"
    using assms(1) unfolding processReset_def by (rule gbind_ErrE) (auto simp: gtry_no_Err split: prod.splits)
  then obtain err c2 where "(case err of None \<Rightarrow> gret ()
       | Some e \<Rightarrow> if isBadConn (env_broken env) e then gseq (gupd setBad) (gerr e) else gerr e) c2 = Some (Err e, c')"
    by (rule gbind_ErrE) (auto simp: gtry_no_Err gret_def split: prod.splits if_splits)
  then show ?thesis
    using assms(2) by (auto simp: gret_def gerr_def gseq_def gupd_def gbind_def setBad_def split: option.splits if_splits)
qed

text \<open>
  C4. Once an answer that is read under \<open>processReset\<close>, as the LOB calls do, has ended in an error that means the connection is broken, the
  connection is not used again: whatever sequence of commits, rollbacks, answers, freed LOBs, resets of the session and closes follows and
  whatever the server sends in them, the pool is told that the connection is bad and \<open>IsValid\<close> is false. Other calls do not all mark the
  connection, see \<open>Commit_write_error_unmarked\<close>.\<close>

theorem broken_connection_retired:
  assumes "processReset env m c = Some (Err e, c')" and "isBadConn (env_broken env) e" and "conn_calls c' c''"
  shows "ResetSession c'' = Some (Err ErrBadConn, c'') \<and> \<not> IsValid c''"
  using conn_calls_bad [OF assms(3) processReset_marks [OF assms(1,2)]] by (simp add: ResetSession_def IsValid_def)

theorem broken_connection_retired_witness:
  "\<exists>c' c''. processReset sample_env (gerr EOF) ((sample_connection (reading []))\<lparr>State := Opened\<rparr>) = Some (Err EOF, c')
     \<and> Commit (sample_env\<lparr>env_write := gerr EOF\<rparr>) c' = Some (Err EOF, c'')
     \<and> ResetSession c'' = Some (Err ErrBadConn, c'') \<and> \<not> IsValid c''"
proof -
  let ?c = "(sample_connection (reading []))\<lparr>State := Opened\<rparr>"
  have 1: "processReset sample_env (gerr EOF) ?c = Some (Err EOF, setBad ?c)"
    by (simp add: processReset_def gerr_def gtry_def gbind_def gret_def gseq_def gupd_def isBadConn_def)
  obtain out ix where w: "PutTTCFunc 3 14 (ResetBuffer (reading [])) = Some (Ok (), (ResetBuffer (reading []))\<lparr>outBuffer := out, ttcIndex := ix\<rparr>)"
    using only_writes_PutTTCFunc unfolding only_writes_def by blast
  obtain c'' where 2: "Commit (sample_env\<lparr>env_write := gerr EOF\<rparr>) (setBad ?c) = Some (Err EOF, c'')"
    using w by (simp add: Commit_def setBad_def simple_exec_def gseq_def gupd_def gbind_def on_sess_def sample_connection_def
        gret_def gerr_def)
  have "ResetSession c'' = Some (Err ErrBadConn, c'') \<and> \<not> IsValid c''"
    by (rule broken_connection_retired [OF 1 _ conn_calls.More [OF conn_calls.None conn_call.Commit [OF 2]]])
       (simp add: isBadConn_def)
  with 1 2 show ?thesis by blast
qed

text \<open>A commit whose request cannot be written returns the error and leaves the connection as usable as it was, whatever the error.\<close>

lemma Commit_write_error_unmarked:
  assumes "State c = Opened" and "sess c = Some s" and "env_write env = gerr e"
  shows "\<exists>c'. Commit env c = Some (Err e, c') \<and> bad c' = bad c \<and> IsValid c' = IsValid c"
proof -
  obtain out ix where "PutTTCFunc 3 14 (ResetBuffer s) = Some (Ok (), (ResetBuffer s)\<lparr>outBuffer := out, ttcIndex := ix\<rparr>)"
    using only_writes_PutTTCFunc unfolding only_writes_def by blast
  then show ?thesis
    using assms by (simp add: Commit_def simple_exec_def gseq_def gupd_def gbind_def on_sess_def gret_def gerr_def IsValid_def)
qed

end
