(* ===== verification/Lob_Stream.thy ===== *)
theory Lob_Stream
  imports Conn_Calls
begin

text \<open>
  The LOB stream of \<^verbatim>\<open>v3/lob.go\<close>: the request that every LOB call sends, the loop that reads its answer, and the calls. The stream extends
  the connection it works on. Its data buffer is a \<^verbatim>\<open>bytes.Buffer\<close> whose storage is shared with the slices that \<^verbatim>\<open>Read\<close> returns, so
  the arrays the buffer has used are kept in a store and a returned slice is a view: the number of an array and a length.
\<close>

section \<open>State\<close>

record 'n lob_stream = "'n connection" +
  sourceLocator :: nslice
  destLocator :: nslice
  scn :: "byte list"
  sourceOffset :: int
  destOffset :: int
  destLen :: int
  charsetID :: int
  lob_size :: int
  arrays :: "byte list list"
  data_array :: nat
  data_len :: nat
  bNullO2U :: bool
  isNull :: bool
  sendSize :: bool

type_synonym ('n, 'z, 'a) lobm = "(('n, 'z) lob_stream_scheme, 'a) gom"

definition initialize :: "('n, 'z) lob_stream_scheme \<Rightarrow> ('n, 'z) lob_stream_scheme" where
  "initialize l = l\<lparr>bNullO2U := False, sendSize := False, lob_size := 0, sourceOffset := 0, destOffset := 0\<rparr>"

definition GetLocator :: "('n, 'z) lob_stream_scheme \<Rightarrow> nslice" where
  "GetLocator l = sourceLocator l"

definition SetLocator :: "nslice \<Rightarrow> ('n, 'z) lob_stream_scheme \<Rightarrow> ('n, 'z) lob_stream_scheme" where
  "SetLocator locator l = (let l = l\<lparr>sourceLocator := locator\<rparr>; bs = slice_bytes locator in
     if \<not> IsQuasi bs \<and> IsTemporary bs then appendTemporaryLoc bs l else l)"

definition DatabaseVersionNumber :: "('n, 'z) lob_stream_scheme \<Rightarrow> int res" where
  "DatabaseVersionNumber l = (case dBVersion l of Some v \<Rightarrow> Ok (uint (Number v)) | None \<Rightarrow> Panic)"

section \<open>The data buffer\<close>

definition view :: "('n, 'z) lob_stream_scheme \<Rightarrow> nat \<times> nat \<Rightarrow> byte list" where
  "view l = (\<lambda>(i, n). take n (arrays l ! i))"

definition data_Reset :: "('n, 'z) lob_stream_scheme \<Rightarrow> ('n, 'z) lob_stream_scheme" where
  "data_Reset l = l\<lparr>data_len := 0\<rparr>"

text \<open>\<open>Write\<close> fills the current array up to its capacity; what does not fit is copied to a new array with some spare room.\<close>

definition data_Write :: "nat \<Rightarrow> byte list \<Rightarrow> ('n, 'z) lob_stream_scheme \<Rightarrow> ('n, 'z) lob_stream_scheme" where
  "data_Write spare bs l = (let i = data_array l; n = data_len l; arr = arrays l ! i in
     if n + length bs \<le> length arr
     then l\<lparr>arrays := (arrays l)[i := take n arr @ bs @ drop (n + length bs) arr], data_len := n + length bs\<rparr>
     else l\<lparr>arrays := arrays l @ [take n arr @ bs @ replicate spare 0], data_array := length (arrays l),
            data_len := n + length bs\<rparr>)"

definition data_Bytes :: "('n, 'z) lob_stream_scheme \<Rightarrow> nat \<times> nat" where
  "data_Bytes l = (data_array l, data_len l)"

section \<open>Requests\<close>

definition flag_byte :: "bool \<Rightarrow> ('n, unit) sm" where
  "flag_byte b = PutBytes [if b then 1 else 0]"

definition int_num :: "int \<Rightarrow> go_number" where
  "int_num v = Int64 (word_of_int v)"

definition lob_request :: "('n, 'z) lob_stream_scheme \<Rightarrow> int \<Rightarrow> byte \<Rightarrow> ('n, unit) sm" where
  "lob_request l operationID ver = (let src = slice_bytes (sourceLocator l); dst = slice_bytes (destLocator l) in
     gseq (PutTTCFunc 0x3 0x60)
    (gseq (flag_byte (src \<noteq> []))
    (gseq (PutUint (go_len src) 4 True True)
    (gseq (flag_byte (dst \<noteq> []))
    (gseq (PutUint (int_num (destLen l)) 4 True True)
    (gseq (if ver < 3 then gseq (PutUint (int_num (sourceOffset l)) 4 True True) (PutUint (int_num (destOffset l)) 4 True True)
           else PutBytes [0, 0])
    (gseq (flag_byte (charsetID l \<noteq> 0))
    (gseq (flag_byte (sendSize l \<and> ver < 3))
    (gseq (flag_byte (bNullO2U l))
    (gseq (PutInt (int_num operationID) 4 True True)
    (gseq (flag_byte (scn l \<noteq> []))
    (gseq (PutUint (go_len (scn l)) 4 True True)
    (gseq (gwhen (ver \<ge> 3)
            (gseq (PutUint (int_num (sourceOffset l)) 8 True True)
            (gseq (PutInt (int_num (destOffset l)) 8 True True) (flag_byte (sendSize l)))))
    (gseq (gwhen (ver \<ge> 4) (PutBytes (replicate 6 0)))
    (gseq (gwhen (src \<noteq> []) (PutBytes src))
    (gseq (gwhen (dst \<noteq> []) (PutBytes dst))
    (gseq (gwhen (charsetID l \<noteq> 0) (PutUint (int_num (charsetID l)) 2 True True))
    (gseq (gwhen (ver < 3 \<and> sendSize l) (PutUint (int_num (lob_size l)) 4 True True))
    (gseq (foldr (\<lambda>b m. gseq (PutUint (Uint8 b) 4 True True) m) (scn l) (gret ()))
          (gwhen (ver \<ge> 3 \<and> sendSize l) (PutUint (int_num (lob_size l)) 8 True True)))))))))))))))))))))"

text \<open>\<open>writeOp\<close> also sets \<open>destLen\<close>, before it is written.\<close>

definition writeOp :: "int \<Rightarrow> ('n, 'z, unit) lobm" where
  "writeOp operationID =
     gseq (gupd (\<lambda>l. if slice_bytes (destLocator l) = [] then l
                     else l\<lparr>destLen := int (length (slice_bytes (destLocator l)))\<rparr>))
          (\<lambda>l. on_sess (gbind (gget TTCVersion) (\<lambda>ver. lob_request l operationID ver)) l)"

section \<open>Answers\<close>

definition readData :: "'n conn_env \<Rightarrow> nat \<Rightarrow> ('n, 'z, unit) lobm" where
  "readData env spare = gbind (on_sess (GetClr (env_read env))) (\<lambda>bs. gupd (data_Write spare (slice_bytes bs)))"

definition read_locator :: "'n conn_env \<Rightarrow> ('n, 'z, nslice) lobm \<Rightarrow> (nslice \<Rightarrow> ('n, 'z) lob_stream_scheme \<Rightarrow> ('n, 'z) lob_stream_scheme)
    \<Rightarrow> ('n, 'z, unit) lobm" where
  "read_locator env get upd = gbind get (\<lambda>loc. gwhen (slice_bytes loc \<noteq> [])
     (gassign None (gbind (on_sess (GetBytes (env_read env) (int (length (slice_bytes loc))))) (\<lambda>bs. gret (Some bs))) upd))"

definition lob_rpa :: "'n conn_env \<Rightarrow> ('n, 'z, unit) lobm" where
  "lob_rpa env = (let rd = env_read env in
     gseq (read_locator env (gget sourceLocator) (\<lambda>v l. l\<lparr>sourceLocator := v\<rparr>))
    (gseq (read_locator env (gget destLocator) (\<lambda>v l. l\<lparr>destLocator := v\<rparr>))
    (gseq (gupd (\<lambda>l. l\<lparr>destLen := int (length (slice_bytes (destLocator l)))\<rparr>))
    (gbind (gget (\<lambda>l. (charsetID l \<noteq> 0, sendSize l, bNullO2U l))) (\<lambda>(cs, sz, nul).
     gseq (gwhen cs (gassign 0 (on_sess (GetInt rd 2 True True)) (\<lambda>v l. l\<lparr>charsetID := v\<rparr>)))
    (gseq (gwhen sz (gbind (on_sess (gget TTCVersion)) (\<lambda>ver.
             gassign 0 (on_sess (GetInt64 rd (if ver < 3 then 4 else 8) True True)) (\<lambda>v l. l\<lparr>lob_size := v\<rparr>))))
          (gwhen nul (gbind (on_sess (GetInt rd 2 True True)) (\<lambda>temp.
             gwhen (temp \<noteq> 0) (gupd (\<lambda>l. l\<lparr>isNull := True\<rparr>)))))))))))"

partial_function (option) lob_read :: "'n conn_env \<Rightarrow> nat \<Rightarrow> ('n, 'z, unit) lobm" where
  "lob_read env spare l =
     gbind (on_sess (GetByte (env_read env))) (\<lambda>msg.
       gseq (if msg = 8 then lob_rpa env
             else if msg = 14 then readData env spare
             else ProcessTCCResponse env msg)
         (if msg = 4 \<or> msg = 9 then gret () else lob_read env spare)) l"

section \<open>Calls\<close>

text \<open>The tail that every call shares: the request, what follows it, the answer.\<close>

definition lob_call :: "'n conn_env \<Rightarrow> nat \<Rightarrow> int \<Rightarrow> ('n, unit) sm \<Rightarrow> ('n, 'z, unit) lobm" where
  "lob_call env spare operationID extra =
     gseq (on_sess (gupd ResetBuffer))
    (gseq (writeOp operationID)
    (gseq (on_sess (gseq extra (env_write env)))
          (processReset env (lob_read env spare))))"

definition with_locator :: "('n, 'z, 'a) lobm \<Rightarrow> ('n, 'z, 'a) lobm" where
  "with_locator m l = (if sourceLocator l = None then Some (Err EmptyLocator, l) else m l)"

definition GetSize :: "'n conn_env \<Rightarrow> nat \<Rightarrow> ('n, 'z, int) lobm" where
  "GetSize env spare = with_locator
     (gseq (gupd (\<lambda>l. (initialize l)\<lparr>sendSize := True\<rparr>))
     (gseq (lob_call env spare 1 (gret ()))
           (gget lob_size)))"

definition Read :: "'n conn_env \<Rightarrow> nat \<Rightarrow> int \<Rightarrow> int \<Rightarrow> ('n, 'z, nat \<times> nat) lobm" where
  "Read env spare offset count = with_locator
     (gseq (gupd (\<lambda>l. data_Reset ((initialize l)\<lparr>lob_size := count, sourceOffset := to_i64 (offset + 1), sendSize := True\<rparr>)))
     (gseq (lob_call env spare 2 (gret ()))
           (gget data_Bytes)))"

definition lob_Write :: "'n conn_env \<Rightarrow> nat \<Rightarrow> byte list \<Rightarrow> ('n, 'z, unit) lobm" where
  "lob_Write env spare data = with_locator
     (gseq (gupd (\<lambda>l. (initialize l)\<lparr>sourceOffset := 1\<rparr>))
           (lob_call env spare 0x40 (gseq (PutBytes [0xE]) (PutClr data))))"

definition Exists :: "'n conn_env \<Rightarrow> nat \<Rightarrow> ('n, 'z, bool) lobm" where
  "Exists env spare = with_locator
     (gseq (gupd (\<lambda>l. (initialize l)\<lparr>bNullO2U := True\<rparr>))
     (gseq (lob_call env spare 0x800 (gret ()))
           (gget isNull)))"

definition FreeTemporaryLocator :: "'n conn_env \<Rightarrow> nat \<Rightarrow> ('n, 'z, unit) lobm" where
  "FreeTemporaryLocator env spare l = (if sourceLocator l = None then Some (Ok (), l)
     else gseq (gupd initialize)
         (gseq (lob_call env spare 0x111 (gret ()))
               (gupd (\<lambda>l. l\<lparr>sourceLocator := None\<rparr>))) l)"

definition CreateTemporaryLocator :: "'n conn_env \<Rightarrow> nat \<Rightarrow> int \<Rightarrow> int \<Rightarrow> ('n, 'z, nslice) lobm" where
  "CreateTemporaryLocator env spare charset charsetForm =
     gseq (gupd (\<lambda>l. (initialize l)\<lparr>sourceLocator := Some ((replicate 0x28 0)[1 := 0x54]), bNullO2U := True, scn := [0],
             destLen := 0xA, lob_size := 0xA, sendSize := True\<rparr>))
    (gseq (gupd (\<lambda>l. if charsetForm = 0 then l\<lparr>destOffset := 0x71, charsetID := 1\<rparr>
                     else l\<lparr>destOffset := 0x70, charsetID := charset, sourceOffset := charsetForm\<rparr>))
    (gseq (lob_call env spare 0x110 (gret ()))
    (gseq (gupd (\<lambda>l. appendTemporaryLoc (slice_bytes (sourceLocator l)) l))
          (gget sourceLocator))))"

text \<open>\<open>Open\<close> of a temporary LOB is done in the locator alone; \<open>sourceLocator[7]\<close> of a shorter locator panics.\<close>

definition Open :: "'n conn_env \<Rightarrow> nat \<Rightarrow> int \<Rightarrow> int \<Rightarrow> ('n, 'z, unit) lobm" where
  "Open env spare mode opID = with_locator (\<lambda>l. let loc = slice_bytes (sourceLocator l) in
     if IsTemporary loc then
       if length loc \<le> 7 then Some (Panic, l)
       else if loc ! 7 AND 8 = 8 then Some (Err TTCError, l)
       else Some (Ok (), if mode = 2 then l\<lparr>sourceLocator := Some (loc[7 := loc ! 7 OR 0x10])\<rparr> else l)
     else gseq (gupd (\<lambda>l. (initialize l)\<lparr>lob_size := mode, sendSize := True\<rparr>))
               (lob_call env spare opID (gret ())) l)"

definition lob_Close :: "'n conn_env \<Rightarrow> nat \<Rightarrow> int \<Rightarrow> ('n, 'z, unit) lobm" where
  "lob_Close env spare opID = with_locator (gseq (gupd initialize) (lob_call env spare opID (gret ())))"

definition GetLobId :: "('n, 'z) lob_stream_scheme \<Rightarrow> nslice res" where
  "GetLobId l = (case sourceLocator l of
       None \<Rightarrow> Ok None
     | Some loc \<Rightarrow> rbind (slice_at 10 20 loc) (\<lambda>x. Ok (Some x)))"

definition lob_append :: "'n conn_env \<Rightarrow> nat \<Rightarrow> nslice \<Rightarrow> ('n, 'z, unit) lobm" where
  "lob_append env spare dest = with_locator
     (gseq (gupd (\<lambda>l. (initialize l)\<lparr>destLocator := dest, destLen := int (length (slice_bytes dest))\<rparr>))
           (lob_call env spare 0x80 (gret ())))"

definition lob_copy :: "'n conn_env \<Rightarrow> nat \<Rightarrow> nslice \<Rightarrow> nslice \<Rightarrow> int \<Rightarrow> int \<Rightarrow> int \<Rightarrow> ('n, 'z, unit) lobm" where
  "lob_copy env spare srcLocator dstLocator srcOffset dstOffset len =
     gseq (gupd (\<lambda>l. (initialize l)\<lparr>sourceLocator := srcLocator, destLocator := dstLocator,
             destLen := int (length (slice_bytes dstLocator)), sourceOffset := srcOffset, destOffset := dstOffset,
             lob_size := len, sendSize := True\<rparr>))
          (lob_call env spare 4 (gret ()))"

definition NewLobStreamer :: "'n connection \<Rightarrow> 'n lob_stream" where
  "NewLobStreamer c = connection.extend c
     \<lparr>sourceLocator = None, destLocator = None, scn = [], sourceOffset = 0, destOffset = 0, destLen = 0, charsetID = 0,
      lob_size = 0, arrays = [[]], data_array = 0, data_len = 0, bNullO2U = False, isNull = False, sendSize = False\<rparr>"

end
