(* ===== verification/Lob_Props.thy ===== *)
theory Lob_Props
  imports Lob_Stream Conn_Frame Conn_Nego_Props
begin

text \<open>
  What the calls of a LOB stream promise: the answer of the server is read to its end and gives the data, the size and the locator; the
  slice that \<^verbatim>\<open>Read\<close> returns is a view of the stream's own buffer and changes with the next call; and the answer of \<^verbatim>\<open>Exists\<close> sticks.
\<close>

section \<open>Requests\<close>

lemma lob_numbers: "int64_of_number (int_num v) \<noteq> None" "int64_of_number (go_len bs) \<noteq> None" "int64_of_number (Uint8 b) \<noteq> None"
  by (simp_all add: int_num_def go_len_def)

lemma only_writes_request: "only_writes (lob_request l op ver)"
proof -
  have scn: "only_writes (foldr (\<lambda>b m. gseq (PutUint (Uint8 b) 4 True True) m) bs (gret ()))" for bs
    by (induction bs) (simp_all add: only_writes_intros lob_numbers)
  show ?thesis
    unfolding lob_request_def flag_byte_def Let_def by (intro only_writes_intros scn lob_numbers)
qed

section \<open>The data buffer\<close>

definition store_ok :: "('n, 'z) lob_stream_scheme \<Rightarrow> bool" where
  "store_ok l \<longleftrightarrow> data_array l < length (arrays l) \<and> data_len l \<le> length (arrays l ! data_array l)"

lemma data_Write_appends:
  assumes "store_ok l"
  shows "store_ok (data_Write spare bs l)"
    and "view (data_Write spare bs l) (data_Bytes (data_Write spare bs l)) = view l (data_Bytes l) @ bs"
  using assms by (auto simp: store_ok_def data_Write_def view_def data_Bytes_def Let_def nth_append)

lemma data_Writes_append:
  assumes "store_ok l"
  shows "store_ok (fold (data_Write spare) ds l)"
    and "view (fold (data_Write spare) ds l) (data_Bytes (fold (data_Write spare) ds l)) = view l (data_Bytes l) @ concat ds"
  using assms by (induction ds arbitrary: l) (simp_all add: data_Write_appends)

lemma data_Write_fits:
  assumes "store_ok l" and "data_len l + length bs \<le> length (arrays l ! data_array l)"
  shows "data_Write spare bs l = l\<lparr>arrays := (arrays l)[data_array l := take (data_len l) (arrays l ! data_array l) @ bs
     @ drop (data_len l + length bs) (arrays l ! data_array l)], data_len := data_len l + length bs\<rparr>"
  using assms by (simp add: data_Write_def Let_def)

lemma data_Writes_fit:
  assumes "store_ok l" and "data_len l + length (concat ds) \<le> length (arrays l ! data_array l)"
  shows "data_array (fold (data_Write spare) ds l) = data_array l"
    and "arrays (fold (data_Write spare) ds l) ! data_array l = take (data_len l) (arrays l ! data_array l) @ concat ds
     @ drop (data_len l + length (concat ds)) (arrays l ! data_array l)"
proof -
  have "data_array (fold (data_Write spare) ds l) = data_array l \<and>
    arrays (fold (data_Write spare) ds l) ! data_array l = take (data_len l) (arrays l ! data_array l) @ concat ds
     @ drop (data_len l + length (concat ds)) (arrays l ! data_array l)"
    using assms
  proof (induction ds arbitrary: l)
    case Nil
    then show ?case by simp
  next
    case (Cons d ds)
    let ?l = "data_Write spare d l"
    have l: "?l = l\<lparr>arrays := (arrays l)[data_array l := take (data_len l) (arrays l ! data_array l) @ d
       @ drop (data_len l + length d) (arrays l ! data_array l)], data_len := data_len l + length d\<rparr>"
      using Cons.prems by (intro data_Write_fits) simp_all
    have "store_ok ?l" by (rule data_Write_appends(1) [OF Cons.prems(1)])
    moreover have "data_len ?l + length (concat ds) \<le> length (arrays ?l ! data_array ?l)"
      using Cons.prems by (auto simp: l store_ok_def)
    ultimately show ?case using Cons.IH [of ?l] Cons.prems by (simp add: l store_ok_def add_ac)
  qed
  then show "data_array (fold (data_Write spare) ds l) = data_array l"
    and "arrays (fold (data_Write spare) ds l) ! data_array l = take (data_len l) (arrays l ! data_array l) @ concat ds
     @ drop (data_len l + length (concat ds)) (arrays l ! data_array l)" by simp_all
qed

section \<open>Answers\<close>

definition answering :: "byte \<times> bool \<times> bool \<Rightarrow> 'n session \<Rightarrow> bool" where
  "answering caps s \<longleftrightarrow> net_ok s \<and> session_caps s = caps"

interpretation answer: net_reader "net_read ops" "answering caps" net_pending for ops :: "'n nego_ops" and caps
proof
  fix s :: "'n session" and bs rest
  assume "answering caps s" and "net_pending s = bs @ rest"
  then show "\<exists>s'. net_read ops (int (length bs)) s = Some (Ok bs, s') \<and> answering caps s' \<and> props s' = props s \<and> net_pending s' = rest"
    using net_reads [of s bs rest ops] by (auto simp: answering_def session_caps_def kept_def)
qed

lemma parses_upd:
  "(\<And>s. ok (f s) = ok s) \<Longrightarrow> (\<And>s. props (f s) = props s) \<Longrightarrow> (\<And>s. pending (f s) = pending s) \<Longrightarrow> parses ok pending p (gupd f) [] ()"
  by (auto simp: parses_def gupd_def)

lemma parses_read_caps:
  "parses (answering (ver, eos, fsap)) net_pending p (f (eos, fsap)) bs a \<Longrightarrow>
   parses (answering (ver, eos, fsap)) net_pending p (gbind (gget (\<lambda>s. (HasEOSCapability s, HasFSAPCapability s))) f) bs a"
  by (auto simp: parses_def gget_def answering_def session_caps_def)

lemma parses_version: "parses (answering (ver, eos, fsap)) net_pending p (gget TTCVersion) [] ver"
  by (auto simp: parses_def gget_def answering_def session_caps_def)

lemma summary_kept:
  fixes s :: "'n session"
  shows "answering caps (s\<lparr>Summary := x\<rparr>) = answering caps s" "net_pending (s\<lparr>Summary := x\<rparr>) = net_pending s"
  by (simp_all add: answering_def session_caps_def net_ok_def opened_def clean_def net_pending_def)

text \<open>The message that ends an answer, and pieces of data.\<close>

definition wire_end :: "byte \<times> bool \<times> bool \<Rightarrow> int \<Rightarrow> int \<Rightarrow> byte list" where
  "wire_end = (\<lambda>(ver, eos, fsap) st sq. 9 # (if eos then wire_nat st else []) @ (if fsap then wire_nat sq else []))"

definition wire_pieces :: "session_props \<Rightarrow> byte list list \<Rightarrow> byte list" where
  "wire_pieces p ds = concat (map (\<lambda>d. 14 # wire_clr p d) ds)"

lemma parses_end_msg:
  assumes "env_read env = net_read ops" and "field_ok st" "field_ok sq"
  shows "parses (answering (ver, eos, fsap)) net_pending p (end_msg env)
    ((if eos then wire_nat st else []) @ (if fsap then wire_nat sq else [])) ()"
proof -
  let ?P = "parses (answering (ver, eos, fsap)) net_pending p"
  have int: "?P (GetInt (env_read env) sz True True) (wire_nat v) v" if "field_ok v" for v sz
    using that answer.parses_GetInt_compressed [of "nat v"] by (simp add: assms(1) wire_nat_def field_ok_def nat_less_iff)
  have 1: "?P (gwhen eos (gbind (GetInt (env_read env) 4 True True) (\<lambda>temp.
      gupd (\<lambda>s. s\<lparr>Summary := map_option (\<lambda>x. x\<lparr>EndOfCallStatus := temp\<rparr>) (Summary s)\<rparr>)))) (if eos then wire_nat st else []) ()"
    using parses_bind [OF int [OF assms(2)] parses_upd] by (auto simp: gwhen_def summary_kept intro: parses_ret)
  have 2: "?P (gassign 0 (GetInt (env_read env) 2 True True)
      (\<lambda>v s. s\<lparr>Summary := map_option (\<lambda>x. x\<lparr>EndToEndECIDSequence := v\<rparr>) (Summary s)\<rparr>)) (wire_nat sq) ()"
    using int [OF assms(3), of 2] unfolding parses_def by (fastforce simp: summary_kept)
  have "?P (gupd (\<lambda>s. if Summary s = None then s\<lparr>Summary := Some zero_summary\<rparr> else s)) [] ()"
    by (rule parses_upd) (simp_all add: summary_kept)
  from parses_seq [OF this 2] have "?P (gwhen fsap (gseq (gupd (\<lambda>s. if Summary s = None then s\<lparr>Summary := Some zero_summary\<rparr> else s))
      (gassign 0 (GetInt (env_read env) 2 True True)
        (\<lambda>v s. s\<lparr>Summary := map_option (\<lambda>x. x\<lparr>EndToEndECIDSequence := v\<rparr>) (Summary s)\<rparr>)))) (if fsap then wire_nat sq else []) ()"
    by (auto simp: gwhen_def intro: parses_ret)
  from parses_seq [OF 1 this] show ?thesis
    unfolding end_msg_def by (intro parses_read_caps) simp
qed

text \<open>Any number of pieces of data and the end.\<close>

lemma lob_read_unfold:
  "lob_read env spare = gbind (on_sess (GetByte (env_read env))) (\<lambda>msg.
       gseq (if msg = 8 then lob_rpa env else if msg = 14 then readData env spare else ProcessTCCResponse env msg)
         (if msg = 4 \<or> msg = 9 then gret () else lob_read env spare))"
  by (rule ext) (subst lob_read.simps, simp)

lemma data_Write_sess: "data_Write spare bs (l\<lparr>sess := x\<rparr>) = (data_Write spare bs l)\<lparr>sess := x\<rparr>"
  by (simp add: data_Write_def Let_def)

lemma slice_nslice: "slice_bytes (nslice_of bs) = bs"
  by (simp add: slice_bytes_def nslice_of_def)

lemma cparses_lob_data:
  assumes "env_read env = net_read ops" and "field_ok st" "field_ok sq" and "clr_ok p"
  shows "cparses (answering (ver, eos, fsap)) net_pending p l (lob_read env spare) (wire_pieces p ds @ wire_end (ver, eos, fsap) st sq) ()
    (fold (data_Write spare) ds l)"
proof (induction ds arbitrary: l)
  case Nil
  let ?P = "cparses (answering (ver, eos, fsap)) net_pending p"
  have byte: "?P l (on_sess (GetByte (env_read env))) [9] 9 l"
    using cparses_on_sess [OF answer.parses_GetByte] assms(1) by simp
  have "?P l (on_sess (end_msg env)) ((if eos then wire_nat st else []) @ (if fsap then wire_nat sq else [])) () l"
    by (rule cparses_on_sess [OF parses_end_msg [OF assms(1-3)]])
  from cparses_seqI [OF this cparses_ret [where a = "()"] refl] show ?case
    by (subst lob_read_unfold)
       (intro cparses_bindI [OF byte]; simp add: wire_pieces_def wire_end_def ProcessTCCResponse_def split del: if_split)
next
  case (Cons d ds)
  let ?P = "cparses (answering (ver, eos, fsap)) net_pending p"
  let ?rest = "wire_pieces p ds @ wire_end (ver, eos, fsap) st sq"
  have byte: "?P l (on_sess (GetByte (env_read env))) [14] 14 l"
    using cparses_on_sess [OF answer.parses_GetByte] assms(1) by simp
  have "?P l (on_sess (GetClr (env_read env))) (wire_clr p d) (nslice_of d) l"
    using cparses_on_sess [OF answer.parses_GetClr [OF assms(4)]] assms(1) by simp
  moreover have "?P l (gupd (data_Write spare (slice_bytes (nslice_of d)))) [] () (data_Write spare d l)"
    unfolding slice_nslice by (rule cparses_upd) (rule data_Write_sess)
  ultimately have "?P l (readData env spare) (wire_clr p d) () (data_Write spare d l)"
    unfolding readData_def by (intro cparses_bindI [where cs = "[]"]) simp_all
  from cparses_seqI [OF this Cons.IH refl] show ?case
    by (subst lob_read_unfold) (intro cparses_bindI [OF byte]; simp add: wire_pieces_def)
qed

definition wire_flags_answer :: "('n, 'z) lob_stream_scheme \<Rightarrow> int \<Rightarrow> int \<Rightarrow> byte list" where
  "wire_flags_answer l sz nul = (if sendSize l then wire_nat sz else []) @ (if bNullO2U l then wire_nat nul else [])"

definition flags_result :: "int \<Rightarrow> int \<Rightarrow> ('n, 'z) lob_stream_scheme \<Rightarrow> ('n, 'z) lob_stream_scheme" where
  "flags_result sz nul l = (let l = (if sendSize l then l\<lparr>lob_size := sz\<rparr> else l) in if bNullO2U l \<and> nul \<noteq> 0 then l\<lparr>isNull := True\<rparr> else l)"

lemma cparses_flags:
  fixes l :: "('n, 'z) lob_stream_scheme"
  assumes "env_read env = net_read ops" and "field_ok sz" "field_ok nul" and "charsetID l = 0"
  shows "cparses (answering (ver, eos, fsap)) net_pending p l (gbind (gget (\<lambda>l. (charsetID l \<noteq> 0, sendSize l, bNullO2U l))) (\<lambda>(cs, sz, nul).
     gseq (gwhen cs (gassign 0 (on_sess (GetInt (env_read env) 2 True True)) (\<lambda>v l. l\<lparr>charsetID := v\<rparr>)))
    (gseq (gwhen sz (gbind (on_sess (gget TTCVersion)) (\<lambda>ver.
             gassign 0 (on_sess (GetInt64 (env_read env) (if ver < 3 then 4 else 8) True True)) (\<lambda>v l. l\<lparr>lob_size := v\<rparr>))))
          (gwhen nul (gbind (on_sess (GetInt (env_read env) 2 True True)) (\<lambda>temp.
             gwhen (temp \<noteq> 0) (gupd (\<lambda>l. l\<lparr>isNull := True\<rparr>)))))))) (wire_flags_answer l sz nul) () (flags_result sz nul l)"
proof -
  let ?P = "cparses (answering (ver, eos, fsap)) net_pending p"
  let ?l = "if sendSize l then l\<lparr>lob_size := sz\<rparr> else l"
  have ver: "?P l (on_sess (gget TTCVersion)) [] ver l" by (rule cparses_on_sess [OF parses_version])
  have num: "?P l (on_sess (GetInt64 (env_read env) k True True)) (wire_nat sz) sz l" for k
  proof -
    have "sint (of_nat (nat sz) :: u64) = sz"
      using assms(2) to_i64_id [of sz] by (simp add: field_ok_def to_i64_def)
    then show ?thesis
      using cparses_on_sess [OF answer.parses_GetInt64_compressed [of "nat sz"]] assms(1,2) by (simp add: wire_nat_def field_ok_def nat_less_iff)
  qed
  have "?P l (gbind (on_sess (gget TTCVersion)) (\<lambda>ver.
      gassign 0 (on_sess (GetInt64 (env_read env) (if ver < 3 then 4 else 8) True True)) (\<lambda>v l. l\<lparr>lob_size := v\<rparr>))) (wire_nat sz) ()
      (l\<lparr>lob_size := sz\<rparr>)"
    by (rule cparses_bindI [OF ver cparses_assign [OF num]]) simp_all
  then have size: "?P l (gwhen (sendSize l) (gbind (on_sess (gget TTCVersion)) (\<lambda>ver.
      gassign 0 (on_sess (GetInt64 (env_read env) (if ver < 3 then 4 else 8) True True)) (\<lambda>v l. l\<lparr>lob_size := v\<rparr>))))
      (if sendSize l then wire_nat sz else []) () ?l"
    by (auto simp: gwhen_def intro: cparses_ret)
  have int: "?P l' (on_sess (GetInt (env_read env) 2 True True)) (wire_nat nul) nul l'" for l' :: "('n, 'z) lob_stream_scheme"
    using cparses_on_sess [OF answer.parses_GetInt_compressed [of "nat nul"]] assms(1,3) by (simp add: wire_nat_def field_ok_def nat_less_iff)
  have "?P l' (gwhen (nul \<noteq> 0) (gupd (\<lambda>l. l\<lparr>isNull := True\<rparr>))) [] () (if nul \<noteq> 0 then l'\<lparr>isNull := True\<rparr> else l')" for l' :: "('n, 'z) lob_stream_scheme"
    using cparses_upd [of "\<lambda>l. l\<lparr>isNull := True\<rparr>" l'] by (auto simp: gwhen_def intro: cparses_ret)
  then have flag: "?P l' (gbind (on_sess (GetInt (env_read env) 2 True True)) (\<lambda>temp. gwhen (temp \<noteq> 0) (gupd (\<lambda>l. l\<lparr>isNull := True\<rparr>))))
      (wire_nat nul) () (if nul \<noteq> 0 then l'\<lparr>isNull := True\<rparr> else l')" for l' :: "('n, 'z) lob_stream_scheme"
    by (rule cparses_bindI [OF int]) simp
  have null: "?P ?l (gwhen (bNullO2U l) (gbind (on_sess (GetInt (env_read env) 2 True True)) (\<lambda>temp.
      gwhen (temp \<noteq> 0) (gupd (\<lambda>l. l\<lparr>isNull := True\<rparr>))))) (if bNullO2U l then wire_nat nul else []) () (flags_result sz nul l)"
    using flag [of ?l] by (auto simp: gwhen_def flags_result_def intro: cparses_ret)
  show ?thesis
    using cparses_seqI [OF size null refl] assms(4)
    by (intro cparses_get) (simp_all add: wire_flags_answer_def gwhen_def gseq_def)
qed

lemma cparses_lob_rpa:
  assumes "env_read env = net_read ops" and "field_ok sz" "field_ok nul" and "sourceLocator l = Some old" "old \<noteq> []" "length loc = length old"
    and "slice_bytes (destLocator l) = []" "charsetID l = 0"
  shows "cparses (answering (ver, eos, fsap)) net_pending p l (lob_rpa env) (loc @ wire_flags_answer l sz nul) ()
    (flags_result sz nul (l\<lparr>sourceLocator := Some loc, destLen := 0\<rparr>))"
proof -
  let ?P = "cparses (answering (ver, eos, fsap)) net_pending p"
  define l1 where "l1 = l\<lparr>sourceLocator := Some loc\<rparr>"
  define l2 where "l2 = l1\<lparr>destLen := 0\<rparr>"
  have bytes: "?P l (gbind (on_sess (GetBytes (env_read env) (int (length old)))) (\<lambda>bs. gret (Some bs))) loc (Some loc) l"
    unfolding assms(1)
    by (rule cparses_bindI [OF cparses_on_sess [OF answer.parses_GetBytes [of _ loc]] cparses_ret]) (simp_all add: assms(6))
  have 1: "?P l (read_locator env (gget sourceLocator) (\<lambda>v l. l\<lparr>sourceLocator := v\<rparr>)) loc () l1"
    unfolding read_locator_def l1_def
    by (rule cparses_get) (use assms(4,5) in \<open>auto simp: slice_bytes_def gwhen_def intro!: cparses_assign [OF bytes]\<close>)
  have 2: "?P l1 (read_locator env (gget destLocator) (\<lambda>v l. l\<lparr>destLocator := v\<rparr>)) [] () l1"
    unfolding read_locator_def
    by (rule cparses_get) (use assms(7) in \<open>auto simp: l1_def gwhen_def intro: cparses_ret\<close>)
  have 3: "?P l1 (gupd (\<lambda>l. l\<lparr>destLen := int (length (slice_bytes (destLocator l)))\<rparr>)) [] () l2"
    using cparses_upd [of "\<lambda>l. l\<lparr>destLen := int (length (slice_bytes (destLocator l)))\<rparr>" l1] assms(7)
    by (simp add: l1_def l2_def)
  have l2: "charsetID l2 = 0" "wire_flags_answer l sz nul = wire_flags_answer l2 sz nul"
    using assms(8) by (simp_all add: l1_def l2_def wire_flags_answer_def)
  have "?P l (lob_rpa env) (loc @ wire_flags_answer l sz nul) () (flags_result sz nul l2)"
    unfolding lob_rpa_def Let_def l2(2)
    by (rule cparses_seqI [OF 1], rule cparses_seqI [OF 2], rule cparses_seqI [OF 3 cparses_flags [OF assms(1-3) l2(1)]]) simp_all
  then show ?thesis by (simp add: l1_def l2_def)
qed

text \<open>The answer to a call: locator, size or flag as asked for, pieces of data, end.\<close>

definition wire_answer :: "session_props \<Rightarrow> byte \<times> bool \<times> bool \<Rightarrow> byte list \<Rightarrow> byte list \<Rightarrow> byte list list \<Rightarrow> int \<Rightarrow> int \<Rightarrow> byte list" where
  "wire_answer p caps loc fs ds st sq = 8 # loc @ fs @ wire_pieces p ds @ wire_end caps st sq"

lemma cparses_lob_answer:
  assumes "env_read env = net_read ops" and "field_ok sz" "field_ok nul" "field_ok st" "field_ok sq" and "clr_ok p"
    and "sourceLocator l = Some old" "old \<noteq> []" "length loc = length old" "slice_bytes (destLocator l) = []" "charsetID l = 0"
  shows "cparses (answering (ver, eos, fsap)) net_pending p l (lob_read env spare)
    (wire_answer p (ver, eos, fsap) loc (wire_flags_answer l sz nul) ds st sq) ()
    (fold (data_Write spare) ds (flags_result sz nul (l\<lparr>sourceLocator := Some loc, destLen := 0\<rparr>)))"
proof -
  let ?P = "cparses (answering (ver, eos, fsap)) net_pending p"
  let ?l = "flags_result sz nul (l\<lparr>sourceLocator := Some loc, destLen := 0\<rparr>)"
  have byte: "?P l (on_sess (GetByte (env_read env))) [8] 8 l"
    using cparses_on_sess [OF answer.parses_GetByte] assms(1) by simp
  have "?P l (gseq (lob_rpa env) (lob_read env spare))
     ((loc @ wire_flags_answer l sz nul) @ wire_pieces p ds @ wire_end (ver, eos, fsap) st sq) () (fold (data_Write spare) ds ?l)"
    by (rule cparses_seqI [OF cparses_lob_rpa [OF assms(1-3,7-11)] cparses_lob_data [OF assms(1,4,5,6)] refl])
  then show ?thesis
    by (subst lob_read_unfold) (intro cparses_bindI [OF byte]; simp add: wire_answer_def)
qed

section \<open>Calls\<close>

text \<open>A server that answers whatever request it gets with some bytes, as the session sees it.\<close>

definition answers :: "'n conn_env \<Rightarrow> byte \<times> bool \<times> bool \<Rightarrow> session_props \<Rightarrow> byte list \<Rightarrow> bool" where
  "answers env caps p bs \<longleftrightarrow> (\<forall>s. session_caps s = caps \<and> props s = p \<longrightarrow>
     (\<exists>s'. env_write env s = Some (Ok (), s') \<and> answering caps s' \<and> props s' = p \<and> net_pending s' = bs))"

definition talking :: "byte \<times> bool \<times> bool \<Rightarrow> session_props \<Rightarrow> ('n, 'z) connection_scheme \<Rightarrow> bool" where
  "talking caps p c \<longleftrightarrow> (\<exists>s. sess c = Some s \<and> session_caps s = caps \<and> props s = p)"

lemma lob_call_answered:
  assumes "talking caps p l" and "slice_bytes (destLocator l) = []" and "answers env caps p bs"
    and "\<And>s rest. answering caps s \<Longrightarrow> props s = p \<Longrightarrow> net_pending s = bs @ rest \<Longrightarrow>
      \<exists>s'. lob_read env spare (l\<lparr>sess := Some s\<rparr>) = Some (Ok (), l'\<lparr>sess := Some s'\<rparr>) \<and> answering caps s' \<and> props s' = p"
  shows "\<exists>s'. lob_call env spare op (gret ()) l = Some (Ok (), l'\<lparr>sess := Some s'\<rparr>) \<and> answering caps s' \<and> props s' = p"
proof -
  obtain s where s: "sess l = Some s" "session_caps s = caps" "props s = p" using assms(1) by (auto simp: talking_def)
  let ?s = "ResetBuffer s" and ?m = "gbind (gget TTCVersion) (\<lambda>ver. lob_request (l\<lparr>sess := Some (ResetBuffer s)\<rparr>) op ver)"
  obtain out ix where req: "lob_request (l\<lparr>sess := Some ?s\<rparr>) op (TTCVersion ?s) ?s = Some (Ok (), ?s\<lparr>outBuffer := out, ttcIndex := ix\<rparr>)"
    using only_writes_request unfolding only_writes_def by blast
  have w: "writeOp op (l\<lparr>sess := Some ?s\<rparr>) = Some (Ok (), l\<lparr>sess := Some (?s\<lparr>outBuffer := out, ttcIndex := ix\<rparr>)\<rparr>)"
    using req assms(2) by (simp add: writeOp_def gseq_def gupd_def gbind_def gget_def on_sess_def)
  have "session_caps (?s\<lparr>outBuffer := out, ttcIndex := ix\<rparr>) = caps" "props (?s\<lparr>outBuffer := out, ttcIndex := ix\<rparr>) = p"
    using s by (simp_all add: session_caps_def ResetBuffer_def resetRead_def resetWrite_def)
  then obtain s2 where s2: "env_write env (?s\<lparr>outBuffer := out, ttcIndex := ix\<rparr>) = Some (Ok (), s2)" "answering caps s2" "props s2 = p"
      "net_pending s2 = bs"
    using assms(3) unfolding answers_def by blast
  obtain s3 where "lob_read env spare (l\<lparr>sess := Some s2\<rparr>) = Some (Ok (), l'\<lparr>sess := Some s3\<rparr>)" "answering caps s3" "props s3 = p"
    using assms(4) [OF s2(2,3), of "[]"] s2(4) by auto
  moreover from this have "processReset env (lob_read env spare) (l\<lparr>sess := Some s2\<rparr>) = Some (Ok (), l'\<lparr>sess := Some s3\<rparr>)"
    by (simp add: processReset_def gbind_def gtry_def gret_def)
  ultimately show ?thesis
    using s(1) w s2(1) by (auto simp: lob_call_def gseq_def gupd_def gbind_def gret_def on_sess_def)
qed

definition read_result :: "nat \<Rightarrow> byte list \<Rightarrow> int \<Rightarrow> byte list list \<Rightarrow> int \<Rightarrow> ('n, 'z) lob_stream_scheme \<Rightarrow> ('n, 'z) lob_stream_scheme" where
  "read_result spare loc sz ds off l = fold (data_Write spare) ds
     (l\<lparr>bNullO2U := False, destOffset := 0, sourceOffset := to_i64 (off + 1), sendSize := True, data_len := 0,
        sourceLocator := Some loc, destLen := 0, lob_size := sz\<rparr>)"

lemma data_Writes_keep:
  "sourceLocator (fold (data_Write spare) ds l) = sourceLocator l" "destLocator (fold (data_Write spare) ds l) = destLocator l"
  "charsetID (fold (data_Write spare) ds l) = charsetID l" "lob_size (fold (data_Write spare) ds l) = lob_size l"
  by (induction ds arbitrary: l) (simp_all add: data_Write_def Let_def)

lemma read_result_fields:
  "sourceLocator (read_result spare loc sz ds off l) = Some loc" "destLocator (read_result spare loc sz ds off l) = destLocator l"
  "charsetID (read_result spare loc sz ds off l) = charsetID l" "lob_size (read_result spare loc sz ds off l) = sz"
  by (simp_all add: read_result_def data_Writes_keep)

lemma view_sess [simp]: "view (l\<lparr>sess := x\<rparr>) = view l" "data_Bytes (l\<lparr>sess := x\<rparr>) = data_Bytes l" "store_ok (l\<lparr>sess := x\<rparr>) = store_ok l"
  by (simp_all add: view_def data_Bytes_def store_ok_def fun_eq_iff)

lemma read_result_view:
  assumes "store_ok l"
  shows "store_ok (read_result spare loc sz ds off l)"
    and "view (read_result spare loc sz ds off l) (data_Bytes (read_result spare loc sz ds off l)) = concat ds"
proof -
  let ?l = "l\<lparr>bNullO2U := False, destOffset := 0, sourceOffset := to_i64 (off + 1), sendSize := True, data_len := 0,
    sourceLocator := Some loc, destLen := 0, lob_size := sz\<rparr>"
  have ok: "store_ok ?l" using assms by (simp add: store_ok_def)
  show "store_ok (read_result spare loc sz ds off l)"
    unfolding read_result_def by (rule data_Writes_append(1) [OF ok])
  show "view (read_result spare loc sz ds off l) (data_Bytes (read_result spare loc sz ds off l)) = concat ds"
    unfolding read_result_def data_Writes_append(2) [OF ok] by (simp add: view_def data_Bytes_def)
qed

lemma Read_answered:
  assumes "env_read env = net_read ops" and "answers env (ver, eos, fsap) p (wire_answer p (ver, eos, fsap) loc (wire_nat sz) ds st sq)"
    and "talking (ver, eos, fsap) p l" and "clr_ok p" and "field_ok sz" "field_ok st" "field_ok sq"
    and "sourceLocator l = Some old" "old \<noteq> []" "length loc = length old" "slice_bytes (destLocator l) = []" "charsetID l = 0"
  shows "\<exists>s. Read env spare off cnt l
      = Some (Ok (data_Bytes (read_result spare loc sz ds off l)), (read_result spare loc sz ds off l)\<lparr>sess := Some s\<rparr>)
    \<and> answering (ver, eos, fsap) s \<and> props s = p"
proof -
  let ?l = "data_Reset ((initialize l)\<lparr>lob_size := cnt, sourceOffset := to_i64 (off + 1), sendSize := True\<rparr>)"
  have l: "sourceLocator ?l = Some old" "slice_bytes (destLocator ?l) = []" "charsetID ?l = 0" "sendSize ?l" "\<not> bNullO2U ?l"
    "talking (ver, eos, fsap) p ?l"
    using assms(3,8,11,12) by (simp_all add: data_Reset_def initialize_def talking_def)
  have "cparses (answering (ver, eos, fsap)) net_pending p ?l (lob_read env spare) (wire_answer p (ver, eos, fsap) loc (wire_nat sz) ds st sq) ()
      (read_result spare loc sz ds off l)"
    using cparses_lob_answer [OF assms(1,5) _ assms(6,7,4) l(1) assms(9,10) l(2,3), of 0 ver eos fsap spare ds]
    by (simp add: read_result_def data_Reset_def initialize_def wire_flags_answer_def flags_result_def field_ok_def)
  then have "\<exists>s'. lob_call env spare 2 (gret ()) ?l = Some (Ok (), (read_result spare loc sz ds off l)\<lparr>sess := Some s'\<rparr>)
      \<and> answering (ver, eos, fsap) s' \<and> props s' = p"
    by (intro lob_call_answered [OF l(6,2) assms(2)]) (auto simp: cparses_def)
  then show ?thesis
    using assms(8) by (auto simp: Read_def with_locator_def gseq_def gupd_def gbind_def gget_def)
qed

text \<open>
  C3. \<open>Read\<close> gives the data that the server sent, whatever pieces it came in, and the slice it returns is a part of the stream's own
  buffer: a second \<open>Read\<close> that brings no more bytes than the first writes its data over those the first one returned.\<close>

theorem lob_Read_reuses_buffer:
  assumes "env_read env1 = net_read ops" and "answers env1 (ver, eos, fsap) p (wire_answer p (ver, eos, fsap) loc1 (wire_nat sz1) ds1 st1 sq1)"
    and "env_read env2 = net_read ops" and "answers env2 (ver, eos, fsap) p (wire_answer p (ver, eos, fsap) loc2 (wire_nat sz2) ds2 st2 sq2)"
    and "talking (ver, eos, fsap) p l" and "clr_ok p" and "list_all field_ok [sz1, st1, sq1, sz2, st2, sq2]" and "store_ok l"
    and "sourceLocator l = Some old" "old \<noteq> []" "length loc1 = length old" "length loc2 = length old"
    and "slice_bytes (destLocator l) = []" "charsetID l = 0"
    and "length (concat ds2) \<le> length (concat ds1)"
  shows "\<exists>v1 l1 v2 l2. Read env1 spare off1 cnt1 l = Some (Ok v1, l1) \<and> view l1 v1 = concat ds1 \<and> lob_size l1 = sz1
    \<and> Read env2 spare off2 cnt2 l1 = Some (Ok v2, l2) \<and> view l2 v2 = concat ds2 \<and> lob_size l2 = sz2
    \<and> view l2 v1 = concat ds2 @ drop (length (concat ds2)) (concat ds1)"
proof -
  let ?r1 = "read_result spare loc1 sz1 ds1 off1 l"
  obtain s1 where 1: "Read env1 spare off1 cnt1 l = Some (Ok (data_Bytes ?r1), ?r1\<lparr>sess := Some s1\<rparr>)"
      "answering (ver, eos, fsap) s1" "props s1 = p"
    using Read_answered [OF assms(1,2,5,6) _ _ _ assms(9,10,11,13,14), of spare off1 cnt1] assms(7) by auto
  let ?l1 = "?r1\<lparr>sess := Some s1\<rparr>" and ?r2 = "read_result spare loc2 sz2 ds2 off2 (?r1\<lparr>sess := Some s1\<rparr>)"
  have ok: "store_ok ?r1" "view ?r1 (data_Bytes ?r1) = concat ds1" by (rule read_result_view [OF assms(8)])+
  have "talking (ver, eos, fsap) p ?l1" using 1(2,3) by (simp add: talking_def answering_def)
  then obtain s2 where 2: "Read env2 spare off2 cnt2 ?l1 = Some (Ok (data_Bytes ?r2), ?r2\<lparr>sess := Some s2\<rparr>)"
    using Read_answered [OF assms(3,4) _ assms(6), of ?l1 loc1 spare off2 cnt2] assms(7,10-14) by (force simp: read_result_fields)
  have "view ?r2 (data_Bytes ?r2) = concat ds2" using read_result_view(2) [of ?l1] ok(1) by simp
  moreover have "view ?r2 (data_Bytes ?r1) = concat ds2 @ drop (length (concat ds2)) (concat ds1)"
  proof -
    let ?l = "?l1\<lparr>bNullO2U := False, destOffset := 0, sourceOffset := to_i64 (off2 + 1), sendSize := True, data_len := 0,
      sourceLocator := Some loc2, destLen := 0, lob_size := sz2\<rparr>"
    have n: "data_len ?r1 \<le> length (arrays ?r1 ! data_array ?r1)" "take (data_len ?r1) (arrays ?r1 ! data_array ?r1) = concat ds1"
      using ok by (auto simp: view_def data_Bytes_def store_ok_def)
    then have len: "data_len ?r1 = length (concat ds1)" by (metis length_take min.absorb2)
    have "store_ok ?l" "data_len ?l + length (concat ds2) \<le> length (arrays ?l ! data_array ?l)"
      using ok(1) n len assms(15) by (simp_all add: store_ok_def)
    note fit = data_Writes_fit(2) [OF this, of spare]
    have "drop (length (concat ds2)) (concat ds1)
        = take (length (concat ds1) - length (concat ds2)) (drop (length (concat ds2)) (arrays ?r1 ! data_array ?r1))"
      using drop_take [of "length (concat ds2)" "length (concat ds1)" "arrays ?r1 ! data_array ?r1"] n(2) len by simp
    then show ?thesis
      using fit len assms(15) by (simp add: read_result_def [of spare loc2] view_def data_Bytes_def)
  qed
  ultimately show ?thesis using 1(1) 2 ok by (fastforce simp: read_result_fields)
qed

definition sample_server :: "byte list \<Rightarrow> unit conn_env" where
  "sample_server bs = sample_env\<lparr>env_write := (\<lambda>s. Some (Ok (), reading bs))\<rparr>"

definition sample_stream :: "byte list \<Rightarrow> unit lob_stream" where
  "sample_stream loc = (NewLobStreamer (sample_connection (reading [])))\<lparr>sourceLocator := Some loc\<rparr>"

lemma sample_server_answers: "answers (sample_server bs) (7, True, False) sample_props bs"
  by (auto simp: answers_def sample_server_def answering_def reading_ok)

lemma sample_stream_fields:
  "store_ok (sample_stream loc)" "talking (7, True, False) sample_props (sample_stream loc)" "sourceLocator (sample_stream loc) = Some loc"
  "slice_bytes (destLocator (sample_stream loc)) = []" "charsetID (sample_stream loc) = 0" "clr_ok sample_props"
  by (simp_all add: sample_stream_def NewLobStreamer_def sample_connection_def store_ok_def talking_def reading_ok slice_bytes_def
      connection.extend_def reading_ok(2) [of "[]", unfolded reading_ok])

theorem lob_Read_reuses_buffer_witness:
  "\<exists>v1 l1 v2 l2.
     Read (sample_server (wire_answer sample_props (7, True, False) [1, 2] (wire_nat 5) [[10, 11, 12], [13, 14]] 1 0)) 8 0 0 (sample_stream [1, 2])
       = Some (Ok v1, l1) \<and> view l1 v1 = [10, 11, 12, 13, 14] \<and> lob_size l1 = 5
     \<and> Read (sample_server (wire_answer sample_props (7, True, False) [1, 2] (wire_nat 5) [[20, 21]] 1 0)) 8 0 0 l1 = Some (Ok v2, l2)
     \<and> view l2 v2 = [20, 21] \<and> lob_size l2 = 5 \<and> view l2 v1 = [20, 21, 12, 13, 14]"
proof -
  have rd: "env_read (sample_server bs) = net_read plain_ops" for bs by (simp add: sample_server_def sample_env_def)
  show ?thesis
    using lob_Read_reuses_buffer [OF rd sample_server_answers rd sample_server_answers sample_stream_fields(2,6) _ sample_stream_fields(1,3),
      where spare = 8 and ?off1.0 = 0 and ?cnt1.0 = 0 and ?off2.0 = 0 and ?cnt2.0 = 0 and ?loc1.0 = "[1, 2]" and ?loc2.0 = "[1, 2]"
        and ?sz1.0 = 5 and ?sz2.0 = 5 and ?st1.0 = 1 and ?st2.0 = 1 and ?sq1.0 = 0 and ?sq2.0 = 0
        and ?ds1.0 = "[[10, 11, 12], [13, 14]]" and ?ds2.0 = "[[20, 21]]" and old = "[1, 2]"]
    by (simp add: sample_stream_fields field_ok_def)
qed

section \<open>The answer of Exists\<close>

interpretation sticky: connection_frame "isNull :: ('n, 'z) lob_stream_scheme \<Rightarrow> bool"
  by unfold_locales simp_all

lemma stable_isNull_rpa: "stable isNull (lob_rpa env)"
  unfolding lob_rpa_def read_locator_def Let_def
  by (intro stable_intros stable_upd sticky.stable_on_sess; simp)

lemma stable_isNull_read: "stable isNull (lob_read env spare)"
proof -
  have "isNull l \<longrightarrow> isNull (snd y)" if "lob_read env spare l = Some y" for env spare y and l :: "('n, 'z) lob_stream_scheme"
    using that
  proof (rule lob_read.raw_induct [where P = "\<lambda>env spare l y. isNull l \<longrightarrow> isNull (snd y)", rotated])
    fix rec :: "'n conn_env \<Rightarrow> nat \<Rightarrow> ('n, 'z, unit) lobm" and env spare l y
    assume IH: "\<And>env spare l y. rec env spare l = Some y \<Longrightarrow> isNull l \<longrightarrow> isNull (snd y)"
    let ?m = "gbind (on_sess (GetByte (env_read env))) (\<lambda>msg. gseq (if msg = 8 then lob_rpa env
        else if msg = 14 then readData env spare else ProcessTCCResponse env msg)
         (if msg = 4 \<or> msg = 9 then gret () else rec env spare))"
    assume eq: "?m l = Some y"
    have "stable isNull (rec env spare)" using IH by (force simp: stable_def)
    moreover have "stable isNull (readData env spare :: ('n, 'z, unit) lobm)"
      unfolding readData_def by (intro stable_intros stable_upd sticky.stable_on_sess; simp add: data_Write_def Let_def)
    ultimately have "stable isNull ?m"
      by (intro stable_intros sticky.stable_on_sess stable_isNull_rpa sticky.stable_ProcessTCCResponse)
    then show "isNull l \<longrightarrow> isNull (snd y)" using stableD [of isNull ?m l "fst y" "snd y"] eq by auto
  qed
  then show ?thesis by (force simp: stable_def)
qed

lemma stable_self: "(\<And>x. stable Q (m x)) \<Longrightarrow> stable Q (\<lambda>s. m s s)"
  unfolding stable_def by blast

lemma stable_isNull_call: "stable isNull (lob_call env spare op extra)"
proof -
  have "stable isNull (writeOp op :: ('n, 'z, unit) lobm)" for op
    unfolding writeOp_def by (rule stable_seq [OF stable_upd stable_self [OF sticky.stable_on_sess]]) simp
  then show ?thesis
    unfolding lob_call_def
    by (intro stable_seq sticky.stable_on_sess sticky.stable_processReset stable_isNull_read) (simp_all add: setBad_def)
qed

lemma Exists_answered:
  assumes "env_read env = net_read ops" and "answers env (ver, eos, fsap) p (wire_answer p (ver, eos, fsap) loc (wire_nat nul) [] st sq)"
    and "talking (ver, eos, fsap) p l" and "clr_ok p" and "field_ok nul" "field_ok st" "field_ok sq"
    and "sourceLocator l = Some old" "old \<noteq> []" "length loc = length old" "slice_bytes (destLocator l) = []" "charsetID l = 0"
  shows "\<exists>l'. Exists env spare l = Some (Ok (isNull l \<or> nul \<noteq> 0), l')"
proof -
  let ?l = "(initialize l)\<lparr>bNullO2U := True\<rparr>"
  let ?r = "flags_result 0 nul (?l\<lparr>sourceLocator := Some loc, destLen := 0\<rparr>)"
  have l: "sourceLocator ?l = Some old" "slice_bytes (destLocator ?l) = []" "charsetID ?l = 0" "talking (ver, eos, fsap) p ?l"
    using assms(3,8,11,12) by (simp_all add: initialize_def talking_def)
  have "cparses (answering (ver, eos, fsap)) net_pending p ?l (lob_read env spare) (wire_answer p (ver, eos, fsap) loc (wire_nat nul) [] st sq) () ?r"
    using cparses_lob_answer [OF assms(1) _ assms(5,6,7,4) l(1) assms(9,10) l(2,3), of 0 ver eos fsap spare "[]"]
    by (simp add: initialize_def wire_flags_answer_def field_ok_def)
  then have "\<exists>s'. lob_call env spare 2048 (gret ()) ?l = Some (Ok (), ?r\<lparr>sess := Some s'\<rparr>) \<and> answering (ver, eos, fsap) s' \<and> props s' = p"
    by (intro lob_call_answered [OF l(4,2) assms(2)]) (auto simp: cparses_def)
  then show ?thesis
    using assms(8)
    by (auto simp: Exists_def with_locator_def gseq_def gupd_def gbind_def gget_def flags_result_def initialize_def Let_def)
qed

text \<open>
  C38. Once a stream has been told that its LOB exists, every later \<open>Exists\<close> that gives an answer says so too, whatever the server
  sends and whichever locator is set in between: the flag is never cleared.\<close>

theorem Exists_sticks:
  assumes "isNull l" and "Exists env spare (l\<lparr>sourceLocator := loc\<rparr>) = Some (Ok b, l')"
  shows "b \<and> isNull l'"
proof -
  let ?l = "(initialize (l\<lparr>sourceLocator := loc\<rparr>))\<lparr>bNullO2U := True\<rparr>"
  have "loc \<noteq> None" using assms(2) by (intro notI) (simp add: Exists_def with_locator_def)
  then have "gbind (lob_call env spare 2048 (gret ())) (\<lambda>_. gget isNull) ?l = Some (Ok b, l')"
    using assms(2) by (auto simp: Exists_def with_locator_def gseq_def gupd_def gbind_def)
  then obtain l1 where l1: "lob_call env spare 2048 (gret ()) ?l = Some (Ok (), l1)" "gget isNull l1 = Some (Ok b, l')"
    by (rule gbind_OkE) simp
  then have "b = isNull l1 \<and> l' = l1" by (auto simp: gget_def)
  moreover have "isNull ?l" using assms(1) by (simp add: initialize_def)
  ultimately show ?thesis using stableD [OF stable_isNull_call _ l1(1)] by blast
qed

theorem Exists_sticks_witness:
  "\<exists>l'. Exists (sample_server (wire_answer sample_props (7, True, False) [1, 2] (wire_nat 0) [] 1 0)) 8
      ((sample_stream [3, 4])\<lparr>isNull := True, sourceLocator := Some [1, 2]\<rparr>) = Some (Ok True, l') \<and> isNull l'"
proof -
  let ?env = "sample_server (wire_answer sample_props (7, True, False) [1, 2] (wire_nat 0) [] 1 0)"
  let ?l = "(sample_stream [3, 4])\<lparr>isNull := True, sourceLocator := Some [1, 2]\<rparr>"
  have "env_read ?env = net_read plain_ops" by (simp add: sample_server_def sample_env_def)
  moreover have "talking (7, True, False) sample_props ?l"
    using sample_stream_fields(2) by (simp add: talking_def)
  ultimately obtain b l' where "Exists ?env 8 ?l = Some (Ok b, l')"
    using Exists_answered [OF _ sample_server_answers _ sample_stream_fields(6), of "[1, 2]" 0 1 0 plain_ops ?l "[1, 2]" 8]
    by (auto simp: field_ok_def sample_stream_fields)
  with Exists_sticks [of "(sample_stream [3, 4])\<lparr>isNull := True\<rparr>" ?env 8 "Some [1, 2]" b l'] show ?thesis by auto
qed

end
