(* ===== verification/Oracle_Vector.thy ===== *)
theory Oracle_Vector
  imports Oracle_Number Oracle_Values
begin

text \<open>
  The VECTOR type of \<^verbatim>\<open>v3/types/vector.go\<close>: a header and the elements, as bytes, BINARY_FLOATs or BINARY_DOUBLEs. The elements are
  numbers of \<^verbatim>\<open>types/number.go\<close>, whose bytes are slices of the vector's own bytes when a vector is read: what decoding a number does in
  place, it does to the vector. The LOB that an uploaded vector is bound to is not part of this theory.
\<close>

section \<open>State and inputs\<close>

record vector = number +
  loc :: nslice

text \<open>A slice, a pointer to a slice, a slice of pointers.\<close>

datatype 'a go_slice = Plain "'a list" | Pointer "'a list option" | Pointers "'a option list"

datatype vec_input =
    VNil
  | VVector vector
  | VVectorPtr "vector option"
  | VBytes "byte go_slice"
  | VFloats "u32 go_slice"
  | VDoubles "u64 go_slice"
  | VOther

fun deref_all :: "'a option list \<Rightarrow> 'a list res" where
  "deref_all [] = Ok []"
| "deref_all (x # xs) = (case x of None \<Rightarrow> Panic | Some a \<Rightarrow> rbind (deref_all xs) (\<lambda>as. Ok (a # as)))"

fun slice_values :: "'a go_slice \<Rightarrow> 'a list res" where
  "slice_values (Plain xs) = Ok xs"
| "slice_values (Pointer p) = (case p of None \<Rightarrow> Panic | Some xs \<Rightarrow> Ok xs)"
| "slice_values (Pointers ps) = deref_all ps"

section \<open>Writing\<close>

definition vec_header :: "byte \<Rightarrow> nat \<Rightarrow> byte list" where
  "vec_header format count = [219, 0] @ be_enc 2 18 @ [format] @ be_enc 4 (unat (of_nat count :: u32)) @ replicate 8 0"

text \<open>One element through \<open>Number.SetValue\<close>.\<close>

definition float_bytes :: "float_ops \<Rightarrow> u16 \<Rightarrow> u64 \<Rightarrow> byte list res" where
  "float_bytes fo dt x = (case number_SetValue fo (IFloat x) (SetDataType dt \<lparr>bValue = None, dataType = 0\<rparr>) of
       (Ok _, n) \<Rightarrow> Ok (slice_bytes (Bytes n)) | (Err e, _) \<Rightarrow> Err e | (Panic, _) \<Rightarrow> Panic)"

fun float_list :: "float_ops \<Rightarrow> u16 \<Rightarrow> u64 list \<Rightarrow> byte list res" where
  "float_list fo dt [] = Ok []"
| "float_list fo dt (x # xs) = rbind (float_bytes fo dt x) (\<lambda>b. rbind (float_list fo dt xs) (\<lambda>bs. Ok (b @ bs)))"

text \<open>\<open>wide\<close> is the conversion from \<^verbatim>\<open>float32\<close> to \<^verbatim>\<open>float64\<close> on bit patterns.\<close>

definition vec_data :: "float_ops \<Rightarrow> (u32 \<Rightarrow> u64) \<Rightarrow> vec_input \<Rightarrow> (byte \<times> nat \<times> byte list) res" where
  "vec_data fo wide input = (case input of
       VBytes s \<Rightarrow> rbind (slice_values s) (\<lambda>xs. Ok (4, length xs, xs))
     | VFloats s \<Rightarrow> rbind (slice_values s) (\<lambda>xs. rbind (float_list fo IBFLOAT (map wide xs)) (\<lambda>bs. Ok (2, length xs, bs)))
     | VDoubles s \<Rightarrow> rbind (slice_values s) (\<lambda>xs. rbind (float_list fo IBDOUBLE xs) (\<lambda>bs. Ok (3, length xs, bs)))
     | _ \<Rightarrow> Err VectorType)"

definition vector_SetValue :: "float_ops \<Rightarrow> (u32 \<Rightarrow> u64) \<Rightarrow> vec_input \<Rightarrow> vector \<Rightarrow> unit res \<times> vector" where
  "vector_SetValue fo wide input v = (case input of
       VNil \<Rightarrow> (Ok (), v\<lparr>bValue := None\<rparr>)
     | VVector w \<Rightarrow> (Ok (), w)
     | VVectorPtr p \<Rightarrow> (case p of None \<Rightarrow> (Panic, v) | Some w \<Rightarrow> (Ok (), w))
     | _ \<Rightarrow> (case vec_data fo wide input of
           Ok (format, count, data) \<Rightarrow>
             let bs = vec_header format count @ data in
             (Ok (), v\<lparr>bValue := Some bs, loc := Some (NewQuasiLocator (of_nat (length bs)))\<rparr>)
         | Err e \<Rightarrow> (Err e, v) | Panic \<Rightarrow> (Panic, v)))"

definition CreateVector :: "float_ops \<Rightarrow> (u32 \<Rightarrow> u64) \<Rightarrow> vec_input \<Rightarrow> unit res \<times> vector" where
  "CreateVector fo wide input = vector_SetValue fo wide input \<lparr>bValue = None, dataType = 0, loc = None\<rparr>"

definition vector_Scan :: "float_ops \<Rightarrow> (u32 \<Rightarrow> u64) \<Rightarrow> vec_input \<Rightarrow> vector \<Rightarrow> unit res \<times> vector" where
  "vector_Scan fo wide input v = vector_SetValue fo wide input v"

section \<open>Reading\<close>

definition vec_read :: "nat \<Rightarrow> byte list \<Rightarrow> (nat \<times> byte list) res" where
  "vec_read sz buffer = (if length buffer < sz then Err VectorType else Ok (be_dec (take sz buffer), drop sz buffer))"

text \<open>The header: format, number of elements, and what is left of the buffer.\<close>

definition vec_count :: "nat \<Rightarrow> byte list \<Rightarrow> (nat \<times> byte list) res" where
  "vec_count fl buffer =
    (if fl AND 1 > 0 then vec_read 1 buffer else if fl AND 2 > 0 then vec_read 4 buffer else vec_read 2 buffer)"

definition vec_preamble :: "byte list \<Rightarrow> (nat \<times> nat \<times> byte list) res" where
  "vec_preamble buffer =
     rbind (vec_read 1 buffer) (\<lambda>(magicNumber, buffer).
       if magicNumber \<noteq> 219 then Err VectorType
       else rbind (vec_read 1 buffer) (\<lambda>(version, buffer).
         if version \<noteq> 0 then Err (VectorVersion (int version))
         else rbind (vec_read 2 buffer) (\<lambda>(fl, buffer).
              rbind (vec_read 1 buffer) (\<lambda>(format, buffer).
              rbind (vec_count fl buffer) (\<lambda>(count, buffer).
                Ok (format, count, if fl AND 0x10 > 0 then drop 8 buffer else buffer))))))"

text \<open>The elements, read through \<open>Number.Value\<close>: the numbers, and the buffer with the bytes that decoding has changed. A number
  without bytes has no value, and its place keeps the zero it was made with.\<close>

fun vec_floats :: "nat \<Rightarrow> u16 \<Rightarrow> (num_value \<Rightarrow> 'a) \<Rightarrow> nat \<Rightarrow> byte list \<Rightarrow> 'a list res \<times> byte list" where
  "vec_floats sz dt get 0 buffer = (Ok [], buffer)"
| "vec_floats sz dt get (Suc count) buffer =
    (case number_Value (SetDataType dt (SetBytes (Some (take sz buffer)) \<lparr>bValue = None, dataType = 0\<rparr>)) of
       (Ok v, n) \<Rightarrow> (case vec_floats sz dt get count (drop sz buffer) of
           (r, rest) \<Rightarrow> (res_map (\<lambda>xs. get v # xs) r, slice_bytes (bValue n) @ rest))
     | (Err e, n) \<Rightarrow> (Err e, slice_bytes (bValue n) @ drop sz buffer)
     | (Panic, n) \<Rightarrow> (Panic, slice_bytes (bValue n) @ drop sz buffer))"

definition float_of :: "num_value \<Rightarrow> u32" where
  "float_of v = (case v of FloatV x \<Rightarrow> x | _ \<Rightarrow> 0)"

definition double_of :: "num_value \<Rightarrow> u64" where
  "double_of v = (case v of DoubleV x \<Rightarrow> x | _ \<Rightarrow> 0)"

text \<open>Bytes past the end are read as zeros: the error of \<open>ReadByte\<close> is not looked at.\<close>

definition vec_bytes :: "nat \<Rightarrow> byte list \<Rightarrow> byte list" where
  "vec_bytes count buffer = take count buffer @ replicate (count - length buffer) 0"

datatype vec_value = VecNil | VecBytes "byte list" | VecFloats "u32 list" | VecDoubles "u64 list"

definition vector_Value :: "vector \<Rightarrow> vec_value res \<times> vector" where
  "vector_Value v = (let bs = slice_bytes (bValue v) in
     if bs = [] then (Ok VecNil, v)
     else case vec_preamble bs of
         Err e \<Rightarrow> (Err e, v) | Panic \<Rightarrow> (Panic, v)
       | Ok (format, count, buffer) \<Rightarrow>
           let pre = take (length bs - length buffer) bs in
           if format = 2 then (case vec_floats 4 IBFLOAT float_of count buffer of
               (r, rest) \<Rightarrow> (res_map VecFloats r, v\<lparr>bValue := Some (pre @ rest)\<rparr>))
           else if format = 3 then (case vec_floats 8 IBDOUBLE double_of count buffer of
               (r, rest) \<Rightarrow> (res_map VecDoubles r, v\<lparr>bValue := Some (pre @ rest)\<rparr>))
           else if format = 4 then (Ok (VecBytes (vec_bytes count buffer)), v)
           else (Err (VectorFormat (int format)), v))"

section \<open>Copying into a Go variable\<close>

datatype vec_dest = PVector | PByteSlice | PFloatSlice | PDoubleSlice | PAnyDest

datatype vec_copy = CopyVector vector | CopyValue vec_value

definition vector_CopyTo :: "vec_dest \<Rightarrow> vector \<Rightarrow> vec_copy res \<times> vector" where
  "vector_CopyTo dest v = (case vector_Value v of
       (Err e, v) \<Rightarrow> (Err e, v) | (Panic, v) \<Rightarrow> (Panic, v)
     | (Ok val, v) \<Rightarrow>
         (case (dest, val) of
            (PVector, _) \<Rightarrow> Ok (CopyVector v)
          | (PByteSlice, VecBytes _) \<Rightarrow> Ok (CopyValue val) | (PFloatSlice, VecFloats _) \<Rightarrow> Ok (CopyValue val)
          | (PDoubleSlice, VecDoubles _) \<Rightarrow> Ok (CopyValue val)
          | (PByteSlice, VecNil) \<Rightarrow> Ok (CopyValue val) | (PFloatSlice, VecNil) \<Rightarrow> Ok (CopyValue val)
          | (PDoubleSlice, VecNil) \<Rightarrow> Ok (CopyValue val)
          | _ \<Rightarrow> Err UnsupportedType, v))"

end
