(* ===== verification/Oracle_Vector_Props.thy ===== *)
theory Oracle_Vector_Props
  imports Oracle_Vector Oracle_Number_Props
begin

text \<open>
  What a vector keeps: bytes are read back as they were set; floats and doubles are read back up to the patterns that the binary number
  formats lose, of which zero is one; and reading changes the vector, so that only the first reading is right.
\<close>

section \<open>The sign of a big-endian pattern\<close>

definition enc_sign :: "bool \<Rightarrow> byte list \<Rightarrow> byte list" where
  "enc_sign pos b = (if pos then (hd b OR 128) # tl b else map (\<lambda>b. NOT b) b)"

definition dec_sign :: "byte list \<Rightarrow> byte list" where
  "dec_sign b = (if hd b AND 128 \<noteq> 0 then (hd b AND 127) # tl b else map (\<lambda>b. NOT b) b)"

lemma length_sign [simp]: "b \<noteq> [] \<Longrightarrow> length (enc_sign pos b) = length b" "b \<noteq> [] \<Longrightarrow> length (dec_sign b) = length b"
  by (simp_all add: enc_sign_def dec_sign_def)

lemma enc_sign_nonempty [simp]: "b \<noteq> [] \<Longrightarrow> enc_sign pos b \<noteq> []"
  by (simp add: enc_sign_def)

lemma byte_sign:
  fixes h :: byte
  shows "h AND 128 \<noteq> 0 \<longleftrightarrow> 128 \<le> unat h" and "128 \<le> unat h \<Longrightarrow> unat (h AND 127) = unat h - 128"
    and "unat h < 128 \<Longrightarrow> unat (h OR 128) = unat h + 128"
proof -
  have h: "h = of_nat (unat h)" by simp
  have le: "unat h < 256" by simp
  show iff: "h AND 128 \<noteq> 0 \<longleftrightarrow> 128 \<le> unat h"
    using byte_low(1) [of "unat h"] byte_high [of "unat h"] le by (cases "unat h < 128") auto
  show low: "unat (h OR 128) = unat h + 128" if "unat h < 128" for h :: byte
  proof -
    have "h AND 128 = 0" using byte_low(1) [of "unat h"] that by simp
    then have "h OR 128 = h + 128" by (simp add: disjunctive_add_eq_or)
    then show ?thesis using that by (simp add: unat_add_lem [THEN iffD1])
  qed
  assume high: "128 \<le> unat h"
  define k where "k = unat h - 128"
  have k: "k < 128" "unat h = k + 128" unfolding k_def using high le by linarith+
  have "h = of_nat (k + 128)" using k(2) h by simp
  also have "\<dots> = of_nat k + 128" by simp
  also have "\<dots> = of_nat k OR 128" using byte_low(1) [OF k(1)] by (intro disjunctive_add_eq_or) simp
  finally have "h AND 127 = of_nat k AND 127" by (simp add: bit.conj_disj_distrib2)
  also have "\<dots> = of_nat k" by (rule byte_low(2) [OF k(1)])
  finally have "unat (h AND 127) = unat (of_nat k :: byte)" by (rule arg_cong)
  then show "unat (h AND 127) = unat h - 128" using k by (simp add: unat_of_nat)
qed

lemma sign_values:
  assumes "length b = Suc m"
  shows "be_dec (dec_sign b) = (if 128 * 256 ^ m \<le> be_dec b then be_dec b - 128 * 256 ^ m else 256 ^ Suc m - 1 - be_dec b)"
    and "be_dec (enc_sign pos b) = (if pos then (if 128 * 256 ^ m \<le> be_dec b then be_dec (enc_sign True b) else be_dec b + 128 * 256 ^ m)
      else 256 ^ Suc m - 1 - be_dec b)"
proof -
  obtain h t where b: "b = h # t" "length t = m" using assms by (cases b) auto
  have t: "be_dec t < 256 ^ m" using be_dec_less [of t] b(2) by simp
  have v: "be_dec b = unat h * 256 ^ m + be_dec t" using b by (simp add: be_dec_Cons)
  have high: "128 * 256 ^ m \<le> be_dec b \<longleftrightarrow> 128 \<le> unat h"
  proof
    assume "128 \<le> unat h"
    then have "128 * 256 ^ m \<le> unat h * 256 ^ m" by (rule mult_le_mono1)
    then show "128 * 256 ^ m \<le> be_dec b" unfolding v by (rule trans_le_add1)
  next
    assume le: "128 * 256 ^ m \<le> be_dec b"
    show "128 \<le> unat h"
    proof (rule ccontr)
      assume "\<not> 128 \<le> unat h"
      then have "unat h \<le> 127" by simp
      then have "unat h * 256 ^ m \<le> 127 * 256 ^ m" by (rule mult_le_mono1)
      then have "unat h * 256 ^ m + be_dec t < 127 * 256 ^ m + 256 ^ m" using t by (rule add_le_less_mono)
      also have "\<dots> = 128 * 256 ^ m" by simp
      finally show False using le v by simp
    qed
  qed
  have neg: "be_dec (map (\<lambda>b. NOT b) b) = 256 ^ Suc m - 1 - be_dec b" using be_dec_NOT [of b] assms by simp
  show "be_dec (dec_sign b) = (if 128 * 256 ^ m \<le> be_dec b then be_dec b - 128 * 256 ^ m else 256 ^ Suc m - 1 - be_dec b)"
  proof (cases "128 \<le> unat h")
    case True
    then have "be_dec (dec_sign b) = (unat h - 128) * 256 ^ m + be_dec t"
      using byte_sign [of h] b by (simp add: dec_sign_def be_dec_Cons)
    also have "\<dots> = be_dec b - 128 * 256 ^ m" using True v by (simp add: diff_mult_distrib)
    finally show ?thesis using True high by simp
  next
    case False
    then have "dec_sign b = map (\<lambda>b. NOT b) b" using byte_sign(1) [of h] b by (auto simp: dec_sign_def)
    then show ?thesis using False high neg by simp
  qed
  show "be_dec (enc_sign pos b) = (if pos then (if 128 * 256 ^ m \<le> be_dec b then be_dec (enc_sign True b) else be_dec b + 128 * 256 ^ m)
      else 256 ^ Suc m - 1 - be_dec b)"
    using byte_sign(3) [of h] b v high neg by (auto simp: enc_sign_def be_dec_Cons algebra_simps)
qed

lemma bytes_eqI: "length b = length c \<Longrightarrow> be_dec b = be_dec c \<Longrightarrow> b = c"
  by (metis be_enc_dec)

section \<open>Doubles and floats\<close>

definition back64 :: "u64 \<Rightarrow> u64" where
  "back64 x = (if f64_positive x \<or> 2 ^ 63 \<le> unat x then x else 0x7FFFFFFFFFFFFFFF - x)"

definition again64 :: "u64 \<Rightarrow> u64" where
  "again64 y = (if 2 ^ 63 \<le> unat y then y - 0x8000000000000000 else NOT y)"

definition back32 :: "u32 \<Rightarrow> u32" where
  "back32 x = (if f32_positive x \<or> 2 ^ 31 \<le> unat x then x else 0x7FFFFFFF - x)"

definition again32 :: "u32 \<Rightarrow> u32" where
  "again32 y = (if 2 ^ 31 \<le> unat y then y - 0x80000000 else NOT y)"

lemma unat_back:
  "unat (back64 x) = (if f64_positive x \<or> 2 ^ 63 \<le> unat x then unat x else 2 ^ 63 - 1 - unat x)"
  "unat (back32 z) = (if f32_positive z \<or> 2 ^ 31 \<le> unat z then unat z else 2 ^ 31 - 1 - unat z)"
  by (auto simp: back64_def back32_def unat_sub_if')

lemma unat_NOT: "unat (NOT x) = 2 ^ 64 - 1 - unat x" "unat (NOT z) = 2 ^ 32 - 1 - unat z" for x :: u64 and z :: u32
proof -
  have "NOT x = 0xFFFFFFFFFFFFFFFF - x" "NOT z = 0xFFFFFFFF - z" by (simp_all add: not_eq_complement)
  then show "unat (NOT x) = 2 ^ 64 - 1 - unat x" "unat (NOT z) = 2 ^ 32 - 1 - unat z"
    using unat_less_pow [of x] unat_less_pow [of z] by (simp_all add: unat_sub_if')
qed

lemma unat_again:
  "unat (again64 x) = (if 2 ^ 63 \<le> unat x then unat x - 2 ^ 63 else 2 ^ 64 - 1 - unat x)"
  "unat (again32 z) = (if 2 ^ 31 \<le> unat z then unat z - 2 ^ 31 else 2 ^ 32 - 1 - unat z)"
  by (auto simp: again64_def again32_def unat_sub_if' unat_NOT)

lemma be_dec_word: "be_dec (be_enc 8 (unat (x :: u64))) = unat x" "be_dec (be_enc 4 (unat (z :: u32))) = unat z"
  using unat_less_pow [of x] unat_less_pow [of z] by (simp_all add: be_dec_enc)

lemma be_dec_enc_less: "n < 256 ^ k \<Longrightarrow> be_dec (be_enc k n) = n"
  by (simp add: be_dec_enc)

lemma sign_bytes:
  assumes "n < 256 ^ Suc m" and "pos \<Longrightarrow> n < 128 * 256 ^ m"
  shows "dec_sign (enc_sign pos (be_enc (Suc m) n))
      = be_enc (Suc m) (if pos \<or> 128 * 256 ^ m \<le> n then n else 128 * 256 ^ m - 1 - n)"
    and "dec_sign (be_enc (Suc m) n) = be_enc (Suc m) (if 128 * 256 ^ m \<le> n then n - 128 * 256 ^ m else 256 ^ Suc m - 1 - n)"
proof -
  define b where "b = be_enc (Suc m) n"
  let ?half = "128 * 256 ^ m :: nat"
  have len: "length b = Suc m" by (simp only: b_def length_be_enc)
  then have ne: "b \<noteq> []" by auto
  have half: "0 < ?half" "256 ^ Suc m = 2 * ?half" by simp_all
  have v: "be_dec b = n" unfolding b_def by (rule be_dec_enc_less [OF assms(1)])
  have e: "be_dec (enc_sign pos b) = (if pos then n + ?half else 256 ^ Suc m - 1 - n)"
    using sign_values(2) [OF len, of pos] assms(2) v by auto
  have "be_dec (dec_sign (enc_sign pos b)) = (if pos \<or> ?half \<le> n then n else ?half - 1 - n)"
    using sign_values(1) [of "enc_sign pos b" m] len ne e half assms(1) by auto
  moreover have "(if pos \<or> ?half \<le> n then n else ?half - 1 - n) < 256 ^ Suc m" using assms(1) half by auto
  ultimately show "dec_sign (enc_sign pos b) = be_enc (Suc m) (if pos \<or> ?half \<le> n then n else ?half - 1 - n)"
    using len ne by (intro bytes_eqI) (simp_all only: be_dec_enc_less length_be_enc length_sign enc_sign_nonempty not_False_eq_True)
  have "be_dec (dec_sign b) = (if ?half \<le> n then n - ?half else 256 ^ Suc m - 1 - n)"
    using sign_values(1) [OF len] v by simp
  moreover have "(if ?half \<le> n then n - ?half else 256 ^ Suc m - 1 - n) < 256 ^ Suc m" using assms(1) half by auto
  ultimately show "dec_sign b = be_enc (Suc m) (if ?half \<le> n then n - ?half else 256 ^ Suc m - 1 - n)"
    using len ne by (intro bytes_eqI) (simp_all only: be_dec_enc_less length_be_enc length_sign enc_sign_nonempty not_False_eq_True)
qed

lemma sign_back:
  "dec_sign (enc_sign (f64_positive x) (be_enc 8 (unat x))) = be_enc 8 (unat (back64 x))"
  "dec_sign (enc_sign (f32_positive z) (be_enc 4 (unat z))) = be_enc 4 (unat (back32 z))"
proof -
  have p: "f64_positive x \<Longrightarrow> unat x < 2 ^ 63" "f32_positive z \<Longrightarrow> unat z < 2 ^ 31"
    by (simp_all add: f64_positive_def f32_positive_def word_le_nat_alt)
  show "dec_sign (enc_sign (f64_positive x) (be_enc 8 (unat x))) = be_enc 8 (unat (back64 x))"
    using sign_bytes(1) [of "unat x" 7 "f64_positive x"] p(1) unat_less_pow [of x] by (simp add: unat_back)
  show "dec_sign (enc_sign (f32_positive z) (be_enc 4 (unat z))) = be_enc 4 (unat (back32 z))"
    using sign_bytes(1) [of "unat z" 3 "f32_positive z"] p(2) unat_less_pow [of z] by (simp add: unat_back)
qed

lemma sign_again:
  "dec_sign (be_enc 8 (unat x)) = be_enc 8 (unat (again64 x))" "dec_sign (be_enc 4 (unat z)) = be_enc 4 (unat (again32 z))"
  for x :: u64 and z :: u32
  using sign_bytes(2) [of "unat x" 7 False] sign_bytes(2) [of "unat z" 3 False] unat_less_pow [of x] unat_less_pow [of z]
  by (simp_all add: unat_again)

section \<open>A number as an element\<close>

lemma chunk_read:
  "length b = 8 \<Longrightarrow> number_Value (SetDataType IBDOUBLE (SetBytes (Some b) \<lparr>bValue = None, dataType = 0\<rparr>))
      = (Ok (DoubleV (of_nat (be_dec (dec_sign b)))), \<lparr>bValue = Some (dec_sign b), dataType = IBDOUBLE\<rparr>)"
  "length b = 4 \<Longrightarrow> number_Value (SetDataType IBFLOAT (SetBytes (Some b) \<lparr>bValue = None, dataType = 0\<rparr>))
      = (Ok (FloatV (of_nat (be_dec (dec_sign b)))), \<lparr>bValue = Some (dec_sign b), dataType = IBFLOAT\<rparr>)"
  by (auto simp: number_Value_def SetDataType_def SetBytes_def decodeDouble_def decodeFloat_def dec_sign_def slice_bytes_def xorBuffer_def
      Let_def res_map_def IBDOUBLE_def IBFLOAT_def)

lemma chunk_written:
  "float_bytes fo IBDOUBLE x = Ok (enc_sign (f64_positive x) (be_enc 8 (unat x)))"
  "float_bytes fo IBFLOAT y = Ok (enc_sign (f32_positive (f32_of_f64 fo y)) (be_enc 4 (unat (f32_of_f64 fo y))))"
  by (simp_all add: float_bytes_def number_SetValue_def SetDataType_def set_temp_def temp_value_def encodeFloat64_def encodeFloat32_def
      enc_sign_def default_type_def Bytes_def slice_bytes_def xorBuffer_def Let_def IBDOUBLE_def IBFLOAT_def)

lemma float_list_written:
  "float_list fo IBDOUBLE xs = Ok (concat (map (\<lambda>x. enc_sign (f64_positive x) (be_enc 8 (unat x))) xs))"
  "\<forall>z\<in>set zs. f32_of_f64 fo (wide z) = z \<Longrightarrow>
    float_list fo IBFLOAT (map wide zs) = Ok (concat (map (\<lambda>z. enc_sign (f32_positive z) (be_enc 4 (unat z))) zs))"
  by (induction xs, simp_all add: chunk_written(1) del: be_enc.simps) (induction zs, simp_all add: chunk_written(2) del: be_enc.simps)

section \<open>Reading the elements\<close>

text \<open>What reading one element returns, and what it leaves in its place.\<close>

locale vector_elements =
  fixes sz :: nat and dt :: u16 and get :: "num_value \<Rightarrow> 'a" and before after :: "'a \<Rightarrow> byte list" and val :: "'a \<Rightarrow> 'a"
  assumes length_before [simp]: "length (before x) = sz"
    and element_read: "\<exists>v n. number_Value (SetDataType dt (SetBytes (Some (before x)) \<lparr>bValue = None, dataType = 0\<rparr>)) = (Ok v, n)
      \<and> get v = val x \<and> bValue n = Some (after x)"
begin

lemma floats_read:
  "vec_floats sz dt get (length xs) (concat (map before xs) @ rest) = (Ok (map val xs), concat (map after xs) @ rest)"
proof (induction xs)
  case (Cons x xs)
  obtain v n where "number_Value (SetDataType dt (SetBytes (Some (before x)) \<lparr>bValue = None, dataType = 0\<rparr>)) = (Ok v, n)"
      "get v = val x" "bValue n = Some (after x)"
    using element_read by blast
  then show ?case using Cons.IH by (simp add: res_map_def slice_bytes_def)
qed simp

end

lemma element_words: "of_nat (be_dec (be_enc 8 (unat x))) = x" "of_nat (be_dec (be_enc 4 (unat z))) = z" for x :: u64 and z :: u32
  unfolding be_dec_word by simp_all

lemma length_written: "length (enc_sign p (be_enc 8 n)) = 8" "length (enc_sign p (be_enc 4 n)) = 4"
  using length_be_enc [of 8 n] length_be_enc [of 4 n] by (auto simp del: be_enc.simps simp: enc_sign_def)

interpretation doubles: vector_elements 8 IBDOUBLE double_of "\<lambda>x. enc_sign (f64_positive x) (be_enc 8 (unat x))"
    "\<lambda>x. be_enc 8 (unat (back64 x))" "back64"
  by unfold_locales (simp_all add: length_written chunk_read sign_back element_words double_of_def comp_def del: be_enc.simps)

interpretation doubles_again: vector_elements 8 IBDOUBLE double_of "\<lambda>x. be_enc 8 (unat x)"
    "\<lambda>x. be_enc 8 (unat (again64 x))" "again64"
  by unfold_locales (simp_all add: length_be_enc chunk_read sign_again element_words double_of_def comp_def del: be_enc.simps)

interpretation floats: vector_elements 4 IBFLOAT float_of "\<lambda>z. enc_sign (f32_positive z) (be_enc 4 (unat z))"
    "\<lambda>z. be_enc 4 (unat (back32 z))" "back32"
  by unfold_locales (simp_all add: length_written chunk_read sign_back element_words float_of_def comp_def del: be_enc.simps)

interpretation floats_again: vector_elements 4 IBFLOAT float_of "\<lambda>z. be_enc 4 (unat z)"
    "\<lambda>z. be_enc 4 (unat (again32 z))" "again32"
  by unfold_locales (simp_all add: length_be_enc chunk_read sign_again element_words float_of_def comp_def del: be_enc.simps)

section \<open>Round trips\<close>

lemma header_read:
  assumes "n < 2 ^ 32"
  shows "vec_preamble (vec_header format n @ data) = Ok (unat format, n, data)"
proof -
  have n: "unat (of_nat n :: u32) = n" "be_dec (be_enc 4 n) = n" using assms by (simp_all add: unat_of_nat be_dec_enc)
  have fl: "be_dec (be_enc 2 18) = 18" by (simp add: be_dec_enc del: be_enc.simps)
  have len: "length (be_enc 2 18) = 2" "length (be_enc 4 n) = 4" by (rule length_be_enc)+
  show ?thesis
    by (simp add: vec_preamble_def vec_header_def vec_read_def vec_count_def n fl len be_dec_Cons del: be_enc.simps)
qed

lemma length_header [simp]: "length (vec_header format n) = 17"
  by (simp add: vec_header_def length_be_enc del: be_enc.simps)

lemma header_nonempty [simp]: "vec_header format n \<noteq> []"
  by (metis length_header list.size(3) zero_neq_numeral)

lemma created:
  "CreateVector fo wide (VBytes (Plain bs)) = (Ok (), \<lparr>bValue = Some (vec_header 4 (length bs) @ bs), dataType = 0,
      loc = Some (NewQuasiLocator (of_nat (17 + length bs)))\<rparr>)"
  "snd (CreateVector fo wide (VDoubles (Plain xs))) = v \<Longrightarrow>
    bValue v = Some (vec_header 3 (length xs) @ concat (map (\<lambda>x. enc_sign (f64_positive x) (be_enc 8 (unat x))) xs))"
  "\<forall>z\<in>set zs. f32_of_f64 fo (wide z) = z \<Longrightarrow> snd (CreateVector fo wide (VFloats (Plain zs))) = v \<Longrightarrow>
    bValue v = Some (vec_header 2 (length zs) @ concat (map (\<lambda>z. enc_sign (f32_positive z) (be_enc 4 (unat z))) zs))"
  by (auto simp: CreateVector_def vector_SetValue_def vec_data_def float_list_written Let_def simp del: be_enc.simps)

lemma value_at:
  assumes "bValue v = Some (vec_header format n @ data)" and "n < 2 ^ 32"
  shows "vector_Value v = (if format = 2 then (case vec_floats 4 IBFLOAT float_of n data of
        (r, rest) \<Rightarrow> (res_map VecFloats r, v\<lparr>bValue := Some (vec_header format n @ rest)\<rparr>))
      else if format = 3 then (case vec_floats 8 IBDOUBLE double_of n data of
        (r, rest) \<Rightarrow> (res_map VecDoubles r, v\<lparr>bValue := Some (vec_header format n @ rest)\<rparr>))
      else if format = 4 then (Ok (VecBytes (vec_bytes n data)), v)
      else (Err (VectorFormat (uint format)), v))"
proof -
  have "unat format = k \<longleftrightarrow> format = of_nat k" if "k < 256" for k using that by (auto simp: unat_of_nat)
  then have format: "unat format = 2 \<longleftrightarrow> format = 2" "unat format = 3 \<longleftrightarrow> format = 3" "unat format = 4 \<longleftrightarrow> format = 4" by simp_all
  show ?thesis
    using assms(1) header_read [OF assms(2), of format data]
    by (simp add: vector_Value_def slice_bytes_def Let_def format split del: if_split cong: if_cong)
qed

lemmas element_lists = doubles.floats_read [where rest = "[]", simplified] doubles_again.floats_read [where rest = "[]", simplified]
  floats.floats_read [where rest = "[]", simplified] floats_again.floats_read [where rest = "[]", simplified]

lemma doubles_value:
  assumes "length xs < 2 ^ 32" and "bValue v = Some (vec_header 3 (length xs) @ concat (map (\<lambda>x. enc_sign (f64_positive x) (be_enc 8 (unat x))) xs))"
  shows "vector_Value v = (Ok (VecDoubles (map back64 xs)),
    v\<lparr>bValue := Some (vec_header 3 (length xs) @ concat (map (\<lambda>x. be_enc 8 (unat (back64 x))) xs))\<rparr>)"
  using value_at [OF assms(2) assms(1)] by (simp add: element_lists res_map_def del: be_enc.simps)

lemma floats_value:
  assumes "length zs < 2 ^ 32" and "bValue v = Some (vec_header 2 (length zs) @ concat (map (\<lambda>z. enc_sign (f32_positive z) (be_enc 4 (unat z))) zs))"
  shows "vector_Value v = (Ok (VecFloats (map back32 zs)),
    v\<lparr>bValue := Some (vec_header 2 (length zs) @ concat (map (\<lambda>z. be_enc 4 (unat (back32 z))) zs))\<rparr>)"
  using value_at [OF assms(2) assms(1)] by (simp add: element_lists res_map_def del: be_enc.simps)

lemma doubles_value_again:
  assumes "length xs < 2 ^ 32" and "bValue v = Some (vec_header 3 (length xs) @ concat (map (\<lambda>x. be_enc 8 (unat x)) xs))"
  shows "fst (vector_Value v) = Ok (VecDoubles (map again64 xs))"
  using value_at [OF assms(2) assms(1)] by (simp add: element_lists res_map_def del: be_enc.simps)

text \<open>
  C11. Vectors: what \<open>Vector.Value\<close> returns for a vector made from bytes, doubles or floats, of any length that fits the
  header. Bytes come back as they are; so does every number above zero and every pattern with the sign bit set; a zero
  comes back as a NaN. The hypothesis on floats says that widening a float to a double and narrowing it again loses nothing.\<close>

theorem vector_roundtrip:
  assumes "length bs < 2 ^ 32" and "length xs < 2 ^ 32" and "length zs < 2 ^ 32" and "\<forall>z\<in>set zs. f32_of_f64 fo (wide z) = z"
  shows "fst (vector_Value (snd (CreateVector fo wide (VBytes (Plain bs))))) = Ok (VecBytes bs)
    \<and> fst (vector_Value (snd (CreateVector fo wide (VDoubles (Plain xs))))) = Ok (VecDoubles (map back64 xs))
    \<and> fst (vector_Value (snd (CreateVector fo wide (VFloats (Plain zs))))) = Ok (VecFloats (map back32 zs))"
proof (intro conjI)
  show "fst (vector_Value (snd (CreateVector fo wide (VBytes (Plain bs))))) = Ok (VecBytes bs)"
    using value_at [of "snd (CreateVector fo wide (VBytes (Plain bs)))" 4 "length bs" bs] assms(1) by (simp add: created(1) vec_bytes_def)
  show "fst (vector_Value (snd (CreateVector fo wide (VDoubles (Plain xs))))) = Ok (VecDoubles (map back64 xs))"
    using doubles_value [OF assms(2) created(2) [OF refl]] by (simp del: be_enc.simps)
  show "fst (vector_Value (snd (CreateVector fo wide (VFloats (Plain zs))))) = Ok (VecFloats (map back32 zs))"
    using floats_value [OF assms(3) created(3) [OF assms(4) refl]] by (simp del: be_enc.simps)
qed

text \<open>
  Reading a vector of doubles changes it: the second \<open>Vector.Value\<close>, and a \<open>Vector\<close> that \<open>CopyTo\<close> made, give other
  numbers: of a number above zero all bits are inverted.\<close>

theorem vector_read_twice:
  assumes "length xs < 2 ^ 32" and "\<forall>x\<in>set xs. f64_positive x" and "snd (CreateVector fo wide (VDoubles (Plain xs))) = v"
  shows "fst (vector_Value v) = Ok (VecDoubles xs) \<and> fst (vector_Value (snd (vector_Value v))) = Ok (VecDoubles (map NOT xs))
    \<and> (\<exists>w. fst (vector_CopyTo PVector v) = Ok (CopyVector w) \<and> fst (vector_Value w) = Ok (VecDoubles (map NOT xs)))"
proof -
  have b: "map back64 xs = xs" using assms(2) by (simp add: back64_def map_idI)
  have a: "map again64 xs = map NOT xs" using assms(2) f64_positive_less by (fastforce simp: again64_def)
  note first = doubles_value [OF assms(1) created(2) [OF assms(3)]]
  have "map (\<lambda>x. be_enc 8 (unat (back64 x))) xs = map (\<lambda>x. be_enc 8 (unat x)) (map back64 xs)" by (simp add: comp_def)
  also have "\<dots> = map (\<lambda>x. be_enc 8 (unat x)) xs" by (simp only: b)
  finally have "bValue (snd (vector_Value v)) = Some (vec_header 3 (length xs) @ concat (map (\<lambda>x. be_enc 8 (unat x)) xs))"
    using first by (simp only: snd_conv) simp
  from doubles_value_again [OF assms(1) this] show ?thesis
    using first by (simp add: a b vector_CopyTo_def del: be_enc.simps)
qed

theorem vector_roundtrip_witness:
  "fst (vector_Value (snd (CreateVector \<lparr>FormatFloat = \<lambda>_. [], ParseFloat64 = \<lambda>_. Err InvalidNumber, ParseFloat32 = \<lambda>_. Err InvalidNumber,
      f64_of_int = of_int, f32_of_int = of_int, f32_of_f64 = \<lambda>x. if x = 0x3FF0000000000000 then 0x3F800000 else 0\<rparr>
      (\<lambda>z. if z = 0x3F800000 then 0x3FF0000000000000 else 0) (VFloats (Plain [0x3F800000, 0]))))) = Ok (VecFloats [0x3F800000, 0x7FFFFFFF])"
  using vector_roundtrip [of "[]" "[]" "[0x3F800000, 0]" "\<lparr>FormatFloat = \<lambda>_. [], ParseFloat64 = \<lambda>_. Err InvalidNumber,
      ParseFloat32 = \<lambda>_. Err InvalidNumber, f64_of_int = of_int, f32_of_int = of_int, f32_of_f64 = \<lambda>x. if x = 0x3FF0000000000000 then 0x3F800000 else 0\<rparr>"
      "\<lambda>z. if z = 0x3F800000 then 0x3FF0000000000000 else 0"]
  by (simp add: back32_def f32_positive_def)

theorem vector_read_twice_witness:
  "\<exists>v. snd (CreateVector \<lparr>FormatFloat = \<lambda>_. [], ParseFloat64 = \<lambda>_. Err InvalidNumber, ParseFloat32 = \<lambda>_. Err InvalidNumber,
        f64_of_int = of_int, f32_of_int = of_int, f32_of_f64 = ucast\<rparr> ucast (VDoubles (Plain [0x3FF0000000000000]))) = v
    \<and> fst (vector_Value v) = Ok (VecDoubles [0x3FF0000000000000])
    \<and> fst (vector_Value (snd (vector_Value v))) = Ok (VecDoubles [0xC00FFFFFFFFFFFFF])"
  using vector_read_twice [OF _ _ refl, of "[0x3FF0000000000000]"] by (simp add: f64_positive_def)

end
