(* ===== verification/Column_Info.thy ===== *)
theory Column_Info
  imports Conn_Calls Lob_Stream Oracle_Vector "HOL-Library.AList"
begin

text \<open>
  Parameters and columns: \<^verbatim>\<open>ParameterInfo\<close> of \<^verbatim>\<open>v3/parameter.go\<close> with the \<^verbatim>\<open>BasicParameter\<close> it embeds, its description on the wire in
  both directions, and the decoders of \<^verbatim>\<open>v3/parameter_coder\<close> that turn the bytes of a column into a value. The coders are those that the
  driver registers itself (\<^verbatim>\<open>driver.go\<close>); coders of user-defined types are not.
\<close>

section \<open>Data types\<close>

definition NCHAR :: u16 where "NCHAR = 1"
definition LONG :: u16 where "LONG = 8"
definition RAW :: u16 where "RAW = 23"
definition LongRaw :: u16 where "LongRaw = 24"
definition LongVarChar :: u16 where "LongVarChar = 94"
definition LongVarRaw :: u16 where "LongVarRaw = 95"
definition CHAR_T :: u16 where "CHAR_T = 96"
definition REFCURSOR :: u16 where "REFCURSOR = 102"
definition XMLType :: u16 where "XMLType = 109"
definition OCIClobLocator :: u16 where "OCIClobLocator = 112"
definition OCIBlobLocator :: u16 where "OCIBlobLocator = 113"
definition OCIFileLocator :: u16 where "OCIFileLocator = 114"
definition JSON_T :: u16 where "JSON_T = 119"
definition VECTOR_T :: u16 where "VECTOR_T = 127"
definition IntervalYM :: u16 where "IntervalYM = 189"
definition IntervalDS :: u16 where "IntervalDS = 190"
definition BOOLEAN :: u16 where "BOOLEAN = 252"

lemmas column_types = NCHAR_def LONG_def RAW_def LongRaw_def LongVarChar_def LongVarRaw_def CHAR_T_def REFCURSOR_def XMLType_def
  OCIClobLocator_def OCIBlobLocator_def OCIFileLocator_def JSON_T_def VECTOR_T_def IntervalYM_def IntervalDS_def BOOLEAN_def
  NUMBER_def IBFLOAT_def IBDOUBLE_def DATE_T_def TimeStampDTY_def TimeStampTZ_DTY_def INTERVALYM_DTY_def INTERVALDS_DTY_def
  TIMESTAMP_def TIMESTAMPTZ_def TimeStampLTZ_DTY_def TimeStampLTZ_def ROWID_def UROWID_def

section \<open>The description of a column\<close>

text \<open>Annotations are a map; \<open>VectorType\<close> is true for a sparse vector.\<close>

record param_info =
  cName :: "byte list"
  cSchemaName :: "byte list"
  cTypeName :: "byte list"
  cDomainSchema :: "byte list"
  cDomainName :: "byte list"
  cDataType :: u16
  cFlag :: byte
  cPrecision :: byte
  cScale :: byte
  cMaxLen :: int
  cArraySize :: int
  cContFlag :: int
  cToID :: nslice
  cVersion :: int
  cCharsetID :: int
  cCharsetForm :: int
  cMaxCharLen :: int
  oaccollid :: int
  cAllowNull :: bool
  cIsNull :: bool
  cIsJson :: bool
  cIsXmlType :: bool
  getDataFromServer :: bool
  cBValue :: nslice
  cAnnotations :: "(byte list \<times> byte list) list option"
  cVectorDim :: int
  cVectorFormat :: byte
  cVectorFlag :: byte
  cVectorSparse :: bool
  originalDataType :: "u16 option"
  rawPrecision :: int
  rawScale :: int
  precisionScaleKnown :: bool
  unconstrainedNumber :: bool
  nullabilityKnown :: bool
  lobModes :: "(bool \<times> bool) option"   \<comment> \<open>INLINE fetch and AUTO read of the connection, when known\<close>

definition zero_info :: param_info where
  "zero_info = \<lparr>cName = [], cSchemaName = [], cTypeName = [], cDomainSchema = [], cDomainName = [], cDataType = 0, cFlag = 0, cPrecision = 0,
     cScale = 0, cMaxLen = 0, cArraySize = 0, cContFlag = 0, cToID = None, cVersion = 0, cCharsetID = 0, cCharsetForm = 0, cMaxCharLen = 0,
     oaccollid = 0, cAllowNull = False, cIsNull = False, cIsJson = False, cIsXmlType = False, getDataFromServer = False, cBValue = None,
     cAnnotations = None, cVectorDim = 0, cVectorFormat = 0, cVectorFlag = 0, cVectorSparse = False, originalDataType = None,
     rawPrecision = 0, rawScale = 0, precisionScaleKnown = False, unconstrainedNumber = False, nullabilityKnown = False, lobModes = None\<rparr>"

text \<open>What a statement takes from its connection's configuration and from outside. \<open>env_slack\<close> stands for the bytes behind the length of the
  slice that a row identifier is read into, \<open>env_spare\<close> for the room that the buffer of a LOB stream gets when it grows.\<close>

record 'n stmt_env =
  env_conn :: "'n conn_env"
  env_inline :: bool
  env_auto :: bool
  env_prefetch :: int
  env_zones :: tz_env
  env_server_zone :: "location option"
  env_slack :: "byte list"
  env_spare :: nat

text \<open>The receiver of \<open>load\<close>, beside the connection it reads from.\<close>

record 'n loading = "'n connection" +
  par :: param_info

type_synonym ('n, 'z, 'a) loadm = "(('n, 'z) loading_scheme, 'a) gom"

definition upd_par :: "(param_info \<Rightarrow> param_info) \<Rightarrow> ('n, 'z) loading_scheme \<Rightarrow> ('n, 'z) loading_scheme" where
  "upd_par f l = l\<lparr>par := f (par l)\<rparr>"

definition isLongType :: "param_info \<Rightarrow> bool" where
  "isLongType c \<longleftrightarrow> cDataType c \<in> {LONG, LongRaw, LongVarChar, LongVarRaw}"

definition isLobType :: "param_info \<Rightarrow> bool" where
  "isLobType c \<longleftrightarrow> cDataType c \<in> {OCIBlobLocator, OCIClobLocator, OCIFileLocator, VECTOR_T, JSON_T}"

definition captureColumnMetadata :: "'n stmt_env \<Rightarrow> param_info \<Rightarrow> param_info" where
  "captureColumnMetadata se c = c\<lparr>lobModes := Some (env_inline se, env_auto se),
     originalDataType := Some (case originalDataType c of None \<Rightarrow> cDataType c | Some t \<Rightarrow> t)\<rparr>"

text \<open>\<open>session.StrConv.Decode\<close>; without a converter it panics.\<close>

definition session_decode :: "nslice \<Rightarrow> ('n, 'z, byte list) conm" where
  "session_decode bs c = (case StrConv c of
       None \<Rightarrow> Some (Panic, c)
     | Some cv \<Rightarrow> (case Decode cv (slice_bytes bs) of None \<Rightarrow> None | Some r \<Rightarrow> Some (r, c)))"

definition int_par :: "'n stmt_env \<Rightarrow> int \<Rightarrow> (int \<Rightarrow> param_info \<Rightarrow> param_info) \<Rightarrow> ('n, 'z, unit) loadm" where
  "int_par se sz upd = gassign 0 (on_sess (GetInt (env_read (env_conn se)) sz True True)) (\<lambda>v. upd_par (upd v))"

definition byte_par :: "'n stmt_env \<Rightarrow> (byte \<Rightarrow> param_info \<Rightarrow> param_info) \<Rightarrow> ('n, 'z, unit) loadm" where
  "byte_par se upd = gassign 0 (on_sess (GetByte (env_read (env_conn se)))) (\<lambda>v. upd_par (upd v))"

definition text_par :: "'n stmt_env \<Rightarrow> (byte list \<Rightarrow> param_info \<Rightarrow> param_info) \<Rightarrow> ('n, 'z, unit) loadm" where
  "text_par se upd = gbind (on_sess (GetDlc (env_read (env_conn se)))) (\<lambda>bs. gbind (session_decode bs) (\<lambda>s. gupd (upd_par (upd s))))"

definition skip_int :: "'n stmt_env \<Rightarrow> int \<Rightarrow> ('n, 'z, unit) conm" where
  "skip_int se sz = gseq (on_sess (GetInt (env_read (env_conn se)) sz True True)) (gret ())"

definition skip_byte :: "'n stmt_env \<Rightarrow> ('n, 'z, unit) conm" where
  "skip_byte se = gseq (on_sess (GetByte (env_read (env_conn se)))) (gret ())"

text \<open>The types whose scale is a number and not a byte.\<close>

definition scaled_types :: "u16 list" where
  "scaled_types = [NUMBER, TimeStampDTY, TimeStampTZ_DTY, INTERVALDS_DTY, TIMESTAMP, TIMESTAMPTZ, IntervalDS, TimeStampLTZ_DTY, TimeStampLTZ]"

text \<open>\<open>math.Ceil(float64(p) * 0.30103)\<close>: for a byte the product is never within the rounding error of an integer other than 0.\<close>

definition decimal_digits :: "byte \<Rightarrow> byte" where
  "decimal_digits p = of_nat ((unat p * 30103 + 99999) div 100000)"

definition set_scale :: "int \<Rightarrow> param_info \<Rightarrow> param_info" where
  "set_scale scale c = (let c = c\<lparr>rawScale := scale, precisionScaleKnown := True,
       unconstrainedNumber := (cDataType c = NUMBER \<and> rawPrecision c = 0 \<and> scale = -127)\<rparr> in
     if scale = -127 then c\<lparr>cPrecision := decimal_digits (cPrecision c), cScale := 0xFF\<rparr>
     else c\<lparr>cScale := word_of_int scale\<rparr>)"

definition default_precision :: "param_info \<Rightarrow> param_info" where
  "default_precision c = (if cDataType c = NUMBER \<and> cPrecision c = 0 \<and> (cScale c = 0 \<or> cScale c = 0xFF)
     then c\<lparr>cPrecision := 38, cScale := 0xFF\<rparr> else c)"

definition load_scale :: "'n stmt_env \<Rightarrow> ('n, 'z, unit) loadm" where
  "load_scale se =
     gseq (gbind (gget (\<lambda>l. cDataType (par l))) (\<lambda>dt.
       if dt \<in> set scaled_types
       then gbind (on_sess (GetInt (env_read (env_conn se)) 2 True True)) (\<lambda>scale. gupd (upd_par (set_scale scale)))
       else gseq (byte_par se (\<lambda>v c. c\<lparr>cScale := v\<rparr>))
              (gupd (upd_par (\<lambda>c. c\<lparr>rawScale := uint (cScale c), precisionScaleKnown := True\<rparr>)))))
     (gupd (upd_par default_precision))"

definition fixed_length :: "u16 \<Rightarrow> int \<Rightarrow> int" where
  "fixed_length dt len =
    (if dt = ROWID then 128 else if dt = DATE_T then 11 else if dt = IBFLOAT then 4 else if dt = IBDOUBLE then 8
     else if dt = TimeStampTZ_DTY then 13
     else if dt \<in> {INTERVALYM_DTY, INTERVALDS_DTY, IntervalYM, IntervalDS} then 11 else len)"

definition load_lengths :: "'n stmt_env \<Rightarrow> byte \<Rightarrow> ('n, 'z, unit) loadm" where
  "load_lengths se ver =
     gseq (gassign 0 (on_sess (GetInt64 (env_read (env_conn se)) 4 True True)) (\<lambda>v. upd_par (\<lambda>c. c\<lparr>cMaxLen := v\<rparr>)))
    (gseq (gupd (upd_par (\<lambda>c. c\<lparr>cMaxLen := fixed_length (cDataType c) (cMaxLen c)\<rparr>)))
    (gseq (int_par se 4 (\<lambda>v c. c\<lparr>cArraySize := v\<rparr>))
          (int_par se (if ver \<ge> 10 then 8 else 4) (\<lambda>v c. c\<lparr>cContFlag := v\<rparr>))))"

definition load_charset :: "'n stmt_env \<Rightarrow> byte \<Rightarrow> ('n, 'z, unit) loadm" where
  "load_charset se ver = (let rd = env_read (env_conn se) in
     gseq (gassign None (on_sess (GetDlc rd)) (\<lambda>v. upd_par (\<lambda>c. c\<lparr>cToID := v\<rparr>)))
    (gseq (int_par se 2 (\<lambda>v c. c\<lparr>cVersion := v\<rparr>))
    (gseq (int_par se 2 (\<lambda>v c. c\<lparr>cCharsetID := v\<rparr>))
    (gseq (gassign 0 (on_sess (GetInt rd 1 False False)) (\<lambda>v. upd_par (\<lambda>c. c\<lparr>cCharsetForm := v\<rparr>)))
    (gseq (gassign 0 (on_sess (GetInt64 rd 4 True True)) (\<lambda>v. upd_par (\<lambda>c. c\<lparr>cMaxCharLen := v\<rparr>)))
          (gwhen (ver \<ge> 8) (int_par se 4 (\<lambda>v c. c\<lparr>oaccollid := v\<rparr>))))))))"

definition XMLTYPE :: "byte list" where "XMLTYPE = ascii ''XMLTYPE''"

definition load_names :: "'n stmt_env \<Rightarrow> ('n, 'z, unit) loadm" where
  "load_names se =
     gbind (on_sess (GetInt (env_read (env_conn se)) 1 False False)) (\<lambda>num1.
     gseq (gupd (upd_par (\<lambda>c. c\<lparr>cAllowNull := num1 > 0, nullabilityKnown := True\<rparr>)))
    (gseq (skip_byte se)
    (gseq (text_par se (\<lambda>s c. c\<lparr>cName := s\<rparr>))
    (gseq (text_par se (\<lambda>s c. c\<lparr>cSchemaName := to_upper s\<rparr>))
    (gseq (text_par se (\<lambda>s c. c\<lparr>cTypeName := to_upper s\<rparr>))
          (gupd (upd_par (\<lambda>c. captureColumnMetadata se
             (if cTypeName c = XMLTYPE then c\<lparr>cDataType := XMLType, cIsXmlType := True\<rparr> else c)))))))))"

text \<open>An annotation replaces an earlier one of the same name.\<close>

definition put_annotation :: "byte list \<Rightarrow> byte list \<Rightarrow> param_info \<Rightarrow> param_info" where
  "put_annotation k v c = c\<lparr>cAnnotations := map_option (\<lambda>as. AList.update k v as) (cAnnotations c)\<rparr>"

definition load_annotations :: "'n stmt_env \<Rightarrow> ('n, 'z, unit) loadm" where
  "load_annotations se = (let rd = env_read (env_conn se) in
     gbind (on_sess (GetInt rd 4 True True)) (\<lambda>n0. gwhen (n0 > 0)
       (gseq (gupd (upd_par (\<lambda>c. c\<lparr>cAnnotations := Some []\<rparr>)))
       (gseq (skip_byte se)
       (gbind (on_sess (GetInt rd 4 True True)) (\<lambda>n.
        gseq (skip_byte se)
       (gseq (grepeat (nat n) (gbind (on_sess (GetKeyVal rd)) (\<lambda>(k, v, _).
          gbind (session_decode k) (\<lambda>k. gbind (session_decode v) (\<lambda>v. gupd (upd_par (put_annotation k v)))))))
             (skip_int se 4))))))))"

definition load_vector :: "'n stmt_env \<Rightarrow> ('n, 'z, unit) loadm" where
  "load_vector se = gbind (gget (\<lambda>l. cDataType (par l))) (\<lambda>dt.
     if dt = VECTOR_T then
       gseq (int_par se 4 (\<lambda>v c. c\<lparr>cVectorDim := v\<rparr>))
      (gseq (byte_par se (\<lambda>v c. c\<lparr>cVectorFormat := v\<rparr>))
      (gseq (byte_par se (\<lambda>v c. c\<lparr>cVectorFlag := v\<rparr>))
            (gupd (upd_par (\<lambda>c. c\<lparr>cVectorSparse := (cVectorFlag c AND 2 = 2)\<rparr>)))))
     else gseq (skip_int se 4) (gseq (skip_int se 1) (skip_int se 1)))"

text \<open>The fields that later versions of the protocol append.\<close>

definition load_tail :: "'n stmt_env \<Rightarrow> byte \<Rightarrow> ('n, 'z, unit) loadm" where
  "load_tail se ver = (let rd = env_read (env_conn se) in
     if ver < 3 then gret ()
     else gseq (skip_int se 2)
      (if ver < 6 then gret ()
       else gbind (on_sess (GetInt rd 4 True True)) (\<lambda>uds. gseq (gupd (upd_par (\<lambda>c. c\<lparr>cIsJson := (uds AND 0x500 > 0)\<rparr>)))
      (if ver < 17 then gret ()
       else gseq (text_par se (\<lambda>s c. c\<lparr>cDomainSchema := to_upper s\<rparr>))
           (gseq (text_par se (\<lambda>s c. c\<lparr>cDomainName := to_upper s\<rparr>))
      (if ver < 20 then gret ()
       else gseq (load_annotations se)
      (if ver < 24 then gret () else load_vector se)))))))"

definition load :: "'n stmt_env \<Rightarrow> ('n, 'z, unit) loadm" where
  "load se = gbind (on_sess (gget TTCVersion)) (\<lambda>ver.
     gseq (gupd (upd_par (\<lambda>c. c\<lparr>getDataFromServer := True, lobModes := Some (env_inline se, env_auto se)\<rparr>)))
    (gbind (on_sess (GetByte (env_read (env_conn se)))) (\<lambda>dt.
     gseq (gupd (upd_par (\<lambda>c. c\<lparr>cDataType := ucast dt\<rparr>)))
    (gseq (byte_par se (\<lambda>v c. c\<lparr>cFlag := v\<rparr>))
    (gseq (byte_par se (\<lambda>v c. c\<lparr>cPrecision := v\<rparr>))
    (gseq (gupd (upd_par (\<lambda>c. c\<lparr>rawPrecision := uint (cPrecision c)\<rparr>)))
    (gseq (load_scale se)
    (gseq (load_lengths se ver)
    (gseq (load_charset se ver)
    (gseq (load_names se)
          (load_tail se ver)))))))))))"

section \<open>Writing a description\<close>

definition param_write :: "param_info \<Rightarrow> ('n, unit) sm" where
  "param_write c = gbind (gget TTCVersion) (\<lambda>ver.
     gseq (PutBytes [ucast (cDataType c), cFlag c, cPrecision c, cScale c])
    (gseq (PutUint (int_num (cMaxLen c)) 4 True True)
    (gseq (PutInt (int_num (cArraySize c)) 4 True True)
    (gseq (PutInt (int_num (cContFlag c)) (if ver \<ge> 10 then 8 else 4) True True)
    (gseq (case cToID c of None \<Rightarrow> PutBytes [0] | Some t \<Rightarrow> gseq (PutInt (go_len t) 4 True True) (PutClr t))
    (gseq (PutUint (int_num (cVersion c)) 2 True True)
    (gseq (PutUint (int_num (cCharsetID c)) 2 True True)
    (gseq (PutBytes [word_of_int (cCharsetForm c)])
    (gseq (PutUint (int_num (cMaxCharLen c)) 4 True True)
          (gwhen (ver \<ge> 8) (PutInt (int_num (oaccollid c)) 4 True True)))))))))))"

section \<open>Coders\<close>

datatype coder = StringC | RawC | NumberC | DateC | IntervalC | VectorC | JsonC | BlobC | ClobC | BFileC | RowIDC | BoolC | CursorC

text \<open>The coders by Oracle type and by type name, as the driver registers them.\<close>

definition oracleTypeCoder :: "u16 \<Rightarrow> coder option" where
  "oracleTypeCoder dt =
    (if dt \<in> {NCHAR, CHAR_T, LONG, LongVarChar} then Some StringC
     else if dt \<in> {RAW, LongRaw} then Some RawC
     else if dt \<in> {NUMBER, IBFLOAT, IBDOUBLE} then Some NumberC
     else if dt \<in> {DATE_T, TIMESTAMP, TIMESTAMPTZ, TimeStampDTY, TimeStampTZ_DTY, TimeStampLTZ, TimeStampLTZ_DTY} then Some DateC
     else if dt \<in> {INTERVALYM_DTY, INTERVALDS_DTY} then Some IntervalC
     else if dt = VECTOR_T then Some VectorC else if dt = JSON_T then Some JsonC
     else if dt = OCIBlobLocator then Some BlobC else if dt = OCIClobLocator then Some ClobC else if dt = OCIFileLocator then Some BFileC
     else if dt \<in> {ROWID, UROWID} then Some RowIDC
     else if dt = BOOLEAN then Some BoolC else if dt = REFCURSOR then Some CursorC else None)"

definition nameTypeCoder :: "byte list \<Rightarrow> coder option" where
  "nameTypeCoder name = map_of (map (\<lambda>(n, k). (ascii n, k))
     [(''NUMBER'', NumberC), (''IBFLOAT'', NumberC), (''IBDOUBLE'', NumberC), (''VARCHAR2'', StringC), (''NVARCHAR2'', StringC),
      (''TIMESTAMP'', DateC), (''DATE'', DateC), (''TIMESTAMP WITH LOCAL TIME ZONE'', DateC), (''RAW'', RawC), (''BLOB'', BlobC),
      (''CLOB'', ClobC), (''NCLOB'', ClobC)]) (to_upper name)"

definition GetParameterCoder :: "param_info \<Rightarrow> coder res" where
  "GetParameterCoder c =
    (if cDataType c = XMLType
     then (case nameTypeCoder (cTypeName c) of Some k \<Rightarrow> Ok k | None \<Rightarrow> Err (NoNamedCoder (cTypeName c)))
     else (case oracleTypeCoder (cDataType c) of Some k \<Rightarrow> Ok k | None \<Rightarrow> Err (NoCoder (uint (cDataType c)))))"

section \<open>Values\<close>

text \<open>A cursor that was read as a value: the columns it has, and its number.\<close>

record ref_cursor =
  cur_len :: byte
  cur_MaxRowSize :: int
  cur_columns :: "param_info list"
  cur_hasBLOB :: bool
  cur_hasLONG :: bool
  cur_ID :: int

text \<open>A LOB is the object that the rows hold: what came with the row, the locator of its stream, and the converter of its text.\<close>

record lob_value =
  lob_kind :: coder
  lob_bytes :: nslice
  lob_locator :: nslice
  lob_conv :: "StringConverter option"

datatype cell =
    NilCell
  | NumberCell num_value
  | TextCell "byte list"
  | TimeCell go_time
  | RawCell "byte list"
  | BoolCell bool
  | VectorCell vec_value
  | LobCell lob_value
  | CursorCell ref_cursor
  | ArrayCell "cell list"

definition BasicRead :: "'n stmt_env \<Rightarrow> param_info \<Rightarrow> ('n, nslice) sm" where
  "BasicRead se c = (if cDataType c \<in> {NCHAR, CHAR_T, RAW} \<and> cMaxLen c = 0 then gret None else GetClr (env_read (env_conn se)))"

text \<open>The decoders that look at bytes alone. \<open>string_value\<close> is \<open>types.String.Value\<close>.\<close>

definition string_value :: "StringConverter \<Rightarrow> nslice \<Rightarrow> cell res option" where
  "string_value conv bs = (case bs of None \<Rightarrow> Some (Ok NilCell) | Some b \<Rightarrow> map_option (res_map TextCell) (Decode conv b))"

definition option_cell :: "('a \<Rightarrow> cell) \<Rightarrow> 'a option \<Rightarrow> cell" where
  "option_cell f x = (case x of None \<Rightarrow> NilCell | Some a \<Rightarrow> f a)"

definition number_cell :: "num_value \<Rightarrow> cell" where
  "number_cell v = (if v = NilV then NilCell else NumberCell v)"

definition decode_value :: "'n stmt_env \<Rightarrow> coder \<Rightarrow> param_info \<Rightarrow> nslice \<Rightarrow> ('n, 'z, cell) conm" where
  "decode_value se k c bs = (\<lambda>s. case k of
       StringC \<Rightarrow> (case GetStringCoder (env_tables (env_conn se)) (cCharsetID c) (cCharsetForm c) s of
           Err e \<Rightarrow> Some (Err e, s) | Panic \<Rightarrow> Some (Panic, s)
         | Ok conv \<Rightarrow> map_option (\<lambda>r. (r, s)) (string_value conv bs))
     | NumberC \<Rightarrow> Some (res_map number_cell (fst (number_Value \<lparr>bValue = bs, dataType = cDataType c\<rparr>)), s)
     | DateC \<Rightarrow> Some (res_map (option_cell TimeCell) (date_Value (env_zones se)
           \<lparr>bValue = bs, dataType = cDataType c, AsUTC = False, DBTimeZone = dbTimeZone s, DBServerTimeZone = env_server_zone se\<rparr>), s)
     | IntervalC \<Rightarrow> Some (res_map (option_cell TimeCell) (interval_Value \<lparr>bValue = bs, dataType = 0\<rparr>), s)
     | RawC \<Rightarrow> Some (Ok (option_cell RawCell (raw_Value \<lparr>bValue = bs, dataType = cDataType c\<rparr>)), s)
     | BoolC \<Rightarrow> Some (Ok (option_cell BoolCell (bool_Value \<lparr>bValue = bs, dataType = cDataType c\<rparr>)), s)
     | _ \<Rightarrow> Some (Ok NilCell, s))"

text \<open>Row identifiers have a layout of their own.\<close>

definition read_rowid :: "'n stmt_env \<Rightarrow> param_info \<Rightarrow> ('n, rowid) sm" where
  "read_rowid se c = (let rd = env_read (env_conn se);
       r0 = \<lparr>bValue = None, dataType = cDataType c, Rba = 0, PartitionID = 0, rid_filter = 0, BlockNumber = 0, SlotNumber = 0\<rparr> in
     if cDataType c = ROWID then
       gbind (GetByte rd) (\<lambda>len. if len = 0 then gret r0
         else gbind (GetInt64 rd 4 True True) (\<lambda>rba. gbind (GetInt64 rd 2 True True) (\<lambda>part.
              gseq (GetByte rd)
             (gbind (GetInt64 rd 4 True True) (\<lambda>blk. gbind (GetInt64 rd 2 True True) (\<lambda>slot.
                gret (r0\<lparr>Rba := rba, PartitionID := part, BlockNumber := blk, SlotNumber := slot\<rparr>)))))))
     else if cDataType c = UROWID then
       gbind (GetInt rd 4 True True) (\<lambda>len. if len > 0 then gbind (GetClr rd) (\<lambda>b. gret (r0\<lparr>bValue := b\<rparr>)) else gret r0)
     else gerr (RowIDType (cDataType c)))"

text \<open>The locator of a LOB, and with inline LOBs the data in front of it; \<open>SetLocator\<close> of the stream remembers temporary ones.\<close>

definition read_lob :: "'n stmt_env \<Rightarrow> bool \<Rightarrow> param_info \<Rightarrow> ('n, nslice \<times> nslice) sm" where
  "read_lob se inl c = (let rd = env_read (env_conn se) in
     if inl then
       gbind (GetInt64 rd 4 True True) (\<lambda>maxSize. if maxSize > 0 then
         gseq (GetInt64 rd 8 True True) (gseq (GetInt rd 4 True True)
           (if cDataType c = OCIFileLocator
            then gbind (gtry None (GetClr rd)) (\<lambda>(lc, _). gret (None, lc))
            else gbind (GetClr rd) (\<lambda>b. gbind (GetClr rd) (\<lambda>lc. gret (b, lc)))))
         else gret (None, None))
     else gbind (BasicRead se c) (\<lambda>lc. if slice_bytes lc = [] then gret (None, None)
            else gbind (GetClr rd) (\<lambda>lc. gret (None, lc))))"

definition remember_locator :: "nslice \<Rightarrow> ('n, 'z) connection_scheme \<Rightarrow> ('n, 'z) connection_scheme" where
  "remember_locator lc c = (let bs = slice_bytes lc in if \<not> IsQuasi bs \<and> IsTemporary bs then appendTemporaryLoc bs c else c)"

definition clob_conv :: "'n stmt_env \<Rightarrow> param_info \<Rightarrow> nslice \<Rightarrow> ('n, 'z) connection_scheme \<Rightarrow> StringConverter res" where
  "clob_conv se c lc s = (let bs = slice_bytes lc; others = env_tables (env_conn se) in
     if IsVarWidthChar bs then (case dBVersion s of
         None \<Rightarrow> Panic
       | Some v \<Rightarrow> GetStringCoder others (if uint (Number v) < 10200 \<and> IsLittleEndian bs then 2002 else 2000) 0 s)
     else GetStringCoder others (cCharsetID c) (cCharsetForm c) s)"

definition lob_cell :: "coder \<Rightarrow> nslice \<Rightarrow> nslice \<Rightarrow> StringConverter option \<Rightarrow> cell" where
  "lob_cell k b lc conv = LobCell \<lparr>lob_kind = k, lob_bytes = b, lob_locator = lc, lob_conv = conv\<rparr>"

definition decode_lob :: "'n stmt_env \<Rightarrow> coder \<Rightarrow> param_info \<Rightarrow> nslice \<Rightarrow> nslice \<Rightarrow> ('n, 'z, cell) conm" where
  "decode_lob se k c b lc =
    (if k = ClobC then gbind (gget (clob_conv se c lc)) (\<lambda>r. gbind (lift_val r) (\<lambda>conv. gret (lob_cell k b lc (Some conv))))
     else if k = BFileC then
       gbind (gget (GetDefaultStringCoder (env_tables (env_conn se)))) (\<lambda>r. gbind (lift_val r) (\<lambda>conv. gret (lob_cell k b lc (Some conv))))
     else gret (lob_cell k b lc None))"

text \<open>\<open>decoder.Read\<close>: what a decoder has read. A LOB coder that was found by name, or for the elements of an array, has no stream.\<close>

datatype raw_value = RawBytes nslice | RawRowid rowid | RawLob nslice nslice

definition lob_coder :: "coder \<Rightarrow> bool" where
  "lob_coder k \<longleftrightarrow> k \<in> {VectorC, JsonC, BlobC, ClobC, BFileC}"

definition read_value :: "'n stmt_env \<Rightarrow> bool \<Rightarrow> bool \<Rightarrow> coder \<Rightarrow> param_info \<Rightarrow> ('n, 'z, raw_value) conm" where
  "read_value se inl streamed k c =
    (if lob_coder k then
       if streamed then gbind (on_sess (read_lob se inl c)) (\<lambda>(b, lc). gseq (gupd (remember_locator lc)) (gret (RawLob b lc)))
       else gpanic
     else if k = RowIDC then gbind (on_sess (read_rowid se c)) (\<lambda>r. gret (RawRowid r))
     else if k = CursorC then gret (RawBytes None)
     else gbind (on_sess (BasicRead se c)) (\<lambda>b. gret (RawBytes b)))"

text \<open>\<open>decoder.Decode\<close>.\<close>

definition decode_raw :: "'n stmt_env \<Rightarrow> coder \<Rightarrow> param_info \<Rightarrow> raw_value \<Rightarrow> ('n, 'z, cell) conm" where
  "decode_raw se k c r = (case r of
       RawBytes b \<Rightarrow> decode_value se k c b
     | RawRowid d \<Rightarrow> lift_val (res_map TextCell (rowid_Value (env_slack se) d))
     | RawLob b lc \<Rightarrow> decode_lob se k c b lc)"

text \<open>The element of an array: \<open>UpdateParameterInfo\<close> merges the description of the array into the defaults of the coder.\<close>

definition element_info :: "coder \<Rightarrow> param_info \<Rightarrow> param_info" where
  "element_info k c = (let
       dt = (case k of StringC \<Rightarrow> NCHAR | RawC \<Rightarrow> RAW | VectorC \<Rightarrow> VECTOR_T | JsonC \<Rightarrow> JSON_T | BlobC \<Rightarrow> OCIBlobLocator
               | ClobC \<Rightarrow> OCIClobLocator | BFileC \<Rightarrow> OCIFileLocator | BoolC \<Rightarrow> BOOLEAN | CursorC \<Rightarrow> REFCURSOR
               | _ \<Rightarrow> if cDataType c = TimeStampLTZ_DTY then TimeStampTZ_DTY else cDataType c) in
     c\<lparr>cDataType := dt, cMaxLen := max 1 (cMaxLen c),
       cCharsetForm := (if cCharsetForm c \<noteq> 0 then cCharsetForm c else if k \<in> {StringC, ClobC} then 1 else 0)\<rparr>)"

primrec array_items :: "'n stmt_env \<Rightarrow> bool \<Rightarrow> coder \<Rightarrow> param_info \<Rightarrow> nat \<Rightarrow> ('n, 'z, cell list) conm" where
  "array_items se inl k c 0 = gret []"
| "array_items se inl k c (Suc n) =
     gbind (read_value se inl False k (element_info k c)) (\<lambda>r.
     gseq (skip_int se 2)
    (gbind (decode_raw se k (element_info k c) r) (\<lambda>v.
     gbind (array_items se inl k c n) (\<lambda>vs. gret (v # vs)))))"

text \<open>An array is decoded with the coder of its data type, whatever its type name.\<close>

definition decode_array :: "'n stmt_env \<Rightarrow> bool \<Rightarrow> param_info \<Rightarrow> ('n, 'z, cell) conm" where
  "decode_array se inl c =
     gbind (on_sess (GetInt (env_read (env_conn se)) 4 True True)) (\<lambda>n.
     if cDataType c = 0 then gerr (NoCoder 0)
     else case oracleTypeCoder (cDataType c) of
         None \<Rightarrow> gerr (NoCoder (uint (cDataType c)))
       | Some k \<Rightarrow> if n > 0 then gbind (array_items se inl k c (nat n)) (\<lambda>vs. gret (ArrayCell vs)) else gret NilCell)"

text \<open>The value of a column or parameter, with the description as it is afterwards: an untyped null is marked as null.\<close>

definition decodePrimValue :: "'n stmt_env \<Rightarrow> bool \<Rightarrow> param_info \<Rightarrow> ('n, 'z, param_info \<times> cell) conm" where
  "decodePrimValue se inl c = (let c = c\<lparr>cBValue := None\<rparr> in
     if cArraySize c > 0 then gbind (decode_array se inl c) (\<lambda>v. gret (c, v))
     else if cDataType c = 0 then
       gbind (on_sess (GetClr (env_read (env_conn se)))) (\<lambda>b. gret (c\<lparr>cBValue := b, cIsNull := True\<rparr>, NilCell))
     else gbind (lift_val (GetParameterCoder c)) (\<lambda>k.
          gbind (read_value se inl (isLobType c) k c) (\<lambda>r.
          gbind (decode_raw se k c r) (\<lambda>v. gret (c, v)))))"

section \<open>Cursors as values\<close>

text \<open>The columns of a description, loaded one after the other: those that were loaded, and after an error what is left of the others.\<close>

primrec load_columns ::
    "'n stmt_env \<Rightarrow> nat \<Rightarrow> ('n, 'z, param_info list \<times> param_info list \<times> go_error option) loadm" where
  "load_columns se 0 = gret ([], [], None)"
| "load_columns se (Suc n) =
     gseq (gupd (upd_par (\<lambda>_. zero_info)))
    (gbind (gtry () (load se)) (\<lambda>(_, err).
     gbind (gget par) (\<lambda>c.
       case err of Some e \<Rightarrow> gret ([], c # replicate n zero_info, Some e)
                 | None \<Rightarrow> gbind (load_columns se n) (\<lambda>(cs, rest, err). gret (c # cs, rest, err)))))"

definition describe_tail :: "'n stmt_env \<Rightarrow> byte \<Rightarrow> ('n, 'z, unit) conm" where
  "describe_tail se ver = (let rd = env_read (env_conn se) in
     gseq (on_sess (GetDlc rd))
    (gseq (gwhen (ver \<ge> 3) (gseq (skip_int se 4) (skip_int se 4)))
    (gseq (gwhen (ver \<ge> 4) (gseq (skip_int se 4) (skip_int se 4)))
          (gwhen (ver \<ge> 5) (gseq (on_sess (GetDlc rd)) (gret ()))))))"

definition cursor_load :: "'n stmt_env \<Rightarrow> ('n, 'z, ref_cursor) loadm" where
  "cursor_load se = (let rd = env_read (env_conn se) in
     gbind (on_sess (gget TTCVersion)) (\<lambda>ver.
     gbind (on_sess (GetByte rd)) (\<lambda>len.
     gbind (on_sess (GetInt rd 4 True True)) (\<lambda>maxRow.
     gbind (on_sess (GetInt rd 4 True True)) (\<lambda>count.
     gbind (if count > 0 then gseq (skip_byte se) (load_columns se (nat count)) else gret ([], [], None)) (\<lambda>(cs, _, err).
     gseq (case err of Some e \<Rightarrow> gerr e | None \<Rightarrow> gret ())
    (gseq (describe_tail se ver)
    (gbind (on_sess (GetInt rd 4 True True)) (\<lambda>curID.
       if curID = 0 then let e = NewOracleError 1001 in gerr (OracleErr (ErrCode e) (ErrMsg e) (errPos e))
       else gret \<lparr>cur_len = len, cur_MaxRowSize = maxRow, cur_columns = cs,
         cur_hasBLOB = list_ex (\<lambda>c. cDataType c \<in> {OCIClobLocator, OCIBlobLocator, OCIFileLocator}) cs,
         cur_hasLONG = list_ex isLongType cs, cur_ID = curID\<rparr>)))))))))"

end
