(* ===== verification/Statement.thy ===== *)
theory Statement
  imports Column_Info
begin

text \<open>
  Statements and result sets: \<^verbatim>\<open>defaultStmt\<close> and \<^verbatim>\<open>Stmt\<close> of \<^verbatim>\<open>v3/command.go\<close>, \<^verbatim>\<open>ResultSet\<close> of \<^verbatim>\<open>v3/result_set.go\<close>. A statement
  writes an execute or fetch request, reads the answer message by message, and hands the rows out one by one. The result set that a statement
  reads into is part of the same record, as the code links the two: \<open>cols\<close> says whether the result set has its pointer to the statement's
  columns. Binding Go values to parameters is not part of this theory: parameters come with the bytes and the coder they are written with.
\<close>

section \<open>State\<close>

datatype stmt_type = SELECT | DML | PLSQL | OTHERS

datatype direction = Input | Output | InOut

text \<open>What a parameter's \<open>Value\<close> holds, as far as reading an answer looks at it.\<close>

datatype par_target = NoValue | CursorPointer "ref_cursor option" | OtherPointer | OtherValue

datatype par_encoder = ArrayEncoder | CoderEncoder coder nslice   \<comment> \<open>with the locator of a vector or JSON value\<close>

record parameter =
  p_info :: param_info
  p_dir :: direction
  p_prim :: cell
  p_target :: par_target
  p_encoder :: "par_encoder option"
  p_bulk :: "nslice list option"
  p_custom :: bool

text \<open>A column and the value it was last read with.\<close>

type_synonym column = "param_info \<times> cell"

record 'n query = "'n loading" +
  stmt_text :: "byte list"
  hasLONG :: bool
  hasBLOB :: bool
  hasMoreRows :: bool
  hasReturnClause :: bool
  noOfRowsToFetch :: int
  stmtType :: stmt_type
  cursorID :: int
  queryID :: int
  Pars :: "parameter list"
  columns :: "column list"
  scnForSnapshot :: "int \<times> int"
  arrayBindCount :: int
  containOutputPars :: bool
  multiSet :: "ref_cursor list"
  reSendParDef :: bool
  parse :: bool
  execute :: bool
  defining :: bool
  bulkExec :: bool
  columnCount :: int
  rowCount :: int
  uACBufferLength :: int
  maxRowSize :: int
  cols :: bool
  rows :: "cell list list"
  currentRow :: "cell list"
  rs_index :: int
  lastErr :: "go_error option"

type_synonym ('n, 'z, 'a) querym = "(('n, 'z) query_scheme, 'a) gom"

section \<open>Result sets\<close>

text \<open>Bit \<open>i\<close> of byte \<open>x\<close> says whether the server sends column \<open>8 x + i\<close>; a column it does not send has the value of the row before.\<close>

definition vector_bit :: "byte list \<Rightarrow> nat \<Rightarrow> bool" where
  "vector_bit bv k \<longleftrightarrow> bit (bv ! (k div 8)) (k mod 8)"

definition set_flag :: "bool \<Rightarrow> column \<Rightarrow> column" where
  "set_flag b = (\<lambda>(c, v). (c\<lparr>getDataFromServer := b\<rparr>, v))"

fun set_flags :: "byte list \<Rightarrow> int \<Rightarrow> nat list \<Rightarrow> column list \<Rightarrow> column list res" where
  "set_flags bv count [] cs = Ok cs"
| "set_flags bv count (k # ks) cs =
    (if int k < count then if k < length cs then set_flags bv count ks (cs[k := set_flag (vector_bit bv k) (cs ! k)]) else Panic
     else set_flags bv count ks cs)"

definition setBitVector :: "byte list \<Rightarrow> ('n, 'z, unit) querym" where
  "setBitVector bv q =
    (if \<not> cols q then Some (Ok (), q)
     else if bv \<noteq> [] then (case set_flags bv (columnCount q) [0..<8 * length bv] (columns q) of
         Ok cs \<Rightarrow> Some (Ok (), q\<lparr>columns := cs\<rparr>) | Err e \<Rightarrow> Some (Err e, q) | Panic \<Rightarrow> Some (Panic, q))
     else Some (Ok (), q\<lparr>columns := map (set_flag True) (columns q)\<rparr>))"

definition rs_load :: "'n stmt_env \<Rightarrow> ('n, 'z, unit) querym" where
  "rs_load se = (let rd = env_read (env_conn se) in
     gseq (skip_byte se)
    (gbind (on_sess (GetInt rd 2 True True)) (\<lambda>count.
     gbind (on_sess (GetInt rd 4 True True)) (\<lambda>num.
     gseq (gupd (\<lambda>q. if columnCount q = 0 then q\<lparr>columnCount := to_i64 (count + num * 0x100)\<rparr> else q))
    (gseq (\<lambda>q. if int (length (currentRow q)) = columnCount q then Some (Ok (), q)
               else if columnCount q < 0 then Some (Panic, q)
               else Some (Ok (), q\<lparr>currentRow := replicate (nat (columnCount q)) NilCell\<rparr>))
    (gseq (gassign 0 (on_sess (GetInt rd 4 True True)) (\<lambda>v q. q\<lparr>rowCount := v\<rparr>))
    (gseq (gassign 0 (on_sess (GetInt rd 2 True True)) (\<lambda>v q. q\<lparr>uACBufferLength := v\<rparr>))
    (gbind (on_sess (GetDlc rd)) (\<lambda>bv.
     gseq (setBitVector (slice_bytes bv))
    (gseq (gignore (on_sess (GetDlc rd))) (gret ())))))))))))"

section \<open>Reading an answer\<close>

text \<open>A call whose result and error are both dropped.\<close>

definition glost :: "('s, 'a) gom \<Rightarrow> ('s, unit) gom" where
  "glost m = gseq (gignore m) (gret ())"

definition calculateColumnValue :: "'n stmt_env \<Rightarrow> param_info \<Rightarrow> ('n, 'z, param_info \<times> cell) querym" where
  "calculateColumnValue se c =
    (if cDataType c = REFCURSOR then
       gbind (cursor_load se) (\<lambda>cur.
       gbind (gget stmtType) (\<lambda>t.
       gseq (gwhen (t = PLSQL) (skip_int se 2)) (gret (c, CursorCell cur))))
     else decodePrimValue se (env_inline se) c)"

text \<open>One column of a row: the value that was sent, or the one it had.\<close>

definition read_column :: "'n stmt_env \<Rightarrow> nat \<Rightarrow> ('n, 'z, cell) querym" where
  "read_column se k = gbind (gget (\<lambda>q. columns q ! k)) (\<lambda>(c, old).
     if getDataFromServer c then
       gbind (calculateColumnValue se c) (\<lambda>(c, v).
       gseq (gwhen (isLongType c) (gseq (skip_int se 4) (skip_int se 4)))
      (gseq (gupd (\<lambda>q. q\<lparr>columns := (columns q)[k := (c, v)]\<rparr>)) (gret v)))
     else gret old)"

text \<open>The row has room for \<open>columnCount\<close> values.\<close>

fun read_row :: "'n stmt_env \<Rightarrow> nat list \<Rightarrow> cell list \<Rightarrow> ('n, 'z, cell list) querym" where
  "read_row se [] row = gret row"
| "read_row se (k # ks) row = gbind (read_column se k) (\<lambda>v.
     if k < length row then read_row se ks (row[k := v]) else gpanic)"

definition row_msg :: "'n stmt_env \<Rightarrow> ('n, 'z, unit) querym" where
  "row_msg se = gbind (gget (\<lambda>q. (columnCount q, length (columns q)))) (\<lambda>(n, len).
     if n < 0 then gpanic
     else gbind (read_row se [0..<len] (replicate (nat n) NilCell)) (\<lambda>row.
          gupd (\<lambda>q. q\<lparr>rows := rows q @ [row]\<rparr>)))"

definition upd_nth_par :: "nat \<Rightarrow> (parameter \<Rightarrow> parameter) \<Rightarrow> ('n, 'z) query_scheme \<Rightarrow> ('n, 'z) query_scheme" where
  "upd_nth_par x f q = q\<lparr>Pars := (Pars q)[x := f (Pars q ! x)]\<rparr>"

text \<open>The value of an output parameter; LOBs are never inline here.\<close>

definition calculateParameterValue :: "'n stmt_env \<Rightarrow> nat \<Rightarrow> ('n, 'z, unit) querym" where
  "calculateParameterValue se x = gbind (gget (\<lambda>q. p_info (Pars q ! x))) (\<lambda>c.
     gseq (gwhen (isLobType c) (gupd (\<lambda>q. q\<lparr>hasBLOB := True\<rparr>)))
    (gseq (gupd (upd_nth_par x (\<lambda>p. p\<lparr>p_prim := NilCell, p_info := (p_info p)\<lparr>cBValue := None\<rparr>\<rparr>)))
    (gbind (decodePrimValue se False c) (\<lambda>(c, v).
     gseq (gupd (upd_nth_par x (\<lambda>p. p\<lparr>p_prim := v, p_info := c\<rparr>)))
          (if cDataType c = XMLType \<and> cIsNull c then gret ()
           else if cDataType c \<noteq> XMLType \<and> cArraySize c > 0 then gret ()
           else skip_int se 2)))))"

definition returning_par :: "'n stmt_env \<Rightarrow> nat \<Rightarrow> ('n, 'z, unit) querym" where
  "returning_par se x = gbind (gget (\<lambda>q. p_dir (Pars q ! x))) (\<lambda>d.
     if d \<noteq> Output then gret ()
     else gbind (on_sess (GetInt (env_read (env_conn se)) 4 True True)) (\<lambda>num.
       if num > 1 then gerr ReturningRows
       else if num = 0 then gupd (upd_nth_par x (\<lambda>p. p\<lparr>p_info := (p_info p)\<lparr>cBValue := None\<rparr>, p_target := NoValue\<rparr>))
       else calculateParameterValue se x))"

definition output_par :: "'n stmt_env \<Rightarrow> nat \<Rightarrow> ('n, 'z, unit) querym" where
  "output_par se x = gbind (gget (\<lambda>q. Pars q ! x)) (\<lambda>p.
     if cDataType (p_info p) = REFCURSOR then
       (case p_target p of
          NoValue \<Rightarrow> gpanic
        | CursorPointer _ \<Rightarrow>
            gbind (cursor_load se) (\<lambda>cur.
            gseq (gupd (upd_nth_par x (\<lambda>p. p\<lparr>p_target := CursorPointer (Some cur)\<rparr>)))
           (gbind (gget stmtType) (\<lambda>t. gwhen (t = PLSQL) (skip_int se 2))))
        | _ \<Rightarrow> gerr NotRefCursor)
     else if p_dir p \<noteq> Input then calculateParameterValue se x else gret ())"

fun each :: "nat list \<Rightarrow> (nat \<Rightarrow> ('s, unit) gom) \<Rightarrow> ('s, unit) gom" where
  "each [] f = gret ()"
| "each (k # ks) f = gseq (f k) (each ks f)"

definition data_msg :: "'n stmt_env \<Rightarrow> ('n, 'z, unit) querym" where
  "data_msg se = gbind (gget (\<lambda>q. (hasReturnClause q, containOutputPars q, length (Pars q)))) (\<lambda>(ret, out, n).
     if ret \<and> out then each [0..<n] (returning_par se)
     else if out then each [0..<n] (output_par se)
     else row_msg se)"

text \<open>\<open>GetBytes(size)\<close> and the last eight bytes of it.\<close>

definition query_id :: "'n stmt_env \<Rightarrow> ('n, 'z, unit) querym" where
  "query_id se = gbind (on_sess (GetInt (env_read (env_conn se)) 4 True True)) (\<lambda>size. gwhen (size > 0)
     (gbind (on_sess (GetBytes (env_read (env_conn se)) size)) (\<lambda>bty. gwhen (length bty \<ge> 8)
        (gupd (\<lambda>q. q\<lparr>queryID := int (le_dec (take 8 (drop (nat size - 8) bty)))\<rparr>)))))"

definition stmt_rpa :: "'n stmt_env \<Rightarrow> ('n, 'z, unit) querym" where
  "stmt_rpa se = (let rd = env_read (env_conn se) in
     gbind (on_sess (gget TTCVersion)) (\<lambda>ver.
     gbind (on_sess (GetInt rd 2 True True)) (\<lambda>size.
     gseq (gassign 0 (on_sess (GetInt rd 4 True True)) (\<lambda>v q. q\<lparr>scnForSnapshot := (v, snd (scnForSnapshot q))\<rparr>))
    (gseq (gassign 0 (on_sess (GetInt rd 4 True True)) (\<lambda>v q. q\<lparr>scnForSnapshot := (fst (scnForSnapshot q), v)\<rparr>))
    (gseq (grepeat (nat (size - 2)) (skip_int se 4))
    (gseq (skip_int se 2)
    (gbind (gtry 0 (on_sess (GetInt rd 2 True True))) (\<lambda>(size, _).
     gseq (grepeat (nat size) (time_zone_pair (env_conn se)))
    (gseq (gwhen (ver \<ge> 4) (query_id se))
          (gbind (gget (\<lambda>q. stmtType q = DML \<and> arrayBindCount q > 0)) (\<lambda>bulk.
             gwhen (ver \<ge> 7 \<and> bulk) (gbind (on_sess (GetInt rd 4 True True)) (\<lambda>len.
               grepeat (nat len) (skip_int se 8))))))))))))))"

definition bind_direction :: "'n stmt_env \<Rightarrow> nat \<Rightarrow> ('n, 'z, unit) querym" where
  "bind_direction se x = gbind (gtry 0 (on_sess (GetByte (env_read (env_conn se))))) (\<lambda>(d, err).
     gseq (\<lambda>q. if d \<in> {16, 32, 48} then if x < length (Pars q)
                 then Some (Ok (), (upd_nth_par x (\<lambda>p. p\<lparr>p_dir := (if d = 32 then Input else if d = 16 then Output else InOut)\<rparr>) q)
                        \<lparr>containOutputPars := containOutputPars q \<or> d \<noteq> 32\<rparr>)
                 else Some (Panic, q)
               else Some (Ok (), q))
          (case err of Some e \<Rightarrow> gerr e | None \<Rightarrow> gret ()))"

definition binds_msg :: "'n stmt_env \<Rightarrow> ('n, 'z, unit) querym" where
  "binds_msg se = gseq (rs_load se) (gbind (gget (\<lambda>q. nat (columnCount q))) (\<lambda>n. each [0..<n] (bind_direction se)))"

text \<open>A description of columns. The errors of everything behind the columns are lost.\<close>

definition describe_columns :: "'n stmt_env \<Rightarrow> nat \<Rightarrow> ('n, 'z, unit) querym" where
  "describe_columns se n = gbind (load_columns se n) (\<lambda>(cs, rest, err).
     gseq (gupd (\<lambda>q. q\<lparr>columns := map (\<lambda>c. (c, NilCell)) (cs @ rest), hasLONG := (hasLONG q \<or> list_ex isLongType cs),
                       hasBLOB := (hasBLOB q \<or> list_ex isLobType cs)\<rparr>))
          (case err of None \<Rightarrow> gret () | Some e \<Rightarrow> gerr e))"

definition describe_msg :: "'n stmt_env \<Rightarrow> ('n, 'z, unit) querym" where
  "describe_msg se = (let rd = env_read (env_conn se) in
     gbind (on_sess (gget TTCVersion)) (\<lambda>ver.
     gbind (on_sess (GetByte rd)) (\<lambda>size.
     gseq (on_sess (GetBytes rd (uint size)))
    (gseq (gassign 0 (on_sess (GetInt rd 4 True True)) (\<lambda>v q. q\<lparr>maxRowSize := v\<rparr>))
    (gseq (gassign 0 (on_sess (GetInt rd 4 True True)) (\<lambda>v q. q\<lparr>columnCount := v\<rparr>))
    (gbind (gget columnCount) (\<lambda>n.
     gseq (gwhen (n > 0) (glost (skip_byte se)))
    (gseq (if n < 0 then gpanic else describe_columns se (nat n))
    (gseq (glost (on_sess (GetDlc rd)))
    (gseq (gwhen (ver \<ge> 3) (gseq (glost (skip_int se 4)) (glost (skip_int se 4))))
    (gseq (gwhen (ver \<ge> 4) (gseq (glost (skip_int se 4)) (glost (skip_int se 4))))
          (gwhen (ver \<ge> 5) (glost (on_sess (GetDlc rd)))))))))))))))"

primrec read_bytes :: "'n stmt_env \<Rightarrow> nat \<Rightarrow> ('n, byte list) sm" where
  "read_bytes se 0 = gret []"
| "read_bytes se (Suc n) = gbind (GetByte (env_read (env_conn se))) (\<lambda>b. gbind (read_bytes se n) (\<lambda>bs. gret (b # bs)))"

definition vector_msg :: "'n stmt_env \<Rightarrow> ('n, 'z, unit) querym" where
  "vector_msg se = gseq (skip_int se 2)
    (gbind (gget columnCount) (\<lambda>n. if n \<le> -8 then gpanic
       else gbind (on_sess (read_bytes se ((nat n + 7) div 8))) setBitVector))"

text \<open>Implicit results: each is a cursor.\<close>

definition multi_msg :: "'n stmt_env \<Rightarrow> ('n, 'z, unit) querym" where
  "multi_msg se = gbind (on_sess (GetInt (env_read (env_conn se)) 4 True True)) (\<lambda>count.
     if count < 0 then gpanic
     else gseq (gupd (\<lambda>q. q\<lparr>multiSet := []\<rparr>))
         (grepeat (nat count) (gbind (cursor_load se) (\<lambda>cur. gupd (\<lambda>q. q\<lparr>multiSet := multiSet q @ [cur]\<rparr>)))))"

definition stmt_msg :: "'n stmt_env \<Rightarrow> byte \<Rightarrow> ('n, 'z, unit) querym" where
  "stmt_msg se msg =
    (if msg = 6 then rs_load se
     else if msg = 7 then data_msg se
     else if msg = 8 then stmt_rpa se
     else if msg = 11 then binds_msg se
     else if msg = 16 then describe_msg se
     else if msg = 19 then on_sess (gseq (gupd ResetBuffer) (gseq (PutBytes [19]) (env_write (env_conn se))))
     else if msg = 21 then vector_msg se
     else if msg = 27 then multi_msg se
     else ProcessTCCResponse (env_conn se) msg)"

partial_function (option) stmt_loop :: "'n stmt_env \<Rightarrow> ('n, 'z, unit) querym" where
  "stmt_loop se q =
     gbind (on_sess (GetByte (env_read (env_conn se)))) (\<lambda>msg.
       gseq (stmt_msg se msg) (if msg = 4 \<or> msg = 9 then gret () else stmt_loop se)) q"

text \<open>The deferred function: the number of the cursor, and whether the server has said that there are no more rows.\<close>

definition finish_read :: "('n, 'z) query_scheme \<Rightarrow> ('n, 'z) query_scheme" where
  "finish_read q = (case sess q of None \<Rightarrow> q
     | Some s \<Rightarrow> (case Summary s of None \<Rightarrow> q
         | Some x \<Rightarrow> q\<lparr>cursorID := CursorID x, hasMoreRows := (hasMoreRows q \<and> RetCode x \<noteq> 1403)\<rparr>))"

definition stmt_read :: "'n stmt_env \<Rightarrow> ('n, 'z, unit) querym" where
  "stmt_read se q = map_option (\<lambda>(r, q). (r, finish_read q)) (stmt_loop se (q\<lparr>cols := True\<rparr>))"

end
