(* ===== verification/Stmt_Calls.thy ===== *)
theory Stmt_Calls
  imports Statement
begin

text \<open>
  What a statement sends and the calls it is made of (\<^verbatim>\<open>v3/command.go\<close>): the execute request with its options and parameters, the
  definition of columns for inline LOBs, fetching, the query as a whole, and the cursor over the rows of a result set
  (\<^verbatim>\<open>v3/result_set.go\<close>, \<open>Next\<close>).
\<close>

section \<open>The execute request\<close>

definition getExeOption :: "('n, 'z) query_scheme \<Rightarrow> int" where
  "getExeOption q =
    (if stmtType q = PLSQL \<or> hasReturnClause q then 0x40000 else 0) OR
    (if arrayBindCount q > 1 then 0x80000 else 0) OR
    (if autoCommit q \<and> (stmtType q = DML \<or> stmtType q = PLSQL) then 0x100 else 0) OR
    (if parse q then 1 else 0) OR
    (if execute q then 0x20 else 0) OR
    (if \<not> parse q \<and> \<not> execute q then 0x40 else 0) OR
    (if Pars q \<noteq> [] \<and> \<not> defining q
     then 0x8 OR (if stmtType q = PLSQL \<or> (hasReturnClause q \<and> \<not> reSendParDef q) then 0x400 else 0) else 0) OR
    (if stmtType q \<noteq> PLSQL \<and> \<not> hasReturnClause q then 0x8000 else 0) OR
    (if defining q then 0x10 else 0)"

text \<open>The thirteen numbers of the request.\<close>

definition al8i4 :: "'n stmt_env \<Rightarrow> int \<Rightarrow> bool \<Rightarrow> ('n, 'z) query_scheme \<Rightarrow> int list" where
  "al8i4 se exeOp ps q = (let
       bulk = arrayBindCount q > 0;
       one = (case stmtType q of
           DML \<Rightarrow> if bulk then arrayBindCount q else 1
         | PLSQL \<Rightarrow> if bulk then arrayBindCount q else 1
         | OTHERS \<Rightarrow> 1
         | SELECT \<Rightarrow> if env_inline se \<and> ps then 0 else noOfRowsToFetch q);
       nine = (if stmtType q = DML \<and> bulk then 0x4000 else 0 :: int);
       nine = (if exeOp AND 32 \<noteq> 0 then nine OR 0x8000 else nine AND (- 0x8000)) in
     [if exeOp AND 1 \<le> 0 then 0 else 1, one, 0, 0, 0, fst (scnForSnapshot q), snd (scnForSnapshot q),
      if stmtType q = SELECT then 1 else 0, 0, nine, 0, 0, 0])"

fun put_uints :: "int list \<Rightarrow> ('n, unit) sm" where
  "put_uints [] = gret ()"
| "put_uints (v # vs) = gseq (PutUint (int_num v) 4 True True) (put_uints vs)"

fun put_params :: "param_info list \<Rightarrow> ('n, unit) sm" where
  "put_params [] = gret ()"
| "put_params (c # cs) = gseq (param_write c) (put_params cs)"

text \<open>Columns as they are defined, and as the statement keeps them. The length that is announced stays that of the last LOB column.\<close>

definition define_column :: "bool \<Rightarrow> int \<Rightarrow> param_info \<Rightarrow> int \<times> param_info \<times> u16" where
  "define_column inl num c = (let
       d = c\<lparr>oaccollid := 0, cPrecision := 0, cScale := 0, cMaxCharLen := 0\<rparr>;
       moved = (inl \<and> \<not> cIsJson c \<and> cDataType c \<noteq> OCIFileLocator);
       dt = (if cDataType c \<in> {OCIBlobLocator, VECTOR_T, JSON_T} then LongRaw else LongVarChar) in
     if isLobType c then
       if moved then (0x3FFFFFFF, d\<lparr>cDataType := dt, cFlag := 3, cMaxLen := 0x3FFFFFFF\<rparr>, dt)
       else (0, d\<lparr>cContFlag := cContFlag c OR 0x2000000, cMaxCharLen := 0x8000, cFlag := 3, cMaxLen := 0\<rparr>, cDataType c)
     else (num, d\<lparr>cContFlag := 0, cFlag := 3, cMaxLen := num\<rparr>, cDataType c))"

fun define_columns :: "'n stmt_env \<Rightarrow> int \<Rightarrow> column list \<Rightarrow> param_info list \<times> column list" where
  "define_columns se num [] = ([], [])"
| "define_columns se num ((c, v) # cs) = (case define_column (env_inline se) num c of (num', d, dt) \<Rightarrow>
     (case define_columns se num' cs of (ds, rest) \<Rightarrow> (d # ds, ((captureColumnMetadata se c)\<lparr>cDataType := dt\<rparr>, v) # rest)))"

definition writeDefine :: "'n stmt_env \<Rightarrow> ('n, 'z, unit) querym" where
  "writeDefine se = gbind (gget columns) (\<lambda>cs. case define_columns se 0x7FFFFFFF cs of (ds, kept) \<Rightarrow>
     gseq (gupd (\<lambda>q. q\<lparr>columns := kept\<rparr>)) (on_sess (put_params ds)))"

definition exec_head :: "'n stmt_env \<Rightarrow> int \<Rightarrow> bool \<Rightarrow> bool \<Rightarrow> byte list \<Rightarrow> ('n, 'z) query_scheme \<Rightarrow> ('n, unit) sm" where
  "exec_head se exeOp ps def txt q =
     gseq (PutTTCFunc 0x3 0x5E)
    (gseq (PutUint (int_num exeOp) 4 True True)
    (gseq (PutUint (int_num (cursorID q)) 2 True True)
    (gseq (flag_byte (cursorID q = 0))
    (gseq (if ps then gseq (PutUint (go_len txt) 4 True True) (PutBytes [1]) else PutBytes [0, 1])
    (gseq (PutUint (int_num 13) 2 True True)
    (gseq (PutBytes [0, 0])
    (gseq (if exeOp AND 0x40 = 0 \<and> exeOp AND 0x20 \<noteq> 0 \<and> exeOp AND 1 \<noteq> 0 \<and> stmtType q = SELECT
           then gseq (PutBytes [0]) (PutUint (int_num (noOfRowsToFetch q)) 4 True True) else PutBytes [0, 0])
    (gseq (if env_inline se then PutInt (int_num 0x3FFFFFFF) 4 True True else PutUint (int_num 0x7FFFFFFF) 4 True True)
    (gseq (if Pars q \<noteq> [] \<and> \<not> def then gseq (PutBytes [1]) (PutUint (int_num (int (length (Pars q)))) 2 True True) else PutBytes [0, 0])
    (gseq (PutBytes [0, 0, 0, 0, 0])
          (if def then gseq (PutBytes [1]) (PutUint (int_num (int (length (columns q)))) 2 True True) else PutBytes [0, 0])))))))))))"

definition exec_versions :: "('n, 'z) query_scheme \<Rightarrow> ('n, unit) sm" where
  "exec_versions q = gbind (gget TTCVersion) (\<lambda>ver.
     gseq (gwhen (ver \<ge> 4) (PutBytes [0, 0, 1]))
    (gseq (gwhen (ver \<ge> 5) (PutBytes [0, 0, 0, 0, 0]))
    (gseq (gwhen (ver \<ge> 7) (if stmtType q = DML \<and> arrayBindCount q > 0
             then gseq (PutBytes [1]) (gseq (PutInt (int_num (arrayBindCount q)) 4 True True) (PutBytes [1]))
             else PutBytes [0, 0, 0]))
    (gseq (gwhen (ver \<ge> 8) (PutBytes [0, 0, 0, 0, 0]))
          (gwhen (ver \<ge> 9) (PutBytes [0, 0]))))))"

definition basicWrite :: "'n stmt_env \<Rightarrow> int \<Rightarrow> bool \<Rightarrow> bool \<Rightarrow> ('n, 'z, unit) querym" where
  "basicWrite se exeOp ps def = gbind (gget (\<lambda>q. (q, sStrConv q))) (\<lambda>(q, conv).
     if ps \<and> conv = None then gpanic
     else let txt = (if ps then slice_bytes (Encode (the conv) (stmt_text q)) else []) in
       gseq (on_sess (gseq (exec_head se exeOp ps def txt q)
                     (gseq (exec_versions q)
                     (gseq (gwhen ps (PutClr txt)) (put_uints (al8i4 se exeOp ps q))))))
            (if def then writeDefine se else on_sess (put_params (map p_info (Pars q)))))"

section \<open>Parameter values\<close>

text \<open>\<open>encoder.Write\<close>, by the kind of the encoder; a LOB is written as its locator.\<close>

definition encoder_write :: "par_encoder \<Rightarrow> byte list \<Rightarrow> ('z basic_session_scheme, unit) gom" where
  "encoder_write e b = (case e of
       ArrayEncoder \<Rightarrow> PutBytes (if b = [] then [0] else b)
     | CoderEncoder k lc \<Rightarrow>
         if k \<in> {VectorC, JsonC} then
           (case lc of None \<Rightarrow> PutClr [] | Some l \<Rightarrow> gseq (PutUint (go_len l) 4 True True) (gseq (PutClr l) (PutClr b)))
         else if k \<in> {BlobC, ClobC, BFileC} then gseq (gwhen (b \<noteq> []) (PutUint (go_len b) 4 True True)) (PutClr b)
         else if k = RowIDC then gerr ServerOnly
         else if k = CursorC then PutBytes [1, 0]
         else PutClr b)"

definition write_par :: "bool \<Rightarrow> parameter \<Rightarrow> ('z basic_session_scheme, unit) gom" where
  "write_par skipOut p = (let c = p_info p; b = slice_bytes (cBValue c) in
     if cFlag c = 0x80 then gret ()
     else if skipOut \<and> p_dir p = Output then gret ()
     else if isLongType c then gret ()
     else case p_encoder p of
         Some e \<Rightarrow> encoder_write e b
       | None \<Rightarrow>
           if p_dir p \<noteq> Output \<and> isLobType c then
             if cDataType c = VECTOR_T then gret ()
             else gseq (gwhen (b \<noteq> []) (PutUint (go_len b) 4 True True)) (PutClr b)
           else if p_custom p then
             gseq (PutBytes [0, 0, 0, 0]) (gseq (PutUint (go_len b) 4 True True) (gseq (PutBytes [1, 1]) (PutClr b)))
           else gret ())"

fun write_all :: "('a \<Rightarrow> ('s, unit) gom) \<Rightarrow> 'a list \<Rightarrow> ('s, unit) gom" where
  "write_all f [] = gret ()"
| "write_all f (x # xs) = gseq (f x) (write_all f xs)"

text \<open>LONG values come last. A message without values is not sent.\<close>

definition par_bytes :: "bool \<Rightarrow> parameter list \<Rightarrow> (basic_session, unit) gom" where
  "par_bytes skipOut ps = gseq (write_all (write_par skipOut) ps)
     (write_all (\<lambda>p. gwhen (isLongType (p_info p)) (PutClr (slice_bytes (cBValue (p_info p))))) ps)"

definition writePars :: "('n, 'z, unit) querym" where
  "writePars = gbind (gget (\<lambda>q. par_bytes (\<not> parse q \<and> \<not> reSendParDef q) (Pars q))) (\<lambda>w.
     on_sess (\<lambda>s. case w (NewMemorySession [] [] (props s)) of
         None \<Rightarrow> None
       | Some (Ok _, ms) \<Rightarrow> if GetWriteBuffer ms = [] then Some (Ok (), s) else PutBytes (7 # GetWriteBuffer ms) s
       | Some (Err e, _) \<Rightarrow> Some (Err e, s)
       | Some (Panic, _) \<Rightarrow> Some (Panic, s)))"

text \<open>Bulk execution: the parameters once for each row.\<close>

definition set_bulk_row :: "nat \<Rightarrow> parameter \<Rightarrow> parameter" where
  "set_bulk_row i p = (if cFlag (p_info p) = 0x80 then p
     else p\<lparr>p_info := (p_info p)\<lparr>cBValue := the (p_bulk p) ! i\<rparr>\<rparr>)"

definition bulk_row :: "nat \<Rightarrow> ('n, 'z, unit) querym" where
  "bulk_row i = gseq (\<lambda>q. if list_all (\<lambda>p. cFlag (p_info p) = 0x80 \<or> i < length (the (p_bulk p))) (Pars q)
       then Some (Ok (), q\<lparr>Pars := map (set_bulk_row i) (Pars q)\<rparr>) else Some (Panic, q)) writePars"

definition write_values :: "('n, 'z, unit) querym" where
  "write_values = gbind (gget (\<lambda>q. (bulkExec q, list_all (\<lambda>p. cFlag (p_info p) = 0x80 \<or> p_bulk p \<noteq> None) (Pars q), nat (arrayBindCount q))))
     (\<lambda>(bulk, arrays, n). if \<not> bulk then writePars else if \<not> arrays then gerr BulkArray else each [0..<n] bulk_row)"

definition reexec_head :: "('n, 'z) query_scheme \<Rightarrow> ('n, unit) sm" where
  "reexec_head q = (let sel = (stmtType q = SELECT);
       count = (if sel then noOfRowsToFetch q else if arrayBindCount q > 0 then arrayBindCount q else 1);
       exeOf = (if sel then 0x20 OR (if hasReturnClause q then 0x40000 else 0) else 0) in
     gseq (if sel then PutTTCFunc 0x3 0x4E else PutTTCFunc 3 4)
    (gseq (PutUint (int_num (cursorID q)) 2 True True)
    (gseq (PutUint (int_num count) 2 True True)
    (gseq (PutUint (int_num exeOf) 2 True True)
          (PutUint (int_num (if autoCommit q then 1 else 0)) 2 True True)))))"

definition stmt_write :: "'n stmt_env \<Rightarrow> ('n, 'z, unit) querym" where
  "stmt_write se =
     gseq (gbind (gget (\<lambda>q. (q, \<not> parse q \<and> \<not> reSendParDef q))) (\<lambda>(q, again).
       if again then on_sess (reexec_head q) else basicWrite se (getExeOption q) (parse q) (defining q)))
    (gseq write_values (on_sess (env_write (env_conn se))))"

section \<open>Values that need more than their bytes\<close>

text \<open>The fields of the connection, after a stream that shares it has worked on it.\<close>

definition put_conn :: "'n lob_stream \<Rightarrow> ('n, 'z) query_scheme \<Rightarrow> ('n, 'z) query_scheme" where
  "put_conn l q = q\<lparr>sess := sess l, StrConv := StrConv l, TimeZone := TimeZone l, State := State l, LogonMode := LogonMode l,
     autoCommit := autoCommit l, tcpNego := tcpNego l, dataNego := dataNego l, dBVersion := dBVersion l, sessionID := sessionID l,
     serialID := serialID l, transactionID := transactionID l, sStrConv := sStrConv l, nStrConv := nStrConv l, cStrConv := cStrConv l,
     NLS := NLS l, maxLen := maxLen l, bad := bad l, dbTimeZone := dbTimeZone l, temporaryLocs := temporaryLocs l\<rparr>"

text \<open>The bytes of a buffer that never held anything are a nil slice.\<close>

definition lob_data :: "'n lob_stream \<Rightarrow> nat \<times> nat \<Rightarrow> nslice" where
  "lob_data l v = (if arrays l ! fst v = [] then None else Some (view l v))"

definition read_stream :: "'n stmt_env \<Rightarrow> lob_value \<Rightarrow> ('n, 'z, nslice) querym" where
  "read_stream se v q = map_option (\<lambda>(r, l). (res_map (lob_data l) r, put_conn l q))
     (Read (env_conn se) (env_spare se) 0 0 ((NewLobStreamer (connection.truncate q))\<lparr>sourceLocator := lob_locator v\<rparr>))"

definition auto_read :: "'n stmt_env \<Rightarrow> lob_value \<Rightarrow> bool" where
  "auto_read se v \<longleftrightarrow> env_auto se \<and> lob_locator v \<noteq> None \<and> \<not> IsQuasi (slice_bytes (lob_locator v))"

definition vector_cell :: "nslice \<Rightarrow> cell res" where
  "vector_cell b = res_map (\<lambda>v. if v = VecNil then NilCell else VectorCell v) (fst (vector_Value \<lparr>bValue = b, dataType = 0, loc = None\<rparr>))"

definition clob_cell :: "StringConverter option \<Rightarrow> nslice \<Rightarrow> ('s, cell) gom" where
  "clob_cell conv b = (\<lambda>s. map_option (\<lambda>r. (r, s)) (string_value (the conv) b))"

text \<open>One value of a row. The query of a cursor, \<open>RefCursor.Query\<close>, is an argument.\<close>

definition decode_cell :: "(ref_cursor \<Rightarrow> ('n, 'z, cell) querym) \<Rightarrow> 'n stmt_env \<Rightarrow> cell \<Rightarrow> ('n, 'z, cell) querym" where
  "decode_cell qc se v = (case v of
       CursorCell cur \<Rightarrow> qc cur
     | LobCell l \<Rightarrow>
         if lob_kind l = VectorC then
           if env_inline se then lift_val (vector_cell (lob_bytes l))
           else if auto_read se l then gbind (read_stream se l) (\<lambda>b. lift_val (vector_cell b)) else gret v
         else if lob_kind l = ClobC \<and> auto_read se l then gbind (read_stream se l) (clob_cell (lob_conv l))
         else if lob_kind l = BlobC \<and> auto_read se l then gbind (read_stream se l) (\<lambda>b. gret (option_cell RawCell b))
         else gret v
     | _ \<Rightarrow> gret v)"

definition decode_at :: "(ref_cursor \<Rightarrow> ('n, 'z, cell) querym) \<Rightarrow> 'n stmt_env \<Rightarrow> nat \<Rightarrow> nat \<Rightarrow> ('n, 'z, unit) querym" where
  "decode_at qc se r k = gbind (gget (\<lambda>q. rows q ! r)) (\<lambda>row. if k < length row
     then gbind (decode_cell qc se (row ! k)) (\<lambda>v. gupd (\<lambda>q. q\<lparr>rows := (rows q)[r := (rows q ! r)[k := v]]\<rparr>))
     else gpanic)"

definition decodePrim :: "(ref_cursor \<Rightarrow> ('n, 'z, cell) querym) \<Rightarrow> 'n stmt_env \<Rightarrow> ('n, 'z, unit) querym" where
  "decodePrim qc se = gbind (gget (\<lambda>q. (length (rows q), length (columns q)))) (\<lambda>(n, m).
     each [0..<n] (\<lambda>r. each [0..<m] (decode_at qc se r)))"

section \<open>Fetching\<close>

definition row_size :: "column list \<Rightarrow> int" where
  "row_size cs = sum_list (map (\<lambda>(c, _). if isLobType c then 86 else if isLongType c then 2 else cMaxLen c) cs)"

text \<open>The default of 25 rows is replaced by as many as fit into 128 kilobytes.\<close>

definition fetch_size :: "('n, 'z) query_scheme \<Rightarrow> ('n, 'z) query_scheme" where
  "fetch_size q = (if noOfRowsToFetch q = 25 \<and> row_size (columns q) > 0
     then q\<lparr>noOfRowsToFetch := 0x20000 div row_size (columns q) + 1\<rparr> else q)"

definition fetch_request :: "int \<Rightarrow> int \<Rightarrow> ('n, unit) sm" where
  "fetch_request cur n = gseq (PutTTCFunc 3 5) (gseq (PutInt (int_num cur) 2 True True) (PutInt (int_num n) 2 True True))"

definition fetch_call :: "(ref_cursor \<Rightarrow> ('n, 'z, cell) querym) \<Rightarrow> 'n stmt_env \<Rightarrow> ('n, 'z, unit) querym" where
  "fetch_call qc se =
     gseq (on_sess (gupd ResetBuffer))
    (gseq (gbind (gget (\<lambda>q. fetch_request (cursorID q) (noOfRowsToFetch q))) on_sess)
    (gseq (on_sess (env_write (env_conn se)))
    (gseq (stmt_read se)
          (decodePrim qc se))))"

definition cursor_from_summary :: "('n, 'z) query_scheme \<Rightarrow> ('n, 'z) query_scheme" where
  "cursor_from_summary q = (case sess q of None \<Rightarrow> q | Some s \<Rightarrow> (case Summary s of None \<Rightarrow> q | Some x \<Rightarrow> q\<lparr>cursorID := CursorID x\<rparr>))"

text \<open>What every call of a statement does with an error: after a reset the rest of the answer is read, and a broken connection is marked.\<close>

definition stmt_reset :: "'n stmt_env \<Rightarrow> ('n, 'z, unit) querym \<Rightarrow> ('n, 'z, unit) querym \<Rightarrow> ('n, 'z, unit) querym" where
  "stmt_reset se m recovered =
     gbind (gtry () m) (\<lambda>(_, err).
     gbind (if err = Some ErrConnReset
            then gbind (gtry () (conn_read (env_conn se))) (\<lambda>r. gseq (gupd cursor_from_summary) (gret r)) else gret ((), err)) (\<lambda>(_, err').
       case err' of
         None \<Rightarrow> if err = None then gret () else recovered
       | Some e \<Rightarrow> if isBadConn (env_broken (env_conn se)) e then gseq (gupd setBad) (gerr ErrBadConn) else gerr e))"

definition fetch :: "(ref_cursor \<Rightarrow> ('n, 'z, cell) querym) \<Rightarrow> 'n stmt_env \<Rightarrow> ('n, 'z, unit) querym" where
  "fetch qc se = gseq (gupd fetch_size) (stmt_reset se (fetch_call qc se) (gret ()))"

section \<open>The cursor over the rows\<close>

definition rs_guard :: "('n, 'z, unit) querym" where
  "rs_guard q = Some (if \<not> hasMoreRows q \<and> rows q = [] then Err EOF else Ok (), q)"

definition first_fetch :: "('n, 'z, unit) querym \<Rightarrow> ('n, 'z, unit) querym" where
  "first_fetch f = gbind (gget (\<lambda>q. hasMoreRows q \<and> (hasBLOB q \<or> hasLONG q) \<and> rs_index q = 0)) (\<lambda>b. gwhen b (gseq f rs_guard))"

definition refill :: "('n, 'z, unit) querym \<Rightarrow> ('n, 'z, unit) querym" where
  "refill f q =
    (if rs_index q > 0 then
       if rows q = [] then Some (Panic, q)
       else if rs_index q mod int (length (rows q)) = 0 then
         if hasMoreRows q then
           if noOfRowsToFetch q < 0 then Some (Panic, q)
           else gseq (gupd (\<lambda>q. q\<lparr>rows := []\<rparr>)) (gseq f (gseq (gupd (\<lambda>q. q\<lparr>rs_index := 0\<rparr>)) rs_guard)) q
         else Some (Err EOF, q)
       else Some (Ok (), q)
     else Some (Ok (), q))"

definition hand_out :: "nat \<Rightarrow> ('n, 'z, cell list) querym" where
  "hand_out n q = (if rows q = [] then Some (Err EOF, q)
     else Some (Ok (take n (rows q ! nat (rs_index q mod int (length (rows q))))), q\<lparr>rs_index := rs_index q + 1\<rparr>))"

text \<open>\<open>Next\<close> copies a row into a slice of length \<open>n\<close>; the statement behind the result set is its \<open>fetch\<close>. Without a statement it panics.\<close>

definition Next :: "('n, 'z, unit) querym \<Rightarrow> nat \<Rightarrow> ('n, 'z, cell list) querym" where
  "Next f n q = (if \<not> cols q then Some (Panic, q)
     else gseq rs_guard (gseq (first_fetch f) (gseq (refill f) (hand_out n))) q)"

text \<open>\<open>Next_\<close> copies into the result set's own row, unless reading has replaced that.\<close>

definition next_row :: "('n, 'z, unit) querym \<Rightarrow> ('n, 'z, bool) querym" where
  "next_row f q = map_option (\<lambda>(r, q'). case r of
       Ok vs \<Rightarrow> (Ok True, if length (currentRow q') = length (currentRow q)
                         then q'\<lparr>currentRow := vs @ drop (length vs) (currentRow q')\<rparr> else q')
     | Err e \<Rightarrow> (Ok False, if e = EOF then q' else q'\<lparr>lastErr := Some e\<rparr>)
     | Panic \<Rightarrow> (Panic, q')) (Next f (length (currentRow q)) q)"

section \<open>Queries\<close>

definition queryLobPrefetch :: "'n stmt_env \<Rightarrow> ('n, 'z, unit) querym" where
  "queryLobPrefetch se =
     gbind (gget getExeOption) (\<lambda>exeOp.
     gseq (gupd fetch_size)
    (gseq (on_sess (gupd ResetBuffer))
    (gseq (basicWrite se exeOp False True)
    (gseq (on_sess (env_write (env_conn se)))
          (stmt_read se)))))"

definition reset_flags :: "('n, 'z) query_scheme \<Rightarrow> ('n, 'z) query_scheme" where
  "reset_flags q = q\<lparr>parse := False, defining := False, reSendParDef := False\<rparr>"

text \<open>A query into a new result set. What follows when the answer had implicit results, the queries of their cursors, is an argument.\<close>

definition new_result_set :: "('n, 'z) query_scheme \<Rightarrow> ('n, 'z) query_scheme" where
  "new_result_set q = q\<lparr>columnCount := 0, rowCount := 0, uACBufferLength := 0, maxRowSize := 0, cols := False, rows := [],
     currentRow := [], rs_index := 0, lastErr := None\<rparr>"

definition after_query :: "(ref_cursor \<Rightarrow> ('n, 'z, cell) querym) \<Rightarrow> 'n stmt_env \<Rightarrow> ('n, 'z, unit) querym" where
  "after_query qc se =
     gseq (gbind (gget (\<lambda>q. parse q \<and> (hasBLOB q \<or> hasLONG q) \<and> env_inline se)) (\<lambda>b. gwhen b
            (gseq (gupd (\<lambda>q. q\<lparr>defining := True, execute := False, parse := False, reSendParDef := False\<rparr>)) (queryLobPrefetch se))))
    (gseq (decodePrim qc se)
          (gupd reset_flags))"

definition stmt_query ::
    "(ref_cursor list \<Rightarrow> ('n, 'z, unit) querym) \<Rightarrow> (ref_cursor \<Rightarrow> ('n, 'z, cell) querym) \<Rightarrow> 'n stmt_env \<Rightarrow> ('n, 'z, unit) querym" where
  "stmt_query implicit qc se =
     gseq (on_sess (gupd ResetBuffer))
    (gseq (stmt_write se)
    (gseq (gupd new_result_set)
    (gseq (stmt_read se)
          (gbind (gget multiSet) (\<lambda>ms. if ms \<noteq> [] then implicit ms else after_query qc se)))))"

definition query_call ::
    "(ref_cursor list \<Rightarrow> ('n, 'z, unit) querym) \<Rightarrow> (ref_cursor \<Rightarrow> ('n, 'z, cell) querym) \<Rightarrow> 'n stmt_env \<Rightarrow> ('n, 'z, unit) querym" where
  "query_call implicit qc se q = (if State q \<noteq> Opened then Some (Err ErrBadConn, setBad q)
     else gseq (gupd (\<lambda>q. q\<lparr>noOfRowsToFetch := env_prefetch se, hasMoreRows := True\<rparr>)) (stmt_reset se (stmt_query implicit qc se) (gerr NoResultSet)) q)"

definition stmt_Close :: "'n stmt_env \<Rightarrow> ('n, 'z, unit) querym" where
  "stmt_Close se q = (if State q \<noteq> Opened then Some (Err ErrBadConn, setBad q)
     else if cursorID q = 0 then Some (Ok (), q)
     else gseq (on_sess (gseq (gupd ResetBuffer) (gseq (PutTTCFunc 0x11 0x69) (gseq (PutBytes [1, 1, 1]) (PutInt (int_num (cursorID q)) 4 True True)))))
         (simple_exec (env_conn se) 0x93 None) q)"

end
