(* ===== verification/Column_Meta.thy ===== *)
theory Column_Meta
  imports Stmt_Calls
begin

text \<open>
  The metadata of a column that \<^verbatim>\<open>database/sql\<close> asks a result set for (\<^verbatim>\<open>v3/result_set.go\<close>): type name, length, precision and scale,
  nullability and the Go type of the values. No user-defined types are registered, so that a column of such a type has no scan type.
\<close>

section \<open>The table of types\<close>

text \<open>The Go types of \<^verbatim>\<open>ColumnTypeScanType\<close>; \<open>NoScan\<close> is nil.\<close>

datatype scan_type = NoScan | StringS | BytesS | TimeS | Float32S | Float64S | BoolS | FloatsS | DoublesS
  | ClobPtr | BlobPtr | BFilePtr | VectorPtr | JsonPtr

datatype length_kind = LengthNone | LengthChars | LengthBytes | LengthUnbounded

record column_base =
  base_name :: string
  base_length :: length_kind
  base_scan :: scan_type

definition base :: "string \<Rightarrow> length_kind \<Rightarrow> scan_type \<Rightarrow> column_base" where
  "base n k t = \<lparr>base_name = n, base_length = k, base_scan = t\<rparr>"

definition columnTypeMetadataByType :: "(u16 \<times> column_base) list" where
  "columnTypeMetadataByType =
    [(NCHAR, base ''VARCHAR2'' LengthChars StringS), (NUMBER, base ''NUMBER'' LengthNone StringS), (4, base ''FLOAT'' LengthNone NoScan),
     (LONG, base ''LONG'' LengthUnbounded StringS), (9, base ''VARCHAR2'' LengthChars NoScan), (ROWID, base ''ROWID'' LengthNone StringS),
     (DATE_T, base ''DATE'' LengthNone TimeS), (15, base ''RAW'' LengthBytes NoScan), (21, base ''BINARY_FLOAT'' LengthNone NoScan),
     (22, base ''BINARY_DOUBLE'' LengthNone NoScan), (RAW, base ''RAW'' LengthBytes BytesS), (LongRaw, base ''LONG RAW'' LengthUnbounded BytesS),
     (LongVarChar, base ''LONG'' LengthUnbounded StringS), (LongVarRaw, base ''LONG RAW'' LengthUnbounded NoScan),
     (CHAR_T, base ''CHAR'' LengthNone StringS), (97, base ''CHAR'' LengthNone NoScan), (IBFLOAT, base ''BINARY_FLOAT'' LengthNone Float32S),
     (IBDOUBLE, base ''BINARY_DOUBLE'' LengthNone Float64S), (REFCURSOR, base ''REF CURSOR'' LengthNone NoScan),
     (108, base ''XMLTYPE'' LengthUnbounded NoScan), (XMLType, base ''XMLTYPE'' LengthUnbounded NoScan),
     (OCIClobLocator, base ''CLOB'' LengthUnbounded NoScan), (OCIBlobLocator, base ''BLOB'' LengthUnbounded NoScan),
     (OCIFileLocator, base ''BFILE'' LengthUnbounded NoScan), (116, base ''RESULT SET'' LengthNone NoScan),
     (JSON_T, base ''JSON'' LengthUnbounded JsonPtr), (VECTOR_T, base ''VECTOR'' LengthUnbounded NoScan),
     (TimeStampDTY, base ''TIMESTAMP'' LengthNone TimeS), (TimeStampTZ_DTY, base ''TIMESTAMP WITH TIME ZONE'' LengthNone TimeS),
     (INTERVALYM_DTY, base ''INTERVAL YEAR TO MONTH'' LengthNone TimeS), (INTERVALDS_DTY, base ''INTERVAL DAY TO SECOND'' LengthNone TimeS),
     (186, base ''TIME WITH TIME ZONE'' LengthNone NoScan), (TIMESTAMP, base ''TIMESTAMP'' LengthNone TimeS),
     (TIMESTAMPTZ, base ''TIMESTAMP WITH TIME ZONE'' LengthNone TimeS), (IntervalYM, base ''INTERVAL YEAR TO MONTH'' LengthNone NoScan),
     (IntervalDS, base ''INTERVAL DAY TO SECOND'' LengthNone NoScan), (UROWID, base ''UROWID'' LengthBytes StringS),
     (TimeStampLTZ_DTY, base ''TIMESTAMP WITH LOCAL TIME ZONE'' LengthNone TimeS),
     (TimeStampLTZ, base ''TIMESTAMP WITH LOCAL TIME ZONE'' LengthNone TimeS), (BOOLEAN, base ''BOOLEAN'' LengthNone BoolS)]"

text \<open>A type that is not in the table has the zero entry.\<close>

definition column_base_of :: "u16 \<Rightarrow> column_base" where
  "column_base_of dt = (case map_of columnTypeMetadataByType dt of Some b \<Rightarrow> b | None \<Rightarrow> base [] LengthNone NoScan)"

section \<open>The metadata of a column\<close>

record column_metadata =
  databaseTypeName :: "byte list"
  cm_length :: int
  lengthKnown :: bool
  precision :: int
  cm_scale :: int
  precisionScaleOK :: bool
  nullable :: bool
  cm_nullabilityKnown :: bool
  scanType :: scan_type

definition MaxInt64 :: int where "MaxInt64 = 2 ^ 63 - 1"

definition isUDTColumn :: "param_info \<Rightarrow> u16 \<Rightarrow> bool" where
  "isUDTColumn c dt \<longleftrightarrow> cTypeName c \<noteq> [] \<and> to_upper (cTypeName c) \<noteq> XMLTYPE \<and> (dt = XMLType \<or> dt = 108)"

definition inlineLobColumn :: "param_info \<Rightarrow> u16 \<Rightarrow> bool" where
  "inlineLobColumn c dt =
    (if dt = OCIFileLocator \<or> cIsJson c then False
     else case lobModes c of Some (inl, _) \<Rightarrow> inl
     | None \<Rightarrow> (if cDataType c = LongVarChar then dt = OCIClobLocator
               else if cDataType c = LongRaw then dt \<in> {OCIBlobLocator, VECTOR_T, JSON_T} else False))"

definition automaticLobColumn :: "param_info \<Rightarrow> bool" where
  "automaticLobColumn c = (case lobModes c of None \<Rightarrow> True | Some (_, auto) \<Rightarrow> auto)"

definition metadataScanType :: "param_info \<Rightarrow> u16 \<Rightarrow> scan_type \<Rightarrow> scan_type" where
  "metadataScanType c dt st =
    (if dt = OCIClobLocator then if inlineLobColumn c dt \<or> automaticLobColumn c then StringS else ClobPtr
     else if dt = OCIBlobLocator then if inlineLobColumn c dt \<or> automaticLobColumn c then BytesS else BlobPtr
     else if dt = JSON_T then if inlineLobColumn c dt then BytesS else JsonPtr
     else if dt = VECTOR_T then
       if inlineLobColumn c dt then BytesS
       else if automaticLobColumn c then
         if cVectorFormat c = 2 then FloatsS else if cVectorFormat c = 3 then DoublesS else if cVectorFormat c = 4 then BytesS else NoScan
       else VectorPtr
     else if dt = OCIFileLocator then BFilePtr
     else st)"

definition metadata_name :: "param_info \<Rightarrow> u16 \<Rightarrow> byte list" where
  "metadata_name c dt =
    (let national = (cCharsetForm c = 2);
         name = ascii (if dt \<in> {CHAR_T, 97} \<and> national then ''NCHAR'' else if dt \<in> {NCHAR, 9} \<and> national then ''NVARCHAR2''
           else if dt = OCIClobLocator \<and> national then ''NCLOB'' else base_name (column_base_of dt));
         name = (if isUDTColumn c dt then to_upper (cTypeName c)
           else if cIsXmlType c \<or> to_upper (cTypeName c) = XMLTYPE then XMLTYPE else name)
     in if cIsJson c then ascii ''JSON'' else name)"

text \<open>The length, when it is known.\<close>

definition metadata_length :: "param_info \<Rightarrow> u16 \<Rightarrow> int option" where
  "metadata_length c dt =
    (let len = (case base_length (column_base_of dt) of
           LengthChars \<Rightarrow> if cMaxCharLen c > 0 then Some (cMaxCharLen c) else if cMaxLen c > 0 then Some (cMaxLen c) else None
         | LengthBytes \<Rightarrow> if cMaxLen c > 0 then Some (cMaxLen c) else None
         | LengthUnbounded \<Rightarrow> Some MaxInt64
         | LengthNone \<Rightarrow> None);
         len = (if cIsJson c then Some MaxInt64 else len)
     in if isUDTColumn c dt then None else len)"

definition metadataForColumn :: "param_info \<Rightarrow> column_metadata" where
  "metadataForColumn c =
    (let dt = (case originalDataType c of Some t \<Rightarrow> t | None \<Rightarrow> cDataType c);
         len = metadata_length c dt; num = (dt = NUMBER \<and> precisionScaleKnown c)
     in \<lparr>databaseTypeName = metadata_name c dt, cm_length = (case len of None \<Rightarrow> 0 | Some n \<Rightarrow> n), lengthKnown = (len \<noteq> None),
         precision = (if num then if unconstrainedNumber c then MaxInt64 else rawPrecision c else 0),
         cm_scale = (if num then if unconstrainedNumber c then MaxInt64 else rawScale c else 0), precisionScaleOK = num,
         nullable = cAllowNull c, cm_nullabilityKnown = nullabilityKnown c,
         scanType = metadataScanType c dt (if isUDTColumn c dt then NoScan else base_scan (column_base_of dt))\<rparr>)"

text \<open>A result set has no metadata for an index out of range, or without its columns.\<close>

definition zero_metadata :: column_metadata where
  "zero_metadata = \<lparr>databaseTypeName = [], cm_length = 0, lengthKnown = False, precision = 0, cm_scale = 0, precisionScaleOK = False,
     nullable = False, cm_nullabilityKnown = False, scanType = NoScan\<rparr>"

definition columnMetadata :: "int \<Rightarrow> ('n, 'z) query_scheme \<Rightarrow> column_metadata" where
  "columnMetadata i q = (if \<not> cols q \<or> i < 0 \<or> i \<ge> int (length (columns q)) then zero_metadata
     else metadataForColumn (fst (columns q ! nat i)))"

text \<open>The answers that \<^verbatim>\<open>database/sql\<close> gets, and the names of the columns, nil without columns.\<close>

definition ColumnTypeDatabaseTypeName :: "int \<Rightarrow> ('n, 'z) query_scheme \<Rightarrow> byte list" where
  "ColumnTypeDatabaseTypeName i q = databaseTypeName (columnMetadata i q)"

definition ColumnTypeLength :: "int \<Rightarrow> ('n, 'z) query_scheme \<Rightarrow> int \<times> bool" where
  "ColumnTypeLength i q = (let m = columnMetadata i q in (cm_length m, lengthKnown m))"

definition ColumnTypeNullable :: "int \<Rightarrow> ('n, 'z) query_scheme \<Rightarrow> bool \<times> bool" where
  "ColumnTypeNullable i q = (let m = columnMetadata i q in (nullable m, cm_nullabilityKnown m))"

definition ColumnTypePrecisionScale :: "int \<Rightarrow> ('n, 'z) query_scheme \<Rightarrow> int \<times> int \<times> bool" where
  "ColumnTypePrecisionScale i q = (let m = columnMetadata i q in (precision m, cm_scale m, precisionScaleOK m))"

definition ColumnTypeScanType :: "int \<Rightarrow> ('n, 'z) query_scheme \<Rightarrow> scan_type" where
  "ColumnTypeScanType i q = scanType (columnMetadata i q)"

definition Columns :: "('n, 'z) query_scheme \<Rightarrow> byte list list option" where
  "Columns q = (if \<not> cols q \<or> columns q = [] then None else Some (map (\<lambda>c. cName (fst c)) (columns q)))"

end
