(* ===== verification/Stmt_Props.thy ===== *)
theory Stmt_Props
  imports Stmt_Calls Lob_Props
begin

text \<open>
  What a statement reads: the rows of a batch, of which the server sends only the columns that have changed, come out complete; a batch that a
  fetch brings is appended to the result set.
\<close>

section \<open>A server in the middle of an answer\<close>

text \<open>Besides the capabilities, the number of packets that were sent stays as it is while an answer is read.\<close>

definition told :: "byte \<times> bool \<times> bool \<Rightarrow> session_props \<Rightarrow> nat \<Rightarrow> 'n session \<Rightarrow> bool" where
  "told caps p n s \<longleftrightarrow> answering caps s \<and> props s = p \<and> length (wire s) = n"

interpretation tell: net_reader "net_read ops" "told caps p n" net_pending for ops :: "'n nego_ops" and caps p n
proof
  fix s :: "'n session" and bs rest
  assume "told caps p n s" and "net_pending s = bs @ rest"
  then show "\<exists>s'. net_read ops (int (length bs)) s = Some (Ok bs, s') \<and> told caps p n s' \<and> props s' = props s \<and> net_pending s' = rest"
    using net_reads [of s bs rest ops] by (auto simp: told_def answering_def session_caps_def kept_def)
qed

abbreviation tparses where
  "tparses caps p n \<equiv> cparses (told caps p n) net_pending p"

abbreviation reads_from :: "'n stmt_env \<Rightarrow> 'n nego_ops \<Rightarrow> bool" where
  "reads_from se ops \<equiv> env_read (env_conn se) = net_read ops"

lemma cparses_quiet: "(\<And>x. m (c\<lparr>sess := x\<rparr>) = Some (Ok a, c'\<lparr>sess := x\<rparr>)) \<Longrightarrow> cparses ok pending p c m [] a c'"
  by (auto simp: cparses_def)

lemma tparses_byte: "reads_from se ops \<Longrightarrow> tparses caps p n q (on_sess (GetByte (env_read (env_conn se)))) [b] b q"
  using cparses_on_sess [OF tell.parses_GetByte] by simp

lemma tparses_int: "reads_from se ops \<Longrightarrow> field_ok v \<Longrightarrow> tparses caps p n q (on_sess (GetInt (env_read (env_conn se)) sz True True)) (wire_nat v) v q"
  using cparses_on_sess [OF tell.parses_GetInt_compressed [of "nat v"]] by (simp add: wire_nat_def field_ok_def nat_less_iff)

lemma tparses_clr: "reads_from se ops \<Longrightarrow> clr_ok p \<Longrightarrow> tparses caps p n q (on_sess (GetClr (env_read (env_conn se)))) (wire_clr p b) (nslice_of b) q"
  using cparses_on_sess [OF tell.parses_GetClr] by simp

lemma tparses_dlc:
  "reads_from se ops \<Longrightarrow> clr_ok p \<Longrightarrow> length b < 2 ^ 32 \<Longrightarrow>
   tparses caps p n q (on_sess (GetDlc (env_read (env_conn se)))) (wire_dlc p b) (nslice_of b) q"
  using cparses_on_sess [OF tell.parses_GetDlc] by simp

lemma tparses_skip_int: "reads_from se ops \<Longrightarrow> field_ok v \<Longrightarrow> tparses caps p n q (skip_int se sz) (wire_nat v) () q"
  unfolding skip_int_def by (rule cparses_seqI [OF tparses_int cparses_ret]) simp_all

lemma tparses_skip_byte: "reads_from se ops \<Longrightarrow> tparses caps p n q (skip_byte se) [b] () q"
  unfolding skip_byte_def by (rule cparses_seqI [OF tparses_byte cparses_ret]) simp_all

section \<open>One value\<close>

definition plain_column :: "param_info \<Rightarrow> coder \<Rightarrow> bool" where
  "plain_column c k \<longleftrightarrow> cArraySize c \<le> 0 \<and> cDataType c \<noteq> 0 \<and> cDataType c \<noteq> REFCURSOR \<and> GetParameterCoder c = Ok k
     \<and> k \<in> {StringC, RawC, NumberC, DateC, IntervalC, BoolC} \<and> \<not> (cDataType c \<in> {NCHAR, CHAR_T, RAW} \<and> cMaxLen c = 0)
     \<and> \<not> isLongType c \<and> cBValue c = None"

text \<open>What the bytes of a column mean on a connection.\<close>

definition column_value :: "'n stmt_env \<Rightarrow> ('n, 'z) connection_scheme \<Rightarrow> param_info \<Rightarrow> byte list \<Rightarrow> cell option" where
  "column_value se s c b = (case GetParameterCoder c of
       Ok k \<Rightarrow> (case map_option fst (decode_value se k c (nslice_of b) s) of Some (Ok v) \<Rightarrow> Some v | _ \<Rightarrow> None) | _ \<Rightarrow> None)"

text \<open>A decoder reads of the connection its converters and its time zone.\<close>

definition same_charset :: "('n, 'z) connection_scheme \<Rightarrow> ('n, 'y) connection_scheme \<Rightarrow> bool" where
  "same_charset s s' \<longleftrightarrow> (\<forall>others i f. GetStringCoder others i f s = GetStringCoder others i f s') \<and> dbTimeZone s = dbTimeZone s'"

lemma same_charset_sess: "same_charset (s\<lparr>sess := x\<rparr>) s"
  by (simp add: same_charset_def GetStringCoder_def Let_def cong: if_cong option.case_cong)

lemma same_charset_query: "same_charset (q\<lparr>columns := cs\<rparr>) q" "same_charset (q\<lparr>rows := rs\<rparr>) q"
  by (simp_all add: same_charset_def GetStringCoder_def Let_def cong: if_cong option.case_cong)

lemma decode_value_keeps: "decode_value se k c b s = map_option (\<lambda>r. (r, s)) (map_option fst (decode_value se k c b s))"
  by (cases k) (simp_all add: decode_value_def option.map_comp o_def split: res.split)

lemma decode_value_same: "same_charset s s' \<Longrightarrow> map_option fst (decode_value se k c b s) = map_option fst (decode_value se k c b s')"
  by (cases k) (simp_all add: decode_value_def same_charset_def option.map_comp o_def split: res.split)

lemma column_value_same: "same_charset s s' \<Longrightarrow> column_value se s c b = column_value se s' c b"
  using decode_value_same [of s s' se _ c "nslice_of b"] by (auto simp: column_value_def split: res.split)

lemmas column_value_query [simp] = column_value_same [OF same_charset_query(1)] column_value_same [OF same_charset_query(2)]

lemma coder_flag [simp]: "GetParameterCoder (c\<lparr>getDataFromServer := f\<rparr>) = GetParameterCoder c"
  by (simp add: GetParameterCoder_def cong: if_cong option.case_cong)

lemma decode_value_flag [simp]: "decode_value se k (c\<lparr>getDataFromServer := f\<rparr>) b s = decode_value se k c b s"
  by (cases k) (simp_all add: decode_value_def)

lemma column_value_flag [simp]: "column_value se q (c\<lparr>getDataFromServer := f\<rparr>) b = column_value se q c b"
  by (simp add: column_value_def cong: res.case_cong)

lemma plain_column_flag [simp]: "plain_column (c\<lparr>getDataFromServer := f\<rparr>) = plain_column c"
  by (simp add: plain_column_def isLongType_def fun_eq_iff)

lemma plain_column_read:
  "plain_column c k \<Longrightarrow> read_value se inl str k c = gbind (on_sess (GetClr (env_read (env_conn se)))) (\<lambda>b. gret (RawBytes b))"
  by (auto simp: plain_column_def read_value_def lob_coder_def BasicRead_def)

lemma plain_column_decode:
  "plain_column c k \<Longrightarrow> calculateColumnValue se c = gbind (lift_val (Ok k)) (\<lambda>k. gbind (read_value se (env_inline se) (isLobType c) k c) (\<lambda>r.
     gbind (decode_raw se k c r) (\<lambda>v. gret (c, v))))"
proof -
  assume "plain_column c k"
  moreover from this have *: "c\<lparr>cBValue := None\<rparr> = c" by (simp add: plain_column_def)
  ultimately show ?thesis unfolding calculateColumnValue_def decodePrimValue_def * by (simp add: plain_column_def)
qed

lemma tparses_value:
  assumes "reads_from se ops" and "clr_ok p" and plain: "plain_column c k" and v: "column_value se q c b = Some v"
  shows "tparses caps p n q (calculateColumnValue se c) (wire_clr p b) (c, v) q"
proof -
  let ?P = "tparses caps p n"
  have dec: "map_option fst (decode_value se k c (nslice_of b) q) = Some (Ok v)"
    using v plain by (auto simp: column_value_def plain_column_def split: option.splits res.splits)
  have "decode_value se k c (nslice_of b) (q\<lparr>sess := y\<rparr>) = Some (Ok v, q\<lparr>sess := y\<rparr>)" for y
    by (subst decode_value_keeps) (simp add: decode_value_same [OF same_charset_sess] dec)
  then have dv: "?P q (decode_raw se k c (RawBytes (nslice_of b))) [] v q"
    by (auto simp: decode_raw_def cparses_def)
  have rd: "?P q (read_value se (env_inline se) (isLobType c) k c) (wire_clr p b) (RawBytes (nslice_of b)) q"
    unfolding plain_column_read [OF plain] by (rule cparses_bindI [OF tparses_clr [OF assms(1,2)] cparses_ret]) simp
  show ?thesis
    unfolding plain_column_decode [OF plain]
    by (rule cparses_bindI, rule cparses_lift [OF refl], rule cparses_bindI, rule rd, rule cparses_bindI, rule dv, rule cparses_ret) simp_all
qed

lemma tparses_column:
  assumes "reads_from se ops" and "clr_ok p" and "k < length (columns q)" and "columns q ! k = (c, old)" and "plain_column c kd"
  shows "getDataFromServer c \<Longrightarrow> column_value se q c b = Some v \<Longrightarrow>
      tparses caps p n q (read_column se k) (wire_clr p b) v (q\<lparr>columns := (columns q)[k := (c, v)]\<rparr>)"
    and "\<not> getDataFromServer c \<Longrightarrow> tparses caps p n q (read_column se k) [] old q"
proof -
  show "tparses caps p n q (read_column se k) [] old q" if "\<not> getDataFromServer c"
    unfolding read_column_def by (rule cparses_get) (simp_all add: assms(4) that cparses_ret)
  assume sent: "getDataFromServer c" "column_value se q c b = Some v"
  let ?P = "tparses caps p n"
  have long: "\<not> isLongType c" using assms(5) by (simp add: plain_column_def)
  have "?P q (gupd (\<lambda>q. q\<lparr>columns := (columns q)[k := (c, v)]\<rparr>)) [] () (q\<lparr>columns := (columns q)[k := (c, v)]\<rparr>)"
    by (rule cparses_upd) simp
  then have "?P q (gseq (gwhen (isLongType c) (gseq (skip_int se 4) (skip_int se 4)))
      (gseq (gupd (\<lambda>q. q\<lparr>columns := (columns q)[k := (c, v)]\<rparr>)) (gret v))) [] v (q\<lparr>columns := (columns q)[k := (c, v)]\<rparr>)"
    using long by (simp add: gwhen_def) (intro cparses_seqI [OF cparses_ret] cparses_seqI [OF _ cparses_ret]; simp)
  then show "?P q (read_column se k) (wire_clr p b) v (q\<lparr>columns := (columns q)[k := (c, v)]\<rparr>)"
    unfolding read_column_def
    by (intro cparses_get) (simp_all add: assms(4) sent(1), rule cparses_bindI [OF tparses_value [OF assms(1,2,5) sent(2)]], simp_all)
qed

section \<open>One row\<close>

text \<open>A row as the server sends it: for every column its bytes, or nothing where it is to keep its value.\<close>

definition wire_row :: "session_props \<Rightarrow> byte list option list \<Rightarrow> byte list" where
  "wire_row p sent = concat (map (\<lambda>x. case x of None \<Rightarrow> [] | Some b \<Rightarrow> wire_clr p b) sent)"

text \<open>\<open>new_column se q col x col'\<close>: after a row with \<open>x\<close> for it, column \<open>col\<close> is \<open>col'\<close>.\<close>

definition new_column :: "'n stmt_env \<Rightarrow> 'n query \<Rightarrow> column \<Rightarrow> byte list option \<Rightarrow> column \<Rightarrow> bool" where
  "new_column se q col x col' \<longleftrightarrow> (\<exists>k. plain_column (fst col) k) \<and> getDataFromServer (fst col) = (x \<noteq> None) \<and> fst col' = fst col \<and>
     (case x of None \<Rightarrow> snd col' = snd col | Some b \<Rightarrow> column_value se q (fst col) b = Some (snd col'))"

lemma tparses_new_column:
  assumes "reads_from se ops" and "clr_ok p" and "k < length (columns q)" and "new_column se q (columns q ! k) x col"
  shows "tparses caps p n q (read_column se k) (case x of None \<Rightarrow> [] | Some b \<Rightarrow> wire_clr p b) (snd col) (q\<lparr>columns := (columns q)[k := col]\<rparr>)"
proof -
  obtain c old where c: "columns q ! k = (c, old)" by fastforce
  obtain v where col: "col = (c, v)" using assms(4) c by (cases col) (auto simp: new_column_def)
  obtain kd where kd: "plain_column c kd" using assms(4) c by (auto simp: new_column_def)
  show ?thesis
  proof (cases x)
    case None
    then have "v = old" "\<not> getDataFromServer c" using assms(4) c col by (auto simp: new_column_def)
    moreover have "q\<lparr>columns := (columns q)[k := (c, old)]\<rparr> = q" using list_update_id [of "columns q" k] c by simp
    ultimately show ?thesis using tparses_column(2) [OF assms(1-3) c kd] None col by simp
  next
    case (Some b)
    then show ?thesis using tparses_column(1) [OF assms(1-3) c kd] assms(4) c col by (simp add: new_column_def)
  qed
qed

lemma tparses_read_row:
  assumes "reads_from se ops" and "clr_ok p"
    and "list_all2 (\<lambda>(c, x) c'. new_column se q c x c') (zip (drop k (columns q)) sent) cs" and "length sent = length (drop k (columns q))"
    and "length row = length (columns q)" and "k \<le> length (columns q)"
  shows "tparses caps p n q (read_row se [k..<length (columns q)] row) (wire_row p sent) (take k row @ map snd cs)
    (q\<lparr>columns := take k (columns q) @ cs\<rparr>)"
  using assms(3-6)
proof (induction sent arbitrary: k q row cs)
  case Nil
  then have "k = length (columns q)" "cs = []" by auto
  with Nil show ?case by (simp add: wire_row_def cparses_ret)
next
  case (Cons x sent)
  then have k: "k < length (columns q)" by auto
  have dr: "drop k (columns q) = columns q ! k # drop (Suc k) (columns q)" using k by (simp add: Cons_nth_drop_Suc)
  obtain c cs' where cs: "cs = c # cs'" and c: "new_column se q (columns q ! k) x c"
      and rest: "list_all2 (\<lambda>(c, x) c'. new_column se q c x c') (zip (drop (Suc k) (columns q)) sent) cs'"
    using Cons.prems(1) unfolding dr by (auto simp: list_all2_Cons1)
  let ?q = "q\<lparr>columns := (columns q)[k := c]\<rparr>"
  have "list_all2 (\<lambda>(c, x) c'. new_column se ?q c x c') (zip (drop (Suc k) (columns ?q)) sent) cs'"
    using rest by (simp add: new_column_def cong: option.case_cong)
  then have "tparses caps p n ?q (read_row se [Suc k..<length (columns ?q)] (row[k := snd c])) (wire_row p sent)
      (take (Suc k) (row[k := snd c]) @ map snd cs') (?q\<lparr>columns := take (Suc k) (columns ?q) @ cs'\<rparr>)"
    using Cons.prems k by (intro Cons.IH) auto
  moreover have "take (Suc k) (row[k := snd c]) = take k row @ [snd c]" using Cons.prems k by (simp add: take_Suc_conv_app_nth)
  moreover have "take (Suc k) ((columns q)[k := c]) = take k (columns q) @ [c]" using k by (simp add: take_Suc_conv_app_nth)
  ultimately show ?case
    using k Cons.prems cs tparses_new_column [OF assms(1,2) k c, of caps n]
    by (auto simp: upt_conv_Cons wire_row_def intro!: cparses_bindI)
qed

text \<open>The columns after a row, and the row.\<close>

definition new_columns :: "'n stmt_env \<Rightarrow> 'n query \<Rightarrow> byte list option list \<Rightarrow> column list \<Rightarrow> bool" where
  "new_columns se q sent cs \<longleftrightarrow> columnCount q = int (length (columns q)) \<and> length sent = length (columns q)
     \<and> list_all2 (\<lambda>(c, x) c'. new_column se q c x c') (zip (columns q) sent) cs"

lemma tparses_row_msg:
  assumes "reads_from se ops" and "clr_ok p" and "new_columns se q sent cs"
  shows "tparses caps p n q (row_msg se) (wire_row p sent) () (q\<lparr>columns := cs, rows := rows q @ [map snd cs]\<rparr>)"
proof -
  let ?P = "tparses caps p n" and ?l = "length (columns q)"
  have "?P q (read_row se [0..<?l] (replicate ?l NilCell)) (wire_row p sent) (map snd cs) (q\<lparr>columns := cs\<rparr>)"
    using tparses_read_row [OF assms(1,2), where k = 0 and q = q and row = "replicate ?l NilCell"] assms(3)
    by (auto simp: new_columns_def)
  moreover have "?P (q\<lparr>columns := cs\<rparr>) (gupd (\<lambda>q. q\<lparr>rows := rows q @ [map snd cs]\<rparr>)) []
      () ((\<lambda>q. q\<lparr>rows := rows q @ [map snd cs]\<rparr>) (q\<lparr>columns := cs\<rparr>))"
    by (rule cparses_upd) simp
  ultimately show ?thesis
    using assms(3) unfolding row_msg_def
    by (intro cparses_get) (auto simp: new_columns_def intro!: cparses_bindI)
qed

text \<open>A row in the middle of a query's answer.\<close>

lemma tparses_data_msg:
  assumes "reads_from se ops" and "clr_ok p" and "new_columns se q sent cs" and "\<not> containOutputPars q"
  shows "tparses caps p n q (data_msg se) (wire_row p sent) () (q\<lparr>columns := cs, rows := rows q @ [map snd cs]\<rparr>)"
  using tparses_row_msg [OF assms(1-3)] assms(4) unfolding data_msg_def by (intro cparses_get) auto

section \<open>The bit vector\<close>

text \<open>The vector that announces which columns the next row has.\<close>

definition bit_vector :: "bool list \<Rightarrow> byte list" where
  "bit_vector fs = map (\<lambda>x. horner_sum of_bool 2 (take 8 (drop (8 * x) fs))) [0..<(length fs + 7) div 8]"

lemma bit_vector_bit:
  assumes "k < length fs"
  shows "vector_bit (bit_vector fs) k = fs ! k"
proof -
  have "k div 8 < (length fs + 7) div 8" using assms by linarith
  moreover have "k mod 8 < length (drop (8 * (k div 8)) fs)" using assms by (simp add: less_diff_conv)
  moreover have "8 * (k div 8) + k mod 8 = k" by simp
  ultimately show ?thesis
    using assms by (simp add: vector_bit_def bit_vector_def bit_horner_sum_bit_word_iff)
qed

lemma set_flags_distinct:
  "distinct ks \<Longrightarrow> (\<forall>k \<in> set ks. int k < count \<longrightarrow> k < length cs) \<Longrightarrow> \<exists>cs'. set_flags bv count ks cs = Ok cs' \<and> length cs' = length cs \<and>
     (\<forall>k < length cs. cs' ! k = (if k \<in> set ks \<and> int k < count then set_flag (vector_bit bv k) (cs ! k) else cs ! k))"
proof (induction ks arbitrary: cs)
  case (Cons k ks)
  define cs1 where "cs1 = (if int k < count then cs[k := set_flag (vector_bit bv k) (cs ! k)] else cs)"
  have len: "length cs1 = length cs" by (simp add: cs1_def)
  obtain cs' where "set_flags bv count ks cs1 = Ok cs'" "length cs' = length cs"
      "\<forall>j < length cs. cs' ! j = (if j \<in> set ks \<and> int j < count then set_flag (vector_bit bv j) (cs1 ! j) else cs1 ! j)"
    using Cons.IH [of cs1] Cons.prems len by auto
  with Cons.prems show ?case by (intro exI [of _ cs']) (auto simp: cs1_def nth_list_update)
qed simp

definition flagged :: "bool list \<Rightarrow> column list \<Rightarrow> column list" where
  "flagged fs cs = map2 set_flag fs cs"

lemma setBitVector_flagged:
  assumes "columns q \<noteq> []" and "cols q" and "columnCount q = int (length (columns q))" and "length fs = length (columns q)"
  shows "setBitVector (bit_vector fs) q = Some (Ok (), q\<lparr>columns := flagged fs (columns q)\<rparr>)"
proof -
  let ?ks = "[0..<8 * length (bit_vector fs)]"
  have len: "length fs \<le> 8 * length (bit_vector fs)" by (simp add: bit_vector_def)
  obtain cs where cs: "set_flags (bit_vector fs) (columnCount q) ?ks (columns q) = Ok cs" "length cs = length (columns q)"
      "\<forall>k < length (columns q). cs ! k = set_flag (vector_bit (bit_vector fs) k) (columns q ! k)"
    using set_flags_distinct [of ?ks "columnCount q" "columns q" "bit_vector fs"] assms(3,4) len by auto
  moreover have "cs = flagged fs (columns q)"
    using cs assms(4) by (auto intro!: nth_equalityI simp: flagged_def bit_vector_bit)
  moreover have "bit_vector fs \<noteq> []" using assms(1,4) by (cases "columns q") (auto simp: bit_vector_def)
  ultimately show ?thesis using assms(2) by (simp add: setBitVector_def)
qed

lemma tparses_setBitVector:
  assumes "columns q \<noteq> []" and "cols q" and "columnCount q = int (length (columns q))" and "length fs = length (columns q)"
  shows "tparses caps p n q (setBitVector (bit_vector fs)) [] () (q\<lparr>columns := flagged fs (columns q)\<rparr>)"
proof -
  have "setBitVector (bit_vector fs) (q\<lparr>sess := x\<rparr>) = Some (Ok (), q\<lparr>columns := flagged fs (columns q), sess := x\<rparr>)" for x
    using assms by (subst setBitVector_flagged) simp_all
  then show ?thesis by (rule cparses_quiet)
qed

lemma tparses_read_bytes:
  "reads_from se ops \<Longrightarrow> tparses caps p n q (on_sess (read_bytes se (length bs))) bs bs q"
proof -
  assume io: "reads_from se ops"
  have "parses (told caps p n) net_pending p (read_bytes se (length bs)) bs bs"
    using io by (induction bs) (auto intro!: parses_ret parses_bindI [OF tell.parses_GetByte] parses_bindI [OF _ parses_ret])
  then show ?thesis by (rule cparses_on_sess)
qed

text \<open>The message carries the number of columns that are sent, which the driver skips.\<close>

definition wire_vector :: "int \<Rightarrow> bool list \<Rightarrow> byte list" where
  "wire_vector m fs = wire_nat m @ bit_vector fs"

lemma tparses_vector_msg:
  assumes "reads_from se ops" and "field_ok m"
    and "columns q \<noteq> []" and "cols q" and "columnCount q = int (length (columns q))" and "length fs = length (columns q)"
  shows "tparses caps p n q (vector_msg se) (wire_vector m fs) () (q\<lparr>columns := flagged fs (columns q)\<rparr>)"
proof -
  have len: "length (bit_vector fs) = (length (columns q) + 7) div 8" using assms(6) by (simp add: bit_vector_def)
  have "tparses caps p n q (gbind (on_sess (read_bytes se ((length (columns q) + 7) div 8))) setBitVector) (bit_vector fs) ()
      (q\<lparr>columns := flagged fs (columns q)\<rparr>)"
    using tparses_read_bytes [OF assms(1), of caps p n q "bit_vector fs"] tparses_setBitVector [OF assms(3-6), of caps p n]
    by (auto simp: len intro!: cparses_bindI)
  then have "tparses caps p n q (gbind (gget columnCount) (\<lambda>n. if n \<le> -8 then gpanic
      else gbind (on_sess (read_bytes se ((nat n + 7) div 8))) setBitVector)) (bit_vector fs) () (q\<lparr>columns := flagged fs (columns q)\<rparr>)"
    using assms(5) by (intro cparses_get) simp_all
  then show ?thesis
    unfolding vector_msg_def by (rule cparses_seqI [OF tparses_skip_int [OF assms(1,2)]]) (simp add: wire_vector_def)
qed

section \<open>The messages of an answer\<close>

text \<open>The loop over the messages comes from \<open>q\<close> to \<open>q'\<close> with these bytes.\<close>

definition advances :: "'n stmt_env \<Rightarrow> byte \<times> bool \<times> bool \<Rightarrow> session_props \<Rightarrow> nat \<Rightarrow> 'n query \<Rightarrow> byte list \<Rightarrow> 'n query \<Rightarrow> bool" where
  "advances se caps p n q bs q' \<longleftrightarrow> (\<forall>s rest. told caps p n s \<and> net_pending s = bs @ rest \<longrightarrow>
     (\<exists>s'. stmt_loop se (q\<lparr>sess := Some s\<rparr>) = stmt_loop se (q'\<lparr>sess := Some s'\<rparr>) \<and> told caps p n s' \<and> net_pending s' = rest))"

lemma advances_refl: "advances se caps p n q [] q"
  by (auto simp: advances_def)

lemma advances_trans: "advances se caps p n q bs q1 \<Longrightarrow> advances se caps p n q1 cs q2 \<Longrightarrow> advances se caps p n q (bs @ cs) q2"
  unfolding advances_def by (metis append_assoc)

lemma stmt_loop_unfold:
  "stmt_loop se = gbind (on_sess (GetByte (env_read (env_conn se)))) (\<lambda>msg.
     gseq (stmt_msg se msg) (if msg = 4 \<or> msg = 9 then gret () else stmt_loop se))"
  by (rule ext) (subst stmt_loop.simps, simp)

lemma advances_msg:
  fixes q q' :: "'n query"
  assumes "reads_from se ops" and "tparses caps p n q (stmt_msg se msg) bs () q'" and "msg \<noteq> 4" "msg \<noteq> 9"
  shows "advances se caps p n q (msg # bs) q'"
  unfolding advances_def
proof (intro allI impI, elim conjE)
  fix s :: "'n session" and rest
  assume s: "told caps p n s" "net_pending s = (msg # bs) @ rest"
  have "tparses caps p n q (on_sess (GetByte (env_read (env_conn se)))) [msg] msg q" by (rule tparses_byte [OF assms(1)])
  then obtain s1 where s1: "on_sess (GetByte (env_read (env_conn se))) (q\<lparr>sess := Some s\<rparr>) = Some (Ok msg, q\<lparr>sess := Some s1\<rparr>)"
      "told caps p n s1" "net_pending s1 = bs @ rest"
    using s unfolding cparses_def told_def by fastforce
  then obtain s2 where "stmt_msg se msg (q\<lparr>sess := Some s1\<rparr>) = Some (Ok (), q'\<lparr>sess := Some s2\<rparr>)" "told caps p n s2" "net_pending s2 = rest"
    using assms(2) unfolding cparses_def told_def by fastforce
  with s1(1) assms(3,4) show "\<exists>s'. stmt_loop se (q\<lparr>sess := Some s\<rparr>) = stmt_loop se (q'\<lparr>sess := Some s'\<rparr>) \<and> told caps p n s' \<and> net_pending s' = rest"
    by (subst stmt_loop_unfold) (auto simp: gseq_def gbind_def)
qed

section \<open>The rows of a batch\<close>

text \<open>A column that is not sent is left out of the row.\<close>

definition masked :: "bool list \<Rightarrow> 'a list \<Rightarrow> 'a option list" where
  "masked fs row = map2 (\<lambda>f b. if f then Some b else None) fs row"

text \<open>The statement between two rows: the columns with the flags of the last bit vector and the values of the last row.\<close>

definition reading_rows :: "param_info list \<Rightarrow> bool list \<Rightarrow> cell list \<Rightarrow> cell list list \<Rightarrow> 'n query \<Rightarrow> 'n query" where
  "reading_rows ds fs vs rs q = q\<lparr>columns := flagged fs (zip ds vs), rows := rs\<rparr>"

definition row_means :: "'n stmt_env \<Rightarrow> 'n query \<Rightarrow> param_info list \<Rightarrow> byte list list \<Rightarrow> cell list \<Rightarrow> bool" where
  "row_means se q ds row vs \<longleftrightarrow> length row = length ds \<and> length vs = length ds \<and> (\<forall>k < length ds. column_value se q (ds ! k) (row ! k) = Some (vs ! k))"

definition plain_query :: "param_info list \<Rightarrow> 'n query \<Rightarrow> bool" where
  "plain_query ds q \<longleftrightarrow> ds \<noteq> [] \<and> columnCount q = int (length ds) \<and> cols q \<and> \<not> containOutputPars q \<and> (\<forall>c \<in> set ds. \<exists>k. plain_column c k)"

lemma advances_row:
  assumes "reads_from se ops" and "clr_ok p" and "plain_query ds q" and "row_means se q ds row vs'"
    and "length fs = length ds" "length vs = length ds" and "\<forall>k < length ds. fs ! k \<or> vs' ! k = vs ! k"
  shows "advances se caps p n (reading_rows ds fs vs rs q) (7 # wire_row p (masked fs row)) (reading_rows ds fs vs' (rs @ [vs']) q)"
proof -
  let ?q = "reading_rows ds fs vs rs q"
  have "new_columns se ?q (masked fs row) (flagged fs (zip ds vs'))"
    using assms(3-7)
    by (auto simp: new_columns_def reading_rows_def plain_query_def masked_def flagged_def row_means_def list_all2_conv_all_nth new_column_def
        set_flag_def)
  from tparses_data_msg [OF assms(1,2) this, of caps n]
  have "tparses caps p n ?q (stmt_msg se 7) (wire_row p (masked fs row)) () (?q\<lparr>columns := flagged fs (zip ds vs'),
      rows := rows ?q @ [map snd (flagged fs (zip ds vs'))]\<rparr>)"
    using assms(3) by (simp add: stmt_msg_def plain_query_def reading_rows_def)
  moreover have "map snd (flagged fs (zip ds vs')) = vs'"
    using assms(4,5) by (auto intro!: nth_equalityI simp: flagged_def row_means_def set_flag_def split: prod.split)
  ultimately show ?thesis
    using assms(1) by (auto intro!: advances_msg simp: reading_rows_def)
qed

lemma advances_vector:
  assumes "reads_from se ops" and "field_ok m" and "plain_query ds q" and "length fs = length ds" "length vs = length ds" "length fs' = length ds"
  shows "advances se caps p n (reading_rows ds fs vs rs q) (21 # wire_vector m fs') (reading_rows ds fs' vs rs q)"
proof -
  let ?q = "reading_rows ds fs vs rs q"
  have "fs \<noteq> []" "vs \<noteq> []" using assms(3-5) by (auto simp: plain_query_def)
  then have "tparses caps p n ?q (stmt_msg se 21) (wire_vector m fs') () (?q\<lparr>columns := flagged fs' (columns ?q)\<rparr>)"
    using tparses_vector_msg [OF assms(1,2), of ?q fs' caps p n] assms(3-6)
    by (auto simp: stmt_msg_def reading_rows_def plain_query_def flagged_def)
  moreover have "flagged fs' (flagged fs (zip ds vs)) = flagged fs' (zip ds vs)"
    using assms(4-6) by (auto intro!: nth_equalityI simp: flagged_def set_flag_def split: prod.split)
  then have "?q\<lparr>columns := flagged fs' (columns ?q)\<rparr> = reading_rows ds fs' vs rs q" by (simp add: reading_rows_def)
  ultimately show ?thesis
    using advances_msg [OF assms(1), of caps p n ?q 21] by simp
qed

text \<open>Rows with the bit vector in front of them, if there is one: its flags hold until the next. What a column means does not change from row to
  row, and a column that is left out has the value it had in the row before.\<close>

type_synonym sent_row = "(int \<times> bool list) option \<times> byte list list"

definition row_flags :: "bool list \<Rightarrow> sent_row \<Rightarrow> bool list" where
  "row_flags fs r = (case fst r of None \<Rightarrow> fs | Some (m, fs') \<Rightarrow> fs')"

fun wire_rows :: "session_props \<Rightarrow> bool list \<Rightarrow> sent_row list \<Rightarrow> byte list" where
  "wire_rows p fs [] = []"
| "wire_rows p fs (r # rs) = (case fst r of None \<Rightarrow> [] | Some (m, fs') \<Rightarrow> 21 # wire_vector m fs') @
     7 # wire_row p (masked (row_flags fs r) (snd r)) @ wire_rows p (row_flags fs r) rs"

definition row_sent :: "param_info list \<Rightarrow> bool list \<Rightarrow> cell list \<Rightarrow> sent_row \<Rightarrow> cell list \<Rightarrow> bool" where
  "row_sent ds fs vs r vs' \<longleftrightarrow> length (row_flags fs r) = length ds \<and> (\<forall>m fs'. fst r = Some (m, fs') \<longrightarrow> field_ok m)
     \<and> (\<forall>k < length ds. row_flags fs r ! k \<or> vs' ! k = vs ! k)"

fun rows_sent :: "'n stmt_env \<Rightarrow> 'n query \<Rightarrow> param_info list \<Rightarrow> bool list \<Rightarrow> cell list \<Rightarrow> sent_row list \<Rightarrow> cell list list \<Rightarrow> bool" where
  "rows_sent se q ds fs vs [] [] = True"
| "rows_sent se q ds fs vs (r # rs) (vs' # vss) \<longleftrightarrow>
     row_means se q ds (snd r) vs' \<and> row_sent ds fs vs r vs' \<and> rows_sent se q ds (row_flags fs r) vs' rs vss"
| "rows_sent se q ds fs vs _ _ = False"

lemma advances_rows:
  assumes "reads_from se ops" and "clr_ok p" and "plain_query ds q"
  shows "rows_sent se q ds fs vs rs vss \<Longrightarrow> length fs = length ds \<Longrightarrow> length vs = length ds \<Longrightarrow>
    \<exists>fs'. length fs' = length ds \<and> advances se caps p n (reading_rows ds fs vs old q) (wire_rows p fs rs) (reading_rows ds fs' (last (vs # vss)) (old @ vss) q)"
proof (induction rs arbitrary: fs vs vss old)
  case Nil
  then show ?case by (cases vss) (auto intro: advances_refl)
next
  case (Cons r rs)
  then obtain vs' vss' where vss: "vss = vs' # vss'" by (cases vss) auto
  let ?fs = "row_flags fs r"
  have r: "row_means se q ds (snd r) vs'" "row_sent ds fs vs r vs'" "rows_sent se q ds ?fs vs' rs vss'" using Cons.prems vss by auto
  then have len: "length ?fs = length ds" "length vs' = length ds" by (auto simp: row_sent_def row_means_def)
  have "advances se caps p n (reading_rows ds fs vs old q) (case fst r of None \<Rightarrow> [] | Some (m, fs') \<Rightarrow> 21 # wire_vector m fs')
      (reading_rows ds ?fs vs old q)"
    using r(2) Cons.prems(2,3) advances_vector [OF assms(1) _ assms(3) Cons.prems(2,3), of _ ?fs caps p n old]
    by (auto simp: row_flags_def row_sent_def advances_refl split: option.split)
  from advances_trans [OF this]
  have 1: "advances se caps p n (reading_rows ds ?fs vs old q) bs q' \<Longrightarrow> advances se caps p n (reading_rows ds fs vs old q)
      ((case fst r of None \<Rightarrow> [] | Some (m, fs') \<Rightarrow> 21 # wire_vector m fs') @ bs) q'" for bs q' .
  have 2: "advances se caps p n (reading_rows ds ?fs vs old q) (7 # wire_row p (masked ?fs (snd r))) (reading_rows ds ?fs vs' (old @ [vs']) q)"
    using r(2) by (intro advances_row [OF assms r(1) len(1) Cons.prems(3)]) (simp add: row_sent_def)
  obtain fs' where 3: "length fs' = length ds"
      "advances se caps p n (reading_rows ds ?fs vs' (old @ [vs']) q) (wire_rows p ?fs rs) (reading_rows ds fs' (last (vs' # vss')) ((old @ [vs']) @ vss') q)"
    using Cons.IH [OF r(3) len, of "old @ [vs']"] by blast
  show ?case
    using 1 [OF advances_trans [OF 2 3(2)]] 3(1) unfolding vss by (intro exI [of _ fs']) simp
qed

section \<open>The header of a batch\<close>

text \<open>With a bit vector for the first row, or without: then all columns are sent.\<close>

record row_header =
  h_byte :: byte
  h_count :: int
  h_num :: int
  h_rows :: int
  h_uac :: int
  h_flags :: "bool list option"
  h_rest :: "byte list"

definition header_ok :: "nat \<Rightarrow> row_header \<Rightarrow> bool" where
  "header_ok n h \<longleftrightarrow> list_all field_ok [h_count h, h_num h, h_rows h, h_uac h] \<and> length (h_rest h) < 2 ^ 32 \<and> n < 2 ^ 32
     \<and> (case h_flags h of None \<Rightarrow> True | Some fs \<Rightarrow> length fs = n)"

definition header_flags :: "nat \<Rightarrow> row_header \<Rightarrow> bool list" where
  "header_flags n h = (case h_flags h of None \<Rightarrow> replicate n True | Some fs \<Rightarrow> fs)"

definition wire_header :: "session_props \<Rightarrow> row_header \<Rightarrow> byte list" where
  "wire_header p h = h_byte h # wire_nat (h_count h) @ wire_nat (h_num h) @ wire_nat (h_rows h) @ wire_nat (h_uac h) @
     wire_dlc p (case h_flags h of None \<Rightarrow> [] | Some fs \<Rightarrow> bit_vector fs) @ wire_dlc p (h_rest h)"

definition with_header :: "row_header \<Rightarrow> 'n query \<Rightarrow> 'n query" where
  "with_header h q = q\<lparr>currentRow := (if int (length (currentRow q)) = columnCount q then currentRow q else replicate (nat (columnCount q)) NilCell),
     rowCount := h_rows h, uACBufferLength := h_uac h\<rparr>"

lemma flagged_twice:
  "length fs = length cs \<Longrightarrow> length fs' = length cs \<Longrightarrow> flagged fs' (flagged fs cs) = flagged fs' cs"
  by (auto intro!: nth_equalityI simp: flagged_def set_flag_def split: prod.split)

lemma tparses_header_flags:
  assumes "columns q \<noteq> []" and "cols q" and "columnCount q = int (length (columns q))" and "header_ok (length (columns q)) h"
  shows "tparses caps p n q (setBitVector (case h_flags h of None \<Rightarrow> [] | Some fs \<Rightarrow> bit_vector fs)) [] ()
    (q\<lparr>columns := flagged (header_flags (length (columns q)) h) (columns q)\<rparr>)"
proof (cases "h_flags h")
  case None
  have "map (set_flag True) (columns q) = flagged (replicate (length (columns q)) True) (columns q)"
    by (auto intro!: nth_equalityI simp: flagged_def)
  then have "setBitVector [] (q\<lparr>sess := x\<rparr>)
      = Some (Ok (), q\<lparr>columns := flagged (replicate (length (columns q)) True) (columns q), sess := x\<rparr>)" for x
    using assms(2) by (simp add: setBitVector_def)
  with None show ?thesis unfolding header_flags_def by (auto intro: cparses_quiet)
next
  case (Some fs)
  with assms show ?thesis using tparses_setBitVector [OF assms(1-3), of fs] by (simp add: header_flags_def header_ok_def)
qed

lemma tparses_rs_load:
  assumes "reads_from se ops" and "clr_ok p" and "plain_query ds q" and "header_ok (length ds) h"
    and "length fs = length ds" "length vs = length ds"
  shows "tparses caps p n (reading_rows ds fs vs rs q) (rs_load se) (wire_header p h) ()
    (reading_rows ds (header_flags (length ds) h) vs rs (with_header h q))"
proof -
  let ?P = "tparses caps p n" and ?bv = "case h_flags h of None \<Rightarrow> [] | Some fs \<Rightarrow> bit_vector fs"
  define q0 where "q0 = reading_rows ds fs vs rs q"
  define q1 where "q1 = q0\<lparr>currentRow := currentRow (with_header h q)\<rparr>"
  define q3 where "q3 = q1\<lparr>rowCount := h_rows h, uACBufferLength := h_uac h\<rparr>"
  have h: "field_ok (h_count h)" "field_ok (h_num h)" "field_ok (h_rows h)" "field_ok (h_uac h)" "length (h_rest h) < 2 ^ 32" "length ?bv < 2 ^ 32"
    using assms(4) by (auto simp: header_ok_def bit_vector_def split: option.splits)
  have q: "columnCount q = int (length ds)" "ds \<noteq> []" "cols q" using assms(3) by (auto simp: plain_query_def)
  have 1: "?P q0 (gupd (\<lambda>q. if columnCount q = 0 then q\<lparr>columnCount := to_i64 (h_count h + h_num h * 0x100)\<rparr> else q)) [] () q0"
    using q by (auto simp: cparses_def gupd_def q0_def reading_rows_def)
  have 2: "?P q0 (\<lambda>q. if int (length (currentRow q)) = columnCount q then Some (Ok (), q)
               else if columnCount q < 0 then Some (Panic, q)
               else Some (Ok (), q\<lparr>currentRow := replicate (nat (columnCount q)) NilCell\<rparr>)) [] () q1"
    using q by (intro cparses_quiet) (auto simp: q0_def q1_def reading_rows_def with_header_def)
  have 3: "?P q1 (gseq (gassign 0 (on_sess (GetInt (env_read (env_conn se)) 4 True True)) (\<lambda>v q. q\<lparr>rowCount := v\<rparr>))
      (gseq (gassign 0 (on_sess (GetInt (env_read (env_conn se)) 2 True True)) (\<lambda>v q. q\<lparr>uACBufferLength := v\<rparr>)) m))
      (wire_nat (h_rows h) @ wire_nat (h_uac h) @ bs) () q'" if "?P q3 m bs () q'" for m bs q'
    using that unfolding q3_def
    by (intro cparses_seqI [OF cparses_assign [OF tparses_int [OF assms(1) h(3)]]] cparses_seqI [OF cparses_assign [OF tparses_int [OF assms(1) h(4)]]]) auto
  have cols: "columns q3 = flagged fs (zip ds vs)" "length (columns q3) = length ds" "columnCount q3 = int (length ds)" "cols q3"
    using assms(5,6) q by (simp_all add: q3_def q1_def q0_def reading_rows_def flagged_def)
  then have 4: "?P q3 (setBitVector ?bv) [] () (q3\<lparr>columns := flagged (header_flags (length ds) h) (columns q3)\<rparr>)"
    using tparses_header_flags [of q3 h caps p n] assms(4) q(2) by force
  have "q3\<lparr>columns := flagged (header_flags (length ds) h) (columns q3)\<rparr> = reading_rows ds (header_flags (length ds) h) vs rs (with_header h q)"
  proof -
    have "length (header_flags (length ds) h) = length ds" using assms(4) by (simp add: header_flags_def header_ok_def split: option.splits)
    then have "flagged (header_flags (length ds) h) (columns q3) = flagged (header_flags (length ds) h) (zip ds vs)"
      unfolding cols(1) using assms(5,6) by (intro flagged_twice) simp_all
    then show ?thesis unfolding q3_def q1_def q0_def reading_rows_def with_header_def by simp
  qed
  note 4 = 4 [unfolded this]
  show ?thesis
    unfolding rs_load_def Let_def wire_header_def q0_def [symmetric]
    by (rule cparses_seqI [OF tparses_skip_byte [OF assms(1)]], rule cparses_bindI [OF tparses_int [OF assms(1) h(1)]],
        rule cparses_bindI [OF tparses_int [OF assms(1) h(2)]], rule cparses_seqI [OF 1], rule cparses_seqI [OF 2], rule 3,
        rule cparses_bindI [OF tparses_dlc [OF assms(1,2) h(6)]], unfold slice_nslice, rule cparses_seqI [OF 4],
        rule cparses_seqI [OF cparses_gignore [OF tparses_dlc [OF assms(1,2) h(5)]] cparses_ret]) simp_all
qed

section \<open>The end of an answer\<close>

lemma told_summary: "told caps p n (s\<lparr>Summary := x\<rparr>) = told caps p n s"
  using summary_kept(1) [of caps x s] by (simp add: told_def)

text \<open>A summary without an error ends the loop; that there are no more rows is not an error.\<close>

lemma stmt_loop_ends:
  fixes s :: "'n session"
  assumes "reads_from se ops" and "clr_ok p" and "told caps p n s" and "net_pending s = 4 # wire_summary caps p x r @ rest"
    and "summary_ok caps x r" and "RetCode r \<in> {0, 1403}"
  shows "\<exists>s'. stmt_loop se (q\<lparr>sess := Some s\<rparr>) = Some (Ok (), q\<lparr>sess := Some s'\<rparr>) \<and> told caps p n s' \<and> Summary s' = Some r \<and> net_pending s' = rest"
proof -
  have "tparses caps p n q (on_sess (GetByte (env_read (env_conn se)))) [4] 4 q" by (rule tparses_byte [OF assms(1)])
  then obtain s1 where s1: "on_sess (GetByte (env_read (env_conn se))) (q\<lparr>sess := Some s\<rparr>) = Some (Ok 4, q\<lparr>sess := Some s1\<rparr>)"
      "told caps p n s1" "net_pending s1 = wire_summary caps p x r @ rest"
    using assms(3,4) unfolding cparses_def told_def by fastforce
  then have "session_caps s1 = caps" "props s1 = p" by (simp_all add: told_def answering_def)
  then obtain s2 where s2: "NewSummary (net_read ops) s1 = Some (Ok (reported r), s2)" "told caps p n s2" "net_pending s2 = rest"
    using tell.NewSummary_parses [of s1 x r caps p n rest ops] assms(2,5) s1(2,3) by auto
  have rep: "reported r = r" using assms(6) by (auto simp: reported_def split: list.split)
  let ?s = "s2\<lparr>Summary := Some r\<rparr>"
  have "\<not> HasError ?s" using assms(6) by (auto simp: HasError_def)
  then have "summary_msg (env_conn se) (q\<lparr>sess := Some s1\<rparr>) = Some (Ok (), q\<lparr>sess := Some ?s\<rparr>)"
    using s2(1) assms(1) by (simp add: summary_msg_def gseq_def gbind_def gget_def gret_def on_sess_def rep)
  then have "stmt_loop se (q\<lparr>sess := Some s\<rparr>) = Some (Ok (), q\<lparr>sess := Some ?s\<rparr>)"
    using s1(1) by (subst stmt_loop_unfold) (simp add: gseq_def gbind_def gret_def stmt_msg_def ProcessTCCResponse_def)
  with s2 show ?thesis by (intro exI [of _ ?s]) (simp add: told_summary summary_kept)
qed

section \<open>A batch\<close>

text \<open>The answer to a fetch: header, rows, summary.\<close>

type_synonym batch = "row_header \<times> sent_row list \<times> (int \<times> int \<times> byte \<times> byte list list) \<times> summary_object"

fun wire_batch :: "byte \<times> bool \<times> bool \<Rightarrow> session_props \<Rightarrow> nat \<Rightarrow> batch \<Rightarrow> byte list" where
  "wire_batch caps p n (h, rs, x, r) = 6 # wire_header p h @ wire_rows p (header_flags n h) rs @ 4 # wire_summary caps p x r"

fun batch_sent ::
    "'n stmt_env \<Rightarrow> 'n query \<Rightarrow> byte \<times> bool \<times> bool \<Rightarrow> param_info list \<Rightarrow> cell list \<Rightarrow> bool \<Rightarrow> batch \<Rightarrow> cell list list \<Rightarrow> bool" where
  "batch_sent se q caps ds vs again (h, rs, x, r) vss \<longleftrightarrow> header_ok (length ds) h \<and> rows_sent se q ds (header_flags (length ds) h) vs rs vss
     \<and> summary_ok caps x r \<and> RetCode r = (if again then 0 else 1403)"

lemma rows_sent_same: "same_charset q q' \<Longrightarrow> rows_sent se q ds fs vs rs vss = rows_sent se q' ds fs vs rs vss"
  by (induction se q ds fs vs rs vss rule: rows_sent.induct) (simp_all add: row_means_def column_value_same)

text \<open>The statement when it is about to fetch.\<close>

definition ready :: "byte \<times> bool \<times> bool \<Rightarrow> session_props \<Rightarrow> param_info list \<Rightarrow> nat \<Rightarrow> cell list \<Rightarrow> 'n query \<Rightarrow> bool" where
  "ready caps p ds n vs q \<longleftrightarrow> plain_query ds q \<and> (\<exists>fs. columns q = flagged fs (zip ds vs) \<and> length fs = length ds) \<and> length vs = length ds
     \<and> (\<exists>s. sess q = Some s \<and> session_caps s = caps \<and> props s = p \<and> length (wire s) = n)"

lemma stmt_loop_batch:
  assumes "reads_from se ops" and "clr_ok p" and "plain_query ds q" and "batch_sent se q caps ds vs again (h, rs, x, r) vss"
    and "length fs = length ds" "length vs = length ds" and "told caps p n s" and "net_pending s = wire_batch caps p (length ds) (h, rs, x, r)"
  shows "\<exists>s' fs'. stmt_loop se ((reading_rows ds fs vs old q)\<lparr>sess := Some s\<rparr>)
      = Some (Ok (), (reading_rows ds fs' (last (vs # vss)) (old @ vss) (with_header h q))\<lparr>sess := Some s'\<rparr>)
    \<and> length fs' = length ds \<and> told caps p n s' \<and> Summary s' = Some r"
proof -
  let ?fs = "header_flags (length ds) h" and ?q = "with_header h q"
  note b = assms(4) [unfolded batch_sent.simps]
  have q: "plain_query ds ?q" "same_charset ?q q"
    using assms(3) by (simp_all add: plain_query_def with_header_def same_charset_def GetStringCoder_def Let_def cong: if_cong option.case_cong)
  have "tparses caps p n (reading_rows ds fs vs old q) (stmt_msg se 6) (wire_header p h) () (reading_rows ds ?fs vs old ?q)"
    using tparses_rs_load [OF assms(1,2,3) _ assms(5,6)] b by (simp add: stmt_msg_def)
  from advances_msg [OF assms(1) this]
  have 1: "advances se caps p n (reading_rows ds fs vs old q) (6 # wire_header p h) (reading_rows ds ?fs vs old ?q)" by simp
  have "length ?fs = length ds" using b by (simp add: header_flags_def header_ok_def split: option.splits)
  then obtain fs' where fs': "length fs' = length ds"
      "advances se caps p n (reading_rows ds ?fs vs old ?q) (wire_rows p ?fs rs) (reading_rows ds fs' (last (vs # vss)) (old @ vss) ?q)"
    using advances_rows [OF assms(1,2) q(1), of ?fs vs rs vss caps n old] b assms(6) rows_sent_same [OF q(2)] by auto
  have "net_pending s = ((6 # wire_header p h) @ wire_rows p ?fs rs) @ 4 # wire_summary caps p x r" using assms(8) by simp
  then obtain s1 where s1: "stmt_loop se ((reading_rows ds fs vs old q)\<lparr>sess := Some s\<rparr>)
      = stmt_loop se ((reading_rows ds fs' (last (vs # vss)) (old @ vss) ?q)\<lparr>sess := Some s1\<rparr>)" "told caps p n s1"
      "net_pending s1 = 4 # wire_summary caps p x r @ []"
    using advances_trans [OF 1 fs'(2)] assms(7) unfolding advances_def by fastforce
  then show ?thesis
    using stmt_loop_ends [OF assms(1,2) s1(2,3)] b fs'(1) by (metis insertCI)
qed

end
