(* ===== verification/Stmt_Next_Props.thy ===== *)
theory Stmt_Next_Props
  imports Stmt_Props
begin

text \<open>
  Fetching and the cursor over the rows: a fetch appends the rows of the batch it is answered with, \<open>Next\<close> hands out the rows of all
  batches one after the other.
\<close>

section \<open>Fetching a batch\<close>

text \<open>A server that answers the request with number \<open>n\<close>, counted in packets, with \<open>script n\<close>.\<close>

definition serves :: "'n conn_env \<Rightarrow> byte \<times> bool \<times> bool \<Rightarrow> session_props \<Rightarrow> (nat \<Rightarrow> byte list) \<Rightarrow> bool" where
  "serves env caps p script \<longleftrightarrow> (\<forall>s. session_caps s = caps \<and> props s = p \<longrightarrow>
     (\<exists>s'. env_write env s = Some (Ok (), s') \<and> told caps p (Suc (length (wire s))) s' \<and> net_pending s' = script (length (wire s))))"

lemma only_writes_fetch: "only_writes (fetch_request cur n)"
  unfolding fetch_request_def by (intro only_writes_intros) (simp_all add: lob_numbers)

definition plain_cell :: "cell \<Rightarrow> bool" where
  "plain_cell v \<longleftrightarrow> (case v of LobCell _ \<Rightarrow> False | CursorCell _ \<Rightarrow> False | VectorCell _ \<Rightarrow> False | ArrayCell _ \<Rightarrow> False | _ \<Rightarrow> True)"

lemma res_map_Ok: "res_map f r = Ok v \<longleftrightarrow> (\<exists>x. r = Ok x \<and> v = f x)"
  by (cases r) (auto simp: res_map_def)

lemma plain_cells [simp]:
  "plain_cell NilCell" "plain_cell (TextCell b)" "plain_cell (number_cell n)" "plain_cell (option_cell TimeCell t)"
  "plain_cell (option_cell RawCell w)" "plain_cell (option_cell BoolCell z)"
  by (simp_all add: plain_cell_def number_cell_def option_cell_def split: option.split)

lemma decode_value_plain: "decode_value se k c b s = Some (Ok v, s') \<Longrightarrow> plain_cell v"
  by (cases k) (auto simp: decode_value_def string_value_def res_map_Ok split: res.splits option.splits)

lemma column_value_plain: "column_value se s c b = Some v \<Longrightarrow> plain_cell v"
  by (auto simp: column_value_def dest: decode_value_plain split: res.splits option.splits)

lemma rows_sent_plain:
  "rows_sent se q ds fs vs rs vss \<Longrightarrow> \<forall>row \<in> set vss. length row = length ds \<and> list_all plain_cell row"
  by (induction se q ds fs vs rs vss rule: rows_sent.induct) (auto simp: row_means_def list_all_length dest: column_value_plain)

text \<open>Values that are not LOBs or cursors are complete as they were read.\<close>

lemma each_keeps: "(\<And>k. k \<in> set ks \<Longrightarrow> f k q = Some (Ok (), q)) \<Longrightarrow> each ks f q = Some (Ok (), q)"
  by (induction ks) (simp_all add: gret_def gseq_def gbind_def)

lemma decode_at_plain:
  assumes "k < length (rows q ! r)" and "list_all plain_cell (rows q ! r)"
  shows "decode_at qc se r k q = Some (Ok (), q)"
proof -
  have "plain_cell (rows q ! r ! k)" using assms by (simp add: list_all_length)
  then have "decode_cell qc se (rows q ! r ! k) q = Some (Ok (rows q ! r ! k), q)"
    by (auto simp: decode_cell_def plain_cell_def gret_def split: cell.splits)
  with assms(1) show ?thesis by (simp add: decode_at_def gbind_def gget_def gupd_def)
qed

lemma decodePrim_plain:
  assumes "\<forall>row \<in> set (rows q). length row = length (columns q) \<and> list_all plain_cell row"
  shows "decodePrim qc se q = Some (Ok (), q)"
  using assms unfolding decodePrim_def
  by (auto simp: gbind_def gget_def intro!: each_keeps decode_at_plain)

text \<open>What a fetch leaves as it was.\<close>

definition same_cursor :: "'n query \<Rightarrow> 'n query \<Rightarrow> bool" where
  "same_cursor q q' \<longleftrightarrow> rs_index q = rs_index q' \<and> hasBLOB q = hasBLOB q' \<and> hasLONG q = hasLONG q' \<and> same_charset q q'"

lemma fetch_size_nonneg: "0 \<le> noOfRowsToFetch q \<Longrightarrow> 0 \<le> noOfRowsToFetch (fetch_size q)"
  by (simp add: fetch_size_def pos_imp_zdiv_nonneg_iff add_nonneg_nonneg)

lemma fetch_size_upd: "\<exists>k. fetch_size q = q\<lparr>noOfRowsToFetch := k\<rparr>"
  by (auto simp: fetch_size_def intro: exI [of _ "noOfRowsToFetch q"])

lemma fetch_sends:
  fixes q :: "'n query"
  assumes "serves (env_conn se) caps p script" and "ready caps p ds n vs q"
  shows "\<exists>s. told caps p (Suc n) s \<and> net_pending s = script n
    \<and> fetch_call qc se q = gseq (stmt_read se) (decodePrim qc se) (q\<lparr>sess := Some s\<rparr>)"
proof -
  obtain s where s: "sess q = Some s" "session_caps s = caps" "props s = p" "length (wire s) = n" using assms(2) by (auto simp: ready_def)
  let ?s = "ResetBuffer s"
  obtain out ix where req: "fetch_request (cursorID q) (noOfRowsToFetch q) ?s = Some (Ok (), ?s\<lparr>outBuffer := out, ttcIndex := ix\<rparr>)"
    using only_writes_fetch unfolding only_writes_def by blast
  have "session_caps (?s\<lparr>outBuffer := out, ttcIndex := ix\<rparr>) = caps" "props (?s\<lparr>outBuffer := out, ttcIndex := ix\<rparr>) = p"
      "length (wire (?s\<lparr>outBuffer := out, ttcIndex := ix\<rparr>)) = n"
    using s by (simp_all add: session_caps_def ResetBuffer_def resetRead_def resetWrite_def)
  then obtain s2 where "env_write (env_conn se) (?s\<lparr>outBuffer := out, ttcIndex := ix\<rparr>) = Some (Ok (), s2)" "told caps p (Suc n) s2"
      "net_pending s2 = script n"
    using assms(1) unfolding serves_def by blast
  with req s(1) show ?thesis
    by (auto simp: fetch_call_def gseq_def gbind_def gupd_def gget_def on_sess_def)
qed

lemma stmt_read_batch:
  fixes q :: "'n query"
  assumes "reads_from se ops" and "clr_ok p" and "ready caps p ds m vs q" and "batch_sent se q caps ds vs again (h, rs, x, r) vss"
    and "told caps p n s" and "net_pending s = wire_batch caps p (length ds) (h, rs, x, r)"
  shows "\<exists>q'. stmt_read se (q\<lparr>sess := Some s\<rparr>) = Some (Ok (), q') \<and> ready caps p ds n (last (vs # vss)) q' \<and> rows q' = rows q @ vss
    \<and> hasMoreRows q' = (hasMoreRows q \<and> again) \<and> cursorID q' = CursorID r \<and> noOfRowsToFetch q' = noOfRowsToFetch q \<and> same_cursor q' q"
proof -
  obtain fs where q: "plain_query ds q" "columns q = flagged fs (zip ds vs)" "length fs = length ds" "length vs = length ds"
    using assms(3) by (auto simp: ready_def)
  have eq: "q\<lparr>sess := Some s, cols := True\<rparr> = (reading_rows ds fs vs (rows q) q)\<lparr>sess := Some s\<rparr>"
    using q(1,2) by (simp add: reading_rows_def plain_query_def)
  obtain s' fs' where loop: "stmt_loop se ((reading_rows ds fs vs (rows q) q)\<lparr>sess := Some s\<rparr>)
      = Some (Ok (), (reading_rows ds fs' (last (vs # vss)) (rows q @ vss) (with_header h q))\<lparr>sess := Some s'\<rparr>)"
      "length fs' = length ds" "told caps p n s'" "Summary s' = Some r"
    using stmt_loop_batch [OF assms(1,2) q(1) assms(4) q(3,4) assms(5,6)] by blast
  let ?q = "(reading_rows ds fs' (last (vs # vss)) (rows q @ vss) (with_header h q))\<lparr>sess := Some s'\<rparr>"
  have "stmt_read se (q\<lparr>sess := Some s\<rparr>) = Some (Ok (), finish_read ?q)" unfolding stmt_read_def eq loop(1) by simp
  moreover have "length (last (vs # vss)) = length ds"
    using assms(4) q(4) rows_sent_plain [of se q ds _ vs rs vss] by (auto simp: last_in_set)
  moreover have "same_cursor (finish_read ?q) q"
    using loop(4) by (simp add: same_cursor_def same_charset_def finish_read_def reading_rows_def with_header_def GetStringCoder_def Let_def
        cong: if_cong option.case_cong)
  ultimately show ?thesis
    using assms(4) loop(2-4) q(1)
    by (intro exI [of _ "finish_read ?q"])
       (auto simp: finish_read_def ready_def plain_query_def reading_rows_def with_header_def told_def answering_def)
qed

lemma fetch_batch:
  fixes q :: "'n query"
  assumes "reads_from se ops" and "clr_ok p" and "serves (env_conn se) caps p script" and "ready caps p ds n vs q"
    and "script n = wire_batch caps p (length ds) b" and "batch_sent se q caps ds vs again b vss" and "rows q = []"
  shows "\<exists>q'. fetch qc se q = Some (Ok (), q') \<and> ready caps p ds (Suc n) (last (vs # vss)) q' \<and> rows q' = vss
    \<and> hasMoreRows q' = (hasMoreRows q \<and> again) \<and> (0 \<le> noOfRowsToFetch q \<longrightarrow> 0 \<le> noOfRowsToFetch q') \<and> same_cursor q' q"
proof -
  obtain h rs x r where b: "b = (h, rs, x, r)" by (cases b)
  obtain k where k: "fetch_size q = q\<lparr>noOfRowsToFetch := k\<rparr>" using fetch_size_upd by blast
  let ?q = "q\<lparr>noOfRowsToFetch := k\<rparr>"
  have same: "same_charset ?q q" by (simp add: same_charset_def GetStringCoder_def Let_def cong: if_cong option.case_cong)
  have rd: "ready caps p ds n vs ?q" using assms(4) by (simp add: ready_def plain_query_def)
  have sent: "batch_sent se ?q caps ds vs again (h, rs, x, r) vss" using assms(6) rows_sent_same [OF same] by (simp add: b)
  obtain s where s: "told caps p (Suc n) s" "net_pending s = script n" "fetch_call qc se ?q = gseq (stmt_read se) (decodePrim qc se) (?q\<lparr>sess := Some s\<rparr>)"
    using fetch_sends [OF assms(3) rd] by blast
  obtain q' where q': "stmt_read se (?q\<lparr>sess := Some s\<rparr>) = Some (Ok (), q')" "ready caps p ds (Suc n) (last (vs # vss)) q'" "rows q' = vss"
      "hasMoreRows q' = (hasMoreRows q \<and> again)" "noOfRowsToFetch q' = k" "same_cursor q' ?q"
    using stmt_read_batch [OF assms(1,2) rd sent s(1)] s(2) assms(5,7) b by auto
  have "length (columns q') = length ds" using q'(2) by (auto simp: ready_def flagged_def)
  then have "decodePrim qc se q' = Some (Ok (), q')"
    using rows_sent_plain [of se ?q ds _ vs rs vss] sent q'(3) by (intro decodePrim_plain) auto
  then have "fetch_call qc se ?q = Some (Ok (), q')" using s(3) q'(1) by (simp add: gseq_def gbind_def)
  then have "fetch qc se q = Some (Ok (), q')"
    by (simp add: fetch_def stmt_reset_def k gseq_def gbind_def gupd_def gtry_def gret_def)
  moreover have "same_cursor q' q" using q'(6) same by (simp add: same_cursor_def same_charset_def)
  ultimately show ?thesis using q'(2-5) fetch_size_nonneg [of q] k by auto
qed

section \<open>The rows of a result set\<close>

text \<open>The rows of \<open>k\<close> calls of \<open>Next\<close>, if they all return one.\<close>

fun drain :: "('n, 'z, unit) querym \<Rightarrow> nat \<Rightarrow> nat \<Rightarrow> ('n, 'z) query_scheme \<Rightarrow> (cell list list \<times> ('n, 'z) query_scheme) option" where
  "drain f n 0 q = Some ([], q)"
| "drain f n (Suc k) q = (case Next f n q of Some (Ok r, q') \<Rightarrow> map_option (\<lambda>(rs, q'). (r # rs, q')) (drain f n k q') | _ \<Rightarrow> None)"

text \<open>What \<open>Next\<close> relies on: \<open>left bs q\<close> says that the server still has the batches \<open>bs\<close>, and a fetch into an empty result set brings the
  first of them.\<close>

locale row_source =
  fixes fetching :: "('n, unit, unit) querym" and left :: "cell list list list \<Rightarrow> 'n query \<Rightarrow> bool"
  assumes brings: "left (b # bs) q \<Longrightarrow> rows q = [] \<Longrightarrow> \<exists>q'. fetching q = Some (Ok (), q') \<and> left bs q' \<and> rows q' = b \<and> rs_index q' = rs_index q"
    and index_free: "left bs q \<Longrightarrow> left bs (q\<lparr>rs_index := i\<rparr>)"
    and rows_free: "left bs q \<Longrightarrow> left bs (q\<lparr>rows := rs\<rparr>)"
    and more_rows: "left bs q \<Longrightarrow> hasMoreRows q \<longleftrightarrow> bs \<noteq> []"
    and linked: "left bs q \<Longrightarrow> cols q \<and> 0 \<le> noOfRowsToFetch q \<and> \<not> hasBLOB q \<and> \<not> hasLONG q"
begin

text \<open>The rows that are still to be handed out. Only the last batch may be empty.\<close>

definition holds :: "cell list list \<Rightarrow> 'n query \<Rightarrow> bool" where
  "holds rs q \<longleftrightarrow> (\<exists>bs. left bs q \<and> [] \<notin> set (butlast bs) \<and> (rows q = [] \<longrightarrow> bs = []) \<and> 0 \<le> rs_index q \<and> rs_index q \<le> int (length (rows q))
     \<and> rs = drop (nat (rs_index q)) (rows q) @ concat bs)"

lemma Next_plain:
  assumes "left bs q" and "rows q \<noteq> []" and "0 \<le> rs_index q" "rs_index q < int (length (rows q))"
  shows "Next fetching n q = Some (Ok (take n (rows q ! nat (rs_index q))), q\<lparr>rs_index := rs_index q + 1\<rparr>)"
  using assms linked [OF assms(1)]
  by (simp add: Next_def rs_guard_def first_fetch_def refill_def hand_out_def gseq_def gbind_def gget_def gwhen_def gret_def)

lemma Next_refills:
  assumes "left (b # bs) q" and "rows q \<noteq> []" and "rs_index q = int (length (rows q))" and "b \<noteq> [] \<or> bs = []"
  shows "\<exists>q'. left bs q' \<and> rows q' = b \<and>
    (if b = [] then rs_index q' = 0 \<and> Next fetching n q = Some (Err EOF, q') else rs_index q' = 1 \<and> Next fetching n q = Some (Ok (take n (hd b)), q'))"
proof -
  obtain q1 where q1: "fetching (q\<lparr>rows := []\<rparr>) = Some (Ok (), q1)" "left bs q1" "rows q1 = b"
    using brings [OF rows_free [OF assms(1), of "[]"]] by auto
  note facts = linked [OF assms(1)] more_rows [OF assms(1)] more_rows [OF q1(2)] assms(2-4) q1(1,3)
  show ?thesis
  proof (cases "b = []")
    case True
    with facts have "Next fetching n q = Some (Err EOF, q1\<lparr>rs_index := 0\<rparr>)"
      by (simp add: Next_def rs_guard_def first_fetch_def refill_def gseq_def gbind_def gget_def gwhen_def gret_def gupd_def)
    with True q1(2,3) show ?thesis by (intro exI [of _ "q1\<lparr>rs_index := 0\<rparr>"]) (simp add: index_free)
  next
    case False
    with facts have "Next fetching n q = Some (Ok (take n (hd b)), q1\<lparr>rs_index := 1\<rparr>)"
      by (simp add: Next_def rs_guard_def first_fetch_def refill_def hand_out_def gseq_def gbind_def gget_def gwhen_def gret_def gupd_def hd_conv_nth)
    with False q1(2,3) show ?thesis by (intro exI [of _ "q1\<lparr>rs_index := 1\<rparr>"]) (simp add: index_free)
  qed
qed

text \<open>\<open>Next\<close> is taking the first row off a list.\<close>

lemma Next_holds:
  assumes "holds rs q"
  shows "\<exists>q'. Next fetching n q = Some (case rs of [] \<Rightarrow> Err EOF | r # _ \<Rightarrow> Ok (take n r), q') \<and> holds (tl rs) q'"
proof -
  obtain bs where q: "left bs q" "[] \<notin> set (butlast bs)" "rows q = [] \<longrightarrow> bs = []" "0 \<le> rs_index q" "rs_index q \<le> int (length (rows q))"
      "rs = drop (nat (rs_index q)) (rows q) @ concat bs"
    using assms by (auto simp: holds_def)
  consider "rows q = []" | "rs_index q < int (length (rows q))" | "rows q \<noteq> []" "rs_index q = int (length (rows q))" using q(5) by fastforce
  then show ?thesis
  proof cases
    case 1
    then have "Next fetching n q = Some (Err EOF, q)" "rs = []"
      using q more_rows [OF q(1)] linked [OF q(1)] by (auto simp: Next_def rs_guard_def gseq_def gbind_def)
    with assms show ?thesis by auto
  next
    case 2
    then have ne: "rows q \<noteq> []" by (cases "rows q") (use q(4) in auto)
    have rs: "rs = rows q ! nat (rs_index q) # drop (Suc (nat (rs_index q))) (rows q) @ concat bs"
      unfolding q(6) using 2 q(4) by (subst Cons_nth_drop_Suc [symmetric]) auto
    have "holds (tl rs) (q\<lparr>rs_index := rs_index q + 1\<rparr>)"
      unfolding holds_def by (intro exI [of _ bs]) (use 2 q index_free [OF q(1)] rs ne in \<open>auto simp: nat_add_distrib\<close>)
    with Next_plain [OF q(1) ne q(4) 2] rs show ?thesis by auto
  next
    case 3
    show ?thesis
    proof (cases bs)
      case Nil
      then have "Next fetching n q = Some (Err EOF, q)" "rs = []"
        using 3 q more_rows [OF q(1)] linked [OF q(1)]
        by (auto simp: Next_def rs_guard_def first_fetch_def refill_def gseq_def gbind_def gget_def gwhen_def gret_def)
      with assms show ?thesis by auto
    next
      case (Cons b bs')
      then have ne: "b \<noteq> [] \<or> bs' = []" using q(2) by (cases bs') auto
      obtain q' where q': "left bs' q'" "rows q' = b" "if b = [] then rs_index q' = 0 \<and> Next fetching n q = Some (Err EOF, q')
          else rs_index q' = 1 \<and> Next fetching n q = Some (Ok (take n (hd b)), q')"
        using Next_refills [OF _ 3 ne] q(1) Cons by blast
      have rs: "rs = b @ concat bs'" using q(6) 3 Cons by simp
      have "holds (tl rs) q'"
        unfolding holds_def
        by (intro exI [of _ bs']) (use q'(1-3) rs ne q(2) Cons in \<open>auto split: if_splits simp: Suc_le_eq drop_Suc dest: in_set_butlastD\<close>)
      with q'(3) rs ne show ?thesis by (cases b) auto
    qed
  qed
qed

text \<open>Calling it again and again.\<close>

lemma holds_drains:
  "holds rs q \<Longrightarrow> \<exists>q'. drain fetching n (length rs) q = Some (map (take n) rs, q') \<and> holds [] q'"
proof (induction rs arbitrary: q)
  case (Cons r rs)
  then obtain q1 where "Next fetching n q = Some (Ok (take n r), q1)" "holds rs q1" using Next_holds [of "r # rs" q n] by auto
  with Cons.IH [of q1] show ?case by auto
qed auto

end

section \<open>The batches of a statement\<close>

fun batches_sent ::
    "'n stmt_env \<Rightarrow> 'n query \<Rightarrow> byte \<times> bool \<times> bool \<Rightarrow> session_props \<Rightarrow> param_info list \<Rightarrow> (nat \<Rightarrow> byte list) \<Rightarrow> nat \<Rightarrow> cell list
     \<Rightarrow> batch list \<Rightarrow> cell list list list \<Rightarrow> bool" where
  "batches_sent se q caps p ds script n vs [] [] = True"
| "batches_sent se q caps p ds script n vs (b # bs) (vss # vsss) \<longleftrightarrow> script n = wire_batch caps p (length ds) b
     \<and> batch_sent se q caps ds vs (bs \<noteq> []) b vss \<and> batches_sent se q caps p ds script (Suc n) (last (vs # vss)) bs vsss"
| "batches_sent se q caps p ds script n vs _ _ = False"

lemma batches_sent_length: "batches_sent se q caps p ds script n vs bs vsss \<Longrightarrow> length bs = length vsss"
  by (induction se q caps p ds script n vs bs vsss rule: batches_sent.induct) auto

lemma batch_sent_same: "same_charset q q' \<Longrightarrow> batch_sent se q caps ds vs again b vss = batch_sent se q' caps ds vs again b vss"
  using rows_sent_same [of q q'] by (cases b) simp

lemma batches_sent_widths: "batches_sent se q caps p ds script n vs bs vsss \<Longrightarrow> \<forall>r \<in> set (concat vsss). length r = length ds"
proof (induction se q caps p ds script n vs bs vsss rule: batches_sent.induct)
  case (2 se q caps p ds script n vs b bs vss vsss)
  then show ?case by (cases b) (auto dest!: rows_sent_plain)
qed auto

text \<open>A statement whose answers the server has ready.\<close>

definition streaming ::
    "'n stmt_env \<Rightarrow> 'n nego_ops \<Rightarrow> byte \<times> bool \<times> bool \<Rightarrow> session_props \<Rightarrow> param_info list \<Rightarrow> cell list list list \<Rightarrow> 'n query \<Rightarrow> bool" where
  "streaming se ops caps p ds vsss q \<longleftrightarrow> reads_from se ops \<and> clr_ok p \<and> \<not> hasBLOB q \<and> \<not> hasLONG q \<and> 0 \<le> noOfRowsToFetch q
     \<and> (hasMoreRows q \<longleftrightarrow> vsss \<noteq> [])
     \<and> (\<exists>script n vs q0 bs. serves (env_conn se) caps p script \<and> ready caps p ds n vs q \<and> same_charset q q0
          \<and> batches_sent se q0 caps p ds script n vs bs vsss)"

lemma streaming_fetches:
  assumes "streaming se ops caps p ds (vss # vsss) q" and "rows q = []"
  shows "\<exists>q'. fetch qc se q = Some (Ok (), q') \<and> streaming se ops caps p ds vsss q' \<and> rows q' = vss \<and> rs_index q' = rs_index q"
proof -
  obtain script n vs q0 bs where q: "reads_from se ops" "clr_ok p" "serves (env_conn se) caps p script" "ready caps p ds n vs q" "same_charset q q0"
      "batches_sent se q0 caps p ds script n vs bs (vss # vsss)"
    using assms(1) by (auto simp: streaming_def)
  then obtain b bs' where bs: "bs = b # bs'" by (cases bs) auto
  have again: "bs' \<noteq> [] \<longleftrightarrow> vsss \<noteq> []" using batches_sent_length [OF q(6)] bs by auto
  have b: "script n = wire_batch caps p (length ds) b" "batch_sent se q caps ds vs (bs' \<noteq> []) b vss"
    using q(6) bs batch_sent_same [OF q(5)] by simp_all
  obtain q' where q': "fetch qc se q = Some (Ok (), q')" "ready caps p ds (Suc n) (last (vs # vss)) q'" "rows q' = vss"
      "hasMoreRows q' = (hasMoreRows q \<and> bs' \<noteq> [])" "0 \<le> noOfRowsToFetch q \<longrightarrow> 0 \<le> noOfRowsToFetch q'" "same_cursor q' q"
    using fetch_batch [OF q(1-4) b assms(2)] by blast
  have "same_charset q' q0" using q'(6) q(5) by (simp add: same_cursor_def same_charset_def)
  moreover have "batches_sent se q0 caps p ds script (Suc n) (last (vs # vss)) bs' vsss" using q(6) bs by simp
  ultimately have "\<exists>script n vs q0 bs. serves (env_conn se) caps p script \<and> ready caps p ds n vs q' \<and> same_charset q' q0
      \<and> batches_sent se q0 caps p ds script n vs bs vsss"
    using q(3) q'(2) by blast
  then have "streaming se ops caps p ds vsss q'"
    using assms(1) q'(4-6) again by (simp add: streaming_def same_cursor_def)
  with q'(1,3,6) show ?thesis by (auto simp: same_cursor_def)
qed

lemma streaming_free:
  "streaming se ops caps p ds vsss (q\<lparr>rs_index := i\<rparr>) = streaming se ops caps p ds vsss q"
  "streaming se ops caps p ds vsss (q\<lparr>rows := rs\<rparr>) = streaming se ops caps p ds vsss q"
proof -
  have "same_charset (q\<lparr>rs_index := i\<rparr>) q0 = same_charset q q0" "same_charset (q\<lparr>rows := rs\<rparr>) q0 = same_charset q q0" for q0 :: "'a query"
    by (simp_all add: same_charset_def GetStringCoder_def Let_def cong: if_cong option.case_cong)
  moreover have "ready caps p ds n vs (q\<lparr>rs_index := i\<rparr>) = ready caps p ds n vs q" "ready caps p ds n vs (q\<lparr>rows := rs\<rparr>) = ready caps p ds n vs q" for n vs
    by (simp_all add: ready_def plain_query_def)
  ultimately show "streaming se ops caps p ds vsss (q\<lparr>rs_index := i\<rparr>) = streaming se ops caps p ds vsss q"
    "streaming se ops caps p ds vsss (q\<lparr>rows := rs\<rparr>) = streaming se ops caps p ds vsss q"
    by (simp_all add: streaming_def)
qed

interpretation rows_of: row_source "fetch qc se" "streaming se ops caps p ds" for qc and se :: "'n stmt_env" and ops caps p ds
  by unfold_locales
     (simp_all add: streaming_fetches streaming_free, auto simp: streaming_def ready_def plain_query_def)

text \<open>
  C1. A query whose rows come in batches: every fetch is answered by a header, rows of which the bit vector in front says which columns are
  sent, and a summary; the last summary is error 1403, no data found. Calling \<open>Next\<close> as often as there are rows hands out all rows of
  all batches, in the order and with all the columns the server has them, and the call after that returns EOF.\<close>

theorem Next_enumerates:
  fixes q :: "'n query"
  assumes "reads_from se ops" and "clr_ok p" and "serves (env_conn se) caps p script" and "ready caps p ds n vs q"
    and "batches_sent se q caps p ds script n vs bs vsss" and "[] \<notin> set (butlast vsss)"
    and "hasMoreRows q \<longleftrightarrow> vsss \<noteq> []" and "rows q \<noteq> []" and "\<forall>r \<in> set (rows q). length r = length ds" and "rs_index q = 0"
    and "0 \<le> noOfRowsToFetch q" and "\<not> hasBLOB q" "\<not> hasLONG q"
  shows "\<exists>q1 q2. drain (fetch qc se) (length ds) (length (rows q @ concat vsss)) q = Some (rows q @ concat vsss, q1)
    \<and> Next (fetch qc se) (length ds) q1 = Some (Err EOF, q2)"
proof -
  have "same_charset q q" by (simp add: same_charset_def)
  then have "streaming se ops caps p ds vsss q"
    unfolding streaming_def using assms by blast
  then have "rows_of.holds se ops caps p ds (rows q @ concat vsss) q"
    unfolding rows_of.holds_def using assms(6,8,10) by (intro exI [of _ vsss]) simp
  then obtain q1 where q1: "drain (fetch qc se) (length ds) (length (rows q @ concat vsss)) q
      = Some (map (take (length ds)) (rows q @ concat vsss), q1)" "rows_of.holds se ops caps p ds [] q1"
    using rows_of.holds_drains by blast
  have "\<forall>r \<in> set (concat vsss). length r = length ds"
    using assms(5) by (rule batches_sent_widths)
  then have "map (take (length ds)) (rows q @ concat vsss) = rows q @ concat vsss"
    using assms(9) by (intro map_idI) auto
  with q1(1) rows_of.Next_holds [OF q1(2), of qc "length ds"] show ?thesis by auto
qed

text \<open>Two RAW columns, a server with two batches, and a statement with one row.\<close>

definition raw_column :: param_info where
  "raw_column = zero_info\<lparr>cDataType := RAW, cMaxLen := 10, getDataFromServer := True\<rparr>"

definition scripted_env :: "(nat \<Rightarrow> byte list) \<Rightarrow> unit stmt_env" where
  "scripted_env script = \<lparr>env_conn = sample_env\<lparr>env_write := (\<lambda>s. Some (Ok (), (reading (script (length (wire s))))\<lparr>wire := wire s @ [[]]\<rparr>))\<rparr>,
     env_inline = False, env_auto = False, env_prefetch = 25, env_zones = \<lparr>oracleZones = [], LoadLocation = (\<lambda>_. None), Now = 0\<rparr>,
     env_server_zone = None, env_slack = [], env_spare = 0\<rparr>"

definition sample_query :: "column list \<Rightarrow> cell list list \<Rightarrow> unit query" where
  "sample_query cs rs = connection.extend (sample_connection ((reading [])\<lparr>wire := []\<rparr>))
     \<lparr>par = zero_info, stmt_text = [], hasLONG = False, hasBLOB = False, hasMoreRows = True, hasReturnClause = False, noOfRowsToFetch = 25,
      stmtType = SELECT, cursorID = 1, queryID = 0, Pars = [], columns = cs, scnForSnapshot = (0, 0), arrayBindCount = 0,
      containOutputPars = False, multiSet = [], reSendParDef = False, parse = False, execute = True, defining = False, bulkExec = False,
      columnCount = int (length cs), rowCount = 0, uACBufferLength = 0, maxRowSize = 0, cols = True, rows = rs, currentRow = [], rs_index = 0,
      lastErr = None\<rparr>"

lemma scripted_serves: "serves (env_conn (scripted_env script)) (7, True, False) sample_props script"
proof -
  have "told (7, True, False) sample_props (Suc (length w)) ((reading bs)\<lparr>wire := w @ [[]]\<rparr>)" "net_pending ((reading bs)\<lparr>wire := w @ [[]]\<rparr>) = bs" for bs w
    using reading_ok [of bs] by (simp_all add: told_def answering_def net_ok_def opened_def session_caps_def net_pending_def)
  then show ?thesis by (auto simp: serves_def scripted_env_def)
qed

lemma scripted_reads: "reads_from (scripted_env script) plain_ops"
  by (simp add: scripted_env_def sample_env_def)

lemma raw_column_value: "b \<noteq> [] \<Longrightarrow> column_value se s raw_column b = Some (RawCell b)"
  by (simp add: column_value_def raw_column_def zero_info_def GetParameterCoder_def oracleTypeCoder_def column_types decode_value_def raw_Value_def
      option_cell_def nslice_of_def)

lemma sample_ready:
  "ready (7, True, False) sample_props [raw_column, raw_column] 0 [v, w] (sample_query [(raw_column, v), (raw_column, w)] rs)"
proof -
  have "plain_column raw_column RawC"
    by (simp add: plain_column_def raw_column_def zero_info_def GetParameterCoder_def oracleTypeCoder_def column_types isLongType_def)
  moreover have "[(raw_column, v), (raw_column, w)] = flagged [True, True] (zip [raw_column, raw_column] [v, w])"
    by (simp add: flagged_def set_flag_def raw_column_def)
  moreover have "session_caps ((reading [])\<lparr>wire := []\<rparr>) = (7, True, False)" "props ((reading [])\<lparr>wire := []\<rparr>) = sample_props"
    using reading_ok [of "[]"] by (simp_all add: session_caps_def)
  ultimately show ?thesis
    unfolding ready_def plain_query_def
    by (auto simp: sample_query_def connection.extend_def sample_connection_def intro!: exI [of _ "[True, True]"])
qed

definition sample_header :: "bool list option \<Rightarrow> row_header" where
  "sample_header fs = \<lparr>h_byte = 0, h_count = 2, h_num = 0, h_rows = 1, h_uac = 0, h_flags = fs, h_rest = []\<rparr>"

definition sample_batches :: "batch list" where
  "sample_batches = [(sample_header None, [(None, [[3], [2]]), (Some (1, [False, True]), [[3], [4]])], (0, 0, 0xFE, [[], [], [], []]), zero_summary),
     (sample_header (Some [True, False]), [(None, [[5], [4]])], (0, 0, 0xFE, [[], [], [], []]), zero_summary\<lparr>RetCode := 1403\<rparr>)]"

definition sample_script :: "nat \<Rightarrow> byte list" where
  "sample_script n = wire_batch (7, True, False) sample_props (length [raw_column, raw_column]) (sample_batches ! n)"

lemma sample_batches_sent:
  "batches_sent se q (7, True, False) sample_props [raw_column, raw_column] sample_script 0 [RawCell [1], RawCell [2]] sample_batches
     [[[RawCell [3], RawCell [2]], [RawCell [3], RawCell [4]]], [[RawCell [5], RawCell [4]]]]"
proof -
  have "summary_ok (7, True, False) (0, 0, 0xFE, [[], [], [], []]) zero_summary"
    "summary_ok (7, True, False) (0, 0, 0xFE, [[], [], [], []]) (zero_summary\<lparr>RetCode := 1403\<rparr>)"
    by (simp_all add: summary_ok_def zero_summary_def ints_ok_def field_ok_def slice_ok_def nbytes_def)
  then show ?thesis
    by (simp add: sample_script_def sample_batches_def header_ok_def header_flags_def sample_header_def field_ok_def row_means_def row_sent_def
        row_flags_def All_less_Suc raw_column_value zero_summary_def)
qed

theorem Next_enumerates_witness:
  "\<exists>q1 q2. drain (fetch (\<lambda>_. gpanic) (scripted_env sample_script)) 2 4
      (sample_query [(raw_column, RawCell [1]), (raw_column, RawCell [2])] [[RawCell [1], RawCell [2]]])
    = Some ([[RawCell [1], RawCell [2]], [RawCell [3], RawCell [2]], [RawCell [3], RawCell [4]], [RawCell [5], RawCell [4]]], q1)
    \<and> Next (fetch (\<lambda>_. gpanic) (scripted_env sample_script)) 2 q1 = Some (Err EOF, q2)"
proof -
  let ?q = "sample_query [(raw_column, RawCell [1]), (raw_column, RawCell [2])] [[RawCell [1], RawCell [2]]]"
  have q: "hasMoreRows ?q" "rows ?q = [[RawCell [1], RawCell [2]]]" "rs_index ?q = 0" "noOfRowsToFetch ?q = 25" "\<not> hasBLOB ?q" "\<not> hasLONG ?q"
    by (simp_all add: sample_query_def connection.extend_def)
  show ?thesis
    using Next_enumerates [OF scripted_reads sample_stream_fields(6) scripted_serves sample_ready sample_batches_sent, of
        "[[RawCell [1], RawCell [2]]]" "\<lambda>_. gpanic"] q
    by (simp add: eval_nat_numeral)
qed

section \<open>After a fetch that fails\<close>

text \<open>A fetch that cannot send its request leaves the rows as they are.\<close>

lemma fetch_write_fails:
  fixes q :: "'n query"
  assumes "sess q = Some s" and "\<And>s. \<exists>s'. env_write (env_conn se) s = Some (Err e, s')" and "e \<noteq> ErrConnReset"
  shows "\<exists>q' e'. fetch qc se q = Some (Err e', q') \<and> rows q' = rows q \<and> rs_index q' = rs_index q \<and> hasMoreRows q' = hasMoreRows q \<and> cols q' = cols q"
proof -
  obtain k where k: "fetch_size q = q\<lparr>noOfRowsToFetch := k\<rparr>" using fetch_size_upd by blast
  let ?q = "q\<lparr>noOfRowsToFetch := k\<rparr>"
  obtain out ix where req: "fetch_request (cursorID q) k (ResetBuffer s) = Some (Ok (), (ResetBuffer s)\<lparr>outBuffer := out, ttcIndex := ix\<rparr>)"
    using only_writes_fetch unfolding only_writes_def by blast
  obtain s' where "env_write (env_conn se) ((ResetBuffer s)\<lparr>outBuffer := out, ttcIndex := ix\<rparr>) = Some (Err e, s')"
    using assms(2) by blast
  with req assms(1) have "fetch_call qc se ?q = Some (Err e, ?q\<lparr>sess := Some s'\<rparr>)"
    by (simp add: fetch_call_def gseq_def gbind_def gupd_def gget_def on_sess_def)
  then have "fetch qc se q = Some (if isBadConn (env_broken (env_conn se)) e then (Err ErrBadConn, setBad (?q\<lparr>sess := Some s'\<rparr>))
      else (Err e, ?q\<lparr>sess := Some s'\<rparr>))"
    using assms(3) by (simp add: fetch_def stmt_reset_def k gseq_def gbind_def gupd_def gtry_def gret_def gerr_def)
  then show ?thesis by (auto simp: setBad_def)
qed

text \<open>
  C39. \<open>Next\<close> drops the rows it has before it fetches more. When the request for them cannot be sent, the call returns the error, but the
  next call divides by the number of rows, which is then zero, and panics.\<close>

theorem Next_after_failed_fetch:
  fixes q :: "'n query"
  assumes "sess q = Some s" and "\<And>s. \<exists>s'. env_write (env_conn se) s = Some (Err e, s')" and "e \<noteq> ErrConnReset"
    and "cols q" "hasMoreRows q" "0 \<le> noOfRowsToFetch q" "rows q \<noteq> []" "rs_index q = int (length (rows q))"
  shows "\<exists>e' q'. Next (fetch qc se) n q = Some (Err e', q') \<and> Next (fetch qc se) n q' = Some (Panic, q')"
proof -
  obtain q' e' where "fetch qc se (q\<lparr>rows := []\<rparr>) = Some (Err e', q')" "rows q' = []" "rs_index q' = rs_index q" "hasMoreRows q'" "cols q'"
    using fetch_write_fails [of "q\<lparr>rows := []\<rparr>" s se e qc] assms(1-5) by auto
  then show ?thesis
    using assms(4-8)
    by (intro exI [of _ e'] exI [of _ q'])
       (simp add: Next_def rs_guard_def first_fetch_def refill_def gseq_def gbind_def gget_def gwhen_def gret_def gupd_def)
qed

theorem Next_after_failed_fetch_witness:
  "\<exists>e' q'. Next (fetch (\<lambda>_. gpanic) ((scripted_env sample_script)\<lparr>env_conn := sample_env\<lparr>env_write := gerr EOF\<rparr>\<rparr>)) 2
      ((sample_query [(raw_column, RawCell [1]), (raw_column, RawCell [2])] [[RawCell [1], RawCell [2]]])\<lparr>rs_index := 1\<rparr>) = Some (Err e', q')
    \<and> Next (fetch (\<lambda>_. gpanic) ((scripted_env sample_script)\<lparr>env_conn := sample_env\<lparr>env_write := gerr EOF\<rparr>\<rparr>)) 2 q' = Some (Panic, q')"
  using Next_after_failed_fetch [of "(sample_query [(raw_column, RawCell [1]), (raw_column, RawCell [2])] [[RawCell [1], RawCell [2]]])\<lparr>rs_index := 1\<rparr>"
      "(reading [])\<lparr>wire := []\<rparr>" "(scripted_env sample_script)\<lparr>env_conn := sample_env\<lparr>env_write := gerr EOF\<rparr>\<rparr>" EOF "\<lambda>_. gpanic" 2]
  by (simp add: sample_query_def connection.extend_def sample_connection_def gerr_def)

text \<open>Without LOBs a result set that starts without rows is at its end, even when the server has said that there are more.\<close>

lemma Next_no_first_rows:
  "cols q \<Longrightarrow> rows q = [] \<Longrightarrow> rs_index q = 0 \<Longrightarrow> \<not> hasBLOB q \<Longrightarrow> \<not> hasLONG q \<Longrightarrow> Next f n q = Some (Err EOF, q)"
  by (auto simp: Next_def rs_guard_def first_fetch_def refill_def hand_out_def gseq_def gbind_def gget_def gwhen_def gret_def)

section \<open>Intervals\<close>

text \<open>
  The bytes of an INTERVAL DAY TO SECOND column are decoded as those of an INTERVAL YEAR TO MONTH column: the coder does not pass on the
  type of the column, and for eleven bytes the decoder takes the type for year to month. The days become years and the hours months; minutes,
  seconds and fractions are lost.\<close>

theorem day_second_column_read_as_months:
  assumes "cDataType c = INTERVALDS_DTY" and "length b = 11"
  shows "column_value se s c b = Some (TimeCell (Date (int (be_dec (take 4 b)) - 0x80000000) (uint (b ! 4 - 60)) 0 0 0 0 0 UTC))"
proof -
  have "GetParameterCoder c = Ok IntervalC"
    using assms(1) by (simp add: GetParameterCoder_def oracleTypeCoder_def column_types)
  moreover have "slice_bytes (nslice_of b) = b" by (rule slice_nslice)
  ultimately show ?thesis
    using assms(2)
    by (simp add: column_value_def decode_value_def interval_Value_def option_cell_def slice_def INTERVALYM_DTY_def res_map_def)
      auto
qed

theorem day_second_column_read_as_months_witness:
  "column_value (scripted_env sample_script) (sample_query [] []) (zero_info\<lparr>cDataType := INTERVALDS_DTY\<rparr>)
      [128, 0, 0, 3, 62, 61, 60, 128, 0, 0, 0] = Some (TimeCell (Date 3 2 0 0 0 0 0 UTC))"
  using day_second_column_read_as_months [of "zero_info\<lparr>cDataType := INTERVALDS_DTY\<rparr>" "[128, 0, 0, 3, 62, 61, 60, 128, 0, 0, 0]"
      "scripted_env sample_script" "sample_query [] []"]
  by (simp add: be_dec_def)

section \<open>Compression\<close>

text \<open>The same batch with all columns of every row.\<close>

fun uncompressed :: "batch \<Rightarrow> batch" where
  "uncompressed (h, rs, x, r) = (h\<lparr>h_flags := None\<rparr>, map (\<lambda>(_, row). (None, row)) rs, x, r)"

lemma rows_sent_full:
  "rows_sent se q ds fs vs rs vss \<Longrightarrow> rows_sent se q ds (replicate (length ds) True) ws (map (\<lambda>(_, row). (None, row)) rs) vss"
  by (induction se q ds fs vs rs vss arbitrary: ws rule: rows_sent.induct) (auto simp: row_sent_def row_flags_def)

lemma batch_sent_full: "batch_sent se q caps ds vs again b vss \<Longrightarrow> batch_sent se q caps ds vs again (uncompressed b) vss"
  using rows_sent_full [of se q ds _ vs _ vss vs] by (cases b) (auto simp: header_ok_def header_flags_def)

text \<open>
  C5. The server leaves out of a row the columns that have the value of the row before, and says so in bit vectors. Reading such a batch and
  reading the same batch with every column sent give the same rows, those the server has, and leave the statement with the same values for the
  next batch.\<close>

theorem compressed_rows_equal_full_rows:
  fixes q :: "'n query"
  assumes "reads_from se ops" and "clr_ok p" and "ready caps p ds m vs q" and "batch_sent se q caps ds vs again b vss"
    and "told caps p n s1" and "net_pending s1 = wire_batch caps p (length ds) b"
    and "told caps p n s2" and "net_pending s2 = wire_batch caps p (length ds) (uncompressed b)"
  shows "\<exists>q1 q2. stmt_read se (q\<lparr>sess := Some s1\<rparr>) = Some (Ok (), q1) \<and> stmt_read se (q\<lparr>sess := Some s2\<rparr>) = Some (Ok (), q2)
    \<and> rows q1 = rows q @ vss \<and> rows q2 = rows q @ vss \<and> map snd (columns q1) = last (vs # vss) \<and> map snd (columns q2) = last (vs # vss)
    \<and> hasMoreRows q1 = hasMoreRows q2 \<and> cursorID q1 = cursorID q2"
proof -
  obtain h rs x r where b: "b = (h, rs, x, r)" by (cases b)
  have cols: "ready caps p ds n vs' q' \<Longrightarrow> map snd (columns q') = vs'" for vs' and q' :: "'n query"
    by (auto intro!: nth_equalityI simp: ready_def flagged_def set_flag_def split: prod.split)
  obtain q1 where q1: "stmt_read se (q\<lparr>sess := Some s1\<rparr>) = Some (Ok (), q1)" "ready caps p ds n (last (vs # vss)) q1" "rows q1 = rows q @ vss"
      "hasMoreRows q1 = (hasMoreRows q \<and> again)" "cursorID q1 = CursorID r"
    using stmt_read_batch [OF assms(1-3) assms(4) [unfolded b] assms(5) assms(6) [unfolded b]] by blast
  obtain q2 where "stmt_read se (q\<lparr>sess := Some s2\<rparr>) = Some (Ok (), q2)" "ready caps p ds n (last (vs # vss)) q2" "rows q2 = rows q @ vss"
      "hasMoreRows q2 = (hasMoreRows q \<and> again)" "cursorID q2 = CursorID r"
    using stmt_read_batch [OF assms(1-3) batch_sent_full [OF assms(4), unfolded b uncompressed.simps] assms(7) assms(8) [unfolded b uncompressed.simps]]
    by blast
  with q1 cols show ?thesis by metis
qed

theorem compressed_rows_equal_full_rows_witness:
  "\<exists>q1 q2. stmt_read (scripted_env sample_script) ((sample_query [(raw_column, RawCell [1]), (raw_column, RawCell [2])] [])\<lparr>sess := Some (reading (sample_script 0))\<rparr>)
      = Some (Ok (), q1)
    \<and> stmt_read (scripted_env sample_script) ((sample_query [(raw_column, RawCell [1]), (raw_column, RawCell [2])] [])\<lparr>sess := Some (reading
        (wire_batch (7, True, False) sample_props 2 (uncompressed (sample_batches ! 0))))\<rparr>) = Some (Ok (), q2)
    \<and> rows q1 = [[RawCell [3], RawCell [2]], [RawCell [3], RawCell [4]]] \<and> rows q2 = rows q1"
proof -
  let ?q = "sample_query [(raw_column, RawCell [1]), (raw_column, RawCell [2])] []"
  have told: "told (7, True, False) sample_props 0 (reading bs)" for bs
    using reading_ok [of bs] by (simp add: told_def answering_def reading_def sample_session_def NewSession_def)
  have "batch_sent (scripted_env sample_script) ?q (7, True, False) [raw_column, raw_column] [RawCell [1], RawCell [2]] True (sample_batches ! 0)
      [[RawCell [3], RawCell [2]], [RawCell [3], RawCell [4]]]"
    using sample_batches_sent [of "scripted_env sample_script" ?q] by (simp add: sample_batches_def)
  then show ?thesis
    using compressed_rows_equal_full_rows [OF scripted_reads sample_stream_fields(6) sample_ready [of _ _ "[]"] _ told _ told,
      of sample_script "RawCell [1]" "RawCell [2]" True "sample_batches ! 0" "[[RawCell [3], RawCell [2]], [RawCell [3], RawCell [4]]]" "sample_script 0"
        "wire_batch (7, True, False) sample_props 2 (uncompressed (sample_batches ! 0))"]
    by (auto simp: reading_ok sample_script_def sample_query_def connection.extend_def numeral_2_eq_2)
qed

end
