(* ===== verification/Column_Meta_Props.thy ===== *)
theory Column_Meta_Props
  imports Column_Meta Stmt_Next_Props
begin

text \<open>
  What the metadata of a column promise: they do not change when the define of inline LOBs replaces the type of the column, and the values
  of a column have the Go type that they announce.
\<close>

section \<open>Columns that were described\<close>

text \<open>A description that was loaded remembers its type and the way LOBs are read.\<close>

definition captured :: "'n stmt_env \<Rightarrow> param_info \<Rightarrow> bool" where
  "captured se c \<longleftrightarrow> originalDataType c = Some (cDataType c) \<and> lobModes c = Some (env_inline se, env_auto se)"

interpretation description: connection_frame "\<lambda>l :: ('n, 'z) loading_scheme. captured se (par l)" for se :: "'n stmt_env"
  by unfold_locales simp_all

interpretation undescribed: connection_frame "\<lambda>l :: ('n, 'z) loading_scheme. originalDataType (par l) = None"
  by unfold_locales simp_all

lemma stable_session_decode: "stable Q (session_decode bs)"
  by (auto simp: stable_def session_decode_def split: option.splits)

lemma stable_load_tail: "stable (\<lambda>l. captured se (par l)) (load_tail se ver)"
  unfolding load_tail_def load_annotations_def load_vector_def text_par_def int_par_def byte_par_def skip_int_def skip_byte_def Let_def
  by (intro stable_intros stable_upd stable_session_decode description.stable_on_sess; simp add: captured_def upd_par_def put_annotation_def)

text \<open>What a computation that returns leads to.\<close>

definition leads :: "('s \<Rightarrow> bool) \<Rightarrow> ('s, 'a) gom \<Rightarrow> ('s \<Rightarrow> bool) \<Rightarrow> bool" where
  "leads P m Q \<longleftrightarrow> (\<forall>s a s'. P s \<longrightarrow> m s = Some (Ok a, s') \<longrightarrow> Q s')"

lemma leads_bind: "stable P m \<Longrightarrow> (\<And>a. leads P (f a) Q) \<Longrightarrow> leads P (gbind m f) Q"
  unfolding leads_def by (intro allI impI, erule gbind_OkE) (blast dest: stableD)

lemma leads_seq: "stable P m \<Longrightarrow> leads P n Q \<Longrightarrow> leads P (gseq m n) Q"
  unfolding gseq_def by (rule leads_bind)

lemma leads_then: "leads P m Q \<Longrightarrow> stable Q n \<Longrightarrow> leads P (gseq m n) Q"
  unfolding leads_def gseq_def by (intro allI impI, erule gbind_OkE) (blast dest: stableD)

lemma leads_upd: "(\<And>s. P s \<Longrightarrow> Q (f s)) \<Longrightarrow> leads P (gupd f) Q"
  by (auto simp: leads_def gupd_def)

lemma leads_load_names: "leads (\<lambda>l. originalDataType (par l) = None) (load_names se) (\<lambda>l. captured se (par l))"
  unfolding load_names_def text_par_def skip_byte_def
  by (intro leads_bind leads_seq leads_upd stable_intros stable_upd stable_session_decode undescribed.stable_on_sess)
     (simp_all add: upd_par_def captureColumnMetadata_def captured_def)

lemma leads_load: "leads (\<lambda>l. originalDataType (par l) = None) (load se) (\<lambda>l. captured se (par l))"
proof -
  let ?P = "\<lambda>l :: ('a, 'b) loading_scheme. originalDataType (par l) = None"
  have upd: "stable ?P (gupd (upd_par f))" if "\<And>c. originalDataType (f c) = originalDataType c" for f
    using that by (intro stable_upd) (simp add: upd_par_def)
  have "stable ?P (load_scale se)" "stable ?P (load_lengths se ver)" "stable ?P (load_charset se ver)" for ver
    unfolding load_scale_def load_lengths_def load_charset_def int_par_def byte_par_def Let_def
    by (intro stable_intros upd undescribed.stable_on_sess;
        simp add: upd_par_def set_scale_def default_precision_def Let_def)+
  then show ?thesis
    unfolding load_def byte_par_def
    by (intro leads_bind leads_seq leads_then [OF leads_load_names stable_load_tail] stable_intros upd undescribed.stable_on_sess)
       (simp_all add: upd_par_def)
qed

text \<open>The columns of a description are captured, those before an error too.\<close>

lemma load_columns_captured: "load_columns se n l = Some (Ok (cs, rest, err), l') \<Longrightarrow> list_all (captured se) cs"
proof (induction n arbitrary: l cs rest err)
  case (Suc n)
  let ?l = "upd_par (\<lambda>_. zero_info) l"
  obtain r l1 where load: "load se ?l = Some (r, l1)"
    using Suc.prems by (cases "load se ?l") (auto simp: gseq_def gbind_def gupd_def gtry_def)
  show ?case
  proof (cases r)
    case (Ok u)
    have "originalDataType (par ?l) = None" by (simp add: upd_par_def zero_info_def)
    with Ok have "captured se (par l1)" using leads_load [of se, unfolded leads_def] load by blast
    moreover have "gbind (load_columns se n) (\<lambda>(cs, rest, err). gret (par l1 # cs, rest, err)) l1 = Some (Ok (cs, rest, err), l')"
      using Suc.prems load Ok by (simp add: gseq_def gbind_def gupd_def gtry_def gget_def)
    then obtain cs' where "cs = par l1 # cs'" "load_columns se n l1 = Some (Ok (cs', rest, err), l')"
      by (rule gbind_OkE) (auto simp: gret_def)
    ultimately show ?thesis using Suc.IH by auto
  next
    case (Err e)
    then show ?thesis using Suc.prems load by (auto simp: gseq_def gbind_def gupd_def gtry_def gget_def gret_def)
  next
    case Panic
    then show ?thesis using Suc.prems load by (simp add: gseq_def gbind_def gupd_def gtry_def)
  qed
qed (simp add: gret_def)

section \<open>Metadata\<close>

text \<open>A described column knows its original type, whatever the type it is read with.\<close>

definition described :: "'n stmt_env \<Rightarrow> param_info \<Rightarrow> bool" where
  "described se c \<longleftrightarrow> originalDataType c \<noteq> None \<and> lobModes c = Some (env_inline se, env_auto se)"

lemma captured_described: "captured se c \<Longrightarrow> described se c"
  by (simp add: captured_def described_def)

lemma described_type: "described se ((captureColumnMetadata se c)\<lparr>cDataType := dt\<rparr>)"
  by (simp add: described_def captureColumnMetadata_def)

lemma metadata_type:
  "described se c \<Longrightarrow> metadataForColumn ((captureColumnMetadata se c)\<lparr>cDataType := dt\<rparr>) = metadataForColumn c"
  by (auto simp add: described_def captureColumnMetadata_def metadataForColumn_def metadata_name_def metadata_length_def isUDTColumn_def
      metadataScanType_def inlineLobColumn_def automaticLobColumn_def Let_def cong: if_cong option.case_cong length_kind.case_cong)

lemma define_columns_metadata:
  assumes "list_all (\<lambda>(c, v). described se c) cs"
  shows "map (\<lambda>(c, v). metadataForColumn c) (snd (define_columns se num cs)) = map (\<lambda>(c, v). metadataForColumn c) cs"
    and "list_all (\<lambda>(c, v). described se c) (snd (define_columns se num cs))"
  using assms
  by (induction se num cs rule: define_columns.induct) (auto simp: metadata_type described_type split: prod.split)

text \<open>
  C8. For inline LOBs the driver defines the columns of a query anew and replaces the types of its LOB columns by LONG types. The metadata
  of described columns stay as they were, however often this is done: name, length, precision and scale, nullability and scan type of every
  column are those of its first description, whatever the type it is read with.\<close>

theorem metadata_survives_define:
  assumes "list_all (\<lambda>(c, v). captured se c) cs"
  shows "map (\<lambda>(c, v). metadataForColumn c) (((\<lambda>cs. snd (define_columns se num cs)) ^^ k) cs) = map (\<lambda>(c, v). metadataForColumn c) cs"
proof -
  let ?define = "\<lambda>cs. snd (define_columns se num cs)" and ?meta = "map (\<lambda>(c, v). metadataForColumn c)"
  have "list_all (\<lambda>(c, v). described se c) cs" using assms by (auto simp: list_all_iff intro: captured_described)
  then have "?meta ((?define ^^ k) cs) = ?meta cs \<and> list_all (\<lambda>(c, v). described se c) ((?define ^^ k) cs)"
    by (induction k) (auto simp: define_columns_metadata)
  then show ?thesis by blast
qed

definition blob_column :: param_info where
  "blob_column = zero_info\<lparr>cDataType := OCIBlobLocator, originalDataType := Some OCIBlobLocator, lobModes := Some (True, False)\<rparr>"

theorem metadata_survives_define_witness:
  "((\<lambda>cs. snd (define_columns ((scripted_env sample_script)\<lparr>env_inline := True\<rparr>) 0 cs)) ^^ 2) [(blob_column, NilCell)] = [(blob_column\<lparr>cDataType := LongRaw\<rparr>, NilCell)]
   \<and> metadataForColumn (blob_column\<lparr>cDataType := LongRaw\<rparr>) = metadataForColumn blob_column"
proof -
  let ?se = "(scripted_env sample_script)\<lparr>env_inline := True\<rparr>"
  have steps: "snd (define_columns ?se 0 [(blob_column, NilCell)]) = [(blob_column\<lparr>cDataType := LongRaw\<rparr>, NilCell)]"
      "snd (define_columns ?se 0 [(blob_column\<lparr>cDataType := LongRaw\<rparr>, NilCell)]) = [(blob_column\<lparr>cDataType := LongRaw\<rparr>, NilCell)]"
    by (simp_all add: define_column_def captureColumnMetadata_def isLobType_def blob_column_def zero_info_def scripted_env_def column_types)
  have 1: "((\<lambda>cs. snd (define_columns ?se 0 cs)) ^^ 2) [(blob_column, NilCell)] = [(blob_column\<lparr>cDataType := LongRaw\<rparr>, NilCell)]"
    by (simp only: numeral_2_eq_2 funpow.simps comp_apply id_apply steps)
  have "list_all (\<lambda>(c, v). captured ?se c) [(blob_column, NilCell)]"
    by (simp add: captured_def blob_column_def zero_info_def scripted_env_def)
  from metadata_survives_define [OF this, where num = 0 and k = 2] show ?thesis unfolding 1 by simp
qed

section \<open>Scan types\<close>

text \<open>The Go type of a value.\<close>

fun cell_type :: "cell \<Rightarrow> scan_type" where
  "cell_type (TextCell _) = StringS"
| "cell_type (RawCell _) = BytesS"
| "cell_type (TimeCell _) = TimeS"
| "cell_type (BoolCell _) = BoolS"
| "cell_type (NumberCell (TextV _)) = StringS"
| "cell_type (NumberCell (FloatV _)) = Float32S"
| "cell_type (NumberCell (DoubleV _)) = Float64S"
| "cell_type (VectorCell (VecFloats _)) = FloatsS"
| "cell_type (VectorCell (VecDoubles _)) = DoublesS"
| "cell_type (VectorCell (VecBytes _)) = BytesS"
| "cell_type (LobCell l) = (case lob_kind l of ClobC \<Rightarrow> ClobPtr | BlobC \<Rightarrow> BlobPtr | BFileC \<Rightarrow> BFilePtr | VectorC \<Rightarrow> VectorPtr | JsonC \<Rightarrow> JsonPtr | _ \<Rightarrow> NoScan)"
| "cell_type _ = NoScan"

definition coder_type :: "coder \<Rightarrow> u16 \<Rightarrow> scan_type" where
  "coder_type k dt = (case k of StringC \<Rightarrow> StringS | RawC \<Rightarrow> BytesS | DateC \<Rightarrow> TimeS | IntervalC \<Rightarrow> TimeS | BoolC \<Rightarrow> BoolS
     | NumberC \<Rightarrow> if dt = IBDOUBLE then Float64S else if dt = IBFLOAT then Float32S else StringS | _ \<Rightarrow> NoScan)"

lemma number_cell_type:
  "fst (number_Value \<lparr>bValue = b, dataType = dt\<rparr>) = Ok x \<Longrightarrow> number_cell x = NilCell \<or> cell_type (number_cell x) = coder_type NumberC dt"
  by (auto simp: number_Value_def number_cell_def coder_type_def res_map_Ok number_types split: prod.splits if_splits)

lemma decode_value_type:
  "decode_value se k c b s = Some (Ok v, s') \<Longrightarrow> v = NilCell \<or> cell_type v = coder_type k (cDataType c)"
  using number_cell_type [of b "cDataType c"]
  by (cases k) (auto simp: decode_value_def string_value_def option_cell_def coder_type_def res_map_Ok split: res.splits option.splits)

text \<open>The types that have a coder outside LOBs are in the table with the type of its values.\<close>

lemma scan_table:
  "list_all (\<lambda>dt. base_scan (column_base_of dt) = StringS) [NCHAR, CHAR_T, LONG, LongVarChar, NUMBER]"
  "list_all (\<lambda>dt. base_scan (column_base_of dt) = BytesS) [RAW, LongRaw]"
  "list_all (\<lambda>dt. base_scan (column_base_of dt) = TimeS) [DATE_T, TIMESTAMP, TIMESTAMPTZ, TimeStampDTY, TimeStampTZ_DTY, TimeStampLTZ,
     TimeStampLTZ_DTY, INTERVALYM_DTY, INTERVALDS_DTY]"
  "base_scan (column_base_of IBFLOAT) = Float32S" "base_scan (column_base_of IBDOUBLE) = Float64S" "base_scan (column_base_of BOOLEAN) = BoolS"
  by code_simp+

lemma coder_types:
  assumes "oracleTypeCoder dt = Some k" and "\<not> lob_coder k" and "k \<notin> {RowIDC, CursorC}"
  shows "k = StringC \<and> dt \<in> {NCHAR, CHAR_T, LONG, LongVarChar} \<or> k = RawC \<and> dt \<in> {RAW, LongRaw} \<or> k = NumberC \<and> dt \<in> {NUMBER, IBFLOAT, IBDOUBLE}
    \<or> k = DateC \<and> dt \<in> {DATE_T, TIMESTAMP, TIMESTAMPTZ, TimeStampDTY, TimeStampTZ_DTY, TimeStampLTZ, TimeStampLTZ_DTY}
    \<or> k = IntervalC \<and> dt \<in> {INTERVALYM_DTY, INTERVALDS_DTY} \<or> k = BoolC \<and> dt = BOOLEAN"
  using assms unfolding oracleTypeCoder_def lob_coder_def by (simp split: if_splits)

lemma coder_scan:
  assumes "oracleTypeCoder dt = Some k" and "\<not> lob_coder k" and "k \<notin> {RowIDC, CursorC}"
  shows "base_scan (column_base_of dt) = coder_type k dt"
proof -
  have [simp]: "IBFLOAT \<noteq> IBDOUBLE" "NUMBER \<noteq> IBFLOAT" "NUMBER \<noteq> IBDOUBLE" by (simp_all add: number_types)
  from coder_types [OF assms] show ?thesis
    using scan_table by (elim disjE conjE) (auto simp: coder_type_def)
qed

text \<open>The column as it is read, with its own type or with the type of a define.\<close>

definition read_as :: "'n stmt_env \<Rightarrow> int \<Rightarrow> bool \<Rightarrow> param_info \<Rightarrow> param_info" where
  "read_as se num redefined c =
    (if redefined then (captureColumnMetadata se c)\<lparr>cDataType := snd (snd (define_column (env_inline se) num c))\<rparr> else c)"

text \<open>What a decoder has read, and what it makes of it.\<close>

lemma read_value_kind:
  assumes "read_value se inl streamed k c s = Some (Ok r, s')"
  shows "if lob_coder k then \<exists>b lc. r = RawLob b lc else if k = RowIDC then \<exists>d. r = RawRowid d else \<exists>b. r = RawBytes b"
  using assms unfolding read_value_def
  by (auto simp: gpanic_def gret_def gseq_def split: if_splits prod.splits elim!: gbind_OkE)

lemma decode_lob_kind:
  assumes "decode_lob se k c b lc s = Some (Ok v, s')"
  shows "\<exists>l. v = LobCell l \<and> lob_kind l = k"
  using assms unfolding decode_lob_def lob_cell_def by (auto simp: gret_def split: if_splits elim!: gbind_OkE)

lemma decode_raw_kind:
  assumes "read_value se inl streamed k c s = Some (Ok r, s1)" and "decode_raw se k c r s1 = Some (Ok v, s2)"
  shows "if lob_coder k then \<exists>l. v = LobCell l \<and> lob_kind l = k else if k = RowIDC then \<exists>t. v = TextCell t
     else v = NilCell \<or> cell_type v = coder_type k (cDataType c)"
proof (cases r)
  case (RawBytes b)
  then show ?thesis using read_value_kind [OF assms(1)] assms(2) decode_value_type [of se k c b s1 v s2]
    by (auto simp: decode_raw_def split: if_splits)
next
  case (RawRowid d)
  then show ?thesis using read_value_kind [OF assms(1)] assms(2) by (auto simp: decode_raw_def lift_val_def res_map_Ok split: if_splits res.splits)
next
  case (RawLob b lc)
  then show ?thesis using read_value_kind [OF assms(1)] assms(2) decode_lob_kind [of se k c b lc s1 v s2]
    by (auto simp: decode_raw_def split: if_splits)
qed

lemma decodePrimValue_kind:
  assumes "decodePrimValue se inl c s = Some (Ok (c', v), s')" and "\<not> cArraySize c > 0" and "cDataType c \<noteq> XMLType"
  shows "v = NilCell \<or> (\<exists>k. oracleTypeCoder (cDataType c) = Some k \<and> (if lob_coder k then \<exists>l. v = LobCell l \<and> lob_kind l = k
     else if k = RowIDC then \<exists>t. v = TextCell t else v = NilCell \<or> cell_type v = coder_type k (cDataType c)))"
proof (cases "cDataType c = 0")
  case True
  then have "gbind (on_sess (GetClr (env_read (env_conn se)))) (\<lambda>b. gret (c\<lparr>cBValue := b, cIsNull := True\<rparr>, NilCell)) s = Some (Ok (c', v), s')"
    using assms(1,2) by (simp add: decodePrimValue_def Let_def)
  then show ?thesis by (rule gbind_OkE) (simp add: gret_def)
next
  case False
  let ?c = "c\<lparr>cBValue := None\<rparr>"
  have "gbind (lift_val (GetParameterCoder ?c)) (\<lambda>k. gbind (read_value se inl (isLobType ?c) k ?c) (\<lambda>r. gbind (decode_raw se k ?c r) (\<lambda>v. gret (?c, v)))) s
      = Some (Ok (c', v), s')"
    using assms(1,2) False by (simp add: decodePrimValue_def Let_def)
  then obtain k s1 where k: "lift_val (GetParameterCoder ?c) s = Some (Ok k, s1)"
      "gbind (read_value se inl (isLobType ?c) k ?c) (\<lambda>r. gbind (decode_raw se k ?c r) (\<lambda>v. gret (?c, v))) s1 = Some (Ok (c', v), s')"
    by (rule gbind_OkE)
  from k(2) obtain r s2 where r: "read_value se inl (isLobType ?c) k ?c s1 = Some (Ok r, s2)" "gbind (decode_raw se k ?c r) (\<lambda>v. gret (?c, v)) s2 = Some (Ok (c', v), s')"
    by (rule gbind_OkE)
  from r(2) obtain s3 where "decode_raw se k ?c r s2 = Some (Ok v, s3)" by (rule gbind_OkE) (simp add: gret_def)
  note kind = decode_raw_kind [OF r(1) this]
  have "oracleTypeCoder (cDataType c) = Some k" using k(1) assms(3) by (simp add: lift_val_def GetParameterCoder_def split: option.splits)
  moreover have "cDataType ?c = cDataType c" by simp
  ultimately show ?thesis using kind by (cases "lob_coder k"; cases "k = RowIDC"; auto)
qed

text \<open>The step that turns what was read into what is handed out keeps everything but LOB objects and cursors.\<close>

definition plain_types :: "scan_type list" where
  "plain_types = [StringS, BytesS, TimeS, BoolS, Float32S, Float64S]"

lemma decode_cell_plain: "v = NilCell \<or> cell_type v \<in> set plain_types \<Longrightarrow> decode_cell qc se v q = Some (Ok w, q') \<Longrightarrow> w = v"
  by (cases v) (auto simp: decode_cell_def gret_def plain_types_def split: coder.splits)

lemma decode_cell_lob:
  assumes "decode_cell qc se (LobCell l) q = Some (Ok w, q')" and "lob_kind l = VectorC \<Longrightarrow> \<not> env_inline se \<and> \<not> env_auto se"
  shows "w = LobCell l \<and> (lob_kind l \<in> {ClobC, BlobC} \<longrightarrow> \<not> auto_read se l) \<or> w = NilCell
     \<or> env_auto se \<and> (lob_kind l = ClobC \<and> cell_type w = StringS \<or> lob_kind l = BlobC \<and> cell_type w = BytesS)"
  using assms unfolding decode_cell_def cell.case
  by (auto simp: gret_def auto_read_def clob_cell_def string_value_def option_cell_def res_map_Ok split: if_splits option.splits elim!: gbind_OkE)

text \<open>The scan type of a column that is read with its own type.\<close>

lemma plain_scan:
  assumes "captured se c" and "cDataType c \<notin> {XMLType, REFCURSOR}" and "oracleTypeCoder (cDataType c) = Some k" and "\<not> lob_coder k"
  shows "scanType (metadataForColumn c) = (if k = RowIDC then StringS else coder_type k (cDataType c))" and "scanType (metadataForColumn c) \<in> set plain_types"
proof -
  have row: "list_all (\<lambda>dt. base_scan (column_base_of dt) = StringS) [ROWID, UROWID]" by code_simp
  have nl: "cDataType c \<notin> {OCIClobLocator, OCIBlobLocator, JSON_T, VECTOR_T, OCIFileLocator, 108}"
    using assms(3,4) by (auto simp: oracleTypeCoder_def lob_coder_def column_types)
  have meta: "scanType (metadataForColumn c) = base_scan (column_base_of (cDataType c))"
    using assms(1,2) nl by (auto simp: metadataForColumn_def captured_def metadataScanType_def isUDTColumn_def Let_def)
  have cur: "k \<noteq> CursorC" using assms(2,3) by (auto simp: oracleTypeCoder_def split: if_splits)
  show 1: "scanType (metadataForColumn c) = (if k = RowIDC then StringS else coder_type k (cDataType c))"
  proof (cases "k = RowIDC")
    case True
    then have "cDataType c \<in> {ROWID, UROWID}" using assms(3) by (auto simp: oracleTypeCoder_def split: if_splits)
    with True row meta show ?thesis by auto
  next
    case False
    with cur coder_scan [OF assms(3,4)] meta show ?thesis by simp
  qed
  show "scanType (metadataForColumn c) \<in> set plain_types"
    unfolding 1 using assms(4) cur by (cases k) (auto simp: coder_type_def plain_types_def lob_coder_def)
qed

lemma lob_scan:
  assumes "captured se c" and "oracleTypeCoder (cDataType c) = Some k" and "lob_coder k" and "cIsJson c \<or> cDataType c = OCIFileLocator \<or> \<not> env_inline se"
    and "k = VectorC \<Longrightarrow> \<not> env_auto se"
  shows "scanType (metadataForColumn c) = (if env_auto se \<and> k = ClobC then StringS else if env_auto se \<and> k = BlobC then BytesS
     else cell_type (LobCell \<lparr>lob_kind = k, lob_bytes = None, lob_locator = None, lob_conv = None\<rparr>))"
  using assms
  by (auto simp: oracleTypeCoder_def lob_coder_def metadataForColumn_def captured_def metadataScanType_def isUDTColumn_def inlineLobColumn_def
      automaticLobColumn_def Let_def column_types split: if_splits)

text \<open>
  C7. Columns of built-in types other than cursors, in a session that defines LOB columns as LONG columns when LOBs are inline: what a column
  is read as, and then handed out as, has exactly the Go type that \<open>ColumnTypeScanType\<close> announces, or it is nil. Numbers come as strings,
  BINARY_FLOAT and BINARY_DOUBLE as floats, dates, timestamps and intervals as times, row identifiers as strings; CLOB and BLOB as strings and
  bytes when they are inline or read automatically, and as LOB objects otherwise; JSON, BFILE and VECTOR as objects, and inline as bytes. One
  exception is part of the code: with automatic reading a CLOB or BLOB without a locator of its own, a null among them, stays an object.
  Vectors that are read automatically are left out: their type is that of their data.\<close>

theorem scan_type_sound:
  assumes "captured se c" and "cDataType c \<notin> {XMLType, REFCURSOR}" and "\<not> cArraySize c > 0"
    and "cDataType c = VECTOR_T \<Longrightarrow> \<not> cIsJson c \<and> (env_inline se \<or> \<not> env_auto se)"
    and "decodePrimValue se (env_inline se) (read_as se num (env_inline se) c) s = Some (Ok (c', v), s')"
    and "decode_cell qc se v q = Some (Ok w, q')"
  shows "w = NilCell \<or> cell_type w = scanType (metadataForColumn (read_as se num (env_inline se) c)) \<and> cell_type w \<noteq> NoScan
    \<or> (\<exists>l. w = LobCell l \<and> lob_kind l \<in> {ClobC, BlobC} \<and> env_auto se \<and> \<not> auto_read se l)"
proof -
  let ?c = "read_as se num (env_inline se) c"
  have meta: "metadataForColumn ?c = metadataForColumn c" using metadata_type [OF captured_described [OF assms(1)]] by (simp add: read_as_def)
  have arr: "\<not> cArraySize ?c > 0" using assms(3) by (simp add: read_as_def captureColumnMetadata_def)
  show ?thesis
  proof (cases "isLobType c \<and> env_inline se \<and> \<not> cIsJson c \<and> cDataType c \<noteq> OCIFileLocator")
    case moved: True
    then have dt: "cDataType ?c = (if cDataType c \<in> {OCIBlobLocator, VECTOR_T, JSON_T} then LongRaw else LongVarChar)"
      by (simp add: read_as_def define_column_def Let_def)
    then have k: "oracleTypeCoder (cDataType ?c) = Some (if cDataType c \<in> {OCIBlobLocator, VECTOR_T, JSON_T} then RawC else StringC)" "cDataType ?c \<noteq> XMLType"
      by (simp_all add: oracleTypeCoder_def column_types)
    have sc: "scanType (metadataForColumn c) = (if cDataType c \<in> {OCIBlobLocator, VECTOR_T, JSON_T} then BytesS else StringS)"
      using moved assms(1)
      by (auto simp: metadataForColumn_def captured_def metadataScanType_def inlineLobColumn_def isLobType_def Let_def column_types)
    have "v = NilCell \<or> cell_type v = scanType (metadataForColumn c) \<and> cell_type v \<in> set plain_types"
      using decodePrimValue_kind [OF assms(5) arr k(2)] k(1) sc by (auto simp: coder_type_def lob_coder_def plain_types_def split: if_splits)
    with decode_cell_plain [OF _ assms(6)] show ?thesis unfolding meta by (auto simp: plain_types_def)
  next
    case own: False
    then have dt: "cDataType ?c = cDataType c" by (auto simp: read_as_def define_column_def Let_def)
    have kind: "v = NilCell \<or> (\<exists>k. oracleTypeCoder (cDataType c) = Some k \<and> (if lob_coder k then \<exists>l. v = LobCell l \<and> lob_kind l = k
        else if k = RowIDC then \<exists>t. v = TextCell t else v = NilCell \<or> cell_type v = coder_type k (cDataType c)))"
      using decodePrimValue_kind [OF assms(5) arr] assms(2) unfolding dt by blast
    show ?thesis
    proof (cases "\<exists>l. v = LobCell l")
      case False
      with kind have "v = NilCell \<or> (cell_type v = scanType (metadataForColumn c) \<and> cell_type v \<in> set plain_types)"
        using plain_scan [OF assms(1,2)] by (auto split: if_splits)
      with decode_cell_plain [OF _ assms(6)] show ?thesis unfolding meta by (auto simp: plain_types_def)
    next
      case True
      then obtain l where l: "v = LobCell l" by blast
      have nolob: "\<not> cell_type (LobCell l) = coder_type k (cDataType c)" if "\<not> lob_coder k" "oracleTypeCoder (cDataType c) = Some k" "k \<noteq> RowIDC" for k
        using plain_scan [OF assms(1,2) that(2,1)] that(3) by (cases "lob_kind l") (auto simp: plain_types_def)
      then obtain k where k: "oracleTypeCoder (cDataType c) = Some k" "lob_coder k" "lob_kind l = k"
        using kind l by (auto split: if_splits)
      then have lt: "isLobType c" "k = VectorC \<longleftrightarrow> cDataType c = VECTOR_T"
        by (auto simp: oracleTypeCoder_def isLobType_def lob_coder_def column_types split: if_splits)
      then have vec: "k = VectorC \<Longrightarrow> \<not> env_inline se \<and> \<not> env_auto se" using own assms(4) by (auto simp: column_types)
      have keeps: "cIsJson c \<or> cDataType c = OCIFileLocator \<or> \<not> env_inline se" using own lt(1) by blast
      have sc: "scanType (metadataForColumn c) = (if env_auto se \<and> k = ClobC then StringS else if env_auto se \<and> k = BlobC then BytesS else cell_type (LobCell l))"
        using lob_scan [OF assms(1) k(1,2) keeps] vec k(3) by auto
      have "cell_type (LobCell l) \<noteq> NoScan" using k(2,3) by (auto simp: lob_coder_def)
      with decode_cell_lob [OF assms(6) [unfolded l]] vec k(3) sc show ?thesis unfolding meta by (auto simp: auto_read_def)
    qed
  qed
qed

theorem scan_type_sound_witness:
  "\<exists>s'. decodePrimValue ((scripted_env sample_script)\<lparr>env_inline := True\<rparr>) True (blob_column\<lparr>cDataType := LongRaw\<rparr>)
        ((sample_query [] [])\<lparr>sess := Some (reading [2, 1, 2])\<rparr>) = Some (Ok (blob_column\<lparr>cDataType := LongRaw\<rparr>, RawCell [1, 2]), s')
    \<and> scanType (metadataForColumn (blob_column\<lparr>cDataType := LongRaw\<rparr>)) = BytesS"
proof -
  let ?se = "(scripted_env sample_script)\<lparr>env_inline := True\<rparr>" and ?c = "blob_column\<lparr>cDataType := LongRaw\<rparr>"
  let ?q = "(sample_query [] [])\<lparr>sess := Some (reading [2, 1, 2])\<rparr>"
  have as: "read_as ?se 0 True blob_column = ?c"
    by (simp add: read_as_def define_column_def captureColumnMetadata_def isLobType_def blob_column_def zero_info_def scripted_env_def column_types)
  have inl: "env_inline ?se = True" by simp
  have cap: "captured ?se blob_column" by (simp add: captured_def blob_column_def zero_info_def scripted_env_def)
  have clr: "clr_ok sample_props" using reading_ok(2,6) [of "[]"] by simp
  have "reads_from ?se plain_ops" using scripted_reads [of sample_script] by simp
  from tparses_clr [OF this clr, of "(7, True, False)" "length (wire (reading [2, 1, 2]))" "sample_query [] []" "[1, 2]"]
  obtain s' where read: "on_sess (GetClr (env_read (env_conn ?se))) ?q = Some (Ok (Some [1, 2]), (sample_query [] [])\<lparr>sess := Some s'\<rparr>)"
    unfolding cparses_def using reading_ok [of "[2, 1, 2]"] by (auto simp: told_def answering_def wire_clr_def nslice_of_def)
  have k: "GetParameterCoder ?c = Ok RawC" by (simp add: GetParameterCoder_def oracleTypeCoder_def column_types)
  have c: "?c\<lparr>cBValue := None\<rparr> = ?c" "cArraySize ?c = 0" "cDataType ?c = 24" by (simp_all add: blob_column_def zero_info_def column_types)
  have v: "decodePrimValue ?se True ?c ?q = Some (Ok (?c, RawCell [1, 2]), (sample_query [] [])\<lparr>sess := Some s'\<rparr>)"
    unfolding decodePrimValue_def Let_def c(1) using read k c(2,3)
    by (simp add: lift_val_def read_value_def lob_coder_def BasicRead_def column_types gbind_def gret_def decode_raw_def decode_value_def raw_Value_def option_cell_def)
  have "RawCell [1, 2] = NilCell \<or> cell_type (RawCell [1, 2]) = scanType (metadataForColumn ?c) \<and> cell_type (RawCell [1, 2]) \<noteq> NoScan
    \<or> (\<exists>l. RawCell [1, 2] = LobCell l \<and> lob_kind l \<in> {ClobC, BlobC} \<and> env_auto ?se \<and> \<not> auto_read ?se l)"
    by (rule scan_type_sound [OF cap, where num = 0, unfolded inl as, OF _ _ _ v, where qc = "\<lambda>_. gpanic" and q = ?q and q' = ?q])
       (simp_all add: blob_column_def zero_info_def column_types decode_cell_def gret_def)
  with v show ?thesis by auto
qed

end
