(* ===== verification/Column_Load_Props.thy ===== *)
theory Column_Load_Props
  imports Column_Meta_Props
begin

text \<open>
  The description of a column that a server sends, in every version of the protocol, is loaded field by field.
\<close>

section \<open>Signed integers\<close>

text \<open>The sign of a compressed integer is a bit of its length.\<close>

definition wire_signed :: "int \<Rightarrow> byte list" where
  "wire_signed v = (if 0 \<le> v then wire_nat v else let t = trim_left (be_enc 8 (nat (- v))) in (of_nat (length t) OR 0x80) # t)"

definition signed_ok :: "int \<Rightarrow> bool" where
  "signed_ok v \<longleftrightarrow> - (2 ^ 63) < v \<and> v < 2 ^ 63"

lemma signed_size_byte:
  assumes "n \<le> 8"
  shows "(of_nat n OR 0x80 :: byte) AND 0x80 \<noteq> 0" and "uint ((of_nat n OR 0x80 :: byte) AND 0x7F) = int n"
proof -
  have "n = 0 \<or> n = 1 \<or> n = 2 \<or> n = 3 \<or> n = 4 \<or> n = 5 \<or> n = 6 \<or> n = 7 \<or> n = 8" using assms by linarith
  then show "(of_nat n OR 0x80 :: byte) AND 0x80 \<noteq> 0" and "uint ((of_nat n OR 0x80 :: byte) AND 0x7F) = int n" by (elim disjE; simp)+
qed

context terminal_reader
begin

lemma parses_GetInt_signed:
  assumes "signed_ok v"
  shows "parses ok pending p (GetInt rd k True True) (wire_signed v) v"
proof (cases "0 \<le> v")
  case True
  then show ?thesis
    using assms parses_GetInt_compressed [of "nat v" p k True] by (simp add: signed_ok_def wire_signed_def wire_nat_def nat_less_iff)
next
  case False
  define t where "t = trim_left (be_enc 8 (nat (- v)))"
  have len: "length t \<le> 8" and dec: "be_dec t = nat (- v)"
    using trim_left_facts(1,2) [of "nat (- v)"] assms False by (simp_all add: t_def signed_ok_def nat_less_iff)
  have ne: "t \<noteq> []" using dec False by auto
  have "sint (of_nat (nat (- v)) :: u64) = - v" using to_i64_id [of "- v"] assms False by (simp add: to_i64_def signed_ok_def)
  moreover have "to_i64 v = v" using to_i64_id [of v] assms by (simp add: signed_ok_def)
  ultimately have val: "to_i64 (int64_of_bytes (length t) True t * - 1) = v" using len dec ne by (simp add: int64_of_bytes_be)
  have hd: "parses ok pending p (int_header rd k True True) [of_nat (length t) OR 0x80] (int (length t), True, True)"
    unfolding int_header_def if_True by (rule parses_bindI [OF parses_GetByte parses_retI]) (simp_all add: signed_size_byte [OF len])
  have "parses ok pending p (gbind (GetBytes rd (int (length t))) (\<lambda>rb. gret (to_i64 (int64_of_bytes (length t) True rb * - 1)))) t v"
    by (rule parses_bindI [OF parses_GetBytes parses_retI]) (simp_all add: val [simplified])
  then have "parses ok pending p (GetInt64 rd k True True) ([of_nat (length t) OR 0x80] @ t) v"
    unfolding GetInt64_def using ne len by (intro parses_bindI [OF hd]) (simp_all add: Let_def)
  then show ?thesis
    unfolding GetInt_def using False by (intro parses_bindI [OF _ parses_ret]) (simp_all add: wire_signed_def t_def Let_def)
qed

end

section \<open>Fields\<close>

lemma upd_par_sess [simp]: "upd_par f (l\<lparr>sess := x\<rparr>) = (upd_par f l)\<lparr>sess := x\<rparr>"
  by (simp add: upd_par_def)

lemma upd_par_simps [simp]: "par (upd_par f l) = f (par l)" "StrConv (upd_par f l) = StrConv l" "upd_par f (upd_par g l) = upd_par (\<lambda>c. f (g c)) l"
  by (simp_all add: upd_par_def)

lemma upd_par_id [simp]: "upd_par (\<lambda>c. c) l = l"
  by (simp add: upd_par_def)

lemma tparses_upd_par: "tparses caps p n l (gupd (upd_par f)) [] () (upd_par f l)"
  by (rule cparses_upd) simp

lemma tparses_int_par: "reads_from se ops \<Longrightarrow> field_ok v \<Longrightarrow> tparses caps p n l (int_par se sz upd) (wire_nat v) () (upd_par (upd v) l)"
  unfolding int_par_def by (rule cparses_assign [OF tparses_int]) simp_all

lemma tparses_byte_par: "reads_from se ops \<Longrightarrow> tparses caps p n l (byte_par se upd) [b] () (upd_par (upd b) l)"
  unfolding byte_par_def by (rule cparses_assign [OF tparses_byte]) simp_all

lemma tparses_int64:
  "reads_from se ops \<Longrightarrow> field_ok v \<Longrightarrow> tparses caps p n l (on_sess (GetInt64 (env_read (env_conn se)) k True True)) (wire_nat v) v l"
proof -
  assume a: "reads_from se ops" "field_ok v"
  then have "sint (of_nat (nat v) :: u64) = v" using to_i64_id [of v] by (simp add: field_ok_def to_i64_def)
  then show ?thesis
    using cparses_on_sess [OF tell.parses_GetInt64_compressed [of "nat v"]] a by (simp add: wire_nat_def field_ok_def nat_less_iff)
qed

lemma tparses_raw_byte:
  "reads_from se ops \<Longrightarrow> tparses caps p n l (on_sess (GetInt (env_read (env_conn se)) 1 False False)) [b] (uint b) l"
  using cparses_on_sess [OF tell.parses_GetInt_raw [where bs = "[b]" and k = 1 and be = False]] by (simp add: le_dec_def be_dec_def)

text \<open>A text and the bytes it is sent as.\<close>

definition text_of :: "StringConverter option \<Rightarrow> byte list \<Rightarrow> byte list \<Rightarrow> bool" where
  "text_of conv b t \<longleftrightarrow> length b < 2 ^ 32 \<and> (\<exists>cv. conv = Some cv \<and> Decode cv b = Some (Ok t))"

lemma tparses_session_decode: "text_of (StrConv l) b t \<Longrightarrow> tparses caps p n l (session_decode (nslice_of b)) [] t l"
  by (rule cparses_quiet) (auto simp: text_of_def session_decode_def slice_nslice)

lemma tparses_text_par:
  assumes "reads_from se ops" and "clr_ok p" and "text_of (StrConv l) b t"
  shows "tparses caps p n l (text_par se upd) (wire_dlc p b) () (upd_par (upd t) l)"
proof -
  have "length b < 2 ^ 32" using assms(3) by (simp add: text_of_def)
  from tparses_dlc [OF assms(1,2) this, of caps n l] show ?thesis
    unfolding text_par_def
    by (rule cparses_bindI, intro cparses_bindI [OF tparses_session_decode [OF assms(3)]]) (rule tparses_upd_par, simp_all)
qed

section \<open>A description\<close>

text \<open>What a server says of a column; the texts in the bytes they are sent as. The scale is a byte for types that are not scaled.\<close>

record column_desc =
  d_type :: byte
  d_flag :: byte
  d_precision :: byte
  d_scale :: int
  d_maxLen :: int
  d_arraySize :: int
  d_contFlag :: int
  d_toID :: "byte list"
  d_version :: int
  d_charset :: int
  d_form :: byte
  d_maxCharLen :: int
  d_collation :: int
  d_null :: byte
  d_v7 :: byte
  d_name :: "byte list"
  d_schema :: "byte list"
  d_typeName :: "byte list"
  d_position :: int
  d_uds :: int
  d_domainSchema :: "byte list"
  d_domain :: "byte list"
  d_notes :: "(byte list \<times> byte list \<times> int) list"
  d_note_frame :: "byte \<times> byte \<times> int"
  d_vector :: "int \<times> byte \<times> byte"

definition desc_type :: "column_desc \<Rightarrow> u16" where
  "desc_type d = ucast (d_type d)"

definition wire_scale :: "column_desc \<Rightarrow> byte list" where
  "wire_scale d = (if desc_type d \<in> set scaled_types then wire_signed (d_scale d) else [word_of_int (d_scale d)])"

definition scale_ok :: "column_desc \<Rightarrow> bool" where
  "scale_ok d \<longleftrightarrow> (if desc_type d \<in> set scaled_types then signed_ok (d_scale d) else 0 \<le> d_scale d \<and> d_scale d < 256)"

definition scale_info :: "column_desc \<Rightarrow> param_info \<Rightarrow> param_info" where
  "scale_info d c = default_precision (if desc_type d \<in> set scaled_types then set_scale (d_scale d) c
     else c\<lparr>cScale := word_of_int (d_scale d), rawScale := d_scale d, precisionScaleKnown := True\<rparr>)"

lemma tparses_load_scale:
  assumes "reads_from se ops" and "scale_ok d" and "cDataType (par l) = desc_type d"
  shows "tparses caps p n l (load_scale se) (wire_scale d) () (upd_par (scale_info d) l)"
proof -
  let ?P = "tparses caps p n"
  let ?c = "\<lambda>c. if desc_type d \<in> set scaled_types then set_scale (d_scale d) c
     else c\<lparr>cScale := word_of_int (d_scale d), rawScale := d_scale d, precisionScaleKnown := True\<rparr>"
  have signed: "?P l (on_sess (GetInt (env_read (env_conn se)) 2 True True)) (wire_signed (d_scale d)) (d_scale d) l" if "signed_ok (d_scale d)"
    using cparses_on_sess [OF tell.parses_GetInt_signed [OF that]] assms(1) by simp
  have "?P l (if desc_type d \<in> set scaled_types
       then gbind (on_sess (GetInt (env_read (env_conn se)) 2 True True)) (\<lambda>scale. gupd (upd_par (set_scale scale)))
       else gseq (byte_par se (\<lambda>v c. c\<lparr>cScale := v\<rparr>))
              (gupd (upd_par (\<lambda>c. c\<lparr>rawScale := uint (cScale c), precisionScaleKnown := True\<rparr>)))) (wire_scale d) () (upd_par ?c l)"
  proof (cases "desc_type d \<in> set scaled_types")
    case True
    then have "?P l (gbind (on_sess (GetInt (env_read (env_conn se)) 2 True True)) (\<lambda>scale. gupd (upd_par (set_scale scale))))
        (wire_signed (d_scale d)) () (upd_par (set_scale (d_scale d)) l)"
      using assms(2) by (intro cparses_bindI [OF signed]) (auto simp: scale_ok_def intro: tparses_upd_par)
    with True show ?thesis by (simp add: wire_scale_def)
  next
    case False
    then have b: "uint (word_of_int (d_scale d) :: byte) = d_scale d" using assms(2) by (simp add: scale_ok_def unsigned_of_int take_bit_int_eq_self)
    have "?P l (gseq (byte_par se (\<lambda>v c. c\<lparr>cScale := v\<rparr>)) (gupd (upd_par (\<lambda>c. c\<lparr>rawScale := uint (cScale c), precisionScaleKnown := True\<rparr>))))
        [word_of_int (d_scale d)] () (upd_par (\<lambda>c. c\<lparr>rawScale := uint (cScale c), precisionScaleKnown := True\<rparr>)
          (upd_par (\<lambda>c. c\<lparr>cScale := word_of_int (d_scale d)\<rparr>) l))"
      by (rule cparses_seqI, rule tparses_byte_par [OF assms(1)], rule tparses_upd_par) simp
    with False b show ?thesis by (simp add: wire_scale_def)
  qed
  then have "?P l (gbind (gget (\<lambda>l. cDataType (par l))) (\<lambda>dt. if dt \<in> set scaled_types
       then gbind (on_sess (GetInt (env_read (env_conn se)) 2 True True)) (\<lambda>scale. gupd (upd_par (set_scale scale)))
       else gseq (byte_par se (\<lambda>v c. c\<lparr>cScale := v\<rparr>))
              (gupd (upd_par (\<lambda>c. c\<lparr>rawScale := uint (cScale c), precisionScaleKnown := True\<rparr>))))) (wire_scale d) () (upd_par ?c l)"
    by (intro cparses_get) (simp_all add: assms(3))
  from cparses_seqI [OF this tparses_upd_par [of caps p n "upd_par ?c l" default_precision] refl]
  have "?P l (load_scale se) (wire_scale d) () (upd_par default_precision (upd_par ?c l))"
    unfolding load_scale_def append_Nil2 .
  then show ?thesis by (simp add: scale_info_def [abs_def])
qed

text \<open>Lengths and charset.\<close>

definition sizes_ok :: "column_desc \<Rightarrow> bool" where
  "sizes_ok d \<longleftrightarrow> list_all field_ok [d_maxLen d, d_arraySize d, d_contFlag d, d_version d, d_charset d, d_maxCharLen d, d_collation d] \<and> length (d_toID d) < 2 ^ 32"

definition wire_lengths :: "column_desc \<Rightarrow> byte list" where
  "wire_lengths d = wire_nat (d_maxLen d) @ wire_nat (d_arraySize d) @ wire_nat (d_contFlag d)"

lemma tparses_load_lengths:
  assumes "reads_from se ops" and "sizes_ok d" and "cDataType (par l) = desc_type d"
  shows "tparses caps p n l (load_lengths se ver) (wire_lengths d) ()
    (upd_par (\<lambda>c. c\<lparr>cMaxLen := fixed_length (desc_type d) (d_maxLen d), cArraySize := d_arraySize d, cContFlag := d_contFlag d\<rparr>) l)"
proof -
  let ?P = "tparses caps p n" and ?rd = "env_read (env_conn se)"
  have f: "field_ok (d_maxLen d)" "field_ok (d_arraySize d)" "field_ok (d_contFlag d)" using assms(2) by (simp_all add: sizes_ok_def)
  have 1: "?P l (gassign 0 (on_sess (GetInt64 ?rd 4 True True)) (\<lambda>v. upd_par (\<lambda>c. c\<lparr>cMaxLen := v\<rparr>))) (wire_nat (d_maxLen d)) ()
      (upd_par (\<lambda>c. c\<lparr>cMaxLen := d_maxLen d\<rparr>) l)"
    by (rule cparses_assign [OF tparses_int64 [OF assms(1) f(1)]]) simp
  have "?P l (load_lengths se ver) (wire_lengths d) () (upd_par (\<lambda>c. c\<lparr>cContFlag := d_contFlag d\<rparr>) (upd_par (\<lambda>c. c\<lparr>cArraySize := d_arraySize d\<rparr>)
      (upd_par (\<lambda>c. c\<lparr>cMaxLen := fixed_length (cDataType c) (cMaxLen c)\<rparr>) (upd_par (\<lambda>c. c\<lparr>cMaxLen := d_maxLen d\<rparr>) l))))"
    unfolding load_lengths_def wire_lengths_def
    by (rule cparses_seqI [OF 1], rule cparses_seqI, rule tparses_upd_par, rule cparses_seqI, rule tparses_int_par [OF assms(1) f(2)],
        rule tparses_int_par [OF assms(1) f(3)]) simp_all
  then show ?thesis using assms(3) by (simp add: upd_par_def)
qed

definition wire_charset :: "session_props \<Rightarrow> byte \<Rightarrow> column_desc \<Rightarrow> byte list" where
  "wire_charset p ver d = wire_dlc p (d_toID d) @ wire_nat (d_version d) @ wire_nat (d_charset d) @ d_form d # wire_nat (d_maxCharLen d) @
     (if ver \<ge> 8 then wire_nat (d_collation d) else [])"

lemma tparses_load_charset:
  assumes "reads_from se ops" and "clr_ok p" and "sizes_ok d"
  shows "tparses caps p n l (load_charset se ver) (wire_charset p ver d) ()
    (upd_par (\<lambda>c. c\<lparr>cToID := nslice_of (d_toID d), cVersion := d_version d, cCharsetID := d_charset d, cCharsetForm := uint (d_form d),
       cMaxCharLen := d_maxCharLen d, oaccollid := (if ver \<ge> 8 then d_collation d else oaccollid c)\<rparr>) l)"
proof -
  let ?P = "tparses caps p n" and ?rd = "env_read (env_conn se)"
  have f: "length (d_toID d) < 2 ^ 32" "field_ok (d_version d)" "field_ok (d_charset d)" "field_ok (d_maxCharLen d)" "field_ok (d_collation d)"
    using assms(3) by (simp_all add: sizes_ok_def)
  have 1: "?P l' (gassign None (on_sess (GetDlc ?rd)) (\<lambda>v. upd_par (\<lambda>c. c\<lparr>cToID := v\<rparr>))) (wire_dlc p (d_toID d)) ()
      (upd_par (\<lambda>c. c\<lparr>cToID := nslice_of (d_toID d)\<rparr>) l')" for l' :: "('a, 'b) loading_scheme"
    by (rule cparses_assign [OF tparses_dlc [OF assms(1,2) f(1)]]) simp
  have 2: "?P l' (gassign 0 (on_sess (GetInt ?rd 1 False False)) (\<lambda>v. upd_par (\<lambda>c. c\<lparr>cCharsetForm := v\<rparr>))) [d_form d] ()
      (upd_par (\<lambda>c. c\<lparr>cCharsetForm := uint (d_form d)\<rparr>) l')" for l' :: "('a, 'b) loading_scheme"
    by (rule cparses_assign [OF tparses_raw_byte [OF assms(1)]]) simp
  have 3: "?P l' (gassign 0 (on_sess (GetInt64 ?rd 4 True True)) (\<lambda>v. upd_par (\<lambda>c. c\<lparr>cMaxCharLen := v\<rparr>))) (wire_nat (d_maxCharLen d)) ()
      (upd_par (\<lambda>c. c\<lparr>cMaxCharLen := d_maxCharLen d\<rparr>) l')" for l' :: "('a, 'b) loading_scheme"
    by (rule cparses_assign [OF tparses_int64 [OF assms(1) f(4)]]) simp
  have 4: "?P l' (gwhen (ver \<ge> 8) (int_par se 4 (\<lambda>v c. c\<lparr>oaccollid := v\<rparr>))) (if ver \<ge> 8 then wire_nat (d_collation d) else []) ()
      (upd_par (\<lambda>c. c\<lparr>oaccollid := (if ver \<ge> 8 then d_collation d else oaccollid c)\<rparr>) l')" for l' :: "('a, 'b) loading_scheme"
    using tparses_int_par [OF assms(1) f(5), of caps p n l' 4 "\<lambda>v c. c\<lparr>oaccollid := v\<rparr>"]
    by (cases "ver \<ge> 8") (simp_all add: gwhen_def cparses_ret upd_par_def)
  have "?P l (load_charset se ver) (wire_charset p ver d) () (upd_par (\<lambda>c. c\<lparr>oaccollid := (if ver \<ge> 8 then d_collation d else oaccollid c)\<rparr>)
      (upd_par (\<lambda>c. c\<lparr>cMaxCharLen := d_maxCharLen d\<rparr>) (upd_par (\<lambda>c. c\<lparr>cCharsetForm := uint (d_form d)\<rparr>) (upd_par (\<lambda>c. c\<lparr>cCharsetID := d_charset d\<rparr>)
      (upd_par (\<lambda>c. c\<lparr>cVersion := d_version d\<rparr>) (upd_par (\<lambda>c. c\<lparr>cToID := nslice_of (d_toID d)\<rparr>) l))))))"
    unfolding load_charset_def wire_charset_def Let_def
    by (rule cparses_seqI [OF 1], rule cparses_seqI, rule tparses_int_par [OF assms(1) f(2)], rule cparses_seqI, rule tparses_int_par [OF assms(1) f(3)],
        rule cparses_seqI [OF 2], rule cparses_seqI [OF 3], rule 4) simp_all
  then show ?thesis by (simp cong: if_cong)
qed

text \<open>Names. The texts are those that the converter of the session gives.\<close>

record column_texts =
  t_name :: "byte list"
  t_schema :: "byte list"
  t_typeName :: "byte list"
  t_domainSchema :: "byte list"
  t_domain :: "byte list"
  t_notes :: "(byte list \<times> byte list) list"

definition texts_ok :: "StringConverter option \<Rightarrow> column_desc \<Rightarrow> column_texts \<Rightarrow> bool" where
  "texts_ok conv d t \<longleftrightarrow> text_of conv (d_name d) (t_name t) \<and> text_of conv (d_schema d) (t_schema t) \<and> text_of conv (d_typeName d) (t_typeName t)
     \<and> text_of conv (d_domainSchema d) (t_domainSchema t) \<and> text_of conv (d_domain d) (t_domain t)
     \<and> list_all2 (\<lambda>(k, v, num) (kt, vt). text_of conv k kt \<and> text_of conv v vt \<and> field_ok num) (d_notes d) (t_notes t)"

definition wire_names :: "session_props \<Rightarrow> column_desc \<Rightarrow> byte list" where
  "wire_names p d = d_null d # d_v7 d # wire_dlc p (d_name d) @ wire_dlc p (d_schema d) @ wire_dlc p (d_typeName d)"

definition names_info :: "'n stmt_env \<Rightarrow> column_desc \<Rightarrow> column_texts \<Rightarrow> param_info \<Rightarrow> param_info" where
  "names_info se d t c = captureColumnMetadata se (let c = c\<lparr>cAllowNull := uint (d_null d) > 0, nullabilityKnown := True, cName := t_name t,
       cSchemaName := to_upper (t_schema t), cTypeName := to_upper (t_typeName t)\<rparr> in
     if to_upper (t_typeName t) = XMLTYPE then c\<lparr>cDataType := XMLType, cIsXmlType := True\<rparr> else c)"

lemma tparses_load_names:
  assumes "reads_from se ops" and "clr_ok p" and "texts_ok (StrConv l) d t"
  shows "tparses caps p n l (load_names se) (wire_names p d) () (upd_par (names_info se d t) l)"
proof -
  let ?P = "tparses caps p n"
  let ?c = "\<lambda>c. c\<lparr>cAllowNull := uint (d_null d) > 0, nullabilityKnown := True\<rparr>"
  have t: "text_of (StrConv (upd_par f l)) (d_name d) (t_name t)" "text_of (StrConv (upd_par f l)) (d_schema d) (t_schema t)"
      "text_of (StrConv (upd_par f l)) (d_typeName d) (t_typeName t)" for f
    using assms(3) by (simp_all add: texts_ok_def)
  note tpar = tparses_text_par [OF assms(1,2)]
  let ?l1 = "upd_par ?c l"
  let ?l2 = "upd_par (\<lambda>c. c\<lparr>cName := t_name t\<rparr>) ?l1"
  let ?l3 = "upd_par (\<lambda>c. c\<lparr>cSchemaName := to_upper (t_schema t)\<rparr>) ?l2"
  let ?l4 = "upd_par (\<lambda>c. c\<lparr>cTypeName := to_upper (t_typeName t)\<rparr>) ?l3"
  let ?f = "\<lambda>c. captureColumnMetadata se (if cTypeName c = XMLTYPE then c\<lparr>cDataType := XMLType, cIsXmlType := True\<rparr> else c)"
  have 1: "?P ?l1 (text_par se (\<lambda>s c. c\<lparr>cName := s\<rparr>)) (wire_dlc p (d_name d)) () ?l2" by (rule tpar) (use assms(3) in \<open>simp add: texts_ok_def\<close>)
  have 2: "?P ?l2 (text_par se (\<lambda>s c. c\<lparr>cSchemaName := to_upper s\<rparr>)) (wire_dlc p (d_schema d)) () ?l3"
    by (rule tpar) (use assms(3) in \<open>simp add: texts_ok_def\<close>)
  have 3: "?P ?l3 (text_par se (\<lambda>s c. c\<lparr>cTypeName := to_upper s\<rparr>)) (wire_dlc p (d_typeName d)) () ?l4"
    by (rule tpar) (use assms(3) in \<open>simp add: texts_ok_def\<close>)
  have "?P l (load_names se) (wire_names p d) () (upd_par ?f ?l4)"
    unfolding load_names_def wire_names_def
    by (rule cparses_bindI [OF tparses_raw_byte [OF assms(1)]], rule cparses_seqI, rule tparses_upd_par,
        rule cparses_seqI [OF tparses_skip_byte [OF assms(1)]], rule cparses_seqI [OF 1], rule cparses_seqI [OF 2], rule cparses_seqI [OF 3],
        rule tparses_upd_par) simp_all
  then show ?thesis by (simp add: names_info_def [abs_def] Let_def)
qed

text \<open>Annotations.\<close>

definition wire_note :: "session_props \<Rightarrow> byte list \<times> byte list \<times> int \<Rightarrow> byte list" where
  "wire_note p = (\<lambda>(k, v, num). wire_dlc p k @ wire_dlc p v @ wire_nat num)"

definition wire_notes :: "session_props \<Rightarrow> column_desc \<Rightarrow> byte list" where
  "wire_notes p d = (case d_note_frame d of (b1, b2, fl) \<Rightarrow> let k = int (length (d_notes d)) in
     if d_notes d = [] then wire_nat 0 else wire_nat k @ b1 # wire_nat k @ b2 # concat (map (wire_note p) (d_notes d)) @ wire_nat fl)"

definition notes_info :: "column_texts \<Rightarrow> param_info \<Rightarrow> param_info" where
  "notes_info t c = (if t_notes t = [] then c else fold (\<lambda>(k, v). put_annotation k v) (t_notes t) (c\<lparr>cAnnotations := Some []\<rparr>))"

lemma tparses_note:
  assumes "reads_from se ops" and "clr_ok p" and "text_of (StrConv l) k kt" "text_of (StrConv l) v vt" "field_ok num"
  shows "tparses caps p n l (gbind (on_sess (GetKeyVal (env_read (env_conn se)))) (\<lambda>(k, v, _).
          gbind (session_decode k) (\<lambda>k. gbind (session_decode v) (\<lambda>v. gupd (upd_par (put_annotation k v)))))) (wire_note p (k, v, num)) ()
    (upd_par (put_annotation kt vt) l)"
proof -
  have kv: "tparses caps p n l (on_sess (GetKeyVal (env_read (env_conn se)))) (wire_note p (k, v, num)) (nslice_of k, nslice_of v, num) l"
    using cparses_on_sess [OF tell.parses_GetKeyVal [OF assms(2), of k v "nat num"]] assms(1,3-5)
    by (simp add: wire_note_def wire_nat_def text_of_def field_ok_def nat_less_iff)
  show ?thesis
    by (rule cparses_bindI [OF kv], unfold prod.case, rule cparses_bindI [OF tparses_session_decode [OF assms(3)]],
        rule cparses_bindI [OF tparses_session_decode [OF assms(4)]], rule tparses_upd_par) simp_all
qed

lemma tparses_notes:
  assumes "reads_from se ops" and "clr_ok p"
    and "list_all2 (\<lambda>(k, v, num) (kt, vt). text_of (StrConv l) k kt \<and> text_of (StrConv l) v vt \<and> field_ok num) ns ts"
  shows "tparses caps p n l (grepeat (length ns) (gbind (on_sess (GetKeyVal (env_read (env_conn se)))) (\<lambda>(k, v, _).
          gbind (session_decode k) (\<lambda>k. gbind (session_decode v) (\<lambda>v. gupd (upd_par (put_annotation k v))))))) (concat (map (wire_note p) ns)) ()
    (upd_par (fold (\<lambda>(k, v). put_annotation k v) ts) l)"
  using assms(3)
proof (induction ns arbitrary: l ts)
  case Nil
  then show ?case by (simp add: cparses_ret upd_par_def)
next
  case (Cons x ns)
  then obtain y ts' where ts: "ts = y # ts'" by (auto simp: list_all2_Cons1)
  obtain k v num kt vt where xy: "x = (k, v, num)" "y = (kt, vt)" by (cases x; cases y) auto
  let ?l = "upd_par (put_annotation kt vt) l"
  have h: "text_of (StrConv l) k kt" "text_of (StrConv l) v vt" "field_ok num"
    and rest: "list_all2 (\<lambda>(k, v, num) (kt, vt). text_of (StrConv ?l) k kt \<and> text_of (StrConv ?l) v vt \<and> field_ok num) ns ts'"
    using Cons.prems xy ts by auto
  from cparses_seqI [OF tparses_note [OF assms(1,2) h] Cons.IH [OF rest] refl] show ?case using xy ts by (simp add: comp_def)
qed

definition notes_ok :: "column_desc \<Rightarrow> bool" where
  "notes_ok d \<longleftrightarrow> field_ok (snd (snd (d_note_frame d))) \<and> length (d_notes d) < 2 ^ 63"

lemma tparses_load_annotations:
  assumes "reads_from se ops" and "clr_ok p" and "texts_ok (StrConv l) d t" and "notes_ok d"
  shows "tparses caps p n l (load_annotations se) (wire_notes p d) () (upd_par (notes_info t) l)"
proof -
  let ?P = "tparses caps p n" and ?k = "int (length (d_notes d))"
  obtain b1 b2 fl where fr: "d_note_frame d = (b1, b2, fl)" by (cases "d_note_frame d")
  have k: "field_ok ?k" "field_ok fl" using assms(4) fr by (simp_all add: notes_ok_def field_ok_def)
  have nts: "list_all2 (\<lambda>(k, v, num) (kt, vt). text_of (StrConv l) k kt \<and> text_of (StrConv l) v vt \<and> field_ok num) (d_notes d) (t_notes t)"
    using assms(3) by (simp add: texts_ok_def)
  then have len: "t_notes t = [] \<longleftrightarrow> d_notes d = []" by (auto dest: list_all2_lengthD)
  show ?thesis
  proof (cases "d_notes d = []")
    case True
    have 0: "?P l (on_sess (GetInt (env_read (env_conn se)) 4 True True)) (wire_nat 0) 0 l"
      by (rule tparses_int [OF assms(1)]) (simp add: field_ok_def)
    have "?P l (load_annotations se) (wire_nat 0) () l"
      unfolding load_annotations_def Let_def by (rule cparses_bindI [OF 0]) (simp_all add: gwhen_def cparses_ret)
    with True len fr show ?thesis by (simp add: wire_notes_def notes_info_def upd_par_def)
  next
    case False
    let ?l = "upd_par (\<lambda>c. c\<lparr>cAnnotations := Some []\<rparr>) l"
    have 1: "?P ?l (grepeat (length (d_notes d)) (gbind (on_sess (GetKeyVal (env_read (env_conn se)))) (\<lambda>(k, v, _).
          gbind (session_decode k) (\<lambda>k. gbind (session_decode v) (\<lambda>v. gupd (upd_par (put_annotation k v)))))))
        (concat (map (wire_note p) (d_notes d))) () (upd_par (fold (\<lambda>(k, v). put_annotation k v) (t_notes t)) ?l)"
      by (rule tparses_notes [OF assms(1,2)]) (use nts in simp)
    have "?P l (load_annotations se) (wire_nat ?k @ b1 # wire_nat ?k @ b2 # concat (map (wire_note p) (d_notes d)) @ wire_nat fl) ()
        (upd_par (fold (\<lambda>(k, v). put_annotation k v) (t_notes t)) ?l)"
      unfolding load_annotations_def Let_def
      by (rule cparses_bindI [OF tparses_int [OF assms(1) k(1)]], unfold gwhen_def if_P [OF iffD2 [OF of_nat_0_less_iff iffD2 [OF length_greater_0_conv False]]],
          rule cparses_seqI, rule tparses_upd_par, rule cparses_seqI [OF tparses_skip_byte [OF assms(1)]],
          rule cparses_bindI [OF tparses_int [OF assms(1) k(1)]], rule cparses_seqI [OF tparses_skip_byte [OF assms(1)]],
          unfold nat_int, rule cparses_seqI [OF 1 tparses_skip_int [OF assms(1) k(2)]]) simp_all
    with False len fr show ?thesis by (simp add: wire_notes_def notes_info_def [abs_def] Let_def)
  qed
qed

text \<open>Vectors: the dimension, the format and the flag, which other types have too, as integers that the driver skips.\<close>

definition wire_vector_info :: "u16 \<Rightarrow> column_desc \<Rightarrow> byte list" where
  "wire_vector_info dt d = (case d_vector d of (dim, fmt, fl) \<Rightarrow>
     if dt = VECTOR_T then wire_nat dim @ [fmt, fl] else wire_nat dim @ wire_nat (uint fmt) @ wire_nat (uint fl))"

definition vector_info :: "column_desc \<Rightarrow> param_info \<Rightarrow> param_info" where
  "vector_info d c = (case d_vector d of (dim, fmt, fl) \<Rightarrow>
     if cDataType c = VECTOR_T then c\<lparr>cVectorDim := dim, cVectorFormat := fmt, cVectorFlag := fl, cVectorSparse := (fl AND 2 = 2)\<rparr> else c)"

lemma field_ok_byte: "field_ok (uint (b :: byte))"
  using uint_bounded [of b] by (simp add: field_ok_def)

lemma tparses_load_vector:
  assumes "reads_from se ops" and "field_ok (fst (d_vector d))"
  shows "tparses caps p n l (load_vector se) (wire_vector_info (cDataType (par l)) d) () (upd_par (vector_info d) l)"
proof -
  let ?P = "tparses caps p n"
  obtain dim fmt fl where v: "d_vector d = (dim, fmt, fl)" by (cases "d_vector d")
  with assms(2) have dim: "field_ok dim" by simp
  have vec: "?P l (gseq (int_par se 4 (\<lambda>v c. c\<lparr>cVectorDim := v\<rparr>)) (gseq (byte_par se (\<lambda>v c. c\<lparr>cVectorFormat := v\<rparr>))
      (gseq (byte_par se (\<lambda>v c. c\<lparr>cVectorFlag := v\<rparr>)) (gupd (upd_par (\<lambda>c. c\<lparr>cVectorSparse := (cVectorFlag c AND 2 = 2)\<rparr>))))))
      (wire_nat dim @ [fmt, fl]) () (upd_par (\<lambda>c. c\<lparr>cVectorSparse := (cVectorFlag c AND 2 = 2)\<rparr>) (upd_par (\<lambda>c. c\<lparr>cVectorFlag := fl\<rparr>)
        (upd_par (\<lambda>c. c\<lparr>cVectorFormat := fmt\<rparr>) (upd_par (\<lambda>c. c\<lparr>cVectorDim := dim\<rparr>) l))))"
    by (rule cparses_seqI, rule tparses_int_par [OF assms(1) dim], rule cparses_seqI, rule tparses_byte_par [OF assms(1)],
        rule cparses_seqI, rule tparses_byte_par [OF assms(1)], rule tparses_upd_par) simp_all
  have other: "?P l (gseq (skip_int se 4) (gseq (skip_int se 1) (skip_int se 1))) (wire_nat dim @ wire_nat (uint fmt) @ wire_nat (uint fl)) () l"
    by (rule cparses_seqI, rule tparses_skip_int [OF assms(1) dim], rule cparses_seqI, rule tparses_skip_int [OF assms(1) field_ok_byte],
        rule tparses_skip_int [OF assms(1) field_ok_byte]) simp_all
  show ?thesis
    unfolding load_vector_def using vec other v
    by (intro cparses_get) (auto simp: wire_vector_info_def vector_info_def upd_par_def)
qed

text \<open>The fields of later versions.\<close>

definition wire_tail :: "session_props \<Rightarrow> byte \<Rightarrow> u16 \<Rightarrow> column_desc \<Rightarrow> byte list" where
  "wire_tail p ver dt d = (if ver < 3 then [] else wire_nat (d_position d) @
     (if ver < 6 then [] else wire_nat (d_uds d) @
     (if ver < 17 then [] else wire_dlc p (d_domainSchema d) @ wire_dlc p (d_domain d) @
     (if ver < 20 then [] else wire_notes p d @
     (if ver < 24 then [] else wire_vector_info dt d)))))"

definition tail_info :: "byte \<Rightarrow> column_desc \<Rightarrow> column_texts \<Rightarrow> param_info \<Rightarrow> param_info" where
  "tail_info ver d t c =
    (if ver < 6 then c else let c = c\<lparr>cIsJson := (d_uds d AND 0x500 > 0)\<rparr> in
     if ver < 17 then c else let c = c\<lparr>cDomainSchema := to_upper (t_domainSchema t), cDomainName := to_upper (t_domain t)\<rparr> in
     if ver < 20 then c else let c = notes_info t c in
     if ver < 24 then c else vector_info d c)"

definition tail_ok :: "column_desc \<Rightarrow> bool" where
  "tail_ok d \<longleftrightarrow> field_ok (d_position d) \<and> field_ok (d_uds d) \<and> notes_ok d \<and> field_ok (fst (d_vector d))"

lemma cDataType_put_annotation [simp]: "cDataType (fold (\<lambda>(k, v). put_annotation k v) ts c) = cDataType c"
  by (induction ts arbitrary: c) (auto simp: put_annotation_def)

lemma cDataType_notes_info [simp]: "cDataType (notes_info t c) = cDataType c"
  by (simp add: notes_info_def)

lemma tparses_load_tail:
  assumes "reads_from se ops" and "clr_ok p" and "texts_ok (StrConv l) d t" and "tail_ok d" and "cDataType (par l) = dt"
  shows "tparses caps p n l (load_tail se ver) (wire_tail p ver dt d) () (upd_par (tail_info ver d t) l)"
proof -
  let ?P = "tparses caps p n"
  have f: "field_ok (d_position d)" "field_ok (d_uds d)" "notes_ok d" "field_ok (fst (d_vector d))" using assms(4) by (simp_all add: tail_ok_def)
  let ?l1 = "upd_par (\<lambda>c. c\<lparr>cIsJson := (d_uds d AND 0x500 > 0)\<rparr>) l"
  let ?l2 = "upd_par (\<lambda>c. c\<lparr>cDomainSchema := to_upper (t_domainSchema t)\<rparr>) ?l1"
  let ?l3 = "upd_par (\<lambda>c. c\<lparr>cDomainName := to_upper (t_domain t)\<rparr>) ?l2"
  let ?l4 = "upd_par (notes_info t) ?l3"
  have 5: "?P ?l4 (if ver < 24 then gret () else load_vector se) (if ver < 24 then [] else wire_vector_info dt d) ()
      (upd_par (\<lambda>c. if ver < 24 then c else vector_info d c) ?l4)"
    using tparses_load_vector [OF assms(1) f(4), of caps p n ?l4] assms(5) by (simp add: cparses_ret)
  have "?P ?l3 (gseq (load_annotations se) (if ver < 24 then gret () else load_vector se)) (wire_notes p d @ (if ver < 24 then [] else wire_vector_info dt d)) ()
      (upd_par (\<lambda>c. if ver < 24 then c else vector_info d c) ?l4)"
    by (rule cparses_seqI [OF tparses_load_annotations [OF assms(1,2) _ f(3)] 5 refl]) (use assms(3) in simp)
  then have 4: "?P ?l3 (if ver < 20 then gret () else gseq (load_annotations se) (if ver < 24 then gret () else load_vector se))
      (if ver < 20 then [] else wire_notes p d @ (if ver < 24 then [] else wire_vector_info dt d)) ()
      (upd_par (\<lambda>c. if ver < 20 then c else (\<lambda>c. if ver < 24 then c else vector_info d c) (notes_info t c)) ?l3)"
    by (cases "ver < 20") (simp_all add: cparses_ret)
  have 2: "?P ?l1 (text_par se (\<lambda>s c. c\<lparr>cDomainSchema := to_upper s\<rparr>)) (wire_dlc p (d_domainSchema d)) () ?l2"
    by (rule tparses_text_par [OF assms(1,2)]) (use assms(3) in \<open>simp add: texts_ok_def\<close>)
  have 3: "?P ?l2 (text_par se (\<lambda>s c. c\<lparr>cDomainName := to_upper s\<rparr>)) (wire_dlc p (d_domain d)) () ?l3"
    by (rule tparses_text_par [OF assms(1,2)]) (use assms(3) in \<open>simp add: texts_ok_def\<close>)
  note tl = cparses_seqI [OF 2 cparses_seqI [OF 3 4 refl] refl]
  show ?thesis
  proof (cases "ver < 6")
    case True
    have "?P l (gseq (skip_int se 2) (gret ())) (wire_nat (d_position d)) () l"
      by (rule cparses_seqI, rule tparses_skip_int [OF assms(1) f(1)], rule cparses_ret) simp
    with True show ?thesis by (cases "ver < 3") (simp_all add: load_tail_def wire_tail_def tail_info_def [abs_def] cparses_ret)
  next
    case False
    have n3: "\<not> ver < 3" using False by (auto simp: word_less_nat_alt)
    let ?F = "\<lambda>c. if ver < 17 then c else (\<lambda>c. if ver < 20 then c else (\<lambda>c. if ver < 24 then c else vector_info d c) (notes_info t c))
           (c\<lparr>cDomainSchema := to_upper (t_domainSchema t), cDomainName := to_upper (t_domain t)\<rparr>)"
    have "?P ?l1 (if ver < 17 then gret () else gseq (text_par se (\<lambda>s c. c\<lparr>cDomainSchema := to_upper s\<rparr>))
           (gseq (text_par se (\<lambda>s c. c\<lparr>cDomainName := to_upper s\<rparr>)) (if ver < 20 then gret ()
              else gseq (load_annotations se) (if ver < 24 then gret () else load_vector se))))
        (if ver < 17 then [] else wire_dlc p (d_domainSchema d) @ wire_dlc p (d_domain d) @
           (if ver < 20 then [] else wire_notes p d @ (if ver < 24 then [] else wire_vector_info dt d))) ()
        (upd_par ?F ?l1)"
      using tl by (cases "ver < 17") (simp_all add: cparses_ret)
    note fields = cparses_seqI [OF tparses_upd_par this refl]
    have "?P l (load_tail se ver) (wire_tail p ver dt d) () (upd_par ?F ?l1)"
      unfolding load_tail_def wire_tail_def Let_def if_not_P [OF n3] if_not_P [OF False]
      by (rule cparses_seqI, rule tparses_skip_int [OF assms(1) f(1)], rule cparses_bindI, rule tparses_int [OF assms(1) f(2)], rule fields) simp_all
    with False show ?thesis by (simp add: tail_info_def [abs_def] Let_def cong: if_cong)
  qed
qed

section \<open>A column\<close>

text \<open>The version of the protocol is the session's.\<close>

lemma tparses_version: "tparses caps p n l (on_sess (gget TTCVersion)) [] (fst caps) l"
  by (rule cparses_on_sess) (auto simp: parses_def told_def answering_def session_caps_def gget_def)

definition desc_ok :: "column_desc \<Rightarrow> bool" where
  "desc_ok d \<longleftrightarrow> scale_ok d \<and> sizes_ok d \<and> tail_ok d"

definition final_type :: "column_desc \<Rightarrow> column_texts \<Rightarrow> u16" where
  "final_type d t = (if to_upper (t_typeName t) = XMLTYPE then XMLType else desc_type d)"

definition wire_column :: "session_props \<Rightarrow> byte \<Rightarrow> column_desc \<Rightarrow> column_texts \<Rightarrow> byte list" where
  "wire_column p ver d t = [d_type d, d_flag d, d_precision d] @ wire_scale d @ wire_lengths d @ wire_charset p ver d @ wire_names p d @
     wire_tail p ver (final_type d t) d"

definition sized_info :: "'n stmt_env \<Rightarrow> byte \<Rightarrow> column_desc \<Rightarrow> param_info" where
  "sized_info se ver d = (scale_info d (zero_info\<lparr>getDataFromServer := True, lobModes := Some (env_inline se, env_auto se), cDataType := desc_type d,
       cFlag := d_flag d, cPrecision := d_precision d, rawPrecision := uint (d_precision d)\<rparr>))
     \<lparr>cMaxLen := fixed_length (desc_type d) (d_maxLen d), cArraySize := d_arraySize d, cContFlag := d_contFlag d,
      cToID := nslice_of (d_toID d), cVersion := d_version d, cCharsetID := d_charset d, cCharsetForm := uint (d_form d),
      cMaxCharLen := d_maxCharLen d, oaccollid := (if ver \<ge> 8 then d_collation d else 0)\<rparr>"

definition column_info :: "'n stmt_env \<Rightarrow> byte \<Rightarrow> column_desc \<times> column_texts \<Rightarrow> param_info" where
  "column_info se ver = (\<lambda>(d, t). tail_info ver d t (names_info se d t (sized_info se ver d)))"

lemma scale_info_keeps [simp]: "cDataType (scale_info d c) = cDataType c" "oaccollid (scale_info d c) = oaccollid c"
  by (simp_all add: scale_info_def set_scale_def default_precision_def Let_def)

lemma cDataType_names_info: "cDataType c = desc_type d \<Longrightarrow> cDataType (names_info se d t c) = final_type d t"
  by (simp add: names_info_def captureColumnMetadata_def final_type_def Let_def)

lemma tparses_load:
  assumes "reads_from se ops" and "clr_ok p" and "desc_ok d" and "texts_ok (StrConv l) d t" and "par l = zero_info"
  shows "tparses caps p n l (load se) (wire_column p (fst caps) d t) () (l\<lparr>par := column_info se (fst caps) (d, t)\<rparr>)"
proof -
  let ?P = "tparses caps p n" and ?v = "fst caps"
  have ok: "scale_ok d" "sizes_ok d" "tail_ok d" using assms(3) by (simp_all add: desc_ok_def)
  let ?l1 = "upd_par (\<lambda>c. c\<lparr>getDataFromServer := True, lobModes := Some (env_inline se, env_auto se)\<rparr>) l"
  let ?l2 = "upd_par (\<lambda>c. c\<lparr>cDataType := ucast (d_type d)\<rparr>) ?l1"
  let ?l3 = "upd_par (\<lambda>c. c\<lparr>rawPrecision := uint (cPrecision c)\<rparr>) (upd_par (\<lambda>c. c\<lparr>cPrecision := d_precision d\<rparr>) (upd_par (\<lambda>c. c\<lparr>cFlag := d_flag d\<rparr>) ?l2))"
  let ?l4 = "upd_par (scale_info d) ?l3"
  let ?l5 = "upd_par (\<lambda>c. c\<lparr>cMaxLen := fixed_length (desc_type d) (d_maxLen d), cArraySize := d_arraySize d, cContFlag := d_contFlag d\<rparr>) ?l4"
  let ?l6 = "upd_par (\<lambda>c. c\<lparr>cToID := nslice_of (d_toID d), cVersion := d_version d, cCharsetID := d_charset d, cCharsetForm := uint (d_form d),
       cMaxCharLen := d_maxCharLen d, oaccollid := (if ?v \<ge> 8 then d_collation d else oaccollid c)\<rparr>) ?l5"
  let ?l7 = "upd_par (names_info se d t) ?l6"
  have 4: "?P ?l3 (load_scale se) (wire_scale d) () ?l4" by (rule tparses_load_scale [OF assms(1) ok(1)]) (simp add: desc_type_def)
  have 5: "?P ?l4 (load_lengths se ?v) (wire_lengths d) () ?l5" by (rule tparses_load_lengths [OF assms(1) ok(2)]) (simp add: desc_type_def)
  have 6: "?P ?l5 (load_charset se ?v) (wire_charset p ?v d) () ?l6" by (rule tparses_load_charset [OF assms(1,2) ok(2)])
  have 7: "?P ?l6 (load_names se) (wire_names p d) () ?l7" by (rule tparses_load_names [OF assms(1,2)]) (use assms(4) in simp)
  have 8: "?P ?l7 (load_tail se ?v) (wire_tail p ?v (final_type d t) d) () (upd_par (tail_info ?v d t) ?l7)"
    by (rule tparses_load_tail [OF assms(1,2) _ ok(3)]) (use assms(4) in \<open>simp_all add: cDataType_names_info desc_type_def\<close>)
  have "?P l (load se) (wire_column p ?v d t) () (upd_par (tail_info ?v d t) ?l7)"
    unfolding load_def wire_column_def
    by (rule cparses_bindI [OF tparses_version], rule cparses_seqI, rule tparses_upd_par, rule cparses_bindI [OF tparses_byte [OF assms(1)]],
        rule cparses_seqI, rule tparses_upd_par, rule cparses_seqI, rule tparses_byte_par [OF assms(1)], rule cparses_seqI, rule tparses_byte_par [OF assms(1)],
        rule cparses_seqI, rule tparses_upd_par, rule cparses_seqI [OF 4], rule cparses_seqI [OF 5], rule cparses_seqI [OF 6], rule cparses_seqI [OF 7],
        rule 8) simp_all
  moreover have "upd_par (tail_info ?v d t) ?l7 = l\<lparr>par := column_info se ?v (d, t)\<rparr>"
    using assms(5) by (simp add: upd_par_def column_info_def sized_info_def desc_type_def) (simp add: zero_info_def)
  ultimately show ?thesis by simp
qed

section \<open>A cursor\<close>

lemma cparses_try: "cparses ok pending p c m bs a c' \<Longrightarrow> cparses ok pending p c (gtry z m) bs (a, None) c'"
  unfolding cparses_def by (metis gtry_simps(1))

lemma cparses_retI: "a = b \<Longrightarrow> bs = [] \<Longrightarrow> cparses ok pending p c (gret a) bs b c"
  by (simp add: cparses_ret)

definition columns_ok :: "StringConverter option \<Rightarrow> (column_desc \<times> column_texts) list \<Rightarrow> bool" where
  "columns_ok conv = list_all (\<lambda>(d, t). desc_ok d \<and> texts_ok conv d t)"

definition wire_columns :: "session_props \<Rightarrow> byte \<Rightarrow> (column_desc \<times> column_texts) list \<Rightarrow> byte list" where
  "wire_columns p ver ds = concat (map (\<lambda>(d, t). wire_column p ver d t) ds)"

lemma tparses_load_columns:
  fixes l :: "('n, 'z) loading_scheme"
  assumes "reads_from se ops" and "clr_ok p" and "columns_ok (StrConv l) ds"
  shows "tparses caps p n l (load_columns se (length ds)) (wire_columns p (fst caps) ds) (map (column_info se (fst caps)) ds, [], None)
    (l\<lparr>par := last (par l # map (column_info se (fst caps)) ds)\<rparr>)"
  using assms(3)
proof (induction ds arbitrary: l)
  case Nil
  then show ?case by (simp add: wire_columns_def cparses_ret)
next
  case (Cons x ds)
  obtain d t where x: "x = (d, t)" by (cases x)
  let ?P = "tparses caps p n" and ?c = "column_info se (fst caps)"
  let ?z = "upd_par (\<lambda>_. zero_info) l"
  let ?l = "?z\<lparr>par := ?c (d, t)\<rparr>"
  have ok: "desc_ok d" "texts_ok (StrConv ?z) d t" and rest: "columns_ok (StrConv ?l) ds" using Cons.prems x by (simp_all add: columns_ok_def)
  have 1: "?P ?z (gtry () (load se)) (wire_column p (fst caps) d t) ((), None) ?l"
    by (rule cparses_try [OF tparses_load [OF assms(1,2) ok]]) simp
  have 2: "?P ?l (gbind (load_columns se (length ds)) (\<lambda>(cs, rest, err). gret (?c (d, t) # cs, rest, err))) (wire_columns p (fst caps) ds)
      (map ?c (x # ds), [], None) (?l\<lparr>par := last (par ?l # map ?c ds)\<rparr>)"
    by (rule cparses_bindI [OF Cons.IH [OF rest]], unfold prod.case, rule cparses_retI) (simp_all add: x)
  have 3: "?P ?l ((\<lambda>(_, err). gbind (gget par) (\<lambda>c. case err of Some e \<Rightarrow> gret ([], c # replicate (length ds) zero_info, Some e)
        | None \<Rightarrow> gbind (load_columns se (length ds)) (\<lambda>(cs, rest, err). gret (c # cs, rest, err)))) ((), None))
      (wire_columns p (fst caps) ds) (map ?c (x # ds), [], None) (?l\<lparr>par := last (par ?l # map ?c ds)\<rparr>)"
    unfolding prod.case option.case by (rule cparses_get) (use 2 in simp_all)
  have "?P l (load_columns se (length (x # ds))) (wire_columns p (fst caps) (x # ds)) (map ?c (x # ds), [], None) (?l\<lparr>par := last (par ?l # map ?c ds)\<rparr>)"
    unfolding length_Cons load_columns.simps
    by (rule cparses_seqI [OF tparses_upd_par], rule cparses_bindI [OF 1], rule 3) (simp_all add: wire_columns_def x)
  then show ?case by (simp add: upd_par_def x)
qed

text \<open>The description of a cursor: its columns, what later versions append, and the number of the cursor.\<close>

record cursor_desc =
  k_len :: byte
  k_maxRow :: int
  k_frame :: byte
  k_columns :: "(column_desc \<times> column_texts) list"
  k_dlc :: "byte list"
  k_v3 :: "int \<times> int"
  k_v4 :: "int \<times> int"
  k_v5 :: "byte list"
  k_ID :: int

definition wire_describe_tail :: "session_props \<Rightarrow> byte \<Rightarrow> cursor_desc \<Rightarrow> byte list" where
  "wire_describe_tail p ver k = wire_dlc p (k_dlc k)
     @ (if ver \<ge> 3 then wire_nat (fst (k_v3 k)) @ wire_nat (snd (k_v3 k)) else [])
     @ (if ver \<ge> 4 then wire_nat (fst (k_v4 k)) @ wire_nat (snd (k_v4 k)) else [])
     @ (if ver \<ge> 5 then wire_dlc p (k_v5 k) else [])"

definition wire_cursor :: "session_props \<Rightarrow> byte \<Rightarrow> cursor_desc \<Rightarrow> byte list" where
  "wire_cursor p ver k = k_len k # wire_nat (k_maxRow k) @ wire_nat (int (length (k_columns k)))
     @ (if k_columns k = [] then [] else k_frame k # wire_columns p ver (k_columns k)) @ wire_describe_tail p ver k @ wire_nat (k_ID k)"

definition cursor_ok :: "StringConverter option \<Rightarrow> cursor_desc \<Rightarrow> bool" where
  "cursor_ok conv k \<longleftrightarrow> columns_ok conv (k_columns k) \<and> length (k_columns k) < 2 ^ 63 \<and> length (k_dlc k) < 2 ^ 32 \<and> length (k_v5 k) < 2 ^ 32
     \<and> list_all field_ok [k_maxRow k, fst (k_v3 k), snd (k_v3 k), fst (k_v4 k), snd (k_v4 k), k_ID k]"

definition cursor_info :: "'n stmt_env \<Rightarrow> byte \<Rightarrow> cursor_desc \<Rightarrow> ref_cursor" where
  "cursor_info se ver k = (let cs = map (column_info se ver) (k_columns k) in
     \<lparr>cur_len = k_len k, cur_MaxRowSize = k_maxRow k, cur_columns = cs,
      cur_hasBLOB = list_ex (\<lambda>c. cDataType c \<in> {OCIClobLocator, OCIBlobLocator, OCIFileLocator}) cs,
      cur_hasLONG = list_ex isLongType cs, cur_ID = k_ID k\<rparr>)"

lemma tparses_when: "(b \<Longrightarrow> tparses caps p n l m bs () l) \<Longrightarrow> tparses caps p n l (gwhen b m) (if b then bs else []) () l"
  by (simp add: gwhen_def cparses_ret)

lemma tparses_describe_tail:
  assumes "reads_from se ops" and "clr_ok p" and "cursor_ok conv k"
  shows "tparses caps p n l (describe_tail se ver) (wire_describe_tail p ver k) () l"
proof -
  let ?P = "tparses caps p n"
  have ok: "length (k_dlc k) < 2 ^ 32" "length (k_v5 k) < 2 ^ 32" "field_ok (fst (k_v3 k))" "field_ok (snd (k_v3 k))" "field_ok (fst (k_v4 k))"
      "field_ok (snd (k_v4 k))"
    using assms(3) by (simp_all add: cursor_ok_def)
  have two: "?P l (gseq (skip_int se 4) (skip_int se 4)) (wire_nat a @ wire_nat b) () l" if "field_ok a" "field_ok b" for a b
    by (rule cparses_seqI [OF tparses_skip_int [OF assms(1) that(1)] tparses_skip_int [OF assms(1) that(2)] refl])
  have last: "?P l (gseq (on_sess (GetDlc (env_read (env_conn se)))) (gret ())) (wire_dlc p (k_v5 k)) () l"
    by (rule cparses_seqI [OF tparses_dlc [OF assms(1,2) ok(2)] cparses_ret]) simp
  show ?thesis
    unfolding describe_tail_def Let_def wire_describe_tail_def
    by (rule cparses_seqI [OF tparses_dlc [OF assms(1,2) ok(1)]], rule cparses_seqI, rule tparses_when, rule two [OF ok(3,4)],
        rule cparses_seqI, rule tparses_when, rule two [OF ok(5,6)], rule tparses_when, rule last) simp_all
qed

lemma tparses_cursor_load:
  assumes "reads_from se ops" and "clr_ok p" and "cursor_ok (StrConv l) k" and "k_ID k \<noteq> 0"
  shows "tparses caps p n l (cursor_load se) (wire_cursor p (fst caps) k) (cursor_info se (fst caps) k)
    (l\<lparr>par := last (par l # cur_columns (cursor_info se (fst caps) k))\<rparr>)"
proof -
  let ?P = "tparses caps p n" and ?v = "fst caps"
  let ?cs = "map (column_info se ?v) (k_columns k)" and ?m = "int (length (k_columns k))"
  let ?l = "l\<lparr>par := last (par l # ?cs)\<rparr>"
  have ok: "columns_ok (StrConv l) (k_columns k)" "field_ok ?m" "field_ok (k_maxRow k)" "field_ok (k_ID k)"
    using assms(3) by (simp_all add: cursor_ok_def field_ok_def)
  have cols: "?P l (if ?m > 0 then gseq (skip_byte se) (load_columns se (nat ?m)) else gret ([], [], None))
      (if k_columns k = [] then [] else k_frame k # wire_columns p ?v (k_columns k)) (?cs, [], None) ?l"
    using cparses_seqI [OF tparses_skip_byte [OF assms(1)] tparses_load_columns [OF assms(1,2) ok(1)] refl, of caps n "k_frame k"]
    by (cases "k_columns k = []") (simp_all add: cparses_ret)
  have "?P l (cursor_load se) (wire_cursor p ?v k) (cursor_info se ?v k) ?l"
    unfolding cursor_load_def Let_def wire_cursor_def
    by (rule cparses_bindI [OF tparses_version], rule cparses_bindI [OF tparses_byte [OF assms(1), where b = "k_len k"]],
        rule cparses_bindI [OF tparses_int [OF assms(1) ok(3)]], rule cparses_bindI [OF tparses_int [OF assms(1) ok(2)]],
        rule cparses_bindI [OF cols], unfold prod.case option.case,
        rule cparses_seqI, rule cparses_ret, rule cparses_seqI, rule tparses_describe_tail [OF assms(1-3)],
        rule cparses_bindI [OF tparses_int [OF assms(1) ok(4)]], unfold if_not_P [OF assms(4)], rule cparses_retI)
       (simp_all add: cursor_info_def Let_def)
  then show ?thesis by (simp add: cursor_info_def Let_def)
qed

text \<open>
  C6. The description of a cursor is read as it was sent, in every version of the protocol: every field of every column, signed scales,
  texts through the converter of the session, annotations, the shape of vectors, and the fields that only later versions append; the
  cursor says whether it has LOB and LONG columns, and what follows on the wire is left there. Nothing of a column leaks into the next.\<close>

theorem cursor_load_reads_description:
  assumes "reads_from se ops" and "clr_ok p" and "cursor_ok (StrConv l) k" and "k_ID k \<noteq> 0"
    and "told caps p n s" and "net_pending s = wire_cursor p (fst caps) k @ rest"
  shows "\<exists>s' l'. cursor_load se (l\<lparr>sess := Some s\<rparr>) = Some (Ok (cursor_info se (fst caps) k), l'\<lparr>sess := Some s'\<rparr>)
    \<and> told caps p n s' \<and> net_pending s' = rest"
  using tparses_cursor_load [OF assms(1-4), of caps n] assms(5,6) unfolding cparses_def told_def by blast

definition utf8_conv :: StringConverter where
  "utf8_conv = \<lparr>LangID = 873, CharWidth = 1, eReplace = 0, dReplace = 0, dBuffer = None, dBuffer2 = None, eBuffer = None, leading = Map.empty\<rparr>"

definition price_column :: column_desc where
  "price_column = \<lparr>d_type = 2, d_flag = 0, d_precision = 10, d_scale = - 2, d_maxLen = 22, d_arraySize = 0, d_contFlag = 0, d_toID = [],
     d_version = 0, d_charset = 0, d_form = 0, d_maxCharLen = 0, d_collation = 0, d_null = 1, d_v7 = 1, d_name = ascii ''PRICE'', d_schema = [],
     d_typeName = [], d_position = 1, d_uds = 0, d_domainSchema = [], d_domain = [], d_notes = [(ascii ''unit'', ascii ''EUR'', 0)],
     d_note_frame = (0, 0, 0), d_vector = (0, 0, 0)\<rparr>"

definition vector_column :: column_desc where
  "vector_column = price_column\<lparr>d_type := 127, d_scale := 0, d_precision := 0, d_name := ascii ''V'', d_notes := [], d_vector := (3, 2, 2)\<rparr>"

definition plain_texts :: "column_desc \<Rightarrow> column_texts" where
  "plain_texts d = \<lparr>t_name = d_name d, t_schema = d_schema d, t_typeName = d_typeName d, t_domainSchema = d_domainSchema d, t_domain = d_domain d,
     t_notes = map (\<lambda>(k, v, _). (k, v)) (d_notes d)\<rparr>"

definition sample_cursor :: cursor_desc where
  "sample_cursor = \<lparr>k_len = 1, k_maxRow = 100, k_frame = 0, k_columns = map (\<lambda>d. (d, plain_texts d)) [price_column, vector_column],
     k_dlc = [], k_v3 = (0, 0), k_v4 = (0, 0), k_v5 = [], k_ID = 7\<rparr>"

lemma utf8_text: "length b < 2 ^ 32 \<Longrightarrow> text_of (Some utf8_conv) b b"
  by (simp add: text_of_def utf8_conv_def Decode_def)

lemma sample_cursor_ok: "cursor_ok (Some utf8_conv) sample_cursor"
  by (simp add: cursor_ok_def sample_cursor_def columns_ok_def desc_ok_def scale_ok_def sizes_ok_def tail_ok_def texts_ok_def plain_texts_def
      notes_ok_def price_column_def vector_column_def field_ok_def signed_ok_def desc_type_def scaled_types_def column_types utf8_text ascii_def)

theorem cursor_load_reads_description_witness:
  "\<exists>s' l'. cursor_load (scripted_env sample_script) ((sample_query [] [])\<lparr>StrConv := Some utf8_conv,
        sess := Some ((reading (wire_cursor sample_props 24 sample_cursor @ [9]))\<lparr>TTCVersion := 24\<rparr>)\<rparr>)
      = Some (Ok (cursor_info (scripted_env sample_script) 24 sample_cursor), l'\<lparr>sess := Some s'\<rparr>)
    \<and> net_pending s' = [9]"
proof -
  let ?s = "(reading (wire_cursor sample_props 24 sample_cursor @ [9]))\<lparr>TTCVersion := 24\<rparr>"
  have "told (24, True, False) sample_props (length (wire ?s)) ?s" "net_pending ?s = wire_cursor sample_props 24 sample_cursor @ [9]"
    using reading_ok [of "wire_cursor sample_props 24 sample_cursor @ [9]"]
    by (simp_all add: told_def answering_def net_ok_def opened_def session_caps_def net_pending_def)
  then show ?thesis
    using cursor_load_reads_description [OF scripted_reads, of sample_props "(sample_query [] [])\<lparr>StrConv := Some utf8_conv\<rparr>" sample_cursor "(24, True, False)" "length (wire ?s)" ?s
        "[9]" sample_script] sample_cursor_ok reading_ok(2) [of "[]"]
    by (auto simp: sample_cursor_def reading_ok)
qed

text \<open>What the columns say.\<close>

lemma sample_cursor_columns:
  "map (\<lambda>c. (cDataType c, sint (cScale c), cAnnotations c, cVectorDim c, cVectorSparse c)) (cur_columns (cursor_info (scripted_env sample_script) 24 sample_cursor))
   = [(NUMBER, - 2, Some [(ascii ''unit'', ascii ''EUR'')], 0, False), (VECTOR_T, 0, None, 3, True)]"
  by code_simp

end
