(* ===== verification/Sql_Text.thy ===== *)
theory Sql_Text
  imports Stmt_Calls
begin

text \<open>
  The text of a statement: without its comments, literals and quoted names (\<^verbatim>\<open>v3/utils.go\<close>), the kind of the statement and whether it
  returns values (\<^verbatim>\<open>NewStmt\<close> in \<^verbatim>\<open>v3/command.go\<close>), the names of its parameters, and the order that named parameters are bound in. White space
  and letter case are those of ASCII.
\<close>

section \<open>Text without comments and literals\<close>

record refine_state =
  inSingleQuote :: bool
  inDoubleQuote :: bool
  rs_skip :: bool
  lineComment :: bool

definition refine_start :: refine_state where
  "refine_start = \<lparr>inSingleQuote = False, inDoubleQuote = False, rs_skip = False, lineComment = False\<rparr>"

text \<open>The loop over the text; what it appends to \<^verbatim>\<open>textBuffer\<close> is its result.\<close>

fun refine_loop :: "refine_state \<Rightarrow> byte list \<Rightarrow> byte list" where
  "refine_loop st [] = []"
| "refine_loop st (ch # text) =
    (let next = (\<lambda>b. case text of [] \<Rightarrow> False | c # _ \<Rightarrow> c = b); quoted = inDoubleQuote st \<or> inSingleQuote st in
     if ch = 92 then refine_loop st text
     else if ch = 47 then
       if \<not> quoted \<and> next 42 then refine_loop (st\<lparr>rs_skip := True\<rparr>) (tl text) else refine_loop st text
     else if ch = 42 then
       if \<not> quoted \<and> next 47 then refine_loop (st\<lparr>rs_skip := False\<rparr>) (tl text) else refine_loop st text
     else if ch = 39 then
       refine_loop (if \<not> rs_skip st \<and> \<not> lineComment st \<and> \<not> inDoubleQuote st then st\<lparr>inSingleQuote := \<not> inSingleQuote st\<rparr> else st) text
     else if ch = 34 then
       refine_loop (if \<not> rs_skip st \<and> \<not> lineComment st \<and> \<not> inSingleQuote st then st\<lparr>inDoubleQuote := \<not> inDoubleQuote st\<rparr> else st) text
     else if ch = 45 then
       if \<not> rs_skip st \<and> next 45 then refine_loop (st\<lparr>lineComment := True\<rparr>) (tl text) else refine_loop st text
     else if ch = 10 then
       if lineComment st then refine_loop (st\<lparr>lineComment := False\<rparr>) text else ch # refine_loop st text
     else if rs_skip st \<or> lineComment st \<or> inSingleQuote st \<or> inDoubleQuote st then refine_loop st text
     else ch # refine_loop st text)"

text \<open>\<^verbatim>\<open>strings.TrimSpace\<close>.\<close>

definition is_space :: "byte \<Rightarrow> bool" where
  "is_space b \<longleftrightarrow> b \<in> {9, 10, 11, 12, 13, 32}"

definition TrimSpace :: "byte list \<Rightarrow> byte list" where
  "TrimSpace s = rev (dropWhile is_space (rev (dropWhile is_space s)))"

definition refineSqlText :: "byte list \<Rightarrow> byte list" where
  "refineSqlText text = TrimSpace (refine_loop refine_start text)"

section \<open>Names of parameters\<close>

text \<open>\<open>\w\<close> of a regular expression, and the matches of \<open>:(\w+)\<close> from left to right.\<close>

definition word_char :: "byte \<Rightarrow> bool" where
  "word_char b \<longleftrightarrow> 48 \<le> b \<and> b \<le> 57 \<or> 65 \<le> b \<and> b \<le> 90 \<or> b = 95 \<or> 97 \<le> b \<and> b \<le> 122"

fun name_matches :: "byte list \<Rightarrow> byte list list" where
  "name_matches [] = []"
| "name_matches (c # s) =
    (let name = takeWhile word_char s in if c = 58 \<and> name \<noteq> [] then name # name_matches (drop (length name) s) else name_matches s)"

definition parseQueryParametersNames :: "byte list \<Rightarrow> byte list list" where
  "parseQueryParametersNames text = name_matches (refineSqlText text)"

section \<open>The kind of a statement\<close>

definition HasPrefix :: "byte list \<Rightarrow> string \<Rightarrow> bool" where
  "HasPrefix s p \<longleftrightarrow> take (length p) s = ascii p"

text \<open>The expression \<open>(\bRETURNING\b|\bRETURN\b)\s+.*\s+\bINTO\b\<close>. Each function says whether the text can be matched from here on by
  what is left of the expression; the byte before the text decides on the boundary of a word.\<close>

definition re_space :: "byte \<Rightarrow> bool" where
  "re_space b \<longleftrightarrow> b \<in> {9, 10, 12, 13, 32}"

definition at_boundary :: "byte option \<Rightarrow> byte list \<Rightarrow> bool" where
  "at_boundary prev s \<longleftrightarrow> (case prev of None \<Rightarrow> False | Some b \<Rightarrow> word_char b) \<noteq> (case s of [] \<Rightarrow> False | c # _ \<Rightarrow> word_char c)"

definition re_word :: "string \<Rightarrow> byte option \<Rightarrow> byte list \<Rightarrow> bool" where
  "re_word w prev s \<longleftrightarrow> HasPrefix s w \<and> at_boundary prev s \<and> at_boundary (Some (of_char (last w))) (drop (length w) s)"

fun spaces_into :: "byte list \<Rightarrow> bool" where
  "spaces_into [] = False"
| "spaces_into (c # s) \<longleftrightarrow> re_space c \<and> (re_word ''INTO'' (Some c) s \<or> spaces_into s)"

fun any_then_into :: "byte list \<Rightarrow> bool" where
  "any_then_into [] = False"
| "any_then_into (c # s) \<longleftrightarrow> spaces_into (c # s) \<or> c \<noteq> 10 \<and> any_then_into s"

fun spaces_then :: "byte list \<Rightarrow> bool" where
  "spaces_then [] = False"
| "spaces_then (c # s) \<longleftrightarrow> re_space c \<and> (any_then_into s \<or> spaces_then s)"

fun return_clause :: "byte option \<Rightarrow> byte list \<Rightarrow> bool" where
  "return_clause prev [] = False"
| "return_clause prev (c # s) \<longleftrightarrow>
     re_word ''RETURNING'' prev (c # s) \<and> spaces_then (drop 9 (c # s)) \<or> re_word ''RETURN'' prev (c # s) \<and> spaces_then (drop 6 (c # s))
     \<or> return_clause (Some c) s"

definition command_text :: "byte list \<Rightarrow> byte list" where
  "command_text text = (let u = to_upper (refineSqlText text) in if HasPrefix u ''('' then tl u else u)"

definition statement_kind :: "byte list \<Rightarrow> stmt_type" where
  "statement_kind u =
    (if HasPrefix u ''SELECT'' \<or> HasPrefix u ''WITH'' then SELECT
     else if HasPrefix u ''INSERT'' \<or> HasPrefix u ''MERGE'' \<or> HasPrefix u ''UPDATE'' \<or> HasPrefix u ''DELETE'' then DML
     else if HasPrefix u ''DECLARE'' \<or> HasPrefix u ''BEGIN'' then PLSQL
     else OTHERS)"

text \<open>A new statement on a connection. It has no result set yet.\<close>

definition NewStmt :: "byte list \<Rightarrow> 'n connection \<Rightarrow> 'n query" where
  "NewStmt text db = (let u = command_text text; k = statement_kind u in
     connection.extend db
      \<lparr>par = zero_info, stmt_text = text, hasLONG = False, hasBLOB = False, hasMoreRows = False,
       hasReturnClause = (k \<noteq> PLSQL \<and> return_clause None u), noOfRowsToFetch = 0, stmtType = k, cursorID = 0, queryID = 0, Pars = [], columns = [],
       scnForSnapshot = (0, 0), arrayBindCount = 0, containOutputPars = False, multiSet = [], reSendParDef = False, parse = True, execute = True,
       defining = False, bulkExec = (k = DML), columnCount = 0, rowCount = 0, uACBufferLength = 0, maxRowSize = 0, cols = False, rows = [],
       currentRow = [], rs_index = 0, lastErr = None\<rparr>)"

section \<open>Named parameters\<close>

definition to_lower_byte :: "byte \<Rightarrow> byte" where
  "to_lower_byte b = (if 65 \<le> b \<and> b \<le> 90 then b + 32 else b)"

definition to_lower :: "byte list \<Rightarrow> byte list" where
  "to_lower = map to_lower_byte"

definition find_par :: "byte list \<Rightarrow> parameter list \<Rightarrow> parameter option" where
  "find_par name = find (\<lambda>p. to_lower (cName (p_info p)) = to_lower name)"

definition mark_repeated :: "parameter \<Rightarrow> parameter" where
  "mark_repeated p = p\<lparr>p_info := (p_info p)\<lparr>cFlag := 0x80\<rparr>\<rparr>"

text \<open>The loop over the names; \<open>seen\<close> are those before.\<close>

fun arrange_pars :: "bool \<Rightarrow> parameter list \<Rightarrow> byte list set \<Rightarrow> byte list list \<Rightarrow> parameter list res" where
  "arrange_pars flagging pars seen [] = Ok []"
| "arrange_pars flagging pars seen (name # names) =
    (case find_par name pars of
       None \<Rightarrow> Err (UndefinedParameter name)
     | Some p \<Rightarrow> res_map (\<lambda>ps. if name \<in> seen then if flagging then mark_repeated p # ps else ps else p # ps)
                   (arrange_pars flagging pars (insert name seen) names))"

definition useNamedParameters :: "('n query, unit) gom" where
  "useNamedParameters q =
    (case arrange_pars (stmtType q \<in> {SELECT, DML}) (Pars q) {} (parseQueryParametersNames (stmt_text q)) of
       Ok ps \<Rightarrow> Some (Ok (), q\<lparr>Pars := ps\<rparr>)
     | Err e \<Rightarrow> Some (Err e, q)
     | Panic \<Rightarrow> Some (Panic, q))"

end
