(* ===== verification/Sql_Text_Props.thy ===== *)
theory Sql_Text_Props
  imports Sql_Text Stmt_Next_Props
begin

text \<open>
  The names of the parameters that a statement has, as the driver finds them, for texts that are made of tokens; and the order that named
  parameters are bound in.
\<close>

section \<open>Tokens\<close>

datatype sql_token =
    Visible byte
  | Operator byte
  | Newline
  | Param "byte list"
  | Literal "byte list"
  | Quoted "byte list"
  | Block "byte list"
  | Line "byte list"

primrec render :: "sql_token \<Rightarrow> byte list" where
  "render (Visible b) = [b]"
| "render (Operator b) = [b]"
| "render Newline = [10]"
| "render (Param w) = 58 # w"
| "render (Literal s) = 39 # s @ [39]"
| "render (Quoted s) = 34 # s @ [34]"
| "render (Block s) = [47, 42] @ s @ [42, 47]"
| "render (Line s) = [45, 45] @ s @ [10]"

text \<open>What stays of a token.\<close>

primrec kept :: "sql_token \<Rightarrow> byte list" where
  "kept (Visible b) = [b]"
| "kept (Operator b) = []"
| "kept Newline = [10]"
| "kept (Param w) = 58 # w"
| "kept (Literal s) = filter (\<lambda>b. b = 10) s"
| "kept (Quoted s) = filter (\<lambda>b. b = 10) s"
| "kept (Block s) = filter (\<lambda>b. b = 10) s"
| "kept (Line s) = []"

fun has_pair :: "byte \<Rightarrow> byte \<Rightarrow> byte list \<Rightarrow> bool" where
  "has_pair a b (x # y # s) \<longleftrightarrow> x = a \<and> y = b \<or> has_pair a b (y # s)"
| "has_pair a b s = False"

text \<open>Texts without backslashes. A literal with two dashes, a comment of one line with the start of a block, or a block that holds the start of another one are not
  recognised, see below.\<close>

primrec token_ok :: "sql_token \<Rightarrow> bool" where
  "token_ok (Visible b) \<longleftrightarrow> b \<notin> {92, 47, 42, 39, 34, 45, 10}"
| "token_ok (Operator b) \<longleftrightarrow> b \<in> {47, 42, 45}"
| "token_ok Newline \<longleftrightarrow> True"
| "token_ok (Param w) \<longleftrightarrow> w \<noteq> [] \<and> list_all word_char w"
| "token_ok (Literal s) \<longleftrightarrow> {39, 92} \<inter> set s = {} \<and> \<not> has_pair 45 45 s"
| "token_ok (Quoted s) \<longleftrightarrow> {34, 92} \<inter> set s = {} \<and> \<not> has_pair 45 45 s"
| "token_ok (Block s) \<longleftrightarrow> 92 \<notin> set s \<and> \<not> has_pair 42 47 s \<and> \<not> has_pair 47 42 (s @ [42])"
| "token_ok (Line s) \<longleftrightarrow> {10, 92} \<inter> set s = {} \<and> \<not> has_pair 47 42 s"

text \<open>An operator is followed by neither an operator nor a comment.\<close>

definition operator_start :: "sql_token \<Rightarrow> bool" where
  "operator_start t \<longleftrightarrow> (case t of Operator _ \<Rightarrow> True | Block _ \<Rightarrow> True | Line _ \<Rightarrow> True | _ \<Rightarrow> False)"

fun lexed :: "sql_token list \<Rightarrow> bool" where
  "lexed [] \<longleftrightarrow> True"
| "lexed (t # ts) \<longleftrightarrow> token_ok t \<and> (case (t, ts) of (Operator _, u # _) \<Rightarrow> \<not> operator_start u | _ \<Rightarrow> True) \<and> lexed ts"

section \<open>The loop\<close>

lemma has_pair_Cons: "has_pair a b (x # s) \<longleftrightarrow> (x = a \<and> s \<noteq> [] \<and> hd s = b) \<or> has_pair a b s"
  by (cases s) auto

declare refine_loop.simps(2) [simp del]

lemma refine_step:
  "refine_loop st (ch # rest) =
    (if ch = 92 then refine_loop st rest
     else if ch = 47 then
       if \<not> (inDoubleQuote st \<or> inSingleQuote st) \<and> rest \<noteq> [] \<and> hd rest = 42 then refine_loop (st\<lparr>rs_skip := True\<rparr>) (tl rest) else refine_loop st rest
     else if ch = 42 then
       if \<not> (inDoubleQuote st \<or> inSingleQuote st) \<and> rest \<noteq> [] \<and> hd rest = 47 then refine_loop (st\<lparr>rs_skip := False\<rparr>) (tl rest) else refine_loop st rest
     else if ch = 39 then
       refine_loop (if \<not> rs_skip st \<and> \<not> lineComment st \<and> \<not> inDoubleQuote st then st\<lparr>inSingleQuote := \<not> inSingleQuote st\<rparr> else st) rest
     else if ch = 34 then
       refine_loop (if \<not> rs_skip st \<and> \<not> lineComment st \<and> \<not> inSingleQuote st then st\<lparr>inDoubleQuote := \<not> inDoubleQuote st\<rparr> else st) rest
     else if ch = 45 then
       if \<not> rs_skip st \<and> rest \<noteq> [] \<and> hd rest = 45 then refine_loop (st\<lparr>lineComment := True\<rparr>) (tl rest) else refine_loop st rest
     else if ch = 10 then
       if lineComment st then refine_loop (st\<lparr>lineComment := False\<rparr>) rest else ch # refine_loop st rest
     else if rs_skip st \<or> lineComment st \<or> inSingleQuote st \<or> inDoubleQuote st then refine_loop st rest
     else ch # refine_loop st rest)"
  by (cases rest) (simp_all only: refine_loop.simps(2) [of st ch] Let_def list.case list.sel list.distinct simp_thms)

lemma refine_plain:
  "token_ok (Visible b) \<Longrightarrow> refine_loop refine_start (b # s) = b # refine_loop refine_start s"
  by (auto simp: refine_start_def refine_step)

lemma refine_word: "list_all word_char w \<Longrightarrow> refine_loop refine_start (w @ s) = w @ refine_loop refine_start s"
proof (induction w)
  case (Cons b w)
  then have "token_ok (Visible b)" by (auto simp: word_char_def)
  with Cons show ?case using refine_plain [of b "w @ s"] by simp
qed simp

lemma refine_operator:
  assumes "b \<in> {47, 42, 45}" and "s = [] \<or> hd s \<notin> {47, 42, 45}"
  shows "refine_loop refine_start (b # s) = refine_loop refine_start s"
  using assms by (auto simp: refine_start_def refine_step)

lemma refine_literal:
  "39 \<notin> set s \<Longrightarrow> \<not> has_pair 45 45 s \<Longrightarrow>
   refine_loop (refine_start\<lparr>inSingleQuote := True\<rparr>) (s @ 39 # rest) = filter (\<lambda>b. b = 10) s @ refine_loop refine_start rest"
proof (induction s)
  case (Cons b s)
  then show ?case by (auto simp: refine_start_def refine_step has_pair_Cons hd_append)
qed (simp add: refine_start_def refine_step)

lemma refine_quoted:
  "34 \<notin> set s \<Longrightarrow> \<not> has_pair 45 45 s \<Longrightarrow>
   refine_loop (refine_start\<lparr>inDoubleQuote := True\<rparr>) (s @ 34 # rest) = filter (\<lambda>b. b = 10) s @ refine_loop refine_start rest"
proof (induction s)
  case (Cons b s)
  then show ?case by (auto simp: refine_start_def refine_step has_pair_Cons hd_append)
qed (simp add: refine_start_def refine_step)

lemma refine_block:
  "\<not> has_pair 42 47 s \<Longrightarrow> \<not> has_pair 47 42 (s @ [42]) \<Longrightarrow>
   refine_loop (refine_start\<lparr>rs_skip := True\<rparr>) (s @ 42 # 47 # rest) = filter (\<lambda>b. b = 10) s @ refine_loop refine_start rest"
proof (induction s)
  case (Cons b s)
  then show ?case by (auto simp: refine_start_def refine_step has_pair_Cons hd_append)
qed (simp add: refine_start_def refine_step)

lemma refine_line:
  "10 \<notin> set s \<Longrightarrow> \<not> has_pair 47 42 s \<Longrightarrow>
   refine_loop (refine_start\<lparr>lineComment := True\<rparr>) (s @ 10 # rest) = refine_loop refine_start rest"
proof (induction s rule: length_induct)
  case (1 s)
  let ?l = "refine_start\<lparr>lineComment := True\<rparr>"
  show ?case
  proof (cases s)
    case (Cons b t)
    have one: "refine_loop ?l (t @ 10 # rest) = refine_loop refine_start rest" using 1 Cons by (auto simp: has_pair_Cons)
    have two: "refine_loop ?l (tl t @ 10 # rest) = refine_loop refine_start rest" using 1 Cons by (cases t) (auto simp: has_pair_Cons)
    have "b \<noteq> 10" "\<not> (b = 47 \<and> t \<noteq> [] \<and> hd t = 42)" using 1(2,3) Cons by (auto simp: has_pair_Cons)
    with one two show ?thesis unfolding Cons by (auto simp: refine_start_def refine_step hd_append)
  qed (simp add: refine_start_def refine_step)
qed

lemma refine_token:
  assumes "token_ok t" and "case t of Operator _ \<Rightarrow> s = [] \<or> hd s \<notin> {47, 42, 45} | _ \<Rightarrow> True"
  shows "refine_loop refine_start (render t @ s) = kept t @ refine_loop refine_start s"
proof (cases t)
  case (Visible b)
  with assms show ?thesis using refine_plain [of b s] by simp
next
  case (Operator b)
  with assms show ?thesis using refine_operator [of b s] by simp
next
  case Newline
  then show ?thesis by (simp add: refine_start_def refine_step)
next
  case (Param w)
  with assms have "list_all word_char w" by simp
  with Param show ?thesis using refine_plain [of 58 "w @ s"] refine_word [of w s] by simp
next
  case (Literal x)
  then show ?thesis using assms refine_literal [of x s] by (simp add: refine_start_def refine_step)
next
  case (Quoted x)
  then show ?thesis using assms refine_quoted [of x s] by (simp add: refine_start_def refine_step)
next
  case (Block x)
  then show ?thesis using assms refine_block [of x s] by (simp add: refine_start_def refine_step)
next
  case (Line x)
  then show ?thesis using assms refine_line [of x s] by (simp add: refine_start_def refine_step)
qed

lemma render_start: "token_ok t \<Longrightarrow> render t \<noteq> [] \<and> (\<not> operator_start t \<longrightarrow> hd (render t) \<notin> {47, 42, 45})"
  by (cases t) (auto simp: operator_start_def)

lemma refine_tokens: "lexed ts \<Longrightarrow> refine_loop refine_start (concat (map render ts)) = concat (map kept ts)"
proof (induction ts)
  case (Cons t ts)
  have "case t of Operator _ \<Rightarrow> concat (map render ts) = [] \<or> hd (concat (map render ts)) \<notin> {47, 42, 45} | _ \<Rightarrow> True"
    using Cons.prems render_start by (cases t; cases ts) auto
  from refine_token [OF _ this] show ?case using Cons by simp
qed simp

section \<open>Names\<close>

lemma word_not_space: "is_space b \<Longrightarrow> \<not> word_char b"
  by (auto simp: is_space_def word_char_def)

lemma name_matches_skip: "b \<noteq> 58 \<Longrightarrow> name_matches (b # s) = name_matches s"
  by simp

lemma name_matches_leading: "name_matches (dropWhile is_space s) = name_matches s"
  by (induction s) (auto simp: is_space_def)

lemma name_matches_spaces: "list_all is_space s \<Longrightarrow> name_matches s = []"
  by (induction s) (auto simp: is_space_def)

lemma takeWhile_word_spaces: "list_all is_space e \<Longrightarrow> takeWhile word_char (s @ e) = takeWhile word_char s"
  by (induction s) (cases e; auto simp: word_not_space)+

lemma name_matches_trailing: "list_all is_space e \<Longrightarrow> name_matches (s @ e) = name_matches s"
proof (induction s rule: name_matches.induct)
  case (2 c s)
  have "length (takeWhile word_char s) \<le> length s" by (rule length_takeWhile_le)
  with 2 show ?case by (auto simp: takeWhile_word_spaces Let_def)
qed (simp add: name_matches_spaces)

lemma name_matches_Trim: "name_matches (TrimSpace s) = name_matches s"
proof -
  let ?t = "dropWhile is_space s"
  have "?t = rev (dropWhile is_space (rev ?t)) @ rev (takeWhile is_space (rev ?t))"
    by (metis rev_append rev_rev_ident takeWhile_dropWhile_id)
  moreover have "list_all is_space (rev (takeWhile is_space (rev ?t)))" by (auto simp: list_all_iff dest: set_takeWhileD)
  ultimately have "name_matches ?t = name_matches (TrimSpace s)" unfolding TrimSpace_def by (metis name_matches_trailing)
  then show ?thesis by (simp add: name_matches_leading)
qed

text \<open>A parameter, and a colon that starts none, are followed by a byte that is not part of a name, or by the end of the text.\<close>

definition cut :: "sql_token \<Rightarrow> bool" where
  "cut t \<longleftrightarrow> (case t of Visible b \<Rightarrow> \<not> word_char b | Newline \<Rightarrow> True | _ \<Rightarrow> False)"

fun names_cut :: "sql_token list \<Rightarrow> bool" where
  "names_cut [] \<longleftrightarrow> True"
| "names_cut (t # ts) \<longleftrightarrow> ((\<exists>w. t = Param w) \<or> t = Visible 58 \<longrightarrow> ts = [] \<or> cut (hd ts)) \<and> names_cut ts"

definition params :: "sql_token list \<Rightarrow> byte list list" where
  "params ts = concat (map (\<lambda>t. case t of Param w \<Rightarrow> [w] | _ \<Rightarrow> []) ts)"

lemma name_matches_newlines: "name_matches (filter (\<lambda>b. b = 10) s @ r) = name_matches r"
  by (induction s) auto

lemma cut_kept: "cut t \<Longrightarrow> \<exists>b. kept t = [b] \<and> \<not> word_char b"
  by (cases t) (auto simp: cut_def word_char_def)

lemma takeWhile_word: "list_all word_char w \<Longrightarrow> r = [] \<or> \<not> word_char (hd r) \<Longrightarrow> takeWhile word_char (w @ r) = w"
  by (induction w) (cases r; auto)+

lemma name_matches_tokens: "lexed ts \<Longrightarrow> names_cut ts \<Longrightarrow> name_matches (concat (map kept ts)) = params ts"
proof (induction ts)
  case (Cons t ts)
  let ?r = "concat (map kept ts)"
  have ih: "name_matches ?r = params ts" and ok: "token_ok t" using Cons by simp_all
  have after: "?r = [] \<or> \<not> word_char (hd ?r)" if "(\<exists>w. t = Param w) \<or> t = Visible 58"
  proof (cases ts)
    case (Cons u us)
    with that Cons.prems(2) have "cut u" by auto
    from cut_kept [OF this] show ?thesis using Cons by auto
  qed simp
  show ?case
  proof (cases t)
    case (Param w)
    then have "takeWhile word_char (w @ ?r) = w" "w \<noteq> []" using after ok takeWhile_word by auto
    with Param ih show ?thesis by (simp add: params_def)
  next
    case (Visible b)
    then have "b = 58 \<Longrightarrow> takeWhile word_char ?r = []" using after takeWhile_word [of "[]" ?r] by simp
    with Visible ih show ?thesis by (cases "b = 58") (simp_all add: params_def Let_def)
  qed (use ih name_matches_newlines in \<open>simp_all add: params_def\<close>)
qed (simp add: params_def)

lemma statement_names: "lexed ts \<Longrightarrow> names_cut ts \<Longrightarrow> parseQueryParametersNames (concat (map render ts)) = params ts"
  by (simp add: parseQueryParametersNames_def refineSqlText_def name_matches_Trim refine_tokens name_matches_tokens)

text \<open>
  C9. The parameters that the driver finds in a statement are those outside of literals, quoted names and comments, in the order of the text,
  under what \<open>lexed\<close> and \<open>names_cut\<close> say of the text: it is made of tokens and has no backslash; no literal or quoted name holds two dashes, no
  comment of one line holds the start of a block and no block the start of another; no operator is next to an operator or a comment; and a
  parameter, or a colon that starts none, is followed by the end of the text, a line break or a visible character that is not part of a
  name, not by an operator, a literal, a quoted name or a comment. The examples below and \<open>operator_joins_parameter_name\<close> are what happens otherwise.\<close>

theorem parameter_names_of_statement:
  assumes "lexed ts" and "names_cut ts"
  shows "parseQueryParametersNames (concat (map render ts)) = params ts"
  by (rule statement_names [OF assms])

definition sample_tokens :: "sql_token list" where
  "sample_tokens = map Visible (ascii ''UPDATE t SET '') @ [Quoted (ascii '':no''), Visible 61, Param (ascii ''a''), Visible 44] @ map Visible (ascii ''b='')
     @ [Literal (ascii ''it :is''), Line (ascii '' :not''), Visible 32, Block (ascii '':nor this''), Param (ascii ''b_2'')]"

theorem parameter_names_of_statement_witness:
  "concat (map render sample_tokens) = ascii ''UPDATE t SET \":no\"=:a,b='' @ [39] @ ascii ''it :is'' @ [39] @ ascii ''-- :not'' @ [10] @ ascii '' /*:nor this*/:b_2''
   \<and> parseQueryParametersNames (concat (map render sample_tokens)) = [ascii ''a'', ascii ''b_2'']"
proof -
  have "lexed sample_tokens" by code_simp
  moreover have "names_cut sample_tokens" by (simp add: sample_tokens_def ascii_def cut_def word_char_def)
  moreover have "params sample_tokens = [ascii ''a'', ascii ''b_2'']" by (simp add: sample_tokens_def params_def ascii_def)
  moreover have "concat (map render sample_tokens) = ascii ''UPDATE t SET \":no\"=:a,b='' @ [39] @ ascii ''it :is'' @ [39] @ ascii ''-- :not'' @ [10] @ ascii '' /*:nor this*/:b_2''"
    by code_simp
  ultimately show ?thesis using parameter_names_of_statement [of sample_tokens] by simp
qed

section \<open>Named parameters\<close>

text \<open>The names of a text, each with whether it occurred before.\<close>

definition occurrences :: "byte list set \<Rightarrow> byte list list \<Rightarrow> (byte list \<times> bool) list" where
  "occurrences seen ns = map (\<lambda>i. (ns ! i, ns ! i \<in> seen \<union> set (take i ns))) [0..<length ns]"

lemma occurrences_Cons: "occurrences seen (n # ns) = (n, n \<in> seen) # occurrences (insert n seen) ns"
  by (auto simp: occurrences_def upt_conv_Cons map_Suc_upt [symmetric] comp_def simp del: upt_Suc)

definition bound :: "parameter list \<Rightarrow> byte list \<Rightarrow> parameter" where
  "bound pars n = the (find_par n pars)"

definition arranged :: "bool \<Rightarrow> parameter list \<Rightarrow> (byte list \<times> bool) list \<Rightarrow> parameter list" where
  "arranged flagging pars os = (if flagging then map (\<lambda>(n, again). if again then mark_repeated (bound pars n) else bound pars n) os
     else map (\<lambda>(n, _). bound pars n) (filter (\<lambda>(_, again). \<not> again) os))"

lemma arrange_pars_Ok:
  "\<forall>n \<in> set ns. find_par n pars \<noteq> None \<Longrightarrow> arrange_pars flagging pars seen ns = Ok (arranged flagging pars (occurrences seen ns))"
proof (induction ns arbitrary: seen)
  case (Cons n ns)
  then show ?case by (auto simp: occurrences_Cons arranged_def bound_def res_map_def)
qed (simp add: occurrences_def arranged_def)

lemma arrange_pars_undefined:
  "\<forall>n \<in> set ns. find_par n pars \<noteq> None \<Longrightarrow> find_par x pars = None \<Longrightarrow> arrange_pars flagging pars seen (ns @ x # ms) = Err (UndefinedParameter x)"
  by (induction ns arbitrary: seen) (auto simp: res_map_def)

text \<open>The server does not distinguish the case of names. \<open>repetitions\<close> tells of each name whether it occurred before in any case.\<close>

definition repetitions :: "byte list list \<Rightarrow> (byte list \<times> bool) list" where
  "repetitions ns = map (\<lambda>i. (ns ! i, \<exists>m \<in> set (take i ns). to_lower m = to_lower (ns ! i))) [0..<length ns]"

definition one_case :: "byte list list \<Rightarrow> bool" where
  "one_case ns \<longleftrightarrow> (\<forall>n \<in> set ns. \<forall>m \<in> set ns. to_lower m = to_lower n \<longrightarrow> m = n)"

lemma occurrences_one_case: "one_case ns \<Longrightarrow> occurrences {} ns = repetitions ns"
  by (auto simp: occurrences_def repetitions_def one_case_def) (metis in_set_takeD nth_mem)

text \<open>
  C10. Named parameters are bound in the order of the text, for the texts of \<open>parameter_names_of_statement\<close> that write each name in one case
  and have all their parameters given. In a query and in DML every occurrence of a parameter is bound, those after the first marked as
  repetitions; in other statements a parameter is bound once, where it first occurs. A name that is written in two cases is bound as two
  parameters, see \<open>two_cases_bound_twice\<close>.\<close>

theorem named_parameters_bound:
  assumes "lexed ts" and "names_cut ts" and "stmt_text q = concat (map render ts)" and "\<forall>n \<in> set (params ts). find_par n (Pars q) \<noteq> None"
    and "one_case (params ts)"
  shows "useNamedParameters q = Some (Ok (), q\<lparr>Pars := arranged (stmtType q \<in> {SELECT, DML}) (Pars q) (repetitions (params ts))\<rparr>)"
  using assms(3,4) statement_names [OF assms(1,2)] occurrences_one_case [OF assms(5)] by (simp add: useNamedParameters_def arrange_pars_Ok)

definition named :: "string \<Rightarrow> parameter" where
  "named n = \<lparr>p_info = zero_info\<lparr>cName := ascii n\<rparr>, p_dir = Input, p_prim = NilCell, p_target = OtherValue, p_encoder = None, p_bulk = None, p_custom = False\<rparr>"

definition sample_stmt :: "sql_token list \<Rightarrow> unit query" where
  "sample_stmt ts = (NewStmt (concat (map render ts)) (sample_connection (reading [])))\<lparr>Pars := [named ''A'', named ''b'']\<rparr>"

definition sample_select :: "sql_token list" where
  "sample_select = map Visible (ascii ''SELECT '') @ [Param (ascii ''b''), Visible 44, Param (ascii ''a''), Visible 44, Param (ascii ''b'')]"

lemma sample_stmt_simps: "stmt_text (sample_stmt ts) = concat (map render ts)" "Pars (sample_stmt ts) = [named ''A'', named ''b'']"
  by (simp_all add: sample_stmt_def NewStmt_def Let_def connection.defs)

lemma find_named: "find_par (ascii ''a'') [named ''A'', named ''b''] = Some (named ''A'')" "find_par (ascii ''b'') [named ''A'', named ''b''] = Some (named ''b'')"
  by (simp_all add: find_par_def named_def to_lower_def to_lower_byte_def ascii_def)

theorem named_parameters_bound_witness:
  "useNamedParameters (sample_stmt sample_select)
   = Some (Ok (), (sample_stmt sample_select)\<lparr>Pars := [named ''b'', named ''A'', mark_repeated (named ''b'')]\<rparr>)"
proof -
  have ok: "lexed sample_select" "names_cut sample_select" by (simp_all add: sample_select_def ascii_def cut_def word_char_def)
  have ps: "params sample_select = [ascii ''b'', ascii ''a'', ascii ''b'']" by (simp add: sample_select_def params_def ascii_def)
  have "stmtType (sample_stmt sample_select) = SELECT"
    by (simp add: sample_stmt_def NewStmt_def Let_def connection.defs) code_simp
  moreover have one: "one_case (params sample_select)" by (simp add: ps one_case_def to_lower_def to_lower_byte_def ascii_def)
  moreover have "arranged True [named ''A'', named ''b''] (repetitions (params sample_select)) = [named ''b'', named ''A'', mark_repeated (named ''b'')]"
    unfolding occurrences_one_case [OF one, symmetric]
    by (simp add: ps occurrences_Cons arranged_def bound_def find_named) (simp add: occurrences_def ascii_def)
  ultimately show ?thesis
    using named_parameters_bound [OF ok sample_stmt_simps(1)] by (simp add: sample_stmt_simps ps find_named)
qed

text \<open>Tokens before a parameter.\<close>

lemma lexed_appendD: "lexed (ts @ us) \<Longrightarrow> lexed ts \<and> lexed us"
proof (induction ts)
  case (Cons t ts)
  then show ?case by (cases t; cases ts) auto
qed simp

lemma lexed_joined:
  "lexed (ts @ [Param w, Operator b] @ map Visible v @ us) \<Longrightarrow> list_all word_char v \<Longrightarrow> lexed (ts @ Param (w @ v) # us)"
proof (induction ts)
  case Nil
  then show ?case using lexed_appendD [of "map Visible v" us] by simp
next
  case (Cons t ts)
  then show ?case by (cases t; cases ts) (auto simp: operator_start_def)
qed

text \<open>
  C40. An operator \<open>/\<close>, \<open>*\<close> or \<open>-\<close> directly between a parameter and a letter, a digit or an underscore is lost, and the two are joined: of
  \<open>:a/2\<close>, \<open>:a*2\<close> or \<open>:a-b\<close>, anywhere in a statement, the driver looks for parameters \<open>a2\<close> and \<open>ab\<close>. The statement fails although all its
  parameters are given.\<close>

theorem operator_joins_parameter_name:
  assumes "lexed (ts @ [Param w, Operator b] @ map Visible v @ us)" and "v \<noteq> []" and "list_all word_char v"
    and "names_cut (ts @ Param (w @ v) # us)"
    and "stmt_text q = concat (map render (ts @ [Param w, Operator b] @ map Visible v @ us))"
    and "\<forall>n \<in> set (params ts). find_par n (Pars q) \<noteq> None" and "find_par (w @ v) (Pars q) = None"
  shows "useNamedParameters q = Some (Err (UndefinedParameter (w @ v)), q)"
proof -
  have "concat (map kept (ts @ [Param w, Operator b] @ map Visible v @ us)) = concat (map kept (ts @ Param (w @ v) # us))"
    by (simp add: comp_def)
  then have "parseQueryParametersNames (stmt_text q) = params (ts @ Param (w @ v) # us)"
    unfolding assms(5) parseQueryParametersNames_def refineSqlText_def name_matches_Trim refine_tokens [OF assms(1)]
    using name_matches_tokens [OF lexed_joined [OF assms(1,3)] assms(4)] by simp
  then show ?thesis using arrange_pars_undefined [OF assms(6,7)] by (simp add: useNamedParameters_def params_def)
qed

definition sample_quotient :: "sql_token list" where
  "sample_quotient = map Visible (ascii ''SELECT '') @ [Param (ascii ''b''), Operator 47] @ map Visible (ascii ''2'') @ map Visible (ascii '' FROM t'')"

theorem operator_joins_parameter_name_witness:
  "stmt_text (sample_stmt sample_quotient) = ascii ''SELECT :b/2 FROM t''
   \<and> useNamedParameters (sample_stmt sample_quotient) = Some (Err (UndefinedParameter (ascii ''b2'')), sample_stmt sample_quotient)"
proof -
  let ?ts = "map Visible (ascii ''SELECT '')" and ?us = "map Visible (ascii '' FROM t'')"
  have "lexed (?ts @ [Param (ascii ''b''), Operator 47] @ map Visible (ascii ''2'') @ ?us)" by code_simp
  moreover have "names_cut (?ts @ Param (ascii ''b'' @ ascii ''2'') # ?us)" by (simp add: ascii_def cut_def word_char_def)
  moreover have "find_par (ascii ''b'' @ ascii ''2'') [named ''A'', named ''b''] = None" "params ?ts = []"
    by (simp_all add: find_par_def named_def to_lower_def to_lower_byte_def ascii_def params_def)
  moreover have "list_all word_char (ascii ''2'')" by (simp add: word_char_def ascii_def)
  ultimately show ?thesis
    using operator_joins_parameter_name [of ?ts "ascii ''b''" 47 "ascii ''2''" ?us "sample_stmt sample_quotient"]
    by (simp add: sample_stmt_simps sample_quotient_def ascii_def)
qed

section \<open>Examples\<close>

text \<open>Two dashes in a literal start a comment: the parameters after it are lost, also those of the next lines.\<close>

lemma dashes_in_literal:
  "parseQueryParametersNames (ascii ''SELECT '' @ [39] @ ascii ''--'' @ [39] @ ascii '', :a FROM t'' @ [10] @ ascii ''WHERE x = :b'') = []"
  by code_simp

text \<open>The start of a block in a comment of one line hides the lines after it.\<close>

lemma block_in_line_comment: "parseQueryParametersNames (ascii ''SELECT 1 -- /*'' @ [10] @ ascii ''FROM t WHERE x = :b'') = []"
  by code_simp

text \<open>A comment ends the line that it is on without the line break, so that a parameter before it and a word after it are joined.\<close>

lemma line_comment_joins: "parseQueryParametersNames (ascii ''SELECT :a--c'' @ [10] @ ascii ''FROM t'') = [ascii ''aFROM'']"
  by code_simp

text \<open>A backslash is dropped alone.\<close>

lemma backslash_dropped: "parseQueryParametersNames (92 # ascii '':a'') = [ascii ''a'']"
  by code_simp

text \<open>A parameter that a block writes in two cases is bound twice.\<close>

lemma two_cases_bound_twice:
  "useNamedParameters (NewStmt (ascii ''BEGIN p(:a, :A); END;'') c\<lparr>Pars := [named ''a'']\<rparr>)
   = Some (Ok (), NewStmt (ascii ''BEGIN p(:a, :A); END;'') c\<lparr>Pars := [named ''a'', named ''a'']\<rparr>)"
proof -
  have "parseQueryParametersNames (ascii ''BEGIN p(:a, :A); END;'') = [ascii ''a'', ascii ''A'']"
    "statement_kind (command_text (ascii ''BEGIN p(:a, :A); END;'')) = PLSQL" by code_simp+
  then show ?thesis
    by (simp add: useNamedParameters_def NewStmt_def Let_def connection.defs find_par_def named_def to_lower_def to_lower_byte_def ascii_def res_map_def)
qed

text \<open>The kind of statements, and the clause that returns values.\<close>

lemma statement_kinds:
  "stmtType (NewStmt (ascii ''/* c */ (select 1 from dual)'') c) = SELECT"
  "stmtType (NewStmt (ascii ''begin p(:1); end;'') c) = PLSQL"
  "hasReturnClause (NewStmt (ascii ''insert into t values (:1) returning id into :2'') c)"
  "\<not> hasReturnClause (NewStmt (ascii ''insert into t values (:1)'') c)"
  by (simp_all add: NewStmt_def Let_def connection.defs) code_simp+

end
