(* ===== verification/Spec2Isabelle.thy ===== *)
theory Spec2Isabelle
  imports TTC_Props TNS_Packet_Props TNS_Session_Faults Oracle_Number_Props Number_Conv_Props Summary_Props
    Nego_Comm Conn_Config_Props TNS_Connect_Props Number_Text_Props
    Oracle_Date_Props Oracle_Values_Props String_Conv_Props String_Conv_Loops Conn_Nego_Props Conn_Frame Lob_Props Oracle_Vector_Props
    Column_Load_Props Sql_Text_Props
begin

text \<open>
  A model of the Oracle driver \<^verbatim>\<open>go-ora\<close>, version 3 (the module under \<^verbatim>\<open>v3/\<close>), and of what it promises. The
  repository also keeps versions 1 and 2, which have the same structure and are not modelled.

  \<^bold>\<open>The program.\<close> The driver speaks the protocol of an Oracle server. A connection is made from a configuration
  (\<^verbatim>\<open>configurations/\<close>): a list of servers and a connect descriptor. \<^verbatim>\<open>network/session.go\<close> dials the servers,
  exchanges connect, accept, refuse and redirect packets, cuts what the calls write into data packets and puts the
  bytes of data packets together again, whatever pieces the connection delivers. The two sessions, over the network and
  over a byte slice in memory, embed \<^verbatim>\<open>basicSession\<close>, which marshals integers, byte strings and key-value pairs
  and reads them back through the one operation the two sessions implement themselves, \<^verbatim>\<open>read\<close>. On top of it
  \<^verbatim>\<open>summary_object.go\<close> parses the summary of a call, and \<^verbatim>\<open>advanced_nego/comm.go\<close> the sub-packets of the security
  negotiation. \<^verbatim>\<open>connection.go\<close> negotiates protocol, charsets and data types over the session, interprets the messages that
  every call may bring, and retires broken connections; \<^verbatim>\<open>lob.go\<close> streams large objects over it. A statement (\<^verbatim>\<open>command.go\<close>)
  sends an execute or fetch request, reads descriptions of columns (\<^verbatim>\<open>parameter.go\<close>) and rows, and a result set
  (\<^verbatim>\<open>result_set.go\<close>) hands the rows out. The value types
  (\<^verbatim>\<open>types/\<close>, \<^verbatim>\<open>converters/\<close>) turn Go values into column bytes and back.

  \<^bold>\<open>The theories.\<close>
  \<^item> \<open>Go_Prelude\<close>: words, the outcomes of a call (\<open>res\<close>: a value, an error value, a panic), state-passing combinators
    whose \<open>None\<close> is a call that does not return, the codecs of \<^verbatim>\<open>encoding/binary\<close>, \<^verbatim>\<open>bytes.Buffer\<close>. \<open>Go_Strconv\<close>,
    \<open>Go_Regexp\<close> and \<open>Go_Time\<close> model what is used of \<^verbatim>\<open>strconv\<close>, \<^verbatim>\<open>regexp\<close> (leftmost-first matching with submatches) and
    \<^verbatim>\<open>time\<close> (the proleptic Gregorian calendar in both directions, locations, \<^verbatim>\<open>time.Date\<close>).
  \<^item> \<open>Basic_Session\<close>: \<^verbatim>\<open>network/basic_session.go\<close> and \<^verbatim>\<open>memory_session.go\<close>; the record \<open>basic_session\<close> is the struct,
    one definition for each \<open>Get\<close> and \<open>Put\<close>. \<open>TTC_Wire\<close> has the calculus \<open>emits\<close> / \<open>parses\<close> of writers and readers and
    the locale \<open>terminal_reader\<close>, the contract of \<^verbatim>\<open>read\<close>, interpreted for the memory session as \<open>mem\<close> and in
    \<open>TNS_Session_Props\<close> for the network session as \<open>net\<close>. \<open>TTC_Props\<close>: round trips of CLR values, key-value pairs and
    integers; what is lost of integers that do not fit; termination of the reader on every input; sequence numbers.
  \<^item> \<open>TNS_Packets\<close>: the packets and the session context (\<^verbatim>\<open>packets.go\<close>, \<^verbatim>\<open>*_packet.go\<close>, \<^verbatim>\<open>session_ctx.go\<close>).
    \<open>TNS_Packet_Props\<close>: data packets are parsed back, the layout of the connect packet, what an accept packet gives.
  \<^item> \<open>TNS_Session\<close>: \<^verbatim>\<open>session.go\<close>. \<open>TNS_Session_Props\<close>: \<open>WriteRPC\<close> cuts a buffer into packets that together carry
    it, and a value written by one session is read by another. \<open>TNS_Session_Faults\<close>: interrupted reads,
    the loop that does not end, resent segments.
  \<^item> \<open>Conn_Config\<close>: \<^verbatim>\<open>database_info.go\<close>, \<^verbatim>\<open>UpdateSSL\<close>, \<^verbatim>\<open>ConnectionData\<close> and the error code of a refusal. The
    locale \<open>cursor\<close> is the contract of the server list, interpreted as \<open>servers\<close>. \<open>Conn_Config_Props\<close>: a printed
    descriptor is parsed back. \<open>TNS_Connect\<close>: \<^verbatim>\<open>Session.Connect\<close>. \<open>TNS_Connect_Props\<close>: it refines the abstract choice
    \<open>pick\<close> among the outcomes of the servers, and reaches a server that accepts.
  \<^item> \<open>Summary\<close>, \<open>Summary_Props\<close>: \<^verbatim>\<open>summary_object.go\<close>, \<^verbatim>\<open>oracle_error.go\<close>; every field of a summary is recovered for
    every combination of capabilities, over the network (locale \<open>net_reader\<close>, an extension of \<open>terminal_reader\<close>).
  \<^item> \<open>Nego_Comm\<close>: \<^verbatim>\<open>advanced_nego/comm.go\<close>; the locale \<open>sub_packet\<close> is the contract of a pair of \<open>write\<close> and \<open>read\<close>,
    interpreted for each of the eight pairs.
  \<^item> \<open>Oracle_Number\<close>, \<open>Oracle_Number_Props\<close>: \<^verbatim>\<open>types/number.go\<close>; decoding inverts encoding, as numbers and as text.
    \<open>Number_Conv\<close>, \<open>Number_Conv_Props\<close>, \<open>Number_Text_Props\<close>: the two other implementations in \<^verbatim>\<open>converters/\<close>: their
    readers, the validator and the printer on the integers they encode.
  \<^item> \<open>Value_Cell\<close>: the contract of the value types. \<open>Oracle_Date\<close>, \<open>Oracle_Date_Props\<close>: \<^verbatim>\<open>types/date.go\<close>, \<^verbatim>\<open>interval.go\<close>;
    \<open>Oracle_Values\<close>, \<open>Oracle_Values_Props\<close>: \<^verbatim>\<open>rowid.go\<close>, \<^verbatim>\<open>bool.go\<close>, \<^verbatim>\<open>raw.go\<close>, \<^verbatim>\<open>locator.go\<close>. The locale \<open>value_cell\<close> is
    interpreted for dates, timestamps, booleans and raw bytes. \<open>Oracle_Vector\<close>, \<open>Oracle_Vector_Props\<close>: \<^verbatim>\<open>types/vector.go\<close>; the
    locale \<open>vector_elements\<close>, what reading an element returns and what it leaves behind, is interpreted for doubles and floats,
    as written and as a first reading leaves them; vectors are read back, once.
  \<^item> \<open>Go_Unicode\<close>: \<^verbatim>\<open>unicode/utf8\<close> and \<^verbatim>\<open>utf16\<close>. \<open>String_Conv\<close>: \<^verbatim>\<open>converters/string_conversion.go\<close>, all eight families of
    charsets; \<open>Charset_Tables\<close>: generated tables of single-byte charsets and their checks. \<open>String_Conv_Props\<close>: the locale \<open>charset\<close> is
    the contract of an encoder and a decoder of a repertoire, interpreted for UTF-16 and for the single-byte charsets.
    \<open>String_Conv_Loops\<close>: which inputs \<open>Decode\<close> returns on (its loops are partial functions that move an index), the double-byte
    charsets.
  \<^item> \<open>Connection\<close>: the connection, \<^verbatim>\<open>tcp_protocol_nego.go\<close> and \<^verbatim>\<open>data_type_nego.go\<close>. \<open>Conn_Calls\<close>: the messages of the server,
    \<open>ProcessTCCResponse\<close>, broken connections, commit and rollback, converters by charset, temporary LOBs, closing.
    \<open>Conn_Nego_Props\<close>: the protocol message is parsed, with the calculus \<open>cparses\<close> of readers on a connection. \<open>Conn_Props\<close>: the
    table of types is skipped exactly, temporary LOBs are freed. \<open>Conn_Frame\<close>: the locale \<open>connection_frame\<close> says what no
    step of a call undoes; interpreted for the mark of a broken connection and for the null flag of a LOB stream.
  \<^item> \<open>Lob_Stream\<close>, \<open>Lob_Props\<close>: \<^verbatim>\<open>lob.go\<close>; what \<open>Read\<close> and \<open>Exists\<close> return when the server answers, the data buffer whose
    storage the returned slices share being a store of arrays.
  \<^item> \<open>Column_Info\<close>: \<^verbatim>\<open>ParameterInfo\<close> of \<^verbatim>\<open>parameter.go\<close>, its description on the wire, the coders of \<^verbatim>\<open>parameter_coder/\<close> as far as they
    read and decode, cursors as values (\<^verbatim>\<open>ref_cursor.go\<close>, \<open>load\<close>). \<open>Statement\<close>: the state of a statement with its result set (\<open>query\<close>)
    and the loop that reads an answer, one definition for each kind of message. \<open>Stmt_Calls\<close>: the requests, values that need
    more than their bytes, fetching, \<open>Next\<close>, queries. \<open>Stmt_Props\<close>: the bytes of a batch, with bit vectors and rows, and what reading
    them leaves. \<open>Stmt_Next_Props\<close>: a fetch brings the batch it is answered with; the locale \<open>row_source\<close>, what \<open>Next\<close> relies on, is
    interpreted on \<open>fetch\<close>, so that \<open>Next\<close> takes the first row off the list of all rows; compressed and full batches give the same
    rows; \<open>Next\<close> after a fetch that failed; intervals.
  \<^item> \<open>Column_Meta\<close>: what a result set says of its columns, the table of types and \<open>metadataForColumn\<close>
    (\<^verbatim>\<open>result_set.go\<close>). \<open>Column_Meta_Props\<close>: every column that was loaded has its original type captured, so that the
    request that defines LOB columns as other types changes none of the metadata; the values of a column, LOBs included, have exactly the Go
    type that the metadata announces. \<open>Column_Load_Props\<close>: the description of a column and of a cursor as a server sends it, in every version of
    the protocol, is read field by field.
  \<^item> \<open>Sql_Text\<close>: the text of a statement without comments and literals, the names of its parameters (\<^verbatim>\<open>utils.go\<close>), the kind of
    the statement and its returning clause, and named parameters (\<^verbatim>\<open>NewStmt\<close> and \<^verbatim>\<open>useNamedParameters\<close> of
    \<^verbatim>\<open>command.go\<close>). \<open>Sql_Text_Props\<close>: on a text made of tokens that the scanner does not confuse (no backslash, no comment
    sign in a literal, every name followed by a character that ends it) the names are those of its parameters, named parameters are
    bound in the order of the text, and an operator right behind a parameter is lost with the boundary of its name.

  \<^bold>\<open>How the model corresponds to the code.\<close> A method is a function of its receiver's record, with the name of the method
  (prefixed by its type where two types have it). Bytes and fixed-width integers are words; \<open>int\<close> and \<open>int64\<close> are
  integers with \<open>to_i64\<close> where the code can leave 64 bits; a slice that may be nil is an option. An index out of range or a
  bad slice expression is the outcome \<open>Panic\<close>. Slices that share storage are cells of a store where a property depends on
  it (the segments of \<open>WriteRPC\<close>), and bytes behind the length of a slice that a slice expression can reach are an
  argument (\<open>spare\<close>). Loops that may not end are partial functions with value \<open>None\<close>; the theorems that such a call returns
  state \<open>Some\<close>. There is no fuel: what the network does is a finite script of events, whose end is \<^verbatim>\<open>io.EOF\<close> or a failed
  dial, and repetition in a regular expression is bounded by the length of the text it is matched with.

  \<^bold>\<open>Parameters.\<close> The negotiated encryption and checksum layer (\<open>nego_ops\<close>), the conversions of \<^verbatim>\<open>strconv\<close> between decimal
  text and floating point (\<open>float_ops\<close>), the table of time zone regions, the time zone database and the current time
  (\<open>tz_env\<close>), the result of sending out-of-band data, the generated tables of the charsets that are not in
  \<open>Charset_Tables\<close> (\<open>env_tables\<close>), and what surrounds a connection: how requests are put on the wire, the offset of the
  local zone, which errors of the operating system mean a broken connection (\<open>conn_env\<close>). Of a statement, the query of a
  cursor that is a value of a row, and what follows an answer with implicit results.

  \<^bold>\<open>Not modelled.\<close> Concurrency: the mutex of the session and the watchdog of \<^verbatim>\<open>StartContext\<close> (one goroutine uses a
  session). TLS itself, certificates and wallets, tracing. Letter case and white space beyond ASCII. Exhausted memory.
  Authentication, the services of the security negotiation, bulk copy, user-defined types, queues, JSON, the LOB behind a
  vector, the parsing of connection URLs, and of statements the binding of Go values, struct parameters, scanning
  into Go values, contexts: these are orchestration over \<^verbatim>\<open>database/sql\<close> and reflection, or built on
  cryptographic packages.
\<close>

end
